(* ===== verification/Loc_Prelude.thy ===== *)
theory Loc_Prelude
  imports Complex_Main "HOL-Library.Word" "HOL-Library.Monad_Syntax"
begin

text \<open>
  Shared vocabulary of the development.

  Pointers that the code compares with \<open>NULL\<close> and follows are natural numbers with
  \<open>NULL = 0\<close>. An operation that may follow an invalid pointer returns an \<open>option\<close>:
  \<open>None\<close> is an invalid memory access (undefined behaviour of the C code) or a loop that never
  ends, so a theorem that an operation returns \<open>Some\<close> says that it is memory safe and stops.
  C strings are \<^typ>\<open>string\<close>s without their terminator; \<open>cstr\<close> reads one out of a buffer.
\<close>

unbundle bit_operations_syntax

type_synonym ptr = nat
type_synonym u8 = "8 word"
type_synonym u16 = "16 word"
type_synonym u32 = "32 word"
type_synonym i32 = "32 word"

abbreviation NULL :: ptr where "NULL \<equiv> 0"

named_theorems mem_simps \<open>evaluation of the memory primitives\<close>
named_theorems agps_simps \<open>evaluation of the AGPS state machine\<close>
named_theorems eng_simps \<open>evaluation of the location engine's handlers\<close>

section \<open>C strings in buffers\<close>

definition cstr :: "char list \<Rightarrow> string" where
  "cstr b = takeWhile (\<lambda>c. c \<noteq> CHR 0x00) b"

definition strlcpy :: "nat \<Rightarrow> char list \<Rightarrow> string" where
  "strlcpy n src = take (n - 1) (cstr src)"

text \<open>\<open>strncmp (a, b, n) == 0\<close>: equal up to the first terminator or the first \<open>n\<close> bytes.\<close>

fun strncmp_eq :: "nat \<Rightarrow> u8 list \<Rightarrow> u8 list \<Rightarrow> bool" where
  "strncmp_eq 0 a b = True"
| "strncmp_eq (Suc n) (x # a) (y # b) = (x = y \<and> (x = 0 \<or> strncmp_eq n a b))"
| "strncmp_eq (Suc n) _ _ = False"

lemma cstr_no_nul [simp]: "CHR 0x00 \<notin> set s \<Longrightarrow> cstr s = s"
  by (auto simp: cstr_def takeWhile_eq_all_conv)

lemma cstr_cstr [simp]: "cstr (cstr s) = cstr s"
  by (simp add: cstr_def)

lemma nul_notin_cstr [simp]: "CHR 0x00 \<notin> set (cstr s)"
  by (auto simp: cstr_def dest: set_takeWhileD)

lemma nul_notin_strlcpy [simp]: "CHR 0x00 \<notin> set (strlcpy n s)"
  by (metis in_set_takeD nul_notin_cstr strlcpy_def)

lemma length_strlcpy: "0 < n \<Longrightarrow> length (strlcpy n s) < n"
  by (auto simp: strlcpy_def)

lemma strlcpy_idem [simp]: "strlcpy n (strlcpy n s) = strlcpy n s"
  by (simp add: strlcpy_def [of n "strlcpy n s"]) (simp add: strlcpy_def)

lemma strlcpy_fits: "length (cstr s) < n \<Longrightarrow> strlcpy n s = cstr s"
  by (simp add: strlcpy_def)

lemma strncmp_eq_refl: "n \<le> length a \<Longrightarrow> strncmp_eq n a a"
proof (induction n arbitrary: a)
  case (Suc n)
  then show ?case by (cases a) auto
qed simp

lemma strncmp_eq_sym: "strncmp_eq n a b = strncmp_eq n b a"
  by (induction n a b rule: strncmp_eq.induct) auto

lemma strncmp_eq_trans: "strncmp_eq n a b \<Longrightarrow> strncmp_eq n b c \<Longrightarrow> strncmp_eq n a c"
proof (induction n a b arbitrary: c rule: strncmp_eq.induct)
  case (2 n x a y b)
  then show ?case by (cases c) auto
qed auto

section \<open>Options and lists\<close>

lemma bind_eq_Some: "(x \<bind> f = Some y) = (\<exists>z. x = Some z \<and> f z = Some y)"
  by (cases x) auto

lemma filter_Cons_split:
  "x # xs = filter p ys \<Longrightarrow>
     \<exists>us vs. ys = us @ x # vs \<and> (\<forall>u \<in> set us. \<not> p u) \<and> p x \<and> xs = filter p vs"
  by (drule sym) (auto simp: filter_eq_Cons_iff)

end
