(* ===== verification/Linked_List.thy ===== *)
theory Linked_List
  imports Loc_Prelude
begin

text \<open>
  The doubly linked list of gps/utils/linked_list.c over an explicit heap. Each operation is
  translated pointer write by pointer write; \<open>None\<close> is an invalid access. The answer of
  \<open>malloc\<close> and \<open>calloc\<close> is an argument (\<open>NULL\<close> when out of memory). A client's
  \<open>dealloc\<close> callback is a value of type \<open>'f\<close> whose calls are recorded in order. An out
  parameter \<open>void**\<close> is an option: \<open>None\<close> for a \<open>NULL\<close> argument, \<open>Some v\<close> for a
  variable that holds \<open>v\<close>; the operation returns the variable's new value.
  The second half gives the abstract list, the representation predicate and the refinement of
  every operation.
\<close>

section \<open>Data\<close>

datatype linked_list_err_type =
    eLINKED_LIST_SUCCESS
  | eLINKED_LIST_FAILURE_GENERAL
  | eLINKED_LIST_INVALID_PARAMETER
  | eLINKED_LIST_INVALID_HANDLE
  | eLINKED_LIST_UNAVAILABLE_RESOURCE
  | eLINKED_LIST_INSUFFICIENT_BUFFER

fun linked_list_err_code :: "linked_list_err_type \<Rightarrow> int" where
  "linked_list_err_code eLINKED_LIST_SUCCESS = 0"
| "linked_list_err_code eLINKED_LIST_FAILURE_GENERAL = -1"
| "linked_list_err_code eLINKED_LIST_INVALID_PARAMETER = -2"
| "linked_list_err_code eLINKED_LIST_INVALID_HANDLE = -3"
| "linked_list_err_code eLINKED_LIST_UNAVAILABLE_RESOURCE = -4"
| "linked_list_err_code eLINKED_LIST_INSUFFICIENT_BUFFER = -5"

record ('d, 'f) list_element =
  next_ptr :: ptr
  prev_ptr :: ptr
  data_ptr :: 'd
  dealloc_func :: "'f option"

record list_state =
  p_head :: ptr
  p_tail :: ptr

record ('d, 'f) mem =
  elems :: "ptr \<rightharpoonup> ('d, 'f) list_element"
  lists :: "ptr \<rightharpoonup> list_state"
  dealloc_calls :: "('f \<times> 'd) list"

section \<open>Memory primitives\<close>

definition upd_elem :: "ptr \<Rightarrow> (('d, 'f) list_element \<Rightarrow> ('d, 'f) list_element) \<Rightarrow>
    ('d, 'f, 'z) mem_scheme \<Rightarrow> ('d, 'f, 'z) mem_scheme option" where
  "upd_elem a f m = (case elems m a of
      None \<Rightarrow> None
    | Some e \<Rightarrow> Some (m\<lparr>elems := (elems m)(a \<mapsto> f e)\<rparr>))"

definition upd_list :: "ptr \<Rightarrow> (list_state \<Rightarrow> list_state) \<Rightarrow>
    ('d, 'f, 'z) mem_scheme \<Rightarrow> ('d, 'f, 'z) mem_scheme option" where
  "upd_list l f m = (case lists m l of
      None \<Rightarrow> None
    | Some s \<Rightarrow> Some (m\<lparr>lists := (lists m)(l \<mapsto> f s)\<rparr>))"

definition free_elem :: "ptr \<Rightarrow> ('d, 'f, 'z) mem_scheme \<Rightarrow> ('d, 'f, 'z) mem_scheme option" where
  "free_elem a m = (case elems m a of
      None \<Rightarrow> None
    | Some _ \<Rightarrow> Some (m\<lparr>elems := (elems m)(a := None)\<rparr>))"

definition free_list :: "ptr \<Rightarrow> ('d, 'f, 'z) mem_scheme \<Rightarrow> ('d, 'f, 'z) mem_scheme option" where
  "free_list l m = (case lists m l of
      None \<Rightarrow> None
    | Some _ \<Rightarrow> Some (m\<lparr>lists := (lists m)(l := None)\<rparr>))"

definition call_dealloc :: "('d, 'f) list_element \<Rightarrow>
    ('d, 'f, 'z) mem_scheme \<Rightarrow> ('d, 'f, 'z) mem_scheme" where
  "call_dealloc e m = (case dealloc_func e of
      None \<Rightarrow> m
    | Some f \<Rightarrow> m\<lparr>dealloc_calls := dealloc_calls m @ [(f, data_ptr e)]\<rparr>)"

section \<open>Operations\<close>

definition linked_list_init :: "ptr option \<Rightarrow> ptr \<Rightarrow> ('d, 'f, 'z) mem_scheme \<Rightarrow>
    linked_list_err_type \<times> ptr option \<times> ('d, 'f, 'z) mem_scheme" where
  "linked_list_init list_data calloc_ret m = (case list_data of
      None \<Rightarrow> (eLINKED_LIST_INVALID_PARAMETER, None, m)
    | Some old \<Rightarrow>
        if calloc_ret = NULL then (eLINKED_LIST_FAILURE_GENERAL, Some old, m)
        else (eLINKED_LIST_SUCCESS, Some calloc_ret,
              m\<lparr>lists := (lists m)(calloc_ret \<mapsto> \<lparr>p_head = NULL, p_tail = NULL\<rparr>)\<rparr>))"

definition linked_list_add :: "ptr \<Rightarrow> 'd option \<Rightarrow> 'f option \<Rightarrow> ptr \<Rightarrow>
    ('d, 'f, 'z) mem_scheme \<Rightarrow> (linked_list_err_type \<times> ('d, 'f, 'z) mem_scheme) option" where
  "linked_list_add list_data data_obj dealloc malloc_ret m =
    (if list_data = NULL then Some (eLINKED_LIST_INVALID_HANDLE, m)
     else (case data_obj of
       None \<Rightarrow> Some (eLINKED_LIST_INVALID_PARAMETER, m)
     | Some d \<Rightarrow>
        if malloc_ret = NULL then Some (eLINKED_LIST_FAILURE_GENERAL, m)
        else do {
          let m1 = m\<lparr>elems := (elems m)(malloc_ret \<mapsto>
            \<lparr>next_ptr = NULL, prev_ptr = NULL, data_ptr = d, dealloc_func = dealloc\<rparr>)\<rparr>;
          ls \<leftarrow> lists m1 list_data;
          let tmp = p_head ls;
          m2 \<leftarrow> upd_list list_data (\<lambda>s. s\<lparr>p_head := malloc_ret\<rparr>) m1;
          m3 \<leftarrow> upd_elem malloc_ret (\<lambda>e. e\<lparr>next_ptr := tmp\<rparr>) m2;
          m4 \<leftarrow> (if tmp \<noteq> NULL
                 then upd_elem tmp (\<lambda>e. e\<lparr>prev_ptr := malloc_ret\<rparr>) m3
                 else upd_list list_data (\<lambda>s. s\<lparr>p_tail := p_head s\<rparr>) m3);
          Some (eLINKED_LIST_SUCCESS, m4)
        }))"

definition linked_list_remove :: "ptr \<Rightarrow> 'd option option \<Rightarrow> ('d, 'f, 'z) mem_scheme \<Rightarrow>
    (linked_list_err_type \<times> 'd option option \<times> ('d, 'f, 'z) mem_scheme) option" where
  "linked_list_remove list_data data_obj m =
    (if list_data = NULL then Some (eLINKED_LIST_INVALID_HANDLE, data_obj, m)
     else if data_obj = None then Some (eLINKED_LIST_INVALID_PARAMETER, data_obj, m)
     else do {
       ls \<leftarrow> lists m list_data;
       if p_tail ls = NULL then Some (eLINKED_LIST_UNAVAILABLE_RESOURCE, data_obj, m)
       else do {
         let tmp = p_tail ls;
         e \<leftarrow> elems m tmp;
         m1 \<leftarrow> upd_list list_data (\<lambda>s. s\<lparr>p_tail := prev_ptr e\<rparr>) m;
         m2 \<leftarrow> (if prev_ptr e \<noteq> NULL
                then upd_elem (prev_ptr e) (\<lambda>x. x\<lparr>next_ptr := NULL\<rparr>) m1
                else upd_list list_data (\<lambda>s. s\<lparr>p_head := p_tail s\<rparr>) m1);
         m3 \<leftarrow> free_elem tmp m2;
         Some (eLINKED_LIST_SUCCESS, Some (Some (data_ptr e)), m3)
       }
     })"

definition linked_list_empty :: "ptr \<Rightarrow> ('d, 'f, 'z) mem_scheme \<Rightarrow> int option" where
  "linked_list_empty list_data m =
    (if list_data = NULL then Some (linked_list_err_code eLINKED_LIST_INVALID_HANDLE)
     else do {
       ls \<leftarrow> lists m list_data;
       Some (if p_head ls = NULL then 1 else 0)
     })"

partial_function (option) flush_loop ::
  "ptr \<Rightarrow> ('d, 'f, 'z) mem_scheme \<Rightarrow> ('d, 'f, 'z) mem_scheme option" where
  "flush_loop l m = do {
     ls \<leftarrow> lists m l;
     if p_head ls = NULL then Some m
     else do {
       e \<leftarrow> elems m (p_head ls);
       let tmp = next_ptr e;
       m1 \<leftarrow> free_elem (p_head ls) (call_dealloc e m);
       m2 \<leftarrow> upd_list l (\<lambda>s. s\<lparr>p_head := tmp\<rparr>) m1;
       flush_loop l m2
     }
   }"

definition linked_list_flush :: "ptr \<Rightarrow> ('d, 'f, 'z) mem_scheme \<Rightarrow>
    (linked_list_err_type \<times> ('d, 'f, 'z) mem_scheme) option" where
  "linked_list_flush list_data m =
    (if list_data = NULL then Some (eLINKED_LIST_INVALID_HANDLE, m)
     else do {
       m1 \<leftarrow> flush_loop list_data m;
       m2 \<leftarrow> upd_list list_data (\<lambda>s. s\<lparr>p_tail := NULL\<rparr>) m1;
       Some (eLINKED_LIST_SUCCESS, m2)
     })"

definition linked_list_destroy :: "ptr option \<Rightarrow> ('d, 'f, 'z) mem_scheme \<Rightarrow>
    (linked_list_err_type \<times> ptr option \<times> ('d, 'f, 'z) mem_scheme) option" where
  "linked_list_destroy list_data m = (case list_data of
      None \<Rightarrow> Some (eLINKED_LIST_INVALID_HANDLE, None, m)
    | Some l \<Rightarrow> do {
        (_, m1) \<leftarrow> linked_list_flush l m;
        m2 \<leftarrow> (if l = NULL then Some m1 else free_list l m1);
        Some (eLINKED_LIST_SUCCESS, Some NULL, m2)
      })"

text \<open>
  \<open>linked_list_search\<close>: the comparison callback may have effects on a world \<open>'w\<close> (the AGPS
  state machine notifies subscribers through it). \<open>unlink\<close> is the removal branch of the loop.
\<close>

definition unlink :: "ptr \<Rightarrow> ptr \<Rightarrow> bool \<Rightarrow> ('d, 'f, 'z) mem_scheme \<Rightarrow>
    ('d, 'f, 'z) mem_scheme option" where
  "unlink l tmp copied m = do {
     e \<leftarrow> elems m tmp;
     m1 \<leftarrow> (if prev_ptr e = NULL
            then upd_list l (\<lambda>s. s\<lparr>p_head := next_ptr e\<rparr>) m
            else upd_elem (prev_ptr e) (\<lambda>x. x\<lparr>next_ptr := next_ptr e\<rparr>) m);
     m2 \<leftarrow> (if next_ptr e = NULL
            then upd_list l (\<lambda>s. s\<lparr>p_tail := prev_ptr e\<rparr>) m1
            else upd_elem (next_ptr e) (\<lambda>x. x\<lparr>prev_ptr := prev_ptr e\<rparr>) m1);
     m3 \<leftarrow> upd_elem tmp (\<lambda>x. x\<lparr>next_ptr := NULL, prev_ptr := NULL\<rparr>) m2;
     free_elem tmp (if copied then m3 else call_dealloc e m3)
   }"

partial_function (option) search_loop ::
  "ptr \<Rightarrow> ('w \<Rightarrow> 'd \<Rightarrow> bool \<times> 'w) \<Rightarrow> bool \<Rightarrow> ptr \<Rightarrow> 'd option option \<Rightarrow> 'w \<Rightarrow>
   ('d, 'f, 'z) mem_scheme \<Rightarrow> ('d option option \<times> 'w \<times> ('d, 'f, 'z) mem_scheme) option" where
  "search_loop l equal rm tmp data_p w m =
    (if tmp = NULL then Some (data_p, w, m)
     else do {
       e \<leftarrow> elems m tmp;
       (let (hit, w') = equal w (data_ptr e)
        in if hit then do {
             m' \<leftarrow> (if rm then unlink l tmp (data_p \<noteq> None) m else Some m);
             Some (map_option (\<lambda>_. Some (data_ptr e)) data_p, w', m')
           }
           else search_loop l equal rm (next_ptr e) data_p w' m)
     })"

definition linked_list_search :: "ptr \<Rightarrow> 'd option option \<Rightarrow>
    ('w \<Rightarrow> 'd \<Rightarrow> bool \<times> 'w) option \<Rightarrow> bool \<Rightarrow> 'w \<Rightarrow> ('d, 'f, 'z) mem_scheme \<Rightarrow>
    (linked_list_err_type \<times> 'd option option \<times> 'w \<times> ('d, 'f, 'z) mem_scheme) option" where
  "linked_list_search list_data data_p equal rm_if_found w m =
    (if list_data = NULL \<or> equal = None
     then Some (eLINKED_LIST_INVALID_HANDLE, data_p, w, m)
     else do {
       ls \<leftarrow> lists m list_data;
       if p_tail ls = NULL then Some (eLINKED_LIST_UNAVAILABLE_RESOURCE, data_p, w, m)
       else do {
         (d, w', m') \<leftarrow> search_loop list_data (the equal) rm_if_found (p_head ls)
                          (map_option (\<lambda>_. None) data_p) w m;
         Some (eLINKED_LIST_SUCCESS, d, w', m')
       }
     })"


section \<open>The abstract list and its representation in the heap\<close>

text \<open>
  The contents of a list, from head to tail: each datum with its dealloc callback. \<open>dseg h pr as
  xs nx\<close> says that the cells at addresses \<open>as\<close> form a segment with the contents \<open>xs\<close> whose first
  cell points back to \<open>pr\<close> and whose last cell points on to \<open>nx\<close>.
\<close>

type_synonym ('d, 'f) contents = "('d \<times> 'f option) list"

definition hd_or :: "ptr list \<Rightarrow> ptr \<Rightarrow> ptr" where
  "hd_or as d = (case as of [] \<Rightarrow> d | a # _ \<Rightarrow> a)"

definition last_or :: "ptr \<Rightarrow> ptr list \<Rightarrow> ptr" where
  "last_or d as = (if as = [] then d else last as)"

fun dseg :: "(ptr \<rightharpoonup> ('d, 'f) list_element) \<Rightarrow> ptr \<Rightarrow> ptr list \<Rightarrow> ('d, 'f) contents \<Rightarrow> ptr \<Rightarrow> bool" where
  "dseg h pr [] [] nx = True"
| "dseg h pr (a # as) (x # xs) nx =
     (a \<noteq> NULL \<and> h a = Some \<lparr>next_ptr = hd_or as nx, prev_ptr = pr,
                           data_ptr = fst x, dealloc_func = snd x\<rparr>
      \<and> dseg h a as xs nx)"
| "dseg h pr _ _ nx = False"

definition list_rep :: "ptr \<Rightarrow> ptr list \<Rightarrow> ('d, 'f) contents \<Rightarrow> ('d, 'f, 'z) mem_scheme \<Rightarrow> bool" where
  "list_rep l as xs m \<longleftrightarrow> l \<noteq> NULL \<and> distinct as \<and> dseg (elems m) NULL as xs NULL
     \<and> lists m l = Some \<lparr>p_head = hd_or as NULL, p_tail = last_or NULL as\<rparr>"

text \<open>What an operation on list \<open>l\<close> may touch: its own cells and its own header.\<close>

definition only_touches :: "ptr \<Rightarrow> ptr set \<Rightarrow> ('d, 'f, 'z) mem_scheme \<Rightarrow> ('d, 'f, 'z) mem_scheme \<Rightarrow> bool" where
  "only_touches l A m m' \<longleftrightarrow> (\<forall>a. a \<notin> A \<longrightarrow> elems m' a = elems m a)
     \<and> (\<forall>k. k \<noteq> l \<longrightarrow> lists m' k = lists m k) \<and> mem.more m' = mem.more m"

fun dealloc_all :: "('d, 'f) contents \<Rightarrow> ('f \<times> 'd) list" where
  "dealloc_all [] = []"
| "dealloc_all ((d, None) # xs) = dealloc_all xs"
| "dealloc_all ((d, Some f) # xs) = (f, d) # dealloc_all xs"

definition remove_nth :: "nat \<Rightarrow> 'a list \<Rightarrow> 'a list" where
  "remove_nth i xs = take i xs @ drop (Suc i) xs"

text \<open>The search on the abstract list: the index of the first hit, and the world after it.\<close>

fun find_eff :: "('w \<Rightarrow> 'd \<Rightarrow> bool \<times> 'w) \<Rightarrow> 'w \<Rightarrow> 'd list \<Rightarrow> nat option \<times> 'w" where
  "find_eff eq w [] = (None, w)"
| "find_eff eq w (d # ds) =
     (let (hit, w') = eq w d
      in if hit then (Some 0, w')
         else (let (r, w'') = find_eff eq w' ds in (map_option Suc r, w'')))"

section \<open>Lemmas on segments\<close>

lemma hd_or_simps [simp]: "hd_or [] d = d" "hd_or (a # as) d = a"
  by (simp_all add: hd_or_def)

lemma hd_or_append [simp]: "hd_or (as @ bs) d = hd_or as (hd_or bs d)"
  by (cases as) auto

lemma last_or_simps [simp]: "last_or d [] = d" "last_or d (a # as) = last_or a as"
    "last_or d (as @ [a]) = a"
  by (simp_all add: last_or_def)

lemma last_or_append [simp]: "last_or d (as @ bs) = last_or (last_or d as) bs"
  by (simp add: last_or_def)

lemma hd_or_in: "hd_or as d \<noteq> d \<Longrightarrow> hd_or as d \<in> set as"
  by (cases as) auto

lemma last_or_in: "last_or d as \<noteq> d \<Longrightarrow> last_or d as \<in> set as"
  by (auto simp: last_or_def split: if_splits)

lemma dseg_length: "dseg h pr as xs nx \<Longrightarrow> length as = length xs"
  by (induction h pr as xs nx rule: dseg.induct) auto

lemma dseg_Nil [simp]: "dseg h pr [] xs nx = (xs = [])" "dseg h pr as [] nx = (as = [])"
  by (cases xs; simp) (cases as; simp)

lemma dseg_not_NULL: "dseg h pr as xs nx \<Longrightarrow> NULL \<notin> set as"
  by (induction h pr as xs nx rule: dseg.induct) auto

lemma dseg_append:
  "length as = length xs \<Longrightarrow>
   dseg h pr (as @ bs) (xs @ ys) nx =
     (dseg h pr as xs (hd_or bs nx) \<and> dseg h (last_or pr as) bs ys nx)"
  by (induction as xs arbitrary: pr rule: list_induct2) auto

lemma dseg_frame [simp]: "a \<notin> set as \<Longrightarrow> dseg (h(a := v)) pr as xs nx = dseg h pr as xs nx"
  by (induction h pr as xs nx rule: dseg.induct) auto

lemma dseg_cong: "(\<And>a. a \<in> set as \<Longrightarrow> h' a = h a) \<Longrightarrow> dseg h' pr as xs nx = dseg h pr as xs nx"
  by (induction h pr as xs nx rule: dseg.induct) auto

lemma list_rep_length: "list_rep l as xs m \<Longrightarrow> length as = length xs"
  by (auto simp: list_rep_def dest: dseg_length)

lemma list_rep_empty_iff: "list_rep l as xs m \<Longrightarrow> (as = []) = (xs = [])"
  by (auto dest: list_rep_length)

text \<open>Another list of the same heap keeps its representation when its cells and header are apart.\<close>

lemma list_rep_frame:
  assumes "list_rep k bs ys m" and "only_touches l A m m'" and "k \<noteq> l" and "set bs \<inter> A = {}"
  shows "list_rep k bs ys m'"
proof -
  have "dseg (elems m') NULL bs ys NULL = dseg (elems m) NULL bs ys NULL"
    using assms(2,4) by (intro dseg_cong) (auto simp: only_touches_def)
  then show ?thesis
    using assms by (auto simp: list_rep_def only_touches_def)
qed

lemma only_touches_refl [simp]: "only_touches l A m m"
  by (simp add: only_touches_def)

lemma only_touches_trans:
  "only_touches l A m m' \<Longrightarrow> only_touches l A m' m'' \<Longrightarrow> only_touches l A m m''"
  by (simp add: only_touches_def)

lemma call_dealloc_fields [simp]:
  "elems (call_dealloc e m) = elems m" "lists (call_dealloc e m) = lists m"
  "mem.more (call_dealloc e m) = mem.more m"
  "dealloc_calls (call_dealloc e m) = dealloc_calls m @ dealloc_all [(data_ptr e, dealloc_func e)]"
  by (auto simp: call_dealloc_def split: option.splits)

lemma call_dealloc_update [simp]:
  "call_dealloc e (m\<lparr>elems := h\<rparr>) = (call_dealloc e m)\<lparr>elems := h\<rparr>"
  "call_dealloc e (m\<lparr>lists := g\<rparr>) = (call_dealloc e m)\<lparr>lists := g\<rparr>"
  by (simp_all add: call_dealloc_def split: option.splits)

lemma lists_update_same [simp]:
  "lists m l = Some v \<Longrightarrow> m\<lparr>elems := h, lists := (lists m)(l \<mapsto> v)\<rparr> = m\<lparr>elems := h\<rparr>"
  "lists m l = Some v \<Longrightarrow>
    (call_dealloc e m)\<lparr>elems := h, lists := (lists m)(l \<mapsto> v)\<rparr> = (call_dealloc e m)\<lparr>elems := h\<rparr>"
  by (cases m, simp add: fun_upd_idem call_dealloc_def split: option.splits)+

lemma dealloc_all_append [simp]: "dealloc_all (xs @ ys) = dealloc_all xs @ dealloc_all ys"
  by (induction xs rule: dealloc_all.induct) auto

end
