(* ===== verification/Linked_List_Correct.thy ===== *)
theory Linked_List_Correct
  imports Linked_List
begin

text \<open>
  Every operation of the linked list, run on a heap that represents a list, succeeds without an
  invalid access, stops, and leaves a heap that represents the result of the abstract operation:
  \<open>add\<close> puts an element at the head, \<open>remove\<close> takes the last one, \<open>flush\<close> empties the list and
  releases every element once from head to tail, \<open>search\<close> finds the first hit from the head.
\<close>

lemmas mem_ops = upd_elem_def upd_list_def free_elem_def free_list_def

section \<open>Creation and insertion\<close>

lemma init_rep:
  assumes "c \<noteq> NULL"
  shows "\<exists>m'. linked_list_init (Some old) c m = (eLINKED_LIST_SUCCESS, Some c, m')
     \<and> list_rep c [] [] m' \<and> only_touches c {} m m' \<and> dealloc_calls m' = dealloc_calls m"
  using assms by (simp add: linked_list_init_def list_rep_def only_touches_def)

lemma add_rep:
  assumes rep: "list_rep l as xs m" and new: "c \<noteq> NULL" "c \<notin> set as"
  shows "\<exists>m'. linked_list_add l (Some d) f c m = Some (eLINKED_LIST_SUCCESS, m')
     \<and> list_rep l (c # as) ((d, f) # xs) m'
     \<and> only_touches l (insert c (set as)) m m' \<and> dealloc_calls m' = dealloc_calls m"
proof (cases as)
  case Nil
  then show ?thesis
    using rep new by (auto simp: linked_list_add_def list_rep_def mem_ops only_touches_def)
next
  case (Cons a as')
  with rep obtain x xs' where xs: "xs = x # xs'"
    by (cases xs) (auto simp: list_rep_def)
  show ?thesis
    using rep new unfolding Cons xs
    by (auto simp: linked_list_add_def list_rep_def mem_ops only_touches_def)
qed

section \<open>Removal at the tail\<close>

lemma remove_empty_rep:
  assumes "list_rep l as [] m"
  shows "linked_list_remove l (Some v) m = Some (eLINKED_LIST_UNAVAILABLE_RESOURCE, Some v, m)"
  using assms by (auto simp: linked_list_remove_def list_rep_def)

text \<open>The last cell of a segment, and what happens when the cell before it becomes the last.\<close>

lemma dseg_snoc:
  "length as = length xs \<Longrightarrow>
   dseg h pr (as @ [a]) (xs @ [x]) nx =
     (dseg h pr as xs a \<and> a \<noteq> NULL \<and>
      h a = Some \<lparr>next_ptr = nx, prev_ptr = last_or pr as, data_ptr = fst x, dealloc_func = snd x\<rparr>)"
  by (simp add: dseg_append)

lemma dseg_relink_last:
  assumes "dseg h pr as xs nx" and "distinct as" and "as \<noteq> []"
  shows "\<exists>e. h (last as) = Some e \<and>
     dseg (h(last as \<mapsto> e\<lparr>next_ptr := nx'\<rparr>)) pr as xs nx'"
proof -
  from assms(3) obtain bs b where as: "as = bs @ [b]" by (cases as rule: rev_cases) auto
  from assms(1) have len: "length as = length xs" by (rule dseg_length)
  with as obtain ys y where xs: "xs = ys @ [y]" by (cases xs rule: rev_cases) auto
  show ?thesis
    using assms(1,2) len unfolding as xs by (auto simp: dseg_snoc)
qed

lemma dseg_relink_first:
  assumes "dseg h pr as xs nx" and "distinct as" and "as \<noteq> []"
  shows "\<exists>e. h (hd as) = Some e \<and> dseg (h(hd as \<mapsto> e\<lparr>prev_ptr := pr'\<rparr>)) pr' as xs nx"
  using assms by (cases as; cases xs) auto

lemma remove_rep:
  assumes rep: "list_rep l as (xs @ [(d, f)]) m"
  shows "\<exists>m'. linked_list_remove l (Some v) m = Some (eLINKED_LIST_SUCCESS, Some (Some d), m')
     \<and> list_rep l (butlast as) xs m' \<and> only_touches l (set as) m m'
     \<and> dealloc_calls m' = dealloc_calls m"
proof -
  from list_rep_length [OF rep] obtain bs a where as: "as = bs @ [a]" and len: "length bs = length xs"
    by (cases as rule: rev_cases) auto
  from rep have l: "l \<noteq> NULL" and dist: "distinct (bs @ [a])"
    and seg: "dseg (elems m) NULL bs xs a" and a: "a \<noteq> NULL"
    and cell: "elems m a = Some \<lparr>next_ptr = NULL, prev_ptr = last_or NULL bs, data_ptr = d, dealloc_func = f\<rparr>"
    and hdr: "lists m l = Some \<lparr>p_head = hd_or bs a, p_tail = a\<rparr>"
    by (auto simp: list_rep_def as dseg_snoc len)
  show ?thesis
  proof (cases "bs = []")
    case True
    then show ?thesis using l a cell hdr len
      by (auto simp: linked_list_remove_def mem_ops list_rep_def only_touches_def as)
  next
    case False
    obtain e where e: "elems m (last bs) = Some e"
      and seg': "dseg ((elems m)(last bs \<mapsto> e\<lparr>next_ptr := NULL\<rparr>)) NULL bs xs NULL"
      using dseg_relink_last [OF seg] dist False by auto
    have "last bs \<in> set bs" using False by simp
    then have "last_or NULL bs = last bs" "last bs \<noteq> a" "last bs \<in> set bs" "last bs \<noteq> NULL"
      using False dist dseg_not_NULL [OF seg] by (simp add: last_or_def, fastforce, simp, metis)
    moreover have "hd_or bs a = hd_or bs NULL" using False by (cases bs) auto
    ultimately show ?thesis
      using l a cell hdr dist e seg'
      by (auto simp: linked_list_remove_def mem_ops list_rep_def only_touches_def as)
  qed
qed

lemma empty_rep:
  assumes "list_rep l as xs m"
  shows "linked_list_empty l m = Some (if xs = [] then 1 else 0)"
proof (cases as)
  case Nil
  with assms show ?thesis by (auto simp: linked_list_empty_def list_rep_def)
next
  case (Cons a as')
  with assms show ?thesis
    by (cases xs) (auto simp: linked_list_empty_def list_rep_def)
qed

section \<open>Flushing\<close>

lemma flush_loop_seg:
  assumes "dseg (elems m) pr as xs NULL" and "distinct as"
    and "lists m l = Some \<lparr>p_head = hd_or as NULL, p_tail = t\<rparr>"
  shows "\<exists>m'. flush_loop l m = Some m'
     \<and> lists m' l = Some \<lparr>p_head = NULL, p_tail = t\<rparr>
     \<and> (\<forall>a \<in> set as. elems m' a = None) \<and> only_touches l (set as) m m'
     \<and> dealloc_calls m' = dealloc_calls m @ dealloc_all xs"
  using assms
proof (induction as arbitrary: pr xs m)
  case Nil
  then show ?case by (auto simp: flush_loop.simps)
next
  case (Cons a as)
  then obtain d f xs' where xs: "xs = (d, f) # xs'" by (cases xs) auto
  define e where "e = \<lparr>next_ptr = hd_or as NULL, prev_ptr = pr, data_ptr = d, dealloc_func = f\<rparr>"
  define m1 where "m1 = (call_dealloc e m)\<lparr>elems := (elems m)(a := None),
      lists := (lists m)(l \<mapsto> \<lparr>p_head = hd_or as NULL, p_tail = t\<rparr>)\<rparr>"
  have step: "flush_loop l m = flush_loop l m1"
    using Cons.prems by (subst flush_loop.simps) (auto simp: xs e_def m1_def mem_ops)
  have seg1: "dseg (elems m1) a as xs' NULL"
    using Cons.prems by (subst dseg_cong [of _ _ "elems m"]) (auto simp: xs m1_def)
  have "\<exists>m'. flush_loop l m1 = Some m'
     \<and> lists m' l = Some \<lparr>p_head = NULL, p_tail = t\<rparr>
     \<and> (\<forall>a \<in> set as. elems m' a = None) \<and> only_touches l (set as) m1 m'
     \<and> dealloc_calls m' = dealloc_calls m1 @ dealloc_all xs'"
    using Cons.prems by (intro Cons.IH [OF seg1]) (auto simp: m1_def)
  then show ?case
    using Cons.prems
    by (auto simp: step xs m1_def e_def only_touches_def call_dealloc_def split: option.splits)
qed

lemma flush_rep:
  assumes "list_rep l as xs m"
  shows "\<exists>m'. linked_list_flush l m = Some (eLINKED_LIST_SUCCESS, m')
     \<and> list_rep l [] [] m' \<and> (\<forall>a \<in> set as. elems m' a = None) \<and> only_touches l (set as) m m'
     \<and> dealloc_calls m' = dealloc_calls m @ dealloc_all xs"
proof -
  from assms obtain m1 where "flush_loop l m = Some m1"
    "lists m1 l = Some \<lparr>p_head = NULL, p_tail = last_or NULL as\<rparr>"
    "\<forall>a \<in> set as. elems m1 a = None" "only_touches l (set as) m m1"
    "dealloc_calls m1 = dealloc_calls m @ dealloc_all xs"
    using flush_loop_seg [of m NULL as xs l] by (auto simp: list_rep_def)
  with assms show ?thesis
    by (auto simp: linked_list_flush_def list_rep_def mem_ops only_touches_def)
qed

lemma destroy_rep:
  assumes "list_rep l as xs m"
  shows "\<exists>m'. linked_list_destroy (Some l) m = Some (eLINKED_LIST_SUCCESS, Some NULL, m')
     \<and> lists m' l = None \<and> (\<forall>a \<in> set as. elems m' a = None) \<and> only_touches l (set as) m m'
     \<and> dealloc_calls m' = dealloc_calls m @ dealloc_all xs"
proof -
  from flush_rep [OF assms] obtain m1 where "linked_list_flush l m = Some (eLINKED_LIST_SUCCESS, m1)"
    "list_rep l [] [] m1" "\<forall>a \<in> set as. elems m1 a = None" "only_touches l (set as) m m1"
    "dealloc_calls m1 = dealloc_calls m @ dealloc_all xs" by blast
  then show ?thesis
    by (auto simp: linked_list_destroy_def list_rep_def mem_ops only_touches_def)
qed


section \<open>Search\<close>

lemma list_rep_split:
  assumes "list_rep l (us @ a # vs) (xs @ x # ys) m" and "length us = length xs"
  shows "l \<noteq> NULL" "distinct (us @ a # vs)" "a \<noteq> NULL" "NULL \<notin> set us" "NULL \<notin> set vs"
    "dseg (elems m) NULL us xs a" "dseg (elems m) a vs ys NULL"
    "elems m a = Some \<lparr>next_ptr = hd_or vs NULL, prev_ptr = last_or NULL us,
                       data_ptr = fst x, dealloc_func = snd x\<rparr>"
    "lists m l = Some \<lparr>p_head = hd_or us a, p_tail = last_or a vs\<rparr>"
  using assms by (auto simp: list_rep_def dseg_append dest: dseg_not_NULL)

lemma unlink_rep:
  assumes rep: "list_rep l (us @ a # vs) (xs @ x # ys) m" and len: "length us = length xs"
  shows "\<exists>m'. unlink l a copied m = Some m' \<and> list_rep l (us @ vs) (xs @ ys) m'
     \<and> elems m' a = None \<and> only_touches l (set (us @ a # vs)) m m'
     \<and> dealloc_calls m' = dealloc_calls m @ (if copied then [] else dealloc_all [x])"
proof -
  note split = list_rep_split [OF rep len]
  define h1 where "h1 = (if us = [] then elems m else
    (elems m)(last us \<mapsto> (the (elems m (last us)))\<lparr>next_ptr := hd_or vs NULL\<rparr>))"
  define h2 where "h2 = (if vs = [] then h1 else
    h1(hd vs \<mapsto> (the (elems m (hd vs)))\<lparr>prev_ptr := last_or NULL us\<rparr>))"
  define hdr where "hdr = \<lparr>p_head = hd_or (us @ vs) NULL, p_tail = last_or NULL (us @ vs)\<rparr>"
  define e where "e = the (elems m a)"
  define m3 where "m3 = m\<lparr>elems := h2(a := None), lists := (lists m)(l \<mapsto> hdr)\<rparr>"
  have lastu: "us \<noteq> [] \<Longrightarrow> last us \<notin> set (a # vs) \<and> last us \<noteq> NULL \<and> (vs \<noteq> [] \<longrightarrow> hd vs \<noteq> last us)"
    using split(2,4) by (cases us rule: rev_cases; cases vs) auto
  have hdv: "vs \<noteq> [] \<Longrightarrow> hd vs \<notin> set (a # us) \<and> hd vs \<noteq> NULL"
    using split(2,5) by (cases vs) auto
  note dist = lastu hdv
  have us: "us \<noteq> [] \<Longrightarrow> \<exists>c. elems m (last us) = Some c"
    and vs: "vs \<noteq> [] \<Longrightarrow> \<exists>c. elems m (hd vs) = Some c"
    using dseg_relink_last [OF split(6)] dseg_relink_first [OF split(7)] split(2) by auto
  have segu: "dseg h1 NULL us xs (hd_or vs NULL)"
    using dseg_relink_last [OF split(6), of "hd_or vs NULL"] split(2,6) len
    by (cases "us = []") (auto simp: h1_def)
  have "dseg h1 a vs ys NULL"
    using split(7) dist by (auto simp: h1_def)
  then have segv: "dseg h2 (last_or NULL us) vs ys NULL"
    using dseg_relink_first [of h1 a vs ys NULL "last_or NULL us"] split(2) dist
    by (cases "vs = []") (auto simp: h2_def h1_def)
  have segu2: "dseg h2 NULL us xs (hd_or vs NULL)"
    using segu dist by (auto simp: h2_def)
  have rep': "list_rep l (us @ vs) (xs @ ys) m3"
    using split(1,2) segu2 segv len
    by (auto simp: list_rep_def m3_def hdr_def dseg_append)
  have run: "unlink l a copied m = Some (if copied then m3 else call_dealloc e m3)"
  proof (cases "us = []")
    case True
    show ?thesis
    proof (cases "vs = []")
      case True
      with \<open>us = []\<close> split show ?thesis
        by (simp add: unlink_def mem_ops m3_def h1_def h2_def hdr_def e_def)
    next
      case False
      then obtain v vs' c where v: "vs = v # vs'" "elems m v = Some c" using vs by (cases vs) auto
      with \<open>us = []\<close> split show ?thesis
        by (simp add: unlink_def mem_ops m3_def h1_def h2_def hdr_def e_def fun_upd_twist)
    qed
  next
    case False
    then obtain us' u cu where u: "us = us' @ [u]" "elems m u = Some cu"
      using us by (cases us rule: rev_cases) auto
    have hu: "hd_or (us' @ [u]) k = hd_or (us' @ [u]) j" for k j by (cases us') auto
    show ?thesis
    proof (cases "vs = []")
      case True
      with u split hu [of a NULL] show ?thesis
        by (simp add: unlink_def mem_ops m3_def h1_def h2_def hdr_def e_def fun_upd_twist)
    next
      case False
      then obtain v vs' c where v: "vs = v # vs'" "elems m v = Some c" using vs by (cases vs) auto
      with u split hu [of a v] show ?thesis
        by (simp add: unlink_def mem_ops m3_def h1_def h2_def hdr_def e_def fun_upd_twist)
    qed
  qed
  have touch: "only_touches l (set (us @ a # vs)) m m3"
    by (auto simp: only_touches_def m3_def h1_def h2_def)
  show ?thesis
    using rep' touch split(8) unfolding run option.inject
    by (intro exI [of _ "if copied then m3 else call_dealloc e m3"])
       (auto simp: m3_def e_def list_rep_def only_touches_def)
qed


text \<open>
  The loop from the cell that starts the suffix \<open>vs\<close>: it finds what the abstract search finds
  there, and removal takes that cell out of the whole list.
\<close>

lemma search_loop_rep:
  assumes "list_rep l (us @ vs) (xs @ ys) m" and "length us = length xs"
    and "find_eff eq w (map fst ys) = (r, w')"
  shows "\<exists>m' dp'. search_loop l eq rm (hd_or vs NULL) dp w m = Some (dp', w', m') \<and>
     (case r of
        None \<Rightarrow> dp' = dp \<and> m' = m
      | Some i \<Rightarrow> i < length ys \<and> dp' = map_option (\<lambda>_. Some (fst (ys ! i))) dp \<and>
          (if rm then list_rep l (us @ remove_nth i vs) (xs @ remove_nth i ys) m'
              \<and> only_touches l (set (us @ vs)) m m' \<and> elems m' (vs ! i) = None
              \<and> dealloc_calls m' = dealloc_calls m @ (if dp = None then dealloc_all [ys ! i] else [])
           else m' = m))"
  using assms
proof (induction vs arbitrary: us xs ys w r w')
  case Nil
  then have "ys = []" using list_rep_length [OF Nil.prems(1)] by simp
  with Nil.prems(3) show ?case by (simp add: search_loop.simps)
next
  case (Cons v vs)
  then obtain y ys' where ys: "ys = y # ys'" using list_rep_length [OF Cons.prems(1)] by (cases ys) auto
  note sp = list_rep_split [OF Cons.prems(1) [unfolded ys] Cons.prems(2)]
  obtain hit w1 where eq: "eq w (fst y) = (hit, w1)" by fastforce
  show ?case
  proof (cases hit)
    case True
    obtain m' where m': "unlink l v (dp \<noteq> None) m = Some m'" "list_rep l (us @ vs) (xs @ ys') m'"
      "elems m' v = None" "only_touches l (set (us @ v # vs)) m m'"
      "dealloc_calls m' = dealloc_calls m @ (if dp \<noteq> None then [] else dealloc_all [y])"
      using unlink_rep [OF Cons.prems(1) [unfolded ys] Cons.prems(2), of "dp \<noteq> None"] by blast
    show ?thesis
      using sp(3,8) True eq Cons.prems(3) m'
      by (auto simp: ys search_loop.simps [of _ _ _ v] remove_nth_def)
  next
    case False
    obtain r1 where r1: "find_eff eq w1 (map fst ys') = (r1, w')" "r = map_option Suc r1"
      using Cons.prems(3) False eq by (auto simp: ys split: prod.splits)
    have step: "search_loop l eq rm v dp w m = search_loop l eq rm (hd_or vs NULL) dp w1 m"
      using sp(3,8) False eq by (simp add: search_loop.simps [of _ _ _ v])
    from Cons.IH [of "us @ [v]" "xs @ [y]" ys' w1 r1 w'] Cons.prems(1,2) r1
    show ?thesis
      by (cases r1) (auto simp: step ys remove_nth_def)
  qed
qed

lemma search_rep:
  assumes rep: "list_rep l as xs m" and find: "find_eff eq w (map fst xs) = (r, w')"
  shows "\<exists>m' dp'. linked_list_search l dp (Some eq) rm w m =
       Some (if xs = [] then eLINKED_LIST_UNAVAILABLE_RESOURCE else eLINKED_LIST_SUCCESS, dp', w', m') \<and>
     (case r of
        None \<Rightarrow> dp' = (if xs = [] then dp else map_option (\<lambda>_. None) dp) \<and> m' = m
      | Some i \<Rightarrow> i < length xs \<and> dp' = map_option (\<lambda>_. Some (fst (xs ! i))) dp \<and>
          (if rm then list_rep l (remove_nth i as) (remove_nth i xs) m'
              \<and> only_touches l (set as) m m' \<and> elems m' (as ! i) = None
              \<and> dealloc_calls m' = dealloc_calls m @ (if dp = None then dealloc_all [xs ! i] else [])
           else m' = m))"
proof (cases "xs = []")
  case True
  with rep find show ?thesis
    by (auto simp: linked_list_search_def list_rep_def)
next
  case False
  then have ne: "as \<noteq> []" using list_rep_empty_iff [OF rep] by simp
  from rep have hdr: "l \<noteq> NULL" "lists m l = Some \<lparr>p_head = hd_or as NULL, p_tail = last_or NULL as\<rparr>"
    and nn: "NULL \<notin> set as"
    by (auto simp: list_rep_def dest: dseg_not_NULL)
  have tl: "last_or NULL as \<noteq> NULL" using ne nn last_in_set [OF ne] by (cases "last as") (auto simp: last_or_def)
  obtain m' dp' where s: "search_loop l eq rm (hd_or as NULL) (map_option (\<lambda>_. None) dp) w m
      = Some (dp', w', m')"
    and post: "case r of
        None \<Rightarrow> dp' = map_option (\<lambda>_. None) dp \<and> m' = m
      | Some i \<Rightarrow> i < length xs \<and> dp' = map_option (\<lambda>_. Some (fst (xs ! i))) dp \<and>
          (if rm then list_rep l (remove_nth i as) (remove_nth i xs) m'
              \<and> only_touches l (set as) m m' \<and> elems m' (as ! i) = None
              \<and> dealloc_calls m' = dealloc_calls m @ (if dp = None then dealloc_all [xs ! i] else [])
           else m' = m)"
    using search_loop_rep [of l "[]" as "[]" xs m eq w r w' rm "map_option (\<lambda>_. None) dp"] rep find
    by (cases r; cases rm) (auto simp: option.map_comp comp_def)
  show ?thesis
    using hdr tl False s post by (simp add: linked_list_search_def)
qed

end
