(* ===== verification/Msg_Q.thy ===== *)
theory Msg_Q
  imports Linked_List_Correct
begin

text \<open>
  The blocking message queue of gps/utils/msg_q.c: a linked list behind a mutex and a condition
  variable, with an \<open>unblocked\<close> flag that ends all waiting. The heap of the linked list is extended
  with the queue objects. The mutex is a flag that says whether it is held: locking a held mutex or
  unlocking a free one is \<open>None\<close>. The condition variable is the set of threads that wait on it and
  the set of threads that have been woken and must still take the mutex again; which waiter a signal
  wakes is the argument \<open>pick\<close>. \<open>msg_q_rcv\<close> is cut where it sleeps: \<open>msg_q_rcv\<close> runs up to its
  return or to the first \<open>pthread_cond_wait\<close>, \<open>msg_q_rcv_resume\<close> from a wake-up on.
\<close>

section \<open>Data\<close>

datatype msq_q_err_type =
    eMSG_Q_SUCCESS
  | eMSG_Q_FAILURE_GENERAL
  | eMSG_Q_INVALID_PARAMETER
  | eMSG_Q_INVALID_HANDLE
  | eMSG_Q_UNAVAILABLE_RESOURCE
  | eMSG_Q_INSUFFICIENT_BUFFER

record cond_var =
  waiting :: "nat set"
  woken :: "nat set"

record msg_q =
  msg_list :: ptr
  list_cond :: cond_var
  list_mutex :: bool
  unblocked :: int

record ('d, 'f) qmem = "('d, 'f) mem" +
  queues :: "ptr \<rightharpoonup> msg_q"

datatype 'd rcv_outcome = Returned msq_q_err_type "'d option option" | Blocked

fun convert_linked_list_err_type :: "linked_list_err_type \<Rightarrow> msq_q_err_type" where
  "convert_linked_list_err_type eLINKED_LIST_SUCCESS = eMSG_Q_SUCCESS"
| "convert_linked_list_err_type eLINKED_LIST_INVALID_PARAMETER = eMSG_Q_INVALID_PARAMETER"
| "convert_linked_list_err_type eLINKED_LIST_INVALID_HANDLE = eMSG_Q_INVALID_HANDLE"
| "convert_linked_list_err_type eLINKED_LIST_UNAVAILABLE_RESOURCE = eMSG_Q_UNAVAILABLE_RESOURCE"
| "convert_linked_list_err_type eLINKED_LIST_INSUFFICIENT_BUFFER = eMSG_Q_INSUFFICIENT_BUFFER"
| "convert_linked_list_err_type eLINKED_LIST_FAILURE_GENERAL = eMSG_Q_FAILURE_GENERAL"

section \<open>Primitives\<close>

definition upd_queue :: "ptr \<Rightarrow> (msg_q \<Rightarrow> msg_q) \<Rightarrow> ('d, 'f) qmem \<Rightarrow> ('d, 'f) qmem option" where
  "upd_queue q f m = (case queues m q of
      None \<Rightarrow> None
    | Some x \<Rightarrow> Some (m\<lparr>queues := (queues m)(q \<mapsto> f x)\<rparr>))"

definition free_queue :: "ptr \<Rightarrow> ('d, 'f) qmem \<Rightarrow> ('d, 'f) qmem option" where
  "free_queue q m = (case queues m q of
      None \<Rightarrow> None
    | Some _ \<Rightarrow> Some (m\<lparr>queues := (queues m)(q := None)\<rparr>))"

definition mutex_lock :: "ptr \<Rightarrow> ('d, 'f) qmem \<Rightarrow> ('d, 'f) qmem option" where
  "mutex_lock q m = do {
     x \<leftarrow> queues m q;
     if list_mutex x then None else upd_queue q (\<lambda>x. x\<lparr>list_mutex := True\<rparr>) m
   }"

definition mutex_unlock :: "ptr \<Rightarrow> ('d, 'f) qmem \<Rightarrow> ('d, 'f) qmem option" where
  "mutex_unlock q m = do {
     x \<leftarrow> queues m q;
     if list_mutex x then upd_queue q (\<lambda>x. x\<lparr>list_mutex := False\<rparr>) m else None
   }"

definition cond_signal :: "(nat set \<Rightarrow> nat) \<Rightarrow> cond_var \<Rightarrow> cond_var" where
  "cond_signal pick c = (if waiting c = {} then c
     else c\<lparr>waiting := waiting c - {pick (waiting c)}, woken := insert (pick (waiting c)) (woken c)\<rparr>)"

definition cond_broadcast :: "cond_var \<Rightarrow> cond_var" where
  "cond_broadcast c = c\<lparr>waiting := {}, woken := woken c \<union> waiting c\<rparr>"

section \<open>Operations\<close>

definition msg_q_init :: "ptr option \<Rightarrow> ptr \<Rightarrow> ptr \<Rightarrow> int \<Rightarrow> int \<Rightarrow> ('d, 'f) qmem \<Rightarrow>
    (msq_q_err_type \<times> ptr option \<times> ('d, 'f) qmem) option" where
  "msg_q_init msg_q_data calloc_q calloc_l mutex_rc cond_rc m = (case msg_q_data of
      None \<Rightarrow> Some (eMSG_Q_INVALID_PARAMETER, None, m)
    | Some old \<Rightarrow>
        if calloc_q = NULL then Some (eMSG_Q_FAILURE_GENERAL, Some old, m)
        else do {
          let m1 = m\<lparr>queues := (queues m)(calloc_q \<mapsto>
            \<lparr>msg_list = NULL, list_cond = \<lparr>waiting = {}, woken = {}\<rparr>, list_mutex = False, unblocked = 0\<rparr>)\<rparr>;
          (case linked_list_init (Some NULL) calloc_l m1 of (rc, l, m2) \<Rightarrow> do {
            m3 \<leftarrow> upd_queue calloc_q (\<lambda>x. x\<lparr>msg_list := the l\<rparr>) m2;
            if linked_list_err_code rc \<noteq> 0 then do {
              m4 \<leftarrow> free_queue calloc_q m3;
              Some (eMSG_Q_FAILURE_GENERAL, Some old, m4)
            } else if mutex_rc \<noteq> 0 then do {
              (_, _, m4) \<leftarrow> linked_list_destroy l m3;
              m5 \<leftarrow> free_queue calloc_q m4;
              Some (eMSG_Q_FAILURE_GENERAL, Some old, m5)
            } else if cond_rc \<noteq> 0 then do {
              (_, _, m4) \<leftarrow> linked_list_destroy l m3;
              m5 \<leftarrow> free_queue calloc_q m4;
              Some (eMSG_Q_FAILURE_GENERAL, Some old, m5)
            } else do {
              m4 \<leftarrow> upd_queue calloc_q (\<lambda>x. x\<lparr>unblocked := 0\<rparr>) m3;
              Some (eMSG_Q_SUCCESS, Some calloc_q, m4)
            }
          })
        })"

definition msg_q_destroy :: "ptr option \<Rightarrow> ('d, 'f) qmem \<Rightarrow>
    (msq_q_err_type \<times> ptr option \<times> ('d, 'f) qmem) option" where
  "msg_q_destroy msg_q_data m = (case msg_q_data of
      None \<Rightarrow> Some (eMSG_Q_INVALID_HANDLE, None, m)
    | Some q \<Rightarrow> do {
        x \<leftarrow> queues m q;
        (_, l, m1) \<leftarrow> linked_list_destroy (Some (msg_list x)) m;
        m2 \<leftarrow> upd_queue q (\<lambda>x. x\<lparr>msg_list := the l, unblocked := 0\<rparr>) m1;
        m3 \<leftarrow> free_queue q m2;
        Some (eMSG_Q_SUCCESS, Some NULL, m3)
      })"

definition msg_q_snd :: "(nat set \<Rightarrow> nat) \<Rightarrow> ptr \<Rightarrow> 'd option \<Rightarrow> 'f option \<Rightarrow> ptr \<Rightarrow>
    ('d, 'f) qmem \<Rightarrow> (msq_q_err_type \<times> ('d, 'f) qmem) option" where
  "msg_q_snd pick msg_q_data msg_obj dealloc malloc_ret m =
    (if msg_q_data = NULL then Some (eMSG_Q_INVALID_HANDLE, m)
     else if msg_obj = None then Some (eMSG_Q_INVALID_PARAMETER, m)
     else do {
       m1 \<leftarrow> mutex_lock msg_q_data m;
       x \<leftarrow> queues m1 msg_q_data;
       if unblocked x \<noteq> 0 then do {
         m2 \<leftarrow> mutex_unlock msg_q_data m1;
         Some (eMSG_Q_UNAVAILABLE_RESOURCE, m2)
       } else do {
         (rc, m2) \<leftarrow> linked_list_add (msg_list x) msg_obj dealloc malloc_ret m1;
         m3 \<leftarrow> upd_queue msg_q_data (\<lambda>x. x\<lparr>list_cond := cond_signal pick (list_cond x)\<rparr>) m2;
         m4 \<leftarrow> mutex_unlock msg_q_data m3;
         Some (convert_linked_list_err_type rc, m4)
       }
     })"

text \<open>The loop of \<open>msg_q_rcv\<close>, entered with the mutex held; \<open>t\<close> is the calling thread.\<close>

definition rcv_loop :: "nat \<Rightarrow> ptr \<Rightarrow> 'd option option \<Rightarrow> ('d, 'f) qmem \<Rightarrow>
    ('d rcv_outcome \<times> ('d, 'f) qmem) option" where
  "rcv_loop t msg_q_data msg_obj m = do {
     x \<leftarrow> queues m msg_q_data;
     empty \<leftarrow> linked_list_empty (msg_list x) m;
     if empty \<noteq> 0 \<and> unblocked x = 0 then do {
       m1 \<leftarrow> upd_queue msg_q_data (\<lambda>x. x\<lparr>list_cond :=
               (list_cond x)\<lparr>waiting := insert t (waiting (list_cond x))\<rparr>\<rparr>) m;
       m2 \<leftarrow> mutex_unlock msg_q_data m1;
       Some (Blocked, m2)
     } else do {
       (rc, obj, m1) \<leftarrow> linked_list_remove (msg_list x) msg_obj m;
       m2 \<leftarrow> mutex_unlock msg_q_data m1;
       Some (Returned (convert_linked_list_err_type rc) obj, m2)
     }
   }"

definition msg_q_rcv :: "nat \<Rightarrow> ptr \<Rightarrow> 'd option option \<Rightarrow> ('d, 'f) qmem \<Rightarrow>
    ('d rcv_outcome \<times> ('d, 'f) qmem) option" where
  "msg_q_rcv t msg_q_data msg_obj m =
    (if msg_q_data = NULL then Some (Returned eMSG_Q_INVALID_HANDLE msg_obj, m)
     else if msg_obj = None then Some (Returned eMSG_Q_INVALID_PARAMETER msg_obj, m)
     else do {
       m1 \<leftarrow> mutex_lock msg_q_data m;
       x \<leftarrow> queues m1 msg_q_data;
       if unblocked x \<noteq> 0 then do {
         m2 \<leftarrow> mutex_unlock msg_q_data m1;
         Some (Returned eMSG_Q_UNAVAILABLE_RESOURCE msg_obj, m2)
       } else rcv_loop t msg_q_data msg_obj m1
     })"

definition msg_q_rcv_resume :: "nat \<Rightarrow> ptr \<Rightarrow> 'd option option \<Rightarrow> ('d, 'f) qmem \<Rightarrow>
    ('d rcv_outcome \<times> ('d, 'f) qmem) option" where
  "msg_q_rcv_resume t msg_q_data msg_obj m = do {
     m1 \<leftarrow> mutex_lock msg_q_data m;
     m2 \<leftarrow> upd_queue msg_q_data (\<lambda>x. x\<lparr>list_cond :=
             \<lparr>waiting = waiting (list_cond x) - {t}, woken = woken (list_cond x) - {t}\<rparr>\<rparr>) m1;
     rcv_loop t msg_q_data msg_obj m2
   }"

definition msg_q_flush :: "ptr \<Rightarrow> ('d, 'f) qmem \<Rightarrow> (msq_q_err_type \<times> ('d, 'f) qmem) option" where
  "msg_q_flush msg_q_data m =
    (if msg_q_data = NULL then Some (eMSG_Q_INVALID_HANDLE, m)
     else do {
       m1 \<leftarrow> mutex_lock msg_q_data m;
       x \<leftarrow> queues m1 msg_q_data;
       (rc, m2) \<leftarrow> linked_list_flush (msg_list x) m1;
       m3 \<leftarrow> mutex_unlock msg_q_data m2;
       Some (convert_linked_list_err_type rc, m3)
     })"

definition msg_q_unblock :: "ptr \<Rightarrow> ('d, 'f) qmem \<Rightarrow> (msq_q_err_type \<times> ('d, 'f) qmem) option" where
  "msg_q_unblock msg_q_data m =
    (if msg_q_data = NULL then Some (eMSG_Q_INVALID_HANDLE, m)
     else do {
       m1 \<leftarrow> mutex_lock msg_q_data m;
       x \<leftarrow> queues m1 msg_q_data;
       if unblocked x \<noteq> 0 then do {
         m2 \<leftarrow> mutex_unlock msg_q_data m1;
         Some (eMSG_Q_UNAVAILABLE_RESOURCE, m2)
       } else do {
         m2 \<leftarrow> upd_queue msg_q_data (\<lambda>x. x\<lparr>unblocked := 1, list_cond := cond_broadcast (list_cond x)\<rparr>) m1;
         m3 \<leftarrow> mutex_unlock msg_q_data m2;
         Some (eMSG_Q_SUCCESS, m3)
       }
     })"

section \<open>The abstract queue\<close>

text \<open>
  \<open>q_rep q as xs c u m\<close>: the queue object \<open>q\<close> is free to lock, its list holds \<open>xs\<close> (newest first)
  in the cells \<open>as\<close>, its condition variable is \<open>c\<close> and \<open>u\<close> says whether it has been unblocked.
\<close>

definition q_rep :: "ptr \<Rightarrow> ptr list \<Rightarrow> ('d, 'f) contents \<Rightarrow> cond_var \<Rightarrow> bool \<Rightarrow> ('d, 'f) qmem \<Rightarrow> bool" where
  "q_rep q as xs c u m \<longleftrightarrow> q \<noteq> NULL \<and> (\<exists>l. list_rep l as xs m \<and> queues m q =
     Some \<lparr>msg_list = l, list_cond = c, list_mutex = False, unblocked = (if u then 1 else 0)\<rparr>)"

lemmas q_prims = upd_queue_def mutex_lock_def mutex_unlock_def free_queue_def

lemma list_rep_queues [simp]: "list_rep l as xs (m\<lparr>queues := g\<rparr>) = list_rep l as xs m"
  by (simp add: list_rep_def)

lemma only_touches_queues: "only_touches l A m (m' :: ('d, 'f) qmem) \<Longrightarrow> queues m' = queues m"
  by (cases m; cases m') (auto simp: only_touches_def mem.defs)

lemma dealloc_calls_queues [simp]: "dealloc_calls (m\<lparr>queues := g\<rparr>) = dealloc_calls m"
  by simp

lemma snd_rep:
  assumes "q_rep q as xs c False m" and "n \<noteq> NULL" "n \<notin> set as"
  shows "\<exists>m'. msg_q_snd pick q (Some d) f n m = Some (eMSG_Q_SUCCESS, m')
     \<and> q_rep q (n # as) ((d, f) # xs) (cond_signal pick c) False m' \<and> dealloc_calls m' = dealloc_calls m
     \<and> (\<forall>a. a \<notin> insert n (set as) \<longrightarrow> elems m' a = elems m a)"
proof -
  from assms(1) obtain l where q: "q \<noteq> NULL" and rep: "list_rep l as xs m"
    and obj: "queues m q = Some \<lparr>msg_list = l, list_cond = c, list_mutex = False, unblocked = 0\<rparr>"
    by (auto simp: q_rep_def)
  define m1 where "m1 = m\<lparr>queues := (queues m)(q \<mapsto>
      \<lparr>msg_list = l, list_cond = c, list_mutex = True, unblocked = 0\<rparr>)\<rparr>"
  have "list_rep l as xs m1" using rep by (simp add: m1_def)
  from add_rep [OF this assms(2,3), of d f] obtain m2 where
    "linked_list_add l (Some d) f n m1 = Some (eLINKED_LIST_SUCCESS, m2)"
    "list_rep l (n # as) ((d, f) # xs) m2" "only_touches l (insert n (set as)) m1 m2"
    "dealloc_calls m2 = dealloc_calls m1" by blast
  moreover from this have "\<forall>a. a \<notin> insert n (set as) \<longrightarrow> elems m2 a = elems m a"
    by (simp add: only_touches_def m1_def)
  ultimately show ?thesis
    using q obj by (auto simp: msg_q_snd_def q_prims q_rep_def m1_def dest!: only_touches_queues)
qed

end
