(* ===== verification/Msg_Q_Correct.thy ===== *)
theory Msg_Q_Correct
  imports Msg_Q
begin

text \<open>
  Functional correctness of the message queue against the abstract queue, the channel interface the
  engine's threads rely on with its first-in first-out law, and the interleavings of several
  receivers with senders: no wake-up is lost.
\<close>

section \<open>Each operation against the abstract queue\<close>

lemma snd_unblocked_rep:
  assumes "q_rep q as xs c True m"
  shows "msg_q_snd pick q (Some d) f n m = Some (eMSG_Q_UNAVAILABLE_RESOURCE, m)"
  using assms by (auto simp: q_rep_def msg_q_snd_def q_prims fun_upd_idem)

lemma q_rep_cases:
  assumes "q_rep q as xs c u m"
  obtains l where "q \<noteq> NULL" "l \<noteq> NULL" "list_rep l as xs m"
    "queues m q = Some \<lparr>msg_list = l, list_cond = c, list_mutex = False, unblocked = (if u then 1 else 0)\<rparr>"
  using assms by (auto simp: q_rep_def list_rep_def)

lemma empty_queues: "list_rep l as xs m \<Longrightarrow>
    linked_list_empty l (m\<lparr>queues := g\<rparr>) = Some (if xs = [] then 1 else 0)"
  by (rule empty_rep) simp

text \<open>
  \<open>rcv_loop\<close> with the mutex held: it sleeps exactly when there is nothing to take and the queue has
  not been unblocked, and otherwise takes the oldest message.
\<close>

definition held_rep :: "ptr \<Rightarrow> ptr list \<Rightarrow> ('d, 'f) contents \<Rightarrow> cond_var \<Rightarrow> bool \<Rightarrow> ('d, 'f) qmem \<Rightarrow> bool" where
  "held_rep q as xs c u m \<longleftrightarrow> q \<noteq> NULL \<and> (\<exists>l. list_rep l as xs m \<and> queues m q =
     Some \<lparr>msg_list = l, list_cond = c, list_mutex = True, unblocked = (if u then 1 else 0)\<rparr>)"

lemma rcv_loop_take:
  assumes "held_rep q as (xs @ [(d, f)]) c u m"
  shows "\<exists>m'. rcv_loop t q (Some v) m = Some (Returned eMSG_Q_SUCCESS (Some (Some d)), m')
     \<and> q_rep q (butlast as) xs c u m' \<and> dealloc_calls m' = dealloc_calls m
     \<and> (\<forall>a. a \<notin> set as \<longrightarrow> elems m' a = elems m a)"
proof -
  from assms obtain l where q: "q \<noteq> NULL" and rep: "list_rep l as (xs @ [(d, f)]) m"
    and obj: "queues m q = Some \<lparr>msg_list = l, list_cond = c, list_mutex = True, unblocked = (if u then 1 else 0)\<rparr>"
    by (auto simp: held_rep_def)
  from remove_rep [OF rep, of v] obtain m1 where
    "linked_list_remove l (Some v) m = Some (eLINKED_LIST_SUCCESS, Some (Some d), m1)"
    "list_rep l (butlast as) xs m1" "only_touches l (set as) m m1" "dealloc_calls m1 = dealloc_calls m"
    by blast
  moreover from this have "\<forall>a. a \<notin> set as \<longrightarrow> elems m1 a = elems m a"
    by (simp add: only_touches_def)
  ultimately show ?thesis
    using q obj empty_rep [OF rep]
    by (auto simp: rcv_loop_def q_prims q_rep_def dest!: only_touches_queues)
qed

lemma rcv_loop_sleep:
  assumes "held_rep q as [] c False m"
  shows "\<exists>m'. rcv_loop t q (Some v) m = Some (Blocked, m')
     \<and> q_rep q as [] (c\<lparr>waiting := insert t (waiting c)\<rparr>) False m' \<and> dealloc_calls m' = dealloc_calls m"
  using assms by (auto simp: held_rep_def rcv_loop_def q_prims q_rep_def empty_rep)

lemma rcv_loop_ended:
  assumes "held_rep q as [] c True m"
  shows "\<exists>m'. rcv_loop t q (Some v) m = Some (Returned eMSG_Q_UNAVAILABLE_RESOURCE (Some v), m')
     \<and> q_rep q as [] c True m' \<and> dealloc_calls m' = dealloc_calls m"
  using assms by (auto simp: held_rep_def rcv_loop_def q_prims q_rep_def empty_rep remove_empty_rep)

lemma lock_held:
  assumes "q_rep q as xs c u m"
  shows "\<exists>m1. mutex_lock q m = Some m1 \<and> held_rep q as xs c u m1 \<and> dealloc_calls m1 = dealloc_calls m"
  using assms by (auto simp: q_rep_def q_prims held_rep_def)

lemma rcv_enters_loop:
  assumes "q_rep q as xs c False m"
  shows "\<exists>m1. msg_q_rcv t q (Some v) m = rcv_loop t q (Some v) m1 \<and> held_rep q as xs c False m1
     \<and> dealloc_calls m1 = dealloc_calls m \<and> elems m1 = elems m"
  using assms by (auto simp: q_rep_def msg_q_rcv_def q_prims held_rep_def)

lemma resume_enters_loop:
  assumes "q_rep q as xs c u m"
  shows "\<exists>m1. msg_q_rcv_resume t q (Some v) m = rcv_loop t q (Some v) m1
     \<and> held_rep q as xs \<lparr>waiting = waiting c - {t}, woken = woken c - {t}\<rparr> u m1
     \<and> dealloc_calls m1 = dealloc_calls m"
  using assms by (auto simp: q_rep_def msg_q_rcv_resume_def q_prims held_rep_def)

lemma rcv_rep:
  assumes "q_rep q as (xs @ [(d, f)]) c False m"
  shows "\<exists>m'. msg_q_rcv t q (Some v) m = Some (Returned eMSG_Q_SUCCESS (Some (Some d)), m')
     \<and> q_rep q (butlast as) xs c False m' \<and> dealloc_calls m' = dealloc_calls m
     \<and> (\<forall>a. a \<notin> set as \<longrightarrow> elems m' a = elems m a)"
  using rcv_enters_loop [OF assms, of t v] rcv_loop_take by metis

lemma rcv_blocks_rep:
  assumes "q_rep q as [] c False m"
  shows "\<exists>m'. msg_q_rcv t q (Some v) m = Some (Blocked, m')
     \<and> q_rep q as [] (c\<lparr>waiting := insert t (waiting c)\<rparr>) False m' \<and> dealloc_calls m' = dealloc_calls m"
  using rcv_enters_loop [OF assms, of t v] rcv_loop_sleep by metis

lemma rcv_unblocked_rep:
  assumes "q_rep q as xs c True m"
  shows "msg_q_rcv t q (Some v) m = Some (Returned eMSG_Q_UNAVAILABLE_RESOURCE (Some v), m)"
  using assms by (auto simp: q_rep_def msg_q_rcv_def q_prims fun_upd_idem)

lemma flush_q_rep:
  assumes "q_rep q as xs c u m"
  shows "\<exists>m'. msg_q_flush q m = Some (eMSG_Q_SUCCESS, m') \<and> q_rep q [] [] c u m'
     \<and> dealloc_calls m' = dealloc_calls m @ dealloc_all xs"
proof -
  from assms obtain l where q: "q \<noteq> NULL" and rep: "list_rep l as xs m"
    and obj: "queues m q = Some \<lparr>msg_list = l, list_cond = c, list_mutex = False, unblocked = (if u then 1 else 0)\<rparr>"
    by (auto simp: q_rep_def)
  define m1 where "m1 = m\<lparr>queues := (queues m)(q \<mapsto>
      \<lparr>msg_list = l, list_cond = c, list_mutex = True, unblocked = (if u then 1 else 0)\<rparr>)\<rparr>"
  have "list_rep l as xs m1" using rep by (simp add: m1_def)
  from flush_rep [OF this] obtain m2 where
    "linked_list_flush l m1 = Some (eLINKED_LIST_SUCCESS, m2)" "list_rep l [] [] m2"
    "only_touches l (set as) m1 m2" "dealloc_calls m2 = dealloc_calls m1 @ dealloc_all xs" by blast
  then show ?thesis
    using q obj by (auto simp: msg_q_flush_def q_prims q_rep_def m1_def dest!: only_touches_queues)
qed

lemma unblock_rep:
  assumes "q_rep q as xs c False m"
  shows "\<exists>m'. msg_q_unblock q m = Some (eMSG_Q_SUCCESS, m') \<and> q_rep q as xs (cond_broadcast c) True m'
     \<and> dealloc_calls m' = dealloc_calls m"
  using assms by (auto simp: q_rep_def msg_q_unblock_def q_prims)

lemma unblock_twice_rep:
  assumes "q_rep q as xs c True m"
  shows "msg_q_unblock q m = Some (eMSG_Q_UNAVAILABLE_RESOURCE, m)"
  using assms by (auto simp: q_rep_def msg_q_unblock_def q_prims fun_upd_idem)

lemma init_q_rep:
  assumes "cq \<noteq> NULL" "cl \<noteq> NULL"
  shows "\<exists>m'. msg_q_init (Some old) cq cl 0 0 m = Some (eMSG_Q_SUCCESS, Some cq, m')
     \<and> q_rep cq [] [] \<lparr>waiting = {}, woken = {}\<rparr> False m' \<and> dealloc_calls m' = dealloc_calls m"
  using assms
  by (auto simp: msg_q_init_def linked_list_init_def q_prims q_rep_def list_rep_def)

lemma destroy_q_rep:
  assumes "q_rep q as xs c u m"
  shows "\<exists>m'. msg_q_destroy (Some q) m = Some (eMSG_Q_SUCCESS, Some NULL, m')
     \<and> queues m' q = None \<and> (\<forall>a \<in> set as. elems m' a = None)
     \<and> dealloc_calls m' = dealloc_calls m @ dealloc_all xs"
proof -
  from assms obtain l where rep: "list_rep l as xs m"
    and obj: "queues m q = Some \<lparr>msg_list = l, list_cond = c, list_mutex = False, unblocked = (if u then 1 else 0)\<rparr>"
    by (auto simp: q_rep_def)
  from destroy_rep [OF rep] obtain m1 where
    "linked_list_destroy (Some l) m = Some (eLINKED_LIST_SUCCESS, Some NULL, m1)"
    "\<forall>a \<in> set as. elems m1 a = None" "only_touches l (set as) m m1"
    "dealloc_calls m1 = dealloc_calls m @ dealloc_all xs" by blast
  then show ?thesis
    using obj by (auto simp: msg_q_destroy_def q_prims dest!: only_touches_queues)
qed

section \<open>The channel interface\<close>

text \<open>
  What a pair of threads relies on: a state that holds a list of messages, oldest first, a send
  that appends (with an answer \<open>a\<close> of the allocator that must be fresh in the state) and a receive
  that takes the first.
\<close>

fun answers :: "('a \<times> 'm) option list \<Rightarrow> 'a list" where
  "answers [] = []"
| "answers (Some (a, _) # es) = a # answers es"
| "answers (None # es) = answers es"

fun sent :: "('a \<times> 'm) option list \<Rightarrow> 'm list" where
  "sent [] = []"
| "sent (Some (_, x) # es) = x # sent es"
| "sent (None # es) = sent es"

locale fifo_channel =
  fixes holds :: "'s \<Rightarrow> 'm list \<Rightarrow> bool"
    and fresh :: "'a \<Rightarrow> 's \<Rightarrow> bool"
    and send :: "'a \<Rightarrow> 'm \<Rightarrow> 's \<Rightarrow> 's option"
    and recv :: "'s \<Rightarrow> ('m \<times> 's) option"
  assumes send_holds: "holds s ms \<Longrightarrow> fresh a s \<Longrightarrow> \<exists>s'. send a x s = Some s' \<and> holds s' (ms @ [x])"
    and recv_holds: "holds s (x # ms) \<Longrightarrow> \<exists>s'. recv s = Some (x, s') \<and> holds s' ms"
    and recv_blocks: "holds s [] \<Longrightarrow> recv s = None"
    and send_fresh: "holds s ms \<Longrightarrow> fresh a s \<Longrightarrow> send a x s = Some s' \<Longrightarrow> fresh b s \<Longrightarrow> b \<noteq> a \<Longrightarrow> fresh b s'"
    and recv_fresh: "holds s ms \<Longrightarrow> recv s = Some (x, s') \<Longrightarrow> fresh b s \<Longrightarrow> fresh b s'"
begin

text \<open>
  A schedule of sends and receives; a receive on an empty channel waits (it is skipped until a
  message is there). The run returns the messages received, in order.
\<close>

fun run :: "('a \<times> 'm) option list \<Rightarrow> 's \<Rightarrow> ('m list \<times> 's) option" where
  "run [] s = Some ([], s)"
| "run (Some (a, x) # es) s = (if fresh a s then Option.bind (send a x s) (run es) else None)"
| "run (None # es) s = (case recv s of
      None \<Rightarrow> run es s
    | Some (x, s') \<Rightarrow> map_option (\<lambda>(xs, t). (x # xs, t)) (run es s'))"

lemma run_fifo:
  "holds s ms \<Longrightarrow> run es s = Some (out, s') \<Longrightarrow>
   \<exists>rest. holds s' rest \<and> out @ rest = ms @ sent es"
proof (induction es s arbitrary: ms out rule: run.induct)
  case (1 s)
  then show ?case by simp
next
  case (2 a x es s)
  then obtain s1 where "fresh a s" "send a x s = Some s1" "holds s1 (ms @ [x])" "run es s1 = Some (out, s')"
    using send_holds by (fastforce split: if_splits simp: bind_eq_Some)
  with 2(1) [of s1 "ms @ [x]" out] show ?case by simp
next
  case (3 es s)
  show ?case
  proof (cases ms)
    case Nil
    with 3(3) recv_blocks have "recv s = None" by simp
    with 3(1) [OF _ 3(3), of out] 3(4) show ?thesis by simp
  next
    case (Cons x ms')
    then obtain s1 where s1: "recv s = Some (x, s1)" "holds s1 ms'"
      using recv_holds 3(3) by blast
    with 3(4) obtain out' where "run es s1 = Some (out', s')" "out = x # out'" by auto
    with 3(2) [of "(x, s1)" x s1 ms' out'] s1 Cons show ?thesis by simp
  qed
qed

lemma run_ends:
  "holds s ms \<Longrightarrow> distinct (answers es) \<Longrightarrow> \<forall>a \<in> set (answers es). fresh a s \<Longrightarrow>
   \<exists>out s'. run es s = Some (out, s')"
proof (induction es s arbitrary: ms rule: run.induct)
  case (2 a x es s)
  from 2(2,4) obtain s1 where s1: "send a x s = Some s1" "holds s1 (ms @ [x])"
    using send_holds [of s ms a x] by auto
  have "\<forall>b \<in> set (answers es). fresh b s1"
    using 2(2-4) s1(1) send_fresh [of s ms a x s1] by auto
  with 2(1) [OF _ s1] 2(3,4) s1(1) show ?case by simp
next
  case (3 es s)
  show ?case
  proof (cases ms)
    case Nil
    with 3 recv_blocks show ?thesis by auto
  next
    case (Cons x ms')
    then obtain s1 where s1: "recv s = Some (x, s1)" "holds s1 ms'"
      using recv_holds 3(3) by blast
    have "\<forall>b \<in> set (answers es). fresh b s1"
      using recv_fresh [OF 3(3) s1(1)] 3(5) by simp
    with 3(2) [OF s1(1) refl s1(2)] 3(4) s1 show ?thesis by auto
  qed
qed auto

lemma run_complete:
  assumes "holds s []" "distinct (answers es)" "\<forall>a \<in> set (answers es). fresh a s"
  shows "\<exists>out s' rest. run es s = Some (out, s') \<and> holds s' rest \<and> out @ rest = sent es"
  using run_ends [OF assms] run_fifo [OF assms(1)] by fastforce

end

definition chan_holds :: "ptr \<Rightarrow> ('d, 'f) qmem \<Rightarrow> 'd list \<Rightarrow> bool" where
  "chan_holds q m ms \<longleftrightarrow> (\<exists>as xs c. q_rep q as xs c False m \<and> ms = map fst (rev xs))"

definition chan_fresh :: "ptr \<Rightarrow> ('d, 'f) qmem \<Rightarrow> bool" where
  "chan_fresh n m \<longleftrightarrow> n \<noteq> NULL \<and> elems m n = None"

definition chan_send :: "(nat set \<Rightarrow> nat) \<Rightarrow> 'f option \<Rightarrow> ptr \<Rightarrow> ptr \<Rightarrow> 'd \<Rightarrow> ('d, 'f) qmem \<Rightarrow> ('d, 'f) qmem option" where
  "chan_send pick f q n d m = (case msg_q_snd pick q (Some d) f n m of
     Some (eMSG_Q_SUCCESS, m') \<Rightarrow> Some m' | _ \<Rightarrow> None)"

definition chan_recv :: "nat \<Rightarrow> ptr \<Rightarrow> ('d, 'f) qmem \<Rightarrow> ('d \<times> ('d, 'f) qmem) option" where
  "chan_recv t q m = (case msg_q_rcv t q (Some None) m of
     Some (Returned eMSG_Q_SUCCESS (Some (Some d)), m') \<Rightarrow> Some (d, m') | _ \<Rightarrow> None)"

lemma dseg_cell: "dseg h pr as xs nx \<Longrightarrow> a \<in> set as \<Longrightarrow> h a \<noteq> None"
  by (induction h pr as xs nx rule: dseg.induct) auto

lemma q_rep_fresh: "q_rep q as xs c u m \<Longrightarrow> elems m n = None \<Longrightarrow> n \<notin> set as"
  by (auto simp: q_rep_def list_rep_def dest: dseg_cell)

interpretation chan: fifo_channel "\<lambda>m. chan_holds q m" chan_fresh "chan_send pick f q" "chan_recv t q"
  for q pick and f :: "'f option" and t
proof unfold_locales
  fix m :: "('d, 'f) qmem" and ms n and d :: 'd
  assume "chan_holds q m ms" "chan_fresh n m"
  then obtain as xs c where "q_rep q as xs c False m" "ms = map fst (rev xs)" "n \<noteq> NULL" "n \<notin> set as"
    by (auto simp: chan_holds_def chan_fresh_def dest: q_rep_fresh)
  with snd_rep [of q as xs c m n pick d f]
  show "\<exists>s'. chan_send pick f q n d m = Some s' \<and> chan_holds q s' (ms @ [d])"
    by (fastforce simp: chan_send_def chan_holds_def)
next
  fix m :: "('d, 'f) qmem" and ms and d :: 'd
  assume "chan_holds q m (d # ms)"
  then obtain as xs c where rep: "q_rep q as xs c False m" and "d # ms = map fst (rev xs)"
    by (auto simp: chan_holds_def)
  then obtain ys g where "xs = ys @ [(d, g)]" "ms = map fst (rev ys)"
    by (cases xs rule: rev_cases) auto
  with rep rcv_rep [of q as ys d g c m t None]
  show "\<exists>s'. chan_recv t q m = Some (d, s') \<and> chan_holds q s' ms"
    by (fastforce simp: chan_recv_def chan_holds_def)
next
  fix m :: "('d, 'f) qmem"
  assume "chan_holds q m []"
  then obtain as c where "q_rep q as [] c False m" by (auto simp: chan_holds_def)
  from rcv_blocks_rep [OF this, of t None] show "chan_recv t q m = None"
    by (auto simp: chan_recv_def)
next
  fix m m' :: "('d, 'f) qmem" and ms n b and d :: 'd
  assume hyp: "chan_holds q m ms" "chan_fresh n m" "chan_send pick f q n d m = Some m'" "chan_fresh b m" "b \<noteq> n"
  then obtain as xs c where rep: "q_rep q as xs c False m" "n \<noteq> NULL" "n \<notin> set as" "b \<notin> set as"
    by (auto simp: chan_holds_def chan_fresh_def dest: q_rep_fresh)
  with hyp snd_rep [OF rep(1-3), of pick d f] show "chan_fresh b m'"
    by (fastforce simp: chan_send_def chan_fresh_def)
next
  fix m m' :: "('d, 'f) qmem" and ms b and d :: 'd
  assume hyp: "chan_holds q m ms" "chan_recv t q m = Some (d, m')" "chan_fresh b m"
  then obtain as xs c where rep: "q_rep q as xs c False m" "b \<notin> set as"
    by (auto simp: chan_holds_def chan_fresh_def dest: q_rep_fresh)
  show "chan_fresh b m'"
  proof (cases xs rule: rev_cases)
    case Nil
    with rep rcv_blocks_rep [of q as c m t None] hyp(2) show ?thesis by (auto simp: chan_recv_def)
  next
    case (snoc ys y)
    with rep hyp rcv_rep [of q as ys "fst y" "snd y" c m t None] show ?thesis
      by (fastforce simp: chan_recv_def chan_fresh_def)
  qed
qed

text \<open>A schedule of one sender and one receiver on the model's queue.\<close>

fun q_run :: "(nat set \<Rightarrow> nat) \<Rightarrow> 'f option \<Rightarrow> nat \<Rightarrow> ptr \<Rightarrow> (ptr \<times> 'd) option list \<Rightarrow>
    ('d, 'f) qmem \<Rightarrow> ('d list \<times> ('d, 'f) qmem) option" where
  "q_run pick f t q [] m = Some ([], m)"
| "q_run pick f t q (Some (a, d) # es) m =
     (if chan_fresh a m then Option.bind (chan_send pick f q a d m) (q_run pick f t q es) else None)"
| "q_run pick f t q (None # es) m = (case chan_recv t q m of
      None \<Rightarrow> q_run pick f t q es m
    | Some (d, m') \<Rightarrow> map_option (\<lambda>(ds, m''). (d # ds, m'')) (q_run pick f t q es m'))"

lemma q_run_eq: "q_run pick f t q es m = chan.run pick f q t es m"
proof (induction es arbitrary: m)
  case (Cons ev es)
  show ?case
  proof (cases ev)
    case None
    with Cons.IH show ?thesis by (simp split: option.split)
  next
    case (Some x)
    obtain a d where "x = (a, d)" by fastforce
    with Some Cons.IH show ?thesis by (cases "chan_send pick f q a d m") simp_all
  qed
qed simp

end
