(* ===== verification/Msg_Q_Threads.thy ===== *)
theory Msg_Q_Threads
  imports Msg_Q_Correct
begin

text \<open>
  Several threads on one queue. A step is one thread running a queue operation between two points
  where it holds no mutex: a send, a receive up to its return or its sleep, a wake-up (after a
  signal, or a spurious one, which \<open>pthread_cond_wait\<close> allows) up to the return or the next sleep, a
  flush, an unblock. Every interleaving of these steps is covered.
\<close>

inductive q_step :: "ptr \<Rightarrow> ('d, 'f) qmem \<Rightarrow> ('d, 'f) qmem \<Rightarrow> bool" for q where
  send: "chan_fresh n m \<Longrightarrow> (\<And>S. S \<noteq> {} \<Longrightarrow> pick S \<in> S) \<Longrightarrow>
     msg_q_snd pick q (Some d) f n m = Some (rc, m') \<Longrightarrow> q_step q m m'"
| recv: "queues m q = Some x \<Longrightarrow> t \<notin> waiting (list_cond x) \<union> woken (list_cond x) \<Longrightarrow>
     msg_q_rcv t q (Some v) m = Some (r, m') \<Longrightarrow> q_step q m m'"
| wake: "queues m q = Some x \<Longrightarrow> t \<in> waiting (list_cond x) \<union> woken (list_cond x) \<Longrightarrow>
     msg_q_rcv_resume t q (Some v) m = Some (r, m') \<Longrightarrow> q_step q m m'"
| flush: "msg_q_flush q m = Some (rc, m') \<Longrightarrow> q_step q m m'"
| unblock: "msg_q_unblock q m = Some (rc, m') \<Longrightarrow> q_step q m m'"

inductive q_reachable :: "ptr \<Rightarrow> ('d, 'f) qmem \<Rightarrow> bool" for q where
  start: "q \<noteq> NULL \<Longrightarrow> cl \<noteq> NULL \<Longrightarrow>
     msg_q_init (Some old) q cl 0 0 m = Some (rc, out, m') \<Longrightarrow> q_reachable q m'"
| step: "q_reachable q m \<Longrightarrow> q_step q m m' \<Longrightarrow> q_reachable q m'"

text \<open>
  The invariant: a sleeping thread that nobody has woken implies that every queued message has a
  woken thread coming for it, and that the queue has not been unblocked.
\<close>

definition wait_inv :: "('d, 'f) contents \<Rightarrow> cond_var \<Rightarrow> bool \<Rightarrow> bool" where
  "wait_inv xs c u \<longleftrightarrow> finite (woken c) \<and> finite (waiting c) \<and> waiting c \<inter> woken c = {} \<and>
     (waiting c \<noteq> {} \<longrightarrow> length xs \<le> card (woken c) \<and> \<not> u)"

definition q_inv :: "ptr \<Rightarrow> ('d, 'f) qmem \<Rightarrow> bool" where
  "q_inv q m \<longleftrightarrow> (\<exists>as xs c u. q_rep q as xs c u m \<and> wait_inv xs c u)"

lemma wait_inv_signal:
  assumes "wait_inv xs c False" and "\<And>S. S \<noteq> {} \<Longrightarrow> pick S \<in> S"
  shows "wait_inv (x # xs) (cond_signal pick c) False"
proof (cases "waiting c = {}")
  case False
  with assms(2) have p: "pick (waiting c) \<in> waiting c" by blast
  with assms(1) False have "pick (waiting c) \<notin> woken c" by (auto simp: wait_inv_def)
  with assms(1) False p show ?thesis
    by (auto simp: wait_inv_def cond_signal_def)
qed (use assms in \<open>auto simp: wait_inv_def cond_signal_def\<close>)

lemma wait_inv_take:
  "wait_inv (xs @ [x]) c u \<Longrightarrow> wait_inv xs c u"
  "wait_inv (xs @ [x]) c u \<Longrightarrow>
     wait_inv xs \<lparr>waiting = waiting c - {t}, woken = woken c - {t}\<rparr> u"
  by (auto simp: wait_inv_def card_Diff_singleton_if)

lemma wait_inv_empty:
  "wait_inv xs c u \<Longrightarrow> wait_inv [] c u"
  "wait_inv xs c False \<Longrightarrow> t \<notin> woken c \<Longrightarrow> wait_inv [] (c\<lparr>waiting := insert t (waiting c)\<rparr>) False"
  "wait_inv xs c u \<Longrightarrow> wait_inv [] \<lparr>waiting = waiting c - {t}, woken = woken c - {t}\<rparr> u"
  "wait_inv xs c False \<Longrightarrow> wait_inv [] \<lparr>waiting = insert t (waiting c - {t}), woken = woken c - {t}\<rparr> False"
  by (auto simp: wait_inv_def)

lemma wait_inv_broadcast: "wait_inv xs c u \<Longrightarrow> wait_inv xs (cond_broadcast c) True"
  by (auto simp: wait_inv_def cond_broadcast_def)


text \<open>The bodies of the steps, each from the invariant to the invariant.\<close>

lemma q_invI: "q_rep q as xs c u m \<Longrightarrow> wait_inv xs c u \<Longrightarrow> q_inv q m"
  by (auto simp: q_inv_def)

lemma snd_q_inv:
  assumes "q_inv q m" and "chan_fresh n m" and "\<And>S. S \<noteq> {} \<Longrightarrow> pick S \<in> S"
  shows "\<exists>rc m'. msg_q_snd pick q (Some d) f n m = Some (rc, m') \<and> q_inv q m'"
proof -
  from assms(1) obtain as xs c u where rep: "q_rep q as xs c u m" and w: "wait_inv xs c u"
    by (auto simp: q_inv_def)
  show ?thesis
  proof (cases u)
    case True
    with rep assms(1) show ?thesis by (auto simp: snd_unblocked_rep)
  next
    case False
    have n: "n \<noteq> NULL" "n \<notin> set as"
      using assms(2) q_rep_fresh [OF rep] by (auto simp: chan_fresh_def)
    from rep False obtain m' where "msg_q_snd pick q (Some d) f n m = Some (eMSG_Q_SUCCESS, m')"
      "q_rep q (n # as) ((d, f) # xs) (cond_signal pick c) False m'"
      using snd_rep [OF _ n, of q xs c m pick d f] by auto
    with w False show ?thesis
      using wait_inv_signal [OF _ assms(3), of xs c "(d, f)"] by (auto intro: q_invI)
  qed
qed

lemma rcv_q_inv:
  assumes "q_rep q as xs c u m" and "wait_inv xs c u" and "t \<notin> waiting c \<union> woken c"
  shows "\<exists>r m'. msg_q_rcv t q (Some v) m = Some (r, m') \<and> q_inv q m'"
proof (cases u)
  case True
  with assms show ?thesis by (auto simp: rcv_unblocked_rep intro: q_invI)
next
  case False
  show ?thesis
  proof (cases xs rule: rev_cases)
    case Nil
    with assms False rcv_blocks_rep [of q as c m t v] wait_inv_empty(2) [of xs c t]
    show ?thesis by (auto intro: q_invI)
  next
    case (snoc ys y)
    with assms False rcv_rep [of q as ys "fst y" "snd y" c m t v] wait_inv_take(1) [of ys y c u]
    show ?thesis by (auto intro: q_invI)
  qed
qed

lemma resume_q_inv:
  assumes "q_rep q as xs c u m" and "wait_inv xs c u"
  shows "\<exists>r m'. msg_q_rcv_resume t q (Some v) m = Some (r, m') \<and> q_inv q m'"
proof -
  define c' where "c' = \<lparr>waiting = waiting c - {t}, woken = woken c - {t}\<rparr>"
  obtain m1 where m1: "msg_q_rcv_resume t q (Some v) m = rcv_loop t q (Some v) m1"
    "held_rep q as xs c' u m1"
    using resume_enters_loop [OF assms(1), of t v] by (auto simp: c'_def)
  show ?thesis
  proof (cases xs rule: rev_cases)
    case (snoc ys y)
    with m1(2) rcv_loop_take [of q as ys "fst y" "snd y" c' u m1 t v]
      wait_inv_take(2) [OF assms(2) [unfolded snoc], of t]
    show ?thesis unfolding m1(1) by (auto simp: c'_def intro: q_invI)
  next
    case Nil
    show ?thesis
    proof (cases u)
      case True
      with Nil m1(2) rcv_loop_ended [of q as c' m1 t v] wait_inv_empty(3) [OF assms(2), of t]
      show ?thesis unfolding m1(1) by (auto simp: c'_def intro: q_invI)
    next
      case False
      with Nil m1(2) rcv_loop_sleep [of q as c' m1 t v] wait_inv_empty(4) [of xs c t] assms(2)
      show ?thesis unfolding m1(1) by (auto simp: c'_def intro: q_invI)
    qed
  qed
qed

lemma q_step_inv: "q_step q m m' \<Longrightarrow> q_inv q m \<Longrightarrow> q_inv q m'"
proof (induction rule: q_step.induct)
  case (send n m pick d f rc m')
  then show ?case using snd_q_inv [of q m n pick d f] by auto
next
  case (recv m x t v r m')
  from recv.prems obtain as xs c u where rep: "q_rep q as xs c u m" "wait_inv xs c u"
    by (auto simp: q_inv_def)
  moreover have "list_cond x = c" using rep(1) recv.hyps(1) by (auto simp: q_rep_def)
  ultimately show ?case using rcv_q_inv [OF rep, of t v] recv.hyps by auto
next
  case (wake m x t v r m')
  then obtain as xs c u where "q_rep q as xs c u m" "wait_inv xs c u"
    by (auto simp: q_inv_def)
  with wake.hyps resume_q_inv [of q as xs c u m t v] show ?case by auto
next
  case (flush m rc m')
  from flush.prems obtain as xs c u where "q_rep q as xs c u m" "wait_inv xs c u"
    by (auto simp: q_inv_def)
  with flush.hyps flush_q_rep [of q as xs c u m] wait_inv_empty(1) [of xs c u]
  show ?case by (auto intro: q_invI)
next
  case (unblock m rc m')
  from unblock.prems obtain as xs c u where "q_rep q as xs c u m" "wait_inv xs c u"
    by (auto simp: q_inv_def)
  with unblock.hyps unblock_rep [of q as xs c m] unblock_twice_rep [of q as xs c m]
    wait_inv_broadcast [of xs c u] unblock.prems
  show ?case by (cases u) (auto intro: q_invI)
qed

lemma q_reachable_inv: "q_reachable q m \<Longrightarrow> q_inv q m"
proof (induction rule: q_reachable.induct)
  case (start cl old m rc out m')
  then show ?case
    using init_q_rep [of q cl old m] by (auto intro!: q_invI simp: wait_inv_def)
next
  case (step m m')
  then show ?case by (blast intro: q_step_inv)
qed

end
