(* ===== verification/Queue_Props.thy ===== *)
theory Queue_Props
  imports Msg_Q_Threads
begin

text \<open>
  What the linked list and the message queue promise their clients, over the definitions of
  \<open>Linked_List\<close> and \<open>Msg_Q\<close>: searching and destroying one list of a heap that holds
  several, first-in first-out delivery, no lost wake-up, no invalid access in any interleaving, and
  the end of all waiting after \<open>msg_q_unblock\<close>.
\<close>

section \<open>Lists that share a heap\<close>

text \<open>
  \<open>linked_list_search\<close> finds the first hit of the comparison from the head (and runs the
  comparison on the elements up to it, in order, and on no other); with \<open>rm_if_found\<close> exactly that
  element leaves the list and its cell is freed, its dealloc callback runs exactly when the caller
  did not ask for the data, and no other list of the heap changes.
\<close>

theorem linked_list_search_spec:
  assumes "list_rep l as xs m" "list_rep k bs ys m" "k \<noteq> l" "set bs \<inter> set as = {}" "xs \<noteq> []"
    and "find_eff eq w (map fst xs) = (r, w')"
  shows "\<exists>m' dp'. linked_list_search l dp (Some eq) rm w m = Some (eLINKED_LIST_SUCCESS, dp', w', m')
     \<and> list_rep k bs ys m'
     \<and> (case r of
        None \<Rightarrow> dp' = map_option (\<lambda>_. None) dp \<and> m' = m
      | Some i \<Rightarrow> i < length xs \<and> dp' = map_option (\<lambda>_. Some (fst (xs ! i))) dp \<and>
          (if rm then list_rep l (remove_nth i as) (remove_nth i xs) m' \<and> elems m' (as ! i) = None
              \<and> dealloc_calls m' = dealloc_calls m @ (if dp = None then dealloc_all [xs ! i] else [])
           else m' = m))"
  using search_rep [OF assms(1,6), of dp rm] list_rep_frame [OF assms(2) _ assms(3,4)] assms(2,5)
  by (cases r; cases rm) fastforce+

text \<open>
  \<open>linked_list_destroy\<close> frees the header and every cell, runs every element's dealloc callback
  exactly once from head to tail, clears the caller's pointer and leaves the other lists alone.
\<close>

theorem linked_list_destroy_spec:
  assumes "list_rep l as xs m" "list_rep k bs ys m" "k \<noteq> l" "set bs \<inter> set as = {}"
  shows "\<exists>m'. linked_list_destroy (Some l) m = Some (eLINKED_LIST_SUCCESS, Some NULL, m')
     \<and> lists m' l = None \<and> (\<forall>a \<in> set as. elems m' a = None)
     \<and> dealloc_calls m' = dealloc_calls m @ dealloc_all xs \<and> list_rep k bs ys m'"
  using destroy_rep [OF assms(1)] list_rep_frame [OF assms(2) _ assms(3,4)] by blast

definition example_heap :: "(char, nat) mem" where
  "example_heap = \<lparr>
     elems = [10 \<mapsto> \<lparr>next_ptr = 11, prev_ptr = NULL, data_ptr = CHR ''a'', dealloc_func = Some 1\<rparr>,
              11 \<mapsto> \<lparr>next_ptr = NULL, prev_ptr = 10, data_ptr = CHR ''b'', dealloc_func = Some 2\<rparr>,
              12 \<mapsto> \<lparr>next_ptr = NULL, prev_ptr = NULL, data_ptr = CHR ''c'', dealloc_func = None\<rparr>],
     lists = [1 \<mapsto> \<lparr>p_head = 10, p_tail = 11\<rparr>, 2 \<mapsto> \<lparr>p_head = 12, p_tail = 12\<rparr>],
     dealloc_calls = []\<rparr>"

lemma example_heap_rep:
  "list_rep 1 [10, 11] [(CHR ''a'', Some 1), (CHR ''b'', Some 2)] example_heap"
  "list_rep 2 [12] [(CHR ''c'', None)] example_heap"
  by (simp_all add: example_heap_def list_rep_def)

lemma example_heap_calls [simp]: "dealloc_calls example_heap = []"
  by (simp add: example_heap_def)

lemma linked_list_search_spec_witness:
  "\<exists>m'. linked_list_search 1 None (Some (\<lambda>n d. (d = CHR ''b'', (n :: nat) + 10))) True 0 example_heap
       = Some (eLINKED_LIST_SUCCESS, None, 20, m')
     \<and> list_rep 1 [10] [(CHR ''a'', Some 1)] m' \<and> list_rep 2 [12] [(CHR ''c'', None)] m'
     \<and> dealloc_calls m' = [(2, CHR ''b'')]"
  using linked_list_search_spec [OF example_heap_rep, of "\<lambda>n d. (d = CHR ''b'', (n :: nat) + 10)" 0 "Some 1" 20 None True]
  by (auto simp: remove_nth_def)

lemma linked_list_destroy_spec_witness:
  "\<exists>m'. linked_list_destroy (Some 1) example_heap = Some (eLINKED_LIST_SUCCESS, Some NULL, m')
     \<and> dealloc_calls m' = [(1, CHR ''a''), (2, CHR ''b'')] \<and> list_rep 2 [12] [(CHR ''c'', None)] m'"
  using linked_list_destroy_spec [OF example_heap_rep] by auto

section \<open>First in, first out\<close>

text \<open>
  C15: On a queue just initialised, every schedule of sends and receives whose allocations are fresh
  runs to its end, and the messages received followed by those still queued are exactly the
  messages sent, in the order of sending.
\<close>

theorem queue_fifo:
  assumes "msg_q_init (Some old) q cl 0 0 m = Some (eMSG_Q_SUCCESS, Some q, m0)" "q \<noteq> NULL" "cl \<noteq> NULL"
    and "distinct (answers es)" "\<forall>a \<in> set (answers es). chan_fresh a m0"
  shows "\<exists>out m' rest. q_run pick f t q es m0 = Some (out, m') \<and> chan_holds q m' rest \<and> out @ rest = sent es"
proof -
  have "chan_holds q m0 []"
    using init_q_rep [OF assms(2,3), of old m] assms(1) by (auto simp: chan_holds_def)
  from chan.run_complete [OF this assms(4,5), of pick f t] show ?thesis unfolding q_run_eq .
qed

definition empty_qmem :: "('d, 'f) qmem" where
  "empty_qmem = \<lparr>elems = Map.empty, lists = Map.empty, dealloc_calls = [], queues = Map.empty\<rparr>"

definition example_queue :: "('d, 'f) qmem" where
  "example_queue = snd (snd (the (msg_q_init (Some 0) 1 2 0 0 empty_qmem)))"

lemma example_queue_init:
  "msg_q_init (Some 0) 1 2 0 0 empty_qmem = Some (eMSG_Q_SUCCESS, Some 1, example_queue)"
  "elems example_queue a = None"
  by (simp_all add: example_queue_def empty_qmem_def msg_q_init_def linked_list_init_def upd_queue_def)

lemma queue_fifo_witness:
  "\<exists>out m' rest. q_run Min (None :: nat option) 7 1 [Some (5, CHR ''x''), None, None, Some (6, CHR ''y''), Some (8, CHR ''z''), None]
      example_queue = Some (out, m') \<and> chan_holds 1 m' rest \<and> out @ rest = ''xyz''"
  using queue_fifo [OF example_queue_init(1), of
    "[Some (5, CHR ''x''), None, None, Some (6, CHR ''y''), Some (8, CHR ''z''), None]" Min None 7]
  by (simp add: chan_fresh_def example_queue_init(2))

section \<open>Waiting threads\<close>

text \<open>
  C5: In every reachable state of any number of senders, receivers, flushes and unblocks, with
  spurious wake-ups: if some thread sleeps on the queue without having been woken, then the queue
  has not been unblocked and each queued message has a woken thread on its way (no wake-up is lost).
\<close>

theorem queue_no_lost_wakeup:
  assumes "q_reachable q m"
  shows "\<exists>as xs c u. q_rep q as xs c u m \<and> (waiting c \<noteq> {} \<longrightarrow> length xs \<le> card (woken c) \<and> \<not> u)"
  using q_reachable_inv [OF assms] by (auto simp: q_inv_def wait_inv_def)

lemma example_reachable: "q_reachable 1 example_queue"
  by (rule q_reachable.start [OF _ _ example_queue_init(1)]) simp_all

lemma example_sleeper:
  "\<exists>m c. q_reachable 1 (m :: (char, nat) qmem) \<and> q_rep 1 [] [] c False m \<and> waiting c = {7} \<and> elems m = Map.empty"
proof -
  let ?e = "example_queue :: (char, nat) qmem"
  let ?c0 = "\<lparr>waiting = {}, woken = {}\<rparr>"
  have r: "q_rep 1 [] [] ?c0 False ?e"
    using init_q_rep [of 1 2 0 "empty_qmem :: (char, nat) qmem"]
      example_queue_init(1) [where 'a = char and 'b = nat] by auto
  then obtain x where x: "queues ?e 1 = Some x" "list_cond x = ?c0" by (auto simp: q_rep_def)
  from rcv_blocks_rep [OF r, of 7 None] obtain m' where
    m': "msg_q_rcv 7 1 (Some None) ?e = Some (Blocked, m')" "q_rep 1 [] [] (?c0\<lparr>waiting := {7}\<rparr>) False m'"
    by auto
  have "q_step 1 ?e m'" by (rule q_step.recv [OF x(1) _ m'(1)]) (simp add: x(2))
  with example_reachable have "q_reachable 1 m'" by (rule q_reachable.step)
  moreover have "elems m' = Map.empty"
    using m'(1) x(1) by (auto simp: msg_q_rcv_def q_prims rcv_loop_def linked_list_empty_def example_queue_init(2)
      bind_eq_Some split: if_splits)
  ultimately show ?thesis using m'(2) by force
qed

lemma queue_no_lost_wakeup_witness:
  "\<exists>(m :: (char, nat) qmem) as xs c u. q_rep 1 as xs c u m \<and> waiting c \<noteq> {} \<and> length xs \<le> card (woken c) \<and> \<not> u"
proof -
  obtain m c where m: "q_reachable 1 (m :: (char, nat) qmem)" "q_rep 1 [] [] c False m" "waiting c = {7}"
    using example_sleeper by blast
  from queue_no_lost_wakeup [OF m(1)] obtain as xs c' u where
    r: "q_rep 1 as xs c' u m" "waiting c' \<noteq> {} \<longrightarrow> length xs \<le> card (woken c') \<and> \<not> u" by blast
  moreover from r(1) m(2) have "c' = c" by (auto simp: q_rep_def)
  ultimately show ?thesis using m(3) by blast
qed
section \<open>No invalid access, and the end of waiting\<close>

lemma reachable_returns:
  assumes "q_reachable q m" "chan_fresh n m" "\<And>S. S \<noteq> {} \<Longrightarrow> pick S \<in> S"
  shows "\<exists>rc m'. msg_q_snd pick q (Some d) f n m = Some (rc, m')"
    and "\<exists>r m'. msg_q_rcv t q (Some v) m = Some (r, m')"
    and "\<exists>r m'. msg_q_rcv_resume t q (Some v) m = Some (r, m')"
    and "\<exists>rc m'. msg_q_flush q m = Some (rc, m')"
    and "\<exists>rc m'. msg_q_unblock q m = Some (rc, m')"
    and "\<exists>p m'. msg_q_destroy (Some q) m = Some (eMSG_Q_SUCCESS, p, m')"
proof -
  note inv = q_reachable_inv [OF assms(1)]
  then obtain as xs c u where rep: "q_rep q as xs c u m" "wait_inv xs c u" by (auto simp: q_inv_def)
  show "\<exists>rc m'. msg_q_snd pick q (Some d) f n m = Some (rc, m')"
    using snd_q_inv [OF inv assms(2,3), of d f] by blast
  show "\<exists>r m'. msg_q_rcv_resume t q (Some v) m = Some (r, m')"
    using resume_q_inv [OF rep] by blast
  show "\<exists>rc m'. msg_q_flush q m = Some (rc, m')" using flush_q_rep [OF rep(1)] by blast
  show "\<exists>p m'. msg_q_destroy (Some q) m = Some (eMSG_Q_SUCCESS, p, m')"
    using destroy_q_rep [OF rep(1)] by blast
  show "\<exists>rc m'. msg_q_unblock q m = Some (rc, m')"
    using rep(1) unblock_rep [of q as xs c m] unblock_twice_rep [of q as xs c m] by (cases u) auto
  show "\<exists>r m'. msg_q_rcv t q (Some v) m = Some (r, m')"
  proof (cases "u \<or> xs = []")
    case True
    with rep(1) rcv_unblocked_rep [of q as xs c m t v] rcv_blocks_rep [of q as c m t v]
    show ?thesis by (cases u) auto
  next
    case False
    then obtain ys y where "xs = ys @ [y]" by (cases xs rule: rev_cases) auto
    with False rep(1) rcv_rep [of q as ys "fst y" "snd y" c m t v] show ?thesis by auto
  qed
qed


definition ended :: "ptr \<Rightarrow> ('d, 'f) qmem \<Rightarrow> bool" where
  "ended q m \<longleftrightarrow> (\<exists>as xs c. q_rep q as xs c True m \<and> wait_inv xs c True)"

lemma endedI: "q_rep q as xs c True m \<Longrightarrow> wait_inv xs c True \<Longrightarrow> ended q m"
  by (auto simp: ended_def)

lemma resume_ended:
  assumes "q_rep q as xs c True m" "wait_inv xs c True" "msg_q_rcv_resume t q (Some v) m = Some (r, m')"
  shows "ended q m'"
proof -
  let ?c = "\<lparr>waiting = waiting c - {t}, woken = woken c - {t}\<rparr>"
  obtain m1 where m1: "msg_q_rcv_resume t q (Some v) m = rcv_loop t q (Some v) m1" "held_rep q as xs ?c True m1"
    using resume_enters_loop [OF assms(1), of t v] by auto
  show ?thesis
  proof (cases xs rule: rev_cases)
    case Nil
    with m1 assms rcv_loop_ended [of q as ?c m1 t v] wait_inv_empty(3) [OF assms(2), of t]
    show ?thesis by (auto intro: endedI)
  next
    case (snoc ys y)
    with m1 assms rcv_loop_take [of q as ys "fst y" "snd y" ?c True m1 t v]
      wait_inv_take(2) [OF assms(2) [unfolded snoc], of t]
    show ?thesis by (auto intro: endedI)
  qed
qed

lemma q_step_ended:
  assumes "q_step q m m'" "ended q m"
  shows "ended q m'"
proof -
  from assms(2) obtain as xs c where rep: "q_rep q as xs c True m" "wait_inv xs c True"
    by (auto simp: ended_def)
  from assms(1) show ?thesis
  proof cases
    case (wake x t v r)
    with rep show ?thesis by (blast intro: resume_ended)
  next
    case (flush rc)
    with flush_q_rep [OF rep(1)] wait_inv_empty(1) [OF rep(2)] show ?thesis by (auto intro: endedI)
  qed (use assms(2) snd_unblocked_rep [OF rep(1)] rcv_unblocked_rep [OF rep(1)] unblock_twice_rep [OF rep(1)] in auto)
qed

text \<open>
  C34: After \<open>msg_q_unblock\<close>, whatever the threads do next, no thread sleeps on the queue, every send
  is refused and every new receive returns at once.
\<close>

theorem queue_unblock_ends_waiting:
  assumes "q_reachable q m" "msg_q_unblock q m = Some (rc, m1)" "(q_step q)\<^sup>*\<^sup>* m1 m2"
  shows "\<exists>x. queues m2 q = Some x \<and> waiting (list_cond x) = {}
     \<and> msg_q_snd pick q (Some d) f n m2 = Some (eMSG_Q_UNAVAILABLE_RESOURCE, m2)
     \<and> msg_q_rcv t q (Some v) m2 = Some (Returned eMSG_Q_UNAVAILABLE_RESOURCE (Some v), m2)"
proof -
  from q_reachable_inv [OF assms(1)] obtain as xs c u where rep: "q_rep q as xs c u m" "wait_inv xs c u"
    by (auto simp: q_inv_def)
  have "ended q m1"
    using rep assms(2) unblock_rep [of q as xs c m] unblock_twice_rep [of q as xs c m] wait_inv_broadcast [OF rep(2)]
    by (cases u) (auto intro: endedI)
  with assms(3) have "ended q m2" by induction (blast intro: q_step_ended)+
  then obtain as' xs' c' where rep2: "q_rep q as' xs' c' True m2" "wait_inv xs' c' True"
    by (auto simp: ended_def)
  moreover have "waiting c' = {}" using rep2(2) by (auto simp: wait_inv_def)
  ultimately show ?thesis
    using snd_unblocked_rep [OF rep2(1)] rcv_unblocked_rep [OF rep2(1)] by (auto simp: q_rep_def)
qed


lemma queue_unblock_ends_waiting_witness:
  "\<exists>(m2 :: (char, nat) qmem) x. queues m2 1 = Some x \<and> waiting (list_cond x) = {}
     \<and> msg_q_rcv 3 1 (Some None) m2 = Some (Returned eMSG_Q_UNAVAILABLE_RESOURCE (Some None), m2)"
proof -
  obtain m c where m: "q_reachable 1 (m :: (char, nat) qmem)" "q_rep 1 [] [] c False m" "waiting c = {7}"
    using example_sleeper by blast
  from unblock_rep [OF m(2)] obtain m1 where m1: "msg_q_unblock 1 m = Some (eMSG_Q_SUCCESS, m1)" by blast
  from queue_unblock_ends_waiting [OF m(1) m1 rtranclp.rtrancl_refl] show ?thesis by blast
qed

end
