(* ===== verification/Gps_Types.thy ===== *)
theory Gps_Types
  imports Loc_Prelude
begin

text \<open>
  The data types of gps/libloc_api_50001/gps.h (gps/ulp/gps.h is the same file) that the location
  engine handles, with the header's integer widths. A C \<open>double\<close> or \<open>float\<close> is a real number: the
  engine passes these values through and compares them, and rounding is not modelled.
\<close>

section \<open>Values with symbolic names\<close>

type_synonym GpsUtcTime = "64 word"
type_synonym GpsStatusValue = u16
type_synonym GpsLocationFlags = u16
type_synonym GpsAidingData = u32
type_synonym GpsPositionRecurrence = u32
type_synonym AGpsType = u16
type_synonym AGpsBearerType = u16
type_synonym AGpsStatusValue = u16
type_synonym GpsUserResponseType = i32

definition GPS_POSITION_RECURRENCE_PERIODIC :: GpsPositionRecurrence where
  [simp]: "GPS_POSITION_RECURRENCE_PERIODIC = 0"
definition GPS_POSITION_RECURRENCE_SINGLE :: GpsPositionRecurrence where
  [simp]: "GPS_POSITION_RECURRENCE_SINGLE = 1"

definition GPS_STATUS_NONE :: GpsStatusValue where
  [simp]: "GPS_STATUS_NONE = 0"
definition GPS_STATUS_SESSION_BEGIN :: GpsStatusValue where
  [simp]: "GPS_STATUS_SESSION_BEGIN = 1"
definition GPS_STATUS_SESSION_END :: GpsStatusValue where
  [simp]: "GPS_STATUS_SESSION_END = 2"
definition GPS_STATUS_ENGINE_ON :: GpsStatusValue where
  [simp]: "GPS_STATUS_ENGINE_ON = 3"
definition GPS_STATUS_ENGINE_OFF :: GpsStatusValue where
  [simp]: "GPS_STATUS_ENGINE_OFF = 4"

definition GPS_LOCATION_HAS_ACCURACY :: GpsLocationFlags where
  [simp]: "GPS_LOCATION_HAS_ACCURACY = 0x10"

definition ULP_CAPABILITY :: u32 where
  [simp]: "ULP_CAPABILITY = 0x99"

definition AGPS_TYPE_INVALID :: AGpsType where
  [simp]: "AGPS_TYPE_INVALID = -1"
definition AGPS_TYPE_ANY :: AGpsType where
  [simp]: "AGPS_TYPE_ANY = 0"
definition AGPS_TYPE_SUPL :: AGpsType where
  [simp]: "AGPS_TYPE_SUPL = 1"
definition AGPS_TYPE_C2K :: AGpsType where
  [simp]: "AGPS_TYPE_C2K = 2"
definition AGPS_TYPE_WWAN_ANY :: AGpsType where
  [simp]: "AGPS_TYPE_WWAN_ANY = 3"
definition AGPS_TYPE_WIFI :: AGpsType where
  [simp]: "AGPS_TYPE_WIFI = 4"

definition SSID_BUF_SIZE :: nat where
  [simp]: "SSID_BUF_SIZE = 32 + 1"

definition GPS_NI_PRIVACY_OVERRIDE :: u32 where
  [simp]: "GPS_NI_PRIVACY_OVERRIDE = 4"
definition GPS_NI_RESPONSE_NORESP :: GpsUserResponseType where
  [simp]: "GPS_NI_RESPONSE_NORESP = 3"

definition GPS_REQUEST_AGPS_DATA_CONN :: AGpsStatusValue where
  [simp]: "GPS_REQUEST_AGPS_DATA_CONN = 1"
definition GPS_RELEASE_AGPS_DATA_CONN :: AGpsStatusValue where
  [simp]: "GPS_RELEASE_AGPS_DATA_CONN = 2"

definition ULP_PHONE_CONTEXT_BATTERY_CHARGING_STATE :: u16 where
  [simp]: "ULP_PHONE_CONTEXT_BATTERY_CHARGING_STATE = 8"

definition INADDR_NONE :: i32 where
  [simp]: "INADDR_NONE = 0xFFFFFFFF"

section \<open>Records\<close>

text \<open>
  \<open>AGpsStatus\<close>: the request to the connectivity service. The code fills the structure on the
  stack and leaves some fields unwritten; \<open>None\<close> marks a field that still holds stack garbage,
  and \<open>ags_ipv6\<close> holds the bytes that were written.
\<close>

record AGpsStatus =
  ags_size :: nat
  ags_type :: AGpsType
  ags_status :: AGpsStatusValue
  ags_ipv4 :: "i32 option"
  ags_ipv6 :: "u8 list option"
  ags_ssid :: "string option"
  ags_password :: "string option"

definition sizeof_AGpsStatus :: nat where
  [simp]: "sizeof_AGpsStatus = 96"

record GpsLocation =
  gl_size :: nat
  gl_flags :: GpsLocationFlags
  gl_position_source :: u16
  gl_latitude :: real
  gl_longitude :: real
  gl_altitude :: real
  gl_speed :: real
  gl_bearing :: real
  gl_accuracy :: real
  gl_timestamp :: GpsUtcTime
  gl_rawDataSize :: i32
  gl_rawData :: ptr
  gl_is_indoor :: bool
  gl_floor_number :: real
  gl_map_url :: string
  gl_map_index :: "u8 list"

record GpsSvInfo =
  sv_size :: nat
  sv_prn :: i32
  sv_snr :: real
  sv_elevation :: real
  sv_azimuth :: real

record GpsSvStatus =
  svs_size :: nat
  svs_num :: i32
  svs_list :: "GpsSvInfo list"
  svs_ephemeris_mask :: u32
  svs_almanac_mask :: u32
  svs_used_in_fix_mask :: u32

record GpsNiNotification =
  ni_size :: nat
  ni_notification_id :: i32
  ni_type :: u32
  ni_notify_flags :: u32
  ni_timeout :: i32
  ni_default_response :: GpsUserResponseType
  ni_requestor_id :: string
  ni_text :: string
  ni_requestor_id_encoding :: i32
  ni_text_encoding :: i32
  ni_extras :: string

record UlpNetworkRequestPos =
  unr_request_type :: u16
  unr_interval_ms :: i32
  unr_desired_position_source :: u16

record UlpPhoneContextRequest =
  pcr_context_type :: u16
  pcr_request_type :: u16
  pcr_interval_ms :: i32

record UlpPhoneContextSettings =
  pcs_context_type :: u16
  pcs_is_gps_enabled :: bool
  pcs_is_network_position_available :: bool
  pcs_is_wifi_setting_enabled :: bool
  pcs_is_battery_charging :: bool
  pcs_is_agps_enabled :: bool
  pcs_is_enh_location_services_enabled :: bool

datatype UlpRecurrenceCriteria = ULP_LOC_RECURRENCE_PERIODIC | ULP_LOC_RECURRENCE_SINGLE

datatype UlpHorzAccuracyCriteria =
    ULP_HORZ_ACCURACY_DONT_CARE | ULP_HORZ_ACCURACY_LOW | ULP_HORZ_ACCURACY_MED | ULP_HORZ_ACCURACY_HIGH

datatype UlpAccuracyCriteria = ULP_ACCURACY_DONT_CARE | ULP_ACCURACY_LOW | ULP_ACCURACY_HIGH

datatype UlpPowerCriteria = ULP_POWER_REQ_DONT_CARE | ULP_POWER_REQ_LOW | ULP_POWER_REQ_HIGH

datatype UlpDataUsageCriteria = ULP_DATA_REQ_DONT_CARE | ULP_DATA_ALLOW | ULP_DATA_DENY

record UlpLocationCriteria =
  ulc_valid_mask :: u32
  ulc_action :: i32
  ulc_provider_source :: i32
  ulc_recurrence_type :: UlpRecurrenceCriteria
  ulc_preferred_response_time :: u32
  ulc_min_interval :: u32
  ulc_min_distance :: real
  ulc_min_dist_sample_interval :: u32
  ulc_desired_output_parameter :: u32
  ulc_preferred_horizontal_accuracy :: UlpHorzAccuracyCriteria
  ulc_preferred_power_consumption :: UlpPowerCriteria
  ulc_preferred_altitude_accuracy :: UlpAccuracyCriteria
  ulc_preferred_bearing_accuracy :: UlpAccuracyCriteria
  ulc_preferred_data_usage :: UlpDataUsageCriteria
  ulc_intermediate_pos_report_enabled :: bool

record UlpNetworkPosition =
  unp_pos_source :: u16
  unp_latitude :: real
  unp_longitude :: real
  unp_HEPE :: u16

text \<open>The union of \<open>UlpNetworkLandscape\<close>; the array of access points is reached by its pointer.\<close>

datatype UlpNetworkInfo = wifi_info u8 ptr | cell_info u32

record UlpNetworkLandscape =
  unl_network_type :: u8
  unl_u :: UlpNetworkInfo

record UlpNetworkPositionReport =
  upr_valid_flag :: u16
  upr_fix_time :: GpsUtcTime
  upr_position :: UlpNetworkPosition
  upr_landscape_info :: UlpNetworkLandscape

end
