(* ===== verification/Agps.thy ===== *)
theory Agps
  imports Gps_Types Linked_List
begin

text \<open>
  The AGPS state machine of gps/libloc_api_50001/loc_eng_agps.cpp and loc_eng_agps.h: one machine
  per network interface (NIF), its subscribers (ATL clients of the modem, the BIT daemon, WiFi
  clients) and the four states. The subscriber list is the abstract list, head first, that
  Linked\_List\_Correct proves the linked list to represent; a pointer to a listed subscriber is its
  index. Calls that leave the machine (to the connectivity service, to the modem adapter, to the
  daemons) are appended to \<open>sm_out\<close> in the order the code makes them.
\<close>

section \<open>Data\<close>

datatype AgpsRsrcStatus =
    RSRC_SUBSCRIBE | RSRC_UNSUBSCRIBE | RSRC_GRANTED | RSRC_RELEASED | RSRC_DENIED | RSRC_STATUS_MAX

datatype loc_if_req_type_e_type =
    LOC_ENG_IF_REQUEST_TYPE_SUPL | LOC_ENG_IF_REQUEST_TYPE_WIFI | LOC_ENG_IF_REQUEST_TYPE_ANY

datatype loc_if_req_sender_id_e_type =
    LOC_ENG_IF_REQUEST_SENDER_ID_QUIPC
  | LOC_ENG_IF_REQUEST_SENDER_ID_MSAPM
  | LOC_ENG_IF_REQUEST_SENDER_ID_GPSONE_DAEMON
  | LOC_ENG_IF_REQUEST_SENDER_ID_MODEM
  | LOC_ENG_IF_REQUEST_SENDER_ID_UNKNOWN

fun sender_id_code :: "loc_if_req_sender_id_e_type \<Rightarrow> i32" where
  "sender_id_code LOC_ENG_IF_REQUEST_SENDER_ID_QUIPC = 0"
| "sender_id_code LOC_ENG_IF_REQUEST_SENDER_ID_MSAPM = 1"
| "sender_id_code LOC_ENG_IF_REQUEST_SENDER_ID_GPSONE_DAEMON = 2"
| "sender_id_code LOC_ENG_IF_REQUEST_SENDER_ID_MODEM = 3"
| "sender_id_code LOC_ENG_IF_REQUEST_SENDER_ID_UNKNOWN = 4"

datatype gpsone_if_status =
    GPSONE_LOC_API_IF_REQUEST_SUCCESS | GPSONE_LOC_API_IF_RELEASE_SUCCESS | GPSONE_LOC_API_IF_FAILURE

datatype subscriber =
    BITSubscriber (bit_ID: i32) (ipv6Addr: "u8 list")
  | ATLSubscriber (atl_ID: i32) (mBackwardCompatibleMode: bool)
  | WIFISubscriber (mSSID: "string option") (mPassword: "string option")
      (senderId: loc_if_req_sender_id_e_type) (mIsInactive: bool)

record Notification =
  rcver :: "subscriber option"
  groupID :: i32
  rsrcStatus :: AgpsRsrcStatus
  postNotifyDelete :: bool

datatype agps_state = AgpsReleasedState | AgpsPendingState | AgpsAcquiredState | AgpsReleasingState

datatype agps_out =
    DataConn loc_if_req_sender_id_e_type gpsone_if_status
  | AtlOpenStatus i32 int "string option" AGpsBearerType AGpsType
  | AtlCloseStatus i32 int
  | NifRequest AGpsStatus

record AgpsStateMachine =
  mType :: AGpsType
  mStatePtr :: agps_state
  mSubscribers :: "subscriber list"
  mAPN :: "string option"
  mAPNLen :: nat
  mBearer :: AGpsBearerType
  mEnforceSingleSubscriber :: bool
  sm_out :: "agps_out list"

text \<open>
  The \<open>void* data\<close> of an event travels with it: the caller's object on a subscription, a pointer
  into the subscriber list (an index) on an unsubscription, \<open>NULL\<close> on the service's answers.
\<close>

datatype rsrc_event = Subscribe subscriber | Unsubscribe nat | Granted | Released | Denied

fun rsrc_status :: "rsrc_event \<Rightarrow> AgpsRsrcStatus" where
  "rsrc_status (Subscribe _) = RSRC_SUBSCRIBE"
| "rsrc_status (Unsubscribe _) = RSRC_UNSUBSCRIBE"
| "rsrc_status Granted = RSRC_GRANTED"
| "rsrc_status Released = RSRC_RELEASED"
| "rsrc_status Denied = RSRC_DENIED"

section \<open>Notifications\<close>

definition BROADCAST_ALL :: i32 where
  "BROADCAST_ALL = 0x80000000"
definition BROADCAST_ACTIVE :: i32 where
  "BROADCAST_ACTIVE = 0x80000001"
definition BROADCAST_INACTIVE :: i32 where
  "BROADCAST_INACTIVE = 0x80000002"

definition broadcast_notification :: "i32 \<Rightarrow> AgpsRsrcStatus \<Rightarrow> bool \<Rightarrow> Notification" where
  "broadcast_notification broadcast status deleteAfterwards =
     \<lparr>rcver = None, groupID = broadcast, rsrcStatus = status, postNotifyDelete = deleteAfterwards\<rparr>"

definition subscriber_notification :: "subscriber \<Rightarrow> AgpsRsrcStatus \<Rightarrow> bool \<Rightarrow> Notification" where
  "subscriber_notification s status deleteAfterwards =
     \<lparr>rcver = Some s, groupID = -1, rsrcStatus = status, postNotifyDelete = deleteAfterwards\<rparr>"

definition broadcast_query :: "i32 \<Rightarrow> Notification" where
  "broadcast_query broadcast =
     \<lparr>rcver = None, groupID = broadcast, rsrcStatus = RSRC_STATUS_MAX, postNotifyDelete = False\<rparr>"

definition subscriber_query :: "subscriber \<Rightarrow> Notification" where
  "subscriber_query s =
     \<lparr>rcver = Some s, groupID = -1, rsrcStatus = RSRC_STATUS_MAX, postNotifyDelete = False\<rparr>"

section \<open>Subscribers\<close>

text \<open>
  The constructors. \<open>junk\<close> is the content of the uninitialised array in a new \<open>BITSubscriber\<close>:
  without an IPv6 address only its first byte is written.
\<close>

definition new_BITSubscriber :: "u8 list \<Rightarrow> i32 \<Rightarrow> u8 list option \<Rightarrow> subscriber" where
  "new_BITSubscriber junk ipv4 ipv6 = BITSubscriber ipv4 (case ipv6 of
      None \<Rightarrow> 0 # take 15 junk
    | Some a \<Rightarrow> take 16 a)"

definition new_ATLSubscriber :: "i32 \<Rightarrow> bool \<Rightarrow> subscriber" where
  "new_ATLSubscriber ident compatibleMode = ATLSubscriber ident compatibleMode"

definition new_WIFISubscriber ::
    "string option \<Rightarrow> string option \<Rightarrow> loc_if_req_sender_id_e_type \<Rightarrow> subscriber" where
  "new_WIFISubscriber ssid password sender =
     WIFISubscriber (map_option (strlcpy SSID_BUF_SIZE) ssid)
       (map_option (strlcpy SSID_BUF_SIZE) password) sender False"

fun sub_ID :: "subscriber \<Rightarrow> i32" where
  "sub_ID (BITSubscriber i _) = i"
| "sub_ID (ATLSubscriber i _) = i"
| "sub_ID (WIFISubscriber _ _ sid _) = sender_id_code sid"

fun clone :: "subscriber \<Rightarrow> subscriber" where
  "clone (BITSubscriber i a) = new_BITSubscriber [] i (Some a)"
| "clone (ATLSubscriber i b) = new_ATLSubscriber i b"
| "clone (WIFISubscriber s p sid _) = new_WIFISubscriber s p sid"

fun waitForCloseComplete :: "subscriber \<Rightarrow> bool" where
  "waitForCloseComplete (WIFISubscriber _ _ _ _) = True"
| "waitForCloseComplete _ = False"

fun setInactive :: "subscriber \<Rightarrow> subscriber" where
  "setInactive (WIFISubscriber s p sid _) = WIFISubscriber s p sid True"
| "setInactive s = s"

fun isInactive :: "subscriber \<Rightarrow> bool" where
  "isInactive (WIFISubscriber _ _ _ b) = b"
| "isInactive _ = False"

text \<open>
  \<open>setIPAddresses\<close> and \<open>setWifiInfo\<close> write into the caller's structure; \<open>None\<close>: not written.
\<close>

fun setIPAddresses :: "subscriber \<Rightarrow> i32 option \<times> u8 list option" where
  "setIPAddresses (BITSubscriber i a) = (Some i, Some a)"
| "setIPAddresses (ATLSubscriber _ _) = (Some INADDR_NONE, Some [0])"
| "setIPAddresses (WIFISubscriber _ _ _ _) = (None, None)"

fun setWifiInfo :: "subscriber \<Rightarrow> string option \<times> string option" where
  "setWifiInfo (WIFISubscriber s p _ _) =
     (Some (case s of None \<Rightarrow> [] | Some x \<Rightarrow> strlcpy SSID_BUF_SIZE x),
      Some (case p of None \<Rightarrow> [] | Some x \<Rightarrow> strlcpy SSID_BUF_SIZE x))"
| "setWifiInfo _ = (None, None)"

text \<open>
  \<open>BITSubscriber::equals\<close> casts its argument to a \<open>BITSubscriber\<close> without a check. On another
  kind of subscriber the array read lies in other memory: an unspecified value.
\<close>

fun ipv6_view :: "subscriber \<Rightarrow> u8 list" where
  "ipv6_view (BITSubscriber _ a) = a"
| "ipv6_view _ = undefined"

fun equals :: "subscriber \<Rightarrow> subscriber \<Rightarrow> bool" where
  "equals (BITSubscriber i a) s =
     (i = sub_ID s \<and> (INADDR_NONE \<noteq> i \<or> strncmp_eq 16 a (ipv6_view s)))"
| "equals t s = (sub_ID t = sub_ID s)"

definition forMe :: "Notification \<Rightarrow> subscriber \<Rightarrow> bool" where
  "forMe n t = (case rcver n of
      Some r \<Rightarrow> equals t r
    | None \<Rightarrow> BROADCAST_ALL = groupID n \<or>
        (BROADCAST_ACTIVE = groupID n \<and> \<not> isInactive t) \<or>
        (BROADCAST_INACTIVE = groupID n \<and> isInactive t))"

section \<open>Notifying a subscriber\<close>

definition BIT_notifyRsrcStatus :: "Notification \<Rightarrow> subscriber \<Rightarrow> bool \<times> agps_out list" where
  "BIT_notifyRsrcStatus n t =
    (if forMe n t then (case rsrcStatus n of
        RSRC_UNSUBSCRIBE \<Rightarrow> (True, [DataConn LOC_ENG_IF_REQUEST_SENDER_ID_GPSONE_DAEMON GPSONE_LOC_API_IF_RELEASE_SUCCESS])
      | RSRC_RELEASED \<Rightarrow> (True, [DataConn LOC_ENG_IF_REQUEST_SENDER_ID_GPSONE_DAEMON GPSONE_LOC_API_IF_RELEASE_SUCCESS])
      | RSRC_DENIED \<Rightarrow> (True, [DataConn LOC_ENG_IF_REQUEST_SENDER_ID_GPSONE_DAEMON GPSONE_LOC_API_IF_FAILURE])
      | RSRC_GRANTED \<Rightarrow> (True, [DataConn LOC_ENG_IF_REQUEST_SENDER_ID_GPSONE_DAEMON GPSONE_LOC_API_IF_REQUEST_SUCCESS])
      | _ \<Rightarrow> (False, []))
     else (False, []))"

definition ATL_notifyRsrcStatus ::
    "AgpsStateMachine \<Rightarrow> Notification \<Rightarrow> subscriber \<Rightarrow> bool \<times> agps_out list" where
  "ATL_notifyRsrcStatus m n t =
    (let ty = (if mBackwardCompatibleMode t then AGPS_TYPE_INVALID else mType m) in
     if forMe n t then (case rsrcStatus n of
        RSRC_UNSUBSCRIBE \<Rightarrow> (True, [AtlCloseStatus (sub_ID t) 1])
      | RSRC_RELEASED \<Rightarrow> (True, [AtlCloseStatus (sub_ID t) 1])
      | RSRC_DENIED \<Rightarrow> (True, [AtlOpenStatus (sub_ID t) 0 (mAPN m) (mBearer m) ty])
      | RSRC_GRANTED \<Rightarrow> (True, [AtlOpenStatus (sub_ID t) 1 (mAPN m) (mBearer m) ty])
      | _ \<Rightarrow> (False, []))
     else (False, []))"

definition WIFI_notifyRsrcStatus :: "Notification \<Rightarrow> subscriber \<Rightarrow> bool \<times> agps_out list" where
  "WIFI_notifyRsrcStatus n t =
    (if forMe n t then (case rsrcStatus n of
        RSRC_UNSUBSCRIBE \<Rightarrow> (True, [])
      | RSRC_RELEASED \<Rightarrow> (True, [DataConn (senderId t) GPSONE_LOC_API_IF_RELEASE_SUCCESS])
      | RSRC_DENIED \<Rightarrow> (True, [DataConn (senderId t) GPSONE_LOC_API_IF_FAILURE])
      | RSRC_GRANTED \<Rightarrow> (True, [DataConn (senderId t) GPSONE_LOC_API_IF_REQUEST_SUCCESS])
      | _ \<Rightarrow> (False, []))
     else (False, []))"

definition notifyRsrcStatus ::
    "AgpsStateMachine \<Rightarrow> Notification \<Rightarrow> subscriber \<Rightarrow> bool \<times> agps_out list" where
  "notifyRsrcStatus m n t = (case t of
      BITSubscriber _ _ \<Rightarrow> BIT_notifyRsrcStatus n t
    | ATLSubscriber _ _ \<Rightarrow> ATL_notifyRsrcStatus m n t
    | WIFISubscriber _ _ _ _ \<Rightarrow> WIFI_notifyRsrcStatus n t)"

text \<open>The callbacks given to \<open>linked_list_search\<close>.\<close>

definition hasSubscriber :: "Notification \<Rightarrow> unit \<Rightarrow> subscriber \<Rightarrow> bool \<times> unit" where
  "hasSubscriber n u t = (forMe n t, u)"

definition notifySubscriber ::
    "AgpsStateMachine \<Rightarrow> Notification \<Rightarrow> agps_out list \<Rightarrow> subscriber \<Rightarrow> bool \<times> agps_out list" where
  "notifySubscriber m n evs t =
    (let (notified, ev) = notifyRsrcStatus m n t in (notified \<and> postNotifyDelete n, evs @ ev))"


section \<open>The state machine's list operations\<close>

definition find_sub :: "Notification \<Rightarrow> subscriber list \<Rightarrow> nat option" where
  "find_sub n subs = fst (find_eff (hasSubscriber n) () subs)"

definition hasSubscribers :: "AgpsStateMachine \<Rightarrow> bool" where
  "hasSubscribers m \<longleftrightarrow> mSubscribers m \<noteq> []"

definition hasActiveSubscribers :: "AgpsStateMachine \<Rightarrow> bool" where
  "hasActiveSubscribers m \<longleftrightarrow> find_sub (broadcast_query BROADCAST_ACTIVE) (mSubscribers m) \<noteq> None"

definition dropAllSubscribers :: "AgpsStateMachine \<Rightarrow> AgpsStateMachine" where
  "dropAllSubscribers m = m\<lparr>mSubscribers := []\<rparr>"

lemma find_eff_bound: "find_eff eq w xs = (Some i, w') \<Longrightarrow> i < length xs"
  by (induction xs arbitrary: w i w') (auto split: prod.splits if_splits)

lemma length_remove_nth: "i < length xs \<Longrightarrow> length (remove_nth i xs) < length xs"
  by (simp add: remove_nth_def)

text \<open>The loop of \<open>notifySubscribers\<close> that takes one hit at a time out of the list.\<close>

function notify_delete_loop :: "Notification \<Rightarrow> AgpsStateMachine \<Rightarrow> AgpsStateMachine" where
  "notify_delete_loop n m =
    (case find_eff (notifySubscriber m n) (sm_out m) (mSubscribers m) of
       (None, evs) \<Rightarrow> m\<lparr>sm_out := evs\<rparr>
     | (Some i, evs) \<Rightarrow>
         notify_delete_loop n (m\<lparr>sm_out := evs, mSubscribers := remove_nth i (mSubscribers m)\<rparr>))"
  by pat_completeness auto
termination
  by (relation "measure (\<lambda>(n, m). length (mSubscribers m))")
     (auto dest!: find_eff_bound [OF sym] intro: length_remove_nth)

declare notify_delete_loop.simps [simp del]

definition notifySubscribers :: "Notification \<Rightarrow> AgpsStateMachine \<Rightarrow> AgpsStateMachine" where
  "notifySubscribers n m =
    (if postNotifyDelete n then notify_delete_loop n m
     else m\<lparr>sm_out := snd (find_eff (notifySubscriber m n) (sm_out m) (mSubscribers m))\<rparr>)"

definition addSubscriber :: "subscriber \<Rightarrow> AgpsStateMachine \<Rightarrow> AgpsStateMachine" where
  "addSubscriber s m = (case find_sub (subscriber_query s) (mSubscribers m) of
      None \<Rightarrow> m\<lparr>mSubscribers := clone s # mSubscribers m\<rparr>
    | Some _ \<Rightarrow> m)"

definition sendRsrcRequest :: "AGpsStatusValue \<Rightarrow> AgpsStateMachine \<Rightarrow> AgpsStateMachine" where
  "sendRsrcRequest action m =
    (let s = find_sub (broadcast_query BROADCAST_ACTIVE) (mSubscribers m) in
     if (s = None) = (GPS_RELEASE_AGPS_DATA_CONN = action) then
       let base = \<lparr>ags_size = sizeof_AGpsStatus, ags_type = mType m, ags_status = action,
                   ags_ipv4 = None, ags_ipv6 = None, ags_ssid = None, ags_password = None\<rparr>;
           nifRequest = (case s of
               None \<Rightarrow> base\<lparr>ags_ipv4 := Some INADDR_NONE, ags_ipv6 := Some [0],
                            ags_ssid := Some [], ags_password := Some []\<rparr>
             | Some i \<Rightarrow>
                 let (v4, v6) = setIPAddresses (mSubscribers m ! i);
                     (ssid, password) = setWifiInfo (mSubscribers m ! i)
                 in base\<lparr>ags_ipv4 := v4, ags_ipv6 := v6, ags_ssid := ssid, ags_password := password\<rparr>)
       in m\<lparr>sm_out := sm_out m @ [NifRequest nifRequest]\<rparr>
     else m)"

section \<open>The four states\<close>

text \<open>A handler returns the next state and the machine; the caller stores the state.\<close>

fun AgpsReleasedState_onRsrcEvent ::
    "rsrc_event \<Rightarrow> AgpsStateMachine \<Rightarrow> agps_state \<times> AgpsStateMachine" where
  "AgpsReleasedState_onRsrcEvent (Subscribe s) m =
     (let m1 = addSubscriber s m
      in (AgpsPendingState, sendRsrcRequest GPS_REQUEST_AGPS_DATA_CONN m1))"
| "AgpsReleasedState_onRsrcEvent (Unsubscribe i) m =
     (let s = mSubscribers m ! i;
          (_, ev) = notifyRsrcStatus m (subscriber_notification s RSRC_UNSUBSCRIBE False) s
      in (AgpsReleasedState, m\<lparr>sm_out := sm_out m @ ev\<rparr>))"
| "AgpsReleasedState_onRsrcEvent Granted m = (AgpsReleasedState, m)"
| "AgpsReleasedState_onRsrcEvent Released m = (AgpsReleasedState, m)"
| "AgpsReleasedState_onRsrcEvent Denied m = (AgpsReleasedState, m)"

text \<open>The first half of \<open>RSRC_UNSUBSCRIBE\<close> in the three other states.\<close>

definition unsubscribe_listed :: "nat \<Rightarrow> AgpsStateMachine \<Rightarrow> AgpsStateMachine" where
  "unsubscribe_listed i m =
    (let s = mSubscribers m ! i in
     if waitForCloseComplete s then m\<lparr>mSubscribers := (mSubscribers m)[i := setInactive s]\<rparr>
     else notifySubscribers (subscriber_notification s RSRC_UNSUBSCRIBE True) m)"

text \<open>Its second half in the pending and in the acquired state.\<close>

definition release_if_unused ::
    "agps_state \<Rightarrow> AgpsStateMachine \<Rightarrow> agps_state \<times> AgpsStateMachine" where
  "release_if_unused stay m =
    (if \<not> hasSubscribers m
     then (AgpsReleasedState, sendRsrcRequest GPS_RELEASE_AGPS_DATA_CONN m)
     else if \<not> hasActiveSubscribers m
     then (AgpsReleasingState, sendRsrcRequest GPS_RELEASE_AGPS_DATA_CONN m)
     else (stay, m))"

fun AgpsPendingState_onRsrcEvent ::
    "rsrc_event \<Rightarrow> AgpsStateMachine \<Rightarrow> agps_state \<times> AgpsStateMachine" where
  "AgpsPendingState_onRsrcEvent (Subscribe s) m = (AgpsPendingState, addSubscriber s m)"
| "AgpsPendingState_onRsrcEvent (Unsubscribe i) m =
     release_if_unused AgpsPendingState (unsubscribe_listed i m)"
| "AgpsPendingState_onRsrcEvent Granted m =
     (AgpsAcquiredState,
      notifySubscribers (broadcast_notification BROADCAST_ACTIVE RSRC_GRANTED False) m)"
| "AgpsPendingState_onRsrcEvent Released m = (AgpsPendingState, m)"
| "AgpsPendingState_onRsrcEvent Denied m =
     (AgpsReleasedState,
      notifySubscribers (broadcast_notification BROADCAST_ALL RSRC_DENIED True) m)"

fun AgpsAcquiredState_onRsrcEvent ::
    "rsrc_event \<Rightarrow> AgpsStateMachine \<Rightarrow> agps_state \<times> AgpsStateMachine" where
  "AgpsAcquiredState_onRsrcEvent (Subscribe s) m =
     (let (_, ev) = notifyRsrcStatus m (subscriber_notification s RSRC_GRANTED False) s
      in (AgpsAcquiredState, addSubscriber s (m\<lparr>sm_out := sm_out m @ ev\<rparr>)))"
| "AgpsAcquiredState_onRsrcEvent (Unsubscribe i) m =
     release_if_unused AgpsAcquiredState (unsubscribe_listed i m)"
| "AgpsAcquiredState_onRsrcEvent Granted m = (AgpsAcquiredState, m)"
| "AgpsAcquiredState_onRsrcEvent Released m =
     (AgpsReleasedState,
      notifySubscribers (broadcast_notification BROADCAST_ALL RSRC_RELEASED True) m)"
| "AgpsAcquiredState_onRsrcEvent Denied m = (AgpsAcquiredState, m)"

text \<open>\<open>RSRC_DENIED\<close> and \<open>RSRC_RELEASED\<close> share their code in the releasing state.\<close>

definition releasing_done ::
    "AgpsRsrcStatus \<Rightarrow> AgpsStateMachine \<Rightarrow> agps_state \<times> AgpsStateMachine" where
  "releasing_done event m =
    (let m1 = notifySubscribers (broadcast_notification BROADCAST_INACTIVE event True) m in
     if hasSubscribers m1
     then (AgpsPendingState, sendRsrcRequest GPS_REQUEST_AGPS_DATA_CONN m1)
     else (AgpsReleasedState, m1))"

fun AgpsReleasingState_onRsrcEvent ::
    "rsrc_event \<Rightarrow> AgpsStateMachine \<Rightarrow> agps_state \<times> AgpsStateMachine" where
  "AgpsReleasingState_onRsrcEvent (Subscribe s) m = (AgpsReleasingState, addSubscriber s m)"
| "AgpsReleasingState_onRsrcEvent (Unsubscribe i) m =
     (let m1 = unsubscribe_listed i m
      in (if \<not> hasSubscribers m1 then AgpsReleasedState else AgpsReleasingState, m1))"
| "AgpsReleasingState_onRsrcEvent Granted m = (AgpsReleasingState, m)"
| "AgpsReleasingState_onRsrcEvent Released m = releasing_done RSRC_RELEASED m"
| "AgpsReleasingState_onRsrcEvent Denied m = releasing_done RSRC_DENIED m"

section \<open>The machine's interface\<close>

definition dispatch :: "rsrc_event \<Rightarrow> AgpsStateMachine \<Rightarrow> AgpsStateMachine" where
  "dispatch e m =
    (let (next, m') = (case mStatePtr m of
         AgpsReleasedState \<Rightarrow> AgpsReleasedState_onRsrcEvent e m
       | AgpsPendingState \<Rightarrow> AgpsPendingState_onRsrcEvent e m
       | AgpsAcquiredState \<Rightarrow> AgpsAcquiredState_onRsrcEvent e m
       | AgpsReleasingState \<Rightarrow> AgpsReleasingState_onRsrcEvent e m)
     in m'\<lparr>mStatePtr := next\<rparr>)"

definition new_AgpsStateMachine ::
    "AGpsBearerType \<Rightarrow> AGpsType \<Rightarrow> bool \<Rightarrow> AgpsStateMachine" where
  "new_AgpsStateMachine bearer_junk ty enforceSingleSubscriber =
     \<lparr>mType = ty, mStatePtr = AgpsReleasedState, mSubscribers = [], mAPN = None, mAPNLen = 0,
      mBearer = bearer_junk, mEnforceSingleSubscriber = enforceSingleSubscriber, sm_out = []\<rparr>"

definition delete_AgpsStateMachine :: "AgpsStateMachine \<Rightarrow> AgpsStateMachine" where
  "delete_AgpsStateMachine m = (dropAllSubscribers m)\<lparr>mAPN := None\<rparr>"

definition setBearer :: "AGpsBearerType \<Rightarrow> AgpsStateMachine \<Rightarrow> AgpsStateMachine" where
  "setBearer bearer m = m\<lparr>mBearer := bearer\<rparr>"

definition setAPN :: "string option \<Rightarrow> nat \<Rightarrow> AgpsStateMachine \<Rightarrow> AgpsStateMachine" where
  "setAPN apn len m = (case apn of
      Some a \<Rightarrow> m\<lparr>mAPN := Some (take len a), mAPNLen := len\<rparr>
    | None \<Rightarrow> m\<lparr>mAPN := None, mAPNLen := 0\<rparr>)"

definition onRsrcEvent :: "AgpsRsrcStatus \<Rightarrow> AgpsStateMachine \<Rightarrow> AgpsStateMachine" where
  "onRsrcEvent event m = (case event of
      RSRC_GRANTED \<Rightarrow> dispatch Granted m
    | RSRC_RELEASED \<Rightarrow> dispatch Released m
    | RSRC_DENIED \<Rightarrow> dispatch Denied m
    | _ \<Rightarrow> m)"

definition subscribeRsrc :: "subscriber \<Rightarrow> AgpsStateMachine \<Rightarrow> AgpsStateMachine" where
  "subscribeRsrc s m =
    (if mEnforceSingleSubscriber m \<and> hasSubscribers m
     then m\<lparr>sm_out := snd (notifySubscriber m
              (broadcast_notification BROADCAST_ALL RSRC_DENIED True) (sm_out m) s)\<rparr>
     else dispatch (Subscribe s) m)"

definition unsubscribeRsrc :: "subscriber \<Rightarrow> AgpsStateMachine \<Rightarrow> bool \<times> AgpsStateMachine" where
  "unsubscribeRsrc s m = (case find_sub (subscriber_query s) (mSubscribers m) of
      Some i \<Rightarrow> (True, dispatch (Unsubscribe i) m)
    | None \<Rightarrow> (False, m))"

end
