(* ===== verification/Agps_Correct.thy ===== *)
theory Agps_Correct
  imports Agps
begin

text \<open>
  Correctness of the AGPS state machine: what a notification does to the list and to the outside,
  the invariant that ties the state to the subscribers, and the protocol towards the connectivity
  service.
\<close>

section \<open>Searching the subscribers\<close>

lemma find_sub_simps [simp]:
  "find_sub n [] = None"
  "find_sub n (s # subs) = (if forMe n s then Some 0 else map_option Suc (find_sub n subs))"
  by (auto simp: find_sub_def hasSubscriber_def split: prod.splits)

lemma find_sub_None: "find_sub n subs = None \<longleftrightarrow> (\<forall>s \<in> set subs. \<not> forMe n s)"
  by (induction subs) auto

lemma find_sub_Some: "find_sub n subs = Some i \<Longrightarrow> i < length subs \<and> forMe n (subs ! i)"
  by (induction subs arbitrary: i) (auto split: if_splits)

lemma forMe_simps [simp]:
  "forMe (broadcast_query BROADCAST_ACTIVE) t = (\<not> isInactive t)"
  "forMe (subscriber_query s) t = equals t s"
  "forMe (subscriber_notification s st b) t = equals t s"
  "forMe (broadcast_notification BROADCAST_ALL st b) t"
  "forMe (broadcast_notification BROADCAST_ACTIVE st b) t = (\<not> isInactive t)"
  "forMe (broadcast_notification BROADCAST_INACTIVE st b) t = isInactive t"
  by (simp_all add: forMe_def broadcast_query_def subscriber_query_def subscriber_notification_def
      broadcast_notification_def BROADCAST_ALL_def BROADCAST_ACTIVE_def BROADCAST_INACTIVE_def)

lemma forMe_fun [simp]:
  "forMe (broadcast_query BROADCAST_ACTIVE) = (\<lambda>t. \<not> isInactive t)"
  "forMe (broadcast_notification BROADCAST_ALL st b) = (\<lambda>t. True)"
  "forMe (broadcast_notification BROADCAST_ACTIVE st b) = (\<lambda>t. \<not> isInactive t)"
  "forMe (broadcast_notification BROADCAST_INACTIVE st b) = isInactive"
  by (rule ext, simp)+

lemma notification_simps [simp]:
  "postNotifyDelete (subscriber_notification s st b) = b"
  "postNotifyDelete (broadcast_notification g st b) = b"
  "rsrcStatus (subscriber_notification s st b) = st"
  "rsrcStatus (broadcast_notification g st b) = st"
  by (simp_all add: subscriber_notification_def broadcast_notification_def)

lemma hasActiveSubscribers_iff:
  "hasActiveSubscribers m \<longleftrightarrow> (\<exists>s \<in> set (mSubscribers m). \<not> isInactive s)"
  by (simp add: hasActiveSubscribers_def find_sub_None)

lemma isInactive_clone [simp]: "\<not> isInactive (clone s)"
  by (cases s) (auto simp: new_BITSubscriber_def new_ATLSubscriber_def new_WIFISubscriber_def)

lemma isInactive_setInactive: "isInactive (setInactive s) = waitForCloseComplete s"
  by (cases s) auto

section \<open>Notifications\<close>

text \<open>What a subscriber answers (is it interested?) and what it sends out.\<close>

definition wants :: "AgpsStateMachine \<Rightarrow> Notification \<Rightarrow> subscriber \<Rightarrow> bool" where
  "wants m n t = fst (notifyRsrcStatus m n t)"

definition told :: "AgpsStateMachine \<Rightarrow> Notification \<Rightarrow> subscriber \<Rightarrow> agps_out list" where
  "told m n t = snd (notifyRsrcStatus m n t)"

lemmas notify_defs = notifyRsrcStatus_def BIT_notifyRsrcStatus_def ATL_notifyRsrcStatus_def
  WIFI_notifyRsrcStatus_def

lemma fst_notify:
  "fst (BIT_notifyRsrcStatus n t) \<longleftrightarrow> forMe n t \<and> rsrcStatus n \<in> {RSRC_UNSUBSCRIBE, RSRC_RELEASED, RSRC_DENIED, RSRC_GRANTED}"
  "fst (ATL_notifyRsrcStatus m n t) \<longleftrightarrow> forMe n t \<and> rsrcStatus n \<in> {RSRC_UNSUBSCRIBE, RSRC_RELEASED, RSRC_DENIED, RSRC_GRANTED}"
  "fst (WIFI_notifyRsrcStatus n t) \<longleftrightarrow> forMe n t \<and> rsrcStatus n \<in> {RSRC_UNSUBSCRIBE, RSRC_RELEASED, RSRC_DENIED, RSRC_GRANTED}"
  by (cases "rsrcStatus n"; simp add: BIT_notifyRsrcStatus_def ATL_notifyRsrcStatus_def WIFI_notifyRsrcStatus_def Let_def)+

lemma wants_iff:
  "wants m n t \<longleftrightarrow> forMe n t \<and> rsrcStatus n \<in> {RSRC_UNSUBSCRIBE, RSRC_RELEASED, RSRC_DENIED, RSRC_GRANTED}"
  unfolding wants_def notifyRsrcStatus_def by (simp only: fst_notify split: subscriber.split) blast

lemma snd_notify:
  "\<not> fst (BIT_notifyRsrcStatus n t) \<Longrightarrow> snd (BIT_notifyRsrcStatus n t) = []"
  "\<not> fst (ATL_notifyRsrcStatus m n t) \<Longrightarrow> snd (ATL_notifyRsrcStatus m n t) = []"
  "\<not> fst (WIFI_notifyRsrcStatus n t) \<Longrightarrow> snd (WIFI_notifyRsrcStatus n t) = []"
  by (cases "rsrcStatus n"; simp add: BIT_notifyRsrcStatus_def ATL_notifyRsrcStatus_def WIFI_notifyRsrcStatus_def Let_def split: if_splits)+

lemma told_nothing: "\<not> wants m n t \<Longrightarrow> told m n t = []"
  unfolding wants_def told_def notifyRsrcStatus_def by (cases t) (simp_all add: snd_notify)

lemma told_cong [simp]:
  "told (m\<lparr>mSubscribers := x\<rparr>) n t = told m n t" "told (m\<lparr>sm_out := y\<rparr>) n t = told m n t"
  "wants (m\<lparr>mSubscribers := x\<rparr>) n t = wants m n t" "wants (m\<lparr>sm_out := y\<rparr>) n t = wants m n t"
  by (auto simp: told_def wants_def notify_defs Let_def split: subscriber.splits AgpsRsrcStatus.splits)

lemma told_cong_fun [simp]:
  "told (m\<lparr>mSubscribers := x\<rparr>) n = told m n" "told (m\<lparr>sm_out := y\<rparr>) n = told m n"
  by (rule ext, simp)+

lemma notifySubscriber_eq:
  "notifySubscriber m n evs t = (wants m n t \<and> postNotifyDelete n, evs @ told m n t)"
  by (simp add: notifySubscriber_def wants_def told_def split: prod.splits)

lemma told_not_nif: "NifRequest r \<notin> set (told m n t)"
  by (auto simp: told_def notify_defs Let_def split: subscriber.splits AgpsRsrcStatus.splits if_splits)

lemma find_eff_keep:
  "\<not> postNotifyDelete n \<Longrightarrow>
   find_eff (notifySubscriber m n) evs xs = (None, evs @ concat (map (told m n) xs))"
  by (induction xs arbitrary: evs) (auto simp: notifySubscriber_eq)

lemma find_eff_delete:
  assumes "postNotifyDelete n"
  shows "(case find_eff (notifySubscriber m n) evs xs of
       (None, evs') \<Rightarrow> (\<forall>t \<in> set xs. \<not> wants m n t) \<and> evs' = evs
     | (Some i, evs') \<Rightarrow> i < length xs \<and> wants m n (xs ! i) \<and> (\<forall>t \<in> set (take i xs). \<not> wants m n t)
          \<and> evs' = evs @ told m n (xs ! i))"
proof (induction xs arbitrary: evs)
  case (Cons x xs)
  show ?case
  proof (cases "wants m n x")
    case True
    with assms show ?thesis by (simp add: notifySubscriber_eq)
  next
    case False
    with Cons.IH [of evs] show ?thesis
      by (auto simp: notifySubscriber_eq told_nothing split: prod.splits option.splits)
  qed
qed simp

lemma concat_told_filter: "concat (map (told m n) xs) = concat (map (told m n) (filter (wants m n) xs))"
  by (induction xs) (auto simp: told_nothing)

text \<open>
  The delete loop removes every interested subscriber and tells each of them once, from the head
  of the list to its tail, although every removal restarts the search at the head.
\<close>

lemma notify_delete_loop_eq:
  "postNotifyDelete n \<Longrightarrow> notify_delete_loop n m =
     m\<lparr>mSubscribers := filter (\<lambda>t. \<not> wants m n t) (mSubscribers m),
       sm_out := sm_out m @ concat (map (told m n) (mSubscribers m))\<rparr>"
proof (induction n m rule: notify_delete_loop.induct)
  case (1 n m)
  let ?xs = "mSubscribers m"
  obtain r evs where f: "find_eff (notifySubscriber m n) (sm_out m) ?xs = (r, evs)" by fastforce
  note spec = find_eff_delete [OF 1(2), where m = m and evs = "sm_out m" and xs = ?xs, unfolded f]
  show ?case
  proof (cases r)
    case None
    with spec have none: "\<forall>t \<in> set ?xs. \<not> wants m n t" and "evs = sm_out m" by auto
    moreover have "concat (map (told m n) ?xs) = []" using none by (simp add: told_nothing)
    moreover have "filter (\<lambda>t. \<not> wants m n t) ?xs = ?xs" using none by simp
    ultimately show ?thesis
      using None f by (subst notify_delete_loop.simps) simp
  next
    case (Some i)
    with spec have i: "i < length ?xs" "wants m n (?xs ! i)" "\<forall>t \<in> set (take i ?xs). \<not> wants m n t"
      and evs: "evs = sm_out m @ told m n (?xs ! i)" by auto
    have xs: "?xs = take i ?xs @ ?xs ! i # drop (Suc i) ?xs" using i(1) by (rule id_take_nth_drop)
    define m1 where "m1 = m\<lparr>sm_out := evs, mSubscribers := remove_nth i ?xs\<rparr>"
    have step: "notify_delete_loop n m = notify_delete_loop n m1"
      using f Some by (subst notify_delete_loop.simps) (simp add: m1_def)
    have IH: "notify_delete_loop n m1 = m1\<lparr>mSubscribers := filter (\<lambda>t. \<not> wants m1 n t) (mSubscribers m1),
        sm_out := sm_out m1 @ concat (map (told m1 n) (mSubscribers m1))\<rparr>"
      using 1 f Some by (simp add: m1_def)
    have pre: "concat (map (told m n) (take i ?xs)) = []" "filter (\<lambda>t. \<not> wants m n t) (take i ?xs) = take i ?xs"
      using i(3) by (auto simp: told_nothing)
    have "concat (map (told m n) ?xs) = told m n (?xs ! i) @ concat (map (told m n) (drop (Suc i) ?xs))"
      by (subst xs) (simp add: pre)
    moreover have "filter (\<lambda>t. \<not> wants m n t) ?xs = take i ?xs @ filter (\<lambda>t. \<not> wants m n t) (drop (Suc i) ?xs)"
      by (subst xs) (simp add: pre i(2))
    ultimately show ?thesis
      unfolding step IH by (simp add: m1_def evs remove_nth_def pre)
  qed
qed

lemma notifySubscribers_eq:
  "notifySubscribers n m = m\<lparr>
     mSubscribers := (if postNotifyDelete n then filter (\<lambda>t. \<not> wants m n t) (mSubscribers m) else mSubscribers m),
     sm_out := sm_out m @ concat (map (told m n) (mSubscribers m))\<rparr>"
  by (cases m) (simp add: notifySubscribers_def notify_delete_loop_eq find_eff_keep)

lemma notify_released_all:
  "notifySubscribers (broadcast_notification BROADCAST_ALL st True) m = m\<lparr>
     mSubscribers := (if st \<in> {RSRC_UNSUBSCRIBE, RSRC_RELEASED, RSRC_DENIED, RSRC_GRANTED} then [] else mSubscribers m),
     sm_out := sm_out m @ concat (map (told m (broadcast_notification BROADCAST_ALL st True)) (mSubscribers m))\<rparr>"
  by (auto simp: notifySubscribers_eq wants_iff)

section \<open>What the subscribers are told\<close>

text \<open>The message a subscriber gets for each answer of the connectivity service.\<close>

fun answer :: "AgpsStateMachine \<Rightarrow> AgpsRsrcStatus \<Rightarrow> subscriber \<Rightarrow> agps_out" where
  "answer m st (BITSubscriber i a) = DataConn LOC_ENG_IF_REQUEST_SENDER_ID_GPSONE_DAEMON
     (if st = RSRC_GRANTED then GPSONE_LOC_API_IF_REQUEST_SUCCESS
      else if st = RSRC_DENIED then GPSONE_LOC_API_IF_FAILURE
      else GPSONE_LOC_API_IF_RELEASE_SUCCESS)"
| "answer m st (ATLSubscriber i bc) =
     (if st = RSRC_RELEASED then AtlCloseStatus i 1
      else AtlOpenStatus i (if st = RSRC_GRANTED then 1 else 0) (mAPN m) (mBearer m)
             (if bc then AGPS_TYPE_INVALID else mType m))"
| "answer m st (WIFISubscriber s p sid b) = DataConn sid
     (if st = RSRC_GRANTED then GPSONE_LOC_API_IF_REQUEST_SUCCESS
      else if st = RSRC_DENIED then GPSONE_LOC_API_IF_FAILURE
      else GPSONE_LOC_API_IF_RELEASE_SUCCESS)"

lemma told_answer:
  "rsrcStatus n \<in> {RSRC_GRANTED, RSRC_DENIED, RSRC_RELEASED} \<Longrightarrow>
   told m n t = (if forMe n t then [answer m (rsrcStatus n) t] else [])"
  by (cases t) (auto simp: told_def notify_defs Let_def)

lemma concat_map_if: "concat (map (\<lambda>t. if P t then [f t] else []) xs) = map f (filter P xs)"
  by (induction xs) auto

lemma concat_told_answer:
  assumes "rsrcStatus n \<in> {RSRC_GRANTED, RSRC_DENIED, RSRC_RELEASED}"
  shows "concat (map (told m n) xs) = map (answer m (rsrcStatus n)) (filter (forMe n) xs)"
  unfolding concat_map_if [symmetric] using told_answer [OF assms] by presburger

lemma notify_answer:
  assumes "rsrcStatus n \<in> {RSRC_GRANTED, RSRC_DENIED, RSRC_RELEASED}"
  shows "notifySubscribers n m = m\<lparr>
     mSubscribers := (if postNotifyDelete n then filter (\<lambda>t. \<not> forMe n t) (mSubscribers m) else mSubscribers m),
     sm_out := sm_out m @ map (answer m (rsrcStatus n)) (filter (forMe n) (mSubscribers m))\<rparr>"
  using assms by (auto simp: notifySubscribers_eq concat_told_answer wants_iff)

section \<open>The operations, seen from outside\<close>

datatype agps_op =
    Op_Subscribe subscriber | Op_Unsubscribe subscriber | Op_Event AgpsRsrcStatus
  | Op_SetAPN "string option" nat | Op_SetBearer AGpsBearerType | Op_Drop

fun agps_do :: "agps_op \<Rightarrow> AgpsStateMachine \<Rightarrow> AgpsStateMachine" where
  "agps_do (Op_Subscribe s) m = subscribeRsrc s m"
| "agps_do (Op_Unsubscribe s) m = snd (unsubscribeRsrc s m)"
| "agps_do (Op_Event e) m = onRsrcEvent e m"
| "agps_do (Op_SetAPN a l) m = setAPN a l m"
| "agps_do (Op_SetBearer b) m = setBearer b m"
| "agps_do Op_Drop m = dropAllSubscribers m"

definition agps_run :: "agps_op list \<Rightarrow> AgpsStateMachine \<Rightarrow> AgpsStateMachine" where
  "agps_run ops m = fold agps_do ops m"

lemma agps_run_simps [simp]:
  "agps_run [] m = m" "agps_run (op # ops) m = agps_run ops (agps_do op m)"
  by (simp_all add: agps_run_def)

lemma agps_run_inv:
  assumes "\<And>op m. op \<in> set ops \<Longrightarrow> P m \<Longrightarrow> P (agps_do op m)" "P m"
  shows "P (agps_run ops m)"
  using assms by (induction ops arbitrary: m) auto

text \<open>Each kind of dispatched event.\<close>

lemma addSubscriber_simps [simp]:
  "mStatePtr (addSubscriber s m) = mStatePtr m" "sm_out (addSubscriber s m) = sm_out m"
  "mEnforceSingleSubscriber (addSubscriber s m) = mEnforceSingleSubscriber m"
  by (simp_all add: addSubscriber_def split: option.split)

lemma addSubscriber_subs:
  "mSubscribers (addSubscriber s m) =
    (if \<exists>t \<in> set (mSubscribers m). equals t s then mSubscribers m else clone s # mSubscribers m)"
  using find_sub_None [of "subscriber_query s" "mSubscribers m"]
  by (auto simp: addSubscriber_def split: option.split)

text \<open>The request that is sent to the connectivity service, and its two guards.\<close>

definition nif_request :: "AGpsStatusValue \<Rightarrow> AgpsStateMachine \<Rightarrow> AGpsStatus" where
  "nif_request action m = \<lparr>ags_size = sizeof_AGpsStatus, ags_type = mType m, ags_status = action,
     ags_ipv4 = (case filter (\<lambda>t. \<not> isInactive t) (mSubscribers m) of [] \<Rightarrow> Some INADDR_NONE
        | t # _ \<Rightarrow> fst (setIPAddresses t)),
     ags_ipv6 = (case filter (\<lambda>t. \<not> isInactive t) (mSubscribers m) of [] \<Rightarrow> Some [0]
        | t # _ \<Rightarrow> snd (setIPAddresses t)),
     ags_ssid = (case filter (\<lambda>t. \<not> isInactive t) (mSubscribers m) of [] \<Rightarrow> Some []
        | t # _ \<Rightarrow> fst (setWifiInfo t)),
     ags_password = (case filter (\<lambda>t. \<not> isInactive t) (mSubscribers m) of [] \<Rightarrow> Some []
        | t # _ \<Rightarrow> snd (setWifiInfo t))\<rparr>"

lemma find_sub_filter:
  "find_sub n xs = None \<Longrightarrow> filter (forMe n) xs = []"
  "find_sub n xs = Some i \<Longrightarrow> \<exists>ys. filter (forMe n) xs = xs ! i # ys"
  by (induction xs arbitrary: i) (auto split: if_splits)

lemma sendRsrcRequest_eq:
  "sendRsrcRequest action m =
    (if hasActiveSubscribers m \<longleftrightarrow> action \<noteq> GPS_RELEASE_AGPS_DATA_CONN
     then m\<lparr>sm_out := sm_out m @ [NifRequest (nif_request action m)]\<rparr> else m)"
proof (cases "find_sub (broadcast_query BROADCAST_ACTIVE) (mSubscribers m)")
  case None
  from find_sub_filter(1) [OF this] have "filter (\<lambda>t. \<not> isInactive t) (mSubscribers m) = []" by simp
  with None show ?thesis
    by (simp add: sendRsrcRequest_def hasActiveSubscribers_def nif_request_def Let_def)
next
  case (Some i)
  from find_sub_filter(2) [OF this] obtain ys
    where "filter (\<lambda>t. \<not> isInactive t) (mSubscribers m) = mSubscribers m ! i # ys" by auto
  with Some show ?thesis
    by (simp add: sendRsrcRequest_def hasActiveSubscribers_def nif_request_def Let_def split: prod.split)
qed

end
