(* ===== verification/Agps_Inv.thy ===== *)
theory Agps_Inv
  imports Agps_Correct
begin

text \<open>
  Invariants of the AGPS state machine over arbitrary sequences of its operations: the state
  agrees with the subscriber list, no client is listed twice, and requests and releases of the
  data connection alternate as the connectivity service expects.
\<close>

section \<open>The dispatched events\<close>

lemma unsubscribe_listed_eq:
  "unsubscribe_listed i m =
    (let s = mSubscribers m ! i in
     if waitForCloseComplete s then m\<lparr>mSubscribers := (mSubscribers m)[i := setInactive s]\<rparr>
     else m\<lparr>mSubscribers := filter (\<lambda>t. \<not> equals t s) (mSubscribers m),
            sm_out := sm_out m @ concat (map (told m (subscriber_notification s RSRC_UNSUBSCRIBE True)) (mSubscribers m))\<rparr>)"
  by (simp add: unsubscribe_listed_def notifySubscribers_eq wants_iff Let_def)

lemma unsubscribe_listed_fields [simp]:
  "mStatePtr (unsubscribe_listed i m) = mStatePtr m"
  "mEnforceSingleSubscriber (unsubscribe_listed i m) = mEnforceSingleSubscriber m"
  "mType (unsubscribe_listed i m) = mType m"
  by (simp_all add: unsubscribe_listed_eq Let_def)

lemma hasActive_update [simp]:
  "hasActiveSubscribers (m\<lparr>mStatePtr := st\<rparr>) = hasActiveSubscribers m"
  "hasActiveSubscribers (m\<lparr>sm_out := evs\<rparr>) = hasActiveSubscribers m"
  "hasSubscribers (m\<lparr>mStatePtr := st\<rparr>) = hasSubscribers m"
  "hasSubscribers (m\<lparr>sm_out := evs\<rparr>) = hasSubscribers m"
  by (simp_all add: hasActiveSubscribers_iff hasSubscribers_def)

lemma send_fields [simp]:
  "mStatePtr (sendRsrcRequest a m) = mStatePtr m"
  "mSubscribers (sendRsrcRequest a m) = mSubscribers m"
  "mEnforceSingleSubscriber (sendRsrcRequest a m) = mEnforceSingleSubscriber m"
  by (simp_all add: sendRsrcRequest_eq)

lemma hasActive_hasSubscribers: "hasActiveSubscribers m \<Longrightarrow> hasSubscribers m"
  by (auto simp: hasActiveSubscribers_iff hasSubscribers_def)

lemma addSubscriber_active:
  "hasActiveSubscribers m \<Longrightarrow> hasActiveSubscribers (addSubscriber s m)"
  "mSubscribers m = [] \<Longrightarrow> hasActiveSubscribers (addSubscriber s m)"
  by (auto simp: hasActiveSubscribers_iff addSubscriber_subs)

lemma addSubscriber_has: "hasSubscribers (addSubscriber s m)"
  by (auto simp: hasSubscribers_def addSubscriber_subs)

text \<open>\<open>RSRC_RELEASED\<close> or \<open>RSRC_DENIED\<close> in the releasing state.\<close>

lemma releasing_done_eq:
  assumes "st \<in> {RSRC_DENIED, RSRC_RELEASED}"
  shows "releasing_done st m =
    (let act = filter (\<lambda>t. \<not> isInactive t) (mSubscribers m);
         m1 = m\<lparr>mSubscribers := act, sm_out := sm_out m @ map (answer m st) (filter isInactive (mSubscribers m))\<rparr>
     in if act = [] then (AgpsReleasedState, m1)
        else (AgpsPendingState, m1\<lparr>sm_out := sm_out m1 @ [NifRequest (nif_request GPS_REQUEST_AGPS_DATA_CONN m1)]\<rparr>))"
proof -
  let ?act = "filter (\<lambda>t. \<not> isInactive t) (mSubscribers m)"
  have *: "?act \<noteq> [] \<Longrightarrow> \<exists>s\<in>set (mSubscribers m). \<not> isInactive s" by (auto simp: filter_empty_conv)
  show ?thesis using assms *
    by (auto simp: releasing_done_def notify_answer sendRsrcRequest_eq hasSubscribers_def
        hasActiveSubscribers_iff Let_def)
qed

section \<open>The state agrees with the subscribers\<close>

fun state_inv :: "agps_state \<Rightarrow> subscriber list \<Rightarrow> bool" where
  "state_inv AgpsReleasedState subs = (subs = [])"
| "state_inv AgpsPendingState subs = (\<exists>s \<in> set subs. \<not> isInactive s)"
| "state_inv AgpsAcquiredState subs = (\<exists>s \<in> set subs. \<not> isInactive s)"
| "state_inv AgpsReleasingState subs = (subs \<noteq> [])"

definition agps_inv :: "AgpsStateMachine \<Rightarrow> bool" where
  "agps_inv m \<longleftrightarrow> state_inv (mStatePtr m) (mSubscribers m)"

lemma state_inv_pending: "state_inv AgpsPendingState (mSubscribers m) = hasActiveSubscribers m"
  by (simp add: hasActiveSubscribers_iff)

lemma release_if_unused_inv:
  "release_if_unused stay m = (st, m') \<Longrightarrow> stay \<in> {AgpsPendingState, AgpsAcquiredState} \<Longrightarrow>
   state_inv st (mSubscribers m')"
  by (auto simp: release_if_unused_def hasSubscribers_def hasActiveSubscribers_iff split: if_splits)

lemma dispatch_inv:
  assumes inv: "agps_inv m" and i: "\<And>i. e = Unsubscribe i \<Longrightarrow> i < length (mSubscribers m)"
  shows "agps_inv (dispatch e m)"
proof (cases "mStatePtr m")
  case AgpsReleasedState
  with inv have "mSubscribers m = []" by (simp add: agps_inv_def)
  with AgpsReleasedState i show ?thesis
    by (cases e) (auto simp: dispatch_def agps_inv_def Let_def addSubscriber_subs split: prod.split)
next
  case AgpsPendingState
  with inv have "hasActiveSubscribers m" by (simp add: agps_inv_def hasActiveSubscribers_iff)
  with AgpsPendingState show ?thesis
    by (cases e) (auto simp: dispatch_def agps_inv_def Let_def addSubscriber_subs notify_answer
        hasActiveSubscribers_iff split: prod.splits intro: release_if_unused_inv)
next
  case AgpsAcquiredState
  with inv have "hasActiveSubscribers m" by (simp add: agps_inv_def hasActiveSubscribers_iff)
  with AgpsAcquiredState show ?thesis
    by (cases e) (auto simp: dispatch_def agps_inv_def Let_def addSubscriber_subs notify_answer
        hasActiveSubscribers_iff split: prod.splits intro: release_if_unused_inv)
next
  case AgpsReleasingState
  with inv have "mSubscribers m \<noteq> []" by (simp add: agps_inv_def)
  with AgpsReleasingState show ?thesis
    by (cases e) (auto simp: dispatch_def agps_inv_def Let_def addSubscriber_subs releasing_done_eq
        hasSubscribers_def filter_empty_conv)
qed

lemma agps_do_inv:
  assumes "agps_inv m" "op \<noteq> Op_Drop"
  shows "agps_inv (agps_do op m)"
proof (cases op)
  case (Op_Subscribe s)
  with assms show ?thesis
    using dispatch_inv [of m "Subscribe s"] by (auto simp: subscribeRsrc_def agps_inv_def)
next
  case (Op_Unsubscribe s)
  with assms show ?thesis
    using dispatch_inv [of m] find_sub_Some [of "subscriber_query s" "mSubscribers m"]
    by (auto simp: unsubscribeRsrc_def agps_inv_def split: option.split)
next
  case (Op_Event st)
  with assms show ?thesis
    using dispatch_inv [of m] by (auto simp: onRsrcEvent_def split: AgpsRsrcStatus.split)
qed (use assms in \<open>auto simp: setAPN_def setBearer_def agps_inv_def split: option.split\<close>)

section \<open>Requests and releases of the data connection\<close>

fun nif_log :: "agps_out list \<Rightarrow> AGpsStatusValue list" where
  "nif_log [] = []"
| "nif_log (NifRequest r # evs) = ags_status r # nif_log evs"
| "nif_log (ev # evs) = nif_log evs"

lemma nif_log_append [simp]: "nif_log (xs @ ys) = nif_log xs @ nif_log ys"
  by (induction xs rule: nif_log.induct) auto

lemma nif_log_none: "\<forall>r. NifRequest r \<notin> set evs \<Longrightarrow> nif_log evs = []"
  by (induction evs rule: nif_log.induct) auto

lemma nif_log_told [simp]: "nif_log (told m n t) = []"
  by (simp add: nif_log_none told_not_nif)

lemma nif_log_concat_told [simp]: "nif_log (concat (map (told m n) xs)) = []"
  by (induction xs) auto

lemma nif_log_notified [simp]: "nif_log (snd (notifyRsrcStatus m n t)) = []"
  using nif_log_told [of m n t] by (simp add: told_def)

lemma nif_log_answers [simp]: "nif_log (map (answer m st) xs) = []"
proof -
  have "nif_log (answer m st t # evs) = nif_log evs" for t evs by (cases t) auto
  then show ?thesis by (induction xs) auto
qed

text \<open>Every release answers the request right before it.\<close>

fun paired :: "AGpsStatusValue option \<Rightarrow> AGpsStatusValue list \<Rightarrow> bool" where
  "paired prev [] = True"
| "paired prev (a # rest) =
    (a \<in> {GPS_REQUEST_AGPS_DATA_CONN, GPS_RELEASE_AGPS_DATA_CONN} \<and>
     (a = GPS_RELEASE_AGPS_DATA_CONN \<longrightarrow> prev = Some GPS_REQUEST_AGPS_DATA_CONN) \<and> paired (Some a) rest)"

definition last_of :: "'a option \<Rightarrow> 'a list \<Rightarrow> 'a option" where
  "last_of p xs = (if xs = [] then p else Some (last xs))"

lemma paired_snoc: "paired p (xs @ [a]) \<longleftrightarrow> paired p xs \<and> paired (last_of p xs) [a]"
  by (induction p xs rule: paired.induct) (auto simp: last_of_def)

lemma last_of_snoc [simp]: "last_of p (xs @ [a]) = Some a"
  by (simp add: last_of_def)

definition nif_inv :: "AgpsStateMachine \<Rightarrow> bool" where
  "nif_inv m \<longleftrightarrow> paired None (nif_log (sm_out m)) \<and>
    (case mStatePtr m of
       AgpsReleasedState \<Rightarrow> mSubscribers m = []
     | AgpsPendingState \<Rightarrow> last_of None (nif_log (sm_out m)) = Some GPS_REQUEST_AGPS_DATA_CONN
     | AgpsAcquiredState \<Rightarrow> last_of None (nif_log (sm_out m)) = Some GPS_REQUEST_AGPS_DATA_CONN
     | AgpsReleasingState \<Rightarrow> last_of None (nif_log (sm_out m)) = Some GPS_RELEASE_AGPS_DATA_CONN)"

lemma unsubscribe_listed_log [simp]: "nif_log (sm_out (unsubscribe_listed i m)) = nif_log (sm_out m)"
  by (simp add: unsubscribe_listed_eq Let_def)

lemma nif_request_status [simp]: "ags_status (nif_request a m) = a"
  by (simp add: nif_request_def)

lemma release_if_unused_log:
  assumes "release_if_unused stay m = (st, m')" "paired None (nif_log (sm_out m))"
    "last_of None (nif_log (sm_out m)) = Some GPS_REQUEST_AGPS_DATA_CONN"
    "stay \<in> {AgpsPendingState, AgpsAcquiredState}"
  shows "nif_inv (m'\<lparr>mStatePtr := st\<rparr>)"
proof (cases "hasActiveSubscribers m")
  case True
  with assms have "st = stay" "m' = m"
    by (auto simp: release_if_unused_def hasActive_hasSubscribers split: if_splits)
  with assms show ?thesis by (auto simp: nif_inv_def)
next
  case False
  with assms have log: "nif_log (sm_out m') = nif_log (sm_out m) @ [GPS_RELEASE_AGPS_DATA_CONN]"
    by (auto simp: release_if_unused_def sendRsrcRequest_eq split: if_splits)
  moreover have "st = AgpsReleasingState \<or> st = AgpsReleasedState \<and> mSubscribers m' = []"
    using False assms(1)
    by (auto simp: release_if_unused_def sendRsrcRequest_eq hasSubscribers_def split: if_splits)
  ultimately show ?thesis using assms(2,3) by (auto simp: nif_inv_def paired_snoc)
qed

lemma dispatch_unsubscribe_nif:
  assumes "nif_inv m" "mStatePtr m \<in> {AgpsPendingState, AgpsAcquiredState}"
  shows "nif_inv (dispatch (Unsubscribe i) m)"
proof -
  obtain st m' where r: "release_if_unused (mStatePtr m) (unsubscribe_listed i m) = (st, m')" by fastforce
  with assms(2) have "dispatch (Unsubscribe i) m = m'\<lparr>mStatePtr := st\<rparr>" by (auto simp: dispatch_def)
  with assms release_if_unused_log [OF r] show ?thesis by (auto simp: nif_inv_def)
qed

lemma dispatch_nif:
  assumes inv: "nif_inv m" and i: "\<And>i. e = Unsubscribe i \<Longrightarrow> i < length (mSubscribers m)"
  shows "nif_inv (dispatch e m)"
proof (cases "mStatePtr m")
  case AgpsReleasedState
  with inv have "mSubscribers m = []" by (simp add: nif_inv_def)
  with AgpsReleasedState inv i show ?thesis
    by (cases e) (auto simp: dispatch_def nif_inv_def Let_def sendRsrcRequest_eq addSubscriber_active
        paired_snoc split: prod.split)
next
  case AgpsPendingState
  with inv show ?thesis
    by (cases e) (auto simp: dispatch_unsubscribe_nif, auto simp: dispatch_def notify_answer nif_inv_def)
next
  case AgpsAcquiredState
  with inv show ?thesis
    by (cases e) (auto simp: dispatch_unsubscribe_nif,
        auto simp: dispatch_def notify_answer nif_inv_def case_prod_beta)
next
  case AgpsReleasingState
  with inv show ?thesis
    by (cases e) (auto simp: dispatch_def nif_inv_def Let_def releasing_done_eq hasSubscribers_def paired_snoc)
qed

lemma agps_do_nif: "nif_inv m \<Longrightarrow> nif_inv (agps_do op m)"
proof (cases op)
  case (Op_Subscribe s)
  assume "nif_inv m"
  with Op_Subscribe show ?thesis
    using dispatch_nif [of m "Subscribe s"]
    by (auto simp: subscribeRsrc_def notifySubscriber_eq nif_inv_def split: agps_state.split)
next
  case (Op_Unsubscribe s)
  assume "nif_inv m"
  with Op_Unsubscribe show ?thesis
    using dispatch_nif [of m] find_sub_Some [of "subscriber_query s" "mSubscribers m"]
    by (auto simp: unsubscribeRsrc_def split: option.split)
next
  case (Op_Event st)
  assume "nif_inv m"
  with Op_Event show ?thesis
    using dispatch_nif [of m] by (auto simp: onRsrcEvent_def split: AgpsRsrcStatus.split)
qed (auto simp: setAPN_def setBearer_def dropAllSubscribers_def nif_inv_def split: option.split agps_state.splits)

section \<open>No client is listed twice\<close>

text \<open>No subscriber further down the list is equal, for the code's comparison, to one above it.\<close>

definition no_dups :: "subscriber list \<Rightarrow> bool" where
  "no_dups subs \<longleftrightarrow> sorted_wrt (\<lambda>x y. \<not> equals y x) subs"

lemma strncmp_eq_take [simp]: "strncmp_eq n (take n a) b = strncmp_eq n a b" "strncmp_eq n a (take n b) = strncmp_eq n a b"
  by (induction n a b rule: strncmp_eq.induct) auto

lemma sub_ID_setInactive [simp]: "sub_ID (setInactive s) = sub_ID s"
  by (cases s) auto

lemma ipv6_view_setInactive [simp]: "ipv6_view (setInactive s) = ipv6_view s"
  by (cases s) auto

lemma equals_clone [simp]: "equals t (clone s) = equals t s"
  by (cases t; cases s) (auto simp: new_BITSubscriber_def new_ATLSubscriber_def new_WIFISubscriber_def)

lemma equals_setInactive [simp]:
  "equals t (setInactive s) = equals t s" "equals (setInactive t) s = equals t s"
  by (cases t; simp)+

lemma equals_refl: "length (ipv6_view s) = 16 \<or> \<not> (\<exists>i a. s = BITSubscriber i a) \<Longrightarrow> equals s s"
  by (cases s) (auto simp: strncmp_eq_refl)

lemma no_dups_filter: "no_dups xs \<Longrightarrow> no_dups (filter P xs)"
  by (simp add: no_dups_def sorted_wrt_filter)

lemma no_dups_setInactive: "no_dups xs \<Longrightarrow> no_dups (xs[i := setInactive (xs ! i)])"
  unfolding no_dups_def sorted_wrt_iff_nth_less
proof (intro allI impI)
  fix j k
  assume *: "\<forall>j k. j < k \<longrightarrow> k < length xs \<longrightarrow> \<not> equals (xs ! k) (xs ! j)" "j < k" "k < length (xs[i := setInactive (xs ! i)])"
  then have "i < length xs \<or> xs[i := setInactive (xs ! i)] = xs" by (cases "i < length xs") (auto simp: list_update_beyond)
  with * show "\<not> equals (xs[i := setInactive (xs ! i)] ! k) (xs[i := setInactive (xs ! i)] ! j)"
    by (cases "k = i"; cases "j = i"; auto)
qed

lemma no_dups_add: "no_dups (mSubscribers m) \<Longrightarrow> no_dups (mSubscribers (addSubscriber s m))"
  by (auto simp: addSubscriber_subs no_dups_def)

lemma no_dups_unsubscribe: "no_dups (mSubscribers m) \<Longrightarrow> no_dups (mSubscribers (unsubscribe_listed i m))"
  by (simp add: unsubscribe_listed_eq Let_def no_dups_filter no_dups_setInactive)

text \<open>What an event may do to the list: one more active client, or fewer clients than before.\<close>

definition sub_step :: "AgpsStateMachine \<Rightarrow> subscriber list \<Rightarrow> bool" where
  "sub_step m subs \<longleftrightarrow> (\<exists>P. subs = filter P (mSubscribers m))
     \<or> (\<exists>s. subs = mSubscribers (addSubscriber s m))
     \<or> (\<exists>i. subs = (mSubscribers m)[i := setInactive (mSubscribers m ! i)])"

lemma sub_step_no_dups: "no_dups (mSubscribers m) \<Longrightarrow> sub_step m subs \<Longrightarrow> no_dups subs"
  by (auto simp: sub_step_def no_dups_filter no_dups_add no_dups_setInactive)

lemma sub_step_simps [simp]:
  "sub_step m (mSubscribers m)" "sub_step m []" "sub_step m (filter P (mSubscribers m))"
  "sub_step m (mSubscribers (addSubscriber s m))" "sub_step m (mSubscribers (unsubscribe_listed i m))"
proof -
  have "mSubscribers m = filter (\<lambda>_. True) (mSubscribers m)" "[] = filter (\<lambda>_. False) (mSubscribers m)"
    by simp_all
  then show "sub_step m (mSubscribers m)" "sub_step m []" unfolding sub_step_def by blast+
qed (auto simp: sub_step_def unsubscribe_listed_eq Let_def)

lemma addSubscriber_out [simp]:
  "mSubscribers (addSubscriber s (m\<lparr>sm_out := evs\<rparr>)) = mSubscribers (addSubscriber s m)"
  by (simp add: addSubscriber_subs)

lemma release_if_unused_subs [simp]: "mSubscribers (snd (release_if_unused st m)) = mSubscribers m"
  by (simp add: release_if_unused_def)

lemma dispatch_sub_step: "sub_step m (mSubscribers (dispatch e m))"
  by (cases "mStatePtr m"; cases e)
     (auto simp: dispatch_def Let_def case_prod_beta notify_answer releasing_done_eq)

lemma agps_do_sub_step: "sub_step m (mSubscribers (agps_do op m))"
  by (cases op) (auto simp: dispatch_sub_step subscribeRsrc_def unsubscribeRsrc_def onRsrcEvent_def
      setAPN_def setBearer_def dropAllSubscribers_def split: option.split AgpsRsrcStatus.split)

text \<open>A machine that enforces a single subscriber never lists two.\<close>

definition single_ok :: "AgpsStateMachine \<Rightarrow> bool" where
  "single_ok m \<longleftrightarrow> mEnforceSingleSubscriber m \<longrightarrow> length (mSubscribers m) \<le> 1"

lemma dispatch_enforce [simp]: "mEnforceSingleSubscriber (dispatch e m) = mEnforceSingleSubscriber m"
  by (cases "mStatePtr m"; cases e)
     (auto simp: dispatch_def Let_def case_prod_beta notify_answer releasing_done_eq release_if_unused_def)

lemma agps_do_enforce [simp]: "mEnforceSingleSubscriber (agps_do op m) = mEnforceSingleSubscriber m"
  by (cases op) (auto simp: subscribeRsrc_def unsubscribeRsrc_def onRsrcEvent_def
      setAPN_def setBearer_def dropAllSubscribers_def split: option.split AgpsRsrcStatus.split)

lemma sub_step_length: "sub_step m subs \<Longrightarrow> length subs \<le> Suc (length (mSubscribers m))"
  by (auto simp: sub_step_def addSubscriber_subs intro: le_SucI)

lemma dispatch_length:
  "(\<And>s. e \<noteq> Subscribe s) \<Longrightarrow> length (mSubscribers (dispatch e m)) \<le> length (mSubscribers m)"
  by (cases "mStatePtr m"; cases e)
     (auto simp: dispatch_def Let_def case_prod_beta notify_answer releasing_done_eq unsubscribe_listed_eq)

lemma agps_do_single: "single_ok m \<Longrightarrow> single_ok (agps_do op m)"
proof (cases op)
  case (Op_Subscribe s)
  assume "single_ok m"
  with Op_Subscribe show ?thesis
    using sub_step_length [OF dispatch_sub_step [of m "Subscribe s"]]
    by (auto simp: single_ok_def subscribeRsrc_def hasSubscribers_def)
next
  case (Op_Unsubscribe s)
  assume "single_ok m"
  with Op_Unsubscribe show ?thesis
    using dispatch_length [of "Unsubscribe i" m for i]
    by (auto simp: single_ok_def unsubscribeRsrc_def intro: order_trans split: option.split)
next
  case (Op_Event st)
  assume "single_ok m"
  with Op_Event show ?thesis
    using dispatch_length [of Granted m] dispatch_length [of Released m] dispatch_length [of Denied m]
    by (auto simp: single_ok_def onRsrcEvent_def split: AgpsRsrcStatus.split)
qed (auto simp: single_ok_def setAPN_def setBearer_def dropAllSubscribers_def split: option.split)

section \<open>Properties\<close>

lemma new_machine_inv:
  "agps_inv (new_AgpsStateMachine junk ty one)" "nif_inv (new_AgpsStateMachine junk ty one)"
  "no_dups (mSubscribers (new_AgpsStateMachine junk ty one))" "single_ok (new_AgpsStateMachine junk ty one)"
  by (simp_all add: new_AgpsStateMachine_def agps_inv_def nif_inv_def no_dups_def single_ok_def)




text \<open>
  C32: No operation lists a client twice, by the code's own comparison, and a machine that enforces
  a single subscriber never has two.
\<close>

theorem agps_clients_distinct:
  "no_dups (mSubscribers (agps_run ops (new_AgpsStateMachine junk ty one)))
   \<and> single_ok (agps_run ops (new_AgpsStateMachine junk ty one))"
proof
  show "no_dups (mSubscribers (agps_run ops (new_AgpsStateMachine junk ty one)))"
    by (rule agps_run_inv [where P = "\<lambda>m. no_dups (mSubscribers m)"])
       (simp_all add: new_machine_inv sub_step_no_dups [OF _ agps_do_sub_step])
  show "single_ok (agps_run ops (new_AgpsStateMachine junk ty one))"
    by (rule agps_run_inv [where P = single_ok]) (simp_all add: new_machine_inv agps_do_single)
qed

text \<open>
  When the service grants a pending connection, the machine is acquired, its list is unchanged
  and every active client is told exactly once, from the head of the list.
\<close>

theorem agps_granted:
  assumes "mStatePtr m = AgpsPendingState"
  shows "onRsrcEvent RSRC_GRANTED m = m\<lparr>mStatePtr := AgpsAcquiredState,
     sm_out := sm_out m @ map (answer m RSRC_GRANTED) (filter (\<lambda>t. \<not> isInactive t) (mSubscribers m))\<rparr>"
  using assms by (simp add: onRsrcEvent_def dispatch_def notify_answer)

lemma agps_granted_witness:
  "let m = subscribeRsrc (new_ATLSubscriber 7 False) (new_AgpsStateMachine 0 AGPS_TYPE_SUPL False)
   in sm_out (onRsrcEvent RSRC_GRANTED m) = sm_out m @ [AtlOpenStatus 7 1 None 0 AGPS_TYPE_SUPL]"
proof -
  let ?m = "subscribeRsrc (new_ATLSubscriber 7 False) (new_AgpsStateMachine 0 AGPS_TYPE_SUPL False)"
  have 1: "mStatePtr ?m = AgpsPendingState" by code_simp
  have 2: "map (answer ?m RSRC_GRANTED) (filter (\<lambda>t. \<not> isInactive t) (mSubscribers ?m))
    = [AtlOpenStatus 7 1 None 0 AGPS_TYPE_SUPL]" by code_simp
  show ?thesis using agps_granted [OF 1] 2 by (simp add: Let_def)
qed

text \<open>
  C25: A denial of a pending connection and a release of an acquired one end the session: every
  client, active or not, is told once with the service's answer and taken off the list.
\<close>

theorem agps_session_ended:
  assumes "(mStatePtr m, st) \<in> {(AgpsPendingState, RSRC_DENIED), (AgpsAcquiredState, RSRC_RELEASED)}"
  shows "onRsrcEvent st m = m\<lparr>mStatePtr := AgpsReleasedState, mSubscribers := [],
     sm_out := sm_out m @ map (answer m st) (mSubscribers m)\<rparr>"
  using assms by (auto simp: onRsrcEvent_def dispatch_def notify_answer)

lemma agps_session_ended_witness:
  "let m = subscribeRsrc (new_ATLSubscriber 7 False) (new_AgpsStateMachine 3 AGPS_TYPE_SUPL False)
   in sm_out (onRsrcEvent RSRC_DENIED m) = sm_out m @ [AtlOpenStatus 7 0 None 3 AGPS_TYPE_SUPL]"
proof -
  let ?m = "subscribeRsrc (new_ATLSubscriber 7 False) (new_AgpsStateMachine 3 AGPS_TYPE_SUPL False)"
  have 1: "(mStatePtr ?m, RSRC_DENIED) \<in> {(AgpsPendingState, RSRC_DENIED), (AgpsAcquiredState, RSRC_RELEASED)}"
    by code_simp
  have 2: "map (answer ?m RSRC_DENIED) (mSubscribers ?m)
    = [AtlOpenStatus 7 0 None 3 AGPS_TYPE_SUPL]" by code_simp
  show ?thesis using agps_session_ended [OF 1] 2 by (simp add: Let_def)
qed

text \<open>
  When the service answers a release, the clients that waited for it are told and taken off;
  if clients subscribed meanwhile, the connection is requested again for them.
\<close>

theorem agps_release_answered:
  assumes "mStatePtr m = AgpsReleasingState" "st \<in> {RSRC_DENIED, RSRC_RELEASED}"
  shows "let m' = onRsrcEvent st m; act = filter (\<lambda>t. \<not> isInactive t) (mSubscribers m)
     in mSubscribers m' = act
      \<and> mStatePtr m' = (if act = [] then AgpsReleasedState else AgpsPendingState)
      \<and> sm_out m' = sm_out m @ map (answer m st) (filter isInactive (mSubscribers m))
          @ (if act = [] then [] else [NifRequest (nif_request GPS_REQUEST_AGPS_DATA_CONN m')])"
  using assms by (auto simp: onRsrcEvent_def dispatch_def releasing_done_eq Let_def nif_request_def)

lemma agps_release_answered_witness:
  "let w = new_WIFISubscriber None None LOC_ENG_IF_REQUEST_SENDER_ID_QUIPC;
       m = agps_run [Op_Subscribe w, Op_Event RSRC_GRANTED, Op_Unsubscribe w] (new_AgpsStateMachine 0 AGPS_TYPE_WIFI False)
   in mStatePtr m = AgpsReleasingState \<and> mSubscribers (onRsrcEvent RSRC_RELEASED m) = []"
proof -
  let ?w = "new_WIFISubscriber None None LOC_ENG_IF_REQUEST_SENDER_ID_QUIPC"
  let ?m = "agps_run [Op_Subscribe ?w, Op_Event RSRC_GRANTED, Op_Unsubscribe ?w] (new_AgpsStateMachine 0 AGPS_TYPE_WIFI False)"
  have 1: "mStatePtr ?m = AgpsReleasingState" by code_simp
  have 2: "filter (\<lambda>t. \<not> isInactive t) (mSubscribers ?m) = []" by code_simp
  show ?thesis using agps_release_answered [OF 1, of RSRC_RELEASED] 1 2 by (simp add: Let_def)
qed

text \<open>
  Unsubscribing a listed client in the pending or acquired state takes it off the list (a WiFi
  client stays, inactive, until the release is answered), and releases the connection exactly when
  no active client is left.
\<close>

theorem agps_unsubscribe:
  assumes "mStatePtr m \<in> {AgpsPendingState, AgpsAcquiredState}"
    and "find_sub (subscriber_query s) (mSubscribers m) = Some i"
  shows "let (found, m') = unsubscribeRsrc s m; t = mSubscribers m ! i
     in found
      \<and> mSubscribers m' = (if waitForCloseComplete t then (mSubscribers m)[i := setInactive t]
           else filter (\<lambda>u. \<not> equals u t) (mSubscribers m))
      \<and> mStatePtr m' = (if mSubscribers m' = [] then AgpsReleasedState
           else if hasActiveSubscribers m' then mStatePtr m else AgpsReleasingState)
      \<and> nif_log (sm_out m') = nif_log (sm_out m)
          @ (if hasActiveSubscribers m' then [] else [GPS_RELEASE_AGPS_DATA_CONN])"
proof -
  let ?m1 = "unsubscribe_listed i m"
  have m': "snd (unsubscribeRsrc s m) = (snd (release_if_unused (mStatePtr m) ?m1))
      \<lparr>mStatePtr := fst (release_if_unused (mStatePtr m) ?m1)\<rparr>" and f: "fst (unsubscribeRsrc s m)"
    using assms by (auto simp: unsubscribeRsrc_def dispatch_def case_prod_beta)
  have subs: "mSubscribers (snd (unsubscribeRsrc s m)) = mSubscribers ?m1" by (simp add: m')
  then have act: "hasActiveSubscribers (snd (unsubscribeRsrc s m)) = hasActiveSubscribers ?m1"
    by (simp add: hasActiveSubscribers_iff)
  have "mStatePtr (snd (unsubscribeRsrc s m)) = (if mSubscribers ?m1 = [] then AgpsReleasedState
           else if hasActiveSubscribers ?m1 then mStatePtr m else AgpsReleasingState)"
    by (simp add: m' release_if_unused_def hasSubscribers_def)
  moreover have "nif_log (sm_out (snd (unsubscribeRsrc s m))) = nif_log (sm_out m)
          @ (if hasActiveSubscribers ?m1 then [] else [GPS_RELEASE_AGPS_DATA_CONN])"
    using hasActive_hasSubscribers [of ?m1]
    by (simp add: m' release_if_unused_def sendRsrcRequest_eq)
  ultimately show ?thesis
    using f subs act by (simp add: case_prod_beta Let_def) (simp add: unsubscribe_listed_eq Let_def)
qed

lemma agps_unsubscribe_witness:
  "let m = agps_run [Op_Subscribe (new_ATLSubscriber 7 False), Op_Subscribe (new_ATLSubscriber 8 False)]
         (new_AgpsStateMachine 0 AGPS_TYPE_SUPL False)
   in mSubscribers (snd (unsubscribeRsrc (ATLSubscriber 7 False) m)) = [ATLSubscriber 8 False]"
proof -
  let ?m = "agps_run [Op_Subscribe (new_ATLSubscriber 7 False), Op_Subscribe (new_ATLSubscriber 8 False)]
         (new_AgpsStateMachine 0 AGPS_TYPE_SUPL False)"
  have 1: "mStatePtr ?m \<in> {AgpsPendingState, AgpsAcquiredState}" by code_simp
  have 2: "find_sub (subscriber_query (ATLSubscriber 7 False)) (mSubscribers ?m) = Some 1" by code_simp
  have 3: "mSubscribers ?m = [ATLSubscriber 8 False, ATLSubscriber 7 False]" by code_simp
  show ?thesis using agps_unsubscribe [OF 1 2] 3 by (simp add: Let_def case_prod_beta)
qed

text \<open>
  C39: A modem restart (\<open>loc_eng_handle_engine_up\<close> drops the subscribers) leaves the state as it was:
  an acquired machine stays acquired with no subscriber, and its next client is granted at once
  without a new request to the service.
\<close>

theorem agps_restart_keeps_grant:
  assumes "mStatePtr m = AgpsAcquiredState" "\<not> mEnforceSingleSubscriber m"
  shows "let m1 = dropAllSubscribers m; m2 = subscribeRsrc (ATLSubscriber c b) m1
     in \<not> agps_inv m1 \<and> mStatePtr m2 = AgpsAcquiredState
      \<and> mSubscribers m2 = [ATLSubscriber c b]
      \<and> sm_out m2 = sm_out m @ [answer m RSRC_GRANTED (ATLSubscriber c b)]"
  using assms
  by (simp add: subscribeRsrc_def dispatch_def dropAllSubscribers_def agps_inv_def addSubscriber_subs
      case_prod_beta told_def [symmetric] told_answer Let_def new_ATLSubscriber_def hasSubscribers_def)

lemma agps_restart_keeps_grant_witness:
  "let m = agps_run [Op_Subscribe (ATLSubscriber 7 False), Op_Event RSRC_GRANTED]
         (new_AgpsStateMachine 0 AGPS_TYPE_SUPL False)
   in \<not> agps_inv (dropAllSubscribers m)"
proof -
  let ?m = "agps_run [Op_Subscribe (ATLSubscriber 7 False), Op_Event RSRC_GRANTED]
         (new_AgpsStateMachine 0 AGPS_TYPE_SUPL False)"
  have 1: "mStatePtr ?m = AgpsAcquiredState" by code_simp
  have 2: "\<not> mEnforceSingleSubscriber ?m" by code_simp
  show ?thesis using agps_restart_keeps_grant [OF 1 2] by (simp add: Let_def)
qed

end
