(* ===== verification/Agps_Heap.thy ===== *)
theory Agps_Heap
  imports Agps_Inv Linked_List_Correct
begin

text \<open>
  The subscriber list in memory: \<open>addSubscriber\<close>, \<open>hasActiveSubscribers\<close> and
  \<open>notifySubscribers\<close> written over the linked list's own operations, and the proof that they do on
  the list's cells what the machine's operations do on the abstract list. The cell's destructor is
  the one value \<open>deleteObj\<close>, so the deallocation log shows which subscribers are deleted.
\<close>

section \<open>The operations over the linked list\<close>

datatype dealloc_fun = deleteObj

type_synonym sub_mem = "(subscriber, dealloc_fun) mem"

definition heap_find :: "ptr \<Rightarrow> Notification \<Rightarrow> sub_mem \<Rightarrow> (subscriber option \<times> sub_mem) option" where
  "heap_find l n h = do {
     (_, s, _, h1) \<leftarrow> linked_list_search l (Some None) (Some (hasSubscriber n)) False () h;
     Some (the s, h1)
   }"

text \<open>\<open>c\<close> is the address \<open>calloc\<close> returns for the new cell.\<close>

definition heap_addSubscriber :: "ptr \<Rightarrow> subscriber \<Rightarrow> ptr \<Rightarrow> sub_mem \<Rightarrow> sub_mem option" where
  "heap_addSubscriber l subscriber c h = do {
     (s, h1) \<leftarrow> heap_find l (subscriber_query subscriber) h;
     (if s = None
      then map_option snd (linked_list_add l (Some (clone subscriber)) (Some deleteObj) c h1)
      else Some h1)
   }"

text \<open>The loop of \<open>notifySubscribers\<close>; \<open>None\<close> if it read a freed cell or never ended.\<close>

partial_function (option) heap_notify_loop ::
    "ptr \<Rightarrow> AgpsStateMachine \<Rightarrow> Notification \<Rightarrow> agps_out list \<Rightarrow> sub_mem \<Rightarrow> (agps_out list \<times> sub_mem) option" where
  "heap_notify_loop l m n evs h = do {
     (_, s, evs', h1) \<leftarrow> linked_list_search l (Some None) (Some (notifySubscriber m n)) True evs h;
     (if the s = None then Some (evs', h1) else heap_notify_loop l m n evs' h1)
   }"

definition heap_notifySubscribers ::
    "ptr \<Rightarrow> AgpsStateMachine \<Rightarrow> Notification \<Rightarrow> sub_mem \<Rightarrow> (agps_out list \<times> sub_mem) option" where
  "heap_notifySubscribers l m n h =
    (if postNotifyDelete n then heap_notify_loop l m n (sm_out m) h
     else do {
       (_, _, evs', h1) \<leftarrow> linked_list_search l None (Some (notifySubscriber m n)) False (sm_out m) h;
       Some (evs', h1)
     })"

section \<open>They refine the abstract list\<close>

definition subs_rep :: "ptr \<Rightarrow> ptr list \<Rightarrow> subscriber list \<Rightarrow> sub_mem \<Rightarrow> bool" where
  "subs_rep l as subs h \<longleftrightarrow> list_rep l as (map (\<lambda>s. (s, Some deleteObj)) subs) h"

lemma map_remove_nth: "map f (remove_nth i xs) = remove_nth i (map f xs)"
  by (simp add: remove_nth_def take_map drop_map)

lemma comp_fst_pair [simp]: "map (fst \<circ> (\<lambda>s. (s, d))) xs = xs"
  by (induction xs) auto

lemma heap_find_rep:
  assumes "subs_rep l as subs h"
  shows "heap_find l n h = Some (map_option (\<lambda>i. subs ! i) (find_sub n subs), h)"
proof -
  obtain r where f: "find_eff (hasSubscriber n) () subs = (r, ())" by (metis old.unit.exhaust surj_pair)
  then have r: "find_sub n subs = r" by (simp add: find_sub_def)
  from search_rep [OF assms [unfolded subs_rep_def], of "hasSubscriber n" "()" r "()" "Some None" False] f
  show ?thesis
    by (cases "subs = []") (auto simp: heap_find_def r split: option.splits)
qed

lemma heap_hasActive:
  assumes "subs_rep l as (mSubscribers m) h"
  shows "heap_find l (broadcast_query BROADCAST_ACTIVE) h = Some (s, h') \<Longrightarrow>
    h' = h \<and> (s \<noteq> None \<longleftrightarrow> hasActiveSubscribers m)"
  using heap_find_rep [OF assms, of "broadcast_query BROADCAST_ACTIVE"]
  by (auto simp: hasActiveSubscribers_def)

text \<open>
  On a well-formed list in memory, \<open>addSubscriber\<close> finishes without touching freed memory and
  leaves the list that the abstract operation describes.
\<close>

theorem heap_addSubscriber_rep:
  assumes "subs_rep l as (mSubscribers m) h" "c \<noteq> NULL" "c \<notin> set as"
  shows "\<exists>h' as'. heap_addSubscriber l s c h = Some h'
     \<and> subs_rep l as' (mSubscribers (addSubscriber s m)) h' \<and> dealloc_calls h' = dealloc_calls h"
proof (cases "find_sub (subscriber_query s) (mSubscribers m)")
  case None
  from add_rep [OF assms(1) [unfolded subs_rep_def] assms(2,3), of "clone s" "Some deleteObj"]
  obtain h' where "linked_list_add l (Some (clone s)) (Some deleteObj) c h = Some (eLINKED_LIST_SUCCESS, h')"
    "subs_rep l (c # as) (clone s # mSubscribers m) h'" "dealloc_calls h' = dealloc_calls h"
    by (auto simp: subs_rep_def)
  with None heap_find_rep [OF assms(1)] show ?thesis
    by (auto simp: heap_addSubscriber_def addSubscriber_def)
next
  case (Some i)
  with heap_find_rep [OF assms(1)] assms(1) show ?thesis
    by (auto simp: heap_addSubscriber_def addSubscriber_def)
qed

lemma heap_notify_loop_rep:
  assumes "told m0 = told m" "wants m0 = wants m" "postNotifyDelete n"
    "subs_rep l as (mSubscribers m) h"
  shows "\<exists>h' as'. heap_notify_loop l m0 n (sm_out m) h = Some (sm_out (notify_delete_loop n m), h')
     \<and> subs_rep l as' (mSubscribers (notify_delete_loop n m)) h' \<and> dealloc_calls h' = dealloc_calls h"
  using assms
proof (induction n m arbitrary: as h rule: notify_delete_loop.induct)
  case (1 n m)
  let ?xs = "mSubscribers m"
  have nf: "notifySubscriber m0 n = notifySubscriber m n"
    by (intro ext) (simp add: notifySubscriber_eq 1(2,3))
  obtain r evs where f: "find_eff (notifySubscriber m n) (sm_out m) ?xs = (r, evs)" by fastforce
  obtain h1 s where srch: "linked_list_search l (Some None) (Some (notifySubscriber m n)) True (sm_out m) h
      = Some (if ?xs = [] then eLINKED_LIST_UNAVAILABLE_RESOURCE else eLINKED_LIST_SUCCESS, s, evs, h1)"
    and res: "case r of None \<Rightarrow> s = Some None \<and> h1 = h
      | Some i \<Rightarrow> i < length ?xs \<and> s = Some (Some (?xs ! i))
         \<and> subs_rep l (remove_nth i as) (remove_nth i ?xs) h1 \<and> dealloc_calls h1 = dealloc_calls h"
    using search_rep [OF 1(5) [unfolded subs_rep_def], of "notifySubscriber m n" "sm_out m" r evs "Some None" True] f
    by (cases r) (auto simp: subs_rep_def map_remove_nth split: if_splits)
  show ?case
  proof (cases r)
    case None
    with f srch res 1(5) show ?thesis
      by (subst heap_notify_loop.simps, subst notify_delete_loop.simps)
         (auto simp: nf notify_delete_loop.simps)
  next
    case (Some i)
    let ?m1 = "m\<lparr>sm_out := evs, mSubscribers := remove_nth i ?xs\<rparr>"
    have same: "told m0 = told ?m1" "wants m0 = wants ?m1"
      using 1(2,3) by (auto intro!: ext)
    have "\<exists>h' as'. heap_notify_loop l m0 n (sm_out ?m1) h1 = Some (sm_out (notify_delete_loop n ?m1), h')
     \<and> subs_rep l as' (mSubscribers (notify_delete_loop n ?m1)) h' \<and> dealloc_calls h' = dealloc_calls h1"
      using 1(1) [OF f [symmetric] Some, of "remove_nth i as" h1] res Some same 1(4) by simp
    with f srch res Some show ?thesis
      by (subst heap_notify_loop.simps, subst notify_delete_loop.simps)
         (auto simp: nf notify_delete_loop.simps)
  qed
qed

lemma heap_addSubscriber_rep_witness:
  "\<exists>h' as'. heap_addSubscriber 1 (ATLSubscriber 7 False) 5
       \<lparr>elems = Map.empty, lists = [1 \<mapsto> \<lparr>p_head = 0, p_tail = 0\<rparr>], dealloc_calls = []\<rparr> = Some h'
     \<and> subs_rep 1 as' [ATLSubscriber 7 False] h' \<and> dealloc_calls h' = []"
proof -
  let ?m = "new_AgpsStateMachine 0 AGPS_TYPE_SUPL False"
  let ?h = "\<lparr>elems = Map.empty, lists = [1 \<mapsto> \<lparr>p_head = 0, p_tail = 0\<rparr>], dealloc_calls = []\<rparr> :: sub_mem"
  have "subs_rep 1 [] (mSubscribers ?m) ?h"
    by (simp add: subs_rep_def list_rep_def new_AgpsStateMachine_def hd_or_def last_or_def)
  from heap_addSubscriber_rep [OF this, of 5 "ATLSubscriber 7 False"] show ?thesis
    by (simp add: addSubscriber_subs new_AgpsStateMachine_def new_ATLSubscriber_def)
qed

text \<open>
  C21: On a well-formed list in memory the notification loop ends, touches no freed memory, sends
  what the abstract operation sends and leaves its list. It deletes no subscriber: those it takes
  off the list are no longer reachable and never freed.
\<close>

theorem heap_notifySubscribers_rep:
  assumes "subs_rep l as (mSubscribers m) h"
  shows "\<exists>h' as'. heap_notifySubscribers l m n h = Some (sm_out (notifySubscribers n m), h')
     \<and> subs_rep l as' (mSubscribers (notifySubscribers n m)) h' \<and> dealloc_calls h' = dealloc_calls h"
proof (cases "postNotifyDelete n")
  case True
  with heap_notify_loop_rep [OF refl refl True assms] show ?thesis
    by (simp add: heap_notifySubscribers_def notifySubscribers_def)
next
  case False
  obtain r evs where f: "find_eff (notifySubscriber m n) (sm_out m) (mSubscribers m) = (r, evs)" by fastforce
  with False find_eff_keep [OF False, of m "sm_out m" "mSubscribers m"]
    search_rep [OF assms [unfolded subs_rep_def], of "notifySubscriber m n" "sm_out m" r evs None False] assms
  show ?thesis
    by (auto simp: heap_notifySubscribers_def notifySubscribers_def)
qed

lemma heap_notifySubscribers_rep_witness:
  "\<exists>h' as'. heap_notifySubscribers 1
       (subscribeRsrc (ATLSubscriber 7 False) (new_AgpsStateMachine 0 AGPS_TYPE_SUPL False))
       (broadcast_notification BROADCAST_ALL RSRC_DENIED True)
       \<lparr>elems = [5 \<mapsto> \<lparr>next_ptr = 0, prev_ptr = 0, data_ptr = ATLSubscriber 7 False, dealloc_func = Some deleteObj\<rparr>],
        lists = [1 \<mapsto> \<lparr>p_head = 5, p_tail = 5\<rparr>], dealloc_calls = []\<rparr> = Some h'
     \<and> subs_rep 1 as' [] (snd h') \<and> dealloc_calls (snd h') = []"
proof -
  let ?m = "subscribeRsrc (ATLSubscriber 7 False) (new_AgpsStateMachine 0 AGPS_TYPE_SUPL False)"
  let ?n = "broadcast_notification BROADCAST_ALL RSRC_DENIED True"
  let ?h = "\<lparr>elems = [5 \<mapsto> \<lparr>next_ptr = 0, prev_ptr = 0, data_ptr = ATLSubscriber 7 False, dealloc_func = Some deleteObj\<rparr>],
        lists = [1 \<mapsto> \<lparr>p_head = 5, p_tail = 5\<rparr>], dealloc_calls = []\<rparr> :: sub_mem"
  have s: "mSubscribers ?m = [ATLSubscriber 7 False]" by code_simp
  have "subs_rep 1 [5] (mSubscribers ?m) ?h"
    unfolding s by (simp add: subs_rep_def list_rep_def hd_or_def last_or_def)
  from heap_notifySubscribers_rep [OF this, of ?n]
  have "\<exists>h' as'. heap_notifySubscribers 1 ?m ?n ?h = Some (sm_out (notifySubscribers ?n ?m), h')
     \<and> subs_rep 1 as' (mSubscribers (notifySubscribers ?n ?m)) h' \<and> dealloc_calls h' = []" by simp
  then show ?thesis by (force simp: notify_answer)
qed

end
