(* ===== verification/Loc_Msg.thy ===== *)
theory Loc_Msg
  imports Agps
begin

text \<open>
  The messages of the location engine (gps/libloc_api_50001/loc_eng_msg.h, loc_eng_msg_id.h,
  loc.h): their identifiers, one constructor per message structure, and the constructors' work,
  which copies caller buffers into the message. All messages but \<open>LOC_ENG_MSG_QUIT\<close> are owned by
  the one engine instance, so the owner is not a field. A copy that reads past the end of the
  caller's buffer is \<open>None\<close>.
\<close>

section \<open>Identifiers\<close>

datatype loc_eng_msg_ids_t =
    LOC_ENG_MSG_QUIT
  | LOC_ENG_MSG_ENGINE_DOWN | LOC_ENG_MSG_ENGINE_UP
  | LOC_ENG_MSG_START_FIX | LOC_ENG_MSG_STOP_FIX
  | LOC_ENG_MSG_SET_POSITION_MODE | LOC_ENG_MSG_SET_TIME
  | LOC_ENG_MSG_INJECT_XTRA_DATA | LOC_ENG_MSG_INJECT_LOCATION
  | LOC_ENG_MSG_DELETE_AIDING_DATA | LOC_ENG_MSG_SET_APN
  | LOC_ENG_MSG_SET_SERVER_URL | LOC_ENG_MSG_SET_SERVER_IPV4 | LOC_ENG_MSG_ENABLE_DATA
  | LOC_ENG_MSG_SUPL_VERSION | LOC_ENG_MSG_SET_SENSOR_CONTROL_CONFIG
  | LOC_ENG_MSG_SET_SENSOR_PROPERTIES | LOC_ENG_MSG_SET_SENSOR_PERF_CONTROL_CONFIG
  | LOC_ENG_MSG_MUTE_SESSION
  | LOC_ENG_MSG_ATL_OPEN_SUCCESS | LOC_ENG_MSG_ATL_CLOSED | LOC_ENG_MSG_ATL_OPEN_FAILED
  | LOC_ENG_MSG_REPORT_POSITION | LOC_ENG_MSG_REPORT_SV
  | LOC_ENG_MSG_REPORT_STATUS | LOC_ENG_MSG_REPORT_NMEA
  | LOC_ENG_MSG_REQUEST_BIT | LOC_ENG_MSG_RELEASE_BIT
  | LOC_ENG_MSG_REQUEST_ATL | LOC_ENG_MSG_RELEASE_ATL
  | LOC_ENG_MSG_REQUEST_WIFI | LOC_ENG_MSG_RELEASE_WIFI
  | LOC_ENG_MSG_REQUEST_NI | LOC_ENG_MSG_INFORM_NI_RESPONSE
  | LOC_ENG_MSG_REQUEST_XTRA_DATA | LOC_ENG_MSG_REQUEST_TIME
  | LOC_ENG_MSG_REQUEST_POSITION | LOC_ENG_MSG_EXT_POWER_CONFIG
  | LOC_ENG_MSG_REQUEST_PHONE_CONTEXT | LOC_ENG_MSG_REQUEST_NETWORK_POSIITON
  | ULP_MSG_UPDATE_CRITERIA | ULP_MSG_START_FIX | ULP_MSG_STOP_FIX
  | ULP_MSG_INJECT_PHONE_CONTEXT_SETTINGS | ULP_MSG_INJECT_NETWORK_POSITION
  | ULP_MSG_REPORT_QUIPC_POSITION | ULP_MSG_REQUEST_COARSE_POSITION
  | LOC_ENG_MSG_LPP_CONFIG | ULP_MSG_INJECT_RAW_COMMAND | LOC_ENG_MSG_ENGINE_LOCK

text \<open>The enumerators in their order of declaration: two runs, from \<open>0x200\<close> and from \<open>0x600\<close>.\<close>

definition engine_msg_ids :: "loc_eng_msg_ids_t list" where
  "engine_msg_ids =
    [LOC_ENG_MSG_QUIT, LOC_ENG_MSG_ENGINE_DOWN, LOC_ENG_MSG_ENGINE_UP, LOC_ENG_MSG_START_FIX,
     LOC_ENG_MSG_STOP_FIX, LOC_ENG_MSG_SET_POSITION_MODE, LOC_ENG_MSG_SET_TIME,
     LOC_ENG_MSG_INJECT_XTRA_DATA, LOC_ENG_MSG_INJECT_LOCATION, LOC_ENG_MSG_DELETE_AIDING_DATA,
     LOC_ENG_MSG_SET_APN, LOC_ENG_MSG_SET_SERVER_URL, LOC_ENG_MSG_SET_SERVER_IPV4,
     LOC_ENG_MSG_ENABLE_DATA, LOC_ENG_MSG_SUPL_VERSION, LOC_ENG_MSG_SET_SENSOR_CONTROL_CONFIG,
     LOC_ENG_MSG_SET_SENSOR_PROPERTIES, LOC_ENG_MSG_SET_SENSOR_PERF_CONTROL_CONFIG,
     LOC_ENG_MSG_MUTE_SESSION, LOC_ENG_MSG_ATL_OPEN_SUCCESS, LOC_ENG_MSG_ATL_CLOSED,
     LOC_ENG_MSG_ATL_OPEN_FAILED, LOC_ENG_MSG_REPORT_POSITION, LOC_ENG_MSG_REPORT_SV,
     LOC_ENG_MSG_REPORT_STATUS, LOC_ENG_MSG_REPORT_NMEA, LOC_ENG_MSG_REQUEST_BIT,
     LOC_ENG_MSG_RELEASE_BIT, LOC_ENG_MSG_REQUEST_ATL, LOC_ENG_MSG_RELEASE_ATL,
     LOC_ENG_MSG_REQUEST_WIFI, LOC_ENG_MSG_RELEASE_WIFI, LOC_ENG_MSG_REQUEST_NI,
     LOC_ENG_MSG_INFORM_NI_RESPONSE, LOC_ENG_MSG_REQUEST_XTRA_DATA, LOC_ENG_MSG_REQUEST_TIME,
     LOC_ENG_MSG_REQUEST_POSITION, LOC_ENG_MSG_EXT_POWER_CONFIG,
     LOC_ENG_MSG_REQUEST_PHONE_CONTEXT, LOC_ENG_MSG_REQUEST_NETWORK_POSIITON]"

definition ulp_msg_ids :: "loc_eng_msg_ids_t list" where
  "ulp_msg_ids =
    [ULP_MSG_UPDATE_CRITERIA, ULP_MSG_START_FIX, ULP_MSG_STOP_FIX,
     ULP_MSG_INJECT_PHONE_CONTEXT_SETTINGS, ULP_MSG_INJECT_NETWORK_POSITION,
     ULP_MSG_REPORT_QUIPC_POSITION, ULP_MSG_REQUEST_COARSE_POSITION, LOC_ENG_MSG_LPP_CONFIG,
     ULP_MSG_INJECT_RAW_COMMAND, LOC_ENG_MSG_ENGINE_LOCK]"

definition index_of :: "'a list \<Rightarrow> 'a \<Rightarrow> nat" where
  "index_of xs x = length (takeWhile (\<lambda>y. y \<noteq> x) xs)"

definition msg_id_code :: "loc_eng_msg_ids_t \<Rightarrow> int" where
  "msg_id_code i = (if i \<in> set engine_msg_ids then 0x200 + int (index_of engine_msg_ids i)
                    else 0x600 + int (index_of ulp_msg_ids i))"

lemma index_of_nth: "x \<in> set xs \<Longrightarrow> xs ! index_of xs x = x \<and> index_of xs x < length xs"
  by (induction xs) (auto simp: index_of_def)

lemma all_msg_ids: "i \<in> set engine_msg_ids \<or> i \<in> set ulp_msg_ids"
  by (cases i) (simp_all add: engine_msg_ids_def ulp_msg_ids_def)

lemma msg_id_ranges:
  "i \<in> set engine_msg_ids \<Longrightarrow> 0x200 \<le> msg_id_code i \<and> msg_id_code i < 0x228"
  "i \<notin> set engine_msg_ids \<Longrightarrow> 0x600 \<le> msg_id_code i \<and> msg_id_code i < 0x60A"
proof -
  have len: "length engine_msg_ids = 40" "length ulp_msg_ids = 10"
    by (simp_all add: engine_msg_ids_def ulp_msg_ids_def)
  show "i \<in> set engine_msg_ids \<Longrightarrow> 0x200 \<le> msg_id_code i \<and> msg_id_code i < 0x228"
    using index_of_nth [of i engine_msg_ids] by (simp add: msg_id_code_def len)
  show "i \<notin> set engine_msg_ids \<Longrightarrow> 0x600 \<le> msg_id_code i \<and> msg_id_code i < 0x60A"
    using index_of_nth [of i ulp_msg_ids] all_msg_ids [of i] by (simp add: msg_id_code_def len)
qed

lemma msg_id_code_inject: "msg_id_code i = msg_id_code j \<longleftrightarrow> i = j"
proof
  assume eq: "msg_id_code i = msg_id_code j"
  then have same: "i \<in> set engine_msg_ids \<longleftrightarrow> j \<in> set engine_msg_ids"
    using msg_id_ranges [of i] msg_id_ranges [of j] by (cases "i \<in> set engine_msg_ids"; cases "j \<in> set engine_msg_ids") auto
  show "i = j"
  proof (cases "i \<in> set engine_msg_ids")
    case True
    with eq same have "index_of engine_msg_ids i = index_of engine_msg_ids j" by (simp add: msg_id_code_def)
    with True same show ?thesis by (metis index_of_nth)
  next
    case False
    with eq same have "index_of ulp_msg_ids i = index_of ulp_msg_ids j" by (simp add: msg_id_code_def)
    with False same show ?thesis by (metis index_of_nth all_msg_ids)
  qed
qed simp

text \<open>The identifiers are ordered by their values.\<close>

instantiation loc_eng_msg_ids_t :: linorder
begin

definition less_eq_loc_eng_msg_ids_t :: "loc_eng_msg_ids_t \<Rightarrow> loc_eng_msg_ids_t \<Rightarrow> bool" where
  "i \<le> j \<longleftrightarrow> msg_id_code i \<le> msg_id_code j"

definition less_loc_eng_msg_ids_t :: "loc_eng_msg_ids_t \<Rightarrow> loc_eng_msg_ids_t \<Rightarrow> bool" where
  "i < j \<longleftrightarrow> msg_id_code i < msg_id_code j"

instance
  by standard (auto simp: less_eq_loc_eng_msg_ids_t_def less_loc_eng_msg_ids_t_def msg_id_code_inject)

end

section \<open>Position modes\<close>

datatype LocPositionMode =
    LOC_POSITION_MODE_STANDALONE | LOC_POSITION_MODE_MS_BASED | LOC_POSITION_MODE_MS_ASSISTED
  | LOC_POSITION_MODE_RESERVED_1 | LOC_POSITION_MODE_RESERVED_2
  | LOC_POSITION_MODE_RESERVED_3 | LOC_POSITION_MODE_RESERVED_4

datatype LocServerType =
    LOC_AGPS_CDMA_PDE_SERVER | LOC_AGPS_CUSTOM_PDE_SERVER | LOC_AGPS_MPC_SERVER | LOC_AGPS_SUPL_SERVER

datatype loc_sess_status = LOC_SESS_SUCCESS | LOC_SESS_INTERMEDIATE | LOC_SESS_FAILURE

definition MIN_POSSIBLE_FIX_INTERVAL :: u32 where
  [simp]: "MIN_POSSIBLE_FIX_INTERVAL = 1000"

record LocPosMode =
  pm_mode :: LocPositionMode
  pm_recurrence :: GpsPositionRecurrence
  pm_min_interval :: u32
  pm_preferred_accuracy :: u32
  pm_preferred_time :: u32
  pm_credentials :: "u8 list"
  pm_provider :: "u8 list"

definition memcpy :: "nat \<Rightarrow> 'a list \<Rightarrow> 'a list option" where
  "memcpy n src = (if n \<le> length src then Some (take n src) else None)"

text \<open>
  The constructor copies a fixed number of bytes out of the credentials and the provider, whatever
  the length of the strings they hold.
\<close>

definition new_LocPosMode :: "LocPositionMode \<Rightarrow> GpsPositionRecurrence \<Rightarrow> u32 \<Rightarrow> u32 \<Rightarrow> u32 \<Rightarrow>
    u8 list option \<Rightarrow> u8 list option \<Rightarrow> LocPosMode option" where
  "new_LocPosMode m recr gap accu time cred prov = do {
     c \<leftarrow> (case cred of None \<Rightarrow> Some (replicate 14 0) | Some s \<Rightarrow> map_option (\<lambda>b. b @ [0]) (memcpy 13 s));
     p \<leftarrow> (case prov of None \<Rightarrow> Some (replicate 8 0) | Some s \<Rightarrow> map_option (\<lambda>b. b @ [0]) (memcpy 7 s));
     Some \<lparr>pm_mode = m, pm_recurrence = recr,
           pm_min_interval = (if gap < MIN_POSSIBLE_FIX_INTERVAL then MIN_POSSIBLE_FIX_INTERVAL else gap),
           pm_preferred_accuracy = accu, pm_preferred_time = time,
           pm_credentials = c, pm_provider = p\<rparr>
   }"

definition default_LocPosMode :: LocPosMode where
  "default_LocPosMode = \<lparr>pm_mode = LOC_POSITION_MODE_MS_BASED,
     pm_recurrence = GPS_POSITION_RECURRENCE_PERIODIC, pm_min_interval = MIN_POSSIBLE_FIX_INTERVAL,
     pm_preferred_accuracy = 50, pm_preferred_time = 120000,
     pm_credentials = replicate 14 0, pm_provider = replicate 8 0\<rparr>"

definition LocPosMode_equals :: "LocPosMode \<Rightarrow> LocPosMode \<Rightarrow> bool" where
  "LocPosMode_equals this anotherMode \<longleftrightarrow>
     pm_mode anotherMode = pm_mode this \<and>
     pm_recurrence anotherMode = pm_recurrence this \<and>
     pm_min_interval anotherMode = pm_min_interval this \<and>
     pm_preferred_accuracy anotherMode = pm_preferred_accuracy this \<and>
     pm_preferred_time anotherMode = pm_preferred_time this \<and>
     strncmp_eq (14 - 1) (pm_credentials anotherMode) (pm_credentials this) \<and>
     strncmp_eq (8 - 1) (pm_provider anotherMode) (pm_provider this)"

section \<open>Messages\<close>

datatype (plugins only: code size) loc_eng_msg =
    loc_eng_msg loc_eng_msg_ids_t
  | loc_eng_msg_suple_version (supl_version: i32)
  | loc_eng_msg_lpp_config (lpp_config: i32)
  | loc_eng_msg_ext_power_config (isBatteryCharging: i32)
  | loc_eng_msg_sensor_control_config (sensorsDisabled: i32)
  | loc_eng_msg_sensor_properties bool real bool real bool real bool real bool real
  | loc_eng_msg_sensor_perf_control_config i32 i32 i32 i32 i32 i32 i32 i32 i32 i32
  | loc_eng_msg_position_mode (pMode: LocPosMode)
  | loc_eng_msg_set_time GpsUtcTime "64 word" i32
  | loc_eng_msg_inject_location real real real
  | loc_eng_msg_delete_aiding_data GpsAidingData
  | loc_eng_msg_report_position (location: GpsLocation) (locationExt: ptr) (position_status: loc_sess_status)
  | loc_eng_msg_report_sv GpsSvStatus ptr
  | loc_eng_msg_report_status GpsStatusValue
  | loc_eng_msg_report_nmea (nmea: "u8 list") (nmea_length: nat)
  | loc_eng_msg_request_bit loc_if_req_type_e_type i32 "u8 list option"
  | loc_eng_msg_request_wifi loc_if_req_type_e_type loc_if_req_sender_id_e_type "string option" "string option"
  | loc_eng_msg_release_bit loc_if_req_type_e_type i32 "u8 list option"
  | loc_eng_msg_release_wifi loc_if_req_type_e_type loc_if_req_sender_id_e_type "string option" "string option"
  | loc_eng_msg_request_atl i32 AGpsType
  | loc_eng_msg_release_atl i32
  | loc_eng_msg_request_ni GpsNiNotification ptr
  | loc_eng_msg_inform_ni_response (ni_response: GpsUserResponseType) (passThroughData: ptr)
  | loc_eng_msg_set_apn string
  | loc_eng_msg_set_server_ipv4 u32 i32 LocServerType
  | loc_eng_msg_set_server_url nat string
  | loc_eng_msg_inject_xtra_data "u8 list" nat
  | loc_eng_msg_atl_open_success AGpsStatusValue nat string AGpsBearerType
  | loc_eng_msg_atl_open_failed AGpsStatusValue
  | loc_eng_msg_atl_closed AGpsStatusValue
  | loc_eng_msg_set_data_enable i32 string nat
  | loc_eng_msg_request_network_position UlpNetworkRequestPos
  | loc_eng_msg_request_phone_context UlpPhoneContextRequest
  | ulp_msg_update_criteria UlpLocationCriteria
  | ulp_msg_inject_raw_command "u8 list" nat
  | ulp_msg_inject_phone_context_settings UlpPhoneContextSettings
  | ulp_msg_inject_network_position UlpNetworkPositionReport
  | ulp_msg_report_quipc_position GpsLocation i32
  | loc_eng_msg_engine_lock u32

fun msgid :: "loc_eng_msg \<Rightarrow> loc_eng_msg_ids_t" where
  "msgid (loc_eng_msg i) = i"
| "msgid (loc_eng_msg_suple_version _) = LOC_ENG_MSG_SUPL_VERSION"
| "msgid (loc_eng_msg_lpp_config _) = LOC_ENG_MSG_LPP_CONFIG"
| "msgid (loc_eng_msg_ext_power_config _) = LOC_ENG_MSG_EXT_POWER_CONFIG"
| "msgid (loc_eng_msg_sensor_control_config _) = LOC_ENG_MSG_SET_SENSOR_CONTROL_CONFIG"
| "msgid (loc_eng_msg_sensor_properties _ _ _ _ _ _ _ _ _ _) = LOC_ENG_MSG_SET_SENSOR_PROPERTIES"
| "msgid (loc_eng_msg_sensor_perf_control_config _ _ _ _ _ _ _ _ _ _) = LOC_ENG_MSG_SET_SENSOR_PERF_CONTROL_CONFIG"
| "msgid (loc_eng_msg_position_mode _) = LOC_ENG_MSG_SET_POSITION_MODE"
| "msgid (loc_eng_msg_set_time _ _ _) = LOC_ENG_MSG_SET_TIME"
| "msgid (loc_eng_msg_inject_location _ _ _) = LOC_ENG_MSG_INJECT_LOCATION"
| "msgid (loc_eng_msg_delete_aiding_data _) = LOC_ENG_MSG_DELETE_AIDING_DATA"
| "msgid (loc_eng_msg_report_position _ _ _) = LOC_ENG_MSG_REPORT_POSITION"
| "msgid (loc_eng_msg_report_sv _ _) = LOC_ENG_MSG_REPORT_SV"
| "msgid (loc_eng_msg_report_status _) = LOC_ENG_MSG_REPORT_STATUS"
| "msgid (loc_eng_msg_report_nmea _ _) = LOC_ENG_MSG_REPORT_NMEA"
| "msgid (loc_eng_msg_request_bit _ _ _) = LOC_ENG_MSG_REQUEST_BIT"
| "msgid (loc_eng_msg_request_wifi _ _ _ _) = LOC_ENG_MSG_REQUEST_WIFI"
| "msgid (loc_eng_msg_release_bit _ _ _) = LOC_ENG_MSG_RELEASE_BIT"
| "msgid (loc_eng_msg_release_wifi _ _ _ _) = LOC_ENG_MSG_RELEASE_WIFI"
| "msgid (loc_eng_msg_request_atl _ _) = LOC_ENG_MSG_REQUEST_ATL"
| "msgid (loc_eng_msg_release_atl _) = LOC_ENG_MSG_RELEASE_ATL"
| "msgid (loc_eng_msg_request_ni _ _) = LOC_ENG_MSG_REQUEST_NI"
| "msgid (loc_eng_msg_inform_ni_response _ _) = LOC_ENG_MSG_INFORM_NI_RESPONSE"
| "msgid (loc_eng_msg_set_apn _) = LOC_ENG_MSG_SET_APN"
| "msgid (loc_eng_msg_set_server_ipv4 _ _ _) = LOC_ENG_MSG_SET_SERVER_IPV4"
| "msgid (loc_eng_msg_set_server_url _ _) = LOC_ENG_MSG_SET_SERVER_URL"
| "msgid (loc_eng_msg_inject_xtra_data _ _) = LOC_ENG_MSG_INJECT_XTRA_DATA"
| "msgid (loc_eng_msg_atl_open_success _ _ _ _) = LOC_ENG_MSG_ATL_OPEN_SUCCESS"
| "msgid (loc_eng_msg_atl_open_failed _) = LOC_ENG_MSG_ATL_OPEN_FAILED"
| "msgid (loc_eng_msg_atl_closed _) = LOC_ENG_MSG_ATL_CLOSED"
| "msgid (loc_eng_msg_set_data_enable _ _ _) = LOC_ENG_MSG_ENABLE_DATA"
| "msgid (loc_eng_msg_request_network_position _) = LOC_ENG_MSG_REQUEST_NETWORK_POSIITON"
| "msgid (loc_eng_msg_request_phone_context _) = LOC_ENG_MSG_REQUEST_PHONE_CONTEXT"
| "msgid (ulp_msg_update_criteria _) = ULP_MSG_UPDATE_CRITERIA"
| "msgid (ulp_msg_inject_raw_command _ _) = ULP_MSG_INJECT_RAW_COMMAND"
| "msgid (ulp_msg_inject_phone_context_settings _) = ULP_MSG_INJECT_PHONE_CONTEXT_SETTINGS"
| "msgid (ulp_msg_inject_network_position _) = ULP_MSG_INJECT_NETWORK_POSITION"
| "msgid (ulp_msg_report_quipc_position _ _) = ULP_MSG_REPORT_QUIPC_POSITION"
| "msgid (loc_eng_msg_engine_lock _) = LOC_ENG_MSG_ENGINE_LOCK"

end
