(* ===== verification/Ni.thy ===== *)
theory Ni
  imports Loc_Msg
begin

text \<open>
  Network-initiated requests (gps/libloc_api_50001/loc_eng_ni.cpp): the modem asks whether it may
  locate the user, the request is shown to the user, and a thread per request sends the user's
  answer, or "no response" after a timeout, back to the modem. The deferred thread, the framework
  and the per-request threads share \<open>loc_eng_ni_data\<close>; a step of the transition relation is one
  critical section of the lock \<open>tLock\<close>, or one access that the code makes outside it.
\<close>

section \<open>Data\<close>

definition LOC_NI_NO_RESPONSE_TIME :: i32 where
  [simp]: "LOC_NI_NO_RESPONSE_TIME = 20"

record loc_eng_ni_data =
  respTimeLeft :: i32
  respRecvd :: bool
  rawRequest :: ptr
  reqID :: i32
  resp :: GpsUserResponseType

text \<open>What an operation does outside the structure, in the code's order.\<close>

datatype ni_event =
    NI_Free ptr
  | NI_Mute
  | NI_Spawn
  | NI_Signal
  | NI_Notify GpsNiNotification

section \<open>Operations\<close>

text \<open>\<open>created\<close>: whether \<open>pthread_create\<close> succeeds; the code only logs a failure.\<close>

definition loc_eng_ni_request_handler :: "bool \<Rightarrow> bool \<Rightarrow> GpsNiNotification \<Rightarrow> ptr \<Rightarrow>
    loc_eng_ni_data \<Rightarrow> loc_eng_ni_data \<times> ni_event list" where
  "loc_eng_ni_request_handler ni_notify_cb created notif passThrough d =
    (if \<not> ni_notify_cb then (d, [])
     else if rawRequest d \<noteq> NULL then (d, if passThrough \<noteq> NULL then [NI_Free passThrough] else [])
     else
       let notif' = notif\<lparr>ni_notification_id := reqID d\<rparr>;
           mute = (if ni_notify_flags notif = GPS_NI_PRIVACY_OVERRIDE then [NI_Mute] else []);
           left = 5 + (if ni_timeout notif \<noteq> 0 then ni_timeout notif else LOC_NI_NO_RESPONSE_TIME)
       in (d\<lparr>rawRequest := passThrough, respTimeLeft := left\<rparr>,
           mute @ (if created then [NI_Spawn] else []) @ [NI_Notify notif']))"

definition loc_eng_ni_reset_on_engine_restart :: "bool \<Rightarrow> loc_eng_ni_data \<Rightarrow> loc_eng_ni_data \<times> ni_event list" where
  "loc_eng_ni_reset_on_engine_restart ni_notify_cb d =
    (if \<not> ni_notify_cb then (d, [])
     else if rawRequest d \<noteq> NULL
     then (d\<lparr>rawRequest := NULL, respRecvd := True\<rparr>, [NI_Free (rawRequest d), NI_Signal])
     else (d, []))"

text \<open>The response field is not written: it keeps what the memory held.\<close>

definition loc_eng_ni_init :: "bool \<Rightarrow> bool \<Rightarrow> loc_eng_ni_data \<Rightarrow> bool \<times> loc_eng_ni_data" where
  "loc_eng_ni_init notify_cb ni_notify_cb d =
    (if \<not> notify_cb then (ni_notify_cb, d)
     else if ni_notify_cb then (ni_notify_cb, d)
     else (True, d\<lparr>respTimeLeft := 0, respRecvd := False, rawRequest := NULL, reqID := 0\<rparr>))"

definition loc_eng_ni_respond :: "bool \<Rightarrow> i32 \<Rightarrow> GpsUserResponseType \<Rightarrow>
    loc_eng_ni_data \<Rightarrow> loc_eng_ni_data \<times> ni_event list" where
  "loc_eng_ni_respond ni_notify_cb notif_id user_response d =
    (if \<not> ni_notify_cb then (d, [])
     else if notif_id = reqID d \<and> rawRequest d \<noteq> NULL
     then (d\<lparr>resp := user_response, respRecvd := True\<rparr>, [NI_Signal])
     else (d, []))"

section \<open>The thread of a request\<close>

text \<open>
  \<open>ni_thread_proc\<close>: started, waiting for the response until a time, and leaving, its message built
  and the lock released.
\<close>

datatype ni_thread =
    NI_Starting
  | NI_Waiting (deadline: int)
  | NI_Leaving (reply: "loc_eng_msg option")

text \<open>The part after the waiting loop, up to the release of the lock.\<close>

definition ni_thread_collect :: "loc_eng_ni_data \<Rightarrow> ni_thread \<times> loc_eng_ni_data" where
  "ni_thread_collect d =
    (if rawRequest d \<noteq> NULL
     then (NI_Leaving (Some (loc_eng_msg_inform_ni_response (resp d) (rawRequest d))),
           d\<lparr>respRecvd := False, rawRequest := NULL\<rparr>)
     else (NI_Leaving None, d\<lparr>respRecvd := False\<rparr>))"

text \<open>The loop's test, at the start and after a wake-up that is not the timeout.\<close>

definition ni_thread_test :: "int \<Rightarrow> loc_eng_ni_data \<Rightarrow> ni_thread \<times> loc_eng_ni_data" where
  "ni_thread_test expire_time d =
    (if respRecvd d then ni_thread_collect d else (NI_Waiting expire_time, d))"

definition ni_thread_start :: "int \<Rightarrow> loc_eng_ni_data \<Rightarrow> ni_thread \<times> loc_eng_ni_data" where
  "ni_thread_start present_time d = ni_thread_test (present_time + sint (respTimeLeft d)) d"

definition ni_thread_timeout :: "loc_eng_ni_data \<Rightarrow> ni_thread \<times> loc_eng_ni_data" where
  "ni_thread_timeout d = ni_thread_collect (d\<lparr>resp := GPS_NI_RESPONSE_NORESP\<rparr>)"

definition ni_thread_leave :: "loc_eng_ni_data \<Rightarrow> loc_eng_ni_data" where
  "ni_thread_leave d = d\<lparr>respTimeLeft := 0, reqID := reqID d + 1\<rparr>"

section \<open>All interleavings\<close>

record ni_system =
  ni_data :: loc_eng_ni_data
  ni_threads :: "ni_thread list"
  ni_clock :: int
  ni_accepted :: "ptr list"
  ni_freed :: "ptr list"
  ni_sent :: "loc_eng_msg list"
  ni_shown :: "GpsNiNotification list"

text \<open>The effect of an operation's events on the system.\<close>

fun ni_apply :: "ni_event \<Rightarrow> ni_system \<Rightarrow> ni_system" where
  "ni_apply (NI_Free p) s = s\<lparr>ni_freed := ni_freed s @ [p]\<rparr>"
| "ni_apply NI_Mute s = s"
| "ni_apply NI_Spawn s = s\<lparr>ni_threads := ni_threads s @ [NI_Starting]\<rparr>"
| "ni_apply NI_Signal s = s"
| "ni_apply (NI_Notify n) s = s\<lparr>ni_shown := ni_shown s @ [n]\<rparr>"

definition ni_do :: "loc_eng_ni_data \<times> ni_event list \<Rightarrow> ni_system \<Rightarrow> ni_system" where
  "ni_do r s = fold ni_apply (snd r) (s\<lparr>ni_data := fst r\<rparr>)"

definition ni_thread_to :: "nat \<Rightarrow> ni_thread \<times> loc_eng_ni_data \<Rightarrow> ni_system \<Rightarrow> ni_system" where
  "ni_thread_to i r s = s\<lparr>ni_threads := (ni_threads s)[i := fst r], ni_data := snd r\<rparr>"

text \<open>
  One step of the system. A waiting thread may wake without a signal, as \<open>pthread_cond_timedwait\<close>
  allows; after its deadline it may find the timeout although a response has come meanwhile.
  \<open>thr\<close> restricts the system to the runs in which every \<open>pthread_create\<close> succeeds.
\<close>

inductive ni_step :: "bool \<Rightarrow> ni_system \<Rightarrow> ni_system \<Rightarrow> bool" for thr :: bool where
  request: "thr \<longrightarrow> created \<Longrightarrow> ni_step thr s (ni_do (loc_eng_ni_request_handler True created n p (ni_data s))
              (s\<lparr>ni_accepted := ni_accepted s @ [p]\<rparr>))"
| respond: "ni_step thr s (ni_do (loc_eng_ni_respond True i r (ni_data s)) s)"
| restart: "ni_step thr s (ni_do (loc_eng_ni_reset_on_engine_restart True (ni_data s)) s)"
| start: "\<lbrakk>i < length (ni_threads s); ni_threads s ! i = NI_Starting\<rbrakk>
    \<Longrightarrow> ni_step thr s (ni_thread_to i (ni_thread_start (ni_clock s) (ni_data s)) s)"
| wake: "\<lbrakk>i < length (ni_threads s); ni_threads s ! i = NI_Waiting t\<rbrakk>
    \<Longrightarrow> ni_step thr s (ni_thread_to i (ni_thread_test t (ni_data s)) s)"
| time_out: "\<lbrakk>i < length (ni_threads s); ni_threads s ! i = NI_Waiting t; t \<le> ni_clock s\<rbrakk>
    \<Longrightarrow> ni_step thr s (ni_thread_to i (ni_thread_timeout (ni_data s)) s)"
| leave: "\<lbrakk>ni_threads s = ts @ NI_Leaving m # us\<rbrakk>
    \<Longrightarrow> ni_step thr s (s\<lparr>ni_threads := ts @ us, ni_data := ni_thread_leave (ni_data s),
                     ni_sent := ni_sent s @ (case m of None \<Rightarrow> [] | Some x \<Rightarrow> [x])\<rparr>)"
| tick: "0 \<le> dt \<Longrightarrow> ni_step thr s (s\<lparr>ni_clock := ni_clock s + dt\<rparr>)"

inductive_cases ni_step_cases: "ni_step thr s s'"

definition ni_initial :: "GpsUserResponseType \<Rightarrow> int \<Rightarrow> ni_system \<Rightarrow> bool" where
  "ni_initial garbage t s \<longleftrightarrow>
     s = \<lparr>ni_data = \<lparr>respTimeLeft = 0, respRecvd = False, rawRequest = NULL, reqID = 0, resp = garbage\<rparr>,
          ni_threads = [], ni_clock = t, ni_accepted = [], ni_freed = [], ni_sent = [], ni_shown = []\<rparr>"

inductive ni_reachable :: "bool \<Rightarrow> ni_system \<Rightarrow> bool" for thr :: bool where
  init: "ni_initial garbage t s \<Longrightarrow> ni_reachable thr s"
| step: "ni_reachable thr s \<Longrightarrow> ni_step thr s s' \<Longrightarrow> ni_reachable thr s'"

end
