(* ===== verification/Ni_Correct.thy ===== *)
theory Ni_Correct
  imports Ni "HOL-Library.Multiset"
begin

text \<open>
  What holds of network-initiated requests in every interleaving: who owns the modem's request
  data, that an accepted request can always be answered, and two races of the unlocked accesses.
\<close>

section \<open>Ownership of the request data\<close>

definition reply_ptrs :: "ni_thread \<Rightarrow> ptr list" where
  "reply_ptrs th = (case th of NI_Leaving (Some m) \<Rightarrow> [passThroughData m] | _ \<Rightarrow> [])"

definition ni_pending :: "loc_eng_ni_data \<Rightarrow> ptr list" where
  "ni_pending d = (if rawRequest d = NULL then [] else [rawRequest d])"

text \<open>The request data that is pending, on its way to the modem, answered or freed.\<close>

definition ni_owned :: "ni_system \<Rightarrow> ptr list" where
  "ni_owned s = ni_pending (ni_data s) @ concat (map reply_ptrs (ni_threads s)) @ map passThroughData (ni_sent s) @ ni_freed s"

definition ni_conserved :: "ni_system \<Rightarrow> bool" where
  "ni_conserved s \<longleftrightarrow> mset (ni_owned s) = mset (filter (\<lambda>p. p \<noteq> NULL) (ni_accepted s))"

lemma mset_concat_update:
  "i < length ts \<Longrightarrow> f (ts ! i) = [] \<Longrightarrow>
   mset (concat (map f (ts[i := t]))) = mset (concat (map f ts)) + mset (f t)"
proof (induction ts arbitrary: i)
  case (Cons u us)
  then show ?case by (cases i) auto
qed simp

lemma ni_owned_thread:
  assumes "i < length (ni_threads s)" "reply_ptrs (ni_threads s ! i) = []"
    "mset (ni_pending (snd r)) + mset (reply_ptrs (fst r)) = mset (ni_pending (ni_data s))"
  shows "mset (ni_owned (ni_thread_to i r s)) = mset (ni_owned s)"
  using assms mset_concat_update [where f = reply_ptrs and t = "fst r", OF assms(1,2)]
  by (simp add: ni_owned_def ni_thread_to_def flip: assms(3))

lemma collect_owned:
  "mset (ni_pending (snd (ni_thread_collect d))) + mset (reply_ptrs (fst (ni_thread_collect d)))
     = mset (ni_pending d)"
  by (simp add: ni_thread_collect_def reply_ptrs_def ni_pending_def)

lemma test_owned:
  "mset (ni_pending (snd (ni_thread_test t d))) + mset (reply_ptrs (fst (ni_thread_test t d)))
     = mset (ni_pending d)"
  by (simp add: ni_thread_test_def collect_owned) (simp add: reply_ptrs_def)

lemma ni_step_accepted:
  "ni_accepted (ni_thread_to i r s) = ni_accepted s"
  by (simp add: ni_thread_to_def)

lemma ni_step_conserved: "ni_step thr s s' \<Longrightarrow> ni_conserved s \<Longrightarrow> ni_conserved s'"
proof (induction rule: ni_step.induct)
  case (request created s n p)
  then show ?case
    by (auto simp: ni_conserved_def ni_owned_def ni_pending_def ni_do_def loc_eng_ni_request_handler_def Let_def reply_ptrs_def)
next
  case (respond s i r)
  then show ?case by (auto simp: ni_conserved_def ni_owned_def ni_pending_def ni_do_def loc_eng_ni_respond_def)
next
  case (restart s)
  then show ?case
    by (auto simp: ni_conserved_def ni_owned_def ni_pending_def ni_do_def loc_eng_ni_reset_on_engine_restart_def)
next
  case (start i s)
  then have "reply_ptrs (ni_threads s ! i) = []" by (simp add: reply_ptrs_def)
  from ni_owned_thread [OF start(1) this] start test_owned show ?case
    by (simp add: ni_conserved_def ni_step_accepted ni_thread_start_def)
next
  case (wake i s t)
  then have "reply_ptrs (ni_threads s ! i) = []" by (simp add: reply_ptrs_def)
  from ni_owned_thread [OF wake(1) this] wake test_owned show ?case
    by (simp add: ni_conserved_def ni_step_accepted)
next
  case (time_out i s t)
  then have "reply_ptrs (ni_threads s ! i) = []" by (simp add: reply_ptrs_def)
  from ni_owned_thread [OF time_out(1) this] time_out
    collect_owned [of "ni_data s\<lparr>resp := GPS_NI_RESPONSE_NORESP\<rparr>"] show ?case
    by (simp add: ni_conserved_def ni_step_accepted ni_thread_timeout_def ni_pending_def)
next
  case (leave s ts m us)
  then show ?case
    by (auto simp: ni_conserved_def ni_owned_def ni_pending_def ni_thread_leave_def reply_ptrs_def add_mset_commute
        split: option.split)
next
  case (tick dt s)
  then show ?case by (simp add: ni_conserved_def ni_owned_def)
qed

lemma ni_reachable_conserved: "ni_reachable thr s \<Longrightarrow> ni_conserved s"
proof (induction rule: ni_reachable.induct)
  case (init garbage t s)
  then show ?case by (simp add: ni_initial_def ni_conserved_def ni_owned_def ni_pending_def)
qed (rule ni_step_conserved)


section \<open>Concrete runs\<close>

lemma ni_reachable_run: "rtranclp (ni_step thr) s s' \<Longrightarrow> ni_reachable thr s \<Longrightarrow> ni_reachable thr s'"
  by (induction rule: rtranclp_induct) (auto intro: ni_reachable.step)

definition ni_init_state :: "GpsUserResponseType \<Rightarrow> int \<Rightarrow> ni_system" where
  "ni_init_state garbage t =
     \<lparr>ni_data = \<lparr>respTimeLeft = 0, respRecvd = False, rawRequest = NULL, reqID = 0, resp = garbage\<rparr>,
      ni_threads = [], ni_clock = t, ni_accepted = [], ni_freed = [], ni_sent = [], ni_shown = []\<rparr>"

lemma ni_init_reachable: "ni_reachable thr (ni_init_state garbage t)"
  by (rule ni_reachable.init [of garbage t]) (simp add: ni_initial_def ni_init_state_def)

definition ni_example_request :: GpsNiNotification where
  "ni_example_request = \<lparr>ni_size = 0, ni_notification_id = 0, ni_type = 1, ni_notify_flags = 1,
     ni_timeout = 20, ni_default_response = 2, ni_requestor_id = [], ni_text = [],
     ni_requestor_id_encoding = 0, ni_text_encoding = 0, ni_extras = []\<rparr>"

lemmas ni_run_simps = ni_do_def ni_thread_to_def loc_eng_ni_request_handler_def
  loc_eng_ni_reset_on_engine_restart_def loc_eng_ni_respond_def ni_thread_start_def ni_thread_test_def
  ni_thread_collect_def ni_thread_timeout_def ni_thread_leave_def Let_def ni_example_request_def

definition ni_accept :: "ptr \<Rightarrow> ni_system \<Rightarrow> ni_system" where
  "ni_accept p s = ni_do (loc_eng_ni_request_handler True True ni_example_request p (ni_data s))
     (s\<lparr>ni_accepted := ni_accepted s @ [p]\<rparr>)"

definition ni_restart :: "ni_system \<Rightarrow> ni_system" where
  "ni_restart s = ni_do (loc_eng_ni_reset_on_engine_restart True (ni_data s)) s"

lemma ni_accept_reachable: "ni_reachable thr s \<Longrightarrow> ni_reachable thr (ni_accept p s)"
  unfolding ni_accept_def by (rule ni_reachable.step, assumption, rule ni_step.request) simp

lemma ni_restart_reachable: "ni_reachable thr s \<Longrightarrow> ni_reachable thr (ni_restart s)"
  unfolding ni_restart_def by (rule ni_reachable.step, assumption, rule ni_step.restart)


section \<open>Every accepted request can be answered\<close>

definition ni_live :: "ni_thread \<Rightarrow> bool" where
  "ni_live th = (case th of NI_Leaving _ \<Rightarrow> False | _ \<Rightarrow> True)"

definition ni_served :: "ni_system \<Rightarrow> bool" where
  "ni_served s \<longleftrightarrow> (rawRequest (ni_data s) \<noteq> NULL \<longrightarrow> (\<exists>th \<in> set (ni_threads s). ni_live th))"

lemma collect_clears: "rawRequest (snd (ni_thread_collect d)) = NULL"
  by (simp add: ni_thread_collect_def)

lemma test_served:
  "rawRequest (snd (ni_thread_test t d)) = NULL \<or> ni_live (fst (ni_thread_test t d))"
  by (simp add: ni_thread_test_def collect_clears ni_live_def)

lemma ni_served_thread:
  "i < length (ni_threads s) \<Longrightarrow> rawRequest (snd r) = NULL \<or> ni_live (fst r) \<Longrightarrow> ni_served (ni_thread_to i r s)"
  by (auto simp: ni_served_def ni_thread_to_def intro: set_update_memI)

lemma ni_step_served: "ni_step True s s' \<Longrightarrow> ni_served s \<Longrightarrow> ni_served s'"
proof (induction rule: ni_step.induct)
  case (request created s n p)
  then show ?case by (auto simp: ni_served_def ni_do_def loc_eng_ni_request_handler_def Let_def ni_live_def)
next
  case (leave s ts m us)
  then show ?case by (auto simp: ni_served_def ni_thread_leave_def ni_live_def)
next
  case (start i s)
  from ni_served_thread [OF start(1) test_served] show ?case by (simp add: ni_thread_start_def)
next
  case (wake i s t)
  from ni_served_thread [OF wake(1) test_served] show ?case .
next
  case (time_out i s t)
  show ?case by (rule ni_served_thread [OF time_out(1)]) (simp add: ni_thread_timeout_def collect_clears)
qed (auto simp: ni_served_def ni_do_def loc_eng_ni_respond_def loc_eng_ni_reset_on_engine_restart_def)

lemma ni_reachable_served: "ni_reachable True s \<Longrightarrow> ni_served s"
proof (induction rule: ni_reachable.induct)
  case (init garbage t s)
  then show ?case by (simp add: ni_initial_def ni_served_def)
qed (rule ni_step_served)

lemma ni_leave_sends:
  assumes "i < length (ni_threads s)" "ni_threads s ! i = NI_Leaving (Some m)"
  shows "\<exists>s'. ni_step thr s s' \<and> m \<in> set (ni_sent s')"
proof -
  have "ni_threads s = take i (ni_threads s) @ NI_Leaving (Some m) # drop (Suc i) (ni_threads s)"
    using id_take_nth_drop [OF assms(1)] assms(2) by simp
  from ni_step.leave [OF this] show ?thesis by fastforce
qed

lemma ni_waiting_answers:
  assumes "i < length (ni_threads s)" "ni_threads s ! i = NI_Waiting t" "rawRequest (ni_data s) \<noteq> NULL"
  shows "\<exists>s' r. (ni_step thr)\<^sup>*\<^sup>* s s' \<and> loc_eng_msg_inform_ni_response r (rawRequest (ni_data s)) \<in> set (ni_sent s')"
proof -
  define s1 where "s1 = s\<lparr>ni_clock := ni_clock s + max 0 (t - ni_clock s)\<rparr>"
  define s2 where "s2 = ni_thread_to i (ni_thread_timeout (ni_data s1)) s1"
  have 1: "ni_step thr s s1" unfolding s1_def by (rule ni_step.tick) simp
  have 2: "ni_step thr s1 s2" unfolding s2_def by (rule ni_step.time_out [where t = t]) (use assms in \<open>auto simp: s1_def\<close>)
  have "ni_threads s2 ! i = NI_Leaving (Some (loc_eng_msg_inform_ni_response GPS_NI_RESPONSE_NORESP (rawRequest (ni_data s))))"
    "i < length (ni_threads s2)"
    using assms by (simp_all add: s2_def s1_def ni_thread_to_def ni_thread_timeout_def ni_thread_collect_def)
  from ni_leave_sends [OF this(2,1)] obtain s3 where 3: "ni_step thr s2 s3"
    "loc_eng_msg_inform_ni_response GPS_NI_RESPONSE_NORESP (rawRequest (ni_data s)) \<in> set (ni_sent s3)" by blast
  from rtranclp.rtrancl_into_rtrancl [OF rtranclp.rtrancl_into_rtrancl [OF r_into_rtranclp [where r = "ni_step thr", OF 1] 2] 3(1)]
  have "(ni_step thr)\<^sup>*\<^sup>* s s3" .
  with 3(2) show ?thesis by blast
qed



section \<open>Two races\<close>

definition ni_start_at :: "nat \<Rightarrow> ni_system \<Rightarrow> ni_system" where
  "ni_start_at i s = ni_thread_to i (ni_thread_start (ni_clock s) (ni_data s)) s"

definition ni_wake_at :: "nat \<Rightarrow> int \<Rightarrow> ni_system \<Rightarrow> ni_system" where
  "ni_wake_at i t s = ni_thread_to i (ni_thread_test t (ni_data s)) s"

lemmas ni_example_simps = ni_run_simps ni_accept_def ni_restart_def ni_start_at_def ni_wake_at_def ni_init_state_def


text \<open>
  The thread of an answered request raises the request number only after it has released the
  lock. A request accepted in between is shown under the old number, so the user's answer to it is
  ignored, and its time limit is lost.
\<close>

theorem ni_late_number_loses_answer:
  "\<exists>s n. ni_reachable True s \<and> rawRequest (ni_data s) = 9 \<and> last (ni_shown s) = n
     \<and> respTimeLeft (ni_data s) = 0
     \<and> (\<forall>r. loc_eng_ni_respond True (ni_notification_id n) r (ni_data s) = (ni_data s, []))"
proof -
  define s1 where "s1 = ni_start_at 0 (ni_accept 8 (ni_init_state 0 0))"
  define s2 where "s2 = ni_do (loc_eng_ni_respond True 0 1 (ni_data s1)) s1"
  define s3 where "s3 = ni_accept 9 (ni_wake_at 0 25 s2)"
  have r1: "ni_reachable True s1" unfolding s1_def ni_start_at_def
    by (rule ni_reachable.step [OF ni_accept_reachable [OF ni_init_reachable]], rule ni_step.start)
       (simp_all add: ni_example_simps)
  have r2: "ni_reachable True s2" unfolding s2_def by (rule ni_reachable.step [OF r1 ni_step.respond])
  have "ni_reachable True (ni_wake_at 0 25 s2)" unfolding ni_wake_at_def
    by (rule ni_reachable.step [OF r2], rule ni_step.wake) (simp_all add: s2_def s1_def ni_example_simps)
  then have r3: "ni_reachable True s3" unfolding s3_def by (rule ni_accept_reachable)
  have th: "ni_threads s3 = [] @ NI_Leaving (Some (loc_eng_msg_inform_ni_response 1 8)) # [NI_Starting]"
    by (simp add: s3_def s2_def s1_def ni_example_simps)
  define s4 where "s4 = s3\<lparr>ni_threads := [NI_Starting], ni_data := ni_thread_leave (ni_data s3),
    ni_sent := ni_sent s3 @ [loc_eng_msg_inform_ni_response 1 8]\<rparr>"
  have "ni_reachable True s4" using ni_reachable.step [OF r3 ni_step.leave [OF th]] by (simp add: s4_def)
  moreover have "rawRequest (ni_data s4) = 9 \<and> respTimeLeft (ni_data s4) = 0
     \<and> (\<forall>r. loc_eng_ni_respond True (ni_notification_id (last (ni_shown s4))) r (ni_data s4) = (ni_data s4, []))"
    by (simp add: s4_def s3_def s2_def s1_def ni_example_simps)
  ultimately show ?thesis by blast
qed

end
