(* ===== verification/Adapter.thy ===== *)
theory Adapter
  imports Loc_Msg
begin

text \<open>
  The adapter between the engine and the modem (gps/libloc_api_50001/LocApiAdapter.cpp and .h): its
  two byte codecs, the choice of the modem library, and the routing of the modem's reports to the
  engine's or the ULP's message queue. The virtual methods are implemented by a vendor library that
  is not part of the repository; the engine's model takes their results as parameters.
  \<open>char\<close> is unsigned, as it is for the ARM targets of this device.
\<close>

section \<open>Result codes\<close>

datatype loc_api_adapter_err =
    LOC_API_ADAPTER_ERR_SUCCESS | LOC_API_ADAPTER_ERR_GENERAL_FAILURE
  | LOC_API_ADAPTER_ERR_UNSUPPORTED | LOC_API_ADAPTER_ERR_INVALID_HANDLE
  | LOC_API_ADAPTER_ERR_INVALID_PARAMETER | LOC_API_ADAPTER_ERR_ENGINE_BUSY
  | LOC_API_ADAPTER_ERR_PHONE_OFFLINE | LOC_API_ADAPTER_ERR_TIMEOUT
  | LOC_API_ADAPTER_ERR_SERVICE_NOT_PRESENT | LOC_API_ADAPTER_ERR_ENGINE_DOWN
  | LOC_API_ADAPTER_ERR_FAILURE | LOC_API_ADAPTER_ERR_UNKNOWN

fun adapter_err_code :: "loc_api_adapter_err \<Rightarrow> int" where
  "adapter_err_code LOC_API_ADAPTER_ERR_SUCCESS = 0"
| "adapter_err_code LOC_API_ADAPTER_ERR_GENERAL_FAILURE = 1"
| "adapter_err_code LOC_API_ADAPTER_ERR_UNSUPPORTED = 2"
| "adapter_err_code LOC_API_ADAPTER_ERR_INVALID_HANDLE = 4"
| "adapter_err_code LOC_API_ADAPTER_ERR_INVALID_PARAMETER = 5"
| "adapter_err_code LOC_API_ADAPTER_ERR_ENGINE_BUSY = 6"
| "adapter_err_code LOC_API_ADAPTER_ERR_PHONE_OFFLINE = 7"
| "adapter_err_code LOC_API_ADAPTER_ERR_TIMEOUT = 8"
| "adapter_err_code LOC_API_ADAPTER_ERR_SERVICE_NOT_PRESENT = 9"
| "adapter_err_code LOC_API_ADAPTER_ERR_ENGINE_DOWN = 100"
| "adapter_err_code LOC_API_ADAPTER_ERR_FAILURE = 101"
| "adapter_err_code LOC_API_ADAPTER_ERR_UNKNOWN = 102"

section \<open>Byte codecs\<close>

definition poke :: "nat \<Rightarrow> 'a \<Rightarrow> 'a list \<Rightarrow> 'a list option" where
  "poke i x b = (if i < length b then Some (b[i := x]) else None)"

definition hex_digit :: "nat \<Rightarrow> char" where
  "hex_digit n = char_of (if n < 10 then 48 + n else 55 + n)"

text \<open>\<open>snprintf (\&b[i], 3, "\%02X", ch)\<close>.\<close>

definition print_02X :: "nat \<Rightarrow> u8 \<Rightarrow> char list \<Rightarrow> char list option" where
  "print_02X i ch b = do {
     b1 \<leftarrow> poke i (hex_digit (unat ch div 16)) b;
     b2 \<leftarrow> poke (i + 1) (hex_digit (unat ch mod 16)) b1;
     poke (i + 2) (CHR 0x00) b2
   }"

fun hexcode_loop :: "nat \<Rightarrow> char list \<Rightarrow> nat \<Rightarrow> u8 list \<Rightarrow> (nat \<times> char list) option" where
  "hexcode_loop i hexstring string_size [] = Some (i, hexstring)"
| "hexcode_loop i hexstring string_size (ch # data) =
    (if i * 2 + 3 \<le> string_size then do {
       h \<leftarrow> print_02X (i * 2) ch hexstring;
       hexcode_loop (i + 1) h string_size data
     } else Some (i, hexstring))"

definition hexcode :: "char list \<Rightarrow> nat \<Rightarrow> u8 list \<Rightarrow> (nat \<times> char list) option" where
  "hexcode hexstring string_size data = hexcode_loop 0 hexstring string_size data"

text \<open>
  One nibble of an address; digits above nine are fillers. The comparison with \<open>string_size - 1\<close> is
  on \<open>int\<close>s, so an empty buffer takes no digit.
\<close>

definition put_digit :: "nat \<Rightarrow> nat \<Rightarrow> nat \<times> char list \<Rightarrow> (nat \<times> char list) option" where
  "put_digit string_size d st = (case st of (idxOutput, addr) \<Rightarrow>
     if d \<le> 9 \<and> int idxOutput < int string_size - 1
     then map_option (Pair (idxOutput + 1)) (poke idxOutput (char_of (48 + d)) addr)
     else Some (idxOutput, addr))"

fun decode_loop :: "nat \<Rightarrow> u8 list \<Rightarrow> nat \<times> char list \<Rightarrow> (nat \<times> char list) option" where
  "decode_loop string_size [] st = Some st"
| "decode_loop string_size (ch # data) st = do {
     st1 \<leftarrow> put_digit string_size (unat (ch AND 0x0F)) st;
     st2 \<leftarrow> put_digit string_size (unat (drop_bit 4 ch)) st1;
     decode_loop string_size data st2
   }"

definition addr_prefix :: u8 where
  [simp]: "addr_prefix = 0x91"

definition decodeAddress :: "char list option \<Rightarrow> nat \<Rightarrow> u8 list option \<Rightarrow> (nat \<times> char list option) option" where
  "decodeAddress addr_string string_size data =
    (case (data, addr_string) of
       (Some d, Some a) \<Rightarrow>
         (case d of
            [] \<Rightarrow> None
          | p # ds \<Rightarrow>
              if p \<noteq> addr_prefix then map_option (\<lambda>a'. (0, Some a')) (poke 0 (CHR 0x00) a)
              else do {
                (idxOutput, a1) \<leftarrow> decode_loop string_size ds (0, a);
                a2 \<leftarrow> poke idxOutput (CHR 0x00) a1;
                Some (idxOutput, Some a2)
              })
     | _ \<Rightarrow> Some (0, addr_string))"

section \<open>Which library serves the modem\<close>

text \<open>
  \<open>v02\<close> and \<open>rpc\<close>: what \<open>dlopen\<close> and \<open>dlsym\<close> find for the two libraries, an adapter if the
  library's \<open>getLocApiAdapter\<close> made one.
\<close>

datatype 'a library = Not_Loaded | No_Symbol | Loaded "'a option"

fun loaded :: "'a library \<Rightarrow> bool" where
  "loaded Not_Loaded = False"
| "loaded _ = True"

fun from_symbol :: "'a library \<Rightarrow> 'a option" where
  "from_symbol (Loaded a) = a"
| "from_symbol _ = None"

definition getLocApiAdapter :: "'a \<Rightarrow> 'a library \<Rightarrow> 'a library \<Rightarrow> 'a option" where
  "getLocApiAdapter base v02 rpc =
    (let handle = (if loaded v02 then v02 else rpc) in
     if \<not> loaded handle then Some base else from_symbol handle)"

section \<open>Routing of reports\<close>

text \<open>
  The adapter's handle of the engine. Its owner is the one engine and its sender always
  \<open>loc_eng_msg_sender\<close>; whether there is a ULP sender decides the route of a report. The two parsers
  are for a vendor's adapter, which finds a function there in any case.
\<close>

type_synonym loc_ext_parser = "ptr \<Rightarrow> ptr"

definition noProc :: loc_ext_parser where
  "noProc data = NULL"

record LocEng =
  eventMask :: u32
  acquireWakelock :: bool
  releaseWakeLock :: bool
  sendUlpMsg :: bool
  extPosInfo :: loc_ext_parser
  extSvInfo :: loc_ext_parser

definition new_LocEng :: "u32 \<Rightarrow> bool \<Rightarrow> bool \<Rightarrow> bool \<Rightarrow> loc_ext_parser option \<Rightarrow> loc_ext_parser option \<Rightarrow> LocEng" where
  "new_LocEng emask acqwl relwl msgUlpSender posParser svParser =
     \<lparr>eventMask = emask, acquireWakelock = acqwl, releaseWakeLock = relwl, sendUlpMsg = msgUlpSender,
      extPosInfo = (case posParser of None \<Rightarrow> noProc | Some p \<Rightarrow> p),
      extSvInfo = (case svParser of None \<Rightarrow> noProc | Some p \<Rightarrow> p)\<rparr>"

lemma new_LocEng_sel [simp]:
  "eventMask (new_LocEng m a r u p s) = m" "sendUlpMsg (new_LocEng m a r u p s) = u"
  by (simp_all add: new_LocEng_def)

record LocApiAdapter =
  locEngHandle :: LocEng
  fixCriteria :: LocPosMode
  navigating :: bool

definition new_LocApiAdapter :: "LocEng \<Rightarrow> LocApiAdapter" where
  "new_LocApiAdapter locEng = \<lparr>locEngHandle = locEng, fixCriteria = default_LocPosMode, navigating = False\<rparr>"

text \<open>
  The events that the adapter can be asked for. The code only uses them as bits of a mask.
\<close>

datatype loc_api_adapter_event_index =
    LOC_API_ADAPTER_REPORT_POSITION | LOC_API_ADAPTER_REPORT_SATELLITE | LOC_API_ADAPTER_REPORT_NMEA_1HZ
  | LOC_API_ADAPTER_REPORT_NMEA_POSITION | LOC_API_ADAPTER_REQUEST_NI_NOTIFY_VERIFY
  | LOC_API_ADAPTER_REQUEST_ASSISTANCE_DATA | LOC_API_ADAPTER_REQUEST_LOCATION_SERVER
  | LOC_API_ADAPTER_REPORT_IOCTL | LOC_API_ADAPTER_REPORT_STATUS

fun event_index :: "loc_api_adapter_event_index \<Rightarrow> nat" where
  "event_index LOC_API_ADAPTER_REPORT_POSITION = 0"
| "event_index LOC_API_ADAPTER_REPORT_SATELLITE = 1"
| "event_index LOC_API_ADAPTER_REPORT_NMEA_1HZ = 2"
| "event_index LOC_API_ADAPTER_REPORT_NMEA_POSITION = 3"
| "event_index LOC_API_ADAPTER_REQUEST_NI_NOTIFY_VERIFY = 4"
| "event_index LOC_API_ADAPTER_REQUEST_ASSISTANCE_DATA = 5"
| "event_index LOC_API_ADAPTER_REQUEST_LOCATION_SERVER = 6"
| "event_index LOC_API_ADAPTER_REPORT_IOCTL = 7"
| "event_index LOC_API_ADAPTER_REPORT_STATUS = 8"

definition LOC_API_ADAPTER_BIT :: "loc_api_adapter_event_index \<Rightarrow> u32" where
  [simp]: "LOC_API_ADAPTER_BIT i = push_bit (event_index i) 1"

datatype route = To_Engine loc_eng_msg | To_Ulp loc_eng_msg | To_Nobody

definition reportPosition :: "LocEng \<Rightarrow> GpsLocation \<Rightarrow> ptr \<Rightarrow> loc_sess_status \<Rightarrow> route" where
  "reportPosition h loc locExt st =
    (let msg = loc_eng_msg_report_position loc locExt st
     in if sendUlpMsg h then To_Ulp msg else To_Engine msg)"

definition reportSv :: "LocEng \<Rightarrow> GpsSvStatus \<Rightarrow> ptr \<Rightarrow> route" where
  "reportSv h svStatus svExt =
    (let msg = loc_eng_msg_report_sv svStatus svExt
     in if sendUlpMsg h then To_Ulp msg else To_Engine msg)"

definition reportStatus :: "GpsStatusValue \<Rightarrow> route" where
  "reportStatus status = To_Engine (loc_eng_msg_report_status status)"

definition reportNmea :: "u8 list \<Rightarrow> nat \<Rightarrow> route option" where
  "reportNmea nm len = map_option (\<lambda>d. To_Engine (loc_eng_msg_report_nmea d len)) (memcpy len nm)"

definition requestATL :: "i32 \<Rightarrow> AGpsType \<Rightarrow> route" where
  "requestATL connHandle agps_type = To_Engine (loc_eng_msg_request_atl connHandle agps_type)"

definition releaseATL :: "i32 \<Rightarrow> route" where
  "releaseATL connHandle = To_Engine (loc_eng_msg_release_atl connHandle)"

definition requestXtraData :: route where
  "requestXtraData = To_Engine (loc_eng_msg LOC_ENG_MSG_REQUEST_XTRA_DATA)"

definition sizeof_GpsNiNotification :: nat where
  [simp]: "sizeof_GpsNiNotification = 4384"

text \<open>The two requests that the adapter does not support send nothing.\<close>

definition requestTime :: route where
  [simp]: "requestTime = To_Nobody"

definition requestLocation :: route where
  [simp]: "requestLocation = To_Nobody"

definition requestNiNotify :: "GpsNiNotification \<Rightarrow> ptr \<Rightarrow> route" where
  "requestNiNotify notif data =
     To_Engine (loc_eng_msg_request_ni (notif\<lparr>ni_size := sizeof_GpsNiNotification, ni_timeout := 20\<rparr>) data)"

definition handleEngineDownEvent :: route where
  "handleEngineDownEvent = To_Engine (loc_eng_msg LOC_ENG_MSG_ENGINE_DOWN)"

definition handleEngineUpEvent :: route where
  "handleEngineUpEvent = To_Engine (loc_eng_msg LOC_ENG_MSG_ENGINE_UP)"

end
