(* ===== verification/Adapter_Correct.thy ===== *)
theory Adapter_Correct
  imports Adapter
begin

text \<open>
  The adapter's byte codecs stay inside their buffers, write exactly the specified text, and can be
  inverted: the hexadecimal text gives back the bytes, a packed number its digits.
\<close>

section \<open>Hexadecimal text\<close>

lemma u8_bound: "unat (ch :: u8) < 256"
  using unsigned_less [of ch] by simp

lemma u8_high_nibble: "unat (ch :: u8) div 16 < 16"
  using u8_bound [of ch] by (simp add: less_mult_imp_div_less)

definition hex2 :: "u8 \<Rightarrow> char list" where
  "hex2 ch = [hex_digit (unat ch div 16), hex_digit (unat ch mod 16)]"

definition hexs :: "u8 list \<Rightarrow> char list" where
  "hexs data = concat (map hex2 data)"

lemma length_hexs [simp]: "length (hexs data) = 2 * length data"
  by (induction data) (auto simp: hexs_def hex2_def)

lemma update_three:
  "i + 3 \<le> length b \<Longrightarrow>
   b[i := x, Suc i := y, Suc (Suc i) := z] = take i b @ [x, y, z] @ drop (i + 3) b"
  by (rule nth_equalityI) (auto simp: nth_append nth_list_update nth_Cons' min_def not_less)

lemma print_02X_eq:
  "i + 3 \<le> length b \<Longrightarrow> print_02X i ch b = Some (take i b @ hex2 ch @ [CHR 0x00] @ drop (i + 3) b)"
  using update_three [of i b "hex_digit (unat ch div 16)" "hex_digit (unat ch mod 16)" "CHR 0x00"]
  by (simp add: print_02X_def poke_def hex2_def)

lemma drop_five [simp]: "drop (5 + n) (x # y # z # zs) = drop (2 + n) zs"
  by (simp add: numeral_eq_Suc)

lemma hexcode_loop_eq:
  assumes "string_size \<le> length b"
  shows "hexcode_loop i b string_size data =
    (let k = min (length data) ((string_size - 1) div 2 - i) in
     Some (i + k, if k = 0 then b
       else take (2 * i) b @ hexs (take k data) @ [CHR 0x00] @ drop (2 * (i + k) + 1) b))"
  using assms
proof (induction data arbitrary: i b)
  case Nil
  then show ?case by (simp add: Let_def)
next
  case (Cons ch data)
  show ?case
  proof (cases "i * 2 + 3 \<le> string_size")
    case True
    let ?b = "take (i * 2) b @ hex2 ch @ [CHR 0x00] @ drop (i * 2 + 3) b"
    let ?m = "(string_size - 1) div 2 - Suc i"
    have p: "print_02X (i * 2) ch b = Some ?b" using True Cons.prems by (intro print_02X_eq) simp
    have len: "string_size \<le> length ?b" using True Cons.prems by (simp add: hex2_def)
    have m: "(string_size - 1) div 2 - i = Suc ?m" using True by auto
    show ?thesis
    proof (cases "min (length data) ?m")
      case 0
      with True p Cons.IH [OF len, of "Suc i"] m show ?thesis by (auto simp: Let_def hexs_def mult.commute numeral_3_eq_3)
    next
      case (Suc k)
      with True p Cons.IH [OF len, of "Suc i"] m Cons.prems show ?thesis
        by (simp add: Let_def hexs_def mult.commute hex2_def numeral_3_eq_3 add.commute)
    qed
  next
    case False
    then have "(string_size - 1) div 2 - i = 0" by simp
    with False show ?thesis by (simp add: Let_def)
  qed
qed

text \<open>The inverse of \<open>hex2\<close> on text.\<close>

definition hex_value :: "char \<Rightarrow> nat" where
  "hex_value c = (if of_char c < (65::nat) then of_char c - 48 else of_char c - 55)"

fun unhex :: "char list \<Rightarrow> u8 list" where
  "unhex (a # b # cs) = word_of_nat (16 * hex_value a + hex_value b) # unhex cs"
| "unhex _ = []"

lemma hex_value_digit: "n < 16 \<Longrightarrow> hex_value (hex_digit n) = n"
  by (auto simp: hex_value_def hex_digit_def)

lemma unhex_hexs: "unhex (hexs data) = data"
proof (induction data)
  case (Cons ch data)
  have "unhex (hex2 ch @ hexs data) = ch # unhex (hexs data)"
    by (simp add: hex2_def hex_value_digit u8_high_nibble)
  with Cons show ?case by (simp add: hexs_def)
qed (simp add: hexs_def)

lemma hex_digit_nonzero: "n < 16 \<Longrightarrow> hex_digit n \<noteq> CHR 0x00"
proof
  assume "n < 16" "hex_digit n = CHR 0x00"
  then have "(of_char (hex_digit n) :: nat) = 0" by simp
  with \<open>n < 16\<close> show False by (simp add: hex_digit_def split: if_splits)
qed

lemma nul_notin_hexs: "CHR 0x00 \<notin> set (hexs data)"
proof (induction data)
  case (Cons ch data)
  with u8_high_nibble [of ch] hex_digit_nonzero [of "unat ch div 16"] hex_digit_nonzero [of "unat ch mod 16"]
  show ?case by (auto simp: hexs_def hex2_def)
qed (simp add: hexs_def)

lemma cstr_append_nul: "CHR 0x00 \<notin> set xs \<Longrightarrow> cstr (xs @ CHR 0x00 # ys) = xs"
  unfolding cstr_def by (subst takeWhile_append2) auto

text \<open>
  \<open>hexcode\<close> never writes outside the first \<open>string_size\<close> bytes, converts as many bytes as fit
  with their terminator, and the text it leaves decodes to exactly those bytes.
\<close>

theorem hexcode_roundtrip:
  assumes "string_size \<le> length b" "k = min (length data) ((string_size - 1) div 2)" "0 < k"
  shows "\<exists>b'. hexcode b string_size data = Some (k, b') \<and> length b' = length b
    \<and> drop string_size b' = drop string_size b \<and> unhex (cstr b') = take k data"
proof -
  let ?b = "hexs (take k data) @ [CHR 0x00] @ drop (2 * k + 1) b"
  have "2 * k + 1 \<le> string_size" "k \<le> length data" using assms by auto
  then have "length ?b = length b" "drop string_size ?b = drop string_size b"
    using assms(1) by (auto simp: min_def drop_Cons' Suc_diff_le split: nat_diff_split)
  moreover have "cstr ?b = hexs (take k data)"
    using cstr_append_nul [OF nul_notin_hexs, of "take k data"] by simp
  moreover have "hexcode b string_size data = Some (k, ?b)"
    using hexcode_loop_eq [OF assms(1), of 0 data] assms(3)
    unfolding hexcode_def Let_def minus_nat.diff_0 assms(2) [symmetric] by simp
  ultimately show ?thesis by (simp add: unhex_hexs)
qed

lemma hexcode_roundtrip_witness:
  "\<exists>b'. hexcode (replicate 6 CHR ''x'') 6 [0x91, 0x0A, 0xFF] = Some (2, b') \<and> unhex (cstr b') = [0x91, 0x0A]"
  using hexcode_roundtrip [of 6 "replicate 6 CHR ''x''" 2 "[0x91, 0x0A, 0xFF]"] by auto

section \<open>Packed decimal addresses\<close>

text \<open>The digits of a byte: low nibble first, fillers dropped.\<close>

definition nibbles :: "u8 \<Rightarrow> nat list" where
  "nibbles ch = filter (\<lambda>d. d \<le> 9) [unat (ch AND 0x0F), unat (drop_bit 4 ch)]"

definition digit_text :: "nat list \<Rightarrow> char list" where
  "digit_text ds = map (\<lambda>d. char_of (48 + d)) ds"

definition put_all :: "nat \<Rightarrow> nat list \<Rightarrow> nat \<times> char list \<Rightarrow> nat \<times> char list" where
  "put_all sz ds st = (case st of (i, b) \<Rightarrow>
     let k = min (length ds) (sz - 1 - i) in (i + k, take i b @ digit_text (take k ds) @ drop (i + k) b))"

lemma put_digit_eq:
  assumes "sz \<le> length b" "i \<le> length b"
  shows "put_digit sz d (i, b) = Some (put_all sz (filter (\<lambda>d. d \<le> 9) [d]) (i, b))"
proof (cases "d \<le> 9 \<and> i + 1 < sz")
  case True
  then have "min 1 (sz - 1 - i) = 1" by auto
  moreover have "b[i := char_of (48 + d)] = take i b @ char_of (48 + d) # drop (Suc i) b"
    using True assms by (intro upd_conv_take_nth_drop) simp
  ultimately show ?thesis using True assms by (simp add: put_digit_def put_all_def poke_def digit_text_def)
next
  case False
  then have "\<not> (d \<le> 9 \<and> int i < int sz - 1)" by auto
  moreover have "\<not> d \<le> 9 \<or> sz - 1 - i = 0" using False by auto
  ultimately show ?thesis by (auto simp: put_digit_def put_all_def Let_def digit_text_def)
qed

lemma put_all_bounds:
  assumes "sz \<le> length b" "i \<le> length b"
  shows "length (snd (put_all sz ds (i, b))) = length b" "fst (put_all sz ds (i, b)) \<le> length b"
  using assms by (auto simp: put_all_def Let_def digit_text_def min_def)

lemma put_all_append:
  assumes "sz \<le> length b" "i \<le> length b"
  shows "put_all sz es (put_all sz ds (i, b)) = put_all sz (ds @ es) (i, b)"
proof (cases "length ds \<le> sz - 1 - i")
  case True
  then have "min (length (ds @ es)) (sz - 1 - i) = length ds + min (length es) (sz - 1 - (i + length ds))"
    by auto
  with True assms show ?thesis
    by (auto simp: put_all_def Let_def digit_text_def ac_simps)
next
  case False
  with assms show ?thesis by (auto simp: put_all_def Let_def digit_text_def min_def)
qed

lemma decode_loop_eq:
  "sz \<le> length b \<Longrightarrow> i \<le> length b \<Longrightarrow>
   decode_loop sz data (i, b) = Some (put_all sz (concat (map nibbles data)) (i, b))"
proof (induction data arbitrary: i b)
  case Nil
  then show ?case by (simp add: put_all_def digit_text_def)
next
  case (Cons ch data)
  let ?lo = "filter (\<lambda>d. d \<le> 9) [unat (ch AND 0x0F)]" and ?hi = "filter (\<lambda>d. d \<le> 9) [unat (drop_bit 4 ch)]"
  obtain i1 b1 where 1: "put_all sz ?lo (i, b) = (i1, b1)" by fastforce
  obtain i2 b2 where 2: "put_all sz ?hi (i1, b1) = (i2, b2)" by fastforce
  from put_all_bounds [OF Cons.prems, of ?lo] 1 Cons.prems have b1: "sz \<le> length b1" "i1 \<le> length b1" by auto
  from put_all_bounds [OF b1, of ?hi] 2 b1 have b2: "sz \<le> length b2" "i2 \<le> length b2" by auto
  have "put_all sz (concat (map nibbles data)) (i2, b2) = put_all sz (concat (map nibbles (ch # data))) (i, b)"
    using put_all_append [OF Cons.prems, of "?hi @ concat (map nibbles data)" ?lo]
      put_all_append [OF b1, of "concat (map nibbles data)" ?hi]
    unfolding 1 2 by (simp add: nibbles_def)
  with Cons.IH [OF b2] put_digit_eq [OF Cons.prems] put_digit_eq [OF b1] 1 2 show ?case by simp
qed

text \<open>A number packed as semi-octets, the last half byte filled when the count is odd.\<close>

fun pack :: "nat list \<Rightarrow> u8 list" where
  "pack [] = []"
| "pack [a] = [word_of_nat (16 * 15 + a)]"
| "pack (a # b # ds) = word_of_nat (16 * b + a) # pack ds"

lemma u8_low: "unat ((w :: u8) AND 0x0F) = unat w mod 16"
proof -
  have "w AND 0x0F = take_bit 4 w" by (simp add: take_bit_eq_mask mask_eq_exp_minus_1)
  then have "unat (w AND 0x0F) = unat (take_bit 4 w)" by (rule arg_cong)
  also have "\<dots> = take_bit 4 (unat w)" by (rule unsigned_take_bit_eq)
  also have "\<dots> = unat w mod 16" by (simp add: take_bit_eq_mod)
  finally show ?thesis .
qed

lemma u8_high: "unat (drop_bit 4 (w :: u8)) = unat w div 16"
  unfolding unsigned_drop_bit_eq using u8_bound [of w] by (simp add: take_bit_nat_eq_self drop_bit_eq_div)

lemma nibble_split:
  assumes "a < 16" "b < 16"
  shows "unat ((word_of_nat (16 * b + a) :: u8) AND 0x0F) = a" "unat (drop_bit 4 (word_of_nat (16 * b + a) :: u8)) = b"
proof -
  have u: "unat (word_of_nat (16 * b + a) :: u8) = 16 * b + a"
    using assms by (simp add: unsigned_of_nat take_bit_nat_eq_self del: of_nat_add of_nat_mult)
  show "unat ((word_of_nat (16 * b + a) :: u8) AND 0x0F) = a" "unat (drop_bit 4 (word_of_nat (16 * b + a) :: u8)) = b"
    unfolding u8_low u8_high u using assms by simp_all
qed

lemma nibbles_pack: "\<forall>d \<in> set ds. d \<le> 9 \<Longrightarrow> concat (map nibbles (pack ds)) = ds"
proof (induction ds rule: pack.induct)
  case (2 a)
  then show ?case using nibble_split [of a 15] by (simp add: nibbles_def)
next
  case (3 a b ds)
  then show ?case using nibble_split [of a b] by (simp add: nibbles_def)
qed simp

lemma digit_text_nul: "\<forall>d \<in> set ds. d \<le> 9 \<Longrightarrow> CHR 0x00 \<notin> set (digit_text ds)"
proof
  assume ok: "\<forall>d \<in> set ds. d \<le> 9" and "CHR 0x00 \<in> set (digit_text ds)"
  then obtain d where d: "d \<in> set ds" "char_of (48 + d) = CHR 0x00" by (auto simp: digit_text_def)
  then have "(of_char (char_of (48 + d) :: char) :: nat) = 0" by simp
  with ok d(1) show False by (auto dest!: dvd_imp_le)
qed

lemma drop_past: "length xs = k \<Longrightarrow> k < sz \<Longrightarrow> drop sz (xs @ c # drop (Suc k) a) = drop sz a"
  by (simp add: drop_Cons' Suc_diff_le)

lemma nibbles_decimal: "d \<in> set (concat (map nibbles data)) \<Longrightarrow> d \<le> 9"
  by (auto simp: nibbles_def split: if_splits)

lemma decodeAddress_digits_core:
  assumes "0 < sz" "sz \<le> length a"
  shows "\<exists>a'. decodeAddress (Some a) sz (Some (addr_prefix # data))
       = Some (min (length (concat (map nibbles data))) (sz - 1), Some a')
     \<and> length a' = length a \<and> drop sz a' = drop sz a
     \<and> cstr a' = digit_text (take (sz - 1) (concat (map nibbles data)))"
proof -
  let ?ds = "concat (map nibbles data)"
  let ?k = "min (length ?ds) (sz - 1)"
  let ?a1 = "digit_text (take ?k ?ds) @ drop ?k a"
  have k: "?k < sz" "length (digit_text (take ?k ?ds)) = ?k" using assms by (auto simp: digit_text_def)
  have "decode_loop sz data (0, a) = Some (?k, ?a1)"
    using decode_loop_eq [OF assms(2), of 0 data] by (simp add: put_all_def Let_def)
  moreover have "poke ?k (CHR 0x00) ?a1 = Some (digit_text (take ?k ?ds) @ CHR 0x00 # drop (Suc ?k) a)"
  proof -
    have "drop ?k a \<noteq> []" using less_le_trans [OF k(1) assms(2)] by (simp only: drop_eq_Nil not_le)
    then obtain x xs where x: "drop ?k a = x # xs" by (cases "drop ?k a") auto
    then have "xs = drop (Suc ?k) a" by (metis drop_Suc list.sel(3) tl_drop)
    with x k(2) show ?thesis by (simp add: poke_def list_update_append)
  qed
  ultimately have dec: "decodeAddress (Some a) sz (Some (addr_prefix # data))
       = Some (?k, Some (digit_text (take ?k ?ds) @ CHR 0x00 # drop (Suc ?k) a))"
    by (simp add: decodeAddress_def)
  have "CHR 0x00 \<notin> set (digit_text (take ?k ?ds))"
    by (rule digit_text_nul) (meson in_set_takeD nibbles_decimal)
  then have "cstr (digit_text (take ?k ?ds) @ CHR 0x00 # drop (Suc ?k) a) = digit_text (take ?k ?ds)"
    by (rule cstr_append_nul)
  moreover have "take ?k ?ds = take (sz - 1) ?ds" by (simp add: min_def)
  moreover have "length (digit_text (take ?k ?ds) @ CHR 0x00 # drop (Suc ?k) a) = length a"
    using k assms(2) by simp
  moreover have "drop sz (digit_text (take ?k ?ds) @ CHR 0x00 # drop (Suc ?k) a) = drop sz a"
    using k(2,1) by (rule drop_past)
  ultimately show ?thesis using dec by auto
qed

text \<open>
  \<open>decodeAddress\<close> never writes outside the first \<open>string_size\<close> bytes; with the right prefix it
  leaves the decimal digits of the remaining bytes, low nibble first and fillers dropped, cut to
  what fits with the terminator.
\<close>

theorem decodeAddress_digits:
  assumes "0 < sz" "sz \<le> length a"
  shows "\<exists>a'. decodeAddress (Some a) sz (Some (addr_prefix # data))
       = Some (min (length (concat (map nibbles data))) (sz - 1), Some a')
     \<and> length a' = length a \<and> drop sz a' = drop sz a
     \<and> cstr a' = digit_text (take (sz - 1) (concat (map nibbles data)))"
  using assms by (rule decodeAddress_digits_core)

lemma decodeAddress_digits_witness:
  "\<exists>a'. decodeAddress (Some (replicate 8 CHR ''x'')) 8 (Some [0x91, 0x94, 0x71, 0xF5]) = Some (5, Some a')
     \<and> cstr a' = ''49175''"
proof -
  have n: "concat (map nibbles [0x94, 0x71, 0xF5]) = [4, 9, 1, 7, 5]"
    by (simp add: nibbles_def)
  have t: "digit_text [4, 9, 1, 7, 5] = ''49175''" by code_simp
  show ?thesis using decodeAddress_digits [of 8 "replicate 8 CHR ''x''" "[0x94, 0x71, 0xF5]"]
    unfolding n using t by auto
qed

text \<open>A packed decimal number is decoded to its own digits when the buffer can hold them.\<close>

theorem decodeAddress_pack:
  assumes "\<forall>d \<in> set ds. d \<le> 9" "length ds < sz" "sz \<le> length a"
  shows "\<exists>a'. decodeAddress (Some a) sz (Some (addr_prefix # pack ds)) = Some (length ds, Some a')
     \<and> cstr a' = digit_text ds"
  using decodeAddress_digits_core [of sz a "pack ds"] assms nibbles_pack [OF assms(1)] by auto

lemma decodeAddress_pack_witness:
  "\<exists>a'. decodeAddress (Some (replicate 4 CHR ''x'')) 4 (Some (addr_prefix # pack [1, 1, 2])) = Some (3, Some a')
     \<and> cstr a' = digit_text [1, 1, 2]"
  using decodeAddress_pack [of "[1, 1, 2]" 4 "replicate 4 CHR ''x''"] by (simp add: numeral_3_eq_3)

end
