(* ===== verification/C_Lib.thy ===== *)
theory C_Lib
  imports Loc_Prelude
begin

text \<open>
  What the configuration reader and the lights wrapper use of the C library to read and print
  numbers: \<open>isspace\<close>, \<open>strtol\<close>, \<open>atoi\<close> and the formats of \<open>snprintf\<close>, for ASCII text on a device
  whose \<open>int\<close> and \<open>long\<close> have 32 bits.
\<close>

section \<open>Characters and numbers of the C library\<close>

definition isspace :: "char \<Rightarrow> bool" where
  "isspace c \<longleftrightarrow> c \<in> {CHR 0x20, CHR 0x09, CHR 0x0A, CHR 0x0B, CHR 0x0C, CHR 0x0D}"

definition digit_value :: "char \<Rightarrow> nat option" where
  "digit_value c = (let n = (of_char c :: nat) in
     if 48 \<le> n \<and> n \<le> 57 then Some (n - 48)
     else if 97 \<le> n \<and> n \<le> 122 then Some (n - 87)
     else if 65 \<le> n \<and> n \<le> 90 then Some (n - 55) else None)"

fun digits_value :: "nat \<Rightarrow> nat \<Rightarrow> string \<Rightarrow> nat" where
  "digits_value base acc [] = acc"
| "digits_value base acc (c # cs) = (case digit_value c of
      Some d \<Rightarrow> if d < base then digits_value base (acc * base + d) cs else acc
    | None \<Rightarrow> acc)"

text \<open>\<open>long\<close> has 32 bits: \<open>strtol\<close> stops at its limits.\<close>

definition strtol :: "nat \<Rightarrow> string \<Rightarrow> int" where
  "strtol base s =
    (let s1 = dropWhile isspace s;
         (neg, s2) = (case s1 of c # r \<Rightarrow> if c = CHR ''-'' then (True, r) else if c = CHR ''+'' then (False, r) else (False, s1)
                      | [] \<Rightarrow> (False, s1));
         s3 = (if base = 16 \<and> (take 2 s2 = ''0x'' \<or> take 2 s2 = ''0X'') then drop 2 s2 else s2);
         n = int (digits_value base 0 s3)
     in max (- (2 ^ 31)) (min (2 ^ 31 - 1) (if neg then - n else n)))"

definition atoi :: "string \<Rightarrow> int" where
  "atoi s = strtol 10 s"

section \<open>Printing numbers\<close>

definition digit_char :: "nat \<Rightarrow> char" where
  "digit_char d = char_of (48 + d)"

fun decimal :: "nat \<Rightarrow> string" where
  "decimal n = (if n < 10 then [digit_char n] else decimal (n div 10) @ [digit_char (n mod 10)])"

declare decimal.simps [simp del]

text \<open>\<open>snprintf(buf, n, "%d\n", v)\<close> for a buffer that is large enough.\<close>

definition snprintf_d :: "int \<Rightarrow> string" where
  "snprintf_d v = (if v < 0 then CHR ''-'' # decimal (nat (- v)) else decimal (nat v)) @ [CHR 0x0A]"

lemma digit_value_digit_char: "d < 10 \<Longrightarrow> digit_value (digit_char d) = Some d"
  by (simp add: digit_value_def digit_char_def Let_def)

lemma digits_value_decimal: "digits_value 10 0 (decimal n @ r) = digits_value 10 n r"
proof (induction n arbitrary: r rule: decimal.induct)
  case (1 n)
  show ?case
  proof (cases "n < 10")
    case True
    then show ?thesis by (simp add: decimal.simps [of n] digit_value_digit_char)
  next
    case False
    then have "digits_value 10 0 (decimal n @ r) = digits_value 10 0 (decimal (n div 10) @ digit_char (n mod 10) # r)"
      by (simp add: decimal.simps [of n])
    also have "\<dots> = digits_value 10 (n div 10) (digit_char (n mod 10) # r)" using False by (rule 1)
    also have "\<dots> = digits_value 10 n r" by (simp add: digit_value_digit_char)
    finally show ?thesis .
  qed
qed

lemma decimal_Cons: "\<exists>c cs. decimal n = c # cs \<and> digit_value c \<noteq> None \<and> \<not> isspace c \<and> c \<noteq> CHR ''-'' \<and> c \<noteq> CHR ''+''"
proof (induction n rule: decimal.induct)
  case (1 n)
  show ?case
  proof (cases "n < 10")
    case True
    then have "n \<in> {0, 1, 2, 3, 4, 5, 6, 7, 8, 9}" by auto
    moreover have "\<not> isspace (digit_char d) \<and> digit_char d \<noteq> CHR ''-'' \<and> digit_char d \<noteq> CHR ''+''"
      if "d \<in> {0, 1, 2, 3, 4, 5, 6, 7, 8, 9}" for d
      using that by (auto simp: isspace_def digit_char_def char_of_def)
    ultimately show ?thesis using True by (simp add: decimal.simps [of n] digit_value_digit_char)
  next
    case False
    with 1 show ?thesis by (auto simp: decimal.simps [of n])
  qed
qed

lemma strtol_decimal:
  assumes "digits_value 10 n r = n" "n < 2 ^ 31"
  shows "strtol 10 (decimal n @ r) = int n"
proof -
  obtain c cs where d: "decimal n = c # cs" "\<not> isspace c" "c \<noteq> CHR ''-''" "c \<noteq> CHR ''+''"
    using decimal_Cons [of n] by blast
  have "digits_value 10 0 (decimal n @ r) = n" using assms(1) digits_value_decimal by simp
  moreover have "int n \<le> 2 ^ 31 - 1" using assms(2) by simp
  ultimately show ?thesis using d by (simp add: strtol_def Let_def del: digits_value.simps)
qed

lemma strtol_snprintf_d:
  assumes "\<bar>v\<bar> < 2 ^ 31"
  shows "strtol 10 (snprintf_d v) = v"
proof -
  have nl: "digits_value 10 n [CHR 0x0A] = n" for n by (simp add: digit_value_def)
  show ?thesis
  proof (cases "v < 0")
    case True
    have "digits_value 10 0 (decimal (nat (- v)) @ [CHR 0x0A]) = nat (- v)"
      using nl by (simp add: digits_value_decimal)
    with True assms show ?thesis by (simp add: snprintf_d_def strtol_def isspace_def)
  next
    case False
    with assms strtol_decimal [OF nl, of "nat v"] show ?thesis by (simp add: snprintf_d_def)
  qed
qed

lemma length_decimal: "n < 10 ^ k \<Longrightarrow> 0 < k \<Longrightarrow> length (decimal n) \<le> k"
proof (induction k arbitrary: n)
  case (Suc k)
  show ?case
  proof (cases "n < 10")
    case False
    then have "0 < k" using Suc.prems by (cases k) auto
    then have "length (decimal (n div 10)) \<le> k" using Suc by (intro Suc.IH) auto
    with False show ?thesis by (simp add: decimal.simps [of n])
  qed (simp add: decimal.simps [of n])
qed simp

section \<open>Strings in arrays of bytes\<close>

text \<open>The C string at the start of an array, and the bytes of a string.\<close>

definition text_of :: "u8 list \<Rightarrow> string" where
  "text_of bs = cstr (map (\<lambda>b. char_of (unat b)) bs)"

lemma char_of_0 [simp]: "char_of (0 :: nat) = CHR 0x00"
  by (simp add: char_of_def)

lemma char_of_byte_0: "(char_of (unat (b :: u8)) = CHR 0x00) = (b = 0)"
proof
  assume "char_of (unat b) = CHR 0x00"
  then have "of_char (char_of (unat b) :: char) = (of_char (CHR 0x00) :: nat)" by simp
  then have "unat b mod 256 = 0" by simp
  moreover have "unat b < 2 ^ LENGTH(8)" by (rule unsigned_less)
  ultimately show "b = 0" by (simp add: unat_eq_0)
next
  assume "b = 0"
  then show "char_of (unat b) = CHR 0x00" by (simp add: char_of_def)
qed

lemma text_of_append: "0 \<in> set bs \<Longrightarrow> text_of (bs @ r) = text_of bs"
proof (induction bs)
  case (Cons b bs)
  then show ?case by (cases "b = 0") (auto simp: text_of_def cstr_def char_of_byte_0)
qed simp

lemma length_text_of: "0 \<in> set bs \<Longrightarrow> length (text_of bs) < length bs"
proof (induction bs)
  case (Cons b bs)
  then show ?case by (cases "b = 0") (auto simp: text_of_def cstr_def char_of_byte_0)
qed simp

definition bytes_of :: "string \<Rightarrow> u8 list" where
  "bytes_of s = map of_char s"

lemma length_bytes_of [simp]: "length (bytes_of s) = length s"
  by (simp add: bytes_of_def)

lemma char_of_byte: "char_of (unat (of_char c :: u8)) = c"
proof -
  have "(of_char c :: u8) = of_nat (of_char c)" by (simp add: of_nat_of_char)
  then have "unat (of_char c :: u8) = of_char c mod 256" by (simp add: unat_of_nat)
  then show ?thesis by simp
qed

lemma text_of_bytes_of: "CHR 0x00 \<notin> set s \<Longrightarrow> text_of (bytes_of s @ 0 # r) = s"
  by (induction s) (auto simp: text_of_def bytes_of_def cstr_def char_of_byte char_of_0)

end
