(* ===== verification/Loc_Eng.thy ===== *)
theory Loc_Eng
  imports Adapter Ni C_Lib
begin

text \<open>
  The location engine (gps/libloc_api_50001/loc_eng.cpp, loc_eng.h, loc_eng_xtra.cpp): its module
  data, the functions the GPS interface calls, which queue messages, and the deferred thread, which
  takes one message at a time and acts on it. An operation returns \<open>None\<close> where the code follows a
  null pointer, reads memory it does not own, or waits forever. What leaves the engine (callbacks
  to the framework, calls of the modem adapter's virtual methods, the state machines' messages) is
  appended to \<open>eng_out\<close> in the code's order. The two queues are abstract lists; Msg\_Q\_Correct proves that
  the message queue implements them.
\<close>

section \<open>Configuration\<close>

record loc_gps_cfg =
  INTERMEDIATE_POS :: u32
  ACCURACY_THRES :: u32
  ENABLE_WIPER :: u32
  SUPL_VER :: u32
  CAPABILITIES :: u32
  GYRO_BIAS_RANDOM_WALK_VALID :: u8
  GYRO_BIAS_RANDOM_WALK :: real
  SENSOR_ACCEL_BATCHES_PER_SEC :: u32
  SENSOR_ACCEL_SAMPLES_PER_BATCH :: u32
  SENSOR_GYRO_BATCHES_PER_SEC :: u32
  SENSOR_GYRO_SAMPLES_PER_BATCH :: u32
  SENSOR_ACCEL_BATCHES_PER_SEC_HIGH :: u32
  SENSOR_ACCEL_SAMPLES_PER_BATCH_HIGH :: u32
  SENSOR_GYRO_BATCHES_PER_SEC_HIGH :: u32
  SENSOR_GYRO_SAMPLES_PER_BATCH_HIGH :: u32
  SENSOR_CONTROL_MODE :: u32
  SENSOR_USAGE :: u32
  QUIPC_ENABLED :: u32
  LPP_PROFILE :: u32
  SENSOR_ALGORITHM_CONFIG_MASK :: u32
  ACCEL_RANDOM_WALK_SPECTRAL_DENSITY_VALID :: u8
  ACCEL_RANDOM_WALK_SPECTRAL_DENSITY :: real
  ANGLE_RANDOM_WALK_SPECTRAL_DENSITY_VALID :: u8
  ANGLE_RANDOM_WALK_SPECTRAL_DENSITY :: real
  RATE_RANDOM_WALK_SPECTRAL_DENSITY_VALID :: u8
  RATE_RANDOM_WALK_SPECTRAL_DENSITY :: real
  VELOCITY_RANDOM_WALK_SPECTRAL_DENSITY_VALID :: u8
  VELOCITY_RANDOM_WALK_SPECTRAL_DENSITY :: real

text \<open>\<open>QUIPC_ENABLED\<close> has no default and keeps the value of the zero-initialised global.\<close>

definition loc_default_parameters :: "loc_gps_cfg \<Rightarrow> loc_gps_cfg" where
  "loc_default_parameters c = \<lparr>
     INTERMEDIATE_POS = 0, ACCURACY_THRES = 0, ENABLE_WIPER = 0, SUPL_VER = 0x10000, CAPABILITIES = 0x7,
     GYRO_BIAS_RANDOM_WALK_VALID = 0, GYRO_BIAS_RANDOM_WALK = 0,
     SENSOR_ACCEL_BATCHES_PER_SEC = 2, SENSOR_ACCEL_SAMPLES_PER_BATCH = 5,
     SENSOR_GYRO_BATCHES_PER_SEC = 2, SENSOR_GYRO_SAMPLES_PER_BATCH = 5,
     SENSOR_ACCEL_BATCHES_PER_SEC_HIGH = 4, SENSOR_ACCEL_SAMPLES_PER_BATCH_HIGH = 25,
     SENSOR_GYRO_BATCHES_PER_SEC_HIGH = 4, SENSOR_GYRO_SAMPLES_PER_BATCH_HIGH = 25,
     SENSOR_CONTROL_MODE = 0, SENSOR_USAGE = 0, QUIPC_ENABLED = QUIPC_ENABLED c, LPP_PROFILE = 0,
     SENSOR_ALGORITHM_CONFIG_MASK = 0,
     ACCEL_RANDOM_WALK_SPECTRAL_DENSITY_VALID = 0, ACCEL_RANDOM_WALK_SPECTRAL_DENSITY = 0,
     ANGLE_RANDOM_WALK_SPECTRAL_DENSITY_VALID = 0, ANGLE_RANDOM_WALK_SPECTRAL_DENSITY = 0,
     RATE_RANDOM_WALK_SPECTRAL_DENSITY_VALID = 0, RATE_RANDOM_WALK_SPECTRAL_DENSITY = 0,
     VELOCITY_RANDOM_WALK_SPECTRAL_DENSITY_VALID = 0, VELOCITY_RANDOM_WALK_SPECTRAL_DENSITY = 0\<rparr>"

section \<open>What leaves the engine\<close>

datatype (plugins only: code size) api_call =
    setEngineLock u32
  | reinit
  | startFix
  | stopFix
  | deleteAidingData GpsAidingData
  | enableData i32
  | setAPN_api string nat
  | injectPosition real real real
  | setTime GpsUtcTime "64 word" i32
  | setXtraData "u8 list" nat
  | setPositionMode "LocPosMode option"
  | setServer_url string nat
  | setServer_ip u32 i32 LocServerType
  | informNiResponse GpsUserResponseType ptr
  | setSUPLVersion u32
  | setLPPConfig u32
  | setSensorControlConfig i32
  | setSensorProperties bool real bool real bool real bool real bool real
  | setSensorPerfControlConfig i32 i32 i32 i32 i32 i32 i32 i32 i32 i32
  | setExtPowerConfig i32

datatype nif_id = Agnss | Internet | Wifi

datatype (plugins only: code size) eng_out =
    Cb_location "GpsLocation option" ptr
  | Cb_status GpsStatusValue
  | Cb_sv_status GpsSvStatus ptr
  | Cb_nmea "64 word" "u8 list" nat
  | Cb_set_capabilities u32
  | Cb_ni_notify GpsNiNotification
  | Cb_xtra_download
  | Cb_ulp_network UlpNetworkRequestPos
  | Cb_ulp_phone_context UlpPhoneContextRequest
  | Api api_call
  | Nif nif_id agps_out
  | Ni_thread
  | Free ptr
  | Free_rawData ptr
  | Sleep_1s
  | Server_launch

section \<open>Module data\<close>

datatype loc_mute_session_e_type = LOC_MUTE_SESS_NONE | LOC_MUTE_SESS_WAIT | LOC_MUTE_SESS_IN_SESSION

record LocEngContext =
  deferred_q :: "loc_eng_msg list"
  ulp_q :: "loc_eng_msg list"
  counter :: int

text \<open>
  A callback pointer is only compared with \<open>NULL\<close> and called, so a callback field says whether it
  is set. \<open>eng_context\<close> says whether the pointer to the one context, the global \<open>me\<close>, is set.
\<close>

record loc_eng_data =
  client_handle :: "LocApiAdapter option"
  location_cb :: bool
  status_cb :: bool
  sv_status_cb :: bool
  agps_status_cb :: bool
  nmea_cb :: bool
  ni_notify_cb :: bool
  acquire_wakelock_cb :: bool
  release_wakelock_cb :: bool
  ulp_network_callback :: bool
  ulp_phone_context_req_cb :: bool
  intermediateFix :: u8
  agps_request_pending :: bool
  stop_request_pending :: bool
  download_request_cb :: bool
  loc_eng_ni :: loc_eng_ni_data
  agnss_nif :: "AgpsStateMachine option"
  internet_nif :: "AgpsStateMachine option"
  wifi_nif :: "AgpsStateMachine option"
  engine_status :: GpsStatusValue
  fix_session_status :: GpsStatusValue
  aiding_data_for_deletion :: GpsAidingData
  eng_context :: bool
  mute_session_state :: loc_mute_session_e_type
  supl_host_set :: bool
  supl_host_buf :: string
  supl_port_buf :: i32
  c2k_host_set :: bool
  c2k_host_buf :: string
  c2k_port_buf :: i32
  ulp_initialized :: bool

record engine = loc_eng_data +
  me :: "LocEngContext option"
  eng_out :: "eng_out list"

definition zero_loc_eng_data :: loc_eng_data where
  "zero_loc_eng_data = \<lparr>client_handle = None, location_cb = False, status_cb = False, sv_status_cb = False,
     agps_status_cb = False, nmea_cb = False, ni_notify_cb = False, acquire_wakelock_cb = False,
     release_wakelock_cb = False, ulp_network_callback = False, ulp_phone_context_req_cb = False,
     intermediateFix = 0, agps_request_pending = False, stop_request_pending = False,
     download_request_cb = False,
     loc_eng_ni = \<lparr>respTimeLeft = 0, respRecvd = False, rawRequest = NULL, reqID = 0, resp = 0\<rparr>,
     agnss_nif = None, internet_nif = None, wifi_nif = None,
     engine_status = GPS_STATUS_NONE, fix_session_status = GPS_STATUS_NONE,
     aiding_data_for_deletion = 0, eng_context = False, mute_session_state = LOC_MUTE_SESS_NONE,
     supl_host_set = False, supl_host_buf = [], supl_port_buf = 0,
     c2k_host_set = False, c2k_host_buf = [], c2k_port_buf = 0, ulp_initialized = False\<rparr>"

text \<open>
  What the step cannot know: the results of the adapter's virtual methods, what its
  \<open>setPositionMode\<close> stores as the fix criteria, the time of day, whether a thread can be created, and
  the bytes of an uninitialised array.
\<close>

record api_env =
  ret_startFix :: loc_api_adapter_err
  ret_stopFix :: loc_api_adapter_err
  ret_reinit :: loc_api_adapter_err
  api_fix_criteria :: "LocPosMode option \<Rightarrow> LocPosMode \<Rightarrow> LocPosMode"
  time_of_day :: "64 word"
  thread_created :: bool
  array_junk :: "u8 list"

section \<open>Primitives\<close>

definition emit :: "eng_out \<Rightarrow> engine \<Rightarrow> engine" where
  "emit ev e = e\<lparr>eng_out := eng_out e @ [ev]\<rparr>"

definition emit_if :: "bool \<Rightarrow> eng_out \<Rightarrow> engine \<Rightarrow> engine" where
  "emit_if b ev e = (if b then emit ev e else e)"

definition snd_deferred :: "loc_eng_msg \<Rightarrow> engine \<Rightarrow> engine option" where
  "snd_deferred msg e =
    (if \<not> eng_context e then None
     else map_option (\<lambda>c. e\<lparr>me := Some (c\<lparr>deferred_q := deferred_q c @ [msg]\<rparr>)\<rparr>) (me e))"

definition snd_ulp :: "loc_eng_msg \<Rightarrow> engine \<Rightarrow> engine option" where
  "snd_ulp msg e =
    (if \<not> eng_context e then None
     else map_option (\<lambda>c. e\<lparr>me := Some (c\<lparr>ulp_q := ulp_q c @ [msg]\<rparr>)\<rparr>) (me e))"

text \<open>A call of one of the adapter's methods; \<open>None\<close> when there is no adapter.\<close>

definition call_api :: "api_call \<Rightarrow> engine \<Rightarrow> engine option" where
  "call_api a e = (if client_handle e = None then None else Some (emit (Api a) e))"

definition isInSession :: "engine \<Rightarrow> bool option" where
  "isInSession e = map_option navigating (client_handle e)"

definition setInSession :: "bool \<Rightarrow> engine \<Rightarrow> engine option" where
  "setInSession b e = map_option (\<lambda>a. e\<lparr>client_handle := Some (a\<lparr>navigating := b\<rparr>)\<rparr>) (client_handle e)"

definition set_position_mode_api :: "api_env \<Rightarrow> LocPosMode option \<Rightarrow> engine \<Rightarrow> engine option" where
  "set_position_mode_api env p e =
     map_option (\<lambda>a. emit (Api (setPositionMode p))
         (e\<lparr>client_handle := Some (a\<lparr>fixCriteria := api_fix_criteria env p (fixCriteria a)\<rparr>)\<rparr>)) (client_handle e)"

fun get_nif :: "nif_id \<Rightarrow> engine \<Rightarrow> AgpsStateMachine option" where
  "get_nif Agnss e = agnss_nif e"
| "get_nif Internet e = internet_nif e"
| "get_nif Wifi e = wifi_nif e"

fun put_nif :: "nif_id \<Rightarrow> AgpsStateMachine \<Rightarrow> engine \<Rightarrow> engine" where
  "put_nif Agnss m e = e\<lparr>agnss_nif := Some m\<rparr>"
| "put_nif Internet m e = e\<lparr>internet_nif := Some m\<rparr>"
| "put_nif Wifi m e = e\<lparr>wifi_nif := Some m\<rparr>"

fun is_nif_request :: "agps_out \<Rightarrow> bool" where
  "is_nif_request (NifRequest _) = True"
| "is_nif_request _ = False"

text \<open>
  An operation of one of the state machines. The machine keeps its own log; what it adds to it goes
  out. A request to the connectivity service calls the servicer, which is the AGPS status callback.
\<close>

definition run_nif :: "nif_id \<Rightarrow> (AgpsStateMachine \<Rightarrow> 'r \<times> AgpsStateMachine) \<Rightarrow> engine \<Rightarrow> ('r \<times> engine) option" where
  "run_nif k f e = (case get_nif k e of
      None \<Rightarrow> None
    | Some m \<Rightarrow>
        let (r, m') = f m; evs = drop (length (sm_out m)) (sm_out m') in
        if \<not> agps_status_cb e \<and> (\<exists>ev \<in> set evs. is_nif_request ev) then None
        else Some (r, (put_nif k m' e)\<lparr>eng_out := eng_out e @ map (Nif k) evs\<rparr>))"

definition on_nif :: "nif_id \<Rightarrow> (AgpsStateMachine \<Rightarrow> AgpsStateMachine) \<Rightarrow> engine \<Rightarrow> engine option" where
  "on_nif k f e = map_option snd (run_nif k (\<lambda>m. ((), f m)) e)"

section \<open>Functions called by the GPS interface\<close>

text \<open>\<open>INIT_CHECK\<close>: without a context the function returns its error code and does nothing.\<close>

definition INIT_CHECK :: "bool \<Rightarrow> 'r \<Rightarrow> engine \<Rightarrow> ('r \<times> engine) option \<Rightarrow> ('r \<times> engine) option" where
  "INIT_CHECK ok ret e body = (if \<not> ok then Some (ret, e) else body)"

definition ulp_active :: "loc_gps_cfg \<Rightarrow> engine \<Rightarrow> bool" where
  "ulp_active conf e \<longleftrightarrow> ulp_initialized e \<and> CAPABILITIES conf AND ULP_CAPABILITY \<noteq> 0"

definition loc_eng_set_engine_lock :: "u32 \<Rightarrow> engine \<Rightarrow> (int \<times> engine) option" where
  "loc_eng_set_engine_lock lock e = INIT_CHECK (eng_context e) (-1) e
     (map_option (Pair 0) (snd_deferred (loc_eng_msg_engine_lock lock) e))"

definition loc_eng_start :: "loc_gps_cfg \<Rightarrow> engine \<Rightarrow> (int \<times> engine) option" where
  "loc_eng_start conf e = INIT_CHECK (eng_context e) (-1) e
     (map_option (Pair 0)
       (if ulp_active conf e then snd_ulp (loc_eng_msg ULP_MSG_START_FIX) e
        else snd_deferred (loc_eng_msg LOC_ENG_MSG_START_FIX) e))"

definition loc_eng_stop :: "loc_gps_cfg \<Rightarrow> engine \<Rightarrow> (int \<times> engine) option" where
  "loc_eng_stop conf e = INIT_CHECK (eng_context e) (-1) e
     (map_option (Pair 0)
       (if ulp_active conf e then snd_ulp (loc_eng_msg ULP_MSG_STOP_FIX) e
        else snd_deferred (loc_eng_msg LOC_ENG_MSG_STOP_FIX) e))"

definition loc_eng_set_position_mode :: "LocPosMode \<Rightarrow> engine \<Rightarrow> (int \<times> engine) option" where
  "loc_eng_set_position_mode params e = INIT_CHECK (eng_context e) (-1) e
     (map_option (Pair 0) (snd_deferred (loc_eng_msg_position_mode params) e))"

definition loc_eng_inject_time :: "GpsUtcTime \<Rightarrow> 64 word \<Rightarrow> i32 \<Rightarrow> engine \<Rightarrow> (int \<times> engine) option" where
  "loc_eng_inject_time time timeReference uncertainty e = INIT_CHECK (eng_context e) (-1) e
     (map_option (Pair 0) (snd_deferred (loc_eng_msg_set_time time timeReference uncertainty) e))"

definition loc_eng_inject_location :: "real \<Rightarrow> real \<Rightarrow> real \<Rightarrow> engine \<Rightarrow> (int \<times> engine) option" where
  "loc_eng_inject_location latitude longitude accuracy e = INIT_CHECK (eng_context e) (-1) e
     (map_option (Pair 0) (snd_deferred (loc_eng_msg_inject_location latitude longitude accuracy) e))"

definition loc_eng_delete_aiding_data :: "GpsAidingData \<Rightarrow> engine \<Rightarrow> (unit \<times> engine) option" where
  "loc_eng_delete_aiding_data f e = INIT_CHECK (eng_context e) () e
     (map_option (Pair ()) (snd_deferred (loc_eng_msg_delete_aiding_data f) e))"

definition MAX_APN_LEN :: nat where
  [simp]: "MAX_APN_LEN = 100"

definition agps_checked :: "engine \<Rightarrow> (int \<times> engine) option \<Rightarrow> (int \<times> engine) option" where
  "agps_checked e body = INIT_CHECK (eng_context e \<and> agps_status_cb e) (-1) e body"

definition loc_eng_agps_open ::
    "AGpsType \<Rightarrow> string option \<Rightarrow> AGpsBearerType \<Rightarrow> engine \<Rightarrow> (int \<times> engine) option" where
  "loc_eng_agps_open agpsType apn bearerType e = agps_checked e
     (case apn of
        None \<Rightarrow> Some (0, e)
      | Some a \<Rightarrow>
          let apn_len = min (length a) MAX_APN_LEN
          in map_option (Pair 0)
               (snd_deferred (loc_eng_msg_atl_open_success agpsType apn_len (take apn_len a) bearerType) e))"

definition loc_eng_agps_closed :: "AGpsType \<Rightarrow> engine \<Rightarrow> (int \<times> engine) option" where
  "loc_eng_agps_closed agpsType e = agps_checked e
     (map_option (Pair 0) (snd_deferred (loc_eng_msg_atl_closed agpsType) e))"

definition loc_eng_agps_open_failed :: "AGpsType \<Rightarrow> engine \<Rightarrow> (int \<times> engine) option" where
  "loc_eng_agps_open_failed agpsType e = agps_checked e
     (map_option (Pair 0) (snd_deferred (loc_eng_msg_atl_open_failed agpsType) e))"

definition loc_eng_agps_ril_update_network_availability ::
    "i32 \<Rightarrow> string option \<Rightarrow> engine \<Rightarrow> (unit \<times> engine) option" where
  "loc_eng_agps_ril_update_network_availability available apn e = INIT_CHECK (eng_context e) () e
     (case apn of
        None \<Rightarrow> Some ((), e)
      | Some a \<Rightarrow>
          let apn_len = min (length a) MAX_APN_LEN
          in map_option (Pair ())
               (snd_deferred (loc_eng_msg_set_data_enable available (take apn_len a) apn_len) e))"

definition loc_eng_mute_one_session :: "engine \<Rightarrow> engine" where
  "loc_eng_mute_one_session e = e\<lparr>mute_session_state := LOC_MUTE_SESS_WAIT\<rparr>"

subsection \<open>Server addresses\<close>

definition MAX_URL_LEN :: nat where
  [simp]: "MAX_URL_LEN = 256"

definition SUPL_HOST_BUF :: nat where
  [simp]: "SUPL_HOST_BUF = 101"

text \<open>\<open>htonl\<close> on the little-endian target.\<close>

definition htonl :: "u32 \<Rightarrow> u32" where
  "htonl x = push_bit 24 (x AND 0xFF) OR push_bit 8 (x AND 0xFF00)
     OR drop_bit 8 (x AND 0xFF0000) OR drop_bit 24 x"

text \<open>
  \<open>gethostbyname\<close> answers with addresses of the internet family, which fill a \<open>struct in_addr\<close>; the
  first of them is taken. \<open>inet_aton\<close> answers for a number in dots. The result is what is in
  \<open>*in_addr_ptr\<close> when the function returns true. The functions below take it as \<open>resolve\<close>.
\<close>

definition resolve_in_addr :: "(string \<Rightarrow> u32 option) \<Rightarrow> (string \<Rightarrow> u32 option) \<Rightarrow> string \<Rightarrow> u32 option" where
  "resolve_in_addr gethostbyname inet_aton host_addr = (case gethostbyname host_addr of
      Some h_addr \<Rightarrow> Some h_addr
    | None \<Rightarrow> inet_aton host_addr)"

definition loc_eng_set_server :: "(string \<Rightarrow> u32 option) \<Rightarrow> LocServerType \<Rightarrow> string \<Rightarrow> i32 \<Rightarrow>
    engine \<Rightarrow> (int \<times> engine) option" where
  "loc_eng_set_server resolve ty hostname port e =
    (case ty of
       LOC_AGPS_SUPL_SERVER \<Rightarrow>
         let url = hostname @ '':'' @ decimal (unat port); len = length url in
         if MAX_URL_LEN > len
         then map_option (Pair 0) (snd_deferred (loc_eng_msg_set_server_url len url) e)
         else Some (0, e)
     | _ \<Rightarrow>
         (case resolve hostname of
            None \<Rightarrow> Some (-2, e)
          | Some s_addr \<Rightarrow>
              map_option (Pair 0) (snd_deferred (loc_eng_msg_set_server_ipv4 (htonl s_addr) port ty) e)))"

definition loc_eng_set_server_proxy :: "(string \<Rightarrow> u32 option) \<Rightarrow> LocServerType \<Rightarrow> string \<Rightarrow> i32 \<Rightarrow>
    engine \<Rightarrow> (int \<times> engine) option" where
  "loc_eng_set_server_proxy resolve ty hostname port e =
    (if eng_context e then loc_eng_set_server resolve ty hostname port e
     else Some (0, (case ty of
         LOC_AGPS_SUPL_SERVER \<Rightarrow> e\<lparr>supl_host_buf := strlcpy SUPL_HOST_BUF hostname,
                                   supl_port_buf := port, supl_host_set := True\<rparr>
       | LOC_AGPS_CDMA_PDE_SERVER \<Rightarrow> e\<lparr>c2k_host_buf := strlcpy SUPL_HOST_BUF hostname,
                                        c2k_port_buf := port, c2k_host_set := True\<rparr>
       | _ \<Rightarrow> e)))"

definition loc_eng_agps_reinit :: "(string \<Rightarrow> u32 option) \<Rightarrow> engine \<Rightarrow> engine option" where
  "loc_eng_agps_reinit resolve e = do {
     e1 \<leftarrow> (if supl_host_set e
            then map_option snd (loc_eng_set_server resolve LOC_AGPS_SUPL_SERVER (supl_host_buf e) (supl_port_buf e) e)
            else Some e);
     (if c2k_host_set e1
      then map_option snd (loc_eng_set_server resolve LOC_AGPS_CDMA_PDE_SERVER (c2k_host_buf e1) (c2k_port_buf e1) e1)
      else Some e1)
   }"

text \<open>
  The three machines. \<open>bit_api\<close>: built with the BIT interface on a baseband that has it, so the
  connectivity daemon's server is launched. \<open>junk\<close>: the machines' uninitialised bearer fields.
\<close>

definition loc_eng_agps_init :: "(string \<Rightarrow> u32 option) \<Rightarrow> bool \<Rightarrow> AGpsBearerType \<Rightarrow> bool \<Rightarrow>
    engine \<Rightarrow> (unit \<times> engine) option" where
  "loc_eng_agps_init resolve bit_api junk callback e = INIT_CHECK (eng_context e) () e
    (INIT_CHECK (\<not> agps_status_cb e) () e
      (map_option (Pair ())
        (loc_eng_agps_reinit resolve
          (emit_if bit_api Server_launch
            (e\<lparr>agps_status_cb := callback,
               agnss_nif := Some (new_AgpsStateMachine junk AGPS_TYPE_SUPL False),
               internet_nif := Some (new_AgpsStateMachine junk AGPS_TYPE_WWAN_ANY False),
               wifi_nif := Some (new_AgpsStateMachine junk AGPS_TYPE_WIFI True)\<rparr>)))))"

subsection \<open>ULP and XTRA\<close>

definition loc_eng_ulp_init :: "bool \<Rightarrow> engine \<Rightarrow> int \<times> engine" where
  "loc_eng_ulp_init loc_eng_ulpInf e =
     (0, if loc_eng_ulpInf then e\<lparr>ulp_initialized := True\<rparr> else e)"

text \<open>
  The function's type is \<open>bool\<close> and its local result \<open>unsigned char\<close>: \<open>-1\<close> is returned as \<open>true\<close>,
  success as \<open>false\<close>.
\<close>

definition loc_eng_inject_raw_command ::
    "loc_gps_cfg \<Rightarrow> u8 list \<Rightarrow> nat \<Rightarrow> engine \<Rightarrow> (bool \<times> engine) option" where
  "loc_eng_inject_raw_command conf command len e = INIT_CHECK (eng_context e) True e
     (if ulp_active conf e then do {
        c \<leftarrow> memcpy len command;
        map_option (Pair False) (snd_ulp (ulp_msg_inject_raw_command c len) e)
      } else Some (True, e))"

definition loc_eng_update_criteria ::
    "loc_gps_cfg \<Rightarrow> UlpLocationCriteria \<Rightarrow> engine \<Rightarrow> (int \<times> engine) option" where
  "loc_eng_update_criteria conf criteria e = INIT_CHECK (eng_context e) (-1) e
     (if ulp_active conf e then map_option (Pair 0) (snd_ulp (ulp_msg_update_criteria criteria) e)
      else Some (-1, e))"

definition loc_eng_ulp_phone_context_settings_update ::
    "loc_gps_cfg \<Rightarrow> UlpPhoneContextSettings \<Rightarrow> engine \<Rightarrow> (int \<times> engine) option" where
  "loc_eng_ulp_phone_context_settings_update conf settings e = do {
     (ret, e1) \<leftarrow> (if ulp_active conf e
        then map_option (Pair 0) (snd_ulp (ulp_msg_inject_phone_context_settings settings) e)
        else Some (-1, e));
     (if pcs_context_type settings AND ULP_PHONE_CONTEXT_BATTERY_CHARGING_STATE \<noteq> 0
      then map_option (Pair ret)
             (snd_deferred (loc_eng_msg_ext_power_config (if pcs_is_battery_charging settings then 1 else 0)) e1)
      else Some (ret, e1))
   }"

definition loc_eng_ulp_phone_context_init :: "bool \<Rightarrow> engine \<Rightarrow> int \<times> engine" where
  "loc_eng_ulp_phone_context_init callback e = (0, e\<lparr>ulp_phone_context_req_cb := callback\<rparr>)"

definition loc_eng_ulp_network_init :: "bool \<Rightarrow> engine \<Rightarrow> int \<times> engine" where
  "loc_eng_ulp_network_init callback e = (0, e\<lparr>ulp_network_callback := callback\<rparr>)"

definition loc_eng_ulp_send_network_position ::
    "loc_gps_cfg \<Rightarrow> UlpNetworkPositionReport \<Rightarrow> engine \<Rightarrow> (int \<times> engine) option" where
  "loc_eng_ulp_send_network_position conf position_report e =
    (if ulp_active conf e
     then map_option (Pair 0) (snd_ulp (ulp_msg_inject_network_position position_report) e)
     else Some (-1, e))"

definition loc_eng_xtra_init :: "bool \<Rightarrow> engine \<Rightarrow> int \<times> engine" where
  "loc_eng_xtra_init callback e = (0, e\<lparr>download_request_cb := callback\<rparr>)"

definition loc_eng_xtra_inject_data :: "u8 list \<Rightarrow> nat \<Rightarrow> engine \<Rightarrow> (int \<times> engine) option" where
  "loc_eng_xtra_inject_data data len e = do {
     d \<leftarrow> memcpy len data;
     map_option (Pair 0) (snd_deferred (loc_eng_msg_inject_xtra_data d len) e)
   }"

section \<open>Initialisation\<close>

text \<open>The messages that configure the modem, in the order they are queued.\<close>

definition sensor_properties_given :: "loc_gps_cfg \<Rightarrow> bool" where
  "sensor_properties_given conf \<longleftrightarrow>
     GYRO_BIAS_RANDOM_WALK_VALID conf \<noteq> 0 \<or> ACCEL_RANDOM_WALK_SPECTRAL_DENSITY_VALID conf \<noteq> 0 \<or>
     ANGLE_RANDOM_WALK_SPECTRAL_DENSITY_VALID conf \<noteq> 0 \<or> RATE_RANDOM_WALK_SPECTRAL_DENSITY_VALID conf \<noteq> 0 \<or>
     VELOCITY_RANDOM_WALK_SPECTRAL_DENSITY_VALID conf \<noteq> 0"

definition config_messages :: "loc_gps_cfg \<Rightarrow> loc_eng_msg list" where
  "config_messages conf =
     [loc_eng_msg_suple_version (SUPL_VER conf), loc_eng_msg_lpp_config (LPP_PROFILE conf),
      loc_eng_msg_sensor_control_config (SENSOR_USAGE conf)]
     @ (if sensor_properties_given conf
        then [loc_eng_msg_sensor_properties
               (GYRO_BIAS_RANDOM_WALK_VALID conf \<noteq> 0) (GYRO_BIAS_RANDOM_WALK conf)
               (ACCEL_RANDOM_WALK_SPECTRAL_DENSITY_VALID conf \<noteq> 0) (ACCEL_RANDOM_WALK_SPECTRAL_DENSITY conf)
               (ANGLE_RANDOM_WALK_SPECTRAL_DENSITY_VALID conf \<noteq> 0) (ANGLE_RANDOM_WALK_SPECTRAL_DENSITY conf)
               (RATE_RANDOM_WALK_SPECTRAL_DENSITY_VALID conf \<noteq> 0) (RATE_RANDOM_WALK_SPECTRAL_DENSITY conf)
               (VELOCITY_RANDOM_WALK_SPECTRAL_DENSITY_VALID conf \<noteq> 0) (VELOCITY_RANDOM_WALK_SPECTRAL_DENSITY conf)]
        else [])
     @ [loc_eng_msg_sensor_perf_control_config (SENSOR_CONTROL_MODE conf)
          (SENSOR_ACCEL_SAMPLES_PER_BATCH conf) (SENSOR_ACCEL_BATCHES_PER_SEC conf)
          (SENSOR_GYRO_SAMPLES_PER_BATCH conf) (SENSOR_GYRO_BATCHES_PER_SEC conf)
          (SENSOR_ACCEL_SAMPLES_PER_BATCH_HIGH conf) (SENSOR_ACCEL_BATCHES_PER_SEC_HIGH conf)
          (SENSOR_GYRO_SAMPLES_PER_BATCH_HIGH conf) (SENSOR_GYRO_BATCHES_PER_SEC_HIGH conf)
          (SENSOR_ALGORITHM_CONFIG_MASK conf)]"

fun snd_all :: "loc_eng_msg list \<Rightarrow> engine \<Rightarrow> engine option" where
  "snd_all [] e = Some e"
| "snd_all (m # ms) e = snd_deferred m e \<bind> snd_all ms"

definition loc_eng_reinit ::
    "loc_gps_cfg \<Rightarrow> loc_api_adapter_err \<Rightarrow> engine \<Rightarrow> (loc_api_adapter_err \<times> engine) option" where
  "loc_eng_reinit conf ret e = do {
     e1 \<leftarrow> call_api reinit e;
     (if ret = LOC_API_ADAPTER_ERR_SUCCESS
      then map_option (Pair ret) (snd_all (config_messages conf) e1)
      else Some (ret, e1))
   }"

definition LocEngContext_get :: "engine \<Rightarrow> engine" where
  "LocEngContext_get e = (case me e of
      None \<Rightarrow> e\<lparr>me := Some \<lparr>deferred_q = [], ulp_q = [], counter = 1\<rparr>, eng_context := True\<rparr>
    | Some c \<Rightarrow> e\<lparr>me := Some (c\<lparr>counter := counter c + 1\<rparr>), eng_context := True\<rparr>)"

text \<open>
  The last user of the context sends \<open>LOC_ENG_MSG_QUIT\<close> and waits for the deferred thread's signal.
  The message's owner is the context, but the thread reads the owner as module data: \<open>owner_word\<close> is
  what lies where that data's context pointer would be. If it is zero the thread returns without
  a signal and the caller waits forever. The queue is empty at the only call, right after \<open>get\<close>.
\<close>

definition LocEngContext_drop :: "ptr \<Rightarrow> engine \<Rightarrow> engine option" where
  "LocEngContext_drop owner_word e = (case me e of
      None \<Rightarrow> None
    | Some c \<Rightarrow>
        if counter c - 1 = 0
        then (if owner_word = NULL \<or> deferred_q c \<noteq> [] then None else Some (e\<lparr>me := None\<rparr>))
        else Some (e\<lparr>me := Some (c\<lparr>counter := counter c - 1\<rparr>)\<rparr>))"

record LocCallbacks =
  lc_location_cb :: bool
  lc_status_cb :: bool
  lc_sv_status_cb :: bool
  lc_nmea_cb :: bool
  lc_set_capabilities_cb :: bool
  lc_acquire_wakelock_cb :: bool
  lc_release_wakelock_cb :: bool
  lc_location_ext_parser :: "loc_ext_parser option"
  lc_sv_ext_parser :: "loc_ext_parser option"

text \<open>The loop of at most \<open>tries\<close> calls; \<open>rets n\<close> is the adapter's result at the \<open>n\<close>-th call.\<close>

fun init_loop :: "loc_gps_cfg \<Rightarrow> (nat \<Rightarrow> loc_api_adapter_err) \<Rightarrow> nat \<Rightarrow> nat \<Rightarrow> int \<Rightarrow> engine \<Rightarrow> (int \<times> engine) option" where
  "init_loop conf rets n 0 ret_val e = Some (ret_val, e)"
| "init_loop conf rets n (Suc tries) ret_val e = do {
     (r, e1) \<leftarrow> loc_eng_reinit conf (rets n) e;
     (if r = LOC_API_ADAPTER_ERR_SUCCESS then Some (0, e1)
      else init_loop conf rets (Suc n) tries (adapter_err_code r) (emit Sleep_1s e1))
   }"

definition save_callbacks :: "loc_gps_cfg \<Rightarrow> LocCallbacks \<Rightarrow> engine \<Rightarrow> engine" where
  "save_callbacks conf cb e = e\<lparr>location_cb := lc_location_cb cb, sv_status_cb := lc_sv_status_cb cb,
     status_cb := lc_status_cb cb, nmea_cb := lc_nmea_cb cb,
     acquire_wakelock_cb := lc_acquire_wakelock_cb cb, release_wakelock_cb := lc_release_wakelock_cb cb,
     intermediateFix := ucast (INTERMEDIATE_POS conf)\<rparr>"

text \<open>
  \<open>adapter\<close>: the object \<open>getLocApiAdapter\<close> gives, if any, by the fix criteria that its constructor
  leaves; \<open>external_sender\<close>: the ULP sender is set.
\<close>

definition with_client :: "LocPosMode \<Rightarrow> LocCallbacks \<Rightarrow> u32 \<Rightarrow> bool \<Rightarrow> engine \<Rightarrow> engine" where
  "with_client fix_mode cb event external_sender e = e\<lparr>client_handle := Some
     ((new_LocApiAdapter (new_LocEng event (acquire_wakelock_cb e) (release_wakelock_cb e) external_sender
         (lc_location_ext_parser cb) (lc_sv_ext_parser cb)))\<lparr>fixCriteria := fix_mode\<rparr>)\<rparr>"

definition loc_eng_init :: "loc_gps_cfg \<Rightarrow> (nat \<Rightarrow> loc_api_adapter_err) \<Rightarrow> LocPosMode option \<Rightarrow> ptr \<Rightarrow>
    LocCallbacks option \<Rightarrow> u32 \<Rightarrow> bool \<Rightarrow> engine \<Rightarrow> (int \<times> engine) option" where
  "loc_eng_init conf rets adapter owner_word callbacks event external_sender e =
    (case callbacks of
       None \<Rightarrow> Some (0, e)
     | Some cb \<Rightarrow>
         if event = 0 then Some (0, e)
         else if eng_context e
         then map_option (\<lambda>(_, e1). (0, e1)) (loc_eng_set_engine_lock 1 e)
         else
           let e1 = LocEngContext_get (loc_eng_data.extend zero_loc_eng_data (engine.fields (me e) (eng_out e)));
               e2 = save_callbacks conf cb
                      (emit_if (lc_set_capabilities_cb cb) (Cb_set_capabilities (CAPABILITIES conf)) e1)
           in case adapter of
                None \<Rightarrow> map_option (\<lambda>e3. (-1, e3\<lparr>eng_context := False\<rparr>)) (LocEngContext_drop owner_word e2)
              | Some fix \<Rightarrow> do {
                  (ret_val, e4) \<leftarrow> init_loop conf rets 0 30 (-1)
                    (with_client fix cb event external_sender e2);
                  (if ret_val = 0
                   then map_option (\<lambda>(_, e5). (ret_val, e5)) (loc_eng_set_engine_lock 1 e4)
                   else Some (ret_val, e4))
                })"

definition loc_eng_cleanup :: "loc_gps_cfg \<Rightarrow> engine \<Rightarrow> (unit \<times> engine) option" where
  "loc_eng_cleanup conf e = INIT_CHECK (eng_context e) () e (do {
     nav \<leftarrow> isInSession e;
     e1 \<leftarrow> (if nav then map_option snd (loc_eng_stop conf e) else Some e);
     map_option (\<lambda>(_, e2). ((), e2)) (loc_eng_set_engine_lock 0 e1)
   })"

section \<open>Handlers of the deferred thread\<close>

subsection \<open>Sessions and status\<close>

definition loc_inform_gps_status :: "GpsStatusValue \<Rightarrow> engine \<Rightarrow> engine" where
  "loc_inform_gps_status status e = emit_if (status_cb e) (Cb_status status) e"

definition loc_eng_start_handler :: "api_env \<Rightarrow> engine \<Rightarrow> (loc_api_adapter_err \<times> engine) option" where
  "loc_eng_start_handler env e = do {
     nav \<leftarrow> isInSession e;
     (if nav then Some (LOC_API_ADAPTER_ERR_SUCCESS, e)
      else do {
        e1 \<leftarrow> call_api startFix e;
        (if ret_startFix env = LOC_API_ADAPTER_ERR_SUCCESS \<or> ret_startFix env = LOC_API_ADAPTER_ERR_ENGINE_DOWN
         then do {
           e2 \<leftarrow> setInSession True e1;
           Some (ret_startFix env, loc_inform_gps_status GPS_STATUS_SESSION_BEGIN e2)
         } else Some (ret_startFix env, e1))
      })
   }"

definition loc_eng_stop_handler :: "api_env \<Rightarrow> engine \<Rightarrow> (loc_api_adapter_err \<times> engine) option" where
  "loc_eng_stop_handler env e = do {
     nav \<leftarrow> isInSession e;
     (if \<not> nav then Some (LOC_API_ADAPTER_ERR_SUCCESS, e)
      else do {
        e1 \<leftarrow> call_api stopFix e;
        e2 \<leftarrow> setInSession False
          (if ret_stopFix env = LOC_API_ADAPTER_ERR_SUCCESS
           then loc_inform_gps_status GPS_STATUS_SESSION_END e1 else e1);
        Some (ret_stopFix env, e2)
      })
   }"

text \<open>The mute session's state after a status, and whether the status is passed on.\<close>

definition mute_after :: "GpsStatusValue \<Rightarrow> loc_mute_session_e_type \<Rightarrow> loc_mute_session_e_type" where
  "mute_after status mute =
    (let m1 = (if (status = GPS_STATUS_SESSION_BEGIN \<or> status = GPS_STATUS_ENGINE_ON) \<and> mute = LOC_MUTE_SESS_WAIT
               then LOC_MUTE_SESS_IN_SESSION else mute)
     in if m1 = LOC_MUTE_SESS_IN_SESSION \<and> (status = GPS_STATUS_SESSION_END \<or> status = GPS_STATUS_ENGINE_OFF)
        then LOC_MUTE_SESS_NONE else m1)"

definition loc_eng_report_status :: "GpsStatusValue \<Rightarrow> engine \<Rightarrow> engine option" where
  "loc_eng_report_status status e = do {
     let e1 = e\<lparr>mute_session_state := mute_after status (mute_session_state e)\<rparr>;
     nav \<leftarrow> isInSession e1;
     let e2 = (if status \<noteq> GPS_STATUS_NONE \<and>
                  \<not> (status = GPS_STATUS_SESSION_END \<and> nav) \<and>
                  \<not> (status = GPS_STATUS_SESSION_BEGIN \<and> \<not> nav) \<and>
                  mute_session_state e1 \<noteq> LOC_MUTE_SESS_IN_SESSION
               then loc_inform_gps_status status e1 else e1);
     let e3 = (if status = GPS_STATUS_ENGINE_ON \<or> status = GPS_STATUS_ENGINE_OFF
               then e2\<lparr>engine_status := status\<rparr> else e2);
     Some (if status = GPS_STATUS_SESSION_BEGIN \<or> status = GPS_STATUS_SESSION_END
           then e3\<lparr>fix_session_status := status\<rparr> else e3)
   }"

subsection \<open>Network-initiated requests\<close>

fun eng_ni_event :: "ni_event \<Rightarrow> engine \<Rightarrow> engine" where
  "eng_ni_event (NI_Free p) e = emit (Free p) e"
| "eng_ni_event NI_Mute e = loc_eng_mute_one_session e"
| "eng_ni_event NI_Spawn e = emit Ni_thread e"
| "eng_ni_event NI_Signal e = e"
| "eng_ni_event (NI_Notify n) e = emit (Cb_ni_notify n) e"

definition eng_ni :: "loc_eng_ni_data \<times> ni_event list \<Rightarrow> engine \<Rightarrow> engine" where
  "eng_ni r e = fold eng_ni_event (snd r) (e\<lparr>loc_eng_ni := fst r\<rparr>)"

subsection \<open>Modem restart\<close>

definition loc_eng_handle_engine_down :: "engine \<Rightarrow> engine option" where
  "loc_eng_handle_engine_down e =
     loc_eng_report_status GPS_STATUS_ENGINE_OFF
       (eng_ni (loc_eng_ni_reset_on_engine_restart (ni_notify_cb e) (loc_eng_ni e)) e)"

definition loc_eng_handle_engine_up ::
    "loc_gps_cfg \<Rightarrow> (string \<Rightarrow> u32 option) \<Rightarrow> api_env \<Rightarrow> engine \<Rightarrow> engine option" where
  "loc_eng_handle_engine_up conf resolve env e = do {
     (_, e1) \<leftarrow> loc_eng_reinit conf (ret_reinit env) e;
     e2 \<leftarrow> (if agps_status_cb e1 then do {
               a \<leftarrow> on_nif Agnss dropAllSubscribers e1;
               b \<leftarrow> on_nif Internet dropAllSubscribers a;
               loc_eng_agps_reinit resolve b
             } else Some e1);
     e3 \<leftarrow> loc_eng_report_status GPS_STATUS_ENGINE_ON e2;
     nav \<leftarrow> isInSession e3;
     (if nav then do {
        e4 \<leftarrow> set_position_mode_api env None e3;
        e5 \<leftarrow> setInSession False e4;
        map_option snd (loc_eng_start_handler env e5)
      } else Some e3)
   }"

subsection \<open>Reports\<close>

text \<open>Whether a position reaches the framework: a good fix, or an intermediate one we accept.\<close>

definition accept_fix :: "loc_gps_cfg \<Rightarrow> u8 \<Rightarrow> loc_sess_status \<Rightarrow> GpsLocation \<Rightarrow> bool" where
  "accept_fix conf intermediate st loc \<longleftrightarrow>
     st = LOC_SESS_SUCCESS \<or>
     (intermediate = 1 \<and>
      \<not> (gl_flags loc AND GPS_LOCATION_HAS_ACCURACY \<noteq> 0 \<and> ACCURACY_THRES conf \<noteq> 0 \<and>
         gl_accuracy loc > real (unat (ACCURACY_THRES conf))))"

definition handle_report_position ::
    "loc_gps_cfg \<Rightarrow> GpsLocation \<Rightarrow> ptr \<Rightarrow> loc_sess_status \<Rightarrow> engine \<Rightarrow> engine option" where
  "handle_report_position conf loc locExt st e =
    (if mute_session_state e = LOC_MUTE_SESS_IN_SESSION then Some e
     else do {
       let (reported, e1) =
         (if \<not> location_cb e then (False, e)
          else if st = LOC_SESS_FAILURE then (True, emit (Cb_location None NULL) e)
          else if accept_fix conf (intermediateFix e) st loc then (True, emit (Cb_location (Some loc) locExt) e)
          else (False, e));
       e2 \<leftarrow> (if reported then do {
                a \<leftarrow> client_handle e1;
                (if pm_recurrence (fixCriteria a) = GPS_POSITION_RECURRENCE_SINGLE then do {
                   e3 \<leftarrow> (if st = LOC_SESS_INTERMEDIATE then call_api stopFix e1 else Some e1);
                   setInSession False e3
                 } else Some e1)
              } else Some e1);
       Some (emit_if (gl_rawData loc \<noteq> NULL) (Free_rawData (gl_rawData loc)) e2)
     })"

definition handle_report_sv :: "GpsSvStatus \<Rightarrow> ptr \<Rightarrow> engine \<Rightarrow> engine option" where
  "handle_report_sv sv svExt e =
     Some (emit_if (mute_session_state e \<noteq> LOC_MUTE_SESS_IN_SESSION \<and> sv_status_cb e) (Cb_sv_status sv svExt) e)"

definition handle_report_nmea :: "api_env \<Rightarrow> u8 list \<Rightarrow> nat \<Rightarrow> engine \<Rightarrow> engine option" where
  "handle_report_nmea env nm len e = Some (emit_if (nmea_cb e) (Cb_nmea (time_of_day env) nm len) e)"

subsection \<open>Data connections\<close>

fun bit_machine :: "loc_if_req_type_e_type \<Rightarrow> nif_id option" where
  "bit_machine LOC_ENG_IF_REQUEST_TYPE_SUPL = Some Agnss"
| "bit_machine LOC_ENG_IF_REQUEST_TYPE_ANY = Some Internet"
| "bit_machine LOC_ENG_IF_REQUEST_TYPE_WIFI = None"

definition handle_request_bit ::
    "api_env \<Rightarrow> loc_if_req_type_e_type \<Rightarrow> i32 \<Rightarrow> u8 list option \<Rightarrow> engine \<Rightarrow> engine option" where
  "handle_request_bit env ifType ipv4 ipv6 e = (case bit_machine ifType of
      None \<Rightarrow> Some e
    | Some k \<Rightarrow> on_nif k (subscribeRsrc (new_BITSubscriber (array_junk env) ipv4 ipv6)) e)"

definition handle_release_bit ::
    "api_env \<Rightarrow> loc_if_req_type_e_type \<Rightarrow> i32 \<Rightarrow> u8 list option \<Rightarrow> engine \<Rightarrow> engine option" where
  "handle_release_bit env ifType ipv4 ipv6 e = (case bit_machine ifType of
      None \<Rightarrow> Some e
    | Some k \<Rightarrow> map_option snd (run_nif k (unsubscribeRsrc (new_BITSubscriber (array_junk env) ipv4 ipv6)) e))"

definition handle_request_atl :: "i32 \<Rightarrow> AGpsType \<Rightarrow> engine \<Rightarrow> engine option" where
  "handle_request_atl handle ty e =
    (let backwardCompatibleMode = (AGPS_TYPE_INVALID = ty);
         k = (if AGPS_TYPE_SUPL = ty \<or> backwardCompatibleMode then Agnss else Internet)
     in on_nif k (subscribeRsrc (new_ATLSubscriber handle backwardCompatibleMode)) e)"

definition handle_release_atl :: "i32 \<Rightarrow> engine \<Rightarrow> engine option" where
  "handle_release_atl handle e = do {
     (found, e1) \<leftarrow> run_nif Agnss (unsubscribeRsrc (new_ATLSubscriber handle False)) e;
     (if found then Some e1
      else map_option snd (run_nif Internet (unsubscribeRsrc (new_ATLSubscriber handle False)) e1))
   }"

definition handle_request_wifi ::
    "loc_if_req_sender_id_e_type \<Rightarrow> string option \<Rightarrow> string option \<Rightarrow> engine \<Rightarrow> engine option" where
  "handle_request_wifi sender ssid password e =
    (if sender = LOC_ENG_IF_REQUEST_SENDER_ID_QUIPC \<or> sender = LOC_ENG_IF_REQUEST_SENDER_ID_MSAPM
     then on_nif Wifi (subscribeRsrc (new_WIFISubscriber ssid password sender)) e
     else Some e)"

definition handle_release_wifi ::
    "loc_if_req_sender_id_e_type \<Rightarrow> string option \<Rightarrow> string option \<Rightarrow> engine \<Rightarrow> engine option" where
  "handle_release_wifi sender ssid password e =
     map_option snd (run_nif Wifi (unsubscribeRsrc (new_WIFISubscriber ssid password sender)) e)"

definition atl_machine :: "AGpsStatusValue \<Rightarrow> nif_id" where
  "atl_machine ty = (if ty = AGPS_TYPE_WIFI then Wifi else if ty = AGPS_TYPE_SUPL then Agnss else Internet)"

definition handle_atl_open_success ::
    "AGpsStatusValue \<Rightarrow> nat \<Rightarrow> string \<Rightarrow> AGpsBearerType \<Rightarrow> engine \<Rightarrow> engine option" where
  "handle_atl_open_success ty len apn bearer e =
     on_nif (atl_machine ty)
       (\<lambda>m. onRsrcEvent RSRC_GRANTED (setAPN (Some apn) len (setBearer bearer m))) e"

definition handle_atl_closed :: "AGpsStatusValue \<Rightarrow> engine \<Rightarrow> engine option" where
  "handle_atl_closed ty e = on_nif (atl_machine ty) (onRsrcEvent RSRC_RELEASED) e"

definition handle_atl_open_failed :: "AGpsStatusValue \<Rightarrow> engine \<Rightarrow> engine option" where
  "handle_atl_open_failed ty e = on_nif (atl_machine ty) (onRsrcEvent RSRC_DENIED) e"

subsection \<open>The message switch\<close>

definition handle_stop_fix :: "api_env \<Rightarrow> engine \<Rightarrow> engine option" where
  "handle_stop_fix env e =
    (if agps_request_pending e then Some (e\<lparr>stop_request_pending := True\<rparr>)
     else map_option snd (loc_eng_stop_handler env e))"

text \<open>Messages that carry nothing but their identifier.\<close>

definition handle_plain ::
    "loc_gps_cfg \<Rightarrow> (string \<Rightarrow> u32 option) \<Rightarrow> api_env \<Rightarrow> loc_eng_msg_ids_t \<Rightarrow> engine \<Rightarrow> engine option" where
  "handle_plain conf resolve env i e =
    (if i = LOC_ENG_MSG_START_FIX then map_option snd (loc_eng_start_handler env e)
     else if i = LOC_ENG_MSG_STOP_FIX then handle_stop_fix env e
     else if i = LOC_ENG_MSG_REQUEST_XTRA_DATA then Some (emit_if (download_request_cb e) Cb_xtra_download e)
     else if i = LOC_ENG_MSG_ENGINE_DOWN then loc_eng_handle_engine_down e
     else if i = LOC_ENG_MSG_ENGINE_UP then loc_eng_handle_engine_up conf resolve env e
     else Some e)"

fun handle_msg ::
    "loc_gps_cfg \<Rightarrow> (string \<Rightarrow> u32 option) \<Rightarrow> api_env \<Rightarrow> loc_eng_msg \<Rightarrow> engine \<Rightarrow> engine option" where
  "handle_msg conf resolve env (loc_eng_msg i) e = handle_plain conf resolve env i e"
| "handle_msg conf resolve env (loc_eng_msg_request_ni notif passThrough) e =
     Some (eng_ni (loc_eng_ni_request_handler (ni_notify_cb e) (thread_created env) notif passThrough (loc_eng_ni e)) e)"
| "handle_msg conf resolve env (loc_eng_msg_inform_ni_response r p) e = call_api (informNiResponse r p) e"
| "handle_msg conf resolve env (loc_eng_msg_position_mode p) e = set_position_mode_api env (Some p) e"
| "handle_msg conf resolve env (loc_eng_msg_set_time t tr u) e = call_api (setTime t tr u) e"
| "handle_msg conf resolve env (loc_eng_msg_inject_location la lo ac) e = call_api (injectPosition la lo ac) e"
| "handle_msg conf resolve env (loc_eng_msg_set_server_ipv4 a p t) e = call_api (setServer_ip a p t) e"
| "handle_msg conf resolve env (loc_eng_msg_set_server_url len url) e = call_api (setServer_url url len) e"
| "handle_msg conf resolve env (loc_eng_msg_suple_version v) e = call_api (setSUPLVersion v) e"
| "handle_msg conf resolve env (loc_eng_msg_lpp_config v) e = call_api (setLPPConfig v) e"
| "handle_msg conf resolve env (loc_eng_msg_sensor_control_config v) e = call_api (setSensorControlConfig v) e"
| "handle_msg conf resolve env (loc_eng_msg_sensor_properties gv g av a nv n rv r vv v) e =
     call_api (setSensorProperties gv g av a nv n rv r vv v) e"
| "handle_msg conf resolve env (loc_eng_msg_sensor_perf_control_config a b c d f g h i j k) e =
     call_api (setSensorPerfControlConfig a b c d f g h i j k) e"
| "handle_msg conf resolve env (loc_eng_msg_ext_power_config b) e = call_api (setExtPowerConfig b) e"
| "handle_msg conf resolve env (loc_eng_msg_report_position l x st) e = handle_report_position conf l x st e"
| "handle_msg conf resolve env (loc_eng_msg_report_sv sv x) e = handle_report_sv sv x e"
| "handle_msg conf resolve env (loc_eng_msg_report_status st) e = loc_eng_report_status st e"
| "handle_msg conf resolve env (loc_eng_msg_report_nmea nm len) e = handle_report_nmea env nm len e"
| "handle_msg conf resolve env (loc_eng_msg_request_bit t v4 v6) e = handle_request_bit env t v4 v6 e"
| "handle_msg conf resolve env (loc_eng_msg_release_bit t v4 v6) e = handle_release_bit env t v4 v6 e"
| "handle_msg conf resolve env (loc_eng_msg_request_atl h t) e = handle_request_atl h t e"
| "handle_msg conf resolve env (loc_eng_msg_release_atl h) e = handle_release_atl h e"
| "handle_msg conf resolve env (loc_eng_msg_request_wifi t sid s p) e = handle_request_wifi sid s p e"
| "handle_msg conf resolve env (loc_eng_msg_release_wifi t sid s p) e = handle_release_wifi sid s p e"
| "handle_msg conf resolve env (loc_eng_msg_delete_aiding_data f) e =
     Some (e\<lparr>aiding_data_for_deletion := aiding_data_for_deletion e OR f\<rparr>)"
| "handle_msg conf resolve env (loc_eng_msg_set_data_enable y apn len) e =
     call_api (enableData y) e \<bind> call_api (setAPN_api apn len)"
| "handle_msg conf resolve env (loc_eng_msg_inject_xtra_data d len) e = call_api (setXtraData d len) e"
| "handle_msg conf resolve env (loc_eng_msg_atl_open_success t len apn b) e = handle_atl_open_success t len apn b e"
| "handle_msg conf resolve env (loc_eng_msg_atl_closed t) e = handle_atl_closed t e"
| "handle_msg conf resolve env (loc_eng_msg_atl_open_failed t) e = handle_atl_open_failed t e"
| "handle_msg conf resolve env (loc_eng_msg_request_network_position r) e =
     Some (emit_if (ulp_network_callback e) (Cb_ulp_network r) e)"
| "handle_msg conf resolve env (loc_eng_msg_request_phone_context r) e =
     Some (emit_if (ulp_phone_context_req_cb e) (Cb_ulp_phone_context r) e)"
| "handle_msg conf resolve env (loc_eng_msg_engine_lock l) e = call_api (setEngineLock l) e"
| "handle_msg conf resolve env (loc_eng_msg_set_apn a) e = Some e"
| "handle_msg conf resolve env (ulp_msg_update_criteria c) e = Some e"
| "handle_msg conf resolve env (ulp_msg_inject_raw_command c l) e = Some e"
| "handle_msg conf resolve env (ulp_msg_inject_phone_context_settings s) e = Some e"
| "handle_msg conf resolve env (ulp_msg_inject_network_position p) e = Some e"
| "handle_msg conf resolve env (ulp_msg_report_quipc_position l q) e = Some e"

subsection \<open>After the switch\<close>

text \<open>The deferred stop, the aiding data, and the message's destructor.\<close>

definition after_agps :: "api_env \<Rightarrow> loc_eng_msg_ids_t \<Rightarrow> engine \<Rightarrow> engine option" where
  "after_agps env i e =
    (if i \<in> {LOC_ENG_MSG_ATL_OPEN_FAILED, LOC_ENG_MSG_ATL_CLOSED, LOC_ENG_MSG_ATL_OPEN_SUCCESS}
     then (let e1 = e\<lparr>agps_request_pending := False\<rparr> in
           if stop_request_pending e1
           then map_option (\<lambda>(_, e2). e2\<lparr>stop_request_pending := False\<rparr>) (loc_eng_stop_handler env e1)
           else Some e1)
     else Some e)"

definition after_aiding :: "engine \<Rightarrow> engine option" where
  "after_aiding e =
    (if engine_status e \<noteq> GPS_STATUS_ENGINE_ON \<and> aiding_data_for_deletion e \<noteq> 0
     then map_option (\<lambda>e1. e1\<lparr>aiding_data_for_deletion := 0\<rparr>)
            (call_api (deleteAidingData (aiding_data_for_deletion e)) e)
     else Some e)"

fun delete_msg :: "loc_eng_msg \<Rightarrow> engine \<Rightarrow> engine" where
  "delete_msg (loc_eng_msg_inform_ni_response r p) e = emit_if (p \<noteq> NULL) (Free p) e"
| "delete_msg _ e = e"

definition deferred_action ::
    "loc_gps_cfg \<Rightarrow> (string \<Rightarrow> u32 option) \<Rightarrow> api_env \<Rightarrow> loc_eng_msg \<Rightarrow> engine \<Rightarrow> engine option" where
  "deferred_action conf resolve env msg e = do {
     e1 \<leftarrow> handle_msg conf resolve env msg e;
     e2 \<leftarrow> after_agps env (msgid msg) e1;
     e3 \<leftarrow> after_aiding (e2\<lparr>stop_request_pending := False\<rparr>);
     Some (delete_msg msg e3)
   }"

text \<open>
  One turn of \<open>loc_eng_deferred_action_thread\<close>: it waits (\<open>Waiting\<close>) while the queue is empty, and
  ends (\<open>Ended\<close>) on a message whose owner has no context. \<open>LOC_ENG_MSG_QUIT\<close> is only sent by
  \<open>LocEngContext_drop\<close>, which models the thread's end with it.
\<close>

datatype turn = Waiting | Ended engine | Turn engine

definition deferred_turn ::
    "loc_gps_cfg \<Rightarrow> (string \<Rightarrow> u32 option) \<Rightarrow> api_env \<Rightarrow> engine \<Rightarrow> turn option" where
  "deferred_turn conf resolve env e = do {
     c \<leftarrow> me e;
     (case deferred_q c of
        [] \<Rightarrow> Some Waiting
      | msg # q \<Rightarrow>
          let e1 = e\<lparr>me := Some (c\<lparr>deferred_q := q\<rparr>)\<rparr> in
          if \<not> eng_context e1 then Some (Ended (delete_msg msg e1))
          else map_option Turn (deferred_action conf resolve env msg e1))
   }"

text \<open>The calls of the NI interface and of the request threads, on the engine.\<close>

definition eng_ni_init :: "bool \<Rightarrow> engine \<Rightarrow> engine" where
  "eng_ni_init notify_cb e =
    (let (cb, d) = loc_eng_ni_init notify_cb (ni_notify_cb e) (loc_eng_ni e)
     in e\<lparr>ni_notify_cb := cb, loc_eng_ni := d\<rparr>)"

definition eng_ni_respond :: "i32 \<Rightarrow> GpsUserResponseType \<Rightarrow> engine \<Rightarrow> engine" where
  "eng_ni_respond notif_id user_response e =
     eng_ni (loc_eng_ni_respond (ni_notify_cb e) notif_id user_response (loc_eng_ni e)) e"

end
