(* ===== verification/Loc_Eng_Inv.thy ===== *)
theory Loc_Eng_Inv
  imports Loc_Eng Agps_Inv
begin

text \<open>
  The engine's invariant: once initialised, no message makes the deferred thread follow a null
  pointer, and the three data-connection machines keep their own invariants. \<open>safe\<close> and \<open>safe_r\<close> are the
  postconditions of an operation; their rules follow the structure of the code.
\<close>

section \<open>The invariant\<close>

definition machine_ok :: "AgpsStateMachine \<Rightarrow> bool" where
  "machine_ok m \<longleftrightarrow> nif_inv m \<and> no_dups (mSubscribers m) \<and> single_ok m"

text \<open>\<open>cb\<close>: whether the AGPS interface has been initialised with a callback.\<close>

definition eng_ok :: "bool \<Rightarrow> engine \<Rightarrow> bool" where
  "eng_ok cb e \<longleftrightarrow> client_handle e \<noteq> None \<and> eng_context e \<and> me e \<noteq> None \<and> agps_status_cb e = cb
     \<and> (cb \<longrightarrow> agnss_nif e \<noteq> None \<and> internet_nif e \<noteq> None \<and> wifi_nif e \<noteq> None)
     \<and> pred_option machine_ok (agnss_nif e) \<and> pred_option machine_ok (internet_nif e)
     \<and> pred_option (\<lambda>m. machine_ok m \<and> mEnforceSingleSubscriber m) (wifi_nif e)
     \<and> \<not> agps_request_pending e"

definition safe :: "bool \<Rightarrow> engine option \<Rightarrow> bool" where
  "safe cb x \<longleftrightarrow> (\<exists>e. x = Some e \<and> eng_ok cb e)"

definition safe_r :: "bool \<Rightarrow> ('r \<times> engine) option \<Rightarrow> bool" where
  "safe_r cb x \<longleftrightarrow> (\<exists>r e. x = Some (r, e) \<and> eng_ok cb e)"

named_theorems safe_intros \<open>rules for safe and safe\_r\<close>

lemma safe_Some [safe_intros]: "eng_ok cb e \<Longrightarrow> safe cb (Some e)"
  by (simp add: safe_def)

lemma safe_r_Some [safe_intros]: "eng_ok cb e \<Longrightarrow> safe_r cb (Some (r, e))"
  by (simp add: safe_r_def)

lemma safe_bind: "safe cb x \<Longrightarrow> (\<And>e. eng_ok cb e \<Longrightarrow> safe cb (f e)) \<Longrightarrow> safe cb (x \<bind> f)"
  by (auto simp: safe_def)

lemma safe_bind_r: "safe_r cb x \<Longrightarrow> (\<And>r e. eng_ok cb e \<Longrightarrow> safe cb (f (r, e))) \<Longrightarrow> safe cb (x \<bind> f)"
  by (auto simp: safe_def safe_r_def)

lemma safe_r_bind: "safe cb x \<Longrightarrow> (\<And>e. eng_ok cb e \<Longrightarrow> safe_r cb (f e)) \<Longrightarrow> safe_r cb (x \<bind> f)"
  by (auto simp: safe_def safe_r_def)

lemma safe_r_bind_r: "safe_r cb x \<Longrightarrow> (\<And>r e. eng_ok cb e \<Longrightarrow> safe_r cb (f (r, e))) \<Longrightarrow> safe_r cb (x \<bind> f)"
  by (auto simp: safe_def safe_r_def)

lemma safe_map_snd [safe_intros]: "safe_r cb x \<Longrightarrow> safe cb (map_option snd x)"
  by (auto simp: safe_def safe_r_def)

lemma safe_r_map_Pair [safe_intros]: "safe cb x \<Longrightarrow> safe_r cb (map_option (Pair r) x)"
  by (auto simp: safe_def safe_r_def)

lemma safe_map: "safe cb x \<Longrightarrow> (\<And>e. eng_ok cb e \<Longrightarrow> eng_ok cb (f e)) \<Longrightarrow> safe cb (map_option f x)"
  by (auto simp: safe_def)

lemma eng_ok_emit [safe_intros]: "eng_ok cb e \<Longrightarrow> eng_ok cb (emit ev e)"
  by (simp add: eng_ok_def emit_def)

lemma eng_ok_emit_if [safe_intros]: "eng_ok cb e \<Longrightarrow> eng_ok cb (emit_if b ev e)"
  by (simp add: emit_if_def eng_ok_emit)

lemma eng_ok_updates [safe_intros]:
  "eng_ok cb e \<Longrightarrow> eng_ok cb (e\<lparr>mute_session_state := ms\<rparr>)"
  "eng_ok cb e \<Longrightarrow> eng_ok cb (e\<lparr>engine_status := st\<rparr>)"
  "eng_ok cb e \<Longrightarrow> eng_ok cb (e\<lparr>fix_session_status := st\<rparr>)"
  "eng_ok cb e \<Longrightarrow> eng_ok cb (e\<lparr>aiding_data_for_deletion := f\<rparr>)"
  "eng_ok cb e \<Longrightarrow> eng_ok cb (e\<lparr>stop_request_pending := b\<rparr>)"
  "eng_ok cb e \<Longrightarrow> eng_ok cb (e\<lparr>loc_eng_ni := d\<rparr>)"
  "eng_ok cb e \<Longrightarrow> eng_ok cb (e\<lparr>client_handle := Some a\<rparr>)"
  "eng_ok cb e \<Longrightarrow> eng_ok cb (e\<lparr>agps_request_pending := False\<rparr>)"
  "eng_ok cb e \<Longrightarrow> eng_ok cb (e\<lparr>me := Some c\<rparr>)"
  by (simp_all add: eng_ok_def)

lemma call_api_safe [safe_intros]: "eng_ok cb e \<Longrightarrow> safe cb (call_api a e)"
  by (auto simp: call_api_def safe_def eng_ok_emit) (auto simp: eng_ok_def)

lemma eng_ok_handle: "eng_ok cb e \<Longrightarrow> \<exists>a. client_handle e = Some a"
  by (auto simp: eng_ok_def)

lemma setInSession_safe [safe_intros]: "eng_ok cb e \<Longrightarrow> safe cb (setInSession b e)"
  using eng_ok_handle [of cb e] by (auto simp: setInSession_def safe_def intro!: safe_intros)

lemma set_position_mode_api_safe [safe_intros]: "eng_ok cb e \<Longrightarrow> safe cb (set_position_mode_api env p e)"
  using eng_ok_handle [of cb e] by (auto simp: set_position_mode_api_def safe_def intro!: safe_intros)

lemma snd_deferred_safe [safe_intros]: "eng_ok cb e \<Longrightarrow> safe cb (snd_deferred msg e)"
  by (auto simp: eng_ok_def snd_deferred_def safe_def)

lemma snd_ulp_safe [safe_intros]: "eng_ok cb e \<Longrightarrow> safe cb (snd_ulp msg e)"
  by (auto simp: eng_ok_def snd_ulp_def safe_def)

lemma snd_all_safe [safe_intros]: "eng_ok cb e \<Longrightarrow> safe cb (snd_all ms e)"
  by (induction ms arbitrary: e) (auto intro!: safe_Some safe_bind snd_deferred_safe)

lemma isInSession_bind [safe_intros]:
  "eng_ok cb e \<Longrightarrow> (\<And>b. safe cb (f b)) \<Longrightarrow> safe cb (isInSession e \<bind> f)"
  "eng_ok cb e \<Longrightarrow> (\<And>b. safe_r cb (g b)) \<Longrightarrow> safe_r cb (isInSession e \<bind> g)"
  using eng_ok_handle [of cb e] by (auto simp: isInSession_def)

lemma handle_bind [safe_intros]:
  "eng_ok cb e \<Longrightarrow> (\<And>a. safe cb (f a)) \<Longrightarrow> safe cb (client_handle e \<bind> f)"
  using eng_ok_handle [of cb e] by auto

section \<open>The state machines inside the engine\<close>

lemma machine_ok_do: "machine_ok m \<Longrightarrow> machine_ok (agps_do op m)"
  by (simp add: machine_ok_def agps_do_nif agps_do_single sub_step_no_dups [OF _ agps_do_sub_step])

lemma machine_ok_run: "machine_ok m \<Longrightarrow> machine_ok (agps_run ops m)"
  by (rule agps_run_inv [where P = machine_ok]) (simp_all add: machine_ok_do)

lemma agps_run_enforce [simp]: "mEnforceSingleSubscriber (agps_run ops m) = mEnforceSingleSubscriber m"
  by (induction ops arbitrary: m) auto

lemma new_machine_ok: "machine_ok (new_AgpsStateMachine junk ty one)"
  by (simp add: machine_ok_def new_machine_inv)

lemma run_nif_safe:
  assumes ok: "eng_ok True e" and f: "\<And>m. \<exists>ops. snd (f m) = agps_run ops m"
  shows "safe_r True (run_nif k f e)"
proof -
  from ok obtain m where m: "get_nif k e = Some m" "machine_ok m" "k = Wifi \<longrightarrow> mEnforceSingleSubscriber m"
    by (cases k) (auto simp: eng_ok_def)
  obtain r m' where r: "f m = (r, m')" by fastforce
  with f [of m] m(2,3) have m': "machine_ok m'" "k = Wifi \<longrightarrow> mEnforceSingleSubscriber m'"
    by (auto simp: machine_ok_run)
  from ok have "agps_status_cb e" by (simp add: eng_ok_def)
  moreover have "eng_ok True ((put_nif k m' e)\<lparr>eng_out := evs\<rparr>)" for evs
    using ok m' by (cases k) (auto simp: eng_ok_def)
  ultimately show ?thesis using m(1) r by (simp add: run_nif_def Let_def safe_r_def)
qed

lemma on_nif_safe:
  "eng_ok True e \<Longrightarrow> (\<And>m. \<exists>ops. f m = agps_run ops m) \<Longrightarrow> safe True (on_nif k f e)"
  unfolding on_nif_def by (intro safe_map_snd run_nif_safe) simp_all

text \<open>The operations of the handlers are the machine's operations.\<close>

lemma ops_exist:
  "\<exists>ops. subscribeRsrc s m = agps_run ops m"
  "\<exists>ops. snd (unsubscribeRsrc s m) = agps_run ops m"
  "\<exists>ops. onRsrcEvent ev m = agps_run ops m"
  "\<exists>ops. dropAllSubscribers m = agps_run ops m"
  "\<exists>ops. onRsrcEvent ev (setAPN a len (setBearer b m)) = agps_run ops m"
  by (rule exI [of _ "[Op_Subscribe s]"], simp)
     (rule exI [of _ "[Op_Unsubscribe s]"], simp, rule exI [of _ "[Op_Event ev]"], simp,
      rule exI [of _ "[Op_Drop]"], simp, rule exI [of _ "[Op_SetBearer b, Op_SetAPN a len, Op_Event ev]"], simp)

section \<open>Every handler is safe\<close>

lemma INIT_CHECK_safe [safe_intros]:
  "eng_ok cb e \<Longrightarrow> safe_r cb body \<Longrightarrow> safe_r cb (INIT_CHECK ok ret e body)"
  by (simp add: INIT_CHECK_def safe_r_Some)

lemma inform_safe [safe_intros]: "eng_ok cb e \<Longrightarrow> eng_ok cb (loc_inform_gps_status st e)"
  by (simp add: loc_inform_gps_status_def eng_ok_emit_if)

lemma start_handler_safe [safe_intros]: "eng_ok cb e \<Longrightarrow> safe_r cb (loc_eng_start_handler env e)"
  unfolding loc_eng_start_handler_def
  by (auto intro!: safe_intros safe_r_bind split: if_split)

lemma stop_handler_safe [safe_intros]: "eng_ok cb e \<Longrightarrow> safe_r cb (loc_eng_stop_handler env e)"
  unfolding loc_eng_stop_handler_def
  by (auto intro!: safe_intros safe_r_bind split: if_split)

lemma report_status_safe [safe_intros]: "eng_ok cb e \<Longrightarrow> safe cb (loc_eng_report_status st e)"
  unfolding loc_eng_report_status_def Let_def
  by (auto intro!: safe_intros split: if_split)

lemma eng_ni_safe [safe_intros]: "eng_ok cb e \<Longrightarrow> eng_ok cb (eng_ni r e)"
proof -
  have ev: "eng_ok cb e \<Longrightarrow> eng_ok cb (eng_ni_event ev e)" for ev e
    by (cases ev) (auto intro!: safe_intros simp: loc_eng_mute_one_session_def)
  have "eng_ok cb e \<Longrightarrow> eng_ok cb (fold eng_ni_event evs e)" for evs e
    by (induction evs arbitrary: e) (auto intro: ev)
  then show "eng_ok cb e \<Longrightarrow> ?thesis" by (auto simp: eng_ni_def intro!: safe_intros)
qed

lemma reinit_safe [safe_intros]: "eng_ok cb e \<Longrightarrow> safe_r cb (loc_eng_reinit conf ret e)"
  unfolding loc_eng_reinit_def by (auto intro!: safe_intros safe_r_bind split: if_split)

lemma set_server_safe [safe_intros]: "eng_ok cb e \<Longrightarrow> safe_r cb (loc_eng_set_server resolve ty h p e)"
  unfolding loc_eng_set_server_def Let_def
  by (auto intro!: safe_intros split: LocServerType.split option.split)

lemma agps_reinit_safe [safe_intros]: "eng_ok cb e \<Longrightarrow> safe cb (loc_eng_agps_reinit resolve e)"
  unfolding loc_eng_agps_reinit_def
  by (auto intro!: safe_intros safe_bind split: if_split)

lemma engine_down_safe [safe_intros]: "eng_ok cb e \<Longrightarrow> safe cb (loc_eng_handle_engine_down e)"
  unfolding loc_eng_handle_engine_down_def by (intro safe_intros)

lemma eng_ok_cb: "eng_ok cb e \<Longrightarrow> agps_status_cb e = cb"
  by (simp add: eng_ok_def)

lemma drop_all_safe [safe_intros]:
  "eng_ok cb e \<Longrightarrow> cb \<Longrightarrow> safe cb (on_nif k dropAllSubscribers e)"
  using on_nif_safe [OF _ ops_exist(4), of e k] by (cases cb) auto

lemma engine_up_safe [safe_intros]:
  "eng_ok cb e \<Longrightarrow> safe cb (loc_eng_handle_engine_up conf resolve env e)"
  unfolding loc_eng_handle_engine_up_def
  by (rule safe_bind_r [OF reinit_safe], assumption)
     (auto intro!: safe_intros safe_bind simp: eng_ok_cb)

lemma report_position_safe [safe_intros]:
  "eng_ok cb e \<Longrightarrow> safe cb (handle_report_position conf l x st e)"
  unfolding handle_report_position_def Let_def
  by (auto intro!: safe_intros safe_bind simp del: bind_eq_Some_conv)

lemma agps_handlers_safe:
  assumes "eng_ok True e"
  shows "safe True (handle_request_bit env t v4 v6 e)"
    "safe True (handle_release_bit env t v4 v6 e)"
    "safe True (handle_request_atl h ty e)"
    "safe True (handle_release_atl h e)"
    "safe True (handle_request_wifi sid s p e)"
    "safe True (handle_release_wifi sid s p e)"
    "safe True (handle_atl_open_success st len apn b e)"
    "safe True (handle_atl_closed st e)"
    "safe True (handle_atl_open_failed st e)"
proof -
  note on = on_nif_safe [OF _ ops_exist(1)] on_nif_safe [OF _ ops_exist(3)] on_nif_safe [OF _ ops_exist(5)]
  note un = run_nif_safe [OF _ ops_exist(2)]
  show "safe True (handle_request_bit env t v4 v6 e)"
    using assms by (auto simp: handle_request_bit_def intro!: on safe_Some split: option.split)
  show "safe True (handle_release_bit env t v4 v6 e)"
    using assms by (auto simp: handle_release_bit_def intro!: un safe_map_snd safe_Some split: option.split)
  show "safe True (handle_request_atl h ty e)"
    using assms by (simp add: handle_request_atl_def Let_def on)
  show "safe True (handle_release_atl h e)"
    unfolding handle_release_atl_def
    by (rule safe_bind_r [OF un [OF assms]]) (auto intro!: safe_Some safe_map_snd un)
  show "safe True (handle_request_wifi sid s p e)"
    using assms by (auto simp: handle_request_wifi_def intro!: on safe_Some)
  show "safe True (handle_release_wifi sid s p e)"
    using assms by (auto simp: handle_release_wifi_def intro!: un safe_map_snd)
  show "safe True (handle_atl_open_success st len apn b e)" "safe True (handle_atl_closed st e)"
    "safe True (handle_atl_open_failed st e)"
    using assms by (simp_all add: handle_atl_open_success_def handle_atl_closed_def handle_atl_open_failed_def on)
qed

text \<open>The messages that use the state machines.\<close>

definition agps_ids :: "loc_eng_msg_ids_t list" where
  "agps_ids = [LOC_ENG_MSG_REQUEST_BIT, LOC_ENG_MSG_RELEASE_BIT, LOC_ENG_MSG_REQUEST_ATL, LOC_ENG_MSG_RELEASE_ATL,
     LOC_ENG_MSG_REQUEST_WIFI, LOC_ENG_MSG_RELEASE_WIFI, LOC_ENG_MSG_ATL_OPEN_SUCCESS,
     LOC_ENG_MSG_ATL_CLOSED, LOC_ENG_MSG_ATL_OPEN_FAILED]"

lemma handle_plain_safe:
  "eng_ok cb e \<Longrightarrow> safe cb (handle_plain conf resolve env i e)"
  by (auto simp: handle_plain_def handle_stop_fix_def intro!: safe_intros)

lemma handle_msg_safe:
  assumes "eng_ok cb e" "msgid msg \<in> set agps_ids \<Longrightarrow> cb"
  shows "safe cb (handle_msg conf resolve env msg e)"
  using assms
  by (cases msg)
     (auto simp: agps_ids_def handle_plain_safe handle_report_sv_def handle_report_nmea_def
        intro!: safe_intros safe_bind agps_handlers_safe)

lemma after_agps_safe: "eng_ok cb e \<Longrightarrow> safe cb (after_agps env i e)"
  using stop_handler_safe [of cb "e\<lparr>agps_request_pending := False\<rparr>" env]
  by (auto simp: after_agps_def Let_def safe_def safe_r_def intro!: safe_intros)

lemma after_aiding_safe: "eng_ok cb e \<Longrightarrow> safe cb (after_aiding e)"
  by (auto simp: after_aiding_def intro!: safe_map safe_intros)

lemma delete_msg_ok: "eng_ok cb e \<Longrightarrow> eng_ok cb (delete_msg msg e)"
  by (cases msg) (auto intro!: safe_intros)

lemma deferred_action_safe:
  assumes "eng_ok cb e" "msgid msg \<in> set agps_ids \<Longrightarrow> cb"
  shows "safe cb (deferred_action conf resolve env msg e)"
  unfolding deferred_action_def
  by (rule safe_bind [OF handle_msg_safe [OF assms]], assumption)
     (auto intro!: safe_bind after_agps_safe after_aiding_safe safe_Some delete_msg_ok eng_ok_updates)

section \<open>Sequences of messages\<close>

text \<open>The deferred thread on a sequence of messages, each with the environment it meets.\<close>

fun deferred_run :: "loc_gps_cfg \<Rightarrow> (string \<Rightarrow> u32 option) \<Rightarrow> (api_env \<times> loc_eng_msg) list \<Rightarrow> engine \<Rightarrow> engine option" where
  "deferred_run conf resolve [] e = Some e"
| "deferred_run conf resolve ((env, msg) # ms) e =
     deferred_action conf resolve env msg e \<bind> deferred_run conf resolve ms"

lemma deferred_run_safe:
  "eng_ok cb e \<Longrightarrow> (\<forall>(env, msg) \<in> set ms. msgid msg \<in> set agps_ids \<longrightarrow> cb) \<Longrightarrow> safe cb (deferred_run conf resolve ms e)"
proof (induction ms arbitrary: e)
  case Nil
  then show ?case by (simp add: safe_Some)
next
  case (Cons x ms)
  obtain env msg where x: "x = (env, msg)" by fastforce
  have "safe cb (deferred_action conf resolve env msg e)"
    using Cons.prems x by (intro deferred_action_safe) auto
  with Cons show ?case by (auto simp: x intro!: safe_bind)
qed

text \<open>
  C3: From a well-formed engine whose AGPS interface is initialised, the deferred thread handles
  every sequence of messages, whatever the adapter answers, without following a null pointer, and
  leaves a well-formed engine: the three machines keep their request protocol, list no client
  twice, the WiFi machine has at most one, and no stop is ever deferred.
\<close>

theorem deferred_run_ok:
  assumes "eng_ok True e"
  shows "\<exists>e'. deferred_run conf resolve ms e = Some e' \<and> eng_ok True e'"
  using deferred_run_safe [OF assms, of ms conf resolve] by (auto simp: safe_def)

definition example_engine :: engine where
  "example_engine = loc_eng_data.extend zero_loc_eng_data
       (engine.fields (Some \<lparr>deferred_q = [], ulp_q = [], counter = 1\<rparr>) [])
     \<lparr>client_handle := Some \<lparr>locEngHandle = new_LocEng 1 True True False None None, fixCriteria = default_LocPosMode, navigating = False\<rparr>,
      eng_context := True, status_cb := True, location_cb := True, agps_status_cb := True,
      agnss_nif := Some (new_AgpsStateMachine 0 AGPS_TYPE_SUPL False),
      internet_nif := Some (new_AgpsStateMachine 0 AGPS_TYPE_WWAN_ANY False),
      wifi_nif := Some (new_AgpsStateMachine 0 AGPS_TYPE_WIFI True)\<rparr>"

definition example_env :: api_env where
  "example_env = \<lparr>ret_startFix = LOC_API_ADAPTER_ERR_SUCCESS, ret_stopFix = LOC_API_ADAPTER_ERR_SUCCESS,
     ret_reinit = LOC_API_ADAPTER_ERR_SUCCESS, api_fix_criteria = (\<lambda>p old. case p of None \<Rightarrow> old | Some q \<Rightarrow> q),
     time_of_day = 0, thread_created = True, array_junk = []\<rparr>"

definition zero_conf :: loc_gps_cfg where
  "zero_conf = \<lparr>INTERMEDIATE_POS = 0, ACCURACY_THRES = 0, ENABLE_WIPER = 0, SUPL_VER = 0, CAPABILITIES = 0,
     GYRO_BIAS_RANDOM_WALK_VALID = 0, GYRO_BIAS_RANDOM_WALK = 0,
     SENSOR_ACCEL_BATCHES_PER_SEC = 0, SENSOR_ACCEL_SAMPLES_PER_BATCH = 0,
     SENSOR_GYRO_BATCHES_PER_SEC = 0, SENSOR_GYRO_SAMPLES_PER_BATCH = 0,
     SENSOR_ACCEL_BATCHES_PER_SEC_HIGH = 0, SENSOR_ACCEL_SAMPLES_PER_BATCH_HIGH = 0,
     SENSOR_GYRO_BATCHES_PER_SEC_HIGH = 0, SENSOR_GYRO_SAMPLES_PER_BATCH_HIGH = 0,
     SENSOR_CONTROL_MODE = 0, SENSOR_USAGE = 0, QUIPC_ENABLED = 0, LPP_PROFILE = 0,
     SENSOR_ALGORITHM_CONFIG_MASK = 0,
     ACCEL_RANDOM_WALK_SPECTRAL_DENSITY_VALID = 0, ACCEL_RANDOM_WALK_SPECTRAL_DENSITY = 0,
     ANGLE_RANDOM_WALK_SPECTRAL_DENSITY_VALID = 0, ANGLE_RANDOM_WALK_SPECTRAL_DENSITY = 0,
     RATE_RANDOM_WALK_SPECTRAL_DENSITY_VALID = 0, RATE_RANDOM_WALK_SPECTRAL_DENSITY = 0,
     VELOCITY_RANDOM_WALK_SPECTRAL_DENSITY_VALID = 0, VELOCITY_RANDOM_WALK_SPECTRAL_DENSITY = 0\<rparr>"

definition example_conf :: loc_gps_cfg where
  "example_conf = loc_default_parameters zero_conf"

lemmas example_defs = example_engine_def zero_loc_eng_data_def loc_eng_data.defs engine.defs

lemma example_engine_ok: "eng_ok True example_engine"
  by (simp add: eng_ok_def example_defs new_machine_ok)
     (simp add: new_AgpsStateMachine_def)

lemma deferred_run_ok_witness:
  "\<exists>e'. deferred_run example_conf (\<lambda>_. None)
      [(example_env, loc_eng_msg LOC_ENG_MSG_START_FIX), (example_env, loc_eng_msg_request_atl 7 AGPS_TYPE_SUPL),
       (example_env, loc_eng_msg LOC_ENG_MSG_ENGINE_UP)] example_engine = Some e' \<and> eng_ok True e'"
  by (rule deferred_run_ok [OF example_engine_ok])

text \<open>
  A data-connection request from the modem that arrives before the AGPS interface is initialised
  makes the deferred thread follow a null pointer.
\<close>

theorem atl_request_before_agps_init:
  assumes "agnss_nif e = None" "internet_nif e = None"
  shows "deferred_action conf resolve env (loc_eng_msg_request_atl h ty) e = None"
  using assms by (simp add: deferred_action_def handle_request_atl_def on_nif_def run_nif_def Let_def)

lemma atl_request_before_agps_init_witness:
  "deferred_action example_conf Map.empty example_env (loc_eng_msg_request_atl 7 AGPS_TYPE_SUPL)
     (example_engine\<lparr>agnss_nif := None, internet_nif := None\<rparr>) = None"
  by (rule atl_request_before_agps_init) simp_all

section \<open>Initialisation\<close>

definition queued :: "engine \<Rightarrow> loc_eng_msg list" where
  "queued e = (case me e of None \<Rightarrow> [] | Some c \<Rightarrow> deferred_q c)"

lemma snd_deferred_ok:
  "eng_ok cb e \<Longrightarrow> \<exists>e'. snd_deferred msg e = Some e' \<and> eng_ok cb e' \<and> queued e' = queued e @ [msg]"
  by (auto simp: eng_ok_def snd_deferred_def queued_def)

lemma snd_all_ok:
  "eng_ok cb e \<Longrightarrow> \<exists>e'. snd_all ms e = Some e' \<and> eng_ok cb e' \<and> queued e' = queued e @ ms"
proof (induction ms arbitrary: e)
  case (Cons m ms)
  from snd_deferred_ok [OF Cons.prems, of m] obtain e1
    where "snd_deferred m e = Some e1" "eng_ok cb e1" "queued e1 = queued e @ [m]" by blast
  with Cons.IH [of e1] show ?case by auto
qed simp

lemma reinit_ok:
  assumes "eng_ok cb e"
  shows "\<exists>e'. loc_eng_reinit conf ret e = Some (ret, e') \<and> eng_ok cb e'
    \<and> queued e' = queued e @ (if ret = LOC_API_ADAPTER_ERR_SUCCESS then config_messages conf else [])"
proof -
  have "call_api reinit e = Some (emit (Api reinit) e)" "eng_ok cb (emit (Api reinit) e)"
    using assms eng_ok_handle [OF assms] by (auto simp: call_api_def eng_ok_emit)
  with snd_all_ok [OF this(2), of "config_messages conf"] show ?thesis
    by (auto simp: loc_eng_reinit_def) (auto simp: queued_def emit_def)
qed

lemma err_code_zero [simp]: "adapter_err_code r = 0 \<longleftrightarrow> r = LOC_API_ADAPTER_ERR_SUCCESS"
  by (cases r) auto

lemma init_loop_ok:
  "eng_ok cb e \<Longrightarrow> rv \<noteq> 0 \<Longrightarrow> \<exists>ret e'. init_loop conf rets n tries rv e = Some (ret, e') \<and> eng_ok cb e'
     \<and> (ret = 0 \<longleftrightarrow> (\<exists>i < tries. rets (n + i) = LOC_API_ADAPTER_ERR_SUCCESS))
     \<and> queued e' = queued e @ (if ret = 0 then config_messages conf else [])"
proof (induction tries arbitrary: n rv e)
  case (Suc tries)
  from reinit_ok [OF Suc.prems(1), of conf "rets n"] obtain e1 where
    1: "loc_eng_reinit conf (rets n) e = Some (rets n, e1)" "eng_ok cb e1"
       "queued e1 = queued e @ (if rets n = LOC_API_ADAPTER_ERR_SUCCESS then config_messages conf else [])" by blast
  show ?case
  proof (cases "rets n = LOC_API_ADAPTER_ERR_SUCCESS")
    case True
    with 1 show ?thesis by force
  next
    case False
    have q: "queued (emit Sleep_1s e1) = queued e1" by (simp add: queued_def emit_def)
    have "adapter_err_code (rets n) \<noteq> 0" using False by simp
    from Suc.IH [OF eng_ok_emit [OF 1(2), of Sleep_1s] this, of "Suc n"] obtain ret e'
      where 2: "init_loop conf rets (Suc n) tries (adapter_err_code (rets n)) (emit Sleep_1s e1) = Some (ret, e')"
        "eng_ok cb e'" "ret = 0 \<longleftrightarrow> (\<exists>i<tries. rets (Suc n + i) = LOC_API_ADAPTER_ERR_SUCCESS)"
        "queued e' = queued e1 @ (if ret = 0 then config_messages conf else [])" unfolding q by blast
    have "(\<exists>i<Suc tries. rets (n + i) = LOC_API_ADAPTER_ERR_SUCCESS) \<longleftrightarrow> (\<exists>i<tries. rets (Suc n + i) = LOC_API_ADAPTER_ERR_SUCCESS)"
      using False by (auto simp: less_Suc_eq_0_disj)
    with 1 2 False show ?thesis by auto
  qed
qed auto

lemma loc_eng_init_ok_core:
  assumes "\<not> eng_context e" "me e = None" "event \<noteq> 0"
  shows "\<exists>ret e'. loc_eng_init conf rets (Some fx) w (Some cb) event ext e = Some (ret, e')
     \<and> eng_ok False e'
     \<and> (ret = 0 \<longleftrightarrow> (\<exists>i < 30. rets i = LOC_API_ADAPTER_ERR_SUCCESS))
     \<and> queued e' = (if ret = 0 then config_messages conf @ [loc_eng_msg_engine_lock 1] else [])"
proof -
  let ?e2 = "save_callbacks conf cb (emit_if (lc_set_capabilities_cb cb) (Cb_set_capabilities (CAPABILITIES conf))
      (LocEngContext_get (loc_eng_data.extend zero_loc_eng_data (engine.fields (me e) (eng_out e)))))"
  let ?e3 = "with_client fx cb event ext ?e2"
  have e3: "eng_ok False ?e3" "queued ?e3 = []"
    using assms(2) by (simp_all add: eng_ok_def queued_def save_callbacks_def with_client_def new_LocApiAdapter_def emit_if_def emit_def LocEngContext_get_def
        zero_loc_eng_data_def loc_eng_data.defs engine.defs)
  have "(-1 :: int) \<noteq> 0" by simp
  from init_loop_ok [OF e3(1) this, of conf rets 0 30] obtain ret e4 where
    4: "init_loop conf rets 0 30 (-1) ?e3 = Some (ret, e4)" "eng_ok False e4"
      "ret = 0 \<longleftrightarrow> (\<exists>i<30. rets i = LOC_API_ADAPTER_ERR_SUCCESS)"
      "queued e4 = (if ret = 0 then config_messages conf else [])" unfolding e3(2) append_Nil add_0 by blast
  from snd_deferred_ok [OF 4(2), of "loc_eng_msg_engine_lock 1"] obtain e5 where
    5: "snd_deferred (loc_eng_msg_engine_lock 1) e4 = Some e5" "eng_ok False e5"
      "queued e5 = queued e4 @ [loc_eng_msg_engine_lock 1]" by blast
  have ctx: "eng_context e4" using 4(2) by (simp add: eng_ok_def)
  have "loc_eng_init conf rets (Some fx) w (Some cb) event ext e =
     (if ret = 0 then Some (ret, e5) else Some (ret, e4))"
    using assms(1,3) 4(1) 5(1) ctx
    by (simp add: loc_eng_init_def Let_def loc_eng_set_engine_lock_def INIT_CHECK_def)
  with 4 5 show ?thesis by (cases "ret = 0") auto
qed

text \<open>
  \<open>loc_eng_init\<close> on an uninitialised engine with a modem adapter ends after at most thirty
  attempts with a well-formed engine; it returns zero exactly when one of the attempts succeeds,
  and then the queue holds the configuration and the engine lock, in this order, and nothing else.
\<close>

theorem loc_eng_init_ok:
  assumes "\<not> eng_context e" "me e = None" "event \<noteq> 0"
  shows "\<exists>ret e'. loc_eng_init conf rets (Some fx) w (Some cb) event ext e = Some (ret, e')
     \<and> eng_ok False e'
     \<and> (ret = 0 \<longleftrightarrow> (\<exists>i < 30. rets i = LOC_API_ADAPTER_ERR_SUCCESS))
     \<and> queued e' = (if ret = 0 then config_messages conf @ [loc_eng_msg_engine_lock 1] else [])"
  using assms by (rule loc_eng_init_ok_core)

definition example_callbacks :: LocCallbacks where
  "example_callbacks = \<lparr>lc_location_cb = True, lc_status_cb = True, lc_sv_status_cb = True, lc_nmea_cb = True,
     lc_set_capabilities_cb = True, lc_acquire_wakelock_cb = True, lc_release_wakelock_cb = True,
     lc_location_ext_parser = None, lc_sv_ext_parser = None\<rparr>"

definition fresh_engine :: engine where
  "fresh_engine = loc_eng_data.extend zero_loc_eng_data (engine.fields None [])"

lemma fresh_engine_simps [simp]:
  "\<not> eng_context fresh_engine" "me fresh_engine = None"
  by (simp_all add: fresh_engine_def zero_loc_eng_data_def loc_eng_data.defs engine.defs)

lemma loc_eng_init_ok_witness:
  "\<exists>e'. loc_eng_init example_conf (\<lambda>n. if n < 2 then LOC_API_ADAPTER_ERR_TIMEOUT else LOC_API_ADAPTER_ERR_SUCCESS)
      (Some default_LocPosMode) 0 (Some example_callbacks) 1 False fresh_engine = Some (0, e') \<and> eng_ok False e'"
proof -
  let ?rets = "\<lambda>n. if n < (2::nat) then LOC_API_ADAPTER_ERR_TIMEOUT else LOC_API_ADAPTER_ERR_SUCCESS"
  have "\<exists>i < 30. ?rets i = LOC_API_ADAPTER_ERR_SUCCESS" by (rule exI [of _ 2]) simp
  with loc_eng_init_ok [of fresh_engine 1 example_conf ?rets default_LocPosMode 0 example_callbacks False]
  show ?thesis by auto
qed

text \<open>
  An initialisation whose thirty attempts all fail leaves the engine's context set: the next
  \<open>loc_eng_init\<close> returns zero, its success code, without trying the modem again.
\<close>

theorem failed_init_then_success:
  assumes "\<not> eng_context e" "me e = None" "event \<noteq> 0" "\<forall>i. rets i = LOC_API_ADAPTER_ERR_GENERAL_FAILURE"
  shows "\<exists>ret e1 e2. loc_eng_init conf rets (Some fx) w (Some cb) event ext e = Some (ret, e1) \<and> ret \<noteq> 0
     \<and> loc_eng_init conf rets (Some fx) w (Some cb) event ext e1 = Some (0, e2)
     \<and> eng_out e2 = eng_out e1"
proof -
  from loc_eng_init_ok_core [OF assms(1-3), of conf rets fx w cb ext] assms(4) obtain ret e1 where
    1: "loc_eng_init conf rets (Some fx) w (Some cb) event ext e = Some (ret, e1)" "eng_ok False e1" "ret \<noteq> 0"
    by auto
  from 1(2) obtain c where "eng_context e1" "me e1 = Some c" by (auto simp: eng_ok_def)
  with 1 assms(3) show ?thesis
    by (auto simp: loc_eng_init_def [of _ _ _ _ _ _ _ e1] loc_eng_set_engine_lock_def INIT_CHECK_def snd_deferred_def)
qed

lemma failed_init_then_success_witness:
  "\<exists>ret e1 e2. loc_eng_init example_conf (\<lambda>_. LOC_API_ADAPTER_ERR_GENERAL_FAILURE) (Some default_LocPosMode) 0
       (Some example_callbacks) 1 False fresh_engine = Some (ret, e1) \<and> ret \<noteq> 0
     \<and> loc_eng_init example_conf (\<lambda>_. LOC_API_ADAPTER_ERR_GENERAL_FAILURE) (Some default_LocPosMode) 0
       (Some example_callbacks) 1 False e1 = Some (0, e2) \<and> eng_out e2 = eng_out e1"
  by (rule failed_init_then_success) simp_all

end
