(* ===== verification/Loc_Eng_Props.thy ===== *)
theory Loc_Eng_Props
  imports Loc_Eng_Inv
begin

text \<open>
  What the location engine does for its users: sessions, muted sessions, aiding
  data, modem restarts, server addresses and the route of start and stop.
\<close>

section \<open>The interface functions keep the invariant\<close>

lemma interface_safe:
  "eng_ok cb e \<Longrightarrow> safe_r cb (loc_eng_start conf e)"
  "eng_ok cb e \<Longrightarrow> safe_r cb (loc_eng_stop conf e)"
  "eng_ok cb e \<Longrightarrow> safe_r cb (loc_eng_set_position_mode p e)"
  "eng_ok cb e \<Longrightarrow> safe_r cb (loc_eng_inject_time t tr u e)"
  "eng_ok cb e \<Longrightarrow> safe_r cb (loc_eng_inject_location la lo ac e)"
  "eng_ok cb e \<Longrightarrow> safe_r cb (loc_eng_delete_aiding_data f e)"
  "eng_ok cb e \<Longrightarrow> safe_r cb (loc_eng_agps_open ty apn b e)"
  "eng_ok cb e \<Longrightarrow> safe_r cb (loc_eng_agps_closed ty e)"
  "eng_ok cb e \<Longrightarrow> safe_r cb (loc_eng_agps_open_failed ty e)"
  "eng_ok cb e \<Longrightarrow> safe_r cb (loc_eng_agps_ril_update_network_availability av apn e)"
  "eng_ok cb e \<Longrightarrow> safe_r cb (loc_eng_set_server_proxy resolve sty h port e)"
  "eng_ok cb e \<Longrightarrow> safe_r cb (loc_eng_update_criteria conf crit e)"
  "eng_ok cb e \<Longrightarrow> safe_r cb (loc_eng_ulp_send_network_position conf rep e)"
  unfolding loc_eng_start_def loc_eng_stop_def loc_eng_set_position_mode_def loc_eng_inject_time_def
    loc_eng_inject_location_def loc_eng_delete_aiding_data_def loc_eng_agps_open_def agps_checked_def
    loc_eng_agps_closed_def loc_eng_agps_open_failed_def loc_eng_agps_ril_update_network_availability_def
    loc_eng_set_server_proxy_def loc_eng_update_criteria_def loc_eng_ulp_send_network_position_def Let_def
  by (auto intro!: safe_intros split: option.split LocServerType.split) (auto simp: eng_ok_def safe_r_def)

lemma agps_init_safe:
  assumes "eng_ok False e"
  shows "safe_r True (loc_eng_agps_init resolve bit_api junk True e)"
proof -
  let ?e1 = "emit_if bit_api Server_launch (e\<lparr>agps_status_cb := True,
     agnss_nif := Some (new_AgpsStateMachine junk AGPS_TYPE_SUPL False),
     internet_nif := Some (new_AgpsStateMachine junk AGPS_TYPE_WWAN_ANY False),
     wifi_nif := Some (new_AgpsStateMachine junk AGPS_TYPE_WIFI True)\<rparr>)"
  have "eng_ok True ?e1"
    using assms by (intro eng_ok_emit_if) (auto simp: eng_ok_def new_machine_ok, simp add: new_AgpsStateMachine_def)
  then have "safe True (loc_eng_agps_reinit resolve ?e1)" by (rule agps_reinit_safe)
  then show ?thesis
    using assms by (simp add: loc_eng_agps_init_def INIT_CHECK_def eng_ok_def safe_r_map_Pair)
qed

section \<open>Sessions\<close>

lemma start_handler_spec_core:
  assumes "client_handle e = Some a"
  shows "\<exists>ret e'. loc_eng_start_handler env e = Some (ret, e')
     \<and> isInSession e' = Some (navigating a \<or> ret_startFix env \<in> {LOC_API_ADAPTER_ERR_SUCCESS, LOC_API_ADAPTER_ERR_ENGINE_DOWN})
     \<and> eng_out e' = eng_out e @
         (if navigating a then []
          else Api startFix # (if status_cb e \<and> ret_startFix env \<in> {LOC_API_ADAPTER_ERR_SUCCESS, LOC_API_ADAPTER_ERR_ENGINE_DOWN}
                               then [Cb_status GPS_STATUS_SESSION_BEGIN] else []))"
  using assms
  by (auto simp: loc_eng_start_handler_def isInSession_def call_api_def setInSession_def emit_def emit_if_def
      loc_inform_gps_status_def)

text \<open>
  The start handler calls the adapter exactly when no session is running, opens a session and
  announces it when the adapter accepts the start or the modem is down (the restart will start it),
  and does nothing else.
\<close>

theorem start_handler_spec:
  assumes "client_handle e = Some a"
  shows "\<exists>ret e'. loc_eng_start_handler env e = Some (ret, e')
     \<and> isInSession e' = Some (navigating a \<or> ret_startFix env \<in> {LOC_API_ADAPTER_ERR_SUCCESS, LOC_API_ADAPTER_ERR_ENGINE_DOWN})
     \<and> eng_out e' = eng_out e @
         (if navigating a then []
          else Api startFix # (if status_cb e \<and> ret_startFix env \<in> {LOC_API_ADAPTER_ERR_SUCCESS, LOC_API_ADAPTER_ERR_ENGINE_DOWN}
                               then [Cb_status GPS_STATUS_SESSION_BEGIN] else []))"
  using assms by (rule start_handler_spec_core)

lemma start_handler_spec_witness:
  "\<exists>ret e'. loc_eng_start_handler example_env example_engine = Some (ret, e')
     \<and> isInSession e' = Some True \<and> eng_out e' = [Api startFix, Cb_status GPS_STATUS_SESSION_BEGIN]"
proof -
  have c: "client_handle example_engine = Some \<lparr>locEngHandle = new_LocEng 1 True True False None None, fixCriteria = default_LocPosMode, navigating = False\<rparr>" "status_cb example_engine" "eng_out example_engine = []"
    by (simp_all add: example_defs)
  show ?thesis
    using start_handler_spec [OF c(1), of example_env] c(2,3)
    by (simp add: example_env_def)
qed

text \<open>
  The stop handler ends every session, whatever the adapter answers, and announces the end
  only when the adapter accepted the stop.
\<close>

theorem stop_handler_spec:
  assumes "client_handle e = Some a"
  shows "\<exists>ret e'. loc_eng_stop_handler env e = Some (ret, e')
     \<and> isInSession e' = Some False
     \<and> eng_out e' = eng_out e @
         (if \<not> navigating a then []
          else Api stopFix # (if status_cb e \<and> ret_stopFix env = LOC_API_ADAPTER_ERR_SUCCESS
                              then [Cb_status GPS_STATUS_SESSION_END] else []))"
  using assms
  by (auto simp: loc_eng_stop_handler_def isInSession_def call_api_def setInSession_def emit_def emit_if_def
      loc_inform_gps_status_def)

lemma stop_handler_spec_witness:
  "\<exists>ret e'. loc_eng_stop_handler example_env (example_engine\<lparr>client_handle :=
        Some \<lparr>locEngHandle = new_LocEng 1 True True False None None, fixCriteria = default_LocPosMode, navigating = True\<rparr>\<rparr>)
      = Some (ret, e')
     \<and> isInSession e' = Some False \<and> eng_out e' = [Api stopFix, Cb_status GPS_STATUS_SESSION_END]"
proof -
  let ?a = "\<lparr>locEngHandle = new_LocEng 1 True True False None None, fixCriteria = default_LocPosMode, navigating = True\<rparr>"
  have c: "client_handle (example_engine\<lparr>client_handle := Some ?a\<rparr>) = Some ?a"
    "status_cb (example_engine\<lparr>client_handle := Some ?a\<rparr>)" "eng_out (example_engine\<lparr>client_handle := Some ?a\<rparr>) = []"
    by (simp_all add: example_defs)
  show ?thesis using stop_handler_spec [OF c(1), of example_env] c(2,3) by (simp add: example_env_def)
qed

text \<open>
  A stop that arrives while a data-connection request is pending is lost: the thread clears
  the deferred stop at the end of the very message that set it.
\<close>

theorem deferred_stop_is_lost:
  assumes "agps_request_pending e" "aiding_data_for_deletion e = 0"
  shows "deferred_action conf resolve env (loc_eng_msg LOC_ENG_MSG_STOP_FIX) e = Some (e\<lparr>stop_request_pending := False\<rparr>)"
  using assms by (simp add: deferred_action_def handle_plain_def handle_stop_fix_def after_agps_def after_aiding_def)

lemma deferred_stop_is_lost_witness:
  "deferred_action example_conf Map.empty example_env (loc_eng_msg LOC_ENG_MSG_STOP_FIX) (example_engine\<lparr>agps_request_pending := True\<rparr>)
     = Some (example_engine\<lparr>agps_request_pending := True, stop_request_pending := False\<rparr>)"
proof -
  have "aiding_data_for_deletion (example_engine\<lparr>agps_request_pending := True\<rparr>) = 0"
    by (simp add: example_defs)
  from deferred_stop_is_lost [OF _ this, of example_conf "Map.empty" example_env] show ?thesis by simp
qed

section \<open>Muted sessions\<close>

text \<open>
  During a muted session no position, no satellite report and no status but its end reaches
  the framework; a session start or engine start turns a waiting mute into a muted session, and
  the end of the session or of the engine ends it and is itself reported unless navigation goes on.
\<close>

theorem muted_session:
  assumes "client_handle e = Some a" "mute_session_state e = LOC_MUTE_SESS_IN_SESSION"
  shows "handle_report_position conf l x ps e = Some e \<and> handle_report_sv sv y e = Some e
    \<and> (\<exists>e'. loc_eng_report_status st e = Some e'
        \<and> (if st \<in> {GPS_STATUS_SESSION_END, GPS_STATUS_ENGINE_OFF}
           then mute_session_state e' = LOC_MUTE_SESS_NONE
             \<and> eng_out e' = eng_out e @ (if status_cb e \<and> \<not> (st = GPS_STATUS_SESSION_END \<and> navigating a) then [Cb_status st] else [])
           else mute_session_state e' = LOC_MUTE_SESS_IN_SESSION \<and> eng_out e' = eng_out e))"
  using assms
  by (auto simp: handle_report_position_def handle_report_sv_def emit_if_def loc_eng_report_status_def
      mute_after_def isInSession_def Let_def loc_inform_gps_status_def emit_def)

lemma muted_session_witness:
  "\<exists>e'. loc_eng_report_status GPS_STATUS_SESSION_END (example_engine\<lparr>mute_session_state := LOC_MUTE_SESS_IN_SESSION\<rparr>) = Some e'
     \<and> mute_session_state e' = LOC_MUTE_SESS_NONE \<and> eng_out e' = [Cb_status GPS_STATUS_SESSION_END]"
proof -
  let ?e = "example_engine\<lparr>mute_session_state := LOC_MUTE_SESS_IN_SESSION\<rparr>"
  have c: "client_handle ?e = Some \<lparr>locEngHandle = new_LocEng 1 True True False None None, fixCriteria = default_LocPosMode, navigating = False\<rparr>" "status_cb ?e" "eng_out ?e = []"
    by (simp_all add: example_defs)
  show ?thesis using muted_session [OF c(1), of conf l x ps sv y GPS_STATUS_SESSION_END] c(2,3) by simp
qed

text \<open>
  A mute that was requested starts with the next start of a session or of the engine, which is
  itself not reported; every other status leaves it waiting.
\<close>

theorem mute_starts:
  assumes "client_handle e = Some a" "mute_session_state e = LOC_MUTE_SESS_WAIT"
  shows "\<exists>e'. loc_eng_report_status st e = Some e'
     \<and> mute_session_state e' = (if st \<in> {GPS_STATUS_SESSION_BEGIN, GPS_STATUS_ENGINE_ON}
          then LOC_MUTE_SESS_IN_SESSION else LOC_MUTE_SESS_WAIT)
     \<and> (st \<in> {GPS_STATUS_SESSION_BEGIN, GPS_STATUS_ENGINE_ON} \<longrightarrow> eng_out e' = eng_out e)"
  using assms
  by (auto simp: emit_if_def loc_eng_report_status_def
      mute_after_def isInSession_def Let_def loc_inform_gps_status_def emit_def)

lemma mute_starts_witness:
  "\<exists>e'. loc_eng_report_status GPS_STATUS_ENGINE_ON (loc_eng_mute_one_session example_engine) = Some e'
     \<and> mute_session_state e' = LOC_MUTE_SESS_IN_SESSION \<and> eng_out e' = []"
proof -
  let ?e = "loc_eng_mute_one_session example_engine"
  have c: "client_handle ?e = Some \<lparr>locEngHandle = new_LocEng 1 True True False None None, fixCriteria = default_LocPosMode, navigating = False\<rparr>" "mute_session_state ?e = LOC_MUTE_SESS_WAIT" "eng_out ?e = []"
    by (simp_all add: example_defs loc_eng_mute_one_session_def)
  show ?thesis using mute_starts [OF c(1,2), of GPS_STATUS_ENGINE_ON] c(3) by simp
qed

text \<open>A location that a modem may report, with a given accuracy.\<close>

definition example_location :: "real \<Rightarrow> GpsLocation" where
  "example_location acc = \<lparr>gl_size = 0, gl_flags = 0x11, gl_position_source = 2, gl_latitude = 1, gl_longitude = 2,
     gl_altitude = 0, gl_speed = 0, gl_bearing = 0, gl_accuracy = acc, gl_timestamp = 0, gl_rawDataSize = 0,
     gl_rawData = 0, gl_is_indoor = False, gl_floor_number = 0, gl_map_url = [], gl_map_index = []\<rparr>"

section \<open>Aiding data\<close>

lemma after_aiding_clears:
  "after_aiding e = Some e' \<Longrightarrow> engine_status e' = GPS_STATUS_ENGINE_ON \<or> aiding_data_for_deletion e' = 0"
  by (auto simp: after_aiding_def call_api_def split: if_splits)

lemma delete_msg_fields [simp]:
  "engine_status (delete_msg msg e) = engine_status e"
  "aiding_data_for_deletion (delete_msg msg e) = aiding_data_for_deletion e"
  by (cases msg; simp add: emit_if_def emit_def)+

text \<open>
  After every message, aiding data waits for deletion only while the modem's engine is on.
\<close>

theorem aiding_data_deleted:
  assumes "deferred_action conf resolve env msg e = Some e'"
  shows "engine_status e' = GPS_STATUS_ENGINE_ON \<or> aiding_data_for_deletion e' = 0"
  using assms by (auto simp: deferred_action_def bind_eq_Some dest!: after_aiding_clears)

lemma aiding_data_deleted_witness:
  "\<exists>e'. deferred_action example_conf Map.empty example_env (loc_eng_msg_delete_aiding_data 0xFFFFFFFF) example_engine = Some e'
     \<and> aiding_data_for_deletion e' = 0"
proof -
  have ok: "eng_ok True example_engine" by (rule example_engine_ok)
  obtain e' where e': "deferred_action example_conf Map.empty example_env (loc_eng_msg_delete_aiding_data 0xFFFFFFFF) example_engine = Some e'"
    using deferred_action_safe [OF ok, of "loc_eng_msg_delete_aiding_data 0xFFFFFFFF" example_conf "Map.empty" example_env]
    by (auto simp: safe_def)
  have "engine_status e' \<noteq> GPS_STATUS_ENGINE_ON"
    using e' by (auto simp: deferred_action_def after_agps_def after_aiding_def call_api_def emit_def example_defs)
  with aiding_data_deleted [OF e'] e' show ?thesis by auto
qed

text \<open>
  While the modem's engine is on, requests to delete aiding data are collected: the masks are
  united and nothing is sent; the first message after the engine has left that state deletes the union.
\<close>

theorem aiding_data_collected:
  assumes "engine_status e = GPS_STATUS_ENGINE_ON" "client_handle e = Some a" "mute_session_state e = LOC_MUTE_SESS_NONE"
  shows "\<exists>e1 e2. deferred_action conf resolve env (loc_eng_msg_delete_aiding_data f) e = Some e1
     \<and> eng_out e1 = eng_out e
     \<and> deferred_action conf resolve env (loc_eng_msg_report_status GPS_STATUS_ENGINE_OFF) e1 = Some e2
     \<and> eng_out e2 = eng_out e @ (if status_cb e then [Cb_status GPS_STATUS_ENGINE_OFF] else [])
          @ (if aiding_data_for_deletion e OR f = 0 then [] else [Api (deleteAidingData (aiding_data_for_deletion e OR f))])"
  using assms
  by (auto simp: deferred_action_def after_agps_def after_aiding_def call_api_def loc_eng_report_status_def Let_def
      isInSession_def mute_after_def loc_inform_gps_status_def emit_if_def emit_def)

lemma aiding_data_collected_witness:
  "\<exists>e1 e2. deferred_action example_conf Map.empty example_env (loc_eng_msg_delete_aiding_data 4)
        (example_engine\<lparr>engine_status := GPS_STATUS_ENGINE_ON, aiding_data_for_deletion := 1\<rparr>) = Some e1
     \<and> deferred_action example_conf Map.empty example_env (loc_eng_msg_report_status GPS_STATUS_ENGINE_OFF) e1 = Some e2
     \<and> eng_out e2 = [Cb_status GPS_STATUS_ENGINE_OFF, Api (deleteAidingData 5)]"
proof -
  let ?e = "example_engine\<lparr>engine_status := GPS_STATUS_ENGINE_ON, aiding_data_for_deletion := 1\<rparr>"
  have c: "engine_status ?e = GPS_STATUS_ENGINE_ON" "client_handle ?e = Some \<lparr>locEngHandle = new_LocEng 1 True True False None None, fixCriteria = default_LocPosMode, navigating = False\<rparr>" "mute_session_state ?e = LOC_MUTE_SESS_NONE"
    "status_cb ?e" "eng_out ?e = []" "aiding_data_for_deletion ?e = 1"
    by (simp_all add: example_defs)
  show ?thesis using aiding_data_collected [OF c(1,2,3), of example_conf "Map.empty" example_env 4] c(4,5,6) by auto
qed

section \<open>Modem restart\<close>

text \<open>Nothing but the session handlers touches the adapter's state.\<close>

lemma snd_deferred_handle: "snd_deferred m e = Some e' \<Longrightarrow> client_handle e' = client_handle e"
  by (auto simp: snd_deferred_def split: if_splits)

lemma snd_all_handle: "snd_all ms e = Some e' \<Longrightarrow> client_handle e' = client_handle e"
  by (induction ms arbitrary: e) (auto simp: bind_eq_Some dest!: snd_deferred_handle)

lemma call_api_handle: "call_api a e = Some e' \<Longrightarrow> client_handle e' = client_handle e"
  by (auto simp: call_api_def emit_def split: if_splits)

lemma reinit_handle: "loc_eng_reinit conf ret e = Some (r, e') \<Longrightarrow> client_handle e' = client_handle e"
  by (auto simp: loc_eng_reinit_def bind_eq_Some dest!: snd_all_handle call_api_handle split: if_splits)

lemma on_nif_handle: "on_nif k f e = Some e' \<Longrightarrow> client_handle e' = client_handle e"
  by (cases k) (auto simp: on_nif_def run_nif_def Let_def split: option.splits if_splits)

lemma set_server_handle: "loc_eng_set_server resolve ty h p e = Some (r, e') \<Longrightarrow> client_handle e' = client_handle e"
  by (auto simp: loc_eng_set_server_def Let_def dest!: snd_deferred_handle
      split: LocServerType.splits option.splits if_splits)

lemma agps_reinit_handle: "loc_eng_agps_reinit resolve e = Some e' \<Longrightarrow> client_handle e' = client_handle e"
  by (auto simp: loc_eng_agps_reinit_def bind_eq_Some dest!: set_server_handle split: if_splits)

lemma report_status_handle: "loc_eng_report_status st e = Some e' \<Longrightarrow> client_handle e' = client_handle e"
  unfolding loc_eng_report_status_def Let_def bind_eq_Some
  by (auto simp: loc_inform_gps_status_def emit_if_def emit_def if_distrib [of client_handle])

text \<open>
  When the modem comes back in the middle of a session and accepts the start, the engine sends
  the position mode and the start again, in this order, as the last calls of the handler, and the
  session goes on.
\<close>

theorem engine_up_restarts_session:
  assumes "eng_ok cb e" "isInSession e = Some True" "ret_startFix env = LOC_API_ADAPTER_ERR_SUCCESS"
  shows "\<exists>e' evs. loc_eng_handle_engine_up conf resolve env e = Some e' \<and> isInSession e' = Some True
     \<and> eng_out e' = evs @ [Api (setPositionMode None), Api startFix]
         @ (if status_cb e' then [Cb_status GPS_STATUS_SESSION_BEGIN] else [])"
proof -
  from engine_up_safe [OF assms(1), of conf resolve env]
  obtain e' where e': "loc_eng_handle_engine_up conf resolve env e = Some e'" by (auto simp: safe_def)
  define DROP where "DROP = (\<lambda>e1. if agps_status_cb e1 then do {
               a \<leftarrow> on_nif Agnss dropAllSubscribers e1;
               b \<leftarrow> on_nif Internet dropAllSubscribers a;
               loc_eng_agps_reinit resolve b
             } else Some e1)"
  define RESUME where "RESUME = (\<lambda>e3. isInSession e3 \<bind> (\<lambda>nav. if nav then do {
        e4 \<leftarrow> set_position_mode_api env None e3;
        e5 \<leftarrow> setInSession False e4;
        map_option snd (loc_eng_start_handler env e5)
      } else Some e3))"
  have "loc_eng_handle_engine_up conf resolve env e =
     loc_eng_reinit conf (ret_reinit env) e \<bind> (\<lambda>(_, e1). DROP e1 \<bind>
       (\<lambda>e2. loc_eng_report_status GPS_STATUS_ENGINE_ON e2 \<bind> RESUME))"
    unfolding loc_eng_handle_engine_up_def DROP_def RESUME_def ..
  with e' obtain r e1 e2 e3 where 1: "loc_eng_reinit conf (ret_reinit env) e = Some (r, e1)"
    and 2: "DROP e1 = Some e2" and 3: "loc_eng_report_status GPS_STATUS_ENGINE_ON e2 = Some e3"
    and 4: "RESUME e3 = Some e'"
    by (auto simp: bind_eq_Some)
  have "client_handle e2 = client_handle e1"
    using 2 by (auto simp: DROP_def bind_eq_Some dest!: on_nif_handle agps_reinit_handle split: if_splits)
  then have "client_handle e3 = client_handle e"
    using reinit_handle [OF 1] report_status_handle [OF 3] by simp
  with assms(2) obtain a where a: "client_handle e3 = Some a" "navigating a" by (auto simp: isInSession_def)
  define b where "b = a\<lparr>fixCriteria := api_fix_criteria env None (fixCriteria a), navigating := False\<rparr>"
  define e5 where "e5 = (emit (Api (setPositionMode None))
      (e3\<lparr>client_handle := Some (a\<lparr>fixCriteria := api_fix_criteria env None (fixCriteria a)\<rparr>)\<rparr>))\<lparr>client_handle := Some b\<rparr>"
  have "map_option snd (loc_eng_start_handler env e5) = Some e'"
    using 4 a by (simp add: RESUME_def isInSession_def set_position_mode_api_def setInSession_def e5_def b_def emit_def)
  then obtain ret where s: "loc_eng_start_handler env e5 = Some (ret, e')" by auto
  have "client_handle e5 = Some b" by (simp add: e5_def)
  from start_handler_spec_core [OF this, of env] s assms(3)
  have "isInSession e' = Some True" "eng_out e' = eng_out e5 @ Api startFix # (if status_cb e5 then [Cb_status GPS_STATUS_SESSION_BEGIN] else [])"
    by (auto simp: b_def)
  moreover have "eng_out e5 = eng_out e3 @ [Api (setPositionMode None)]" by (simp add: e5_def emit_def)
  moreover have "status_cb e' = status_cb e5"
    using s \<open>client_handle e5 = Some b\<close> assms(3)
    by (auto simp: loc_eng_start_handler_def isInSession_def call_api_def setInSession_def emit_def b_def
        loc_inform_gps_status_def emit_if_def split: if_splits)
  ultimately show ?thesis using e' by auto
qed

lemma engine_up_restarts_session_witness:
  "\<exists>e' evs. loc_eng_handle_engine_up example_conf Map.empty example_env (example_engine\<lparr>client_handle :=
        Some \<lparr>locEngHandle = new_LocEng 1 True True False None None, fixCriteria = default_LocPosMode, navigating = True\<rparr>\<rparr>) = Some e'
     \<and> isInSession e' = Some True \<and> eng_out e' = evs @ [Api (setPositionMode None), Api startFix]
         @ (if status_cb e' then [Cb_status GPS_STATUS_SESSION_BEGIN] else [])"
  by (rule engine_up_restarts_session [OF eng_ok_updates(7) [OF example_engine_ok]])
     (simp_all add: isInSession_def example_env_def)

section \<open>Server addresses\<close>

text \<open>Reading a decimal number back.\<close>

definition undec :: "string \<Rightarrow> nat" where
  "undec s = foldl (\<lambda>n c. 10 * n + (of_char c - 48)) 0 s"

lemma undec_snoc [simp]: "undec (s @ [c]) = 10 * undec s + (of_char c - 48)"
  by (simp add: undec_def)

lemma undec_dec: "undec (decimal n) = n"
proof (induction n rule: decimal.induct)
  case (1 n)
  show ?case
  proof (cases "n < 10")
    case True
    then have "undec [char_of (48 + n)] = n" by (simp add: undec_def)
    with True show ?thesis by (simp add: decimal.simps [of n] digit_char_def)
  next
    case False
    with 1 have "undec (decimal (n div 10) @ [char_of (48 + n mod 10)]) = 10 * (n div 10) + n mod 10" by simp
    with False show ?thesis by (simp add: decimal.simps [of n] digit_char_def)
  qed
qed

text \<open>
  A SUPL server address is queued as \<open>host:port\<close>, whose port reads back as the number given,
  exactly when the text is shorter than the URL limit; otherwise nothing is queued and the call
  still returns zero.
\<close>

theorem set_server_supl:
  assumes "eng_ok cb e"
  shows "\<exists>e'. loc_eng_set_server resolve LOC_AGPS_SUPL_SERVER host port e = Some (0, e')
     \<and> undec (decimal (unat port)) = unat port
     \<and> queued e' = queued e @
         (let url = host @ '':'' @ decimal (unat port)
          in if length url < 256 then [loc_eng_msg_set_server_url (length url) url] else [])"
  using snd_deferred_ok [OF assms, of "loc_eng_msg_set_server_url (length (host @ '':'' @ decimal (unat port))) (host @ '':'' @ decimal (unat port))"]
  by (auto simp: loc_eng_set_server_def Let_def undec_dec)

lemma set_server_supl_witness:
  "\<exists>e'. loc_eng_set_server (\<lambda>_. None) LOC_AGPS_SUPL_SERVER ''supl.google.com'' 7276 example_engine = Some (0, e')
     \<and> queued e' = [loc_eng_msg_set_server_url 20 ''supl.google.com:7276'']"
proof -
  have d: "decimal (unat (7276 :: i32)) = ''7276''" by (simp add: decimal.simps [of 7276] decimal.simps [of 727] decimal.simps [of 72] decimal.simps [of 7] digit_char_def char_of_def bit_0)
  have q: "queued example_engine = []" by (simp add: queued_def example_defs)
  show ?thesis
    using set_server_supl [OF example_engine_ok, of "\<lambda>_. None" "''supl.google.com''" 7276] unfolding d q by auto
qed

text \<open>Initialisation zeroes the module data, and none of its later steps saves a server address.\<close>

lemma snd_deferred_host: "snd_deferred m e = Some e' \<Longrightarrow> supl_host_set e' = supl_host_set e"
  by (auto simp: snd_deferred_def split: if_splits)

lemma snd_all_host: "snd_all ms e = Some e' \<Longrightarrow> supl_host_set e' = supl_host_set e"
  by (induction ms arbitrary: e) (auto simp: bind_eq_Some dest!: snd_deferred_host)

lemma reinit_host: "loc_eng_reinit conf ret e = Some (r, e') \<Longrightarrow> supl_host_set e' = supl_host_set e"
  by (auto simp: loc_eng_reinit_def call_api_def emit_def bind_eq_Some dest!: snd_all_host split: if_splits)

lemma init_loop_host: "init_loop conf rets n tries rv e = Some (r, e') \<Longrightarrow> supl_host_set e' = supl_host_set e"
proof (induction conf rets n tries rv e rule: init_loop.induct)
  case (2 conf rets n tries ret_val e)
  from "2.prems" obtain a e1 where 1: "loc_eng_reinit conf (rets n) e = Some (a, e1)"
    and rest: "(if a = LOC_API_ADAPTER_ERR_SUCCESS then Some (0, e1)
      else init_loop conf rets (Suc n) tries (adapter_err_code a) (emit Sleep_1s e1)) = Some (r, e')"
    by (auto simp: bind_eq_Some)
  show ?case
  proof (cases "a = LOC_API_ADAPTER_ERR_SUCCESS")
    case True
    with rest reinit_host [OF 1] show ?thesis by simp
  next
    case False
    with rest "2.IH" [OF 1 refl False] have "supl_host_set e' = supl_host_set (emit Sleep_1s e1)" by simp
    with reinit_host [OF 1] show ?thesis by (simp add: emit_def)
  qed
qed simp

text \<open>
  A SUPL server address that is set before the engine is initialised, and that the code saves to
  use later, is lost: \<open>loc_eng_init\<close> clears it, so initialising the AGPS interface sends no address.
\<close>

theorem early_server_address_lost:
  assumes "\<not> eng_context e" "me e = None" "event \<noteq> 0" "\<exists>i < 30. rets i = LOC_API_ADAPTER_ERR_SUCCESS"
  shows "\<exists>e1 e2 e3. loc_eng_set_server_proxy resolve LOC_AGPS_SUPL_SERVER host port e = Some (0, e1)
     \<and> supl_host_set e1 \<and> supl_host_buf e1 = strlcpy 101 host
     \<and> loc_eng_init conf rets (Some fx) w (Some cb) event ext e1 = Some (0, e2)
     \<and> \<not> supl_host_set e2"
proof -
  define e1 where "e1 = e\<lparr>supl_host_buf := strlcpy SUPL_HOST_BUF host, supl_port_buf := port, supl_host_set := True\<rparr>"
  have 1: "loc_eng_set_server_proxy resolve LOC_AGPS_SUPL_SERVER host port e = Some (0, e1)"
    using assms(1) by (simp add: loc_eng_set_server_proxy_def e1_def)
  have pre: "\<not> eng_context e1" "me e1 = None" using assms by (simp_all add: e1_def)
  from loc_eng_init_ok_core [OF pre assms(3), of conf rets fx w cb ext] assms(4)
  obtain e2 where 2: "loc_eng_init conf rets (Some fx) w (Some cb) event ext e1 = Some (0, e2)" by auto
  have "\<not> supl_host_set e2"
    using 2 pre assms(3)
    by (auto simp: loc_eng_init_def Let_def bind_eq_Some loc_eng_set_engine_lock_def INIT_CHECK_def save_callbacks_def with_client_def new_LocApiAdapter_def
        emit_if_def emit_def LocEngContext_get_def zero_loc_eng_data_def loc_eng_data.defs engine.defs
        dest!: init_loop_host snd_deferred_host split: if_splits)
  with 1 2 show ?thesis by (auto simp: e1_def)
qed

lemma early_server_address_lost_witness:
  "\<exists>e1 e2 e3. loc_eng_set_server_proxy (\<lambda>_. None) LOC_AGPS_SUPL_SERVER ''h'' 1 fresh_engine = Some (0, e1)
     \<and> supl_host_set e1 \<and> supl_host_buf e1 = strlcpy 101 ''h''
     \<and> loc_eng_init example_conf (\<lambda>_. LOC_API_ADAPTER_ERR_SUCCESS) (Some default_LocPosMode) 0 (Some example_callbacks) 1 False e1 = Some (0, e2)
     \<and> \<not> supl_host_set e2"
  by (rule early_server_address_lost) (auto intro: exI [of _ 0])

section \<open>The route of start and stop\<close>

definition ulp_queued :: "engine \<Rightarrow> loc_eng_msg list" where
  "ulp_queued e = (case me e of None \<Rightarrow> [] | Some c \<Rightarrow> ulp_q c)"

text \<open>
  A start is one message on one queue: on the ULP's when the ULP is initialised and the
  capabilities share a bit with \<open>ULP_CAPABILITY\<close>, on the engine's otherwise. The default
  capabilities, although they do not hold the mask, share a bit with it.
\<close>

theorem start_route:
  assumes "eng_ok cb e"
  shows "\<exists>e'. loc_eng_start conf e = Some (0, e')
     \<and> (if ulp_initialized e \<and> CAPABILITIES conf AND 0x99 \<noteq> 0
        then queued e' = queued e \<and> ulp_queued e' = ulp_queued e @ [loc_eng_msg ULP_MSG_START_FIX]
        else queued e' = queued e @ [loc_eng_msg LOC_ENG_MSG_START_FIX] \<and> ulp_queued e' = ulp_queued e)
     \<and> ulp_active (loc_default_parameters c) e = ulp_initialized e
     \<and> CAPABILITIES (loc_default_parameters c) AND ULP_CAPABILITY \<noteq> ULP_CAPABILITY"
  using assms
  by (auto simp: eng_ok_def loc_eng_start_def INIT_CHECK_def ulp_active_def snd_ulp_def snd_deferred_def
      queued_def ulp_queued_def loc_default_parameters_def)

lemma start_route_witness:
  "\<exists>e'. loc_eng_start example_conf (example_engine\<lparr>ulp_initialized := True\<rparr>) = Some (0, e')
     \<and> ulp_queued e' = [loc_eng_msg ULP_MSG_START_FIX]"
proof -
  have "eng_ok True (example_engine\<lparr>ulp_initialized := True\<rparr>)"
    using example_engine_ok by (simp add: eng_ok_def)
  from start_route [OF this, of "example_conf"] show ?thesis
    by (auto simp: example_conf_def loc_default_parameters_def ulp_queued_def example_defs)
qed

end
