(* ===== verification/Loc_Msg_Mem.thy ===== *)
theory Loc_Msg_Mem
  imports Loc_Msg C_Lib
begin

text \<open>
  The engine's messages as objects in memory (gps/libloc_api_50001/loc_eng_msg.h): what each
  constructor allocates and copies and each destructor frees. \<open>Loc_Msg\<close> has the messages as values;
  \<open>read_obj\<close> gives the value that an object and its arrays hold. Objects and \<open>char\<close> arrays have
  addresses of their own; the addresses that \<open>new\<close> returns and the bytes of a new array are
  arguments. Following a pointer to nothing, writing past the end of an array, or deleting what is
  not allocated is \<open>None\<close>. The messages without arrays are objects that hold their value.
\<close>

section \<open>Objects and arrays\<close>

datatype (plugins only: code size) msg_obj =
    obj_values loc_eng_msg
  | obj_report_nmea ptr nat
  | obj_request_bit loc_if_req_type_e_type i32 ptr
  | obj_release_bit loc_if_req_type_e_type i32 ptr
  | obj_request_wifi loc_if_req_type_e_type loc_if_req_sender_id_e_type ptr ptr
  | obj_release_wifi loc_if_req_type_e_type loc_if_req_sender_id_e_type ptr ptr
  | obj_set_apn ptr
  | obj_set_server_url nat ptr
  | obj_inject_xtra_data ptr nat
  | obj_atl_open_success AGpsStatusValue nat ptr AGpsBearerType
  | obj_set_data_enable i32 ptr nat
  | obj_inject_raw_command ptr nat

text \<open>\<open>freed_data\<close>: the blocks of other owners that destructors have passed to \<open>free\<close>.\<close>

record msg_mem =
  objs :: "ptr \<rightharpoonup> msg_obj"
  arrays :: "ptr \<rightharpoonup> u8 list"
  freed_data :: "ptr list"

definition new_array :: "(nat \<Rightarrow> u8) \<Rightarrow> ptr \<Rightarrow> nat \<Rightarrow> msg_mem \<Rightarrow> msg_mem" where
  "new_array junk a n M = M\<lparr>arrays := (arrays M)(a \<mapsto> map junk [0..<n])\<rparr>"

definition put_bytes :: "ptr \<Rightarrow> nat \<Rightarrow> u8 list \<Rightarrow> msg_mem \<Rightarrow> msg_mem option" where
  "put_bytes a off bs M = (case arrays M a of
      None \<Rightarrow> None
    | Some b \<Rightarrow> if off + length bs \<le> length b
        then Some (M\<lparr>arrays := (arrays M)(a \<mapsto> take off b @ bs @ drop (off + length bs) b)\<rparr>) else None)"

definition new_object :: "ptr \<Rightarrow> msg_obj \<Rightarrow> msg_mem \<Rightarrow> msg_mem" where
  "new_object this x M = M\<lparr>objs := (objs M)(this \<mapsto> x)\<rparr>"

definition delete_array :: "ptr \<Rightarrow> msg_mem \<Rightarrow> msg_mem option" where
  "delete_array a M = (if a = NULL then Some M else case arrays M a of
      None \<Rightarrow> None
    | Some _ \<Rightarrow> Some (M\<lparr>arrays := (arrays M)(a := None)\<rparr>))"

text \<open>The three ways in which a constructor fills an array: a copy, a copy with a terminator, \<open>strlcpy\<close>.\<close>

definition new_copy :: "(nat \<Rightarrow> u8) \<Rightarrow> ptr \<Rightarrow> nat \<Rightarrow> u8 list \<Rightarrow> msg_mem \<Rightarrow> msg_mem option" where
  "new_copy junk a n src M = do {
     d \<leftarrow> memcpy n src;
     put_bytes a 0 d (new_array junk a n M)
   }"

definition new_terminated :: "(nat \<Rightarrow> u8) \<Rightarrow> ptr \<Rightarrow> nat \<Rightarrow> u8 list \<Rightarrow> msg_mem \<Rightarrow> msg_mem option" where
  "new_terminated junk a n src M = do {
     d \<leftarrow> memcpy n src;
     M1 \<leftarrow> put_bytes a 0 d (new_array junk a (n + 1) M);
     put_bytes a n [0] M1
   }"

definition new_text :: "(nat \<Rightarrow> u8) \<Rightarrow> ptr \<Rightarrow> string option \<Rightarrow> msg_mem \<Rightarrow> (ptr \<times> msg_mem) option" where
  "new_text junk a s M = (case s of
      None \<Rightarrow> Some (NULL, M)
    | Some t \<Rightarrow> map_option (Pair a)
        (put_bytes a 0 (bytes_of (strlcpy SSID_BUF_SIZE t) @ [0]) (new_array junk a SSID_BUF_SIZE M)))"

section \<open>Constructors\<close>

definition new_loc_eng_msg_report_nmea ::
    "(nat \<Rightarrow> u8) \<Rightarrow> ptr \<Rightarrow> ptr \<Rightarrow> u8 list \<Rightarrow> nat \<Rightarrow> msg_mem \<Rightarrow> msg_mem option" where
  "new_loc_eng_msg_report_nmea junk this a data len M =
     map_option (new_object this (obj_report_nmea a len)) (new_copy junk a len data M)"

definition new_loc_eng_msg_request_bit :: "(nat \<Rightarrow> u8) \<Rightarrow> ptr \<Rightarrow> ptr \<Rightarrow> loc_if_req_type_e_type \<Rightarrow> i32 \<Rightarrow>
    u8 list option \<Rightarrow> msg_mem \<Rightarrow> msg_mem option" where
  "new_loc_eng_msg_request_bit junk this a ty ipv4 ipv6 M = (case ipv6 of
      None \<Rightarrow> Some (new_object this (obj_request_bit ty ipv4 NULL) M)
    | Some v6 \<Rightarrow> map_option (new_object this (obj_request_bit ty ipv4 a)) (new_copy junk a 16 v6 M))"

definition new_loc_eng_msg_release_bit :: "(nat \<Rightarrow> u8) \<Rightarrow> ptr \<Rightarrow> ptr \<Rightarrow> loc_if_req_type_e_type \<Rightarrow> i32 \<Rightarrow>
    u8 list option \<Rightarrow> msg_mem \<Rightarrow> msg_mem option" where
  "new_loc_eng_msg_release_bit junk this a ty ipv4 ipv6 M = (case ipv6 of
      None \<Rightarrow> Some (new_object this (obj_release_bit ty ipv4 NULL) M)
    | Some v6 \<Rightarrow> map_option (new_object this (obj_release_bit ty ipv4 a)) (new_copy junk a 16 v6 M))"

definition new_loc_eng_msg_request_wifi :: "(nat \<Rightarrow> u8) \<Rightarrow> ptr \<Rightarrow> ptr \<Rightarrow> ptr \<Rightarrow> loc_if_req_type_e_type \<Rightarrow>
    loc_if_req_sender_id_e_type \<Rightarrow> string option \<Rightarrow> string option \<Rightarrow> msg_mem \<Rightarrow> msg_mem option" where
  "new_loc_eng_msg_request_wifi junk this a b ty sender s p M = do {
     (ssid, M1) \<leftarrow> new_text junk a s M;
     (password, M2) \<leftarrow> new_text junk b p M1;
     Some (new_object this (obj_request_wifi ty sender ssid password) M2)
   }"

definition new_loc_eng_msg_release_wifi :: "(nat \<Rightarrow> u8) \<Rightarrow> ptr \<Rightarrow> ptr \<Rightarrow> ptr \<Rightarrow> loc_if_req_type_e_type \<Rightarrow>
    loc_if_req_sender_id_e_type \<Rightarrow> string option \<Rightarrow> string option \<Rightarrow> msg_mem \<Rightarrow> msg_mem option" where
  "new_loc_eng_msg_release_wifi junk this a b ty sender s p M = do {
     (ssid, M1) \<leftarrow> new_text junk a s M;
     (password, M2) \<leftarrow> new_text junk b p M1;
     Some (new_object this (obj_release_wifi ty sender ssid password) M2)
   }"

definition new_loc_eng_msg_set_apn ::
    "(nat \<Rightarrow> u8) \<Rightarrow> ptr \<Rightarrow> ptr \<Rightarrow> u8 list \<Rightarrow> nat \<Rightarrow> msg_mem \<Rightarrow> msg_mem option" where
  "new_loc_eng_msg_set_apn junk this a name len M =
     map_option (new_object this (obj_set_apn a)) (new_terminated junk a len name M)"

definition new_loc_eng_msg_set_server_url ::
    "(nat \<Rightarrow> u8) \<Rightarrow> ptr \<Rightarrow> ptr \<Rightarrow> u8 list \<Rightarrow> nat \<Rightarrow> msg_mem \<Rightarrow> msg_mem option" where
  "new_loc_eng_msg_set_server_url junk this a urlString url_len M =
     map_option (new_object this (obj_set_server_url url_len a)) (new_terminated junk a url_len urlString M)"

definition new_loc_eng_msg_inject_xtra_data ::
    "(nat \<Rightarrow> u8) \<Rightarrow> ptr \<Rightarrow> ptr \<Rightarrow> u8 list \<Rightarrow> nat \<Rightarrow> msg_mem \<Rightarrow> msg_mem option" where
  "new_loc_eng_msg_inject_xtra_data junk this a d l M =
     map_option (new_object this (obj_inject_xtra_data a l)) (new_copy junk a l d M)"

definition new_loc_eng_msg_atl_open_success :: "(nat \<Rightarrow> u8) \<Rightarrow> ptr \<Rightarrow> ptr \<Rightarrow> AGpsStatusValue \<Rightarrow> u8 list \<Rightarrow> nat \<Rightarrow>
    AGpsBearerType \<Rightarrow> msg_mem \<Rightarrow> msg_mem option" where
  "new_loc_eng_msg_atl_open_success junk this a atype name len btype M =
     map_option (new_object this (obj_atl_open_success atype len a btype)) (new_terminated junk a len name M)"

definition new_loc_eng_msg_set_data_enable ::
    "(nat \<Rightarrow> u8) \<Rightarrow> ptr \<Rightarrow> ptr \<Rightarrow> u8 list \<Rightarrow> nat \<Rightarrow> i32 \<Rightarrow> msg_mem \<Rightarrow> msg_mem option" where
  "new_loc_eng_msg_set_data_enable junk this a name len yes M =
     map_option (new_object this (obj_set_data_enable yes a len)) (new_terminated junk a len name M)"

definition new_ulp_msg_inject_raw_command ::
    "(nat \<Rightarrow> u8) \<Rightarrow> ptr \<Rightarrow> ptr \<Rightarrow> u8 list \<Rightarrow> nat \<Rightarrow> msg_mem \<Rightarrow> msg_mem option" where
  "new_ulp_msg_inject_raw_command junk this a command len M =
     map_option (new_object this (obj_inject_raw_command a len)) (new_copy junk a len command M)"

text \<open>The constructor call of a message's sender.\<close>

fun new_msg :: "(nat \<Rightarrow> u8) \<Rightarrow> ptr \<Rightarrow> ptr \<Rightarrow> ptr \<Rightarrow> loc_eng_msg \<Rightarrow> msg_mem \<Rightarrow> msg_mem option" where
  "new_msg junk this a b (loc_eng_msg_report_nmea d n) M = new_loc_eng_msg_report_nmea junk this a d n M"
| "new_msg junk this a b (loc_eng_msg_request_bit ty v4 v6) M = new_loc_eng_msg_request_bit junk this a ty v4 v6 M"
| "new_msg junk this a b (loc_eng_msg_release_bit ty v4 v6) M = new_loc_eng_msg_release_bit junk this a ty v4 v6 M"
| "new_msg junk this a b (loc_eng_msg_request_wifi ty sid s p) M = new_loc_eng_msg_request_wifi junk this a b ty sid s p M"
| "new_msg junk this a b (loc_eng_msg_release_wifi ty sid s p) M = new_loc_eng_msg_release_wifi junk this a b ty sid s p M"
| "new_msg junk this a b (loc_eng_msg_set_apn n) M = new_loc_eng_msg_set_apn junk this a (bytes_of n) (length n) M"
| "new_msg junk this a b (loc_eng_msg_set_server_url len url) M =
     new_loc_eng_msg_set_server_url junk this a (bytes_of url) len M"
| "new_msg junk this a b (loc_eng_msg_inject_xtra_data d n) M = new_loc_eng_msg_inject_xtra_data junk this a d n M"
| "new_msg junk this a b (loc_eng_msg_atl_open_success ty len n bt) M =
     new_loc_eng_msg_atl_open_success junk this a ty (bytes_of n) len bt M"
| "new_msg junk this a b (loc_eng_msg_set_data_enable y n len) M =
     new_loc_eng_msg_set_data_enable junk this a (bytes_of n) len y M"
| "new_msg junk this a b (ulp_msg_inject_raw_command c n) M = new_ulp_msg_inject_raw_command junk this a c n M"
| "new_msg junk this a b m M = Some (new_object this (obj_values m) M)"

section \<open>Destructors\<close>

definition delete_if_set :: "ptr \<Rightarrow> msg_mem \<Rightarrow> msg_mem option" where
  "delete_if_set a M = (if a \<noteq> NULL then delete_array a M else Some M)"

fun free_passThroughData :: "loc_eng_msg \<Rightarrow> msg_mem \<Rightarrow> msg_mem" where
  "free_passThroughData (loc_eng_msg_inform_ni_response r d) M =
     (if d \<noteq> NULL then M\<lparr>freed_data := freed_data M @ [d]\<rparr> else M)"
| "free_passThroughData _ M = M"

fun destructor :: "msg_obj \<Rightarrow> msg_mem \<Rightarrow> msg_mem option" where
  "destructor (obj_values m) M = Some (free_passThroughData m M)"
| "destructor (obj_report_nmea a n) M = delete_array a M"
| "destructor (obj_request_bit ty v4 a) M = delete_if_set a M"
| "destructor (obj_release_bit ty v4 a) M = delete_if_set a M"
| "destructor (obj_request_wifi ty sid a b) M = delete_if_set a M \<bind> delete_if_set b"
| "destructor (obj_release_wifi ty sid a b) M = delete_if_set a M \<bind> delete_if_set b"
| "destructor (obj_set_apn a) M = delete_array a M"
| "destructor (obj_set_server_url n a) M = delete_array a M"
| "destructor (obj_inject_xtra_data a n) M = delete_array a M"
| "destructor (obj_atl_open_success ty n a bt) M = delete_array a M"
| "destructor (obj_set_data_enable y a n) M = delete_array a M"
| "destructor (obj_inject_raw_command a n) M = delete_array a M"

text \<open>\<open>delete\<close> through the base class, whose destructor is virtual; the queue's callback does the same.\<close>

definition loc_eng_free_msg :: "ptr \<Rightarrow> msg_mem \<Rightarrow> msg_mem option" where
  "loc_eng_free_msg this M = (case objs M this of
      None \<Rightarrow> None
    | Some x \<Rightarrow> map_option (\<lambda>M1. M1\<lparr>objs := (objs M1)(this := None)\<rparr>) (destructor x M))"

end
