(* ===== verification/Loc_Msg_Mem_Correct.thy ===== *)
theory Loc_Msg_Mem_Correct
  imports Loc_Msg_Mem
begin

text \<open>
  The objects in memory against the messages as values: a constructor makes an object that reads as
  the message it was called for, and the destructor frees what the constructor allocated. \<open>msgs_held\<close>
  says that the memory holds the given messages and nothing else.
\<close>

section \<open>The message that an object holds\<close>

definition read_text :: "(ptr \<rightharpoonup> u8 list) \<Rightarrow> ptr \<Rightarrow> string option option" where
  "read_text h a = (if a = NULL then Some None else map_option (\<lambda>b. Some (text_of b)) (h a))"

definition read_bytes :: "(ptr \<rightharpoonup> u8 list) \<Rightarrow> ptr \<Rightarrow> u8 list option option" where
  "read_bytes h a = (if a = NULL then Some None else map_option Some (h a))"

fun read_obj :: "(ptr \<rightharpoonup> u8 list) \<Rightarrow> msg_obj \<Rightarrow> loc_eng_msg option" where
  "read_obj h (obj_values m) = Some m"
| "read_obj h (obj_report_nmea a n) = map_option (\<lambda>b. loc_eng_msg_report_nmea b n) (h a)"
| "read_obj h (obj_request_bit ty v4 a) = map_option (loc_eng_msg_request_bit ty v4) (read_bytes h a)"
| "read_obj h (obj_release_bit ty v4 a) = map_option (loc_eng_msg_release_bit ty v4) (read_bytes h a)"
| "read_obj h (obj_request_wifi ty sid a b) = do {
     s \<leftarrow> read_text h a; p \<leftarrow> read_text h b; Some (loc_eng_msg_request_wifi ty sid s p) }"
| "read_obj h (obj_release_wifi ty sid a b) = do {
     s \<leftarrow> read_text h a; p \<leftarrow> read_text h b; Some (loc_eng_msg_release_wifi ty sid s p) }"
| "read_obj h (obj_set_apn a) = map_option (\<lambda>b. loc_eng_msg_set_apn (text_of b)) (h a)"
| "read_obj h (obj_set_server_url n a) = map_option (\<lambda>b. loc_eng_msg_set_server_url n (text_of b)) (h a)"
| "read_obj h (obj_inject_xtra_data a n) = map_option (\<lambda>b. loc_eng_msg_inject_xtra_data b n) (h a)"
| "read_obj h (obj_atl_open_success ty n a bt) =
     map_option (\<lambda>b. loc_eng_msg_atl_open_success ty n (text_of b) bt) (h a)"
| "read_obj h (obj_set_data_enable y a n) = map_option (\<lambda>b. loc_eng_msg_set_data_enable y (text_of b) n) (h a)"
| "read_obj h (obj_inject_raw_command a n) = map_option (\<lambda>b. ulp_msg_inject_raw_command b n) (h a)"

definition non_null :: "ptr list \<Rightarrow> ptr list" where
  "non_null as = filter (\<lambda>a. a \<noteq> NULL) as"

lemma non_null_simps [simp]: "non_null [] = []" "non_null (0 # as) = non_null as"
    "a \<noteq> NULL \<Longrightarrow> non_null (a # as) = a # non_null as"
  by (simp_all add: non_null_def)

lemma set_non_null [simp]: "set (non_null as) = set as - {NULL}"
  by (auto simp: non_null_def)

fun fields_of :: "msg_obj \<Rightarrow> ptr list" where
  "fields_of (obj_values m) = []"
| "fields_of (obj_report_nmea a n) = [a]"
| "fields_of (obj_request_bit ty v4 a) = [a]"
| "fields_of (obj_release_bit ty v4 a) = [a]"
| "fields_of (obj_request_wifi ty sid a b) = [a, b]"
| "fields_of (obj_release_wifi ty sid a b) = [a, b]"
| "fields_of (obj_set_apn a) = [a]"
| "fields_of (obj_set_server_url n a) = [a]"
| "fields_of (obj_inject_xtra_data a n) = [a]"
| "fields_of (obj_atl_open_success ty n a bt) = [a]"
| "fields_of (obj_set_data_enable y a n) = [a]"
| "fields_of (obj_inject_raw_command a n) = [a]"

text \<open>The arrays that an object msgs_held.\<close>

definition arrays_of :: "msg_obj \<Rightarrow> ptr list" where
  "arrays_of x = non_null (fields_of x)"

lemma read_obj_frame:
  assumes "\<And>a. a \<in> set (fields_of x) \<Longrightarrow> h a = h' a"
  shows "read_obj h x = read_obj h' x"
  using assms by (cases x) (simp_all add: read_text_def read_bytes_def)

text \<open>The messages that the senders build: lengths agree with the data, texts have no \<open>NUL\<close>.\<close>

abbreviation text_ok :: "string \<Rightarrow> bool" where
  "text_ok s \<equiv> CHR 0x00 \<notin> set s"

fun msg_fits :: "loc_eng_msg \<Rightarrow> bool" where
  "msg_fits (loc_eng_msg_report_nmea d n) = (length d = n)"
| "msg_fits (loc_eng_msg_request_bit ty v4 v6) = pred_option (\<lambda>b. length b = 16) v6"
| "msg_fits (loc_eng_msg_release_bit ty v4 v6) = pred_option (\<lambda>b. length b = 16) v6"
| "msg_fits (loc_eng_msg_request_wifi ty sid s p) =
     (pred_option (\<lambda>t. text_ok t \<and> length t < SSID_BUF_SIZE) s \<and> pred_option (\<lambda>t. text_ok t \<and> length t < SSID_BUF_SIZE) p)"
| "msg_fits (loc_eng_msg_release_wifi ty sid s p) =
     (pred_option (\<lambda>t. text_ok t \<and> length t < SSID_BUF_SIZE) s \<and> pred_option (\<lambda>t. text_ok t \<and> length t < SSID_BUF_SIZE) p)"
| "msg_fits (loc_eng_msg_set_apn n) = text_ok n"
| "msg_fits (loc_eng_msg_set_server_url len url) = (text_ok url \<and> length url = len)"
| "msg_fits (loc_eng_msg_inject_xtra_data d n) = (length d = n)"
| "msg_fits (loc_eng_msg_atl_open_success ty len n bt) = (text_ok n \<and> length n = len)"
| "msg_fits (loc_eng_msg_set_data_enable y n len) = (text_ok n \<and> length n = len)"
| "msg_fits (ulp_msg_inject_raw_command c n) = (length c = n)"
| "msg_fits _ = True"

section \<open>Constructors\<close>

lemma new_copy_eq: "n \<le> length src \<Longrightarrow>
    new_copy junk a n src M = Some (M\<lparr>arrays := (arrays M)(a \<mapsto> take n src)\<rparr>)"
  by (simp add: new_copy_def memcpy_def put_bytes_def new_array_def)

lemma new_terminated_eq: "n \<le> length src \<Longrightarrow>
    new_terminated junk a n src M = Some (M\<lparr>arrays := (arrays M)(a \<mapsto> take n src @ [0])\<rparr>)"
  by (simp add: new_terminated_def memcpy_def put_bytes_def new_array_def)

lemma new_text_Some: "text_ok t \<Longrightarrow> length t < SSID_BUF_SIZE \<Longrightarrow>
    \<exists>r. new_text junk a (Some t) M = Some (a, M\<lparr>arrays := (arrays M)(a \<mapsto> bytes_of t @ 0 # r)\<rparr>)"
  by (simp add: new_text_def put_bytes_def new_array_def strlcpy_fits) (rule exI, rule refl)

lemma new_text_reads:
  assumes "pred_option (\<lambda>t. text_ok t \<and> length t < SSID_BUF_SIZE) s" "a \<noteq> NULL"
  obtains c h where "new_text junk a s M = Some (c, M\<lparr>arrays := h\<rparr>)" "read_text h c = Some s"
    "c \<in> {a, NULL}" "\<forall>x. x \<noteq> c \<longrightarrow> h x = arrays M x" "c \<noteq> NULL \<longrightarrow> h c \<noteq> None" "h NULL = arrays M NULL"
proof (cases s)
  case None
  then show thesis by (intro that [of NULL "arrays M"]) (simp_all add: new_text_def read_text_def)
next
  case (Some t)
  with assms(1) new_text_Some [of t junk a M] obtain r where
    "new_text junk a s M = Some (a, M\<lparr>arrays := (arrays M)(a \<mapsto> bytes_of t @ 0 # r)\<rparr>)" by auto
  with Some assms show thesis
    by (intro that [of a "(arrays M)(a \<mapsto> bytes_of t @ 0 # r)"]) (auto simp: read_text_def text_of_bytes_of)
qed

text \<open>What is known of a constructor's result.\<close>

definition built :: "ptr \<Rightarrow> ptr set \<Rightarrow> loc_eng_msg \<Rightarrow> msg_mem \<Rightarrow> msg_mem \<Rightarrow> bool" where
  "built this A m M M' \<longleftrightarrow> (\<exists>x. objs M' = (objs M)(this \<mapsto> x) \<and> read_obj (arrays M') x = Some m
     \<and> set (arrays_of x) \<subseteq> A \<and> distinct (arrays_of x) \<and> freed_data M' = freed_data M
     \<and> dom (arrays M') = dom (arrays M) \<union> set (arrays_of x)
     \<and> (\<forall>a. a \<notin> set (arrays_of x) \<longrightarrow> arrays M' a = arrays M a))"

lemma built_values: "built this A m M (new_object this (obj_values m) M)"
  by (auto simp: built_def new_object_def arrays_of_def)

lemma built_one:
  assumes "a \<noteq> NULL" "a \<in> A" "read_obj ((arrays M)(a \<mapsto> b)) x = Some m" "arrays_of x = [a]"
  shows "built this A m M (new_object this x (M\<lparr>arrays := (arrays M)(a \<mapsto> b)\<rparr>))"
  using assms by (auto simp: built_def new_object_def)

lemma wifi_built:
  assumes "pred_option (\<lambda>t. text_ok t \<and> length t < SSID_BUF_SIZE) s"
    "pred_option (\<lambda>t. text_ok t \<and> length t < SSID_BUF_SIZE) p" "a \<noteq> NULL" "b \<noteq> NULL" "a \<noteq> b"
    and read: "\<And>h c d. read_obj h (f c d) = do { s \<leftarrow> read_text h c; p \<leftarrow> read_text h d; Some (g s p) }"
    and fields: "\<And>c d. fields_of (f c d) = [c, d]"
  shows "\<exists>M'. do { (c, M1) \<leftarrow> new_text junk a s M; (d, M2) \<leftarrow> new_text junk b p M1;
        Some (new_object this (f c d) M2) } = Some M' \<and> built this {a, b} (g s p) M M'"
proof -
  from new_text_reads [OF assms(1,3), of junk M] obtain c h where
    1: "new_text junk a s M = Some (c, M\<lparr>arrays := h\<rparr>)" "read_text h c = Some s" "c \<in> {a, NULL}"
      "\<forall>x. x \<noteq> c \<longrightarrow> h x = arrays M x" "c \<noteq> NULL \<longrightarrow> h c \<noteq> None" "h NULL = arrays M NULL" by blast
  from new_text_reads [OF assms(2,4), of junk "M\<lparr>arrays := h\<rparr>"] obtain d h2 where
    2: "new_text junk b p (M\<lparr>arrays := h\<rparr>) = Some (d, M\<lparr>arrays := h2\<rparr>)" "read_text h2 d = Some p" "d \<in> {b, NULL}"
      "\<forall>x. x \<noteq> d \<longrightarrow> h2 x = h x" "d \<noteq> NULL \<longrightarrow> h2 d \<noteq> None" "h2 NULL = h NULL" by auto
  have "read_text h2 c = read_text h c" using 1(3) 2(3,4) assms(3,5) by (auto simp: read_text_def)
  with 1(2) 2(2) have rd: "read_obj h2 (f c d) = Some (g s p)" by (simp add: read)
  have ar: "arrays_of (f c d) = non_null [c, d]" by (simp add: arrays_of_def fields)
  have keep: "\<forall>x. x \<notin> {c, d} - {NULL} \<longrightarrow> h2 x = arrays M x"
  proof (intro allI impI)
    fix x assume "x \<notin> {c, d} - {NULL}"
    then show "h2 x = arrays M x" using 1(4,6) 2(4,6) by (cases "x = NULL") auto
  qed
  have some: "h2 x \<noteq> None" if "x \<in> {c, d} - {NULL}" for x
  proof (cases "x = d")
    case False
    with that have "x = c" "c \<noteq> NULL" by auto
    with False 1(5) 2(4) show ?thesis by auto
  qed (use that 2(5) in auto)
  have dm: "dom h2 = dom (arrays M) \<union> ({c, d} - {NULL})"
  proof (rule set_eqI)
    fix x show "x \<in> dom h2 \<longleftrightarrow> x \<in> dom (arrays M) \<union> ({c, d} - {NULL})"
    proof (cases "x \<in> {c, d} - {NULL}")
      case False
      then show ?thesis using keep by (auto simp: dom_def)
    qed (use some in auto)
  qed
  have dist: "distinct (non_null [c, d])" using 1(3) 2(3) assms(5) by (auto simp: non_null_def)
  have sub: "{c, d} - {NULL} \<subseteq> {a, b}" using 1(3) 2(3) by auto
  have st: "set (non_null [c, d]) = {c, d} - {NULL}" by simp
  have "built this {a, b} (g s p) M (new_object this (f c d) (M\<lparr>arrays := h2\<rparr>))"
    unfolding built_def new_object_def
    by (rule exI [of _ "f c d"]) (use rd ar st keep dm dist sub in simp)
  with 1(1) 2(1) show ?thesis by simp
qed

theorem new_msg_built:
  assumes "msg_fits m" "a \<noteq> NULL" "b \<noteq> NULL" "a \<noteq> b"
  shows "\<exists>M'. new_msg junk this a b m M = Some M' \<and> built this {a, b} m M M'"
proof (cases m)
  case (loc_eng_msg_request_wifi ty sid s p)
  with wifi_built [of s p a b "obj_request_wifi ty sid" "loc_eng_msg_request_wifi ty sid" junk M this] assms
  show ?thesis by (simp add: new_loc_eng_msg_request_wifi_def)
next
  case (loc_eng_msg_release_wifi ty sid s p)
  with wifi_built [of s p a b "obj_release_wifi ty sid" "loc_eng_msg_release_wifi ty sid" junk M this] assms
  show ?thesis by (simp add: new_loc_eng_msg_release_wifi_def)
next
  case (loc_eng_msg_request_bit ty v4 v6)
  then show ?thesis using assms
    by (cases v6) (auto simp: new_loc_eng_msg_request_bit_def new_copy_eq built_def new_object_def arrays_of_def read_bytes_def)
next
  case (loc_eng_msg_release_bit ty v4 v6)
  then show ?thesis using assms
    by (cases v6) (auto simp: new_loc_eng_msg_release_bit_def new_copy_eq built_def new_object_def arrays_of_def read_bytes_def)
qed (use assms in \<open>auto simp: new_loc_eng_msg_report_nmea_def new_loc_eng_msg_set_apn_def
      new_loc_eng_msg_set_server_url_def new_loc_eng_msg_inject_xtra_data_def new_loc_eng_msg_atl_open_success_def
      new_loc_eng_msg_set_data_enable_def new_ulp_msg_inject_raw_command_def new_copy_eq new_terminated_eq
      arrays_of_def text_of_bytes_of intro!: built_one built_values\<close>)

section \<open>Destructors\<close>

definition free_arrays :: "ptr set \<Rightarrow> msg_mem \<Rightarrow> msg_mem" where
  "free_arrays A M = M\<lparr>arrays := arrays M |` (- A)\<rparr>"

lemma free_arrays_empty [simp]: "free_arrays {} M = M"
  by (cases M) (simp add: free_arrays_def restrict_map_def)

lemma delete_array_eq: "a \<noteq> NULL \<Longrightarrow> a \<in> dom (arrays M) \<Longrightarrow> delete_array a M = Some (free_arrays {a} M)"
  by (auto simp: delete_array_def free_arrays_def fun_eq_iff restrict_map_def)

lemma delete_if_set_eq: "set (non_null [a]) \<subseteq> dom (arrays M) \<Longrightarrow>
    delete_if_set a M = Some (free_arrays (set (non_null [a])) M)"
  by (cases "a = NULL") (auto simp: delete_if_set_def delete_array_eq)

lemma delete_two:
  assumes "set (non_null [a, b]) \<subseteq> dom (arrays M)" "distinct (non_null [a, b])"
  shows "delete_if_set a M \<bind> delete_if_set b = Some (free_arrays (set (non_null [a, b])) M)"
proof -
  have "delete_if_set a M = Some (free_arrays (set (non_null [a])) M)"
    using assms(1) by (intro delete_if_set_eq) auto
  moreover have "delete_if_set b (free_arrays (set (non_null [a])) M)
      = Some (free_arrays (set (non_null [b])) (free_arrays (set (non_null [a])) M))"
    using assms by (intro delete_if_set_eq) (auto simp: free_arrays_def non_null_def split: if_splits)
  moreover have "free_arrays (set (non_null [b])) (free_arrays (set (non_null [a])) M) = free_arrays (set (non_null [a, b])) M"
    by (auto simp: free_arrays_def restrict_map_def fun_eq_iff)
  ultimately show ?thesis by simp
qed

lemma destructor_frees:
  assumes "set (arrays_of x) \<subseteq> dom (arrays M)" "distinct (arrays_of x)" "read_obj (arrays M) x = Some m" "NULL \<notin> dom (arrays M)"
  shows "destructor x M = Some (free_passThroughData m (free_arrays (set (arrays_of x)) M))"
proof -
  have null: "arrays M NULL = None" using assms(4) by auto
  show ?thesis using assms(1-3)
    by (cases x) (auto simp: arrays_of_def delete_if_set_eq delete_two null non_null_def bind_eq_Some_conv
        intro!: delete_array_eq split: if_splits)
qed

section \<open>Ownership\<close>

text \<open>The objects at \<open>ps\<close> hold the messages \<open>ms\<close>, share nothing, and nothing else is allocated.\<close>

definition obj_at :: "msg_mem \<Rightarrow> ptr \<Rightarrow> msg_obj" where
  "obj_at M p = the (objs M p)"

definition arrays_at :: "msg_mem \<Rightarrow> ptr list \<Rightarrow> ptr list" where
  "arrays_at M ps = concat (map (\<lambda>p. arrays_of (obj_at M p)) ps)"

definition msgs_held :: "msg_mem \<Rightarrow> ptr list \<Rightarrow> loc_eng_msg list \<Rightarrow> bool" where
  "msgs_held M ps ms \<longleftrightarrow> distinct ps \<and> dom (objs M) = set ps \<and> distinct (arrays_at M ps)
     \<and> dom (arrays M) = set (arrays_at M ps)
     \<and> map (\<lambda>p. read_obj (arrays M) (obj_at M p)) ps = map Some ms"

lemma arrays_at_simps [simp]:
  "arrays_at M [] = []" "arrays_at M (p # ps) = arrays_of (obj_at M p) @ arrays_at M ps"
  "arrays_at M (ps @ qs) = arrays_at M ps @ arrays_at M qs"
  by (simp_all add: arrays_at_def)

lemma arrays_at_cong: "(\<And>p. p \<in> set ps \<Longrightarrow> objs M p = objs M' p) \<Longrightarrow> arrays_at M ps = arrays_at M' ps"
  by (auto simp: arrays_at_def obj_at_def intro: arg_cong [where f = concat])

lemma arrays_at_not_null: "NULL \<notin> set (arrays_at M ps)"
  by (auto simp: arrays_at_def arrays_of_def)

lemma msgs_held_nothing: "msgs_held M [] [] \<longleftrightarrow> objs M = Map.empty \<and> arrays M = Map.empty"
  by (auto simp: msgs_held_def)

lemma read_keep:
  assumes "map (\<lambda>p. read_obj (arrays M) (obj_at M p)) ps = map Some ms" "\<And>p. p \<in> set ps \<Longrightarrow> objs M' p = objs M p"
    "\<And>a. a \<in> set (arrays_at M ps) \<union> {NULL} \<Longrightarrow> arrays M' a = arrays M a"
  shows "map (\<lambda>p. read_obj (arrays M') (obj_at M' p)) ps = map Some ms"
proof -
  have "read_obj (arrays M') (obj_at M' p) = read_obj (arrays M) (obj_at M p)" if p: "p \<in> set ps" for p
  proof -
    have x: "obj_at M' p = obj_at M p" using assms(2) [OF p] by (simp add: obj_at_def)
    show ?thesis unfolding x
    proof (rule read_obj_frame)
      fix a assume "a \<in> set (fields_of (obj_at M p))"
      then have "a \<in> set (arrays_at M ps) \<union> {NULL}" using p by (auto simp: arrays_at_def arrays_of_def)
      then show "arrays M' a = arrays M a" by (rule assms(3))
    qed
  qed
  then have "map (\<lambda>p. read_obj (arrays M') (obj_at M' p)) ps = map (\<lambda>p. read_obj (arrays M) (obj_at M p)) ps" by simp
  with assms(1) show ?thesis by simp
qed

lemma msgs_held_null: "msgs_held M ps ms \<Longrightarrow> arrays M NULL = None"
  using arrays_at_not_null [of M ps] by (auto simp: msgs_held_def)

lemma msgs_held_new:
  assumes own: "msgs_held M ps ms" and new: "built this A m M M'" "this \<notin> dom (objs M)" "A \<inter> dom (arrays M) = {}"
  shows "msgs_held M' (ps @ [this]) (ms @ [m])"
proof -
  from new(1) obtain x where x: "objs M' = (objs M)(this \<mapsto> x)" "read_obj (arrays M') x = Some m"
      "set (arrays_of x) \<subseteq> A" "distinct (arrays_of x)" "dom (arrays M') = dom (arrays M) \<union> set (arrays_of x)"
      "\<forall>a. a \<notin> set (arrays_of x) \<longrightarrow> arrays M' a = arrays M a"
    by (auto simp: built_def)
  have unused: "this \<notin> set ps" using own new(2) by (auto simp: msgs_held_def)
  have obs: "objs M' p = objs M p" if "p \<in> set ps" for p using that unused x(1) by auto
  have at: "arrays_at M' ps = arrays_at M ps" using obs by (rule arrays_at_cong)
  have obj: "obj_at M' this = x" using x(1) by (simp add: obj_at_def)
  have apart: "set (arrays_at M ps) \<inter> set (arrays_of x) = {}" using own x(3) new(3) by (auto simp: msgs_held_def)
  have keep: "arrays M' a = arrays M a" if "a \<in> set (arrays_at M ps) \<union> {NULL}" for a
    using that apart x(6) by (auto simp: arrays_of_def)
  have "map (\<lambda>p. read_obj (arrays M) (obj_at M p)) ps = map Some ms" using own by (simp add: msgs_held_def)
  note old = read_keep [OF this obs keep]
  have dm: "dom (objs M) = set ps" "dom (arrays M) = set (arrays_at M ps)" "distinct ps" "distinct (arrays_at M ps)"
    using own by (simp_all add: msgs_held_def)
  show ?thesis
    using old unused x(1,2,4,5) dm apart by (simp add: msgs_held_def at obj)
qed

lemma msgs_held_delete:
  assumes own: "msgs_held M (p # ps) (m # ms)"
  shows "\<exists>M'. loc_eng_free_msg p M = Some M' \<and> msgs_held M' ps ms \<and> freed_data M' = freed_data (free_passThroughData m M)"
proof -
  let ?x = "obj_at M p"
  have x: "objs M p = Some ?x" "read_obj (arrays M) ?x = Some m" "distinct (arrays_of ?x)"
      "set (arrays_of ?x) \<subseteq> dom (arrays M)"
  proof -
    have "p \<in> dom (objs M)" using own by (simp add: msgs_held_def)
    then show "objs M p = Some ?x" by (auto simp: obj_at_def)
  qed (use own in \<open>auto simp: msgs_held_def\<close>)
  let ?M1 = "free_passThroughData m (free_arrays (set (arrays_of ?x)) M)"
  let ?M' = "?M1\<lparr>objs := (objs ?M1)(p := None)\<rparr>"
  have pass: "arrays (free_passThroughData m N) = arrays N" "objs (free_passThroughData m N) = objs N"
      "freed_data (free_passThroughData m (free_arrays A N)) = freed_data (free_passThroughData m N)" for N A
    by (cases m; simp add: free_arrays_def)+
  have "destructor ?x M = Some ?M1"
    using destructor_frees [OF x(4,3,2)] msgs_held_null [OF own] by auto
  with x(1) have free: "loc_eng_free_msg p M = Some ?M'" by (simp add: loc_eng_free_msg_def)
  have p: "p \<notin> set ps" and dm: "dom (objs M) = insert p (set ps)" "dom (arrays M) = set (arrays_of ?x) \<union> set (arrays_at M ps)"
    "distinct ps" "distinct (arrays_at M ps)" "set (arrays_of ?x) \<inter> set (arrays_at M ps) = {}"
    using own by (auto simp: msgs_held_def)
  have obs: "objs ?M' q = objs M q" if "q \<in> set ps" for q
    using that p by (auto simp: pass free_arrays_def)
  have at: "arrays_at ?M' ps = arrays_at M ps" using obs by (rule arrays_at_cong)
  have keep: "arrays ?M' a = arrays M a" if "a \<in> set (arrays_at M ps) \<union> {NULL}" for a
    using that dm(5) msgs_held_null [OF own] by (auto simp: pass free_arrays_def restrict_map_def)
  have "map (\<lambda>q. read_obj (arrays M) (obj_at M q)) ps = map Some ms" using own by (simp add: msgs_held_def)
  from read_keep [OF this obs keep]
  have "map (\<lambda>q. read_obj (arrays ?M') (obj_at ?M' q)) ps = map Some ms" .
  moreover have "dom (objs ?M') = set ps" using dm(1) p by (auto simp: pass free_arrays_def)
  moreover have "dom (arrays ?M') = set (arrays_at M ps)" using dm(2,5) by (auto simp: pass free_arrays_def)
  ultimately have "msgs_held ?M' ps ms" unfolding msgs_held_def at using dm(3,4) by simp
  with free show ?thesis by (auto simp: pass)
qed

section \<open>One message\<close>

lemma free_restores:
  assumes "built this A m M M'" "this \<notin> dom (objs M)" "A \<inter> dom (arrays M) = {}" "NULL \<notin> A" "NULL \<notin> dom (arrays M)"
  shows "loc_eng_free_msg this M' = Some (free_passThroughData m M)"
proof -
  from assms(1) obtain x where x: "objs M' = (objs M)(this \<mapsto> x)" "read_obj (arrays M') x = Some m"
      "set (arrays_of x) \<subseteq> A" "distinct (arrays_of x)" "dom (arrays M') = dom (arrays M) \<union> set (arrays_of x)"
      "\<forall>a. a \<notin> set (arrays_of x) \<longrightarrow> arrays M' a = arrays M a" "freed_data M' = freed_data M"
    by (auto simp: built_def)
  have "NULL \<notin> dom (arrays M')" using assms(4,5) x(3,5) by auto
  with x have d: "destructor x M' = Some (free_passThroughData m (free_arrays (set (arrays_of x)) M'))"
    by (intro destructor_frees) auto
  have "arrays M c = None" if "c \<in> set (arrays_of x)" for c
    using that assms(3) x(3) by (meson disjoint_iff domIff subsetD)
  then have "arrays M' |` (- set (arrays_of x)) = arrays M"
    using x(6) by (auto simp: restrict_map_def fun_eq_iff)
  moreover have "(objs M')(this := None) = objs M" using assms(2) x(1) by (simp add: domIff fun_upd_idem)
  ultimately have "(free_passThroughData m (free_arrays (set (arrays_of x)) M'))\<lparr>objs := (objs M')(this := None)\<rparr>
      = free_passThroughData m M"
    using x(7) by (cases m; simp add: free_arrays_def)
  moreover have "objs (free_passThroughData m (free_arrays (set (arrays_of x)) M')) = objs M'"
    by (cases m; simp add: free_arrays_def)
  ultimately show ?thesis using d x(1) by (simp add: loc_eng_free_msg_def)
qed


definition no_memory :: msg_mem where
  "no_memory = \<lparr>objs = Map.empty, arrays = Map.empty, freed_data = []\<rparr>"


text \<open>A length beyond the caller's buffer makes the constructor read past its end.\<close>

lemma constructors_overread:
  assumes "length src < n"
  shows "new_loc_eng_msg_report_nmea junk this a src n M = None"
    "new_loc_eng_msg_inject_xtra_data junk this a src n M = None"
    "new_ulp_msg_inject_raw_command junk this a src n M = None"
    "new_loc_eng_msg_set_data_enable junk this a src n y M = None"
  using assms by (simp_all add: new_loc_eng_msg_report_nmea_def new_loc_eng_msg_inject_xtra_data_def
      new_ulp_msg_inject_raw_command_def new_loc_eng_msg_set_data_enable_def new_copy_def new_terminated_def memcpy_def)

text \<open>A message that is deleted twice, or never allocated.\<close>

lemma double_delete: "loc_eng_free_msg this M = Some M' \<Longrightarrow> loc_eng_free_msg this M' = None"
  by (auto simp: loc_eng_free_msg_def split: option.splits)

end
