(* ===== verification/Loc_Eng_Frame.thy ===== *)
theory Loc_Eng_Frame
  imports Loc_Eng_Inv Loc_Msg_Mem_Correct
begin

text \<open>
  The deferred thread and its queue are independent: what a message's handling does is the same
  whatever else is queued, the messages that it sends go to the end of the queue, and each of them
  is one whose constructor is safe. So the queue can be taken out of the engine and kept in memory.
\<close>

section \<open>Putting messages in front\<close>

definition queue_first :: "loc_eng_msg list \<Rightarrow> engine \<Rightarrow> engine" where
  "queue_first q e = e\<lparr>me := map_option (\<lambda>c. c\<lparr>deferred_q := q @ deferred_q c\<rparr>) (me e)\<rparr>"

named_theorems frame_simps \<open>operations on an engine with messages put in front\<close>

lemma queue_first_fields [simp]:
  "loc_eng_data.truncate (queue_first q e) = loc_eng_data.truncate e"
  "client_handle (queue_first q e) = client_handle e" "eng_context (queue_first q e) = eng_context e"
  "agps_status_cb (queue_first q e) = agps_status_cb e" "eng_out (queue_first q e) = eng_out e"
  "mute_session_state (queue_first q e) = mute_session_state e" "status_cb (queue_first q e) = status_cb e"
  "location_cb (queue_first q e) = location_cb e" "sv_status_cb (queue_first q e) = sv_status_cb e"
  "nmea_cb (queue_first q e) = nmea_cb e" "ni_notify_cb (queue_first q e) = ni_notify_cb e"
  "loc_eng_ni (queue_first q e) = loc_eng_ni e" "intermediateFix (queue_first q e) = intermediateFix e"
  "agps_request_pending (queue_first q e) = agps_request_pending e" "stop_request_pending (queue_first q e) = stop_request_pending e"
  "download_request_cb (queue_first q e) = download_request_cb e" "engine_status (queue_first q e) = engine_status e"
  "aiding_data_for_deletion (queue_first q e) = aiding_data_for_deletion e"
  "ulp_network_callback (queue_first q e) = ulp_network_callback e"
  "ulp_phone_context_req_cb (queue_first q e) = ulp_phone_context_req_cb e"
  "supl_host_set (queue_first q e) = supl_host_set e" "supl_host_buf (queue_first q e) = supl_host_buf e"
  "supl_port_buf (queue_first q e) = supl_port_buf e" "c2k_host_set (queue_first q e) = c2k_host_set e"
  "c2k_host_buf (queue_first q e) = c2k_host_buf e" "c2k_port_buf (queue_first q e) = c2k_port_buf e"
  "get_nif k (queue_first q e) = get_nif k e"
  by (simp_all add: queue_first_def loc_eng_data.defs) (cases k; simp)

lemma queue_first_updates [simp]:
  "(queue_first q e)\<lparr>eng_out := x1\<rparr> = queue_first q (e\<lparr>eng_out := x1\<rparr>)"
  "(queue_first q e)\<lparr>client_handle := x2\<rparr> = queue_first q (e\<lparr>client_handle := x2\<rparr>)"
  "(queue_first q e)\<lparr>mute_session_state := x3\<rparr> = queue_first q (e\<lparr>mute_session_state := x3\<rparr>)"
  "(queue_first q e)\<lparr>engine_status := x4\<rparr> = queue_first q (e\<lparr>engine_status := x4\<rparr>)"
  "(queue_first q e)\<lparr>fix_session_status := x5\<rparr> = queue_first q (e\<lparr>fix_session_status := x5\<rparr>)"
  "(queue_first q e)\<lparr>loc_eng_ni := x6\<rparr> = queue_first q (e\<lparr>loc_eng_ni := x6\<rparr>)"
  "(queue_first q e)\<lparr>aiding_data_for_deletion := x7\<rparr> = queue_first q (e\<lparr>aiding_data_for_deletion := x7\<rparr>)"
  "(queue_first q e)\<lparr>stop_request_pending := x8\<rparr> = queue_first q (e\<lparr>stop_request_pending := x8\<rparr>)"
  "(queue_first q e)\<lparr>agps_request_pending := x9\<rparr> = queue_first q (e\<lparr>agps_request_pending := x9\<rparr>)"
  "put_nif k m (queue_first q e) = queue_first q (put_nif k m e)"
  by (simp_all add: queue_first_def) (cases k; simp)

lemma queue_first_emit [simp]: "emit ev (queue_first q e) = queue_first q (emit ev e)"
  "emit_if b ev (queue_first q e) = queue_first q (emit_if b ev e)"
  by (simp_all add: emit_def emit_if_def)

lemma queue_first_queue_first: "queue_first p (queue_first q e) = queue_first (p @ q) e"
  by (cases "me e") (simp_all add: queue_first_def)

lemma queued_first [simp]: "me e \<noteq> None \<Longrightarrow> queued (queue_first q e) = q @ queued e"
  by (auto simp: queued_def queue_first_def)

lemma frame_option [frame_simps]:
  "map_option f (x \<bind> g) = x \<bind> (\<lambda>z. map_option f (g z))"
  "map_option h x \<bind> g' = x \<bind> (\<lambda>z. g' (h z))"
  "map_option f (map_option h' y) = map_option (\<lambda>z. f (h' z)) y"
  by (cases x; simp)+ (cases y; simp)

lemma frame_if [frame_simps]: "map_option f (if b then x else y) = (if b then map_option f x else map_option f y)"
  "(if b then queue_first q e else queue_first q e') = queue_first q (if b then e else e')"
  by simp_all

lemma bind_if: "Option.bind (if b then x else y) f = (if b then Option.bind x f else Option.bind y f)"
  by simp

lemma frame_pair [frame_simps]: "apsnd f (r, z) = (r, f z)" "(case apsnd f p of (r, z) \<Rightarrow> F r z) = F (fst p) (f (snd p))"
  "(case p of (r, z) \<Rightarrow> F r z) = F (fst p) (snd p)"
  by (simp_all add: case_prod_beta)

section \<open>Every operation of the deferred thread\<close>

abbreviation qf :: "loc_eng_msg list \<Rightarrow> engine option \<Rightarrow> engine option" where
  "qf q \<equiv> map_option (queue_first q)"

abbreviation qf_r :: "loc_eng_msg list \<Rightarrow> ('r \<times> engine) option \<Rightarrow> ('r \<times> engine) option" where
  "qf_r q \<equiv> map_option (apsnd (queue_first q))"

lemma snd_deferred_first [frame_simps]: "snd_deferred m (queue_first q e) = qf q (snd_deferred m e)"
  by (cases "me e") (simp_all add: snd_deferred_def queue_first_def)

lemma snd_all_first [frame_simps]: "snd_all ms (queue_first q e) = qf q (snd_all ms e)"
  by (induction ms arbitrary: e) (simp_all add: frame_simps)

lemma call_api_first [frame_simps]: "call_api a (queue_first q e) = qf q (call_api a e)"
  by (simp add: call_api_def)

lemma isInSession_first [frame_simps]: "isInSession (queue_first q e) = isInSession e"
  by (simp add: isInSession_def)

lemma setInSession_first [frame_simps]: "setInSession b (queue_first q e) = qf q (setInSession b e)"
  by (simp add: setInSession_def frame_simps)

lemma set_position_mode_api_first [frame_simps]:
  "set_position_mode_api env p (queue_first q e) = qf q (set_position_mode_api env p e)"
  by (simp add: set_position_mode_api_def frame_simps)

lemma inform_first [frame_simps]: "loc_inform_gps_status st (queue_first q e) = queue_first q (loc_inform_gps_status st e)"
  by (simp add: loc_inform_gps_status_def)

lemma start_handler_first [frame_simps]:
  "loc_eng_start_handler env (queue_first q e) = qf_r q (loc_eng_start_handler env e)"
  by (simp add: loc_eng_start_handler_def frame_simps cong: if_cong)

lemma stop_handler_first [frame_simps]:
  "loc_eng_stop_handler env (queue_first q e) = qf_r q (loc_eng_stop_handler env e)"
  by (simp add: loc_eng_stop_handler_def frame_simps cong: if_cong)

lemma report_status_first [frame_simps]:
  "loc_eng_report_status st (queue_first q e) = qf q (loc_eng_report_status st e)"
  by (simp add: loc_eng_report_status_def Let_def frame_simps cong: if_cong)

lemma run_nif_first [frame_simps]: "run_nif k f (queue_first q e) = qf_r q (run_nif k f e)"
  by (cases "get_nif k e") (simp_all add: run_nif_def Let_def split: prod.split)

lemma on_nif_first [frame_simps]: "on_nif k f (queue_first q e) = qf q (on_nif k f e)"
  by (simp add: on_nif_def frame_simps)

lemma ni_event_first [frame_simps]: "eng_ni_event ev (queue_first q e) = queue_first q (eng_ni_event ev e)"
  by (cases ev) (simp_all add: loc_eng_mute_one_session_def)

lemma ni_first [frame_simps]: "eng_ni r (queue_first q e) = queue_first q (eng_ni r e)"
proof -
  have "fold eng_ni_event evs (queue_first q e) = queue_first q (fold eng_ni_event evs e)" for evs e
    by (induction evs arbitrary: e) (simp_all add: frame_simps)
  then show ?thesis by (simp add: eng_ni_def)
qed

lemma reinit_first [frame_simps]: "loc_eng_reinit conf ret (queue_first q e) = qf_r q (loc_eng_reinit conf ret e)"
  by (simp add: loc_eng_reinit_def frame_simps cong: if_cong)

lemma set_server_first [frame_simps]:
  "loc_eng_set_server resolve ty h p (queue_first q e) = qf_r q (loc_eng_set_server resolve ty h p e)"
  by (cases ty; cases "resolve h") (simp_all add: loc_eng_set_server_def Let_def frame_simps)

lemma agps_reinit_first [frame_simps]:
  "loc_eng_agps_reinit resolve (queue_first q e) = qf q (loc_eng_agps_reinit resolve e)"
  by (simp add: loc_eng_agps_reinit_def frame_simps cong: if_cong)

lemma engine_down_first [frame_simps]:
  "loc_eng_handle_engine_down (queue_first q e) = qf q (loc_eng_handle_engine_down e)"
  by (simp add: loc_eng_handle_engine_down_def frame_simps)

lemma engine_up_first [frame_simps]:
  "loc_eng_handle_engine_up conf resolve env (queue_first q e) = qf q (loc_eng_handle_engine_up conf resolve env e)"
  by (simp add: loc_eng_handle_engine_up_def frame_simps bind_if cong: if_cong)

lemma report_position_first [frame_simps]:
  "handle_report_position conf l x st (queue_first q e) = qf q (handle_report_position conf l x st e)"
  by (cases "location_cb e"; cases st; cases "accept_fix conf (intermediateFix e) st l")
     (simp_all add: handle_report_position_def Let_def frame_simps bind_if cong: if_cong)

lemma request_bit_first [frame_simps]:
  "handle_request_bit env t v4 v6 (queue_first q e) = qf q (handle_request_bit env t v4 v6 e)"
  "handle_release_bit env t v4 v6 (queue_first q e) = qf q (handle_release_bit env t v4 v6 e)"
  by (cases t; simp add: handle_request_bit_def handle_release_bit_def frame_simps)+

lemma request_atl_first [frame_simps]:
  "handle_request_atl h ty (queue_first q e) = qf q (handle_request_atl h ty e)"
  "handle_release_atl h (queue_first q e) = qf q (handle_release_atl h e)"
  by (simp_all add: handle_request_atl_def handle_release_atl_def Let_def frame_simps cong: if_cong)

lemma request_wifi_first [frame_simps]:
  "handle_request_wifi sid s p (queue_first q e) = qf q (handle_request_wifi sid s p e)"
  "handle_release_wifi sid s p (queue_first q e) = qf q (handle_release_wifi sid s p e)"
  by (simp_all add: handle_request_wifi_def handle_release_wifi_def frame_simps)

lemma plain_first [frame_simps]:
  "handle_plain conf resolve env i (queue_first q e) = qf q (handle_plain conf resolve env i e)"
  by (simp add: handle_plain_def handle_stop_fix_def frame_simps)

lemma handle_msg_first [frame_simps]:
  "handle_msg conf resolve env msg (queue_first q e) = qf q (handle_msg conf resolve env msg e)"
  by (cases msg) (simp_all add: frame_simps handle_report_sv_def handle_report_nmea_def
      handle_atl_open_success_def handle_atl_closed_def handle_atl_open_failed_def)

lemma after_agps_first [frame_simps]: "after_agps env i (queue_first q e) = qf q (after_agps env i e)"
  by (simp add: after_agps_def Let_def frame_simps)

lemma after_aiding_first [frame_simps]: "after_aiding (queue_first q e) = qf q (after_aiding e)"
  by (simp add: after_aiding_def frame_simps)

lemma delete_msg_first [frame_simps]: "delete_msg m (queue_first q e) = queue_first q (delete_msg m e)"
  by (cases m) simp_all

lemma deferred_action_first:
  "deferred_action conf resolve env msg (queue_first q e) = qf q (deferred_action conf resolve env msg e)"
  by (simp add: deferred_action_def frame_simps)

section \<open>What the handlers keep\<close>

text \<open>
  \<open>fits P\<close>: if the step returns, \<open>P\<close> holds. A property that is kept by the elementary steps of the
  handlers is kept by every message that does not belong to a network-initiated request; the locale
  proves this once, for the two properties below and in Loc\_System\_Correct.
\<close>

definition fits :: "(engine \<Rightarrow> bool) \<Rightarrow> engine option \<Rightarrow> bool" where
  "fits P x \<longleftrightarrow> (\<forall>e. x = Some e \<longrightarrow> P e)"

definition fits_r :: "(engine \<Rightarrow> bool) \<Rightarrow> ('r \<times> engine) option \<Rightarrow> bool" where
  "fits_r P x \<longleftrightarrow> (\<forall>r e. x = Some (r, e) \<longrightarrow> P e)"

named_theorems fits_intros \<open>rules for fits and fits\_r\<close>

lemma fits_Some [fits_intros]: "P e \<Longrightarrow> fits P (Some e)" "P e \<Longrightarrow> fits_r P (Some (r, e))" "fits P None" "fits_r P None"
  by (simp_all add: fits_def fits_r_def)

lemma fits_bind: "fits P x \<Longrightarrow> (\<And>e. P e \<Longrightarrow> fits P (f e)) \<Longrightarrow> fits P (x \<bind> f)"
  "fits_r P y \<Longrightarrow> (\<And>r e. P e \<Longrightarrow> fits P (g (r, e))) \<Longrightarrow> fits P (y \<bind> g)"
  "fits P x \<Longrightarrow> (\<And>e. P e \<Longrightarrow> fits_r P (h e)) \<Longrightarrow> fits_r P (x \<bind> h)"
  "fits_r P y \<Longrightarrow> (\<And>r e. P e \<Longrightarrow> fits_r P (k (r, e))) \<Longrightarrow> fits_r P (y \<bind> k)"
  by (fastforce simp: fits_def fits_r_def bind_eq_Some_conv)+

lemma fits_observe [fits_intros]: "(\<And>b. fits P (k b)) \<Longrightarrow> fits P (isInSession e \<bind> k)"
  "(\<And>b. fits_r P (l b)) \<Longrightarrow> fits_r P (isInSession e \<bind> l)" "(\<And>a. fits P (f a)) \<Longrightarrow> fits P (client_handle e \<bind> f)"
  by (fastforce simp: fits_def fits_r_def bind_eq_Some_conv)+

lemma fits_map [fits_intros]: "fits_r P x \<Longrightarrow> fits P (map_option snd x)" "fits P y \<Longrightarrow> fits_r P (map_option (Pair r) y)"
  by (auto simp: fits_def fits_r_def)

lemma fits_map_s: "fits P x \<Longrightarrow> (\<And>e. P e \<Longrightarrow> P (f e)) \<Longrightarrow> fits P (map_option f x)"
  by (auto simp: fits_def)

lemma fits_r_swap: "fits_r P x \<Longrightarrow> fits_r P (map_option (\<lambda>(_, e). (r, e)) x)"
  by (auto simp: fits_r_def)

lemma INIT_CHECK_fits [fits_intros]: "P e \<Longrightarrow> fits_r P x \<Longrightarrow> fits_r P (INIT_CHECK ok ret e x)"
  by (simp add: INIT_CHECK_def fits_intros)

fun ni_msg :: "loc_eng_msg \<Rightarrow> bool" where
  "ni_msg (loc_eng_msg_request_ni n p) = True"
| "ni_msg (loc_eng_msg_inform_ni_response r p) = True"
| "ni_msg _ = False"

lemma config_messages_fit: "m \<in> set (config_messages conf) \<Longrightarrow> msg_fits m \<and> \<not> ni_msg m \<and> m \<noteq> loc_eng_msg LOC_ENG_MSG_ENGINE_UP"
  by (auto simp: config_messages_def split: if_splits)

lemma text_ok_decimal [simp]: "text_ok (decimal n)"
proof (induction n rule: decimal.induct)
  case (1 n)
  have "digit_char d \<noteq> CHR 0x00" if "d < 10" for d
    using that by (auto dest: digit_value_digit_char simp: digit_value_def)
  from this [of n] this [of "n mod 10"] show ?case using 1 by (auto simp: decimal.simps [of n])
qed

lemma take_text_ok: "text_ok s \<Longrightarrow> text_ok (take n s)"
  by (meson in_set_takeD)

text \<open>The engine that \<open>loc_eng_init\<close> starts its attempts with.\<close>

definition first_engine :: "loc_gps_cfg \<Rightarrow> LocPosMode \<Rightarrow> LocCallbacks \<Rightarrow> u32 \<Rightarrow> bool \<Rightarrow> engine \<Rightarrow> engine" where
  "first_engine conf fix_mode cb event ext e =
     with_client fix_mode cb event ext
       (save_callbacks conf cb (emit_if (lc_set_capabilities_cb cb) (Cb_set_capabilities (CAPABILITIES conf))
         (LocEngContext_get (loc_eng_data.extend zero_loc_eng_data (engine.fields (me e) (eng_out e))))))"

lemma first_engine_fields:
  assumes "me e = None"
  shows "queued (first_engine conf fx cb event ext e) = []" "supl_host_buf (first_engine conf fx cb event ext e) = []"
    "eng_out (first_engine conf fx cb event ext e) = eng_out e @ (if lc_set_capabilities_cb cb then [Cb_set_capabilities (CAPABILITIES conf)] else [])"
    "loc_eng_ni (first_engine conf fx cb event ext e) = \<lparr>respTimeLeft = 0, respRecvd = False, rawRequest = NULL, reqID = 0, resp = 0\<rparr>"
    "ni_notify_cb (first_engine conf fx cb event ext e) = False"
  using assms by (simp_all add: first_engine_def queued_def save_callbacks_def with_client_def new_LocApiAdapter_def emit_if_def emit_def LocEngContext_get_def
      zero_loc_eng_data_def loc_eng_data.defs engine.defs)

locale engine_part =
  fixes P :: "engine \<Rightarrow> bool"
  assumes emits_all: "P e \<Longrightarrow> \<forall>p. Free p \<notin> set evs \<Longrightarrow> P (e\<lparr>eng_out := eng_out e @ evs\<rparr>)"
    and handle: "P e \<Longrightarrow> P (e\<lparr>client_handle := x1\<rparr>)"
    and status: "P e \<Longrightarrow> P (e\<lparr>engine_status := x2\<rparr>)" "P e \<Longrightarrow> P (e\<lparr>fix_session_status := x3\<rparr>)"
    and muting: "P e \<Longrightarrow> P (e\<lparr>mute_session_state := x4\<rparr>)"
    and aiding: "P e \<Longrightarrow> P (e\<lparr>aiding_data_for_deletion := x5\<rparr>)"
    and pending: "P e \<Longrightarrow> P (e\<lparr>stop_request_pending := x6\<rparr>)" "P e \<Longrightarrow> P (e\<lparr>agps_request_pending := x7\<rparr>)"
    and nifs: "P e \<Longrightarrow> P (put_nif k m e)"
    and ni_reset: "P e \<Longrightarrow> P (eng_ni (loc_eng_ni_reset_on_engine_restart (ni_notify_cb e) (loc_eng_ni e)) e)"
begin

lemma emits: "P e \<Longrightarrow> \<forall>p. ev \<noteq> Free p \<Longrightarrow> P (emit ev e)"
  using emits_all [of e "[ev]"] by (auto simp: emit_def)

lemma emits_if: "P e \<Longrightarrow> \<forall>p. ev \<noteq> Free p \<Longrightarrow> P (emit_if b ev e)"
  by (simp add: emit_if_def emits)

lemma informs: "P e \<Longrightarrow> P (loc_inform_gps_status st e)"
  by (simp add: loc_inform_gps_status_def emits_if)

lemma emits_nif: "P e \<Longrightarrow> P (put_nif k m e\<lparr>eng_out := eng_out e @ map (Nif k) evs\<rparr>)"
  using emits_all [OF nifs, of e "map (Nif k) evs" k m] by (cases k) auto

lemmas kept = emits emits_if emits_nif informs handle status muting aiding pending nifs ni_reset

lemma call_api_fits: "P e \<Longrightarrow> fits P (call_api a e)"
  by (auto simp: call_api_def intro!: fits_intros kept)

lemma setInSession_fits: "P e \<Longrightarrow> fits P (setInSession b e)"
  by (cases "client_handle e") (auto simp: setInSession_def intro!: fits_intros kept)

lemma set_position_mode_api_fits: "P e \<Longrightarrow> fits P (set_position_mode_api env p e)"
  by (cases "client_handle e") (auto simp: set_position_mode_api_def intro!: fits_intros kept)

lemmas api_fits = call_api_fits setInSession_fits set_position_mode_api_fits

lemma start_handler_fits: "P e \<Longrightarrow> fits_r P (loc_eng_start_handler env e)"
  by (auto simp: loc_eng_start_handler_def intro!: fits_intros fits_bind(3) api_fits kept)

lemma stop_handler_fits: "P e \<Longrightarrow> fits_r P (loc_eng_stop_handler env e)"
  by (auto simp: loc_eng_stop_handler_def intro!: fits_intros fits_bind(3) api_fits kept)

lemma report_status_fits: "P e \<Longrightarrow> fits P (loc_eng_report_status st e)"
  by (auto simp: loc_eng_report_status_def Let_def intro!: fits_intros kept)

lemma run_nif_fits: "P e \<Longrightarrow> fits_r P (run_nif k f e)"
  by (cases "get_nif k e") (auto simp: run_nif_def Let_def intro!: fits_intros kept split: prod.split)

lemma on_nif_fits: "P e \<Longrightarrow> fits P (on_nif k f e)"
  by (simp add: on_nif_def fits_intros run_nif_fits)

lemma report_position_fits: "P e \<Longrightarrow> fits P (handle_report_position conf l x st e)"
  unfolding handle_report_position_def Let_def
  by (auto intro!: fits_intros fits_bind(1) api_fits kept simp del: bind_eq_Some_conv)

lemma handle_quiet_fits:
  assumes "P e" "\<not> ni_msg msg" "msg \<noteq> loc_eng_msg LOC_ENG_MSG_ENGINE_UP"
  shows "fits P (handle_msg conf resolve env msg e)"
  using assms
  by (cases msg)
     (auto simp: handle_plain_def handle_stop_fix_def loc_eng_handle_engine_down_def handle_report_sv_def handle_report_nmea_def
        handle_request_bit_def handle_release_bit_def handle_request_atl_def handle_release_atl_def
        handle_request_wifi_def handle_release_wifi_def Let_def handle_atl_open_success_def
        handle_atl_closed_def handle_atl_open_failed_def
        intro!: fits_intros fits_bind(1,2) api_fits start_handler_fits stop_handler_fits report_status_fits run_nif_fits
          on_nif_fits report_position_fits kept split: option.split)

lemma after_agps_fits: "P e \<Longrightarrow> fits P (after_agps env i e)"
  using stop_handler_fits [of "e\<lparr>agps_request_pending := False\<rparr>" env]
  by (auto simp: after_agps_def Let_def fits_def fits_r_def intro!: kept)

lemma after_aiding_fits: "P e \<Longrightarrow> fits P (after_aiding e)"
  by (auto simp: after_aiding_def intro!: fits_map_s fits_intros api_fits kept)

text \<open>Everything but the message's own handler and its destructor.\<close>

lemma after_fits: "P e \<Longrightarrow> fits P (after_agps env i e \<bind> (\<lambda>e1. after_aiding (e1\<lparr>stop_request_pending := False\<rparr>)))"
  by (auto intro!: fits_bind(1) after_agps_fits after_aiding_fits kept)

end

text \<open>
  The same for a property that also holds when messages are sent, other than those of
  network-initiated requests and restarts: it is kept by a restart of the modem, by initialisation,
  and by the functions of the GPS interface.
\<close>

locale engine_sender = engine_part +
  assumes hosts: "P e \<Longrightarrow> text_ok (supl_host_buf e)"
    and sends: "P e \<Longrightarrow> msg_fits msg \<Longrightarrow> \<not> ni_msg msg \<Longrightarrow> msg \<noteq> loc_eng_msg LOC_ENG_MSG_ENGINE_UP \<Longrightarrow> fits P (snd_deferred msg e)"
    and ulps: "P e \<Longrightarrow> fits P (snd_ulp msg e)"
begin

lemma snd_all_fits: "P e \<Longrightarrow> (\<And>m. m \<in> set ms \<Longrightarrow> msg_fits m \<and> \<not> ni_msg m \<and> m \<noteq> loc_eng_msg LOC_ENG_MSG_ENGINE_UP) \<Longrightarrow> fits P (snd_all ms e)"
  by (induction ms arbitrary: e) (auto intro!: fits_Some fits_bind(1) sends)

lemma set_server_fits: "P e \<Longrightarrow> text_ok h \<or> ty \<noteq> LOC_AGPS_SUPL_SERVER \<Longrightarrow> fits_r P (loc_eng_set_server resolve ty h p e)"
  by (cases ty; cases "resolve h") (auto simp: loc_eng_set_server_def Let_def intro!: fits_intros sends)

lemma reinit_fits: "P e \<Longrightarrow> fits_r P (loc_eng_reinit conf ret e)"
  by (auto simp: loc_eng_reinit_def intro!: fits_intros fits_bind(3) api_fits snd_all_fits config_messages_fit kept)

lemma agps_reinit_fits: "P e \<Longrightarrow> fits P (loc_eng_agps_reinit resolve e)"
  by (auto simp: loc_eng_agps_reinit_def intro!: fits_intros fits_bind(1) set_server_fits hosts)

lemma engine_up_fits: "P e \<Longrightarrow> fits P (loc_eng_handle_engine_up conf resolve env e)"
  unfolding loc_eng_handle_engine_up_def
  by (rule fits_bind(2) [OF reinit_fits], assumption)
     (auto intro!: fits_intros fits_bind(1) api_fits agps_reinit_fits start_handler_fits on_nif_fits report_status_fits run_nif_fits kept)

lemma handle_msg_fits:
  assumes "P e" "\<not> ni_msg msg"
  shows "fits P (handle_msg conf resolve env msg e)"
proof (cases "msg = loc_eng_msg LOC_ENG_MSG_ENGINE_UP")
  case True
  with engine_up_fits [OF assms(1)] show ?thesis by (simp add: handle_plain_def)
qed (rule handle_quiet_fits [OF assms])

lemma init_loop_fits: "P e \<Longrightarrow> fits_r P (init_loop conf rets n k r e)"
proof (induction k arbitrary: n r e)
  case (Suc k)
  then show ?case by (auto intro!: fits_bind(4) fits_intros reinit_fits kept Suc.IH)
qed (simp add: fits_intros)

text \<open>For texts without \<open>NUL\<close>, as C strings are, the functions of the GPS interface keep it too.\<close>

lemma interface_fits:
  assumes "P e"
  shows "fits_r P (loc_eng_start conf e)" "fits_r P (loc_eng_stop conf e)" "fits_r P (loc_eng_set_engine_lock lock e)"
    "fits_r P (loc_eng_set_position_mode p e)" "fits_r P (loc_eng_inject_time t tr u e)"
    "fits_r P (loc_eng_inject_location la lo ac e)" "fits_r P (loc_eng_delete_aiding_data f e)"
    "fits_r P (loc_eng_agps_closed ty e)" "fits_r P (loc_eng_agps_open_failed ty e)" "fits_r P (loc_eng_update_criteria conf c e)"
    "fits_r P (loc_eng_ulp_send_network_position conf np e)" "fits_r P (loc_eng_ulp_phone_context_settings_update conf pc e)"
  using assms
  by (auto simp: loc_eng_start_def loc_eng_stop_def loc_eng_set_engine_lock_def loc_eng_set_position_mode_def
      loc_eng_inject_time_def loc_eng_inject_location_def loc_eng_delete_aiding_data_def loc_eng_agps_closed_def
      loc_eng_agps_open_failed_def agps_checked_def loc_eng_update_criteria_def loc_eng_ulp_send_network_position_def
      loc_eng_ulp_phone_context_settings_update_def intro!: fits_intros fits_bind(4) sends ulps)

lemma interface_data_fits:
  assumes "P e"
  shows "pred_option text_ok apn \<Longrightarrow> fits_r P (loc_eng_agps_open ty apn b e)"
    "pred_option text_ok apn \<Longrightarrow> fits_r P (loc_eng_agps_ril_update_network_availability y apn e)"
    "eng_context e \<Longrightarrow> text_ok host \<Longrightarrow> fits_r P (loc_eng_set_server_proxy resolve srv host port e)"
    "fits_r P (loc_eng_xtra_inject_data d n e)" "fits_r P (loc_eng_inject_raw_command conf d n e)"
proof -
  show "pred_option text_ok apn \<Longrightarrow> fits_r P (loc_eng_agps_open ty apn b e)"
    "pred_option text_ok apn \<Longrightarrow> fits_r P (loc_eng_agps_ril_update_network_availability y apn e)"
    using assms
    by (cases apn; auto simp: loc_eng_agps_open_def agps_checked_def loc_eng_agps_ril_update_network_availability_def
        Let_def intro!: fits_intros take_text_ok sends)+
  show "eng_context e \<Longrightarrow> text_ok host \<Longrightarrow> fits_r P (loc_eng_set_server_proxy resolve srv host port e)"
    using set_server_fits [OF assms, of host srv resolve port] by (simp add: loc_eng_set_server_proxy_def)
  show "fits_r P (loc_eng_xtra_inject_data d n e)" "fits_r P (loc_eng_inject_raw_command conf d n e)"
    using assms by (cases "memcpy n d"; auto simp: loc_eng_xtra_inject_data_def loc_eng_inject_raw_command_def memcpy_def
        intro!: fits_intros sends ulps split: if_splits)+
qed

lemma init_fits:
  assumes "\<not> eng_context e" "event \<noteq> 0" "P (first_engine conf fx cb event ext e)"
  shows "fits_r P (loc_eng_init conf rets (Some fx) w (Some cb) event ext e)"
proof -
  let ?e3 = "first_engine conf fx cb event ext e"
  have "fits_r P (do { (r, e4) \<leftarrow> init_loop conf rets 0 30 (-1) ?e3;
      (if r = 0 then map_option (\<lambda>(_, e5). (r, e5)) (loc_eng_set_engine_lock 1 e4) else Some (r, e4)) })"
    by (rule fits_bind(4) [OF init_loop_fits [OF assms(3)]]) (auto intro!: fits_r_swap interface_fits(3) fits_intros)
  then show ?thesis using assms(1,2) by (simp add: loc_eng_init_def Let_def first_engine_def)
qed

lemma cleanup_fits: "P e \<Longrightarrow> fits_r P (loc_eng_cleanup conf e)"
proof -
  assume P: "P e"
  have "fits P (if nav then map_option snd (loc_eng_stop conf e) else Some e)" for nav
    using interface_fits(2) [OF P] P by (auto intro!: fits_intros)
  then show ?thesis
    unfolding loc_eng_cleanup_def
    by (intro INIT_CHECK_fits fits_observe(2) fits_bind(3) fits_r_swap interface_fits(3) P)
qed

end

section \<open>What the deferred thread sends\<close>

text \<open>The handlers keep the server's host name, and every message that they queue fits. Only a restart queues any.\<close>

definition host_ok :: "engine \<Rightarrow> bool" where
  "host_ok e \<longleftrightarrow> text_ok (supl_host_buf e) \<and> (\<forall>m \<in> set (queued e). msg_fits m)"

lemma queued_updates [simp]:
  "queued (e\<lparr>eng_out := x1\<rparr>) = queued e" "queued (e\<lparr>client_handle := x2\<rparr>) = queued e"
  "queued (e\<lparr>mute_session_state := x3\<rparr>) = queued e" "queued (e\<lparr>engine_status := x4\<rparr>) = queued e"
  "queued (e\<lparr>fix_session_status := x5\<rparr>) = queued e" "queued (e\<lparr>loc_eng_ni := x6\<rparr>) = queued e"
  "queued (e\<lparr>aiding_data_for_deletion := x7\<rparr>) = queued e" "queued (e\<lparr>stop_request_pending := x8\<rparr>) = queued e"
  "queued (e\<lparr>agps_request_pending := x9\<rparr>) = queued e" "queued (put_nif k m e) = queued e"
  by (simp_all add: queued_def) (cases k; simp)

lemma host_ok_emit: "host_ok e \<Longrightarrow> host_ok (emit ev e)"
  by (simp add: host_ok_def emit_def)

lemma snd_deferred_fits: "host_ok e \<Longrightarrow> msg_fits m \<Longrightarrow> fits host_ok (snd_deferred m e)"
  by (auto simp: fits_def snd_deferred_def host_ok_def queued_def)

lemma snd_ulp_fits: "host_ok e \<Longrightarrow> fits host_ok (snd_ulp m e)"
  by (auto simp: fits_def snd_ulp_def host_ok_def queued_def)

lemma eng_ni_fits: "host_ok e \<Longrightarrow> host_ok (eng_ni r e)"
proof -
  have "host_ok e \<Longrightarrow> host_ok (fold eng_ni_event evs e)" for evs e
  proof (induction evs arbitrary: e)
    case (Cons ev evs)
    have "host_ok (eng_ni_event ev e)"
      using Cons.prems by (cases ev) (simp_all add: loc_eng_mute_one_session_def host_ok_def emit_def)
    with Cons.IH show ?case by simp
  qed simp
  then show "host_ok e \<Longrightarrow> ?thesis"
    using host_ok_def [of e] host_ok_def [of "e\<lparr>loc_eng_ni := fst r\<rparr>"] by (simp add: eng_ni_def)
qed

interpretation host: engine_sender host_ok
proof unfold_locales
  fix e k m assume "host_ok e"
  moreover have "supl_host_buf (put_nif k m e) = supl_host_buf e" by (cases k) simp_all
  ultimately show "host_ok (put_nif k m e)" by (simp add: host_ok_def)
qed (simp_all add: snd_deferred_fits snd_ulp_fits eng_ni_fits, simp_all add: host_ok_def)

lemmas host_fits = snd_deferred_fits eng_ni_fits host.kept host.api_fits

lemma delete_msg_fits: "host_ok e \<Longrightarrow> host_ok (delete_msg m e)"
  by (cases m) (auto simp: emit_if_def host_ok_emit)

lemma handle_any_fits:
  assumes "host_ok e"
  shows "fits host_ok (handle_msg conf resolve env msg e)"
proof (cases "ni_msg msg")
  case True
  with assms show ?thesis by (cases msg) (auto intro!: fits_Some host_fits)
qed (rule host.handle_msg_fits [OF assms])

lemma deferred_action_fits:
  assumes "host_ok e"
  shows "fits host_ok (deferred_action conf resolve env msg e)"
  unfolding deferred_action_def
  by (rule fits_bind(1) [OF handle_any_fits [OF assms]])
     (auto intro!: fits_intros fits_bind(1) host.after_agps_fits host.after_aiding_fits delete_msg_fits host.kept)

end
