(* ===== verification/Loc_Eng_Heap.thy ===== *)
theory Loc_Eng_Heap
  imports Loc_Eng_Frame Msg_Q_Correct
begin

text \<open>
  The engine with its queue in memory (gps/libloc_api_50001/loc_eng.cpp over gps/utils/msg_q.c and
  linked_list.c). A sender constructs a message object and hands its address to \<open>msg_q_snd\<close>; the
  deferred thread takes an address from \<open>msg_q_rcv\<close>, reads the message there, acts on it and deletes
  it. Of the engine, only the queue's contents are replaced: the field \<open>deferred_q\<close> of the
  engine's context stays empty, and what a handler queues there is sent to the queue in memory.
\<close>

section \<open>State\<close>

text \<open>\<open>asleep\<close>: the deferred thread waits in \<open>msg_q_rcv\<close>.\<close>

record eng_heap =
  deferred_q_ptr :: ptr
  q_mem :: "(ptr, unit) qmem"
  msgs :: msg_mem
  asleep :: bool

text \<open>
  What the step cannot know: the bytes of new arrays, which waiting thread a signal wakes, the
  addresses that the allocator gives for a list cell, a message and up to two arrays, and the
  thread's identifier. The unit value stands for the one \<open>dealloc\<close> callback, \<open>loc_eng_free_msg\<close>.
\<close>

record heap_env =
  uninit :: "nat \<Rightarrow> u8"
  wakes :: "nat set \<Rightarrow> nat"
  alloc :: "eng_heap \<Rightarrow> ptr \<times> ptr \<times> ptr \<times> ptr"
  self :: nat

section \<open>Operations\<close>

text \<open>\<open>loc_eng_create_msg_q\<close>, with what the allocator and the thread library answer.\<close>

definition loc_eng_create_msg_q ::
    "ptr \<Rightarrow> ptr \<Rightarrow> int \<Rightarrow> int \<Rightarrow> (ptr, unit) qmem \<Rightarrow> (ptr \<times> (ptr, unit) qmem) option" where
  "loc_eng_create_msg_q calloc_q calloc_l mutex_rc cond_rc m = do {
     (rc, q, m1) \<leftarrow> msg_q_init (Some NULL) calloc_q calloc_l mutex_rc cond_rc m;
     Some (if rc \<noteq> eMSG_Q_SUCCESS then NULL else case q of None \<Rightarrow> NULL | Some p \<Rightarrow> p, m1)
   }"

text \<open>A sender: \<open>loc_eng_msg_sender\<close> with a new message. The queue's answer is ignored.\<close>

definition loc_eng_msg_sender :: "heap_env \<Rightarrow> loc_eng_msg \<Rightarrow> eng_heap \<Rightarrow> eng_heap option" where
  "loc_eng_msg_sender he msg s = (case alloc he s of (n, this, a, b) \<Rightarrow> do {
     M1 \<leftarrow> new_msg (uninit he) this a b msg (msgs s);
     (_, m1) \<leftarrow> msg_q_snd (wakes he) (deferred_q_ptr s) (Some this) (Some ()) n (q_mem s);
     Some (s\<lparr>msgs := M1, q_mem := m1\<rparr>)
   })"

fun heap_send_all :: "heap_env \<Rightarrow> loc_eng_msg list \<Rightarrow> eng_heap \<Rightarrow> eng_heap option" where
  "heap_send_all he [] s = Some s"
| "heap_send_all he (m # ms) s = loc_eng_msg_sender he m s \<bind> heap_send_all he ms"

definition deferred_rcv :: "heap_env \<Rightarrow> eng_heap \<Rightarrow> (ptr rcv_outcome \<times> (ptr, unit) qmem) option" where
  "deferred_rcv he s = (if asleep s then msg_q_rcv_resume else msg_q_rcv) (self he) (deferred_q_ptr s) (Some None) (q_mem s)"

definition empty_queue :: "engine \<Rightarrow> engine" where
  "empty_queue e = e\<lparr>me := map_option (\<lambda>c. c\<lparr>deferred_q := []\<rparr>) (me e)\<rparr>"

datatype heap_turn = Heap_Waiting eng_heap | Heap_Ended engine eng_heap | Heap_Turn engine eng_heap

text \<open>One turn of \<open>loc_eng_deferred_action_thread\<close>.\<close>

definition loc_eng_deferred_action_thread ::
    "loc_gps_cfg \<Rightarrow> (string \<Rightarrow> u32 option) \<Rightarrow> heap_env \<Rightarrow> api_env \<Rightarrow> engine \<Rightarrow> eng_heap \<Rightarrow> heap_turn option" where
  "loc_eng_deferred_action_thread conf resolve he env e s = do {
     (out, m1) \<leftarrow> deferred_rcv he s;
     let s1 = s\<lparr>q_mem := m1, asleep := False\<rparr>;
     (case out of
        Blocked \<Rightarrow> Some (Heap_Waiting (s1\<lparr>asleep := True\<rparr>))
      | Returned rc obj \<Rightarrow>
          if rc \<noteq> eMSG_Q_SUCCESS then Some (Heap_Ended e s1)
          else do {
            this \<leftarrow> Option.bind obj id;
            x \<leftarrow> objs (msgs s1) this;
            msg \<leftarrow> read_obj (arrays (msgs s1)) x;
            if \<not> eng_context e then
              map_option (\<lambda>M. Heap_Ended (delete_msg msg e) (s1\<lparr>msgs := M\<rparr>)) (loc_eng_free_msg this (msgs s1))
            else do {
              e1 \<leftarrow> deferred_action conf resolve env msg e;
              s2 \<leftarrow> heap_send_all he (queued e1) s1;
              M \<leftarrow> loc_eng_free_msg this (msgs s2);
              Some (Heap_Turn (empty_queue e1) (s2\<lparr>msgs := M\<rparr>))
            }
          })
   }"

section \<open>The engine's queue as a list\<close>

text \<open>
  The queue's cells hold the addresses \<open>ps\<close> of the messages \<open>ms\<close>, oldest first; beside these, the
  thread still holds the messages \<open>hms\<close> at \<open>hs\<close>; no other message is allocated.
\<close>

definition heap_rep :: "ptr list \<Rightarrow> loc_eng_msg list \<Rightarrow> loc_eng_msg list \<Rightarrow> eng_heap \<Rightarrow> bool" where
  "heap_rep hs hms ms s \<longleftrightarrow> (\<exists>as xs c ps. q_rep (deferred_q_ptr s) as xs c False (q_mem s)
     \<and> rev xs = map (\<lambda>p. (p, Some ())) ps \<and> msgs_held (msgs s) (hs @ ps) (hms @ ms))
     \<and> length hs = length hms \<and> finite (dom (elems (q_mem s))) \<and> dealloc_calls (q_mem s) = []"

text \<open>An allocator that always finds unused addresses, as long as finitely many are in use.\<close>

definition good_alloc :: "heap_env \<Rightarrow> bool" where
  "good_alloc he \<longleftrightarrow> (\<forall>s n this a b. finite (dom (elems (q_mem s))) \<longrightarrow> finite (dom (objs (msgs s)))
      \<longrightarrow> finite (dom (arrays (msgs s))) \<longrightarrow> alloc he s = (n, this, a, b)
      \<longrightarrow> n \<noteq> NULL \<and> n \<notin> dom (elems (q_mem s)) \<and> this \<notin> dom (objs (msgs s))
        \<and> a \<noteq> NULL \<and> b \<noteq> NULL \<and> a \<noteq> b \<and> {a, b} \<inter> dom (arrays (msgs s)) = {})"

lemma good_allocD:
  assumes "good_alloc he" "finite (dom (elems (q_mem s)))" "finite (dom (objs (msgs s)))" "finite (dom (arrays (msgs s)))"
    "alloc he s = (n, this, a, b)"
  shows "n \<noteq> NULL" "elems (q_mem s) n = None" "this \<notin> dom (objs (msgs s))" "a \<noteq> NULL" "b \<noteq> NULL" "a \<noteq> b"
    "{a, b} \<inter> dom (arrays (msgs s)) = {}"
  using assms(1) [unfolded good_alloc_def, rule_format, OF assms(2-5)] by auto

lemma msgs_held_finite: "msgs_held M ps ms \<Longrightarrow> finite (dom (objs M)) \<and> finite (dom (arrays M))"
  by (simp add: msgs_held_def)

lemma finite_dom_change: "finite (dom h) \<Longrightarrow> finite A \<Longrightarrow> \<forall>a. a \<notin> A \<longrightarrow> h' a = h a \<Longrightarrow> finite (dom h')"
proof (rule finite_subset [of _ "dom h \<union> A"])
  assume "\<forall>a. a \<notin> A \<longrightarrow> h' a = h a"
  then show "dom h' \<subseteq> dom h \<union> A" by (metis UnCI domIff subsetI)
qed simp

lemma sender_rep:
  assumes rep: "heap_rep hs hms ms s" and "good_alloc he" "msg_fits m"
  shows "\<exists>s'. loc_eng_msg_sender he m s = Some s' \<and> heap_rep hs hms (ms @ [m]) s'
     \<and> freed_data (msgs s') = freed_data (msgs s)"
proof -
  from rep obtain as xs c ps where
    q: "q_rep (deferred_q_ptr s) as xs c False (q_mem s)" and xs: "rev xs = map (\<lambda>p. (p, Some ())) ps"
    and own: "msgs_held (msgs s) (hs @ ps) (hms @ ms)" and len: "length hs = length hms"
    and fin: "finite (dom (elems (q_mem s)))" and calls: "dealloc_calls (q_mem s) = []"
    by (auto simp: heap_rep_def)
  obtain n this a b where al: "alloc he s = (n, this, a, b)" by (metis prod_cases4)
  note new = good_allocD [OF assms(2) fin _ _ al] msgs_held_finite [OF own]
  then have n: "n \<noteq> NULL" "elems (q_mem s) n = None" "this \<notin> dom (objs (msgs s))" "a \<noteq> NULL" "b \<noteq> NULL" "a \<noteq> b"
      "{a, b} \<inter> dom (arrays (msgs s)) = {}" by auto
  from new_msg_built [OF assms(3) n(4-6), of "uninit he" this "msgs s"] obtain M1 where
    M1: "new_msg (uninit he) this a b m (msgs s) = Some M1" "built this {a, b} m (msgs s) M1" by blast
  have own1: "msgs_held M1 (hs @ ps @ [this]) (hms @ ms @ [m])"
    using msgs_held_new [OF own M1(2) n(3,7)] by simp
  have fresh: "n \<notin> set as" using q n(2) by (rule q_rep_fresh)
  from snd_rep [OF q n(1) fresh, of "wakes he" this "Some ()"] obtain m1 where
    m1: "msg_q_snd (wakes he) (deferred_q_ptr s) (Some this) (Some ()) n (q_mem s) = Some (eMSG_Q_SUCCESS, m1)"
      "q_rep (deferred_q_ptr s) (n # as) ((this, Some ()) # xs) (cond_signal (wakes he) c) False m1"
      "dealloc_calls m1 = dealloc_calls (q_mem s)" "\<forall>a. a \<notin> insert n (set as) \<longrightarrow> elems m1 a = elems (q_mem s) a"
    by blast
  have fin1: "finite (dom (elems m1))" by (rule finite_dom_change [OF fin _ m1(4)]) simp
  have "heap_rep hs hms (ms @ [m]) (s\<lparr>msgs := M1, q_mem := m1\<rparr>)"
    unfolding heap_rep_def
    by (intro conjI exI [of _ "n # as"] exI [of _ "(this, Some ()) # xs"] exI [of _ "cond_signal (wakes he) c"]
        exI [of _ "ps @ [this]"]) (use m1(2,3) own1 xs len fin1 calls in simp_all)
  moreover have "freed_data M1 = freed_data (msgs s)" using M1(2) by (auto simp: built_def)
  ultimately show ?thesis using al M1(1) m1(1) by (simp add: loc_eng_msg_sender_def)
qed

lemma send_all_rep:
  assumes "good_alloc he"
  shows "heap_rep hs hms ms s \<Longrightarrow> \<forall>m \<in> set new. msg_fits m \<Longrightarrow>
     \<exists>s'. heap_send_all he new s = Some s' \<and> heap_rep hs hms (ms @ new) s'
       \<and> freed_data (msgs s') = freed_data (msgs s)"
proof (induction new arbitrary: ms s)
  case (Cons m new)
  from sender_rep [OF Cons.prems(1) assms, of m] Cons.prems(2) obtain s1 where
    1: "loc_eng_msg_sender he m s = Some s1" "heap_rep hs hms (ms @ [m]) s1"
      "freed_data (msgs s1) = freed_data (msgs s)" by auto
  from Cons.IH [OF 1(2)] Cons.prems(2) 1 show ?case by auto
qed simp

section \<open>Taking a message\<close>

lemma deferred_rcv_enters:
  assumes "q_rep q as xs c False m" "deferred_q_ptr s = q" "q_mem s = m"
  shows "\<exists>m1 c1. deferred_rcv he s = rcv_loop (self he) q (Some None) m1 \<and> held_rep q as xs c1 False m1
     \<and> dealloc_calls m1 = dealloc_calls m \<and> elems m1 = elems m"
proof (cases "asleep s")
  case True
  then show ?thesis using assms
    by (intro exI [of _ "m\<lparr>queues := (queues m)(q \<mapsto> (the (queues m q))\<lparr>list_mutex := True, list_cond :=
          \<lparr>waiting = waiting c - {self he}, woken = woken c - {self he}\<rparr>\<rparr>)\<rparr>"]
          exI [of _ "\<lparr>waiting = waiting c - {self he}, woken = woken c - {self he}\<rparr>"])
       (auto simp: deferred_rcv_def q_rep_def msg_q_rcv_resume_def q_prims held_rep_def)
next
  case False
  then show ?thesis using rcv_enters_loop [OF assms(1), of "self he" None] assms by (auto simp: deferred_rcv_def)
qed

lemma rcv_rep_message:
  assumes "heap_rep [] [] (m # ms) s"
  shows "\<exists>this m1. deferred_rcv he s = Some (Returned eMSG_Q_SUCCESS (Some (Some this)), m1)
     \<and> heap_rep [this] [m] ms (s\<lparr>q_mem := m1, asleep := False\<rparr>)"
proof -
  from assms obtain as xs c ps where
    q: "q_rep (deferred_q_ptr s) as xs c False (q_mem s)" and xs: "rev xs = map (\<lambda>p. (p, Some ())) ps"
    and own: "msgs_held (msgs s) ps (m # ms)" and fin: "finite (dom (elems (q_mem s)))" and calls: "dealloc_calls (q_mem s) = []"
    by (auto simp: heap_rep_def)
  from own have "length ps = Suc (length ms)" by (auto simp: msgs_held_def dest!: arg_cong [where f = length])
  then obtain p ps' where ps: "ps = p # ps'" by (cases ps) auto
  from xs have "xs = rev (map (\<lambda>p. (p, Some ())) ps)" by (metis rev_rev_ident)
  then have xs': "xs = rev (map (\<lambda>p. (p, Some ())) ps') @ [(p, Some ())]" by (simp add: ps)
  from deferred_rcv_enters [OF q refl refl, of he] obtain m1 c1 where
    1: "deferred_rcv he s = rcv_loop (self he) (deferred_q_ptr s) (Some None) m1"
      "held_rep (deferred_q_ptr s) as xs c1 False m1" "dealloc_calls m1 = dealloc_calls (q_mem s)" "elems m1 = elems (q_mem s)" by blast
  from rcv_loop_take [OF 1(2) [unfolded xs'], of "self he" None] obtain m2 where
    2: "rcv_loop (self he) (deferred_q_ptr s) (Some None) m1 = Some (Returned eMSG_Q_SUCCESS (Some (Some p)), m2)"
      "q_rep (deferred_q_ptr s) (butlast as) (rev (map (\<lambda>p. (p, Some ())) ps')) c1 False m2"
      "dealloc_calls m2 = dealloc_calls m1" "\<forall>a. a \<notin> set as \<longrightarrow> elems m2 a = elems m1 a" by blast
  have fin2: "finite (dom (elems m2))" by (rule finite_dom_change [OF _ _ 2(4)]) (simp_all add: 1(4) fin)
  have "heap_rep [p] [m] ms (s\<lparr>q_mem := m2, asleep := False\<rparr>)"
    unfolding heap_rep_def
    by (intro conjI exI [of _ "butlast as"] exI [of _ "rev (map (\<lambda>p. (p, Some ())) ps')"] exI [of _ c1] exI [of _ ps'])
       (use 2(2,3) 1(3) own ps fin2 calls in simp_all)
  with 1(1) 2(1) show ?thesis by auto
qed

lemma rcv_rep_empty:
  assumes "heap_rep [] [] [] s"
  shows "\<exists>m1. deferred_rcv he s = Some (Blocked, m1) \<and> heap_rep [] [] [] (s\<lparr>q_mem := m1, asleep := True\<rparr>)"
proof -
  from assms obtain as xs c ps where
    q: "q_rep (deferred_q_ptr s) as xs c False (q_mem s)" and xs: "rev xs = map (\<lambda>p. (p, Some ())) ps"
    and own: "msgs_held (msgs s) ps []" and fin: "finite (dom (elems (q_mem s)))" and calls: "dealloc_calls (q_mem s) = []"
    by (auto simp: heap_rep_def)
  from own xs have "ps = []" "xs = []" by (auto simp: msgs_held_def)
  with deferred_rcv_enters [OF q refl refl, of he] obtain m1 c1 where
    1: "deferred_rcv he s = rcv_loop (self he) (deferred_q_ptr s) (Some None) m1"
      "held_rep (deferred_q_ptr s) as [] c1 False m1" "dealloc_calls m1 = dealloc_calls (q_mem s)" "elems m1 = elems (q_mem s)" by blast
  have "\<exists>m2. rcv_loop (self he) (deferred_q_ptr s) (Some None) m1 = Some (Blocked, m2)
      \<and> q_rep (deferred_q_ptr s) as [] (c1\<lparr>waiting := insert (self he) (waiting c1)\<rparr>) False m2
      \<and> dealloc_calls m2 = dealloc_calls m1 \<and> elems m2 = elems m1"
    using 1(2) by (auto simp: held_rep_def rcv_loop_def q_prims q_rep_def empty_rep)
  then obtain m2 where 2: "rcv_loop (self he) (deferred_q_ptr s) (Some None) m1 = Some (Blocked, m2)"
      "q_rep (deferred_q_ptr s) as [] (c1\<lparr>waiting := insert (self he) (waiting c1)\<rparr>) False m2"
      "dealloc_calls m2 = dealloc_calls m1" "elems m2 = elems m1" by blast
  have "heap_rep [] [] [] (s\<lparr>q_mem := m2, asleep := True\<rparr>)"
    unfolding heap_rep_def
    by (intro conjI exI [of _ as] exI [of _ "[]"] exI [of _ "c1\<lparr>waiting := insert (self he) (waiting c1)\<rparr>"] exI [of _ "[]"])
       (use 2 1(3,4) own fin calls \<open>ps = []\<close> in simp_all)
  with 1(1) 2(1) show ?thesis by auto
qed

lemma held_message:
  assumes "heap_rep [this] [m] ms s"
  shows "\<exists>x. objs (msgs s) this = Some x \<and> read_obj (arrays (msgs s)) x = Some m"
proof -
  from assms obtain ps where own: "msgs_held (msgs s) (this # ps) (m # ms)" by (auto simp: heap_rep_def)
  then have "this \<in> dom (objs (msgs s))" "read_obj (arrays (msgs s)) (obj_at (msgs s) this) = Some m" by (simp_all add: msgs_held_def)
  then show ?thesis by (auto simp: obj_at_def)
qed

lemma free_rep:
  assumes "heap_rep [this] [m] ms s"
  shows "\<exists>M. loc_eng_free_msg this (msgs s) = Some M \<and> heap_rep [] [] ms (s\<lparr>msgs := M\<rparr>)
     \<and> freed_data M = freed_data (free_passThroughData m (msgs s))"
proof -
  from assms obtain as xs c ps where
    q: "q_rep (deferred_q_ptr s) as xs c False (q_mem s)" and xs: "rev xs = map (\<lambda>p. (p, Some ())) ps"
    and own: "msgs_held (msgs s) (this # ps) (m # ms)" and fin: "finite (dom (elems (q_mem s)))" and calls: "dealloc_calls (q_mem s) = []"
    by (auto simp: heap_rep_def)
  from msgs_held_delete [OF own] obtain M where M: "loc_eng_free_msg this (msgs s) = Some M" "msgs_held M ps ms"
      "freed_data M = freed_data (free_passThroughData m (msgs s))" by blast
  have "heap_rep [] [] ms (s\<lparr>msgs := M\<rparr>)"
    unfolding heap_rep_def
    by (intro conjI exI [of _ as] exI [of _ xs] exI [of _ c] exI [of _ ps]) (use q xs M(2) fin calls in simp_all)
  with M show ?thesis by blast
qed

section \<open>One turn\<close>

lemma empty_queue_facts:
  "eng_ok cb (empty_queue e) = eng_ok cb e" "queued (empty_queue e) = []" "supl_host_buf (empty_queue e) = supl_host_buf e"
  "eng_context (empty_queue e) = eng_context e" "empty_queue (queue_first q e) = empty_queue e"
  "eng_ok cb (queue_first q e) = eng_ok cb e" "empty_queue (empty_queue e) = empty_queue e" "eng_out (empty_queue e) = eng_out e"
  by (cases "me e"; simp add: empty_queue_def eng_ok_def queued_def queue_first_def)+

lemma rest_of_queue:
  "me e = Some c \<Longrightarrow> deferred_q c = m # q \<Longrightarrow> e\<lparr>me := Some (c\<lparr>deferred_q := q\<rparr>)\<rparr> = queue_first q (empty_queue e)"
  by (simp add: queue_first_def empty_queue_def)

lemma turn_refines:
  assumes "eng_ok True e" "heap_rep [] [] (queued e) s" "good_alloc he" "host_ok e"
  shows "(queued e = [] \<and> deferred_turn conf resolve env e = Some Waiting \<and>
       (\<exists>s'. loc_eng_deferred_action_thread conf resolve he env (empty_queue e) s = Some (Heap_Waiting s') \<and> heap_rep [] [] [] s'))
    \<or> (\<exists>m e' s'. queued e = m # tl (queued e) \<and> deferred_turn conf resolve env e = Some (Turn e') \<and>
       loc_eng_deferred_action_thread conf resolve he env (empty_queue e) s = Some (Heap_Turn (empty_queue e') s')
       \<and> eng_ok True e' \<and> heap_rep [] [] (queued e') s' \<and> host_ok e'
       \<and> freed_data (msgs s') = freed_data (free_passThroughData m (msgs s)))"
proof (cases "queued e")
  case Nil
  from assms(1) obtain c where c: "me e = Some c" by (auto simp: eng_ok_def)
  with Nil have "deferred_turn conf resolve env e = Some Waiting" by (simp add: deferred_turn_def queued_def)
  moreover from rcv_rep_empty [OF assms(2) [unfolded Nil], of he]
  have "\<exists>s'. loc_eng_deferred_action_thread conf resolve he env (empty_queue e) s = Some (Heap_Waiting s') \<and> heap_rep [] [] [] s'"
    by (auto simp: loc_eng_deferred_action_thread_def)
  ultimately show ?thesis using Nil by blast
next
  case (Cons m q)
  let ?e0 = "empty_queue e"
  from assms(1) Cons obtain c where c: "me e = Some c" "deferred_q c = m # q" "eng_context e" by (auto simp: eng_ok_def queued_def)
  have "eng_ok True ?e0" "host_ok ?e0" using assms(1,4) by (simp_all add: empty_queue_facts host_ok_def)
  from deferred_action_safe [OF this(1), of m conf resolve env] deferred_action_fits [OF this(2), of conf resolve env m]
  obtain e1 where e1: "deferred_action conf resolve env m ?e0 = Some e1" "eng_ok True e1" "host_ok e1"
    by (auto simp: safe_def fits_def)
  let ?e' = "queue_first q e1"
  have turn: "deferred_turn conf resolve env e = Some (Turn ?e')"
    using c e1(1) rest_of_queue [OF c(1,2)]
    by (simp add: deferred_turn_def deferred_action_first empty_queue_facts)
  have "me e1 \<noteq> None" using e1(2) by (simp add: eng_ok_def)
  then have qd: "queued ?e' = q @ queued e1" by simp
  have host: "host_ok ?e'" using assms(4) e1(3) Cons by (auto simp: host_ok_def qd)
  from rcv_rep_message [OF assms(2) [unfolded Cons], of he] obtain this m1 where
    r: "deferred_rcv he s = Some (Returned eMSG_Q_SUCCESS (Some (Some this)), m1)"
      "heap_rep [this] [m] q (s\<lparr>q_mem := m1, asleep := False\<rparr>)" by blast
  let ?s1 = "s\<lparr>q_mem := m1, asleep := False\<rparr>"
  from held_message [OF r(2)] obtain x where x: "objs (msgs s) this = Some x" "read_obj (arrays (msgs s)) x = Some m" by auto
  have "\<forall>m \<in> set (queued e1). msg_fits m" using e1(3) by (simp add: host_ok_def)
  from send_all_rep [OF assms(3) r(2) this] obtain s2 where
    s2: "heap_send_all he (queued e1) ?s1 = Some s2" "heap_rep [this] [m] (q @ queued e1) s2"
      "freed_data (msgs s2) = freed_data (msgs s)" by auto
  from free_rep [OF s2(2)] obtain M where M: "loc_eng_free_msg this (msgs s2) = Some M"
      "heap_rep [] [] (q @ queued e1) (s2\<lparr>msgs := M\<rparr>)" "freed_data M = freed_data (free_passThroughData m (msgs s2))" by blast
  have "loc_eng_deferred_action_thread conf resolve he env ?e0 s = Some (Heap_Turn (empty_queue ?e') (s2\<lparr>msgs := M\<rparr>))"
    using r(1) x c(3) e1(1) s2(1) M(1)
    by (simp add: loc_eng_deferred_action_thread_def Let_def empty_queue_facts)
  moreover have "freed_data M = freed_data (free_passThroughData m (msgs s))"
    using M(3) s2(3) by (cases m; simp)
  ultimately show ?thesis using turn M(2) e1(2) host Cons qd by (intro disjI2 exI [of _ m] exI [of _ ?e'] exI [of _ "s2\<lparr>msgs := M\<rparr>"]) (simp add: empty_queue_facts)
qed

section \<open>Runs\<close>

text \<open>Any order of messages sent by other threads and turns of the deferred thread.\<close>

datatype eng_event = Send loc_eng_msg | Take api_env

fun eng_run :: "loc_gps_cfg \<Rightarrow> (string \<Rightarrow> u32 option) \<Rightarrow> eng_event list \<Rightarrow> engine \<Rightarrow> engine option" where
  "eng_run conf resolve [] e = Some e"
| "eng_run conf resolve (Send m # evs) e = snd_deferred m e \<bind> eng_run conf resolve evs"
| "eng_run conf resolve (Take env # evs) e = (case deferred_turn conf resolve env e of
      None \<Rightarrow> None
    | Some Waiting \<Rightarrow> eng_run conf resolve evs e
    | Some (Ended e') \<Rightarrow> Some e'
    | Some (Turn e') \<Rightarrow> eng_run conf resolve evs e')"

fun heap_run :: "loc_gps_cfg \<Rightarrow> (string \<Rightarrow> u32 option) \<Rightarrow> heap_env \<Rightarrow> eng_event list \<Rightarrow> engine \<Rightarrow> eng_heap
    \<Rightarrow> (engine \<times> eng_heap) option" where
  "heap_run conf resolve he [] e s = Some (e, s)"
| "heap_run conf resolve he (Send m # evs) e s = loc_eng_msg_sender he m s \<bind> heap_run conf resolve he evs e"
| "heap_run conf resolve he (Take env # evs) e s = (case loc_eng_deferred_action_thread conf resolve he env e s of
      None \<Rightarrow> None
    | Some (Heap_Waiting s') \<Rightarrow> heap_run conf resolve he evs e s'
    | Some (Heap_Ended e' s') \<Rightarrow> Some (e', s')
    | Some (Heap_Turn e' s') \<Rightarrow> heap_run conf resolve he evs e' s')"

lemma snd_deferred_keeps:
  assumes "eng_ok True e" "host_ok e" "msg_fits m"
  obtains e' where "snd_deferred m e = Some e'" "eng_ok True e'" "host_ok e'" "queued e' = queued e @ [m]" "empty_queue e' = empty_queue e"
proof -
  from assms(1) obtain c where c: "me e = Some c" "eng_context e" by (auto simp: eng_ok_def)
  let ?e' = "e\<lparr>me := Some (c\<lparr>deferred_q := deferred_q c @ [m]\<rparr>)\<rparr>"
  have "host_ok ?e'" using assms(2,3) c by (auto simp: host_ok_def queued_def)
  with c assms(1) show thesis
    by (intro that [of ?e']) (simp_all add: snd_deferred_def queued_def empty_queue_def eng_ok_updates)
qed

lemma runs_refine:
  assumes "good_alloc he"
  shows "eng_ok True e \<Longrightarrow> host_ok e \<Longrightarrow> heap_rep [] [] (queued e) s \<Longrightarrow> \<forall>m. Send m \<in> set evs \<longrightarrow> msg_fits m \<Longrightarrow>
    \<exists>e' s'. eng_run conf resolve evs e = Some e' \<and> heap_run conf resolve he evs (empty_queue e) s = Some (empty_queue e', s')
      \<and> eng_ok True e' \<and> heap_rep [] [] (queued e') s'"
proof (induction evs arbitrary: e s)
  case (Cons ev evs)
  show ?case
  proof (cases ev)
    case (Send m)
    with Cons.prems(4) have fits: "msg_fits m" by auto
    from snd_deferred_keeps [OF Cons.prems(1,2) fits] obtain e1 where
      e1: "snd_deferred m e = Some e1" "eng_ok True e1" "host_ok e1" "queued e1 = queued e @ [m]" "empty_queue e1 = empty_queue e" .
    from sender_rep [OF Cons.prems(3) assms fits] obtain s1 where
      s1: "loc_eng_msg_sender he m s = Some s1" "heap_rep [] [] (queued e1) s1" unfolding e1(4) by blast
    from Cons.IH [OF e1(2,3) s1(2)] Cons.prems(4) e1(1,5) s1(1) Send show ?thesis by auto
  next
    case (Take env)
    from turn_refines [OF Cons.prems(1,3) assms Cons.prems(2), of conf resolve env] show ?thesis
    proof (elim disjE exE conjE)
      fix s1 assume "queued e = []" "deferred_turn conf resolve env e = Some Waiting" "heap_rep [] [] [] s1"
        "loc_eng_deferred_action_thread conf resolve he env (empty_queue e) s = Some (Heap_Waiting s1)"
      with Cons.IH [OF Cons.prems(1,2), of s1] Cons.prems(4) Take show ?thesis by auto
    next
      fix m e1 s1 assume "deferred_turn conf resolve env e = Some (Turn e1)" "eng_ok True e1" "host_ok e1"
        "heap_rep [] [] (queued e1) s1"
        "loc_eng_deferred_action_thread conf resolve he env (empty_queue e) s = Some (Heap_Turn (empty_queue e1) s1)"
      with Cons.IH [of e1 s1] Cons.prems(4) Take show ?thesis by auto
    qed
  qed
qed simp


definition next_free :: "ptr set \<Rightarrow> ptr" where
  "next_free A = Suc (Max (insert 0 A))"

lemma next_free: "finite A \<Longrightarrow> next_free A \<notin> A \<and> Suc (next_free A) \<notin> A \<and> next_free A \<noteq> NULL"
proof -
  assume "finite A"
  then have "x \<le> Max (insert 0 A)" if "x \<in> A" for x using that by simp
  then show ?thesis by (force simp: next_free_def)
qed

definition example_heap_env :: heap_env where
  "example_heap_env = \<lparr>uninit = (\<lambda>_. 0xFF), wakes = (\<lambda>_. 1),
     alloc = (\<lambda>s. (next_free (dom (elems (q_mem s))), next_free (dom (objs (msgs s))), next_free (dom (arrays (msgs s))),
        Suc (next_free (dom (arrays (msgs s)))))), self = 1\<rparr>"

lemma example_alloc: "good_alloc example_heap_env"
  unfolding good_alloc_def example_heap_env_def using next_free by (auto simp: domIff)

definition example_eng_heap :: eng_heap where
  "example_eng_heap = \<lparr>deferred_q_ptr = 1, q_mem = \<lparr>elems = Map.empty, lists = [2 \<mapsto> \<lparr>p_head = NULL, p_tail = NULL\<rparr>],
       dealloc_calls = [], queues = [1 \<mapsto> \<lparr>msg_list = 2, list_cond = \<lparr>waiting = {}, woken = {}\<rparr>, list_mutex = False, unblocked = 0\<rparr>]\<rparr>,
     msgs = no_memory, asleep = False\<rparr>"

lemma example_eng_heap_rep: "heap_rep [] [] [] example_eng_heap"
  unfolding heap_rep_def
  by (intro conjI exI [of _ "[]"] exI [of _ "\<lparr>waiting = {}, woken = {}\<rparr>"])
     (simp_all add: example_eng_heap_def q_rep_def list_rep_def msgs_held_nothing no_memory_def)


section \<open>Creating and dropping the context\<close>

text \<open>
  The constructor of \<open>LocEngContext\<close> as far as memory goes: two queues, each with what the allocator
  and the thread library answer for it.
\<close>

definition new_LocEngContext ::
    "ptr \<times> ptr \<times> int \<times> int \<Rightarrow> ptr \<times> ptr \<times> int \<times> int \<Rightarrow> (ptr, unit) qmem \<Rightarrow> (ptr \<times> ptr \<times> (ptr, unit) qmem) option" where
  "new_LocEngContext d u m = (case (d, u) of ((dq, dl, dm, dc), (uq, ul, um, uc)) \<Rightarrow> do {
     (q1, m1) \<leftarrow> loc_eng_create_msg_q dq dl dm dc m;
     (q2, m2) \<leftarrow> loc_eng_create_msg_q uq ul um uc m1;
     Some (q1, q2, m2)
   })"

text \<open>
  \<open>drop\<close> of the last reference, called with an empty queue: the thread takes the \<open>QUIT\<close> message, wakes
  the caller and returns without deleting it; then the queues are destroyed.
\<close>

definition heap_drop :: "heap_env \<Rightarrow> ptr \<Rightarrow> eng_heap \<Rightarrow> eng_heap option" where
  "heap_drop he uq s = do {
     s1 \<leftarrow> loc_eng_msg_sender he (loc_eng_msg LOC_ENG_MSG_QUIT) s;
     (_, m1) \<leftarrow> deferred_rcv he s1;
     (_, dq, m2) \<leftarrow> msg_q_destroy (Some (deferred_q_ptr s1)) m1;
     (_, _, m3) \<leftarrow> msg_q_destroy (Some uq) m2;
     Some (s1\<lparr>q_mem := m3, deferred_q_ptr := (case dq of None \<Rightarrow> NULL | Some p \<Rightarrow> p)\<rparr>)
   }"

lemma create_q_ok:
  assumes "cq \<noteq> NULL" "cl \<noteq> NULL"
  shows "\<exists>m'. loc_eng_create_msg_q cq cl 0 0 m = Some (cq, m')
     \<and> q_rep cq [] [] \<lparr>waiting = {}, woken = {}\<rparr> False m' \<and> dealloc_calls m' = dealloc_calls m"
  using init_q_rep [OF assms, of NULL m] by (auto simp: loc_eng_create_msg_q_def)

lemma create_q_no_memory: "loc_eng_create_msg_q NULL cl mrc crc m = Some (NULL, m)"
  by (simp add: loc_eng_create_msg_q_def msg_q_init_def)

lemma quit_message_leaks:
  assumes "heap_drop he uq s = Some s'" "alloc he s = (n, this, a, b)"
  shows "objs (msgs s') this = Some (obj_values (loc_eng_msg LOC_ENG_MSG_QUIT))"
  using assms by (auto simp: heap_drop_def loc_eng_msg_sender_def bind_eq_Some_conv new_object_def)

section \<open>Without a queue\<close>

lemma sender_no_queue:
  assumes "deferred_q_ptr s = NULL" "good_alloc he" "msg_fits m" "finite (dom (elems (q_mem s)))"
    "finite (dom (objs (msgs s)))" "finite (dom (arrays (msgs s)))"
  shows "\<exists>s' this. loc_eng_msg_sender he m s = Some s' \<and> q_mem s' = q_mem s \<and> deferred_q_ptr s' = NULL \<and> asleep s' = asleep s
     \<and> this \<notin> dom (objs (msgs s)) \<and> dom (objs (msgs s')) = insert this (dom (objs (msgs s)))
     \<and> finite (dom (arrays (msgs s')))"
proof -
  obtain n this a b where al: "alloc he s = (n, this, a, b)" by (metis prod_cases4)
  note n = good_allocD [OF assms(2,4-6) al]
  from new_msg_built [OF assms(3) n(4-6), of "uninit he" this "msgs s"] obtain M1 where
    M1: "new_msg (uninit he) this a b m (msgs s) = Some M1" "built this {a, b} m (msgs s) M1" by blast
  from M1(2) assms(6) have "dom (objs M1) = insert this (dom (objs (msgs s)))" "finite (dom (arrays M1))"
    by (auto simp: built_def)
  then show ?thesis using al M1(1) n(3) assms(1)
    by (intro exI [of _ "s\<lparr>msgs := M1\<rparr>"] exI [of _ this]) (simp add: loc_eng_msg_sender_def msg_q_snd_def)
qed

text \<open>
  C40: When the queue could not be created, every sender returns as if its message were on the way,
  and the message is lost and stays allocated; the deferred thread ends at its first turn.
\<close>

theorem no_queue_loses_messages:
  assumes "loc_eng_create_msg_q NULL cl mrc crc (q_mem s0) = Some (q, m)" "s = s0\<lparr>deferred_q_ptr := q, q_mem := m, asleep := False\<rparr>"
    "good_alloc he" "\<forall>m \<in> set ms. msg_fits m" "finite (dom (elems m))" "objs (msgs s0) = Map.empty" "arrays (msgs s0) = Map.empty"
  shows "\<exists>s'. heap_send_all he ms s = Some s' \<and> card (dom (objs (msgs s'))) = length ms
     \<and> loc_eng_deferred_action_thread conf resolve he env e s' = Some (Heap_Ended e s')"
proof -
  have sends: "\<exists>s'. heap_send_all he ms t = Some s' \<and> card (dom (objs (msgs s'))) = card (dom (objs (msgs t))) + length ms
      \<and> deferred_q_ptr s' = NULL \<and> asleep s' = asleep t"
    if "deferred_q_ptr t = NULL" "finite (dom (elems (q_mem t)))" "finite (dom (objs (msgs t)))"
      "finite (dom (arrays (msgs t)))" "\<forall>m \<in> set ms. msg_fits m" for t ms
    using that
  proof (induction ms arbitrary: t)
    case (Cons m ms)
    from sender_no_queue [OF Cons.prems(1) assms(3) _ Cons.prems(2-4), of m] Cons.prems(5) obtain t1 this where
      1: "loc_eng_msg_sender he m t = Some t1" "q_mem t1 = q_mem t" "deferred_q_ptr t1 = NULL" "asleep t1 = asleep t"
        "this \<notin> dom (objs (msgs t))" "dom (objs (msgs t1)) = insert this (dom (objs (msgs t)))" "finite (dom (arrays (msgs t1)))"
      by auto
    from Cons.IH [of t1] 1 Cons.prems show ?case by auto
  qed simp
  from assms(1) have "q = NULL" "m = q_mem s0" by (auto simp: create_q_no_memory)
  with assms(2,5-7) sends [of s ms] assms(4) obtain s' where
    s': "heap_send_all he ms s = Some s'" "card (dom (objs (msgs s'))) = length ms" "deferred_q_ptr s' = NULL" "\<not> asleep s'" by auto
  then have "deferred_rcv he s' = Some (Returned eMSG_Q_INVALID_HANDLE (Some None), q_mem s')"
    by (simp add: deferred_rcv_def msg_q_rcv_def)
  moreover have "s'\<lparr>q_mem := q_mem s', asleep := False\<rparr> = s'" using s'(4) by (cases s') simp
  ultimately have "loc_eng_deferred_action_thread conf resolve he env e s' = Some (Heap_Ended e s')"
    by (simp add: loc_eng_deferred_action_thread_def)
  with s' show ?thesis by blast
qed

lemma no_queue_loses_messages_witness:
  "\<exists>s'. heap_send_all example_heap_env [loc_eng_msg LOC_ENG_MSG_START_FIX] (example_eng_heap\<lparr>deferred_q_ptr := NULL\<rparr>) = Some s'
     \<and> card (dom (objs (msgs s'))) = 1
     \<and> loc_eng_deferred_action_thread example_conf Map.empty example_heap_env example_env example_engine s'
        = Some (Heap_Ended example_engine s')"
  using no_queue_loses_messages [of 0 0 0 example_eng_heap NULL "q_mem example_eng_heap" "example_eng_heap\<lparr>deferred_q_ptr := NULL\<rparr>"
      example_heap_env "[loc_eng_msg LOC_ENG_MSG_START_FIX]" example_conf Map.empty example_env example_engine]
  by (simp add: create_q_no_memory example_alloc) (simp add: example_eng_heap_def no_memory_def)

text \<open>The same happens to one message when the list has no memory for its cell.\<close>

lemma no_cell_loses_message:
  assumes "q_rep (deferred_q_ptr s) as xs c False (q_mem s)" "alloc he s = (NULL, this, a, b)"
    "new_msg (uninit he) this a b m (msgs s) = Some M1"
  shows "\<exists>s'. loc_eng_msg_sender he m s = Some s' \<and> msgs s' = M1
     \<and> q_rep (deferred_q_ptr s) as xs (cond_signal (wakes he) c) False (q_mem s')"
  using assms by (auto simp: loc_eng_msg_sender_def msg_q_snd_def q_prims q_rep_def linked_list_add_def list_rep_def)

end
