(* ===== verification/Dmn_Pipe.thy ===== *)
theory Dmn_Pipe
  imports Loc_Prelude
begin

text \<open>
  The named pipes behind the daemon connection and the framed messages on them:
  loc_eng_dmn_conn_glue_pipe.c, loc_eng_dmn_conn_glue_msg.c and the raw messages of
  loc_eng_msg.cpp. A pipe is the bytes written and not yet read; descriptors and paths name pipes.
  All pipes are opened \<open>O_RDWR\<close>, so a read of an empty pipe blocks and never reports an end of
  file. A buffer is the list of its bytes: reading or writing past its end is \<open>None\<close>. Sizes are
  those of the 32-bit little-endian device: \<open>sizeof(size_t) = sizeof(void*) = 4\<close>.
\<close>

section \<open>Pipes\<close>

record pipes =
  fd_pipe :: "int \<rightharpoonup> nat"
  path_pipe :: "string \<rightharpoonup> nat"
  pipe_bytes :: "nat \<Rightarrow> u8 list"

datatype 'a io = Ret 'a | Blocks

definition set_bytes :: "nat \<Rightarrow> u8 list \<Rightarrow> pipes \<Rightarrow> pipes" where
  "set_bytes k bs p = p\<lparr>pipe_bytes := (pipe_bytes p)(k := bs)\<rparr>"

definition PIPE_CAPACITY :: nat where "PIPE_CAPACITY = 65536"

text \<open>
  \<open>mkfifo_fails\<close>: it fails with an error other than \<open>EEXIST\<close>; \<open>node\<close> is the pipe it creates and
  \<open>fd\<close> the answer of \<open>open\<close>.
\<close>

definition loc_eng_dmn_conn_glue_pipeget :: "string \<Rightarrow> bool \<Rightarrow> nat \<Rightarrow> int \<Rightarrow> pipes \<Rightarrow> int \<times> pipes" where
  "loc_eng_dmn_conn_glue_pipeget pipe_name mkfifo_fails node fd p =
    (if mkfifo_fails then (-1, p)
     else let p1 = (if path_pipe p pipe_name = None
                    then p\<lparr>path_pipe := (path_pipe p)(pipe_name \<mapsto> node), pipe_bytes := (pipe_bytes p)(node := [])\<rparr>
                    else p)
          in if fd < 0 then (fd, p1)
             else (fd, p1\<lparr>fd_pipe := (fd_pipe p1)(fd := path_pipe p1 pipe_name)\<rparr>))"

definition loc_eng_dmn_conn_glue_piperemove :: "string option \<Rightarrow> int \<Rightarrow> pipes \<Rightarrow> int \<times> pipes" where
  "loc_eng_dmn_conn_glue_piperemove pipe_name fd p =
    (let p1 = p\<lparr>fd_pipe := (fd_pipe p)(fd := None)\<rparr>
     in (0, case pipe_name of None \<Rightarrow> p1 | Some s \<Rightarrow> p1\<lparr>path_pipe := (path_pipe p1)(s := None)\<rparr>))"

definition loc_eng_dmn_conn_glue_pipewrite :: "int \<Rightarrow> u8 list \<Rightarrow> nat \<Rightarrow> pipes \<Rightarrow> (int io \<times> pipes) option" where
  "loc_eng_dmn_conn_glue_pipewrite fd buf sz p =
    (case fd_pipe p fd of
       None \<Rightarrow> Some (Ret (-1), p)
     | Some k \<Rightarrow>
        if length buf < sz then None
        else if PIPE_CAPACITY < length (pipe_bytes p k) + sz then Some (Blocks, p)
        else Some (Ret (int sz), set_bytes k (pipe_bytes p k @ take sz buf) p))"

text \<open>\<open>read(fd, buf + off, sz)\<close>: what is there, at most \<open>sz\<close> bytes; \<open>put_bytes\<close> stores them.\<close>

definition put_bytes :: "nat \<Rightarrow> u8 list \<Rightarrow> u8 list \<Rightarrow> u8 list option" where
  "put_bytes off bs buf = (if off + length bs \<le> length buf
     then Some (take off buf @ bs @ drop (off + length bs) buf) else None)"

definition loc_eng_dmn_conn_glue_piperead :: "int \<Rightarrow> u8 list \<Rightarrow> nat \<Rightarrow> nat \<Rightarrow> pipes \<Rightarrow> (int io \<times> u8 list \<times> pipes) option" where
  "loc_eng_dmn_conn_glue_piperead fd buf off sz p =
    (case fd_pipe p fd of
       None \<Rightarrow> Some (Ret (-1), buf, p)
     | Some k \<Rightarrow>
        if sz = 0 then Some (Ret 0, buf, p)
        else if pipe_bytes p k = [] then Some (Blocks, buf, p)
        else let bs = take sz (pipe_bytes p k)
             in map_option (\<lambda>buf'. (Ret (int (length bs)), buf',
                  set_bytes k (drop sz (pipe_bytes p k)) p)) (put_bytes off bs buf))"

text \<open>\<open>fcntl(F_SETLK)\<close> with \<open>F_UNLCK\<close>: it removes a record lock and wakes nobody.\<close>

definition loc_eng_dmn_conn_glue_pipeunblock :: "int \<Rightarrow> pipes \<Rightarrow> int" where
  "loc_eng_dmn_conn_glue_pipeunblock fd p = (if fd_pipe p fd = None then -1 else 0)"

section \<open>Numbers in buffers\<close>

definition le32 :: "u32 \<Rightarrow> u8 list" where
  "le32 w = [ucast w, ucast (drop_bit 8 w), ucast (drop_bit 16 w), ucast (drop_bit 24 w)]"

definition get32 :: "nat \<Rightarrow> u8 list \<Rightarrow> u32 option" where
  "get32 off buf = (case drop off buf of
     a # b # c # d # _ \<Rightarrow> Some (ucast a OR push_bit 8 (ucast b) OR push_bit 16 (ucast c) OR push_bit 24 (ucast d))
   | _ \<Rightarrow> None)"

section \<open>Framed messages\<close>

definition loc_eng_dmn_conn_glue_msgget :: "string \<Rightarrow> bool \<Rightarrow> nat \<Rightarrow> int \<Rightarrow> pipes \<Rightarrow> int \<times> pipes" where
  "loc_eng_dmn_conn_glue_msgget q_path mkfifo_fails node fd p =
     loc_eng_dmn_conn_glue_pipeget q_path mkfifo_fails node fd p"

definition loc_eng_dmn_conn_glue_msgremove :: "string option \<Rightarrow> int \<Rightarrow> pipes \<Rightarrow> int \<times> pipes" where
  "loc_eng_dmn_conn_glue_msgremove q_path msgqid p = loc_eng_dmn_conn_glue_piperemove q_path msgqid p"

definition loc_eng_dmn_conn_glue_msgsnd :: "int \<Rightarrow> u8 list \<Rightarrow> u32 \<Rightarrow> pipes \<Rightarrow> (int io \<times> u8 list \<times> pipes) option" where
  "loc_eng_dmn_conn_glue_msgsnd msgqid msgp msgsz p = do {
     msgp' \<leftarrow> put_bytes 0 (le32 msgsz) msgp;
     (r, p') \<leftarrow> loc_eng_dmn_conn_glue_pipewrite msgqid msgp' (unat msgsz) p;
     Some (case r of Blocks \<Rightarrow> Blocks | Ret n \<Rightarrow> Ret (if n \<noteq> sint msgsz then -1 else n), msgp', p')
   }"

definition loc_eng_dmn_conn_glue_msgrcv :: "int \<Rightarrow> u8 list \<Rightarrow> u32 \<Rightarrow> pipes \<Rightarrow> (int io \<times> u8 list \<times> pipes) option" where
  "loc_eng_dmn_conn_glue_msgrcv msgqid msgp msgbufsz p = do {
     (r, b1, p1) \<leftarrow> loc_eng_dmn_conn_glue_piperead msgqid msgp 0 4 p;
     (case r of Blocks \<Rightarrow> Some (Blocks, b1, p1) | Ret n \<Rightarrow>
        if n \<noteq> 4 then Some (Ret (-1), b1, p1)
        else do {
          msgsz \<leftarrow> get32 0 b1;
          if msgbufsz < msgsz then Some (Ret (-1), b1, p1)
          else do {
            (r2, b2, p2) \<leftarrow> loc_eng_dmn_conn_glue_piperead msgqid b1 4 (unat (msgsz - 4)) p1;
            (case r2 of Blocks \<Rightarrow> Some (Blocks, b2, p2) | Ret n2 \<Rightarrow>
               if n2 \<noteq> sint (msgsz - 4) then Some (Ret (-1), b2, p2)
               else map_option (\<lambda>sz. (Ret (sint sz), b2, p2)) (get32 0 b2))
          }
        })
   }"

definition loc_eng_dmn_conn_glue_msgunblock :: "int \<Rightarrow> pipes \<Rightarrow> int" where
  "loc_eng_dmn_conn_glue_msgunblock msgqid p = loc_eng_dmn_conn_glue_pipeunblock msgqid p"

text \<open>The loop of \<open>msgflush\<close>; \<open>buf\<close> is its uninitialised local array of 128 bytes, and a loop that never ends is \<open>None\<close>.\<close>

partial_function (option) msgflush_loop :: "int \<Rightarrow> u8 list \<Rightarrow> pipes \<Rightarrow> (int io \<times> pipes) option" where
  "msgflush_loop msgqid buf p = do {
     (r, buf', p') \<leftarrow> loc_eng_dmn_conn_glue_piperead msgqid buf 0 128 p;
     (case r of Blocks \<Rightarrow> Some (Blocks, p')
      | Ret len \<Rightarrow> if len \<noteq> 0 then msgflush_loop msgqid buf' p' else Some (Ret len, p'))
   }"

definition loc_eng_dmn_conn_glue_msgflush :: "int \<Rightarrow> u8 list \<Rightarrow> pipes \<Rightarrow> (int io \<times> pipes) option" where
  "loc_eng_dmn_conn_glue_msgflush msgqid buf p = msgflush_loop msgqid buf p"

section \<open>Messages passed by address, and raw messages\<close>

text \<open>\<open>loc_eng_msgsnd\<close> and \<open>loc_eng_msgrcv\<close> pass \<open>sizeof(void*)\<close> bytes; \<open>node\<close> and \<open>fd\<close> are as above.\<close>

definition LOC_ENG_MSG_REQ_Q_PATH :: string where
  "LOC_ENG_MSG_REQ_Q_PATH = ''/data/misc/gpsone_d/loc_eng_msg_req_q''"

definition sizeof_ptr :: nat where "sizeof_ptr = 4"

definition loc_eng_msgget :: "bool \<Rightarrow> nat \<Rightarrow> int \<Rightarrow> pipes \<Rightarrow> int \<times> int \<times> pipes" where
  "loc_eng_msgget mkfifo_fails node fd p =
     (0, loc_eng_dmn_conn_glue_msgget LOC_ENG_MSG_REQ_Q_PATH mkfifo_fails node fd p)"

definition loc_eng_msgremove :: "int \<Rightarrow> pipes \<Rightarrow> int \<times> pipes" where
  "loc_eng_msgremove req_msgq p = (0, snd (loc_eng_dmn_conn_glue_piperemove (Some LOC_ENG_MSG_REQ_Q_PATH) req_msgq p))"

definition loc_eng_msgsnd :: "int \<Rightarrow> u8 list \<Rightarrow> pipes \<Rightarrow> (int io \<times> pipes) option" where
  "loc_eng_msgsnd msgqid msgp p = loc_eng_dmn_conn_glue_pipewrite msgqid msgp sizeof_ptr p"

definition loc_eng_msgrcv :: "int \<Rightarrow> u8 list \<Rightarrow> pipes \<Rightarrow> (int io \<times> u8 list \<times> pipes) option" where
  "loc_eng_msgrcv msgqid msgp p = loc_eng_dmn_conn_glue_piperead msgqid msgp 0 sizeof_ptr p"

definition loc_eng_msgflush :: "int \<Rightarrow> u8 list \<Rightarrow> pipes \<Rightarrow> (int io \<times> pipes) option" where
  "loc_eng_msgflush msgqid buf p = loc_eng_dmn_conn_glue_msgflush msgqid buf p"

definition loc_eng_msgunblock :: "int \<Rightarrow> pipes \<Rightarrow> int" where
  "loc_eng_msgunblock msgqid p = loc_eng_dmn_conn_glue_pipeunblock msgqid p"

definition sizeof_msgbuf :: u32 where "sizeof_msgbuf = 8"

definition loc_eng_msgsnd_raw :: "int \<Rightarrow> u8 list \<Rightarrow> u32 \<Rightarrow> pipes \<Rightarrow> (int io \<times> u8 list \<times> pipes) option" where
  "loc_eng_msgsnd_raw msgqid msgp msgsz p =
    (if msgsz < sizeof_msgbuf then Some (Ret (-1), msgp, p)
     else do {
       msgp' \<leftarrow> put_bytes 0 (le32 msgsz) msgp;
       (r, p') \<leftarrow> loc_eng_dmn_conn_glue_pipewrite msgqid msgp' (unat msgsz) p;
       Some (case r of Blocks \<Rightarrow> Blocks | Ret n \<Rightarrow> Ret (if n \<noteq> sint msgsz then -1 else n), msgp', p')
     })"

definition loc_eng_msgrcv_raw :: "int \<Rightarrow> u8 list \<Rightarrow> u32 \<Rightarrow> pipes \<Rightarrow> (int io \<times> u8 list \<times> pipes) option" where
  "loc_eng_msgrcv_raw msgqid msgp msgsz p =
    (if msgsz < sizeof_msgbuf then Some (Ret (-1), msgp, p)
     else do {
       (r, b1, p1) \<leftarrow> loc_eng_dmn_conn_glue_piperead msgqid msgp 0 (unat sizeof_msgbuf) p;
       (case r of Blocks \<Rightarrow> Some (Blocks, b1, p1) | Ret n \<Rightarrow>
          if n \<noteq> sint sizeof_msgbuf then Some (Ret (-1), b1, p1)
          else do {
            sz \<leftarrow> get32 0 b1;
            if msgsz < sz then Some (Ret (-1), b1, p1)
            else if sizeof_msgbuf < sz then do {
              (r2, b2, p2) \<leftarrow> loc_eng_dmn_conn_glue_piperead msgqid b1 (unat sizeof_msgbuf) (unat (sz - sizeof_msgbuf)) p1;
              (case r2 of Blocks \<Rightarrow> Some (Blocks, b2, p2) | Ret n2 \<Rightarrow>
                 if n2 \<noteq> sint (sz - sizeof_msgbuf) then Some (Ret (-1), b2, p2)
                 else map_option (\<lambda>sz. (Ret (sint sz), b2, p2)) (get32 0 b2))
            } else Some (Ret (sint sz), b1, p1)
          })
     })"

end
