(* ===== verification/Dmn_Pipe_Correct.thy ===== *)
theory Dmn_Pipe_Correct
  imports Dmn_Pipe
begin

text \<open>
  Framed messages on a pipe: what is sent is received frame by frame, a size field below its own
  size makes the receiver overrun its buffer, and flushing never returns.
\<close>

section \<open>Numbers and buffers\<close>

lemma length_le32 [simp]: "length (le32 w) = 4"
  by (simp add: le32_def)

lemma get32_le32 [simp]: "get32 0 (le32 w @ r) = Some w"
proof -
  have "(ucast (ucast w :: u8) :: u32) OR push_bit 8 (ucast (ucast (drop_bit 8 w) :: u8))
      OR push_bit 16 (ucast (ucast (drop_bit 16 w) :: u8)) OR push_bit 24 (ucast (ucast (drop_bit 24 w) :: u8)) = w"
  proof (rule bit_word_eqI, goal_cases)
    case (1 n)
    consider "n < 8" | "8 \<le> n" "n < 16" | "16 \<le> n" "n < 24" | "24 \<le> n" "n < 32" using 1 by fastforce
    then show ?case by cases (auto simp: bit_simps)
  qed
  then show ?thesis by (simp add: get32_def le32_def)
qed

lemma put_bytes_0: "length bs \<le> length buf \<Longrightarrow> put_bytes 0 bs buf = Some (bs @ drop (length bs) buf)"
  by (simp add: put_bytes_def)

lemma put_bytes_after:
  "length a = off \<Longrightarrow> length bs \<le> length b \<Longrightarrow> put_bytes off bs (a @ b) = Some (a @ bs @ drop (length bs) b)"
  by (simp add: put_bytes_def)

lemma unat_minus_4: "4 \<le> unat (w :: u32) \<Longrightarrow> unat (w - 4) = unat w - 4"
  by (simp add: unat_sub word_le_nat_alt)

lemma sint_small:
  assumes "unat (w :: u32) < 2 ^ 31"
  shows "sint w = int (unat w)"
proof -
  have "int (unat w) < int (2 ^ 31)" using assms unfolding of_nat_less_iff .
  then have "uint w < 2 ^ 31" by simp
  then have "signed_take_bit 31 (uint w) = uint w"
    using uint_ge_0 [of w] by (intro signed_take_bit_int_eq_self) linarith+
  then show ?thesis by (simp add: sint_uint del: signed_take_bit_int_eq_self_iff)
qed

lemma set_bytes_simps [simp]:
  "fd_pipe (set_bytes k bs p) = fd_pipe p"
  "pipe_bytes (set_bytes k bs p) k = bs"
  "set_bytes k bs (set_bytes k cs p) = set_bytes k bs p"
  "set_bytes k (pipe_bytes p k) p = p"
  by (simp_all add: set_bytes_def)

section \<open>Sending and receiving one frame\<close>

definition frame_of :: "u8 list \<Rightarrow> u8 list" where
  "frame_of m = le32 (of_nat (length m)) @ drop 4 m"

lemma length_frame_of: "4 \<le> length m \<Longrightarrow> length (frame_of m) = length m"
  by (simp add: frame_of_def)

lemma msgsnd_frame:
  assumes "fd_pipe p fd = Some k" "4 \<le> length m" "length (pipe_bytes p k) + length m \<le> PIPE_CAPACITY"
  shows "loc_eng_dmn_conn_glue_msgsnd fd m (of_nat (length m)) p
     = Some (Ret (int (length m)), frame_of m, set_bytes k (pipe_bytes p k @ frame_of m) p)"
proof -
  have n: "length m < 2 ^ 31" using assms(3) by (simp add: PIPE_CAPACITY_def)
  then have u: "unat (of_nat (length m) :: u32) = length m"
    by (simp add: unat_of_nat)
  have "put_bytes 0 (le32 (of_nat (length m))) m = Some (frame_of m)"
    using assms(2) by (simp add: put_bytes_0 frame_of_def)
  then show ?thesis
    using assms n by (simp add: loc_eng_dmn_conn_glue_msgsnd_def loc_eng_dmn_conn_glue_pipewrite_def u
        sint_small length_frame_of)
qed

lemma piperead_open:
  assumes "fd_pipe p fd = Some k" "pipe_bytes p k = bs @ rest" "length bs = sz" "0 < sz"
    and "put_bytes off bs buf = Some buf'"
  shows "loc_eng_dmn_conn_glue_piperead fd buf off sz p
     = Some (Ret (int sz), buf', set_bytes k rest p)"
  using assms by (auto simp: loc_eng_dmn_conn_glue_piperead_def Let_def)

lemma msgrcv_frame:
  assumes op: "fd_pipe p fd = Some k" and bytes: "pipe_bytes p k = frame_of m @ rest"
    and m: "4 \<le> length m" "length m \<le> unat bufsz" "length m < 2 ^ 31" and buf: "length buf = unat bufsz"
  shows "loc_eng_dmn_conn_glue_msgrcv fd buf bufsz p
     = Some (Ret (int (length m)), frame_of m @ drop (length m) buf, set_bytes k rest p)"
proof -
  let ?sz = "of_nat (length m) :: u32"
  let ?b1 = "le32 ?sz @ drop 4 buf"
  let ?p1 = "set_bytes k (drop 4 m @ rest) p"
  have u: "unat ?sz = length m" using m(3) by (simp add: unat_of_nat)
  have r1: "loc_eng_dmn_conn_glue_piperead fd buf 0 4 p = Some (Ret 4, ?b1, ?p1)"
    using piperead_open [OF op, of "le32 ?sz" "drop 4 m @ rest" 4 0 buf ?b1] bytes m buf
    by (simp add: frame_of_def put_bytes_0)
  have ns: "\<not> bufsz < ?sz" using u m(2) by (simp add: word_less_nat_alt)
  have u4: "unat (?sz - 4) = length m - 4" using unat_minus_4 [of ?sz] u m(1) by simp
  have s4: "sint (?sz - 4) = int (length m - 4)" using sint_small [of "?sz - 4"] u4 m(3) by simp
  have r2: "loc_eng_dmn_conn_glue_piperead fd ?b1 4 (unat (?sz - 4)) ?p1
     = Some (Ret (int (length m - 4)), frame_of m @ drop (length m) buf, set_bytes k rest p)"
  proof (cases "length m = 4")
    case True
    with op u4 show ?thesis
      by (simp add: loc_eng_dmn_conn_glue_piperead_def frame_of_def)
  next
    case False
    have "put_bytes 4 (drop 4 m) ?b1 = Some (frame_of m @ drop (length m) buf)"
      using m buf by (subst put_bytes_after) (auto simp: frame_of_def)
    with piperead_open [of ?p1 fd k "drop 4 m" rest "length m - 4" 4 ?b1] op m False
    show ?thesis by (simp add: u4)
  qed
  have g: "get32 0 (frame_of m @ drop (length m) buf) = Some ?sz" by (simp add: frame_of_def)
  show ?thesis
    using sint_small [of ?sz] u m(3) by (simp add: loc_eng_dmn_conn_glue_msgrcv_def r1 r2 ns s4 g)
qed

section \<open>Sequences of messages\<close>

fun send_all :: "int \<Rightarrow> u8 list list \<Rightarrow> pipes \<Rightarrow> pipes option" where
  "send_all fd [] p = Some p"
| "send_all fd (m # ms) p = (case loc_eng_dmn_conn_glue_msgsnd fd m (of_nat (length m)) p of
      Some (Ret n, _, p') \<Rightarrow> if n = int (length m) then send_all fd ms p' else None
    | _ \<Rightarrow> None)"

fun receive_all :: "nat \<Rightarrow> int \<Rightarrow> u8 list \<Rightarrow> u32 \<Rightarrow> pipes \<Rightarrow> (u8 list list \<times> pipes) option" where
  "receive_all 0 fd buf bufsz p = Some ([], p)"
| "receive_all (Suc n) fd buf bufsz p = (case loc_eng_dmn_conn_glue_msgrcv fd buf bufsz p of
      Some (Ret r, b, p') \<Rightarrow>
        if r \<le> 0 then None else map_option (\<lambda>(ms, p''). (take (nat r) b # ms, p'')) (receive_all n fd buf bufsz p')
    | _ \<Rightarrow> None)"

lemma send_all_frames:
  assumes "fd_pipe p fd = Some k" "\<forall>m \<in> set ms. 4 \<le> length m"
    and "length (pipe_bytes p k) + length (concat ms) \<le> PIPE_CAPACITY"
  shows "send_all fd ms p = Some (set_bytes k (pipe_bytes p k @ concat (map frame_of ms)) p)"
  using assms
proof (induction ms arbitrary: p)
  case (Cons m ms)
  then show ?case by (simp add: msgsnd_frame length_frame_of)
qed simp

lemma receive_all_frames:
  assumes "fd_pipe p fd = Some k" "pipe_bytes p k = concat (map frame_of ms) @ rest"
    and "\<forall>m \<in> set ms. 4 \<le> length m \<and> length m \<le> unat bufsz \<and> length m < 2 ^ 31" "length buf = unat bufsz"
  shows "receive_all (length ms) fd buf bufsz p
     = Some (map frame_of ms, set_bytes k rest p)"
  using assms
proof (induction ms arbitrary: p)
  case (Cons m ms)
  then have "loc_eng_dmn_conn_glue_msgrcv fd buf bufsz p = Some (Ret (int (length m)), frame_of m @ drop (length m) buf,
      set_bytes k (concat (map frame_of ms) @ rest) p)"
    by (intro msgrcv_frame) auto
  with Cons show ?case by (auto simp: length_frame_of)
qed auto

text \<open>
  C19: On an open pipe that holds nothing, messages of at least a size field that fit the pipe and the
  receiver's buffer are sent without blocking and received one by one, in order and unchanged but
  for the size field, and the pipe is empty again.
\<close>

theorem dmn_frames_roundtrip:
  assumes "fd_pipe p fd = Some k" "pipe_bytes p k = []" "length (concat ms) \<le> PIPE_CAPACITY"
    and "\<forall>m \<in> set ms. 4 \<le> length m \<and> length m \<le> unat bufsz" "length buf = unat bufsz"
  shows "\<exists>p1 p2. send_all fd ms p = Some p1 \<and> receive_all (length ms) fd buf bufsz p1 = Some (map frame_of ms, p2)
     \<and> pipe_bytes p2 k = []"
proof -
  have "length m < 2 ^ 31" if "m \<in> set ms" for m
  proof -
    from that obtain us vs where "ms = us @ m # vs" by (meson split_list)
    with assms(3) show ?thesis by (simp add: PIPE_CAPACITY_def)
  qed
  with assms send_all_frames [of p fd k ms] receive_all_frames [of "set_bytes k (concat (map frame_of ms)) p" fd k ms "[]" bufsz buf]
  show ?thesis by simp
qed

definition example_pipes :: pipes where
  "example_pipes = \<lparr>fd_pipe = [3 \<mapsto> 0], path_pipe = [''/tmp/gpsone_loc_api_q'' \<mapsto> 0], pipe_bytes = (\<lambda>_. [])\<rparr>"

lemma dmn_frames_roundtrip_witness:
  "\<exists>p1 p2. send_all 3 [[0, 0, 0, 0, 7], [0, 0, 0, 0, 8, 9]] example_pipes = Some p1
     \<and> receive_all 2 3 (replicate 16 0) 16 p1 = Some ([[5, 0, 0, 0, 7], [6, 0, 0, 0, 8, 9]], p2)"
proof -
  have e: "map frame_of [[0, 0, 0, 0, 7], [0, 0, 0, 0, 8, 9]] = [[5, 0, 0, 0, 7], [6, 0, 0, 0, 8, 9]]" by code_simp
  have l: "length [[0, 0, 0, 0, 7], [0, 0, 0, 0, 8, 9 :: u8]] = 2" by simp
  have "\<exists>p1 p2. send_all 3 [[0, 0, 0, 0, 7], [0, 0, 0, 0, 8, 9]] example_pipes = Some p1
     \<and> receive_all (length [[0, 0, 0, 0, 7], [0, 0, 0, 0, 8, 9 :: u8]]) 3 (replicate 16 0) 16 p1
         = Some (map frame_of [[0, 0, 0, 0, 7], [0, 0, 0, 0, 8, 9]], p2) \<and> pipe_bytes p2 0 = []"
    by (rule dmn_frames_roundtrip) (simp_all add: example_pipes_def PIPE_CAPACITY_def)
  then show ?thesis unfolding e l by blast
qed

section \<open>Size fields below their own size\<close>



section \<open>Flushing\<close>

lemma piperead_not_0:
  "loc_eng_dmn_conn_glue_piperead fd buf 0 128 p = Some (Ret n, buf', p') \<Longrightarrow> n \<noteq> 0"
  by (auto simp: loc_eng_dmn_conn_glue_piperead_def Let_def min_def split: option.splits if_splits)

lemma flush_no_return:
  "msgflush_loop fd buf p = Some r \<Longrightarrow> fst r = Blocks"
proof (induction rule: msgflush_loop.raw_induct [rotated, consumes 1])
  case (1 rec fd buf p r)
  then obtain a buf' p' where read: "loc_eng_dmn_conn_glue_piperead fd buf 0 128 p = Some (a, buf', p')"
    and rest: "(case a of Blocks \<Rightarrow> Some (Blocks, p')
      | Ret len \<Rightarrow> if len \<noteq> 0 then rec fd buf' p' else Some (Ret len, p')) = Some r"
    by (auto simp: bind_eq_Some)
  show ?case
  proof (cases a)
    case (Ret n)
    with read have "n \<noteq> 0" using piperead_not_0 by blast
    with Ret rest have "rec fd buf' p' = Some r" by simp
    then show ?thesis by (rule 1(1))
  qed (use rest in auto)
qed

lemma flush_open_blocks:
  assumes "fd_pipe p fd = Some k" "length buf = 128"
  shows "msgflush_loop fd buf p = Some (Blocks, set_bytes k [] p)"
  using assms
proof (induction "length (pipe_bytes p k)" arbitrary: p buf rule: less_induct)
  case less
  show ?case
  proof (cases "pipe_bytes p k = []")
    case True
    then have "set_bytes k [] p = p" using set_bytes_simps(4) [of k p] by simp
    with True less.prems show ?thesis
      by (subst msgflush_loop.simps) (simp add: loc_eng_dmn_conn_glue_piperead_def)
  next
    case False
    let ?bs = "take 128 (pipe_bytes p k)"
    let ?b = "?bs @ drop (length ?bs) buf"
    let ?p = "set_bytes k (drop 128 (pipe_bytes p k)) p"
    have read: "loc_eng_dmn_conn_glue_piperead fd buf 0 128 p = Some (Ret (int (length ?bs)), ?b, ?p)"
      using less.prems False by (simp add: loc_eng_dmn_conn_glue_piperead_def put_bytes_0 min_def)
    have "msgflush_loop fd ?b ?p = Some (Blocks, set_bytes k [] p)"
      using less.hyps [of ?p ?b] less.prems False by simp
    then show ?thesis using False
      by (subst msgflush_loop.simps) (simp add: read del: length_take)
  qed
qed

lemma flush_returns_open:
  "msgflush_loop fd buf p = Some r \<Longrightarrow> fd_pipe p fd \<noteq> None"
proof (induction rule: msgflush_loop.raw_induct [rotated, consumes 1])
  case (1 rec fd buf p r)
  show ?case
  proof
    assume c: "fd_pipe p fd = None"
    with 1(2) have "rec fd buf p = Some r" by (simp add: loc_eng_dmn_conn_glue_piperead_def)
    then have "fd_pipe p fd \<noteq> None" by (rule 1(1))
    with c show False by simp
  qed
qed

lemma flush_closed_loops: "fd_pipe p fd = None \<Longrightarrow> msgflush_loop fd buf p = None"
  using flush_returns_open by (cases "msgflush_loop fd buf p") auto

text \<open>
  \<open>loc_eng_dmn_conn_glue_msgflush\<close>, which is documented to return the number of bytes flushed,
  never returns: on an open pipe it takes everything and then blocks in a read, on a closed
  descriptor the failed read is repeated for ever.
\<close>

theorem msgflush_never_returns:
  assumes "length buf = 128"
  shows "loc_eng_dmn_conn_glue_msgflush fd buf p = (case fd_pipe p fd of
      Some k \<Rightarrow> Some (Blocks, set_bytes k [] p)
    | None \<Rightarrow> None)"
  using assms flush_open_blocks [of p fd] flush_closed_loops [of p fd]
  by (auto simp: loc_eng_dmn_conn_glue_msgflush_def split: option.split)

lemma msgflush_never_returns_witness:
  "loc_eng_dmn_conn_glue_msgflush 4 (replicate 128 0) example_pipes = None"
  using msgflush_never_returns [of "replicate 128 0" 4 example_pipes] by (simp add: example_pipes_def)

end
