(* ===== verification/Dmn_Conn.thy ===== *)
theory Dmn_Conn
  imports Dmn_Pipe_Correct Loc_Eng_Inv
begin

text \<open>
  The server that talks to the GPS daemons over named pipes (loc_eng_dmn_conn.cpp and
  loc_eng_dmn_conn_handler.cpp): control messages come in on one pipe and become messages of the
  location engine; the engine's answers go out on the pipe of the daemon that asked. A control
  message is its bytes, read and written at the offsets of \<open>struct ctrl_msgbuf\<close>; memory that the
  code does not initialise is an argument. The engine's messages are queued on the engine of
  \<open>Loc_Eng\<close>; the permissions of the pipes (\<open>chmod\<close>, \<open>chown\<close>) are not modelled.
\<close>

section \<open>Control messages\<close>

definition GPSONE_LOC_API_IF_REQUEST :: u8 where [simp]: "GPSONE_LOC_API_IF_REQUEST = 0xF0"
definition GPSONE_LOC_API_IF_RELEASE :: u8 where [simp]: "GPSONE_LOC_API_IF_RELEASE = 0xF1"
definition GPSONE_LOC_API_RESPONSE :: u8 where [simp]: "GPSONE_LOC_API_RESPONSE = 0xF2"
definition GPSONE_UNBLOCK :: u8 where [simp]: "GPSONE_UNBLOCK = 0xF3"

fun gpsone_if_status_code :: "gpsone_if_status \<Rightarrow> i32" where
  "gpsone_if_status_code GPSONE_LOC_API_IF_REQUEST_SUCCESS = 0xF0"
| "gpsone_if_status_code GPSONE_LOC_API_IF_RELEASE_SUCCESS = 0xF1"
| "gpsone_if_status_code GPSONE_LOC_API_IF_FAILURE = 0xF2"

datatype ctrl_if_req_type_e_type = IF_REQUEST_TYPE_SUPL | IF_REQUEST_TYPE_WIFI | IF_REQUEST_TYPE_ANY

fun if_req_type_code :: "ctrl_if_req_type_e_type \<Rightarrow> u32" where
  "if_req_type_code IF_REQUEST_TYPE_SUPL = 0"
| "if_req_type_code IF_REQUEST_TYPE_WIFI = 1"
| "if_req_type_code IF_REQUEST_TYPE_ANY = 2"

text \<open>
  \<open>struct ctrl_msgbuf\<close>: \<open>msgsz\<close> at 0, \<open>reserved1\<close> at 4, \<open>reserved2\<close> at 8, \<open>ctrl_type\<close> at 12, the union
  at 16. In \<open>ctrl_msg_if_request\<close>: \<open>type\<close>, \<open>sender_id\<close>, \<open>ipv4_addr\<close>, then 16 bytes \<open>ipv6_addr\<close>, 33
  bytes \<open>ssid\<close> and 33 bytes \<open>password\<close>.
\<close>

definition sizeof_ctrl_msgbuf :: nat where "sizeof_ctrl_msgbuf = 112"
definition off_ctrl_type :: nat where "off_ctrl_type = 12"
definition off_cmsg :: nat where "off_cmsg = 16"
definition off_type :: nat where "off_type = 16"
definition off_sender_id :: nat where "off_sender_id = 20"
definition off_ipv4 :: nat where "off_ipv4 = 24"
definition off_ipv6 :: nat where "off_ipv6 = 28"
definition off_ssid :: nat where "off_ssid = 44"
definition off_password :: nat where "off_password = 77"

lemmas ctrl_offsets = off_ctrl_type_def off_cmsg_def off_type_def off_sender_id_def off_ipv4_def off_ipv6_def
  off_ssid_def off_password_def

definition get8 :: "nat \<Rightarrow> u8 list \<Rightarrow> u8 option" where
  "get8 off buf = (if off < length buf then Some (buf ! off) else None)"

definition get_bytes :: "nat \<Rightarrow> nat \<Rightarrow> u8 list \<Rightarrow> u8 list option" where
  "get_bytes off n buf = (if off + n \<le> length buf then Some (take n (drop off buf)) else None)"

text \<open>\<open>strlcpy(dst, buf + off, n)\<close>, which reads up to the terminator wherever it is.\<close>

definition strlcpy_at :: "nat \<Rightarrow> nat \<Rightarrow> u8 list \<Rightarrow> string option" where
  "strlcpy_at n off buf = (if 0 \<in> set (drop off buf)
     then Some (strlcpy n (map (\<lambda>b. char_of (unat b)) (drop off buf))) else None)"

section \<open>The server's state\<close>

record dmn_conn =
  os :: pipes
  loc_api_server_msgqid :: int
  loc_api_resp_msgqid :: int
  quipc_msgqid :: int
  msapm_msgqid :: int
  loc_api_handle :: bool
  global_loc_api_q_path :: string
  global_loc_api_resp_q_path :: string
  global_quipc_ctrl_q_path :: string
  global_msapm_ctrl_q_path :: string

section \<open>Handlers of the control messages\<close>

definition loc_if_type :: "u32 \<Rightarrow> loc_if_req_type_e_type option" where
  "loc_if_type t =
    (if t = if_req_type_code IF_REQUEST_TYPE_SUPL then Some LOC_ENG_IF_REQUEST_TYPE_SUPL
     else if t = if_req_type_code IF_REQUEST_TYPE_WIFI then Some LOC_ENG_IF_REQUEST_TYPE_WIFI
     else if t = if_req_type_code IF_REQUEST_TYPE_ANY then Some LOC_ENG_IF_REQUEST_TYPE_ANY
     else None)"

definition loc_eng_dmn_conn_loc_api_server_if_request_handler ::
    "bool \<Rightarrow> u8 list \<Rightarrow> engine \<Rightarrow> (int \<times> engine) option" where
  "loc_eng_dmn_conn_loc_api_server_if_request_handler handle pmsg e =
    (if \<not> handle then Some (1, e)
     else do {
       t \<leftarrow> get32 off_type pmsg;
       (case loc_if_type t of
          None \<Rightarrow> Some (-1, e)
        | Some ty \<Rightarrow> do {
            sender \<leftarrow> get32 off_sender_id pmsg;
            if sender = sender_id_code LOC_ENG_IF_REQUEST_SENDER_ID_QUIPC then do {
              ssid \<leftarrow> strlcpy_at SSID_BUF_SIZE off_ssid pmsg;
              password \<leftarrow> strlcpy_at SSID_BUF_SIZE off_password pmsg;
              map_option (Pair 0) (snd_deferred
                (loc_eng_msg_request_wifi ty LOC_ENG_IF_REQUEST_SENDER_ID_QUIPC (Some ssid) (Some password)) e)
            } else if sender = sender_id_code LOC_ENG_IF_REQUEST_SENDER_ID_MSAPM then do {
              ssid \<leftarrow> strlcpy_at SSID_BUF_SIZE off_ssid pmsg;
              password \<leftarrow> strlcpy_at SSID_BUF_SIZE off_password pmsg;
              map_option (Pair 0) (snd_deferred
                (loc_eng_msg_request_wifi ty LOC_ENG_IF_REQUEST_SENDER_ID_MSAPM (Some ssid) (Some password)) e)
            } else if sender = sender_id_code LOC_ENG_IF_REQUEST_SENDER_ID_GPSONE_DAEMON then do {
              ipv4 \<leftarrow> get32 off_ipv4 pmsg;
              ipv6 \<leftarrow> get_bytes off_ipv6 16 pmsg;
              map_option (Pair 0) (snd_deferred (loc_eng_msg_request_bit ty ipv4 (Some ipv6)) e)
            } else Some (-1, e)
          })
     })"

text \<open>The release handler has no check of the handle: without one, queueing follows a null pointer.\<close>

definition loc_eng_dmn_conn_loc_api_server_if_release_handler ::
    "bool \<Rightarrow> u8 list \<Rightarrow> engine \<Rightarrow> (int \<times> engine) option" where
  "loc_eng_dmn_conn_loc_api_server_if_release_handler handle pmsg e = do {
     t \<leftarrow> get32 off_type pmsg;
     (case loc_if_type t of
        None \<Rightarrow> Some (-1, e)
      | Some ty \<Rightarrow> do {
          sender \<leftarrow> get32 off_sender_id pmsg;
          if sender = sender_id_code LOC_ENG_IF_REQUEST_SENDER_ID_QUIPC then do {
            ssid \<leftarrow> strlcpy_at SSID_BUF_SIZE off_ssid pmsg;
            password \<leftarrow> strlcpy_at SSID_BUF_SIZE off_password pmsg;
            if handle then map_option (Pair 0) (snd_deferred
              (loc_eng_msg_release_wifi ty LOC_ENG_IF_REQUEST_SENDER_ID_QUIPC (Some ssid) (Some password)) e)
            else None
          } else if sender = sender_id_code LOC_ENG_IF_REQUEST_SENDER_ID_MSAPM then do {
            ssid \<leftarrow> strlcpy_at SSID_BUF_SIZE off_ssid pmsg;
            password \<leftarrow> strlcpy_at SSID_BUF_SIZE off_password pmsg;
            if handle then map_option (Pair 0) (snd_deferred
              (loc_eng_msg_release_wifi ty LOC_ENG_IF_REQUEST_SENDER_ID_MSAPM (Some ssid) (Some password)) e)
            else None
          } else if sender = sender_id_code LOC_ENG_IF_REQUEST_SENDER_ID_GPSONE_DAEMON then do {
            ipv4 \<leftarrow> get32 off_ipv4 pmsg;
            ipv6 \<leftarrow> get_bytes off_ipv6 16 pmsg;
            if handle then map_option (Pair 0) (snd_deferred (loc_eng_msg_release_bit ty ipv4 (Some ipv6)) e)
            else None
          } else Some (-1, e)
        })
   }"

section \<open>The server\<close>

text \<open>\<open>gets\<close> holds the system's answers for the four pipes: whether \<open>mkfifo\<close> fails, its node, the descriptor.\<close>

definition loc_api_server_proc_init :: "(bool \<times> nat \<times> int) \<Rightarrow> (bool \<times> nat \<times> int) \<Rightarrow> (bool \<times> nat \<times> int) \<Rightarrow>
    (bool \<times> nat \<times> int) \<Rightarrow> dmn_conn \<Rightarrow> int \<times> dmn_conn" where
  "loc_api_server_proc_init a b c f d =
    (let get = (\<lambda>path (fails, node, fd) p. loc_eng_dmn_conn_glue_msgget path fails node fd p);
         (server, p1) = get (global_loc_api_q_path d) a (os d);
         (resp, p2) = get (global_loc_api_resp_q_path d) b p1;
         (quipc, p3) = get (global_quipc_ctrl_q_path d) c p2;
         (msapm, p4) = get (global_msapm_ctrl_q_path d) f p3
     in (0, d\<lparr>os := p4, loc_api_server_msgqid := server, loc_api_resp_msgqid := resp,
              quipc_msgqid := quipc, msapm_msgqid := msapm\<rparr>))"

definition loc_api_server_proc_pre :: int where
  "loc_api_server_proc_pre = 0"

text \<open>One turn of the server; \<open>malloc_ret\<close> is what \<open>malloc\<close> answers: memory with its contents.\<close>

definition loc_api_server_proc :: "u8 list option \<Rightarrow> dmn_conn \<Rightarrow> engine \<Rightarrow> (int io \<times> dmn_conn \<times> engine) option" where
  "loc_api_server_proc malloc_ret d e = (case malloc_ret of
      None \<Rightarrow> Some (Ret (-1), d, e)
    | Some mem \<Rightarrow> do {
        (r, buf, p) \<leftarrow> loc_eng_dmn_conn_glue_msgrcv (loc_api_server_msgqid d) mem (of_nat (sizeof_ctrl_msgbuf + 256)) (os d);
        let d' = d\<lparr>os := p\<rparr>;
        (case r of
           Blocks \<Rightarrow> Some (Blocks, d', e)
         | Ret len \<Rightarrow>
             if len \<le> 0 then Some (Ret 0, d', e)
             else do {
               ctrl_type \<leftarrow> get8 off_ctrl_type buf;
               (_, e') \<leftarrow>
                 (if ctrl_type = GPSONE_LOC_API_IF_REQUEST
                  then loc_eng_dmn_conn_loc_api_server_if_request_handler (loc_api_handle d) buf e
                  else if ctrl_type = GPSONE_LOC_API_IF_RELEASE
                  then loc_eng_dmn_conn_loc_api_server_if_release_handler (loc_api_handle d) buf e
                  else Some (0, e));
               Some (Ret 0, d', e')
             })
      })"

definition loc_api_server_proc_post :: "dmn_conn \<Rightarrow> int \<times> dmn_conn" where
  "loc_api_server_proc_post d =
    (let p1 = snd (loc_eng_dmn_conn_glue_msgremove (Some (global_loc_api_q_path d)) (loc_api_server_msgqid d) (os d));
         p2 = snd (loc_eng_dmn_conn_glue_msgremove (Some (global_loc_api_resp_q_path d)) (loc_api_resp_msgqid d) p1);
         p3 = snd (loc_eng_dmn_conn_glue_msgremove (Some (global_quipc_ctrl_q_path d)) (quipc_msgqid d) p2);
         p4 = snd (loc_eng_dmn_conn_glue_msgremove (Some (global_msapm_ctrl_q_path d)) (msapm_msgqid d) p3)
     in (0, d\<lparr>os := p4\<rparr>))"

text \<open>\<open>stack\<close> is the uninitialised local \<open>struct ctrl_msgbuf\<close>.\<close>

definition loc_eng_dmn_conn_unblock_proc :: "u8 list \<Rightarrow> dmn_conn \<Rightarrow> (int io \<times> dmn_conn) option" where
  "loc_eng_dmn_conn_unblock_proc stack d = do {
     m \<leftarrow> put_bytes off_ctrl_type [GPSONE_UNBLOCK] stack;
     (r, _, p) \<leftarrow> loc_eng_dmn_conn_glue_msgsnd (loc_api_server_msgqid d) m (of_nat sizeof_ctrl_msgbuf) (os d);
     Some (case r of Blocks \<Rightarrow> Blocks | Ret _ \<Rightarrow> Ret 0, d\<lparr>os := p\<rparr>)
   }"

definition loc_eng_dmn_conn_loc_api_server_launch :: "string option \<Rightarrow> string option \<Rightarrow> bool \<Rightarrow> dmn_conn \<Rightarrow> dmn_conn" where
  "loc_eng_dmn_conn_loc_api_server_launch loc_api_q_path resp_q_path agps_handle d =
    (let d1 = d\<lparr>loc_api_handle := agps_handle\<rparr>;
         d2 = (case loc_api_q_path of None \<Rightarrow> d1 | Some s \<Rightarrow> d1\<lparr>global_loc_api_q_path := s\<rparr>)
     in (case resp_q_path of None \<Rightarrow> d2 | Some s \<Rightarrow> d2\<lparr>global_loc_api_resp_q_path := s\<rparr>))"

definition loc_eng_dmn_conn_loc_api_server_data_conn :: "i32 \<Rightarrow> i32 \<Rightarrow> u8 list \<Rightarrow> dmn_conn \<Rightarrow>
    (int io \<times> dmn_conn) option" where
  "loc_eng_dmn_conn_loc_api_server_data_conn sender_id status stack d = do {
     m1 \<leftarrow> put_bytes off_ctrl_type [GPSONE_LOC_API_RESPONSE] stack;
     m \<leftarrow> put_bytes off_cmsg (le32 status) m1;
     (let send = (\<lambda>fd. map_option (\<lambda>(r, _, p). (case r of Blocks \<Rightarrow> Blocks | Ret n \<Rightarrow> Ret (if n < 0 then -1 else 0),
                     d\<lparr>os := p\<rparr>)) (loc_eng_dmn_conn_glue_msgsnd fd m (of_nat sizeof_ctrl_msgbuf) (os d)))
      in if sender_id = sender_id_code LOC_ENG_IF_REQUEST_SENDER_ID_QUIPC then send (quipc_msgqid d)
         else if sender_id = sender_id_code LOC_ENG_IF_REQUEST_SENDER_ID_MSAPM then send (msapm_msgqid d)
         else if sender_id = sender_id_code LOC_ENG_IF_REQUEST_SENDER_ID_GPSONE_DAEMON then send (loc_api_resp_msgqid d)
         else Some (Ret 0, d))
   }"

end
