(* ===== verification/Dmn_Conn_Correct.thy ===== *)
theory Dmn_Conn_Correct
  imports Dmn_Conn
begin

text \<open>
  The daemon connection end to end: a request or release that a daemon writes to the server's pipe
  becomes the engine message with the same contents, and the engine's answer reaches the daemon
  that asked.
\<close>

section \<open>Reading at an offset\<close>

lemma get32_at: "length a = off \<Longrightarrow> get32 off (a @ le32 w @ r) = Some w"
  using get32_le32 [of w r] by (simp add: get32_def)

lemma get8_at: "length a = off \<Longrightarrow> get8 off (a @ b # r) = Some b"
  by (auto simp: get8_def nth_append)

lemma get_bytes_at: "length a = off \<Longrightarrow> length bs = n \<Longrightarrow> get_bytes off n (a @ bs @ r) = Some bs"
  by (simp add: get_bytes_def)

lemma strlcpy_at_field:
  assumes "length a = off" "length bs = n" "0 \<in> set bs"
  shows "strlcpy_at n off (a @ bs @ r) = Some (text_of bs)"
proof -
  have t: "cstr (map (\<lambda>b. char_of (unat b)) (bs @ r)) = text_of bs"
    using text_of_append [OF assms(3), of r] by (simp only: text_of_def)
  have "length (text_of bs) < n" using length_text_of [OF assms(3)] assms(2) by simp
  then have "strlcpy n (map (\<lambda>b. char_of (unat b)) (bs @ r)) = text_of bs"
    unfolding strlcpy_def t by simp
  then show ?thesis using assms by (simp add: strlcpy_at_def)
qed

section \<open>The bytes of a control message\<close>

definition ctrl_if_msg :: "u8 \<Rightarrow> u32 \<Rightarrow> u32 \<Rightarrow> u32 \<Rightarrow> u8 list \<Rightarrow> u8 list \<Rightarrow> u8 list \<Rightarrow> u8 list" where
  "ctrl_if_msg ctrl_type ty sender ipv4 ipv6 ssid password =
     replicate 12 0 @ ctrl_type # replicate 3 0 @ le32 ty @ le32 sender @ le32 ipv4 @ ipv6 @ ssid @ password @ [0, 0]"

lemma length_ctrl_if_msg:
  "length ipv6 = 16 \<Longrightarrow> length ssid = 33 \<Longrightarrow> length password = 33 \<Longrightarrow>
   length (ctrl_if_msg ct ty sender ipv4 ipv6 ssid password) = sizeof_ctrl_msgbuf"
  by (simp add: ctrl_if_msg_def sizeof_ctrl_msgbuf_def)

text \<open>What the server's buffer holds after such a message has been received.\<close>

lemma received_fields:
  assumes "length ipv6 = 16" "length ssid = 33" "length password = 33" "0 \<in> set ssid" "0 \<in> set password"
    and buf: "buf = frame_of (ctrl_if_msg ct ty sender ipv4 ipv6 ssid password) @ r"
  shows "get8 off_ctrl_type buf = Some ct" "get32 off_type buf = Some ty" "get32 off_sender_id buf = Some sender"
    "get32 off_ipv4 buf = Some ipv4" "get_bytes off_ipv6 16 buf = Some ipv6"
    "strlcpy_at SSID_BUF_SIZE off_ssid buf = Some (text_of ssid)"
    "strlcpy_at SSID_BUF_SIZE off_password buf = Some (text_of password)"
proof -
  let ?h = "le32 (of_nat (length (ctrl_if_msg ct ty sender ipv4 ipv6 ssid password))) @ replicate 8 0"
  let ?t = "[0, 0] @ r"
  have b: "buf = ?h @ ct # replicate 3 0 @ le32 ty @ le32 sender @ le32 ipv4 @ ipv6 @ ssid @ password @ ?t"
    unfolding buf frame_of_def by (simp add: ctrl_if_msg_def)
  show "get8 off_ctrl_type buf = Some ct" unfolding b by (rule get8_at) (simp add: ctrl_offsets)
  show "get32 off_type buf = Some ty"
    using get32_at [of "?h @ ct # replicate 3 0" off_type ty "le32 sender @ le32 ipv4 @ ipv6 @ ssid @ password @ ?t"]
    unfolding b by (simp add: ctrl_offsets)
  show "get32 off_sender_id buf = Some sender"
    using get32_at [of "?h @ ct # replicate 3 0 @ le32 ty" off_sender_id sender "le32 ipv4 @ ipv6 @ ssid @ password @ ?t"]
    unfolding b by (simp add: ctrl_offsets)
  show "get32 off_ipv4 buf = Some ipv4"
    using get32_at [of "?h @ ct # replicate 3 0 @ le32 ty @ le32 sender" off_ipv4 ipv4 "ipv6 @ ssid @ password @ ?t"]
    unfolding b by (simp add: ctrl_offsets)
  show "get_bytes off_ipv6 16 buf = Some ipv6"
    using get_bytes_at [of "?h @ ct # replicate 3 0 @ le32 ty @ le32 sender @ le32 ipv4" off_ipv6 ipv6 16 "ssid @ password @ ?t"]
      assms(1) unfolding b by (simp add: ctrl_offsets)
  show "strlcpy_at SSID_BUF_SIZE off_ssid buf = Some (text_of ssid)"
    using strlcpy_at_field [of "?h @ ct # replicate 3 0 @ le32 ty @ le32 sender @ le32 ipv4 @ ipv6" off_ssid ssid 33 "password @ ?t"]
      assms unfolding b by (simp add: ctrl_offsets)
  show "strlcpy_at SSID_BUF_SIZE off_password buf = Some (text_of password)"
    using strlcpy_at_field [of "?h @ ct # replicate 3 0 @ le32 ty @ le32 sender @ le32 ipv4 @ ipv6 @ ssid" off_password password 33 ?t]
      assms unfolding b by (simp add: ctrl_offsets)
qed
section \<open>Requests and releases\<close>

fun loc_type_of :: "ctrl_if_req_type_e_type \<Rightarrow> loc_if_req_type_e_type" where
  "loc_type_of IF_REQUEST_TYPE_SUPL = LOC_ENG_IF_REQUEST_TYPE_SUPL"
| "loc_type_of IF_REQUEST_TYPE_WIFI = LOC_ENG_IF_REQUEST_TYPE_WIFI"
| "loc_type_of IF_REQUEST_TYPE_ANY = LOC_ENG_IF_REQUEST_TYPE_ANY"

definition daemon_senders :: "loc_if_req_sender_id_e_type set" where
  "daemon_senders = {LOC_ENG_IF_REQUEST_SENDER_ID_QUIPC, LOC_ENG_IF_REQUEST_SENDER_ID_MSAPM,
     LOC_ENG_IF_REQUEST_SENDER_ID_GPSONE_DAEMON}"

definition engine_msg :: "bool \<Rightarrow> loc_if_req_type_e_type \<Rightarrow> loc_if_req_sender_id_e_type \<Rightarrow> u32 \<Rightarrow> u8 list \<Rightarrow>
    string \<Rightarrow> string \<Rightarrow> loc_eng_msg" where
  "engine_msg request ty sender ipv4 ipv6 ssid password =
     (if sender = LOC_ENG_IF_REQUEST_SENDER_ID_GPSONE_DAEMON
      then (if request then loc_eng_msg_request_bit else loc_eng_msg_release_bit) ty ipv4 (Some ipv6)
      else (if request then loc_eng_msg_request_wifi else loc_eng_msg_release_wifi) ty sender (Some ssid) (Some password))"

lemma loc_if_type_code: "loc_if_type (if_req_type_code t) = Some (loc_type_of t)"
  by (cases t) (simp_all add: loc_if_type_def)

lemma snd_deferred_queued:
  assumes "eng_context e" "me e = Some c"
  shows "\<exists>e'. snd_deferred m e = Some e' \<and> deferred_q (the (me e')) = deferred_q c @ [m]"
  using assms by (simp add: snd_deferred_def)

text \<open>One turn of the server on a message that a daemon has written.\<close>

lemma server_proc_request:
  assumes pipe: "fd_pipe (os d) (loc_api_server_msgqid d) = Some k"
    and bytes: "pipe_bytes (os d) k = frame_of (ctrl_if_msg (if request then GPSONE_LOC_API_IF_REQUEST else GPSONE_LOC_API_IF_RELEASE)
                  (if_req_type_code t) (sender_id_code s) ipv4 ipv6 ssid password) @ rest"
    and fields: "length ipv6 = 16" "length ssid = 33" "length password = 33" "0 \<in> set ssid" "0 \<in> set password"
    and mem: "length mem = sizeof_ctrl_msgbuf + 256" and handle: "loc_api_handle d" and sender: "s \<in> daemon_senders"
    and e': "snd_deferred (engine_msg request (loc_type_of t) s ipv4 ipv6 (text_of ssid) (text_of password)) e = Some e'"
  shows "loc_api_server_proc (Some mem) d e = Some (Ret 0, d\<lparr>os := set_bytes k rest (os d)\<rparr>, e')"
proof -
  let ?ct = "if request then GPSONE_LOC_API_IF_REQUEST else GPSONE_LOC_API_IF_RELEASE"
  let ?m = "ctrl_if_msg ?ct (if_req_type_code t) (sender_id_code s) ipv4 ipv6 ssid password"
  define buf where "buf = frame_of ?m @ drop (length ?m) mem"
  let ?p = "set_bytes k rest (os d)"
  have lm: "length ?m = 112" using length_ctrl_if_msg [OF fields(1-3)] by (simp add: sizeof_ctrl_msgbuf_def)
  have sz: "unat (of_nat (sizeof_ctrl_msgbuf + 256) :: u32) = 368" by (simp add: sizeof_ctrl_msgbuf_def)
  have rcv: "loc_eng_dmn_conn_glue_msgrcv (loc_api_server_msgqid d) mem (of_nat (sizeof_ctrl_msgbuf + 256)) (os d)
     = Some (Ret 112, buf, ?p)"
    using msgrcv_frame [OF pipe bytes, of "of_nat (sizeof_ctrl_msgbuf + 256)" mem] lm mem
    unfolding sz by (simp add: sizeof_ctrl_msgbuf_def buf_def)
  note flds = received_fields [OF fields buf_def]
  have req: "request \<Longrightarrow> loc_eng_dmn_conn_loc_api_server_if_request_handler True buf e = Some (0, e')"
    using sender e' unfolding daemon_senders_def
    by (auto simp: loc_eng_dmn_conn_loc_api_server_if_request_handler_def flds(2-7) loc_if_type_code engine_msg_def
        simp del: SSID_BUF_SIZE_def)
  have rel: "\<not> request \<Longrightarrow> loc_eng_dmn_conn_loc_api_server_if_release_handler True buf e = Some (0, e')"
    using sender e' unfolding daemon_senders_def
    by (auto simp: loc_eng_dmn_conn_loc_api_server_if_release_handler_def flds(2-7) loc_if_type_code engine_msg_def
        simp del: SSID_BUF_SIZE_def)
  show ?thesis
    using handle req rel flds(1) unfolding loc_api_server_proc_def option.case rcv by (cases request) simp_all
qed

text \<open>
  C14: A request or release that a daemon has written to the server's pipe, with terminated texts and
  a sender the server knows, is handled in one turn: it leaves the pipe, and exactly the engine
  message with the same type, sender, addresses and texts is queued for the engine.
\<close>

theorem dmn_request_delivered:
  assumes pipe: "fd_pipe (os d) (loc_api_server_msgqid d) = Some k"
    and bytes: "pipe_bytes (os d) k = frame_of (ctrl_if_msg (if request then GPSONE_LOC_API_IF_REQUEST else GPSONE_LOC_API_IF_RELEASE)
                  (if_req_type_code t) (sender_id_code s) ipv4 ipv6 ssid password) @ rest"
    and fields: "length ipv6 = 16" "length ssid = 33" "length password = 33" "0 \<in> set ssid" "0 \<in> set password"
    and mem: "length mem = sizeof_ctrl_msgbuf + 256" and handle: "loc_api_handle d"
    and eng: "eng_context e" "me e = Some c" and sender: "s \<in> daemon_senders"
  shows "\<exists>d' e'. loc_api_server_proc (Some mem) d e = Some (Ret 0, d', e') \<and> pipe_bytes (os d') k = rest
     \<and> deferred_q (the (me e')) = deferred_q c
         @ [engine_msg request (loc_type_of t) s ipv4 ipv6 (text_of ssid) (text_of password)]"
proof -
  let ?msg = "engine_msg request (loc_type_of t) s ipv4 ipv6 (text_of ssid) (text_of password)"
  obtain e' where e': "snd_deferred ?msg e = Some e'" "deferred_q (the (me e')) = deferred_q c @ [?msg]"
    using snd_deferred_queued [OF eng] by blast
  from server_proc_request [OF pipe bytes fields mem handle sender e'(1)] e'(2) show ?thesis by simp
qed

definition example_dmn :: dmn_conn where
  "example_dmn = \<lparr>os = \<lparr>fd_pipe = [3 \<mapsto> 0, 4 \<mapsto> 1, 5 \<mapsto> 2, 6 \<mapsto> 3], path_pipe = Map.empty, pipe_bytes = (\<lambda>_. [])\<rparr>,
     loc_api_server_msgqid = 3, loc_api_resp_msgqid = 4, quipc_msgqid = 5, msapm_msgqid = 6, loc_api_handle = True,
     global_loc_api_q_path = ''/tmp/gpsone_loc_api_q'', global_loc_api_resp_q_path = ''/tmp/gpsone_loc_api_resp_q'',
     global_quipc_ctrl_q_path = ''/tmp/quipc_ctrl_q'', global_msapm_ctrl_q_path = ''/tmp/msapm_ctrl_q''\<rparr>"

lemma dmn_request_delivered_witness:
  "\<exists>d' e'. loc_api_server_proc (Some (replicate 368 7))
      (example_dmn\<lparr>os := set_bytes 0 (frame_of (ctrl_if_msg 0xF0 1 1 0 (replicate 16 0)
         ([104, 105] @ replicate 31 0) (replicate 33 0))) (os example_dmn)\<rparr>) example_engine = Some (Ret 0, d', e')
     \<and> pipe_bytes (os d') 0 = [] \<and> deferred_q (the (me e')) = [engine_msg True LOC_ENG_IF_REQUEST_TYPE_WIFI
          LOC_ENG_IF_REQUEST_SENDER_ID_MSAPM 0 (replicate 16 0) (text_of ([104, 105] @ replicate 31 0)) (text_of (replicate 33 0))]"
proof -
  obtain c where c: "me example_engine = Some c" "deferred_q c = []" by (simp add: example_defs)
  let ?d = "example_dmn\<lparr>os := set_bytes 0 (frame_of (ctrl_if_msg 0xF0 1 1 0 (replicate 16 0)
         ([104, 105] @ replicate 31 0) (replicate 33 0))) (os example_dmn)\<rparr>"
  have "\<exists>d' e'. loc_api_server_proc (Some (replicate 368 7)) ?d example_engine = Some (Ret 0, d', e') \<and> pipe_bytes (os d') 0 = []
     \<and> deferred_q (the (me e')) = deferred_q c @ [engine_msg True (loc_type_of IF_REQUEST_TYPE_WIFI)
          LOC_ENG_IF_REQUEST_SENDER_ID_MSAPM 0 (replicate 16 0) (text_of ([104, 105] @ replicate 31 0)) (text_of (replicate 33 0))]"
    by (rule dmn_request_delivered)
       (simp_all add: example_dmn_def sizeof_ctrl_msgbuf_def c(1) daemon_senders_def, simp add: example_defs)
  then show ?thesis by (simp add: c(2))
qed

section \<open>Answers\<close>

fun resp_fd :: "loc_if_req_sender_id_e_type \<Rightarrow> dmn_conn \<Rightarrow> int" where
  "resp_fd LOC_ENG_IF_REQUEST_SENDER_ID_QUIPC d = quipc_msgqid d"
| "resp_fd LOC_ENG_IF_REQUEST_SENDER_ID_MSAPM d = msapm_msgqid d"
| "resp_fd _ d = loc_api_resp_msgqid d"

lemma data_conn_delivers:
  assumes "s \<in> daemon_senders" "fd_pipe (os d) (resp_fd s d) = Some k" "pipe_bytes (os d) k = []"
    and "length stack = sizeof_ctrl_msgbuf" "length buf = unat bufsz" "sizeof_ctrl_msgbuf \<le> unat bufsz"
  shows "\<exists>d' b p. loc_eng_dmn_conn_loc_api_server_data_conn (sender_id_code s) (gpsone_if_status_code st) stack d = Some (Ret 0, d')
     \<and> (\<forall>j. j \<noteq> k \<longrightarrow> pipe_bytes (os d') j = pipe_bytes (os d) j)
     \<and> loc_eng_dmn_conn_glue_msgrcv (resp_fd s d) buf bufsz (os d') = Some (Ret (int sizeof_ctrl_msgbuf), b, p)
     \<and> get8 off_ctrl_type b = Some GPSONE_LOC_API_RESPONSE \<and> get32 off_cmsg b = Some (gpsone_if_status_code st)
     \<and> pipe_bytes p k = []"
proof -
  let ?st = "gpsone_if_status_code st"
  define m where "m = take 12 stack @ GPSONE_LOC_API_RESPONSE # take 3 (drop 13 stack) @ le32 ?st @ drop 20 stack"
  have lm: "length m = 112" using assms(4) by (simp add: m_def sizeof_ctrl_msgbuf_def)
  have m1: "put_bytes off_ctrl_type [GPSONE_LOC_API_RESPONSE] stack
      = Some (take 12 stack @ GPSONE_LOC_API_RESPONSE # drop 13 stack)"
    using assms(4) by (simp add: put_bytes_def ctrl_offsets sizeof_ctrl_msgbuf_def)
  have m2: "put_bytes off_cmsg (le32 ?st) (take 12 stack @ GPSONE_LOC_API_RESPONSE # drop 13 stack) = Some m"
    using assms(4) by (simp add: put_bytes_def ctrl_offsets sizeof_ctrl_msgbuf_def m_def min_def take_Cons' drop_Cons')
  have snd: "loc_eng_dmn_conn_glue_msgsnd (resp_fd s d) m (of_nat sizeof_ctrl_msgbuf) (os d)
      = Some (Ret 112, frame_of m, set_bytes k (frame_of m) (os d))"
    using msgsnd_frame [OF assms(2), of m] assms(3) lm by (simp add: PIPE_CAPACITY_def sizeof_ctrl_msgbuf_def)
  have data: "loc_eng_dmn_conn_loc_api_server_data_conn (sender_id_code s) ?st stack d
      = Some (Ret 0, d\<lparr>os := set_bytes k (frame_of m) (os d)\<rparr>)"
    using assms(1) snd
    unfolding daemon_senders_def loc_eng_dmn_conn_loc_api_server_data_conn_def m1 bind.bind_lunit m2
    by auto
  have rcv: "loc_eng_dmn_conn_glue_msgrcv (resp_fd s d) buf bufsz (set_bytes k (frame_of m) (os d))
      = Some (Ret 112, frame_of m @ drop 112 buf, set_bytes k [] (os d))"
    using msgrcv_frame [of "set_bytes k (frame_of m) (os d)" "resp_fd s d" k m "[]" bufsz buf] assms lm
    by (simp add: sizeof_ctrl_msgbuf_def)
  have f: "frame_of m @ r = (le32 112 @ take 8 (drop 4 stack)) @ GPSONE_LOC_API_RESPONSE # take 3 (drop 13 stack) @ le32 ?st @ drop 20 stack @ r" for r
    using assms(4) lm unfolding frame_of_def by (simp add: m_def sizeof_ctrl_msgbuf_def drop_take)
  have "get8 off_ctrl_type (frame_of m @ r) = Some GPSONE_LOC_API_RESPONSE" for r
    unfolding f by (rule get8_at) (use assms(4) in \<open>simp add: ctrl_offsets sizeof_ctrl_msgbuf_def\<close>)
  moreover have "get32 off_cmsg (frame_of m @ r) = Some ?st" for r
    unfolding f using get32_at [of "le32 112 @ take 8 (drop 4 stack) @ GPSONE_LOC_API_RESPONSE # take 3 (drop 13 stack)" off_cmsg ?st "drop 20 stack @ r"]
      assms(4) by (simp add: ctrl_offsets sizeof_ctrl_msgbuf_def)
  ultimately show ?thesis using data rcv by (auto simp: set_bytes_def sizeof_ctrl_msgbuf_def)
qed

text \<open>
  The engine's answer to a daemon is written to that daemon's own pipe and to no other; the
  daemon, receiving on it, gets a response message that carries the status.
\<close>

theorem dmn_response_delivered:
  assumes "s \<in> daemon_senders" "fd_pipe (os d) (resp_fd s d) = Some k" "pipe_bytes (os d) k = []"
    and "length stack = sizeof_ctrl_msgbuf" "length buf = unat bufsz" "sizeof_ctrl_msgbuf \<le> unat bufsz"
  shows "\<exists>d' b p. loc_eng_dmn_conn_loc_api_server_data_conn (sender_id_code s) (gpsone_if_status_code st) stack d = Some (Ret 0, d')
     \<and> (\<forall>j. j \<noteq> k \<longrightarrow> pipe_bytes (os d') j = pipe_bytes (os d) j)
     \<and> loc_eng_dmn_conn_glue_msgrcv (resp_fd s d) buf bufsz (os d') = Some (Ret (int sizeof_ctrl_msgbuf), b, p)
     \<and> get8 off_ctrl_type b = Some GPSONE_LOC_API_RESPONSE \<and> get32 off_cmsg b = Some (gpsone_if_status_code st)
     \<and> pipe_bytes p k = []"
  using assms by (rule data_conn_delivers)

lemma dmn_response_delivered_witness:
  "\<exists>d' b p. loc_eng_dmn_conn_loc_api_server_data_conn 1 0xF1 (replicate 112 9) example_dmn = Some (Ret 0, d')
     \<and> loc_eng_dmn_conn_glue_msgrcv 6 (replicate 120 0) 120 (os d') = Some (Ret (int sizeof_ctrl_msgbuf), b, p)
     \<and> get32 off_cmsg b = Some 0xF1"
  using dmn_response_delivered [of LOC_ENG_IF_REQUEST_SENDER_ID_MSAPM example_dmn 3 "replicate 112 9" "replicate 120 0" 120 GPSONE_LOC_API_IF_RELEASE_SUCCESS]
  by (auto simp: daemon_senders_def example_dmn_def sizeof_ctrl_msgbuf_def)

end
