(* ===== verification/Thread_Helper.thy ===== *)
theory Thread_Helper
  imports Loc_Prelude
begin

text \<open>
  The thread helper of loc_eng_dmn_conn_thread_helper.c: a launcher starts a thread, waits until its
  initialisation has run, and the thread then calls its work function until it is told to exit. The
  functions are cut at the points where a thread may lose the processor with consequences: the wait
  on the condition variable, each call of a callback and each access of the shared flags outside the
  mutex. Callbacks return any number; whether \<open>pthread_cond_wait\<close> may wake up spuriously is a
  parameter of the step relation.
\<close>

section \<open>Data\<close>

datatype callback = Proc_init | Proc_pre | Proc | Proc_post

record loc_eng_dmn_conn_thelper =
  thread_exit :: bool
  thread_ready :: bool
  cond_sleeps :: bool
  cond_woken :: bool
  thread_procs :: "callback set"
  calls :: "(callback \<times> int) list"

datatype thread_pc =
    Not_created
  | At_init | At_init_failed | At_ready | At_pre | At_proc | At_test | At_post
  | Finished

datatype launcher_pc = L_start | L_wait | L_sleep | L_return | L_done int

section \<open>Signals\<close>

text \<open>The arguments are what \<open>pthread_cond_init\<close> and \<open>pthread_mutex_init\<close> (or \<open>_destroy\<close>) return.\<close>

definition thelper_signal_init :: "int \<Rightarrow> int \<Rightarrow> loc_eng_dmn_conn_thelper \<Rightarrow> int \<times> loc_eng_dmn_conn_thelper" where
  "thelper_signal_init cond_rc mutex_rc t =
    (let t1 = t\<lparr>thread_exit := False, thread_ready := False\<rparr>
     in if cond_rc \<noteq> 0 then (cond_rc, t1) else (mutex_rc, t1\<lparr>cond_sleeps := False, cond_woken := False\<rparr>))"

definition thelper_signal_destroy :: "int \<Rightarrow> int \<Rightarrow> int" where
  "thelper_signal_destroy cond_rc mutex_rc =
    (let ret_result = (if cond_rc \<noteq> 0 then cond_rc else 0)
     in if mutex_rc \<noteq> 0 then mutex_rc else ret_result)"

definition thelper_signal_ready :: "loc_eng_dmn_conn_thelper \<Rightarrow> loc_eng_dmn_conn_thelper" where
  "thelper_signal_ready t =
    (let t1 = t\<lparr>thread_ready := True\<rparr>
     in if cond_sleeps t1 then t1\<lparr>cond_sleeps := False, cond_woken := True\<rparr> else t1)"

definition thelper_signal_block :: "loc_eng_dmn_conn_thelper \<Rightarrow> bool \<times> loc_eng_dmn_conn_thelper" where
  "thelper_signal_block t = (thread_ready t, t\<lparr>thread_ready := False\<rparr>)"

text \<open>\<open>thelper_signal_wait\<close> up to its return (\<open>Some\<close>) or its sleep (\<open>None\<close>), and from the wake-up on.\<close>

definition thelper_signal_wait :: "loc_eng_dmn_conn_thelper \<Rightarrow> int option \<times> loc_eng_dmn_conn_thelper" where
  "thelper_signal_wait t =
    (if \<not> thread_ready t \<and> \<not> thread_exit t then (None, t\<lparr>cond_sleeps := True\<rparr>)
     else (Some (if thread_exit t then -1 else 0), t))"

definition thelper_signal_wait_resume :: "loc_eng_dmn_conn_thelper \<Rightarrow> int \<times> loc_eng_dmn_conn_thelper" where
  "thelper_signal_wait_resume t =
    (if thread_exit t then -1 else 0, t\<lparr>cond_sleeps := False, cond_woken := False\<rparr>)"

section \<open>The thread\<close>

definition call :: "callback \<Rightarrow> int \<Rightarrow> loc_eng_dmn_conn_thelper \<Rightarrow> loc_eng_dmn_conn_thelper" where
  "call c r t = t\<lparr>calls := calls t @ [(c, r)]\<rparr>"

text \<open>One step of \<open>thelper_main\<close>; \<open>r\<close> is what the callback called in the step returns.\<close>

fun thelper_main :: "int \<Rightarrow> thread_pc \<Rightarrow> loc_eng_dmn_conn_thelper \<Rightarrow> thread_pc \<times> loc_eng_dmn_conn_thelper" where
  "thelper_main r At_init t =
    (if Proc_init \<in> thread_procs t
     then (if r < 0 then (At_init_failed, (call Proc_init r t)\<lparr>thread_exit := True\<rparr>)
           else (At_ready, call Proc_init r t))
     else (At_ready, t))"
| "thelper_main r At_init_failed t = (Finished, thelper_signal_ready t)"
| "thelper_main r At_ready t = (At_pre, thelper_signal_ready t)"
| "thelper_main r At_pre t =
    (if Proc_pre \<in> thread_procs t
     then (if r < 0 then (Finished, (call Proc_pre r t)\<lparr>thread_exit := True\<rparr>)
           else (At_proc, call Proc_pre r t))
     else (At_proc, t))"
| "thelper_main r At_proc t =
    (if Proc \<in> thread_procs t
     then (At_test, if r < 0 then (call Proc r t)\<lparr>thread_exit := True\<rparr> else call Proc r t)
     else (At_test, t))"
| "thelper_main r At_test t = (if thread_exit t then At_post else At_proc, t)"
| "thelper_main r At_post t =
    (Finished, if Proc_post \<in> thread_procs t then call Proc_post r t else t)"
| "thelper_main r pc t = (pc, t)"

section \<open>The launcher and the other threads\<close>

record helper_sys =
  thelper :: loc_eng_dmn_conn_thelper
  thread :: thread_pc
  launcher :: launcher_pc

text \<open>
  \<open>loc_eng_dmn_conn_launch_thelper\<close> up to the wait: \<open>create_rc\<close> is the answer of \<open>pthread_create\<close> (zero
  when a callback of the caller creates the thread).
\<close>

definition loc_eng_dmn_conn_launch_thelper :: "callback set \<Rightarrow> int \<Rightarrow> int \<Rightarrow> int \<Rightarrow> helper_sys \<Rightarrow> helper_sys" where
  "loc_eng_dmn_conn_launch_thelper procs cond_rc mutex_rc create_rc s =
    (let t = (snd (thelper_signal_init cond_rc mutex_rc (thelper s)))\<lparr>thread_procs := procs\<rparr>
     in if create_rc \<noteq> 0 then s\<lparr>thelper := t, launcher := L_done (-1)\<rparr>
        else s\<lparr>thelper := t, thread := At_init, launcher := L_wait\<rparr>)"

definition launch_wait :: "helper_sys \<Rightarrow> helper_sys" where
  "launch_wait s = (case thelper_signal_wait (thelper s) of
      (None, t) \<Rightarrow> s\<lparr>thelper := t, launcher := L_sleep\<rparr>
    | (Some _, t) \<Rightarrow> s\<lparr>thelper := t, launcher := L_return\<rparr>)"

definition launch_resume :: "helper_sys \<Rightarrow> helper_sys" where
  "launch_resume s = s\<lparr>thelper := snd (thelper_signal_wait_resume (thelper s)), launcher := L_return\<rparr>"

definition launch_return :: "helper_sys \<Rightarrow> helper_sys" where
  "launch_return s = s\<lparr>launcher := L_done (if thread_exit (thelper s) then 1 else 0)\<rparr>"

definition loc_eng_dmn_conn_unblock_thelper :: "loc_eng_dmn_conn_thelper \<Rightarrow> int \<times> loc_eng_dmn_conn_thelper" where
  "loc_eng_dmn_conn_unblock_thelper t = (0, t\<lparr>thread_exit := True\<rparr>)"

text \<open>\<open>pthread_join\<close> returns \<open>join_rc\<close>, and with zero only after the thread has finished.\<close>

definition loc_eng_dmn_conn_join_thelper :: "int \<Rightarrow> int" where
  "loc_eng_dmn_conn_join_thelper join_rc = join_rc"

inductive th_step :: "bool \<Rightarrow> helper_sys \<Rightarrow> helper_sys \<Rightarrow> bool" for spurious where
  wait: "launcher s = L_wait \<Longrightarrow> th_step spurious s (launch_wait s)"
| resume: "launcher s = L_sleep \<Longrightarrow> cond_woken (thelper s) \<or> spurious \<Longrightarrow> th_step spurious s (launch_resume s)"
| return: "launcher s = L_return \<Longrightarrow> th_step spurious s (launch_return s)"
| main: "thread s \<notin> {Not_created, Finished} \<Longrightarrow> thelper_main r (thread s) (thelper s) = (pc, t) \<Longrightarrow>
     th_step spurious s (s\<lparr>thelper := t, thread := pc\<rparr>)"
| unblock: "launcher s \<noteq> L_start \<Longrightarrow>
     th_step spurious s (s\<lparr>thelper := snd (loc_eng_dmn_conn_unblock_thelper (thelper s))\<rparr>)"

inductive th_reachable :: "bool \<Rightarrow> callback set \<Rightarrow> helper_sys \<Rightarrow> bool" for spurious procs where
  launch: "thread s = Not_created \<Longrightarrow> calls (thelper s) = [] \<Longrightarrow>
     th_reachable spurious procs (loc_eng_dmn_conn_launch_thelper procs 0 0 create_rc s)"
| step: "th_reachable spurious procs s \<Longrightarrow> th_step spurious s s' \<Longrightarrow> th_reachable spurious procs s'"

inductive_cases th_stepE: "th_step spurious s s'"

section \<open>The order of the calls\<close>

definition called :: "callback \<Rightarrow> loc_eng_dmn_conn_thelper \<Rightarrow> nat" where
  "called c t = length (filter (\<lambda>x. fst x = c) (calls t))"

text \<open>
  What the history looks like at each point of the thread: \<open>i\<close>, \<open>p\<close>, \<open>q\<close> say whether the
  callbacks are there, \<open>ok\<close> that no call before the last one failed.
\<close>

definition once :: "callback \<Rightarrow> callback set \<Rightarrow> callback list" where
  "once c procs = (if c \<in> procs then [c] else [])"

fun history_ok :: "callback set \<Rightarrow> thread_pc \<Rightarrow> callback list \<Rightarrow> bool" where
  "history_ok P Not_created h = (h = [])"
| "history_ok P At_init h = (h = [])"
| "history_ok P At_init_failed h = (h = [Proc_init])"
| "history_ok P At_ready h = (h = once Proc_init P)"
| "history_ok P At_pre h = (h = once Proc_init P)"
| "history_ok P At_proc h = (\<exists>n. h = once Proc_init P @ once Proc_pre P @ replicate n Proc)"
| "history_ok P At_test h = (\<exists>n. h = once Proc_init P @ once Proc_pre P @ replicate n Proc \<and> (Proc \<in> P \<longrightarrow> 0 < n))"
| "history_ok P At_post h = (\<exists>n. h = once Proc_init P @ once Proc_pre P @ replicate n Proc \<and> (Proc \<in> P \<longrightarrow> 0 < n))"
| "history_ok P Finished h =
     (h = [Proc_init] \<or> h = once Proc_init P @ [Proc_pre]
      \<or> (\<exists>n. h = once Proc_init P @ once Proc_pre P @ replicate n Proc @ once Proc_post P \<and> (Proc \<in> P \<longrightarrow> 0 < n)))"

definition th_inv :: "callback set \<Rightarrow> helper_sys \<Rightarrow> bool" where
  "th_inv P s \<longleftrightarrow> history_ok P (thread s) (map fst (calls (thelper s))) \<and> launcher s \<noteq> L_start
     \<and> thread_procs (thelper s) = P
     \<and> (thread s \<in> {At_post, Finished, At_init_failed} \<longrightarrow> thread_exit (thelper s))
     \<and> (thread_ready (thelper s) \<longrightarrow> thread s \<notin> {Not_created, At_init, At_ready, At_init_failed})
     \<and> (\<forall>(c, r) \<in> set (calls (thelper s)). r < 0 \<and> c \<noteq> Proc_post \<longrightarrow> thread_exit (thelper s))
     \<and> (\<forall>(c, r) \<in> set (calls (thelper s)). r < 0 \<and> c \<in> {Proc_init, Proc_pre} \<longrightarrow>
          thread s \<in> {At_init_failed, Finished} \<and> {Proc, Proc_post} \<inter> fst ` set (calls (thelper s)) = {})"

lemmas th_ops = launch_wait_def launch_resume_def launch_return_def thelper_signal_wait_def
  thelper_signal_wait_resume_def thelper_signal_ready_def call_def loc_eng_dmn_conn_unblock_thelper_def
  loc_eng_dmn_conn_launch_thelper_def thelper_signal_init_def

lemma append_replicate_Proc: "h @ replicate n Proc @ [Proc] = h @ replicate (Suc n) Proc"
  by (simp add: replicate_append_same)

lemma main_history:
  assumes "th_inv P s" "thread s \<notin> {Not_created, Finished}" "thelper_main r (thread s) (thelper s) = (pc, t)"
  shows "th_inv P (s\<lparr>thelper := t, thread := pc\<rparr>)"
proof (cases "thread s")
  case At_proc
  with assms obtain n where n: "map fst (calls (thelper s)) = once Proc_init P @ once Proc_pre P @ replicate n Proc"
    by (auto simp: th_inv_def)
  show ?thesis
  proof (cases "Proc \<in> P")
    case True
    then have "map fst (calls t) = once Proc_init P @ once Proc_pre P @ replicate (Suc n) Proc"
      using At_proc assms n by (auto simp: th_inv_def call_def replicate_append_same split: if_splits)
    with True At_proc assms show ?thesis
      by (auto simp: th_inv_def call_def split: if_splits intro!: exI [of _ "Suc n"])
  next
    case False
    with At_proc assms n show ?thesis by (auto simp: th_inv_def)
  qed
qed (use assms in \<open>auto simp: th_inv_def th_ops once_def Let_def split: if_splits\<close>)

lemma th_step_inv:
  assumes "th_step sp s s'" "th_inv P s"
  shows "th_inv P s'"
  using assms(1)
proof cases
  case (main r pc t)
  with assms(2) show ?thesis by (auto intro: main_history)
qed (use assms(2) in \<open>auto simp: th_inv_def th_ops split: if_splits\<close>)

lemma th_reachable_inv: "th_reachable sp P s \<Longrightarrow> th_inv P s"
proof (induction rule: th_reachable.induct)
  case (launch s create_rc)
  then show ?case by (auto simp: th_inv_def th_ops Let_def)
next
  case (step s s')
  then show ?case by (blast intro: th_step_inv)
qed
lemma once_replicate: "once c P = replicate (if c \<in> P then 1 else 0) c"
  by (simp add: once_def)

lemma history_shape:
  assumes "history_ok P pc h"
  shows "\<exists>i p n q. h = replicate i Proc_init @ replicate p Proc_pre @ replicate n Proc @ replicate q Proc_post
     \<and> i \<le> 1 \<and> p \<le> 1 \<and> q \<le> 1 \<and> (0 < p + n + q \<longrightarrow> i = (if Proc_init \<in> P then 1 else 0))
     \<and> (0 < n + q \<longrightarrow> p = (if Proc_pre \<in> P then 1 else 0)) \<and> (0 < q \<longrightarrow> pc = Finished \<and> (Proc \<in> P \<longrightarrow> 0 < n))"
proof -
  define i0 where "i0 = (if Proc_init \<in> P then 1 else 0 :: nat)"
  define p0 where "p0 = (if Proc_pre \<in> P then 1 else 0 :: nat)"
  define q0 where "q0 = (if Proc_post \<in> P then 1 else 0 :: nat)"
  have o: "once Proc_init P = replicate i0 Proc_init" "once Proc_pre P = replicate p0 Proc_pre"
    "once Proc_post P = replicate q0 Proc_post" by (simp_all add: once_def i0_def p0_def q0_def)
  have le: "i0 \<le> 1" "p0 \<le> 1" "q0 \<le> 1" by (simp_all add: i0_def p0_def q0_def)
  consider "h = []" | "h = [Proc_init]" | "h = once Proc_init P" | "h = once Proc_init P @ [Proc_pre]"
    | n where "h = once Proc_init P @ once Proc_pre P @ replicate n Proc"
    | n where "h = once Proc_init P @ once Proc_pre P @ replicate n Proc @ once Proc_post P" "pc = Finished" "Proc \<in> P \<longrightarrow> 0 < n"
    using assms by (cases pc) auto
  then show ?thesis
  proof cases
    case 1 then show ?thesis by (intro exI [of _ 0]) simp
  next
    case 2 then show ?thesis by (intro exI [of _ "Suc 0"] exI [of _ 0]) simp
  next
    case 3 then show ?thesis using le unfolding o by (intro exI [of _ i0] exI [of _ 0]) simp
  next
    case 4 then show ?thesis using le unfolding o
      by (intro exI [of _ i0] exI [of _ "Suc 0"] exI [of _ 0]) (simp add: i0_def)
  next
    case (5 n) then show ?thesis using le unfolding o
      by (intro exI [of _ i0] exI [of _ p0] exI [of _ n] exI [of _ 0]) (simp add: i0_def p0_def)
  next
    case (6 n) then show ?thesis using le unfolding o
      by (intro exI [of _ i0] exI [of _ p0] exI [of _ n] exI [of _ q0]) (simp add: i0_def p0_def)
  qed
qed

section \<open>Properties\<close>

text \<open>
  C24: Whatever the callbacks return and the other threads do, the callbacks are called in the order
  initialisation, preparation, work any number of times, clean-up; the work starts only after the
  first two have been called (where they exist) and did not fail; the clean-up is the last call, only
  after the thread was told to exit.
\<close>

theorem thelper_call_order:
  assumes "th_reachable sp P s"
  shows "\<exists>i p n q. map fst (calls (thelper s))
        = replicate i Proc_init @ replicate p Proc_pre @ replicate n Proc @ replicate q Proc_post
     \<and> i \<le> 1 \<and> p \<le> 1 \<and> q \<le> 1 \<and> (0 < p + n + q \<longrightarrow> i = (if Proc_init \<in> P then 1 else 0))
     \<and> (0 < n + q \<longrightarrow> p = (if Proc_pre \<in> P then 1 else 0))
     \<and> (0 < n + q \<longrightarrow> (\<forall>(c, r) \<in> set (calls (thelper s)). c \<in> {Proc_init, Proc_pre} \<longrightarrow> 0 \<le> r))
     \<and> (0 < q \<longrightarrow> thread_exit (thelper s) \<and> (Proc \<in> P \<longrightarrow> 0 < n))"
proof -
  note inv = th_reachable_inv [OF assms]
  have "history_ok P (thread s) (map fst (calls (thelper s)))" using inv by (simp add: th_inv_def)
  from history_shape [OF this] obtain i p n q where
    h: "map fst (calls (thelper s)) = replicate i Proc_init @ replicate p Proc_pre @ replicate n Proc @ replicate q Proc_post"
    and shape: "i \<le> 1" "p \<le> 1" "q \<le> 1" "0 < p + n + q \<longrightarrow> i = (if Proc_init \<in> P then 1 else 0)"
      "0 < n + q \<longrightarrow> p = (if Proc_pre \<in> P then 1 else 0)" "0 < q \<longrightarrow> thread s = Finished \<and> (Proc \<in> P \<longrightarrow> 0 < n)"
    by blast
  have m: "c \<in> fst ` set (calls (thelper s)) \<longleftrightarrow> c \<in> set (map fst (calls (thelper s)))" for c by simp
  have "Proc \<in> fst ` set (calls (thelper s)) \<or> Proc_post \<in> fst ` set (calls (thelper s))" if "0 < n + q"
    using that unfolding m h by auto
  moreover have "\<forall>(c, r) \<in> set (calls (thelper s)). r < 0 \<and> c \<in> {Proc_init, Proc_pre} \<longrightarrow>
      {Proc, Proc_post} \<inter> fst ` set (calls (thelper s)) = {}"
    using inv by (auto simp: th_inv_def)
  ultimately have used: "Proc \<in> fst ` set (calls (thelper s)) \<or> Proc_post \<in> fst ` set (calls (thelper s))"
      "{Proc, Proc_post} \<inter> fst ` set (calls (thelper s)) = {}"
    if "0 < n + q" "(c, r) \<in> set (calls (thelper s))" "r < 0" "c \<in> {Proc_init, Proc_pre}" for c r
    using that by blast+
  have ok: "0 < n + q \<longrightarrow> (\<forall>(c, r) \<in> set (calls (thelper s)). c \<in> {Proc_init, Proc_pre} \<longrightarrow> 0 \<le> r)"
  proof (intro impI ballI)
    fix x assume *: "0 < n + q" "x \<in> set (calls (thelper s))"
    obtain c r where x: "x = (c, r)" by (cases x)
    have "0 \<le> r" if "c \<in> {Proc_init, Proc_pre}"
    proof (rule ccontr)
      assume "\<not> 0 \<le> r"
      with used [of c r] * x that show False by auto
    qed
    with x show "case x of (c, r) \<Rightarrow> c \<in> {Proc_init, Proc_pre} \<longrightarrow> 0 \<le> r" by simp
  qed
  have "0 < q \<longrightarrow> thread_exit (thelper s)" using inv shape(6) by (auto simp: th_inv_def)
  with shape(6) show ?thesis
    by (intro exI [of _ i] exI [of _ p] exI [of _ n] exI [of _ q] conjI h shape(1-5) ok) simp
qed

text \<open>A run of the thread alone, with the results of its callbacks.\<close>

fun thread_run :: "(nat \<Rightarrow> int) \<Rightarrow> nat \<Rightarrow> helper_sys \<Rightarrow> helper_sys" where
  "thread_run rs 0 s = s"
| "thread_run rs (Suc n) s =
     (case thelper_main (rs n) (thread s) (thelper s) of (pc, t) \<Rightarrow> thread_run rs n (s\<lparr>thelper := t, thread := pc\<rparr>))"

definition helper_callbacks :: "callback set" where
  "helper_callbacks = {Proc_init, Proc_pre, Proc, Proc_post}"

definition before_launch :: helper_sys where
  "before_launch = \<lparr>thelper = \<lparr>thread_exit = False, thread_ready = False, cond_sleeps = False, cond_woken = False,
     thread_procs = {}, calls = []\<rparr>, thread = Not_created, launcher = L_start\<rparr>"

definition example_launched :: helper_sys where
  "example_launched = loc_eng_dmn_conn_launch_thelper helper_callbacks 0 0 0 before_launch"

lemma thread_run_reachable:
  "th_reachable sp P s \<Longrightarrow> th_reachable sp P (thread_run rs n s)"
proof (induction n arbitrary: s)
  case (Suc n)
  obtain pc t where m: "thelper_main (rs n) (thread s) (thelper s) = (pc, t)" by fastforce
  have "th_reachable sp P (s\<lparr>thelper := t, thread := pc\<rparr>)"
  proof (cases "thread s \<in> {Not_created, Finished}")
    case True
    with m have "s\<lparr>thelper := t, thread := pc\<rparr> = s" by (cases "thread s") auto
    with Suc.prems show ?thesis by simp
  next
    case False
    with Suc.prems m show ?thesis by (blast intro: th_reachable.step th_step.main)
  qed
  with m Suc.IH show ?case by simp
qed simp

lemma example_launched_reachable: "th_reachable sp helper_callbacks example_launched"
  unfolding example_launched_def by (rule th_reachable.launch) (simp_all add: before_launch_def)

lemma thelper_call_order_witness:
  "\<exists>i p n q. map fst (calls (thelper (thread_run (\<lambda>n. if n = 0 then -1 else 0) 6 example_launched)))
        = replicate i Proc_init @ replicate p Proc_pre @ replicate n Proc @ replicate q Proc_post
     \<and> i \<le> 1 \<and> p \<le> 1 \<and> q \<le> 1"
  using thelper_call_order [OF thread_run_reachable [OF example_launched_reachable [of False]], of "\<lambda>n. if n = 0 then -1 else 0" 6]
  by blast

lemma exit_step: "th_step sp s s' \<Longrightarrow> thread_exit (thelper s) \<Longrightarrow> thread s \<noteq> Not_created \<Longrightarrow>
    thread_exit (thelper s') \<and> thread s' \<noteq> Not_created"
  by (erule th_stepE) (auto simp: th_ops Let_def split: if_splits elim!: thelper_main.elims)

text \<open>With the exit flag up, how many more calls of the work function the thread can make.\<close>

fun work_left :: "thread_pc \<Rightarrow> nat" where
  "work_left At_init = 1"
| "work_left At_ready = 1"
| "work_left At_pre = 1"
| "work_left At_proc = 1"
| "work_left _ = 0"

lemma exit_work:
  "th_step sp s s' \<Longrightarrow> thread_exit (thelper s) \<Longrightarrow>
   called Proc (thelper s') + work_left (thread s') \<le> called Proc (thelper s) + work_left (thread s)"
  by (erule th_stepE) (auto simp: th_ops Let_def called_def split: if_splits elim!: thelper_main.elims)

fun steps_left :: "thread_pc \<Rightarrow> nat" where
  "steps_left At_init = 6"
| "steps_left At_ready = 5"
| "steps_left At_pre = 4"
| "steps_left At_proc = 3"
| "steps_left At_test = 2"
| "steps_left At_post = 1"
| "steps_left At_init_failed = 1"
| "steps_left _ = 0"

lemma steps_left_le: "steps_left pc \<le> 6"
  by (cases pc) simp_all

lemma exit_main:
  assumes "thelper_main r pc t = (pc', t')" "thread_exit t" "pc \<noteq> Not_created"
  shows "thread_exit t' \<and> pc' \<noteq> Not_created \<and> steps_left pc' \<le> steps_left pc - 1"
  using assms by (cases pc) (auto simp: th_ops Let_def split: if_splits)

lemma thread_run_ends:
  "thread_exit (thelper s) \<Longrightarrow> thread s \<noteq> Not_created \<Longrightarrow> steps_left (thread s) \<le> n \<Longrightarrow>
   thread (thread_run rs n s) = Finished"
proof (induction n arbitrary: s)
  case 0
  then show ?case by (cases "thread s") simp_all
next
  case (Suc n)
  obtain pc t where m: "thelper_main (rs n) (thread s) (thelper s) = (pc, t)" by fastforce
  have "thread (thread_run rs n (s\<lparr>thelper := t, thread := pc\<rparr>)) = Finished"
    using exit_main [OF m Suc.prems(1,2)] Suc.prems(3) by (intro Suc.IH) auto
  with m show ?case by simp
qed

text \<open>
  C18: Once the thread has been told to exit it ends: whatever the threads do before, it stays told,
  its work function is called at most once more, and at every moment at most six more steps of the
  thread alone, whatever its callbacks return, finish it.
\<close>

theorem thelper_unblock_ends:
  assumes "thread_exit (thelper s)" "thread s \<noteq> Not_created" "(th_step sp)\<^sup>*\<^sup>* s s'"
  shows "thread_exit (thelper s') \<and> called Proc (thelper s') \<le> called Proc (thelper s) + 1
     \<and> thread (thread_run rs 6 s') = Finished"
proof -
  from assms(3) have inv: "thread_exit (thelper s') \<and> thread s' \<noteq> Not_created
     \<and> called Proc (thelper s') + work_left (thread s') \<le> called Proc (thelper s) + work_left (thread s)"
  proof induction
    case (step y z)
    then show ?case using exit_step [of sp y z] exit_work [of sp y z] by linarith
  qed (use assms(1,2) in auto)
  have "thread (thread_run rs 6 s') = Finished"
    using inv steps_left_le [of "thread s'"] by (intro thread_run_ends) auto
  moreover have "work_left (thread s) \<le> 1" by (cases "thread s") simp_all
  ultimately show ?thesis using inv by simp
qed
lemma thelper_unblock_ends_witness:
  "\<exists>s. thread_exit (thelper s) \<and> thread s = At_init \<and> thread (thread_run (\<lambda>_. 0) 6 s) = Finished"
proof -
  let ?s = "example_launched\<lparr>thelper := snd (loc_eng_dmn_conn_unblock_thelper (thelper example_launched))\<rparr>"
  have s: "thread_exit (thelper ?s)" "thread ?s = At_init"
    by (simp_all add: example_launched_def before_launch_def th_ops)
  from thelper_unblock_ends [where sp = False and rs = "\<lambda>_. 0", OF s(1) _ rtranclp.rtrancl_refl] s
  show ?thesis by (intro exI [of _ ?s]) simp
qed

section \<open>What a return of the launch means\<close>

definition launch_inv :: "helper_sys \<Rightarrow> bool" where
  "launch_inv s \<longleftrightarrow> (launcher s = L_sleep \<and> \<not> cond_woken (thelper s) \<longrightarrow>
        cond_sleeps (thelper s) \<and> thread s \<in> {At_init, At_init_failed, At_ready})
     \<and> (launcher s = L_sleep \<and> cond_woken (thelper s) \<longrightarrow> thread_ready (thelper s))
     \<and> (launcher s = L_wait \<longrightarrow> \<not> cond_woken (thelper s) \<and> \<not> cond_sleeps (thelper s))
     \<and> (launcher s = L_return \<longrightarrow> thread_ready (thelper s) \<or> thread_exit (thelper s))
     \<and> (launcher s = L_done 0 \<longrightarrow> thread_ready (thelper s))
     \<and> (thread s \<in> {At_init, At_init_failed, At_ready} \<or> thread_ready (thelper s) \<or> launcher s = L_done (-1))"

lemma launch_inv_step:
  assumes "th_step False s s'" "launch_inv s" "th_inv P s"
  shows "launch_inv s'"
  using assms(1)
proof cases
  case (main r pc t)
  have k: "launch_inv (s\<lparr>thelper := t, thread := pc\<rparr>)" if "thread s = a" for a
    using main(2,3) assms(2) that
    by (cases a; clarsimp split: if_splits simp: launch_inv_def th_ops Let_def)
  with main(1) show ?thesis by simp
qed (use assms(2,3) in \<open>auto simp: launch_inv_def th_inv_def th_ops Let_def split: if_splits\<close>)

lemma launch_inv_reachable: "th_reachable False P s \<Longrightarrow> launch_inv s"
proof (induction rule: th_reachable.induct)
  case (launch s create_rc)
  then show ?case by (auto simp: launch_inv_def th_ops Let_def)
next
  case (step s s')
  then show ?case by (blast intro: launch_inv_step th_reachable_inv)
qed

text \<open>
  If the condition variable wakes nobody spuriously, a launch that returns zero returns after the
  thread's initialisation has been called (where there is one) without failing; and a launcher that
  still sleeps will be woken, because the thread has yet to signal.
\<close>

theorem thelper_launch_ready:
  assumes "th_reachable False P s"
  shows "(launcher s = L_done 0 \<longrightarrow> thread s \<notin> {At_init, At_init_failed, At_ready}
        \<and> (Proc_init \<in> P \<longrightarrow> Proc_init \<in> fst ` set (calls (thelper s))))
     \<and> (launcher s = L_sleep \<and> \<not> cond_woken (thelper s) \<longrightarrow> thread s \<in> {At_init, At_init_failed, At_ready})"
proof -
  note inv = launch_inv_reachable [OF assms] and th = th_reachable_inv [OF assms]
  have "Proc_init \<in> set (map fst (calls (thelper s)))" if "thread_ready (thelper s)" "Proc_init \<in> P"
    using th that by (cases "thread s") (auto simp: th_inv_def once_def simp del: set_map)
  with inv th show ?thesis by (auto simp: launch_inv_def th_inv_def)
qed

lemma thelper_launch_ready_witness:
  "\<exists>s. th_reachable False helper_callbacks s \<and> launcher s = L_done 0
     \<and> Proc_init \<in> fst ` set (calls (thelper s))"
proof -
  let ?s1 = "thread_run (\<lambda>_. 0) 3 example_launched"
  let ?s2 = "launch_wait ?s1"
  let ?s3 = "launch_return ?s2"
  have l: "launcher ?s1 = L_wait" "launcher ?s2 = L_return" "launcher ?s3 = L_done 0"
    by (simp_all add: example_launched_def before_launch_def th_ops helper_callbacks_def numeral_3_eq_3)
  have "th_reachable False helper_callbacks ?s1"
    by (intro thread_run_reachable example_launched_reachable)
  with l(1,2) have r: "th_reachable False helper_callbacks ?s3"
    by (blast intro: th_reachable.step th_step.wait th_step.return)
  from thelper_launch_ready [OF r] l(3) have "Proc_init \<in> fst ` set (calls (thelper ?s3))"
    by (simp add: helper_callbacks_def)
  with r l(3) show ?thesis by blast
qed

text \<open>
  The wait of the launch tests its condition once, not in a loop: after a spurious wake-up, which
  \<open>pthread_cond_wait\<close> allows, the launch returns zero although the initialisation has not run.
\<close>

theorem thelper_launch_returns_early:
  "\<exists>s. th_reachable True helper_callbacks s \<and> launcher s = L_done 0
     \<and> thread s = At_init \<and> calls (thelper s) = []"
proof -
  let ?s1 = "launch_wait example_launched"
  let ?s2 = "launch_resume ?s1"
  let ?s3 = "launch_return ?s2"
  have l: "launcher example_launched = L_wait" "launcher ?s1 = L_sleep" "launcher ?s2 = L_return"
    "launcher ?s3 = L_done 0" "thread ?s3 = At_init" "calls (thelper ?s3) = []"
    by (simp_all add: example_launched_def before_launch_def th_ops)
  have "th_reachable True helper_callbacks ?s1"
    by (rule th_reachable.step [OF example_launched_reachable th_step.wait [OF l(1)]])
  then have "th_reachable True helper_callbacks ?s2"
    by (rule th_reachable.step) (simp add: th_step.resume [OF l(2)])
  then have "th_reachable True helper_callbacks ?s3"
    by (rule th_reachable.step) (rule th_step.return [OF l(3)])
  with l show ?thesis by blast
qed

end
