(* ===== verification/Dmn_Server.thy ===== *)
theory Dmn_Server
  imports Dmn_Conn_Correct Thread_Helper
begin

text \<open>
  The server of the daemon connection as a whole: the thread helper with the callbacks of
  loc_eng_dmn_conn.cpp, and the interface to start, unblock and join it.
\<close>

section \<open>The server's thread\<close>

text \<open>
  One step of the thread: \<open>thelper_main\<close>, whose callbacks are the functions of the server. The
  answers of the system for the four pipes and of \<open>malloc\<close> are arguments. A blocked read leaves the
  thread where it is.
\<close>

record server =
  conn :: dmn_conn
  helper :: loc_eng_dmn_conn_thelper
  pc :: thread_pc

definition server_callbacks :: "callback set" where
  "server_callbacks = {Proc_init, Proc_pre, Proc, Proc_post}"

definition after_call :: "int \<Rightarrow> dmn_conn \<Rightarrow> server \<Rightarrow> server" where
  "after_call r d s = (case thelper_main r (pc s) (helper s) of (pc', t') \<Rightarrow> s\<lparr>conn := d, helper := t', pc := pc'\<rparr>)"

definition server_step :: "(bool \<times> nat \<times> int) \<times> (bool \<times> nat \<times> int) \<times> (bool \<times> nat \<times> int) \<times> (bool \<times> nat \<times> int) \<Rightarrow>
    u8 list option \<Rightarrow> server \<Rightarrow> engine \<Rightarrow> (server \<times> engine) option" where
  "server_step gets malloc_ret s e = (case pc s of
      At_init \<Rightarrow> (case gets of (a, b, c, f) \<Rightarrow>
        (case loc_api_server_proc_init a b c f (conn s) of (r, d) \<Rightarrow> Some (after_call r d s, e)))
    | At_pre \<Rightarrow> Some (after_call loc_api_server_proc_pre (conn s) s, e)
    | At_proc \<Rightarrow> do {
        (r, d, e') \<leftarrow> loc_api_server_proc malloc_ret (conn s) e;
        Some (case r of Blocks \<Rightarrow> (s\<lparr>conn := d\<rparr>, e') | Ret n \<Rightarrow> (after_call n d s, e'))
      }
    | At_post \<Rightarrow> (case loc_api_server_proc_post (conn s) of (r, d) \<Rightarrow> Some (after_call r d s, e))
    | _ \<Rightarrow> Some (after_call 0 (conn s) s, e))"

section \<open>The interface\<close>

text \<open>The launch up to its wait; the helper's part is \<open>loc_eng_dmn_conn_launch_thelper\<close>.\<close>

definition loc_eng_dmn_conn_loc_api_server_start :: "string option \<Rightarrow> string option \<Rightarrow> bool \<Rightarrow> int \<Rightarrow> int \<Rightarrow> int \<Rightarrow>
    server \<Rightarrow> launcher_pc \<times> server" where
  "loc_eng_dmn_conn_loc_api_server_start loc_api_q_path resp_q_path agps_handle cond_rc mutex_rc create_rc s =
    (let d = loc_eng_dmn_conn_loc_api_server_launch loc_api_q_path resp_q_path agps_handle (conn s);
         h = loc_eng_dmn_conn_launch_thelper server_callbacks cond_rc mutex_rc create_rc
               \<lparr>thelper = helper s, thread = pc s, launcher = L_start\<rparr>
     in (launcher h, s\<lparr>conn := d, helper := thelper h, pc := thread h\<rparr>))"

text \<open>\<open>stack\<close> is the uninitialised local message of \<open>loc_eng_dmn_conn_unblock_proc\<close>.\<close>

definition loc_eng_dmn_conn_loc_api_server_unblock :: "u8 list \<Rightarrow> server \<Rightarrow> (int io \<times> server) option" where
  "loc_eng_dmn_conn_loc_api_server_unblock stack s = (let t = snd (loc_eng_dmn_conn_unblock_thelper (helper s))
     in do {
       (r, d) \<leftarrow> loc_eng_dmn_conn_unblock_proc stack (conn s);
       Some (case r of Blocks \<Rightarrow> Blocks | Ret _ \<Rightarrow> Ret 0, s\<lparr>conn := d, helper := t\<rparr>)
     })"

definition loc_eng_dmn_conn_loc_api_server_join :: "int \<Rightarrow> int" where
  "loc_eng_dmn_conn_loc_api_server_join join_rc = (let _ = loc_eng_dmn_conn_join_thelper join_rc in 0)"

section \<open>Stopping a blocked server\<close>

fun server_run :: "nat \<Rightarrow> u8 list \<Rightarrow> server \<Rightarrow> engine \<Rightarrow> (server \<times> engine) option" where
  "server_run 0 mem s e = Some (s, e)"
| "server_run (Suc n) mem s e =
     server_step ((False, 0, 0), (False, 0, 0), (False, 0, 0), (False, 0, 0)) (Some mem) s e \<bind> (\<lambda>(s', e'). server_run n mem s' e')"

lemma msgrcv_empty_blocks:
  "fd_pipe p fd = Some k \<Longrightarrow> pipe_bytes p k = [] \<Longrightarrow> loc_eng_dmn_conn_glue_msgrcv fd buf n p = Some (Blocks, buf, p)"
  by (simp add: loc_eng_dmn_conn_glue_msgrcv_def loc_eng_dmn_conn_glue_piperead_def)

lemma proc_empty_blocks:
  "fd_pipe (os d) (loc_api_server_msgqid d) = Some k \<Longrightarrow> pipe_bytes (os d) k = [] \<Longrightarrow>
   loc_api_server_proc (Some mem) d e = Some (Blocks, d, e)"
  by (simp add: loc_api_server_proc_def msgrcv_empty_blocks)

lemma unblock_frame:
  assumes "fd_pipe (os d) (loc_api_server_msgqid d) = Some k" "pipe_bytes (os d) k = []" "length stack = sizeof_ctrl_msgbuf"
  shows "\<exists>m. length m = 112 \<and> m ! 12 = GPSONE_UNBLOCK
     \<and> loc_eng_dmn_conn_unblock_proc stack d = Some (Ret 0, d\<lparr>os := set_bytes k (frame_of m) (os d)\<rparr>)"
proof -
  define m where "m = take 12 stack @ GPSONE_UNBLOCK # drop 13 stack"
  have lm: "length m = 112" using assms(3) by (simp add: m_def sizeof_ctrl_msgbuf_def)
  have "put_bytes off_ctrl_type [GPSONE_UNBLOCK] stack = Some m"
    using assms(3) by (simp add: put_bytes_def off_ctrl_type_def sizeof_ctrl_msgbuf_def m_def)
  moreover have "loc_eng_dmn_conn_glue_msgsnd (loc_api_server_msgqid d) m (of_nat (length m)) (os d)
      = Some (Ret (int (length m)), frame_of m, set_bytes k (pipe_bytes (os d) k @ frame_of m) (os d))"
    using assms lm by (intro msgsnd_frame) (simp_all add: PIPE_CAPACITY_def)
  moreover have "m ! 12 = GPSONE_UNBLOCK" using assms(3) by (simp add: m_def nth_append sizeof_ctrl_msgbuf_def)
  ultimately show ?thesis using lm assms(2)
    by (intro exI [of _ m]) (simp add: loc_eng_dmn_conn_unblock_proc_def sizeof_ctrl_msgbuf_def)
qed

lemma proc_unblock:
  assumes "fd_pipe (os d) (loc_api_server_msgqid d) = Some k" "pipe_bytes (os d) k = frame_of m"
    "length m = 112" "m ! 12 = GPSONE_UNBLOCK" "length mem = 368"
  shows "loc_api_server_proc (Some mem) d e = Some (Ret 0, d\<lparr>os := set_bytes k [] (os d)\<rparr>, e)"
proof -
  let ?n = "of_nat (sizeof_ctrl_msgbuf + 256) :: u32"
  have sz: "unat ?n = 368" by (simp add: sizeof_ctrl_msgbuf_def)
  have "loc_eng_dmn_conn_glue_msgrcv (loc_api_server_msgqid d) mem ?n (os d)
     = Some (Ret (int (length m)), frame_of m @ drop (length m) mem, set_bytes k [] (os d))"
    using msgrcv_frame [OF assms(1), of m "[]" ?n mem] assms(2,3,5) unfolding sz by simp
  moreover have "get8 off_ctrl_type (frame_of m @ r) = Some GPSONE_UNBLOCK" for r
    using assms(3,4) by (simp add: get8_def off_ctrl_type_def length_frame_of nth_append frame_of_def)
  ultimately show ?thesis using assms(3)
    by (simp add: loc_api_server_proc_def)
qed


definition example_server :: server where
  "example_server = \<lparr>conn = example_dmn, helper = \<lparr>thread_exit = False, thread_ready = True, cond_sleeps = False,
     cond_woken = False, thread_procs = server_callbacks, calls = [(Proc_init, 0), (Proc_pre, 0)]\<rparr>, pc = At_proc\<rparr>"


end
