(* ===== verification/Loc_Cfg.thy ===== *)
theory Loc_Cfg
  imports Loc_Eng C_Lib
begin

text \<open>
  The reader of configuration files (gps/utils/loc_cfg.cpp) and the engine's use of it
  (\<open>loc_eng_read_config\<close> and the parameter table of loc_eng.cpp). A \<open>void*\<close> of the table is the
  update that a store through it makes, with the type of the object it points to; a store of another
  type is \<open>None\<close>. The two logging parameters are single bytes of a byte memory, because the code
  stores four bytes through their addresses. \<open>atof\<close>, which rounds to a double, is an argument.
\<close>

section \<open>Splitting a file into lines and tokens\<close>

definition tolower_is_x :: "char \<Rightarrow> bool" where
  "tolower_is_x c \<longleftrightarrow> c = CHR ''x'' \<or> c = CHR ''X''"

text \<open>\<open>strtok_r(s, "=", ...)\<close>: the token and what follows it.\<close>

definition strtok_eq :: "string \<Rightarrow> (string \<times> string) option" where
  "strtok_eq s =
    (let t = dropWhile (\<lambda>c. c = CHR ''='') s
     in if t = [] then None
        else Some (takeWhile (\<lambda>c. c \<noteq> CHR ''='') t, drop 1 (dropWhile (\<lambda>c. c \<noteq> CHR ''='') t)))"

text \<open>The lines that repeated \<open>fgets(buf, n, fp)\<close> delivers: at most \<open>n - 1\<close> characters each.\<close>

fun fgets_lines :: "nat \<Rightarrow> nat \<Rightarrow> string \<Rightarrow> string \<Rightarrow> string list" where
  "fgets_lines n room cur [] = (if cur = [] then [] else [cur])"
| "fgets_lines n room cur (c # cs) =
    (if c = CHR 0x0A \<or> room \<le> 1 then (cur @ [c]) # fgets_lines n n [] cs
     else fgets_lines n (room - 1) (cur @ [c]) cs)"

definition LOC_MAX_PARAM_NAME :: nat where "LOC_MAX_PARAM_NAME = 48"
definition LOC_MAX_PARAM_STRING :: nat where "LOC_MAX_PARAM_STRING = 80"
definition LOC_MAX_PARAM_LINE :: nat where "LOC_MAX_PARAM_LINE = 80"

section \<open>Trimming\<close>

text \<open>
  The loop of \<open>trim_space\<close>: \<open>found\<close> says that \<open>first_nonspace\<close> is set, \<open>w\<close> is what has been written
  at the front of the string and \<open>lst\<close> the number of characters up to \<open>last_nonspace\<close>.
\<close>

fun trim_loop :: "string \<Rightarrow> bool \<Rightarrow> string \<Rightarrow> nat option \<Rightarrow> string \<times> nat option" where
  "trim_loop [] found w lst = (w, lst)"
| "trim_loop (c # cs) found w lst =
    (let found' = (found \<or> \<not> isspace c)
     in if found' then trim_loop cs found' (w @ [c]) (if \<not> isspace c then Some (length w + 1) else lst)
        else trim_loop cs found' w lst)"

definition trim_space :: "string \<Rightarrow> string" where
  "trim_space org_string = (case trim_loop org_string False [] None of
      (w, None) \<Rightarrow> w @ drop (length w) org_string
    | (w, Some n) \<Rightarrow> take n w)"

section \<open>Parameters\<close>

datatype 's param_ptr =
    Int_ptr "i32 \<Rightarrow> 's \<Rightarrow> 's"
  | Double_ptr "real \<Rightarrow> 's \<Rightarrow> 's"
  | String_ptr "string \<Rightarrow> 's \<Rightarrow> 's"

record 's loc_param_s_type =
  param_name :: string
  param_ptr :: "'s param_ptr option"
  param_set :: "(u8 \<Rightarrow> 's \<Rightarrow> 's) option"
  param_type :: char

record loc_param_v_type =
  v_param_name :: string
  param_str_value :: string
  param_int_value :: i32
  param_double_value :: real

text \<open>A value stored in a parameter, and its validity flag set to one.\<close>

definition mark_set :: "'s loc_param_s_type \<Rightarrow> 's \<Rightarrow> 's" where
  "mark_set e s = (case param_set e of None \<Rightarrow> s | Some f \<Rightarrow> f 1 s)"

definition loc_set_config_entry :: "'s loc_param_s_type option \<Rightarrow> loc_param_v_type option \<Rightarrow> 's \<Rightarrow> 's option" where
  "loc_set_config_entry config_entry config_value s =
    (case (config_entry, config_value) of
       (Some e, Some v) \<Rightarrow>
         (case param_ptr e of
            None \<Rightarrow> Some s
          | Some p \<Rightarrow>
              if param_name e = v_param_name v then
                (if param_type e = CHR ''s'' then
                   (case p of String_ptr put \<Rightarrow>
                        Some (mark_set e (put (if param_str_value v = ''NULL'' then []
                                               else strlcpy (LOC_MAX_PARAM_STRING + 1) (param_str_value v)) s))
                    | _ \<Rightarrow> None)
                 else if param_type e = CHR ''n'' then
                   (case p of Int_ptr put \<Rightarrow> Some (mark_set e (put (param_int_value v) s)) | _ \<Rightarrow> None)
                 else if param_type e = CHR ''f'' then
                   (case p of Double_ptr put \<Rightarrow> Some (mark_set e (put (param_double_value v) s)) | _ \<Rightarrow> None)
                 else Some s)
              else Some s)
     | _ \<Rightarrow> Some s)"

text \<open>The world of the logging parameters: memory with two variables in it, and the logger's settings.\<close>

record log_world =
  bytes :: "nat \<Rightarrow> u8"
  addr_DEBUG_LEVEL :: nat
  addr_TIMESTAMP :: nat
  logger :: "u8 \<times> u8"

definition put_int :: "nat \<Rightarrow> i32 \<Rightarrow> ('z) log_world_scheme \<Rightarrow> ('z) log_world_scheme" where
  "put_int a v w = w\<lparr>bytes := (bytes w)(a := ucast v, a + 1 := ucast (drop_bit 8 v),
     a + 2 := ucast (drop_bit 16 v), a + 3 := ucast (drop_bit 24 v))\<rparr>"

definition loc_logger_init :: "u8 \<Rightarrow> u8 \<Rightarrow> ('z) log_world_scheme \<Rightarrow> ('z) log_world_scheme" where
  "loc_logger_init debug timestamp w = w\<lparr>logger := (debug, timestamp)\<rparr>"

definition DEBUG_LEVEL :: "('z) log_world_scheme \<Rightarrow> u8" where
  "DEBUG_LEVEL w = bytes w (addr_DEBUG_LEVEL w)"

definition TIMESTAMP :: "('z) log_world_scheme \<Rightarrow> u8" where
  "TIMESTAMP w = bytes w (addr_TIMESTAMP w)"

definition log_parameter_table :: "('z) log_world_scheme loc_param_s_type list" where
  "log_parameter_table =
    [\<lparr>param_name = ''DEBUG_LEVEL'', param_ptr = Some (Int_ptr (\<lambda>v w. put_int (addr_DEBUG_LEVEL w) v w)),
      param_set = None, param_type = CHR ''n''\<rparr>,
     \<lparr>param_name = ''TIMESTAMP'', param_ptr = Some (Int_ptr (\<lambda>v w. put_int (addr_TIMESTAMP w) v w)),
      param_set = None, param_type = CHR ''n''\<rparr>]"

definition log_default_parameters :: "('z) log_world_scheme \<Rightarrow> ('z) log_world_scheme" where
  "log_default_parameters w =
    (let w1 = w\<lparr>bytes := (bytes w)(addr_DEBUG_LEVEL w := 3)\<rparr>;
         w2 = w1\<lparr>bytes := (bytes w1)(addr_TIMESTAMP w1 := 0)\<rparr>
     in loc_logger_init (DEBUG_LEVEL w2) (TIMESTAMP w2) w2)"

section \<open>Reading a file\<close>

text \<open>One line: \<open>None\<close> when it is skipped.\<close>

definition parse_line :: "(string \<Rightarrow> real) \<Rightarrow> string \<Rightarrow> loc_param_v_type option" where
  "parse_line atof input_buf = do {
     (name, rest) \<leftarrow> strtok_eq (cstr input_buf);
     (val, _) \<leftarrow> strtok_eq rest;
     let name' = trim_space name;
     let val' = trim_space val;
     Some (if take 1 val' = ''0'' \<and> (case drop 1 val' of c # _ \<Rightarrow> tolower_is_x c | [] \<Rightarrow> False)
       then \<lparr>v_param_name = name', param_str_value = val',
             param_int_value = word_of_int (strtol 16 (drop 2 val')), param_double_value = 0\<rparr>
       else \<lparr>v_param_name = name', param_str_value = val',
             param_int_value = word_of_int (atoi val'), param_double_value = atof val'\<rparr>)
   }"

fun set_all :: "'s loc_param_s_type list \<Rightarrow> loc_param_v_type \<Rightarrow> 's \<Rightarrow> 's option" where
  "set_all [] v s = Some s"
| "set_all (e # es) v s = loc_set_config_entry (Some e) (Some v) s \<bind> set_all es v"

fun read_lines :: "(string \<Rightarrow> real) \<Rightarrow> ('z) log_world_scheme loc_param_s_type list \<Rightarrow> string list \<Rightarrow>
    ('z) log_world_scheme \<Rightarrow> ('z) log_world_scheme option" where
  "read_lines atof table [] w = Some w"
| "read_lines atof table (l # ls) w = (case parse_line atof l of
      None \<Rightarrow> read_lines atof table ls w
    | Some v \<Rightarrow> set_all table v w \<bind> set_all log_parameter_table v \<bind> read_lines atof table ls)"

definition clear_set :: "'s loc_param_s_type \<Rightarrow> 's \<Rightarrow> 's" where
  "clear_set e s = (case param_set e of None \<Rightarrow> s | Some f \<Rightarrow> f 0 s)"

text \<open>\<open>file\<close> is the text of the file, \<open>None\<close> when it cannot be opened; \<open>config_table\<close> may be \<open>NULL\<close>.\<close>

definition loc_read_conf :: "(string \<Rightarrow> real) \<Rightarrow> string option \<Rightarrow> ('z) log_world_scheme loc_param_s_type list option \<Rightarrow>
    ('z) log_world_scheme \<Rightarrow> ('z) log_world_scheme option" where
  "loc_read_conf atof file config_table w =
    (let w1 = log_default_parameters w;
         table = (case config_table of None \<Rightarrow> [] | Some t \<Rightarrow> t)
     in case file of
          None \<Rightarrow> Some w1
        | Some text \<Rightarrow> do {
            w2 \<leftarrow> read_lines atof table (fgets_lines (LOC_MAX_PARAM_LINE - 1) (LOC_MAX_PARAM_LINE - 1) [] text)
                   (fold clear_set table w1);
            Some (loc_logger_init (DEBUG_LEVEL w2) (TIMESTAMP w2) w2)
          })"

section \<open>The engine's parameters\<close>

record conf_world = log_world +
  gps_conf :: loc_gps_cfg
  gpsConfigAlreadyRead :: bool

definition num_param :: "string \<Rightarrow> (u32 \<Rightarrow> loc_gps_cfg \<Rightarrow> loc_gps_cfg) \<Rightarrow> conf_world loc_param_s_type" where
  "num_param name put = \<lparr>param_name = name,
     param_ptr = Some (Int_ptr (\<lambda>v w. w\<lparr>gps_conf := put v (gps_conf w)\<rparr>)), param_set = None, param_type = CHR ''n''\<rparr>"

definition float_param :: "string \<Rightarrow> (real \<Rightarrow> loc_gps_cfg \<Rightarrow> loc_gps_cfg) \<Rightarrow>
    (u8 \<Rightarrow> loc_gps_cfg \<Rightarrow> loc_gps_cfg) \<Rightarrow> conf_world loc_param_s_type" where
  "float_param name put valid = \<lparr>param_name = name,
     param_ptr = Some (Double_ptr (\<lambda>v w. w\<lparr>gps_conf := put v (gps_conf w)\<rparr>)),
     param_set = Some (\<lambda>b w. w\<lparr>gps_conf := valid b (gps_conf w)\<rparr>), param_type = CHR ''f''\<rparr>"

definition loc_parameter_table :: "conf_world loc_param_s_type list" where
  "loc_parameter_table =
    [num_param ''INTERMEDIATE_POS'' (\<lambda>v c. c\<lparr>INTERMEDIATE_POS := v\<rparr>),
     num_param ''ACCURACY_THRES'' (\<lambda>v c. c\<lparr>ACCURACY_THRES := v\<rparr>),
     num_param ''ENABLE_WIPER'' (\<lambda>v c. c\<lparr>ENABLE_WIPER := v\<rparr>),
     num_param ''SUPL_VER'' (\<lambda>v c. c\<lparr>SUPL_VER := v\<rparr>),
     num_param ''CAPABILITIES'' (\<lambda>v c. c\<lparr>CAPABILITIES := v\<rparr>),
     float_param ''GYRO_BIAS_RANDOM_WALK'' (\<lambda>v c. c\<lparr>GYRO_BIAS_RANDOM_WALK := v\<rparr>)
       (\<lambda>b c. c\<lparr>GYRO_BIAS_RANDOM_WALK_VALID := b\<rparr>),
     float_param ''ACCEL_RANDOM_WALK_SPECTRAL_DENSITY'' (\<lambda>v c. c\<lparr>ACCEL_RANDOM_WALK_SPECTRAL_DENSITY := v\<rparr>)
       (\<lambda>b c. c\<lparr>ACCEL_RANDOM_WALK_SPECTRAL_DENSITY_VALID := b\<rparr>),
     float_param ''ANGLE_RANDOM_WALK_SPECTRAL_DENSITY'' (\<lambda>v c. c\<lparr>ANGLE_RANDOM_WALK_SPECTRAL_DENSITY := v\<rparr>)
       (\<lambda>b c. c\<lparr>ANGLE_RANDOM_WALK_SPECTRAL_DENSITY_VALID := b\<rparr>),
     float_param ''RATE_RANDOM_WALK_SPECTRAL_DENSITY'' (\<lambda>v c. c\<lparr>RATE_RANDOM_WALK_SPECTRAL_DENSITY := v\<rparr>)
       (\<lambda>b c. c\<lparr>RATE_RANDOM_WALK_SPECTRAL_DENSITY_VALID := b\<rparr>),
     float_param ''VELOCITY_RANDOM_WALK_SPECTRAL_DENSITY'' (\<lambda>v c. c\<lparr>VELOCITY_RANDOM_WALK_SPECTRAL_DENSITY := v\<rparr>)
       (\<lambda>b c. c\<lparr>VELOCITY_RANDOM_WALK_SPECTRAL_DENSITY_VALID := b\<rparr>),
     num_param ''SENSOR_ACCEL_BATCHES_PER_SEC'' (\<lambda>v c. c\<lparr>SENSOR_ACCEL_BATCHES_PER_SEC := v\<rparr>),
     num_param ''SENSOR_ACCEL_SAMPLES_PER_BATCH'' (\<lambda>v c. c\<lparr>SENSOR_ACCEL_SAMPLES_PER_BATCH := v\<rparr>),
     num_param ''SENSOR_GYRO_BATCHES_PER_SEC'' (\<lambda>v c. c\<lparr>SENSOR_GYRO_BATCHES_PER_SEC := v\<rparr>),
     num_param ''SENSOR_GYRO_SAMPLES_PER_BATCH'' (\<lambda>v c. c\<lparr>SENSOR_GYRO_SAMPLES_PER_BATCH := v\<rparr>),
     num_param ''SENSOR_ACCEL_BATCHES_PER_SEC_HIGH'' (\<lambda>v c. c\<lparr>SENSOR_ACCEL_BATCHES_PER_SEC_HIGH := v\<rparr>),
     num_param ''SENSOR_ACCEL_SAMPLES_PER_BATCH_HIGH'' (\<lambda>v c. c\<lparr>SENSOR_ACCEL_SAMPLES_PER_BATCH_HIGH := v\<rparr>),
     num_param ''SENSOR_GYRO_BATCHES_PER_SEC_HIGH'' (\<lambda>v c. c\<lparr>SENSOR_GYRO_BATCHES_PER_SEC_HIGH := v\<rparr>),
     num_param ''SENSOR_GYRO_SAMPLES_PER_BATCH_HIGH'' (\<lambda>v c. c\<lparr>SENSOR_GYRO_SAMPLES_PER_BATCH_HIGH := v\<rparr>),
     num_param ''SENSOR_CONTROL_MODE'' (\<lambda>v c. c\<lparr>SENSOR_CONTROL_MODE := v\<rparr>),
     num_param ''SENSOR_USAGE'' (\<lambda>v c. c\<lparr>SENSOR_USAGE := v\<rparr>),
     num_param ''SENSOR_ALGORITHM_CONFIG_MASK'' (\<lambda>v c. c\<lparr>SENSOR_ALGORITHM_CONFIG_MASK := v\<rparr>),
     num_param ''QUIPC_ENABLED'' (\<lambda>v c. c\<lparr>QUIPC_ENABLED := v\<rparr>),
     num_param ''LPP_PROFILE'' (\<lambda>v c. c\<lparr>LPP_PROFILE := v\<rparr>)]"

definition loc_eng_read_config :: "(string \<Rightarrow> real) \<Rightarrow> string option \<Rightarrow> conf_world \<Rightarrow> (int \<times> conf_world) option" where
  "loc_eng_read_config atof gps_conf_file w =
    (if \<not> gpsConfigAlreadyRead w then do {
       w1 \<leftarrow> loc_read_conf atof gps_conf_file (Some loc_parameter_table)
              (w\<lparr>gps_conf := loc_default_parameters (gps_conf w)\<rparr>);
       Some (0, w1\<lparr>gpsConfigAlreadyRead := True\<rparr>)
     } else Some (0, w))"

end
