(* ===== verification/Loc_Afw.thy ===== *)
theory Loc_Afw
  imports Loc_Cfg
begin

text \<open>
  The GPS interface that the framework calls (gps/libloc_api_50001/loc.cpp): reading the
  device, loading libraries, and passing the framework's calls to the engine and the engine's
  reports to the framework. Files, properties, shared libraries and the modem's answers are
  arguments. The functions that only hand a call on differ from the engine's in the state they act
  on; Loc\_Interfaces has the tables that list them. Log messages are not modelled.
\<close>

section \<open>Constants of gps.h\<close>

definition GPS_POSITION_MODE_STANDALONE :: u32 where "GPS_POSITION_MODE_STANDALONE = 0"
definition GPS_POSITION_MODE_MS_BASED :: u32 where "GPS_POSITION_MODE_MS_BASED = 1"
definition GPS_POSITION_MODE_MS_ASSISTED :: u32 where "GPS_POSITION_MODE_MS_ASSISTED = 2"
definition GPS_CAPABILITY_MSB :: u32 where "GPS_CAPABILITY_MSB = 0x2"
definition GPS_CAPABILITY_MSA :: u32 where "GPS_CAPABILITY_MSA = 0x4"
definition GPS_CAPABILITY_GEOFENCING :: u32 where "GPS_CAPABILITY_GEOFENCING = 0x20"
definition GPS_XTRA_INTERFACE :: string where "GPS_XTRA_INTERFACE = ''gps-xtra''"
definition AGPS_INTERFACE :: string where "AGPS_INTERFACE = ''agps''"
definition GPS_NI_INTERFACE :: string where "GPS_NI_INTERFACE = ''gps-ni''"
definition AGPS_RIL_INTERFACE :: string where "AGPS_RIL_INTERFACE = ''agps_ril''"
definition ULP_RAW_CMD_INTERFACE :: string where "ULP_RAW_CMD_INTERFACE = ''ulp-raw-cmd''"
definition ULP_PHONE_CONTEXT_INTERFACE :: string where "ULP_PHONE_CONTEXT_INTERFACE = ''ulp-phone-context''"
definition ULP_NETWORK_INTERFACE :: string where "ULP_NETWORK_INTERFACE = ''ulp-network-interface''"
definition GPS_GEOFENCING_INTERFACE :: string where "GPS_GEOFENCING_INTERFACE = ''gps_geofencing''"

lemmas gps_interface_names = GPS_XTRA_INTERFACE_def AGPS_INTERFACE_def GPS_NI_INTERFACE_def AGPS_RIL_INTERFACE_def
  ULP_RAW_CMD_INTERFACE_def ULP_PHONE_CONTEXT_INTERFACE_def ULP_NETWORK_INTERFACE_def GPS_GEOFENCING_INTERFACE_def

section \<open>State\<close>

text \<open>
  The globals of loc.cpp beside the configuration (\<open>conf_world\<close>): the engine's data, whether the ULP
  library's interface has been loaded, the framework's two callbacks, and the GSS descriptor.
\<close>

record loc_afw = conf_world +
  loc_afw_data :: engine
  loc_eng_ulp_inf :: bool
  gps_loc_cb :: bool
  gps_sv_cb :: bool
  gss_fd :: int
  geofence_static :: ptr

text \<open>What the framework gets.\<close>

datatype framework_call = Fw_location GpsLocation | Fw_sv_status GpsSvStatus

section \<open>Finding out about the device\<close>

text \<open>A file's text, or \<open>None\<close> when it cannot be opened; \<open>fgets\<close> with a buffer of \<open>line_size\<close> bytes.\<close>

definition read_a_line :: "(string \<Rightarrow> string option) \<Rightarrow> string \<Rightarrow> nat \<Rightarrow> int \<times> string" where
  "read_a_line files file_path line_size = (case files file_path of
      None \<Rightarrow> (-1, [])
    | Some t \<Rightarrow> (0, case fgets_lines (line_size - 1) (line_size - 1) [] t of [] \<Rightarrow> [] | l # _ \<Rightarrow> cstr l))"

definition LINE_LEN :: nat where "LINE_LEN = 100"
definition TARGET_NAME_OTHER :: int where "TARGET_NAME_OTHER = 0"
definition TARGET_NAME_APQ8064_STANDALONE :: int where "TARGET_NAME_APQ8064_STANDALONE = 1"
definition TARGET_NAME_APQ8064_FUSION3 :: int where "TARGET_NAME_APQ8064_FUSION3 = 2"

text \<open>\<open>memcmp\<close> with the text and \<open>IS_STR_END\<close> of what follows it.\<close>

definition line_is :: "string \<Rightarrow> string \<Rightarrow> bool" where
  "line_is line text \<longleftrightarrow> take (length text) line = text
     \<and> (case drop (length text) line of [] \<Rightarrow> True | c # _ \<Rightarrow> c = CHR 0x0A \<or> c = CHR 0x0D)"

definition get_target_name :: "(string \<Rightarrow> string option) \<Rightarrow> int" where
  "get_target_name files =
    (let (_, line) = read_a_line files ''/sys/devices/system/soc/soc0/hw_platform'' LINE_LEN
     in if line_is line ''Liquid'' \<or> line_is line ''Surf'' then
          (if fst (read_a_line files ''/dev/mdm'' LINE_LEN) = 0 then TARGET_NAME_APQ8064_FUSION3
           else let (_, i) = read_a_line files ''/sys/devices/system/soc/soc0/id'' LINE_LEN
                in if take 3 i = ''109'' then TARGET_NAME_APQ8064_STANDALONE else TARGET_NAME_OTHER)
        else TARGET_NAME_OTHER)"

section \<open>Libraries\<close>

text \<open>A library: not there, there without the function, or the function with what it answers.\<close>

datatype library = No_library | No_symbol | Library ptr

definition load_interface :: "library \<Rightarrow> ptr" where
  "load_interface lib = (case lib of Library p \<Rightarrow> p | _ \<Rightarrow> NULL)"

definition loc_eng_get_ulp_inf :: "library \<Rightarrow> loc_gps_cfg \<Rightarrow> bool" where
  "loc_eng_get_ulp_inf libulp conf =
    (if CAPABILITIES conf AND ULP_CAPABILITY = 0 then False else load_interface libulp \<noteq> NULL)"

text \<open>\<open>geofence_static\<close> is the function's static variable, which keeps what an earlier call found.\<close>

definition get_geofence_interface :: "library \<Rightarrow> loc_afw \<Rightarrow> ptr \<times> loc_afw" where
  "get_geofence_interface lib s = (case lib of
      Library p \<Rightarrow> (p, s\<lparr>geofence_static := p\<rparr>) | _ \<Rightarrow> (geofence_static s, s))"

section \<open>Calls of the framework\<close>

record GpsCallbacks =
  fw_location_cb :: bool
  fw_status_cb :: bool
  fw_sv_status_cb :: bool
  fw_nmea_cb :: bool
  fw_set_capabilities_cb :: bool
  fw_acquire_wakelock_cb :: bool
  fw_release_wakelock_cb :: bool

text \<open>The event mask of \<open>loc_init\<close>: the eight reports and requests it asks the modem for.\<close>

definition init_events :: u32 where
  "init_events =
     LOC_API_ADAPTER_BIT LOC_API_ADAPTER_REPORT_POSITION OR
     LOC_API_ADAPTER_BIT LOC_API_ADAPTER_REPORT_SATELLITE OR
     LOC_API_ADAPTER_BIT LOC_API_ADAPTER_REQUEST_LOCATION_SERVER OR
     LOC_API_ADAPTER_BIT LOC_API_ADAPTER_REQUEST_ASSISTANCE_DATA OR
     LOC_API_ADAPTER_BIT LOC_API_ADAPTER_REPORT_IOCTL OR
     LOC_API_ADAPTER_BIT LOC_API_ADAPTER_REPORT_STATUS OR
     LOC_API_ADAPTER_BIT LOC_API_ADAPTER_REPORT_NMEA_1HZ OR
     LOC_API_ADAPTER_BIT LOC_API_ADAPTER_REQUEST_NI_NOTIFY_VERIFY"

definition with_engine :: "(engine \<Rightarrow> ('r \<times> engine) option) \<Rightarrow> loc_afw \<Rightarrow> ('r \<times> loc_afw) option" where
  "with_engine f s = map_option (\<lambda>(r, e). (r, s\<lparr>loc_afw_data := e\<rparr>)) (f (loc_afw_data s))"

text \<open>\<open>gss_open\<close> is what opening \<open>/dev/gss\<close> answers; \<open>rets\<close>, \<open>adapter\<close> and \<open>owner_word\<close> as in \<open>loc_eng_init\<close>.\<close>

definition loc_init :: "(string \<Rightarrow> string option) \<Rightarrow> int \<Rightarrow> (nat \<Rightarrow> loc_api_adapter_err) \<Rightarrow> LocPosMode option \<Rightarrow> ptr \<Rightarrow>
    GpsCallbacks option \<Rightarrow> loc_afw \<Rightarrow> (int \<times> loc_afw) option" where
  "loc_init files gss_open rets adapter owner_word callbacks s = (case callbacks of
      None \<Rightarrow> None
    | Some cb \<Rightarrow>
        let clientCallbacks = \<lparr>lc_location_cb = True, lc_status_cb = fw_status_cb cb, lc_sv_status_cb = True,
              lc_nmea_cb = fw_nmea_cb cb, lc_set_capabilities_cb = fw_set_capabilities_cb cb,
              lc_acquire_wakelock_cb = fw_acquire_wakelock_cb cb, lc_release_wakelock_cb = fw_release_wakelock_cb cb,
              lc_location_ext_parser = None, lc_sv_ext_parser = None\<rparr>;
            s1 = s\<lparr>gps_loc_cb := fw_location_cb cb, gps_sv_cb := fw_sv_status_cb cb\<rparr>;
            standalone = (get_target_name files = TARGET_NAME_APQ8064_STANDALONE);
            s2 = (if standalone then s1\<lparr>gps_conf := (gps_conf s1)\<lparr>CAPABILITIES :=
                      CAPABILITIES (gps_conf s1) AND NOT (GPS_CAPABILITY_MSA OR GPS_CAPABILITY_MSB)\<rparr>, gss_fd := gss_open\<rparr>
                  else s1)
        in if standalone \<and> gss_open < 0 then Some (0, s2)
           else do {
             (retVal, s3) \<leftarrow> with_engine (loc_eng_init (gps_conf s2) rets adapter owner_word (Some clientCallbacks)
                 init_events (loc_eng_ulp_inf s2)) s2;
             (_, s4) \<leftarrow> with_engine (\<lambda>e. Some (loc_eng_ulp_init (loc_eng_ulp_inf s3) e)) s3;
             Some (retVal, s4)
           })"

definition loc_cleanup :: "loc_afw \<Rightarrow> (unit \<times> loc_afw) option" where
  "loc_cleanup s = map_option (\<lambda>(r, s1). (r, s1\<lparr>gps_loc_cb := False, gps_sv_cb := False\<rparr>))
     (with_engine (loc_eng_cleanup (gps_conf s)) s)"

definition loc_start :: "loc_afw \<Rightarrow> (int \<times> loc_afw) option" where
  "loc_start s = with_engine (loc_eng_start (gps_conf s)) s"

definition loc_stop :: "loc_afw \<Rightarrow> (int \<times> loc_afw) option" where
  "loc_stop s = with_engine (loc_eng_stop (gps_conf s)) s"

definition locMode :: "u32 \<Rightarrow> LocPositionMode" where
  "locMode mode = (if mode = GPS_POSITION_MODE_MS_BASED then LOC_POSITION_MODE_MS_BASED
     else if mode = GPS_POSITION_MODE_MS_ASSISTED then LOC_POSITION_MODE_MS_ASSISTED
     else LOC_POSITION_MODE_STANDALONE)"

definition loc_set_position_mode :: "u32 \<Rightarrow> GpsPositionRecurrence \<Rightarrow> u32 \<Rightarrow> u32 \<Rightarrow> u32 \<Rightarrow> loc_afw \<Rightarrow> (int \<times> loc_afw) option" where
  "loc_set_position_mode mode recurrence min_interval preferred_accuracy preferred_time s = do {
     params \<leftarrow> new_LocPosMode (locMode mode) recurrence min_interval preferred_accuracy preferred_time None None;
     with_engine (loc_eng_set_position_mode params) s
   }"

definition loc_inject_time :: "GpsUtcTime \<Rightarrow> 64 word \<Rightarrow> i32 \<Rightarrow> loc_afw \<Rightarrow> (int \<times> loc_afw) option" where
  "loc_inject_time time timeReference uncertainty s = with_engine (loc_eng_inject_time time timeReference uncertainty) s"

definition loc_inject_location :: "real \<Rightarrow> real \<Rightarrow> real \<Rightarrow> loc_afw \<Rightarrow> (int \<times> loc_afw) option" where
  "loc_inject_location latitude longitude accuracy s = with_engine (loc_eng_inject_location latitude longitude accuracy) s"

definition loc_delete_aiding_data :: "GpsAidingData \<Rightarrow> loc_afw \<Rightarrow> (unit \<times> loc_afw) option" where
  "loc_delete_aiding_data f s = with_engine (loc_eng_delete_aiding_data f) s"

definition loc_update_criteria :: "UlpLocationCriteria \<Rightarrow> loc_afw \<Rightarrow> (int \<times> loc_afw) option" where
  "loc_update_criteria criteria s = with_engine (loc_eng_update_criteria (gps_conf s) criteria) s"

definition loc_agps_init :: "(string \<Rightarrow> u32 option) \<Rightarrow> bool \<Rightarrow> AGpsBearerType \<Rightarrow> bool \<Rightarrow> loc_afw \<Rightarrow> (unit \<times> loc_afw) option" where
  "loc_agps_init resolve bit_api junk callbacks s = with_engine (loc_eng_agps_init resolve bit_api junk callbacks) s"

definition loc_agps_open :: "AGpsType \<Rightarrow> string option \<Rightarrow> AGpsBearerType \<Rightarrow> loc_afw \<Rightarrow> (int \<times> loc_afw) option" where
  "loc_agps_open agpsType apn bearerType s = with_engine (loc_eng_agps_open agpsType apn bearerType) s"

definition loc_agps_closed :: "AGpsType \<Rightarrow> loc_afw \<Rightarrow> (int \<times> loc_afw) option" where
  "loc_agps_closed agpsType s = with_engine (loc_eng_agps_closed agpsType) s"

definition loc_agps_open_failed :: "AGpsType \<Rightarrow> loc_afw \<Rightarrow> (int \<times> loc_afw) option" where
  "loc_agps_open_failed agpsType s = with_engine (loc_eng_agps_open_failed agpsType) s"

text \<open>For other types the local \<open>serverType\<close> is read without a value: undefined.\<close>

definition loc_agps_set_server :: "(string \<Rightarrow> u32 option) \<Rightarrow> AGpsType \<Rightarrow> string \<Rightarrow> i32 \<Rightarrow> loc_afw \<Rightarrow> (int \<times> loc_afw) option" where
  "loc_agps_set_server resolve ty hostname port s =
    (if ty = AGPS_TYPE_SUPL then with_engine (loc_eng_set_server_proxy resolve LOC_AGPS_SUPL_SERVER hostname port) s
     else if ty = AGPS_TYPE_C2K then with_engine (loc_eng_set_server_proxy resolve LOC_AGPS_CDMA_PDE_SERVER hostname port) s
     else None)"

definition loc_xtra_init :: "bool \<Rightarrow> loc_afw \<Rightarrow> (int \<times> loc_afw) option" where
  "loc_xtra_init callbacks s = with_engine (\<lambda>e. Some (loc_eng_xtra_init callbacks e)) s"

definition loc_xtra_inject_data :: "u8 list \<Rightarrow> nat \<Rightarrow> loc_afw \<Rightarrow> (int \<times> loc_afw) option" where
  "loc_xtra_inject_data data len s = with_engine (loc_eng_xtra_inject_data data len) s"

definition loc_ni_init :: "bool \<Rightarrow> loc_afw \<Rightarrow> (unit \<times> loc_afw) option" where
  "loc_ni_init callbacks s = with_engine (\<lambda>e. Some ((), eng_ni_init callbacks e)) s"

definition loc_ni_respond :: "i32 \<Rightarrow> GpsUserResponseType \<Rightarrow> loc_afw \<Rightarrow> (unit \<times> loc_afw) option" where
  "loc_ni_respond notif_id user_response s = with_engine (\<lambda>e. Some ((), eng_ni_respond notif_id user_response e)) s"

definition loc_agps_ril_update_network_availability :: "i32 \<Rightarrow> string option \<Rightarrow> loc_afw \<Rightarrow> (unit \<times> loc_afw) option" where
  "loc_agps_ril_update_network_availability available apn s =
     with_engine (loc_eng_agps_ril_update_network_availability available apn) s"

definition loc_inject_raw_command :: "u8 list \<Rightarrow> nat \<Rightarrow> loc_afw \<Rightarrow> (bool \<times> loc_afw) option" where
  "loc_inject_raw_command command len s = with_engine (loc_eng_inject_raw_command (gps_conf s) command len) s"

definition loc_ulp_network_init :: "bool \<Rightarrow> loc_afw \<Rightarrow> (int \<times> loc_afw) option" where
  "loc_ulp_network_init callbacks s = with_engine (\<lambda>e. Some (loc_eng_ulp_network_init callbacks e)) s"

definition loc_ulp_send_network_position :: "UlpNetworkPositionReport \<Rightarrow> loc_afw \<Rightarrow> (int \<times> loc_afw) option" where
  "loc_ulp_send_network_position position_report s =
     with_engine (loc_eng_ulp_send_network_position (gps_conf s) position_report) s"

definition loc_ulp_phone_context_init :: "bool \<Rightarrow> loc_afw \<Rightarrow> (int \<times> loc_afw) option" where
  "loc_ulp_phone_context_init callback s = with_engine (\<lambda>e. Some (loc_eng_ulp_phone_context_init callback e)) s"

definition loc_ulp_phone_context_settings_update :: "UlpPhoneContextSettings \<Rightarrow> loc_afw \<Rightarrow> (int \<times> loc_afw) option" where
  "loc_ulp_phone_context_settings_update settings s =
     with_engine (loc_eng_ulp_phone_context_settings_update (gps_conf s) settings) s"

section \<open>Reports of the engine\<close>

definition loc_cb :: "loc_afw \<Rightarrow> GpsLocation option \<Rightarrow> framework_call list" where
  "loc_cb s loc = (case loc of Some l \<Rightarrow> if gps_loc_cb s then [Fw_location l] else [] | None \<Rightarrow> [])"

definition sv_cb :: "loc_afw \<Rightarrow> GpsSvStatus \<Rightarrow> framework_call list" where
  "sv_cb s sv_status = (if gps_sv_cb s then [Fw_sv_status sv_status] else [])"

text \<open>What reaches the framework of the engine's calls of the two wrapped callbacks.\<close>

fun framework_out :: "loc_afw \<Rightarrow> eng_out \<Rightarrow> framework_call list" where
  "framework_out s (Cb_location l ext) = loc_cb s l"
| "framework_out s (Cb_sv_status sv ext) = sv_cb s sv"
| "framework_out s _ = []"

end
