(* ===== verification/Loc_Afw_Correct.thy ===== *)
theory Loc_Afw_Correct
  imports Loc_Afw Loc_Eng_Props
begin

text \<open>
  The framework's calls on the engine: what initialisation leaves of the module data, the turns in which the
  deferred thread configures the modem, which reports of the modem reach the framework, and a failed
  initialisation that is reported as a success.
\<close>

section \<open>What the initialisation leaves alone\<close>

abbreviation same_data :: "engine \<Rightarrow> engine \<Rightarrow> bool" where
  "same_data e e' \<equiv> loc_eng_data.truncate e' = loc_eng_data.truncate e"

lemma same_data_fields:
  assumes "same_data e e'"
  shows "client_handle e' = client_handle e" "status_cb e' = status_cb e" "stop_request_pending e' = stop_request_pending e"
    "aiding_data_for_deletion e' = aiding_data_for_deletion e" "eng_context e' = eng_context e"
    "ulp_initialized e' = ulp_initialized e"
  using assms by (cases e; cases e'; simp add: loc_eng_data.defs)+

lemma same_emit: "same_data e (emit ev e)"
  by (simp add: emit_def loc_eng_data.defs)

lemma same_snd: "snd_deferred m e = Some e' \<Longrightarrow> same_data e e'"
  by (auto simp: snd_deferred_def loc_eng_data.defs split: if_splits)

lemma same_snd_all: "snd_all ms e = Some e' \<Longrightarrow> same_data e e'"
proof (induction ms arbitrary: e)
  case (Cons m ms)
  then obtain e1 where "snd_deferred m e = Some e1" "snd_all ms e1 = Some e'" by (auto simp: bind_eq_Some)
  with Cons.IH [of e1] same_snd show ?case by metis
qed simp

lemma same_reinit:
  assumes "loc_eng_reinit conf r e = Some (r', e')"
  shows "same_data e e'"
proof -
  from assms obtain e1 where e1: "call_api reinit e = Some e1"
    "e' = e1 \<or> snd_all (config_messages conf) e1 = Some e'"
    by (auto simp: loc_eng_reinit_def bind_eq_Some split: if_splits)
  then have "e1 = emit (Api reinit) e" by (auto simp: call_api_def split: if_splits)
  then have "same_data e e1" by (simp add: same_emit)
  with e1(2) same_snd_all show ?thesis by metis
qed

lemma same_init_loop: "init_loop conf rets n tries rv e = Some (r, e') \<Longrightarrow> same_data e e'"
proof (induction tries arbitrary: n rv e)
  case (Suc tries)
  then obtain r1 e1 where r: "loc_eng_reinit conf (rets n) e = Some (r1, e1)"
    "(if r1 = LOC_API_ADAPTER_ERR_SUCCESS then Some (0, e1)
      else init_loop conf rets (Suc n) tries (adapter_err_code r1) (emit Sleep_1s e1)) = Some (r, e')"
    by (auto simp: bind_eq_Some)
  note s = same_reinit [OF r(1)]
  show ?case
  proof (cases "r1 = LOC_API_ADAPTER_ERR_SUCCESS")
    case False
    with r(2) Suc.IH have "same_data (emit Sleep_1s e1) e'" by simp
    with s same_emit [of Sleep_1s e1] show ?thesis by metis
  qed (use r(2) s in simp)
qed simp

section \<open>The deferred thread on a quiet engine\<close>

definition quiet :: "engine \<Rightarrow> bool" where
  "quiet e \<longleftrightarrow> client_handle e \<noteq> None \<and> eng_context e \<and> me e \<noteq> None \<and> \<not> stop_request_pending e
     \<and> aiding_data_for_deletion e = 0"

fun config_call :: "loc_eng_msg \<Rightarrow> api_call option" where
  "config_call (loc_eng_msg_suple_version v) = Some (setSUPLVersion v)"
| "config_call (loc_eng_msg_lpp_config v) = Some (setLPPConfig v)"
| "config_call (loc_eng_msg_sensor_control_config v) = Some (setSensorControlConfig v)"
| "config_call (loc_eng_msg_sensor_properties gv g av a nv n rv r vv v) = Some (setSensorProperties gv g av a nv n rv r vv v)"
| "config_call (loc_eng_msg_sensor_perf_control_config a b c d f g h i j k) = Some (setSensorPerfControlConfig a b c d f g h i j k)"
| "config_call (loc_eng_msg_engine_lock l) = Some (setEngineLock l)"
| "config_call _ = None"

definition pop :: "engine \<Rightarrow> engine" where
  "pop e = e\<lparr>me := map_option (\<lambda>c. c\<lparr>deferred_q := tl (deferred_q c)\<rparr>) (me e)\<rparr>"

lemma quiet_pop: "quiet e \<Longrightarrow> quiet (pop e) \<and> queued (pop e) = tl (queued e) \<and> eng_out (pop e) = eng_out e
    \<and> client_handle (pop e) = client_handle e \<and> status_cb (pop e) = status_cb e"
  by (auto simp: quiet_def pop_def queued_def)

lemma quiet_emit: "quiet (emit ev e) = quiet e" "queued (emit ev e) = queued e" "eng_out (emit ev e) = eng_out e @ [ev]"
  "client_handle (emit ev e) = client_handle e" "status_cb (emit ev e) = status_cb e"
  by (simp_all add: quiet_def emit_def queued_def)

lemma turn_quiet:
  assumes "quiet e" "queued e = m # q" "deferred_action conf resolve env m (pop e) = Some e'"
  shows "deferred_turn conf resolve env e = Some (Turn e')"
proof -
  from assms(1,2) obtain c where c: "me e = Some c" "deferred_q c = m # q"
    by (cases "me e") (auto simp: quiet_def queued_def)
  moreover have "pop e = e\<lparr>me := Some (c\<lparr>deferred_q := q\<rparr>)\<rparr>" by (simp add: pop_def c)
  ultimately show ?thesis using assms(1,3) by (simp add: deferred_turn_def quiet_def)
qed

lemma action_rest:
  assumes "quiet e1" "handle_msg conf resolve env m e = Some e1" "msgid m \<notin> set agps_ids" "delete_msg m e1 = e1"
  shows "deferred_action conf resolve env m e = Some e1"
proof -
  have "after_agps env (msgid m) e1 = Some e1" using assms(3) by (auto simp: after_agps_def agps_ids_def)
  moreover have "e1\<lparr>stop_request_pending := False\<rparr> = e1" using assms(1) by (simp add: quiet_def)
  moreover have "after_aiding e1 = Some e1" using assms(1) by (simp add: quiet_def after_aiding_def)
  ultimately show ?thesis using assms(2,4) by (simp add: deferred_action_def)
qed

lemma turn_config:
  assumes "quiet e" "queued e = m # q" "config_call m = Some a"
  shows "deferred_turn conf resolve env e = Some (Turn (emit (Api a) (pop e)))"
proof (rule turn_quiet [OF assms(1,2)])
  have p: "quiet (emit (Api a) (pop e))" using quiet_pop [OF assms(1)] by (simp add: quiet_emit)
  have "call_api a (pop e) = Some (emit (Api a) (pop e))"
    using quiet_pop [OF assms(1)] assms(1) by (auto simp: call_api_def quiet_def)
  with assms(3) have h: "handle_msg conf resolve env m (pop e) = Some (emit (Api a) (pop e))" by (cases m) auto
  show "deferred_action conf resolve env m (pop e) = Some (emit (Api a) (pop e))"
    by (rule action_rest [OF p h]) (use assms(3) in \<open>cases m; auto simp: agps_ids_def\<close>)+
qed

lemma with_handle [simp]:
  "queued (e\<lparr>client_handle := h\<rparr>) = queued e"
  "quiet e \<Longrightarrow> quiet (e\<lparr>client_handle := Some a\<rparr>)"
  by (simp_all add: quiet_def queued_def)

lemma config_messages_config: "\<forall>m \<in> set (config_messages conf). config_call m \<noteq> None"
  by (auto simp: config_messages_def)

section \<open>Properties\<close>

definition example_afw :: loc_afw where
  "example_afw = \<lparr>bytes = (\<lambda>_. 0), addr_DEBUG_LEVEL = 0, addr_TIMESTAMP = 1, logger = (0, 0), gps_conf = example_conf, gpsConfigAlreadyRead = True,
     loc_afw_data = fresh_engine, loc_eng_ulp_inf = False, gps_loc_cb = False, gps_sv_cb = False, gss_fd = -1, geofence_static = NULL\<rparr>"

definition example_fw_callbacks :: GpsCallbacks where
  "example_fw_callbacks = \<lparr>fw_location_cb = True, fw_status_cb = True, fw_sv_status_cb = True, fw_nmea_cb = True,
     fw_set_capabilities_cb = True, fw_acquire_wakelock_cb = True, fw_release_wakelock_cb = True\<rparr>"

text \<open>
  On a standalone device whose GSS driver cannot be opened, \<open>loc_init\<close> returns zero, its success
  code, without initialising the engine; the framework's \<open>loc_start\<close> then fails.
\<close>

theorem gss_failure_reported_as_success:
  assumes "get_target_name files = TARGET_NAME_APQ8064_STANDALONE" "gss_open < 0" "\<not> eng_context (loc_afw_data s)"
  shows "\<exists>s1. loc_init files gss_open rets adapter w (Some cb) s = Some (0, s1) \<and> loc_afw_data s1 = loc_afw_data s
     \<and> loc_start s1 = Some (-1, s1)"
  using assms by (simp add: loc_init_def loc_start_def with_engine_def loc_eng_start_def INIT_CHECK_def)

definition example_files :: "string \<Rightarrow> string option" where
  "example_files path = (if path = ''/sys/devices/system/soc/soc0/hw_platform'' then Some ''Liquid''
     else if path = ''/sys/devices/system/soc/soc0/id'' then Some ''109'' else None)"

lemma gss_failure_reported_as_success_witness:
  "\<exists>s1. loc_init example_files (-1) (\<lambda>_. LOC_API_ADAPTER_ERR_SUCCESS) (Some default_LocPosMode) 0
       (Some example_fw_callbacks) example_afw = Some (0, s1) \<and> loc_afw_data s1 = loc_afw_data example_afw
     \<and> loc_start s1 = Some (-1, s1)"
  by (rule gss_failure_reported_as_success) (code_simp, simp, simp add: example_afw_def)

lemma eng_out_calls [simp]:
  "eng_out (emit ev e) = eng_out e @ [ev]"
  "setInSession b e = Some e' \<Longrightarrow> eng_out e' = eng_out e"
  by (auto simp: emit_def setInSession_def)

text \<open>
  Of a position report, the framework gets at most one call: the location itself, exactly when
  the engine and the interface have a location callback, the session is not muted and the fix is
  one the configuration accepts. A failed session never reaches the framework.
\<close>

theorem report_to_framework:
  assumes "handle_report_position conf loc ext st e = Some e'"
  shows "concat (map (framework_out s) (drop (length (eng_out e)) (eng_out e'))) =
    (if mute_session_state e \<noteq> LOC_MUTE_SESS_IN_SESSION \<and> location_cb e \<and> gps_loc_cb s \<and> st \<noteq> LOC_SESS_FAILURE
        \<and> accept_fix conf (intermediateFix e) st loc then [Fw_location loc] else [])"
  using assms
  by (auto simp: handle_report_position_def Let_def bind_eq_Some call_api_def loc_cb_def emit_if_def split: if_splits)

lemma report_to_framework_witness:
  "\<exists>e'. handle_report_position example_conf (example_location 5) NULL LOC_SESS_SUCCESS example_engine = Some e'
     \<and> concat (map (framework_out (example_afw\<lparr>gps_loc_cb := True\<rparr>)) (drop (length (eng_out example_engine)) (eng_out e')))
       = [Fw_location (example_location 5)]"
proof -
  obtain e' where e': "handle_report_position example_conf (example_location 5) NULL LOC_SESS_SUCCESS example_engine = Some e'"
    using report_position_safe [OF example_engine_ok, of example_conf "example_location 5" NULL LOC_SESS_SUCCESS]
    unfolding safe_def by blast
  from report_to_framework [OF e', of "example_afw\<lparr>gps_loc_cb := True\<rparr>"] e' show ?thesis
    by (simp add: accept_fix_def example_defs)
qed

end
