(* ===== verification/Dmn_Engine.thy ===== *)
theory Dmn_Engine
  imports Dmn_Conn_Correct Loc_Afw_Correct
begin

text \<open>
  A daemon's request for a data connection through all parts: the server reads it from the pipe,
  the engine's deferred thread gives it to a state machine, which asks the framework's service; the
  service's answer comes back as a call of the framework, and the daemon finds the response on its
  own pipe.
\<close>

section \<open>The machine\<close>

lemma find_sub_single: "find_sub n [s] = (if forMe n s then Some 0 else None)"
  by (simp add: find_sub_def hasSubscriber_def)

lemma subscribe_first:
  assumes "mStatePtr m = AgpsReleasedState" "mSubscribers m = []" "length ipv6 = 16"
  shows "\<exists>req. subscribeRsrc (new_BITSubscriber junk ipv4 (Some ipv6)) m = m\<lparr>mStatePtr := AgpsPendingState,
        mSubscribers := [BITSubscriber ipv4 ipv6], sm_out := sm_out m @ [NifRequest req]\<rparr>
     \<and> ags_type req = mType m \<and> ags_status req = GPS_REQUEST_AGPS_DATA_CONN
     \<and> ags_ipv4 req = Some ipv4 \<and> ags_ipv6 req = Some ipv6"
  using assms
  by (intro exI [of _ "\<lparr>ags_size = sizeof_AGpsStatus, ags_type = mType m, ags_status = GPS_REQUEST_AGPS_DATA_CONN,
        ags_ipv4 = Some ipv4, ags_ipv6 = Some ipv6, ags_ssid = None, ags_password = None\<rparr>"])
    (simp add: subscribeRsrc_def hasSubscribers_def dispatch_def Let_def addSubscriber_def find_sub_def
      new_BITSubscriber_def sendRsrcRequest_def hasSubscriber_def forMe_def broadcast_query_def)

lemma granted_single_BIT:
  assumes "mStatePtr m = AgpsPendingState" "mSubscribers m = [BITSubscriber ipv4 ipv6]"
  shows "onRsrcEvent RSRC_GRANTED m = m\<lparr>mStatePtr := AgpsAcquiredState,
     sm_out := sm_out m @ [DataConn LOC_ENG_IF_REQUEST_SENDER_ID_GPSONE_DAEMON GPSONE_LOC_API_IF_REQUEST_SUCCESS]\<rparr>"
  using assms
  by (simp add: onRsrcEvent_def dispatch_def notifySubscribers_def broadcast_notification_def notifySubscriber_def
      notifyRsrcStatus_def BIT_notifyRsrcStatus_def forMe_def)

section \<open>The deferred thread\<close>

text \<open>\<open>quiet\<close>, and no deferred stop can be set off by the service's answers.\<close>

definition calm :: "engine \<Rightarrow> bool" where
  "calm e \<longleftrightarrow> quiet e \<and> \<not> agps_request_pending e"

lemma calm_quiet: "calm e \<Longrightarrow> quiet e"
  by (simp add: calm_def)

lemma action_nif:
  assumes "calm e1" "handle_msg conf resolve env m e = Some e1" "delete_msg m e1 = e1"
  shows "deferred_action conf resolve env m e = Some e1"
proof -
  have flags: "e1\<lparr>agps_request_pending := False\<rparr> = e1" "e1\<lparr>stop_request_pending := False\<rparr> = e1"
      "\<not> stop_request_pending e1" "after_aiding e1 = Some e1"
    using assms(1) by (simp_all add: calm_def quiet_def after_aiding_def)
  then have "after_agps env (msgid m) e1 = Some e1" by (simp add: after_agps_def)
  then have "deferred_action conf resolve env m e
      = after_aiding (e1\<lparr>stop_request_pending := False\<rparr>) \<bind> (\<lambda>e3. Some (delete_msg m e3))"
    by (simp add: deferred_action_def assms(2))
  then show ?thesis unfolding flags(2,4) by (simp add: assms(3))
qed

lemma calm_pop: "calm e \<Longrightarrow> calm (pop e)"
  using quiet_pop [of e] by (simp add: calm_def) (simp add: pop_def)

lemma pop_fields [simp]:
  "get_nif k (pop e) = get_nif k e" "agps_status_cb (pop e) = agps_status_cb e" "eng_out (pop e) = eng_out e"
  by (cases k; simp add: pop_def)+

definition put_machine :: "nif_id \<Rightarrow> AgpsStateMachine \<Rightarrow> agps_out list \<Rightarrow> engine \<Rightarrow> engine" where
  "put_machine k m evs e = (put_nif k m e)\<lparr>eng_out := eng_out e @ map (Nif k) evs\<rparr>"

lemma put_machine_fields [simp]:
  "get_nif k (put_machine k m evs e) = Some m" "calm (put_machine k m evs e) = calm e"
  "eng_out (put_machine k m evs e) = eng_out e @ map (Nif k) evs" "queued (put_machine k m evs e) = queued e"
  "agps_status_cb (put_machine k m evs e) = agps_status_cb e"
  by (cases k; simp add: put_machine_def calm_def quiet_def queued_def)+

lemma on_nif_put:
  assumes "get_nif k e = Some m" "agps_status_cb e" "f m = m'" "sm_out m' = sm_out m @ evs"
  shows "on_nif k f e = Some (put_machine k m' evs e)"
  using assms by (simp add: on_nif_def run_nif_def put_machine_def Let_def)

lemma turn_nif:
  assumes "calm e" "queued e = [msg]" "get_nif k e = Some m" "agps_status_cb e" "f m = m'" "sm_out m' = sm_out m @ evs"
    "handle_msg conf resolve env msg (pop e) = on_nif k f (pop e)" "\<And>e. delete_msg msg e = e"
  shows "deferred_turn conf resolve env e = Some (Turn (put_machine k m' evs (pop e)))"
proof (rule turn_quiet)
  show "quiet e" "queued e = [msg]" using assms(1,2) by (simp_all add: calm_def)
  have "on_nif k f (pop e) = Some (put_machine k m' evs (pop e))"
    using assms(3-6) by (intro on_nif_put) simp_all
  with assms(7) have "handle_msg conf resolve env msg (pop e) = Some (put_machine k m' evs (pop e))" by simp
  moreover have "calm (put_machine k m' evs (pop e))" using calm_pop [OF assms(1)] by simp
  ultimately show "deferred_action conf resolve env msg (pop e) = Some (put_machine k m' evs (pop e))"
    using assms(8) by (intro action_nif)
qed

lemma calm_snd:
  assumes "calm e"
  obtains e' where "snd_deferred msg e = Some e'" "calm e'" "queued e' = queued e @ [msg]" "eng_out e' = eng_out e"
    "agps_status_cb e' = agps_status_cb e" "\<And>k. get_nif k e' = get_nif k e"
proof -
  from assms obtain c where c: "eng_context e" "me e = Some c" by (auto simp: calm_def quiet_def)
  let ?e = "e\<lparr>me := Some (c\<lparr>deferred_q := deferred_q c @ [msg]\<rparr>)\<rparr>"
  have "get_nif k ?e = get_nif k e" for k by (cases k) simp_all
  with c assms show thesis
    by (intro that [of ?e]) (simp_all add: calm_def quiet_def snd_deferred_def queued_def)
qed

section \<open>From the daemon to the service and back\<close>

text \<open>
  C13: A daemon's request for a data connection, read from the server's pipe by an engine that is at
  rest, makes the state machine of its type ask the framework's service once, for that type and
  with the daemon's addresses. When the framework then reports the connection open, the engine
  answers the daemon once, and the daemon, reading its own pipe, gets a response with the status
  of success.
\<close>

theorem daemon_request_answered:
  assumes pipe: "fd_pipe (os d) (loc_api_server_msgqid d) = Some k"
    and bytes: "pipe_bytes (os d) k = frame_of (ctrl_if_msg GPSONE_LOC_API_IF_REQUEST (if_req_type_code t)
                  (sender_id_code LOC_ENG_IF_REQUEST_SENDER_ID_GPSONE_DAEMON) ipv4 ipv6 ssid password)"
    and fields: "length ipv6 = 16" "length ssid = 33" "length password = 33" "0 \<in> set ssid" "0 \<in> set password"
    and mem: "length mem = sizeof_ctrl_msgbuf + 256" "loc_api_handle d"
    and eng: "calm e" "queued e = []" "agps_status_cb e"
    and machine: "bit_machine (loc_type_of t) = Some i" "get_nif i e = Some m" "atl_machine (mType m) = i"
      "mStatePtr m = AgpsReleasedState" "mSubscribers m = []"
    and resp: "fd_pipe (os d) (loc_api_resp_msgqid d) = Some j" "j \<noteq> k" "pipe_bytes (os d) j = []"
      "length stack = sizeof_ctrl_msgbuf" "length buf = unat bufsz" "sizeof_ctrl_msgbuf \<le> unat bufsz"
  shows "\<exists>d1 e1 e2 req e3 e4 d2 b p.
     loc_api_server_proc (Some mem) d e = Some (Ret 0, d1, e1)
     \<and> deferred_turn conf resolve env e1 = Some (Turn e2) \<and> eng_out e2 = eng_out e @ [Nif i (NifRequest req)]
     \<and> ags_type req = mType m \<and> ags_status req = GPS_REQUEST_AGPS_DATA_CONN
     \<and> ags_ipv4 req = Some ipv4 \<and> ags_ipv6 req = Some ipv6
     \<and> loc_eng_agps_open (mType m) (Some apn) bearer e2 = Some (0, e3)
     \<and> deferred_turn conf resolve env' e3 = Some (Turn e4)
     \<and> eng_out e4 = eng_out e2 @ [Nif i (DataConn LOC_ENG_IF_REQUEST_SENDER_ID_GPSONE_DAEMON GPSONE_LOC_API_IF_REQUEST_SUCCESS)]
     \<and> loc_eng_dmn_conn_loc_api_server_data_conn (sender_id_code LOC_ENG_IF_REQUEST_SENDER_ID_GPSONE_DAEMON)
         (gpsone_if_status_code GPSONE_LOC_API_IF_REQUEST_SUCCESS) stack d1 = Some (Ret 0, d2)
     \<and> loc_eng_dmn_conn_glue_msgrcv (loc_api_resp_msgqid d) buf bufsz (os d2) = Some (Ret (int sizeof_ctrl_msgbuf), b, p)
     \<and> get8 off_ctrl_type b = Some GPSONE_LOC_API_RESPONSE
     \<and> get32 off_cmsg b = Some (gpsone_if_status_code GPSONE_LOC_API_IF_REQUEST_SUCCESS)"
proof -
  let ?s = "LOC_ENG_IF_REQUEST_SENDER_ID_GPSONE_DAEMON"
  let ?msg = "loc_eng_msg_request_bit (loc_type_of t) ipv4 (Some ipv6)"
  let ?d1 = "d\<lparr>os := set_bytes k [] (os d)\<rparr>"
  have s: "?s \<in> daemon_senders" by (simp add: daemon_senders_def)
  obtain e1 where e1: "snd_deferred ?msg e = Some e1" "calm e1" "queued e1 = [?msg]" "eng_out e1 = eng_out e"
      "agps_status_cb e1" "get_nif i e1 = Some m"
    by (rule calm_snd [OF eng(1), of ?msg]) (use eng machine(2) in auto)
  have "snd_deferred (engine_msg True (loc_type_of t) ?s ipv4 ipv6 (text_of ssid) (text_of password)) e = Some e1"
    using e1(1) by (simp add: engine_msg_def)
  from server_proc_request [OF pipe _ fields mem s this, of "[]"] bytes
  have proc: "loc_api_server_proc (Some mem) d e = Some (Ret 0, ?d1, e1)" by simp
  from subscribe_first [OF machine(4,5) fields(1), of "array_junk env" ipv4] obtain req m1 where
    m1: "subscribeRsrc (new_BITSubscriber (array_junk env) ipv4 (Some ipv6)) m = m1" "mStatePtr m1 = AgpsPendingState"
      "mSubscribers m1 = [BITSubscriber ipv4 ipv6]" "sm_out m1 = sm_out m @ [NifRequest req]" "mType m1 = mType m"
    and req: "ags_type req = mType m" "ags_status req = GPS_REQUEST_AGPS_DATA_CONN" "ags_ipv4 req = Some ipv4" "ags_ipv6 req = Some ipv6"
    by auto
  let ?e2 = "put_machine i m1 [NifRequest req] (pop e1)"
  have t1: "deferred_turn conf resolve env e1 = Some (Turn ?e2)"
    by (rule turn_nif [where f = "subscribeRsrc (new_BITSubscriber (array_junk env) ipv4 (Some ipv6))", OF e1(2,3,6,5) m1(1,4)]) (simp_all add: handle_request_bit_def machine(1))
  have e2: "calm ?e2" "queued ?e2 = []" "agps_status_cb ?e2" "get_nif i ?e2 = Some m1"
    using calm_pop [OF e1(2)] calm_quiet [OF e1(2), THEN quiet_pop] e1(3,5) by simp_all
  let ?n = "min (length apn) MAX_APN_LEN"
  let ?open = "loc_eng_msg_atl_open_success (mType m) ?n (take ?n apn) bearer"
  obtain e3 where e3: "snd_deferred ?open ?e2 = Some e3" "calm e3" "queued e3 = [?open]" "eng_out e3 = eng_out ?e2"
      "agps_status_cb e3" "get_nif i e3 = Some m1"
    by (rule calm_snd [OF e2(1), of ?open]) (use e2 in auto)
  have open_call: "loc_eng_agps_open (mType m) (Some apn) bearer ?e2 = Some (0, e3)"
    using e2(1,3) e3(1) by (simp add: loc_eng_agps_open_def agps_checked_def INIT_CHECK_def Let_def calm_def quiet_def)
  let ?f = "\<lambda>m. onRsrcEvent RSRC_GRANTED (setAPN (Some (take ?n apn)) ?n (setBearer bearer m))"
  have g: "sm_out (?f m1) = sm_out m1 @ [DataConn ?s GPSONE_LOC_API_IF_REQUEST_SUCCESS]"
    using m1(2,3) by (subst granted_single_BIT [of _ ipv4 ipv6]) (simp_all add: setAPN_def setBearer_def)
  have t2: "deferred_turn conf resolve env' e3 = Some (Turn (put_machine i (?f m1) [DataConn ?s GPSONE_LOC_API_IF_REQUEST_SUCCESS] (pop e3)))"
    by (rule turn_nif [where f = ?f, OF e3(2,3,6,5) refl g]) (simp_all add: handle_atl_open_success_def machine(3))
  have "fd_pipe (os ?d1) (resp_fd ?s ?d1) = Some j" "pipe_bytes (os ?d1) j = []"
    using resp(1-3) by (simp_all add: set_bytes_def)
  from data_conn_delivers [OF s this resp(4-6), of GPSONE_LOC_API_IF_REQUEST_SUCCESS] obtain d2 b p where
    d2: "loc_eng_dmn_conn_loc_api_server_data_conn (sender_id_code ?s) (gpsone_if_status_code GPSONE_LOC_API_IF_REQUEST_SUCCESS) stack ?d1 = Some (Ret 0, d2)"
      "loc_eng_dmn_conn_glue_msgrcv (loc_api_resp_msgqid d) buf bufsz (os d2) = Some (Ret (int sizeof_ctrl_msgbuf), b, p)"
      "get8 off_ctrl_type b = Some GPSONE_LOC_API_RESPONSE" "get32 off_cmsg b = Some (gpsone_if_status_code GPSONE_LOC_API_IF_REQUEST_SUCCESS)"
    by auto
  show ?thesis
    by (intro exI conjI, rule proc, rule t1, simp add: e1(4), rule req(1), rule req(2), rule req(3), rule req(4),
        rule open_call, rule t2, simp add: e3(4), rule d2(1), rule d2(2), rule d2(3), rule d2(4))
qed

definition rest_engine :: engine where
  "rest_engine = example_engine\<lparr>agnss_nif := Some (new_AgpsStateMachine 0 AGPS_TYPE_SUPL False)\<rparr>"

lemma daemon_request_answered_witness:
  "\<exists>d1 e1 e2 req e3 e4 d2 b p.
     loc_api_server_proc (Some (replicate 368 7))
       (example_dmn\<lparr>os := set_bytes 0 (frame_of (ctrl_if_msg 0xF0 0 2 0x0100007F (replicate 16 1) (replicate 33 0) (replicate 33 0)))
          (os example_dmn)\<rparr>) rest_engine = Some (Ret 0, d1, e1)
     \<and> deferred_turn example_conf Map.empty example_env e1 = Some (Turn e2)
     \<and> eng_out e2 = eng_out rest_engine @ [Nif Agnss (NifRequest req)]
     \<and> ags_type req = AGPS_TYPE_SUPL \<and> ags_ipv4 req = Some 0x0100007F
     \<and> loc_eng_agps_open AGPS_TYPE_SUPL (Some ''internet'') 0 e2 = Some (0, e3)
     \<and> deferred_turn example_conf Map.empty example_env e3 = Some (Turn e4)
     \<and> loc_eng_dmn_conn_loc_api_server_data_conn 2 0xF0 (replicate 112 9) d1 = Some (Ret 0, d2)
     \<and> loc_eng_dmn_conn_glue_msgrcv 4 (replicate 120 0) 120 (os d2) = Some (Ret (int sizeof_ctrl_msgbuf), b, p)
     \<and> get32 off_cmsg b = Some 0xF0"
proof -
  let ?d = "example_dmn\<lparr>os := set_bytes 0 (frame_of (ctrl_if_msg 0xF0 0 2 0x0100007F (replicate 16 1) (replicate 33 0) (replicate 33 0)))
      (os example_dmn)\<rparr>"
  have e: "calm rest_engine" "queued rest_engine = []" "agps_status_cb rest_engine"
    by (simp_all add: rest_engine_def calm_def quiet_def queued_def example_defs)
  have m: "bit_machine (loc_type_of IF_REQUEST_TYPE_SUPL) = Some Agnss"
    "get_nif Agnss rest_engine = Some (new_AgpsStateMachine 0 AGPS_TYPE_SUPL False)"
    by (simp_all add: rest_engine_def)
  have m2: "atl_machine (mType (new_AgpsStateMachine 0 AGPS_TYPE_SUPL False)) = Agnss"
    "mStatePtr (new_AgpsStateMachine 0 AGPS_TYPE_SUPL False) = AgpsReleasedState"
    "mSubscribers (new_AgpsStateMachine 0 AGPS_TYPE_SUPL False) = []"
    "mType (new_AgpsStateMachine 0 AGPS_TYPE_SUPL False) = AGPS_TYPE_SUPL"
    by (simp_all add: new_AgpsStateMachine_def atl_machine_def)
  have o: "fd_pipe (os ?d) (loc_api_server_msgqid ?d) = Some 0" "loc_api_handle ?d" "fd_pipe (os ?d) (loc_api_resp_msgqid ?d) = Some 1"
    "pipe_bytes (os ?d) 1 = []" "loc_api_resp_msgqid ?d = 4"
    by (simp_all add: example_dmn_def set_bytes_def)
  note inst = daemon_request_answered [where d = ?d and k = 0 and t = IF_REQUEST_TYPE_SUPL and ?ipv4.0 = "0x0100007F"
      and ?ipv6.0 = "replicate 16 1" and ssid = "replicate 33 0" and password = "replicate 33 0" and mem = "replicate 368 7"
      and e = rest_engine and i = Agnss and m = "new_AgpsStateMachine 0 AGPS_TYPE_SUPL False" and j = 1
      and stack = "replicate 112 9" and buf = "replicate 120 0" and bufsz = 120 and conf = example_conf
      and resolve = Map.empty and env = example_env and env' = example_env and apn = "''internet''" and bearer = 0]
  show ?thesis
    using inst [OF o(1) _ _ _ _ _ _ _ o(2) e m m2(1-3) o(3) _ o(4)]
    unfolding m2(4) o(5) by (simp add: sizeof_ctrl_msgbuf_def) blast
qed

end
