(* ===== verification/Loc_Cfg_Correct.thy ===== *)
theory Loc_Cfg_Correct
  imports Loc_Cfg Loc_Eng_Inv
begin

text \<open>
  Reading a configuration file: what trimming does, and the contract of a parameter slot (the last
  line that names a parameter decides, and no other line matters), proved once in a locale and
  interpreted on the engine's table. The logging parameters break it: their stores are wider than
  the variables.
\<close>

section \<open>Trimming\<close>

definition trim_end :: "string \<Rightarrow> string" where
  "trim_end s = rev (dropWhile isspace (rev s))"

lemma trim_end_Cons:
  "trim_end (c # s) = (if list_all isspace s then (if isspace c then [] else [c]) else c # trim_end s)"
proof (cases "list_all isspace s")
  case True
  then have "dropWhile isspace (rev s @ [c]) = dropWhile isspace [c]"
    by (subst dropWhile_append2) (auto simp: list_all_iff)
  with True show ?thesis by (simp add: trim_end_def)
next
  case False
  then show ?thesis by (auto simp: trim_end_def list_all_iff dropWhile_append1)
qed

lemma trim_loop_found:
  "trim_loop cs True w lst = (w @ cs, if list_all isspace cs then lst else Some (length w + length (trim_end cs)))"
  by (induction cs arbitrary: w lst) (auto simp: trim_end_Cons Let_def list_all_iff)

lemma trim_loop_leading:
  "trim_loop cs False w lst = (if list_all isspace cs then (w, lst) else trim_loop (dropWhile isspace cs) True w lst)"
  by (induction cs) (auto simp: Let_def)

lemma trim_end_prefix: "take (length (trim_end s)) s = trim_end s"
proof -
  have "s = trim_end s @ rev (takeWhile isspace (rev s))"
    unfolding trim_end_def by (metis rev_append rev_rev_ident takeWhile_dropWhile_id)
  then show ?thesis by (metis append_eq_conv_conj)
qed

lemma trim_space_eq:
  "trim_space s = (if list_all isspace s then s else trim_end (dropWhile isspace s))"
proof (cases "list_all isspace s")
  case True
  then show ?thesis by (simp add: trim_space_def trim_loop_leading)
next
  case False
  have "list_all isspace s = (list_all isspace (takeWhile isspace s) \<and> list_all isspace (dropWhile isspace s))"
    by (metis list_all_append takeWhile_dropWhile_id)
  moreover have "list_all isspace (takeWhile isspace s)" by (auto simp: list_all_iff dest: set_takeWhileD)
  ultimately have "\<not> list_all isspace (dropWhile isspace s)" using False by simp
  with False show ?thesis by (simp add: trim_space_def trim_loop_leading trim_loop_found trim_end_prefix)
qed

text \<open>
  \<open>trim_space\<close> removes exactly the leading and trailing white space of a string that has another
  character, and leaves a string of white space as it is.
\<close>

theorem trim_space_spec:
  "trim_space s = (if list_all isspace s then s else rev (dropWhile isspace (rev (dropWhile isspace s))))"
  by (simp add: trim_space_eq trim_end_def)

section \<open>A parameter's slot\<close>

definition assignments :: "(string \<Rightarrow> real) \<Rightarrow> string \<Rightarrow> loc_param_v_type list" where
  "assignments atof contents = List.map_filter (parse_line atof)
     (fgets_lines (LOC_MAX_PARAM_LINE - 1) (LOC_MAX_PARAM_LINE - 1) [] contents)"

definition last_value :: "string \<Rightarrow> (loc_param_v_type \<Rightarrow> 'v) \<Rightarrow> 'v \<Rightarrow> loc_param_v_type list \<Rightarrow> 'v" where
  "last_value name val old vs = fold (\<lambda>v x. if v_param_name v = name then val v else x) vs old"

locale config_slot =
  fixes table :: "('z) log_world_scheme loc_param_s_type list"
    and name :: string
    and get :: "('z) log_world_scheme \<Rightarrow> 'v"
    and val :: "loc_param_v_type \<Rightarrow> 'v"
  assumes hit: "v_param_name v = name \<Longrightarrow> \<exists>w'. set_all table v w = Some w' \<and> get w' = val v"
    and miss: "v_param_name v \<noteq> name \<Longrightarrow> \<exists>w'. set_all table v w = Some w' \<and> get w' = get w"
    and log_table: "\<exists>w'. set_all log_parameter_table v w = Some w' \<and> get w' = get w"
begin

lemma set_both:
  "\<exists>w'. (set_all table v w \<bind> set_all log_parameter_table v) = Some w'
     \<and> get w' = (if v_param_name v = name then val v else get w)"
proof -
  obtain w1 where "set_all table v w = Some w1" "get w1 = (if v_param_name v = name then val v else get w)"
    using hit [of v w] miss [of v w] by (cases "v_param_name v = name") auto
  with log_table [of v w1] show ?thesis by auto
qed

lemma read_lines_value:
  "\<exists>w'. read_lines atof table ls w = Some w' \<and> get w' = last_value name val (get w) (List.map_filter (parse_line atof) ls)"
proof (induction ls arbitrary: w)
  case Nil
  then show ?case by (simp add: last_value_def List.map_filter_def)
next
  case (Cons l ls)
  show ?case
  proof (cases "parse_line atof l")
    case None
    with Cons show ?thesis by (simp add: map_filter_simps)
  next
    case (Some v)
    obtain w1 where w1: "(set_all table v w \<bind> set_all log_parameter_table v) = Some w1"
      "get w1 = (if v_param_name v = name then val v else get w)" using set_both by blast
    obtain w' where "read_lines atof table ls w1 = Some w'"
      "get w' = last_value name val (get w1) (List.map_filter (parse_line atof) ls)" using Cons by blast
    with Some w1 show ?thesis by (simp add: map_filter_simps last_value_def)
  qed
qed

lemma read_conf_value:
  assumes "\<And>a b w. get (loc_logger_init a b w) = get w"
  shows "\<exists>w'. loc_read_conf atof (Some contents) (Some table) w = Some w'
     \<and> get w' = last_value name val (get (fold clear_set table (log_default_parameters w))) (assignments atof contents)"
  using read_lines_value [of atof "fgets_lines (LOC_MAX_PARAM_LINE - 1) (LOC_MAX_PARAM_LINE - 1) [] contents"
      "fold clear_set table (log_default_parameters w)"] assms
  by (auto simp: loc_read_conf_def assignments_def Let_def)

end

section \<open>Tables that give every parameter its own slot\<close>

definition stores :: "'s loc_param_s_type \<Rightarrow> string \<Rightarrow> ('s \<Rightarrow> 'v) \<Rightarrow> (loc_param_v_type \<Rightarrow> 'v) \<Rightarrow> bool" where
  "stores e name get val \<longleftrightarrow> (\<forall>v w. \<exists>w'. loc_set_config_entry (Some e) (Some v) w = Some w' \<and>
     get w' = (if param_name e = name \<and> v_param_name v = name then val v else get w))"

lemma set_all_misses:
  assumes "\<forall>e \<in> set es. stores e name get val" "v_param_name v \<noteq> name \<or> name \<notin> set (map param_name es)"
  shows "\<exists>w'. set_all es v w = Some w' \<and> get w' = get w"
  using assms
proof (induction es arbitrary: w)
  case (Cons e es)
  then obtain w1 where "loc_set_config_entry (Some e) (Some v) w = Some w1" "get w1 = get w"
    by (fastforce simp: stores_def)
  with Cons show ?case by fastforce
qed simp

lemma set_all_hits:
  assumes "\<forall>e \<in> set es. stores e name get val" "distinct (map param_name es)" "name \<in> set (map param_name es)"
    and "v_param_name v = name"
  shows "\<exists>w'. set_all es v w = Some w' \<and> get w' = val v"
  using assms
proof (induction es arbitrary: w)
  case (Cons e es)
  then obtain w1 where w1: "loc_set_config_entry (Some e) (Some v) w = Some w1"
    "get w1 = (if param_name e = name then val v else get w)" by (fastforce simp: stores_def)
  show ?case
  proof (cases "param_name e = name")
    case True
    with Cons.prems have "name \<notin> set (map param_name es)" by auto
    with set_all_misses [of es name get val v w1] Cons.prems w1 True show ?thesis by auto
  next
    case False
    with Cons w1 show ?thesis by auto
  qed
qed simp

lemma num_param_set:
  "loc_set_config_entry (Some (num_param n put)) (Some v) w = Some (if n = v_param_name v
     then w\<lparr>gps_conf := put (param_int_value v) (gps_conf w)\<rparr> else w)"
  by (simp add: loc_set_config_entry_def num_param_def mark_set_def)

lemma float_param_set:
  "loc_set_config_entry (Some (float_param n put valid)) (Some v) w = Some (if n = v_param_name v
     then w\<lparr>gps_conf := valid 1 (put (param_double_value v) (gps_conf w))\<rparr> else w)"
  by (simp add: loc_set_config_entry_def float_param_def mark_set_def)

lemma param_names [simp]:
  "param_name (num_param n put) = n" "param_name (float_param n put_real valid) = n"
  by (simp_all add: num_param_def float_param_def)

lemma num_stores:
  assumes "\<And>v c. g (put v c) = v"
  shows "stores (num_param n put) n (\<lambda>w. g (gps_conf w)) param_int_value"
  using assms by (auto simp: stores_def num_param_set)

lemma num_other:
  assumes "n \<noteq> name" "\<And>v c. g (put v c) = g c"
  shows "stores (num_param n put) name (\<lambda>w. g (gps_conf w)) val"
  using assms by (auto simp: stores_def num_param_set)

lemma float_stores:
  assumes "\<And>v c. g (valid 1 (put v c)) = v"
  shows "stores (float_param n put valid) n (\<lambda>w. g (gps_conf w)) param_double_value"
  using assms by (auto simp: stores_def float_param_set)

lemma float_valid:
  assumes "\<And>v c. g (valid 1 (put v c)) = 1"
  shows "stores (float_param n put valid) n (\<lambda>w. g (gps_conf w)) (\<lambda>_. 1)"
  using assms by (auto simp: stores_def float_param_set)

lemma float_other:
  assumes "n \<noteq> name" "\<And>v c. g (valid 1 (put v c)) = g c"
  shows "stores (float_param n put valid) name (\<lambda>w. g (gps_conf w)) val"
  using assms by (auto simp: stores_def float_param_set)

lemma log_table_gps_conf:
  "\<exists>w'. set_all log_parameter_table v (w :: conf_world) = Some w' \<and> gps_conf w' = gps_conf w"
  by (simp add: log_parameter_table_def loc_set_config_entry_def mark_set_def put_int_def)

lemma engine_table_distinct: "distinct (map param_name loc_parameter_table)"
  by (simp add: loc_parameter_table_def)

lemma engine_slot:
  assumes "name \<in> set (map param_name loc_parameter_table)"
    and "\<forall>e \<in> set loc_parameter_table. stores e name (\<lambda>w. g (gps_conf w)) val"
  shows "config_slot loc_parameter_table name (\<lambda>w. g (gps_conf w)) val"
proof
  fix v w
  show "v_param_name v = name \<Longrightarrow> \<exists>w'. set_all loc_parameter_table v w = Some w' \<and> g (gps_conf w') = val v"
    using set_all_hits [OF assms(2) engine_table_distinct assms(1)] by blast
  show "v_param_name v \<noteq> name \<Longrightarrow> \<exists>w'. set_all loc_parameter_table v w = Some w' \<and> g (gps_conf w') = g (gps_conf w)"
    using set_all_misses [OF assms(2)] by blast
  show "\<exists>w'. set_all log_parameter_table v w = Some w' \<and> g (gps_conf w') = g (gps_conf w)"
    using log_table_gps_conf [of v w] by auto
qed

lemmas stores_rules = num_stores num_other float_stores float_valid float_other

definition num_params :: "(string \<times> (loc_gps_cfg \<Rightarrow> u32)) list" where
  "num_params = [(''INTERMEDIATE_POS'', INTERMEDIATE_POS), (''ACCURACY_THRES'', ACCURACY_THRES),
     (''ENABLE_WIPER'', ENABLE_WIPER), (''SUPL_VER'', SUPL_VER), (''CAPABILITIES'', CAPABILITIES),
     (''SENSOR_ACCEL_BATCHES_PER_SEC'', SENSOR_ACCEL_BATCHES_PER_SEC),
     (''SENSOR_ACCEL_SAMPLES_PER_BATCH'', SENSOR_ACCEL_SAMPLES_PER_BATCH),
     (''SENSOR_GYRO_BATCHES_PER_SEC'', SENSOR_GYRO_BATCHES_PER_SEC),
     (''SENSOR_GYRO_SAMPLES_PER_BATCH'', SENSOR_GYRO_SAMPLES_PER_BATCH),
     (''SENSOR_ACCEL_BATCHES_PER_SEC_HIGH'', SENSOR_ACCEL_BATCHES_PER_SEC_HIGH),
     (''SENSOR_ACCEL_SAMPLES_PER_BATCH_HIGH'', SENSOR_ACCEL_SAMPLES_PER_BATCH_HIGH),
     (''SENSOR_GYRO_BATCHES_PER_SEC_HIGH'', SENSOR_GYRO_BATCHES_PER_SEC_HIGH),
     (''SENSOR_GYRO_SAMPLES_PER_BATCH_HIGH'', SENSOR_GYRO_SAMPLES_PER_BATCH_HIGH),
     (''SENSOR_CONTROL_MODE'', SENSOR_CONTROL_MODE), (''SENSOR_USAGE'', SENSOR_USAGE),
     (''SENSOR_ALGORITHM_CONFIG_MASK'', SENSOR_ALGORITHM_CONFIG_MASK), (''QUIPC_ENABLED'', QUIPC_ENABLED),
     (''LPP_PROFILE'', LPP_PROFILE)]"

lemma num_params_slots:
  "(name, g) \<in> set num_params \<Longrightarrow> config_slot loc_parameter_table name (\<lambda>w. g (gps_conf w)) param_int_value"
  unfolding num_params_def
  by (simp only: list.set insert_iff empty_iff prod.inject)
     (elim disjE conjE; simp only:; rule engine_slot; simp add: loc_parameter_table_def stores_rules)

definition float_params :: "(string \<times> (loc_gps_cfg \<Rightarrow> real) \<times> (loc_gps_cfg \<Rightarrow> u8)) list" where
  "float_params =
    [(''GYRO_BIAS_RANDOM_WALK'', GYRO_BIAS_RANDOM_WALK, GYRO_BIAS_RANDOM_WALK_VALID),
     (''ACCEL_RANDOM_WALK_SPECTRAL_DENSITY'', ACCEL_RANDOM_WALK_SPECTRAL_DENSITY, ACCEL_RANDOM_WALK_SPECTRAL_DENSITY_VALID),
     (''ANGLE_RANDOM_WALK_SPECTRAL_DENSITY'', ANGLE_RANDOM_WALK_SPECTRAL_DENSITY, ANGLE_RANDOM_WALK_SPECTRAL_DENSITY_VALID),
     (''RATE_RANDOM_WALK_SPECTRAL_DENSITY'', RATE_RANDOM_WALK_SPECTRAL_DENSITY, RATE_RANDOM_WALK_SPECTRAL_DENSITY_VALID),
     (''VELOCITY_RANDOM_WALK_SPECTRAL_DENSITY'', VELOCITY_RANDOM_WALK_SPECTRAL_DENSITY, VELOCITY_RANDOM_WALK_SPECTRAL_DENSITY_VALID)]"

lemma float_params_slots:
  assumes "(name, g, b) \<in> set float_params"
  shows "config_slot loc_parameter_table name (\<lambda>w. g (gps_conf w)) param_double_value"
    and "config_slot loc_parameter_table name (\<lambda>w. b (gps_conf w)) (\<lambda>_. 1)"
  using assms unfolding float_params_def
  by (simp_all only: list.set insert_iff empty_iff prod.inject)
     (elim disjE conjE; simp only:; rule engine_slot; simp add: loc_parameter_table_def stores_rules)+

interpretation capabilities: config_slot loc_parameter_table "''CAPABILITIES''" "\<lambda>w. CAPABILITIES (gps_conf w)" param_int_value
  by (rule num_params_slots) (simp add: num_params_def)

interpretation gyro_bias: config_slot loc_parameter_table "''GYRO_BIAS_RANDOM_WALK''"
    "\<lambda>w. GYRO_BIAS_RANDOM_WALK (gps_conf w)" param_double_value
  by (rule float_params_slots(1) [where b = GYRO_BIAS_RANDOM_WALK_VALID]) (simp add: float_params_def)

section \<open>Reading the engine's configuration\<close>

lemma clear_engine_flags:
  "gps_conf (fold clear_set loc_parameter_table w) = (gps_conf w)\<lparr>GYRO_BIAS_RANDOM_WALK_VALID := 0,
     ACCEL_RANDOM_WALK_SPECTRAL_DENSITY_VALID := 0, ANGLE_RANDOM_WALK_SPECTRAL_DENSITY_VALID := 0,
     RATE_RANDOM_WALK_SPECTRAL_DENSITY_VALID := 0, VELOCITY_RANDOM_WALK_SPECTRAL_DENSITY_VALID := 0\<rparr>"
  by (simp add: loc_parameter_table_def clear_set_def num_param_def float_param_def)

lemma log_defaults_gps_conf [simp]:
  "gps_conf (log_default_parameters w) = gps_conf w" "gps_conf (loc_logger_init a b w) = gps_conf w"
  "gpsConfigAlreadyRead (log_default_parameters w) = gpsConfigAlreadyRead w"
  by (simp_all add: log_default_parameters_def loc_logger_init_def Let_def)

lemma read_config_slot:
  assumes "config_slot loc_parameter_table name (\<lambda>w. g (gps_conf w)) val" "\<not> gpsConfigAlreadyRead w"
  shows "\<exists>w'. loc_eng_read_config atof (Some contents) w = Some (0, w')
     \<and> g (gps_conf w') = last_value name val (g ((loc_default_parameters (gps_conf w))\<lparr>GYRO_BIAS_RANDOM_WALK_VALID := 0,
     ACCEL_RANDOM_WALK_SPECTRAL_DENSITY_VALID := 0, ANGLE_RANDOM_WALK_SPECTRAL_DENSITY_VALID := 0,
     RATE_RANDOM_WALK_SPECTRAL_DENSITY_VALID := 0, VELOCITY_RANDOM_WALK_SPECTRAL_DENSITY_VALID := 0\<rparr>)) (assignments atof contents)"
  using config_slot.read_conf_value [OF assms(1), of atof contents "w\<lparr>gps_conf := loc_default_parameters (gps_conf w)\<rparr>"] assms(2)
  by (auto simp: loc_eng_read_config_def clear_engine_flags)

text \<open>
  The first reading of the engine's configuration gives every numeric parameter the value of the
  last line that names it, or its default when no line does, whatever else the file contains; a
  second reading changes nothing.
\<close>

theorem config_numbers:
  assumes "(name, g) \<in> set num_params" "\<not> gpsConfigAlreadyRead w"
  shows "\<exists>w'. loc_eng_read_config atof (Some contents) w = Some (0, w')
     \<and> g (gps_conf w') = last_value name param_int_value (g (loc_default_parameters (gps_conf w))) (assignments atof contents)
     \<and> loc_eng_read_config atof (Some contents) w' = Some (0, w')"
proof -
  have "g ((loc_default_parameters (gps_conf w))\<lparr>GYRO_BIAS_RANDOM_WALK_VALID := 0,
     ACCEL_RANDOM_WALK_SPECTRAL_DENSITY_VALID := 0, ANGLE_RANDOM_WALK_SPECTRAL_DENSITY_VALID := 0,
     RATE_RANDOM_WALK_SPECTRAL_DENSITY_VALID := 0, VELOCITY_RANDOM_WALK_SPECTRAL_DENSITY_VALID := 0\<rparr>)
     = g (loc_default_parameters (gps_conf w))"
    using assms(1) unfolding num_params_def by auto
  with read_config_slot [OF num_params_slots [OF assms(1)] assms(2), of atof contents]
  show ?thesis by (auto simp: loc_eng_read_config_def bind_eq_Some split: if_splits)
qed

text \<open>
  A sensor parameter counts as given after the first reading exactly when a line of the file
  names it, and then it has the value of the last such line.
\<close>

theorem config_sensor_parameters:
  assumes "(name, g, b) \<in> set float_params" "\<not> gpsConfigAlreadyRead w"
  shows "\<exists>w'. loc_eng_read_config atof (Some contents) w = Some (0, w')
     \<and> b (gps_conf w') = (if \<exists>v \<in> set (assignments atof contents). v_param_name v = name then 1 else 0)
     \<and> g (gps_conf w') = last_value name param_double_value (g (loc_default_parameters (gps_conf w))) (assignments atof contents)"
proof -
  let ?c = "(loc_default_parameters (gps_conf w))\<lparr>GYRO_BIAS_RANDOM_WALK_VALID := 0,
     ACCEL_RANDOM_WALK_SPECTRAL_DENSITY_VALID := 0, ANGLE_RANDOM_WALK_SPECTRAL_DENSITY_VALID := 0,
     RATE_RANDOM_WALK_SPECTRAL_DENSITY_VALID := 0, VELOCITY_RANDOM_WALK_SPECTRAL_DENSITY_VALID := 0\<rparr>"
  have c: "g ?c = g (loc_default_parameters (gps_conf w))" "b ?c = 0"
    using assms(1) unfolding float_params_def by auto
  have fold1: "fold (\<lambda>v x. if v_param_name v = name then 1 else x) vs (old :: u8)
      = (if \<exists>v \<in> set vs. v_param_name v = name then 1 else old)" for vs old
    by (induction vs arbitrary: old) auto
  from read_config_slot [OF float_params_slots(1) [OF assms(1)] assms(2), of atof contents]
    read_config_slot [OF float_params_slots(2) [OF assms(1)] assms(2), of atof contents]
  show ?thesis unfolding c by (auto simp: last_value_def fold1)
qed

definition example_world :: conf_world where
  "example_world = \<lparr>bytes = (\<lambda>_. 0), addr_DEBUG_LEVEL = 100, addr_TIMESTAMP = 101, logger = (0, 0),
     gps_conf = zero_conf, gpsConfigAlreadyRead = False\<rparr>"

definition example_file :: string where
  "example_file = ''CAPABILITIES=0x33'' @ [CHR 0x0A] @ ''SUPL_VER = 1 = 2'' @ [CHR 0x0A] @ '' CAPABILITIES = 23 '' @ [CHR 0x0A]
     @ ''GYRO_BIAS_RANDOM_WALK=1'' @ [CHR 0x0A]"

lemma example_assignments:
  "last_value ''CAPABILITIES'' param_int_value 7 (assignments (\<lambda>_. 1) example_file) = 23"
  "\<exists>v \<in> set (assignments (\<lambda>_. 1) example_file). v_param_name v = ''GYRO_BIAS_RANDOM_WALK''"
  by code_simp+

lemma config_numbers_witness:
  "\<exists>w'. loc_eng_read_config (\<lambda>_. 1) (Some example_file) example_world = Some (0, w') \<and> CAPABILITIES (gps_conf w') = 23"
proof -
  have "(''CAPABILITIES'', CAPABILITIES) \<in> set num_params" by (simp add: num_params_def)
  from config_numbers [OF this, of example_world "\<lambda>_. 1" example_file] show ?thesis
    by (auto simp: example_world_def loc_default_parameters_def example_assignments(1))
qed

lemma config_sensor_parameters_witness:
  "\<exists>w'. loc_eng_read_config (\<lambda>_. 1) (Some example_file) example_world = Some (0, w')
     \<and> GYRO_BIAS_RANDOM_WALK_VALID (gps_conf w') = 1"
proof -
  have "(''GYRO_BIAS_RANDOM_WALK'', GYRO_BIAS_RANDOM_WALK, GYRO_BIAS_RANDOM_WALK_VALID) \<in> set float_params"
    by (simp add: float_params_def)
  from config_sensor_parameters [OF this, of example_world "\<lambda>_. 1" example_file] example_assignments(2) show ?thesis
    by (auto simp: example_world_def)
qed

section \<open>The logging parameters\<close>

text \<open>
  Setting the one-byte parameter \<open>DEBUG_LEVEL\<close> from a file stores four bytes: it has the low byte
  of the value, the three bytes of memory after it are overwritten with the rest, and a \<open>TIMESTAMP\<close>
  that lies there is zero afterwards for every level below 256.
\<close>

theorem debug_level_overruns:
  assumes "v_param_name v = ''DEBUG_LEVEL''" "addr_TIMESTAMP w \<in> {addr_DEBUG_LEVEL w + 1 .. addr_DEBUG_LEVEL w + 3}"
    and "unat (param_int_value v) < 256"
  shows "\<exists>w'. set_all log_parameter_table v w = Some w' \<and> DEBUG_LEVEL w' = ucast (param_int_value v) \<and> TIMESTAMP w' = 0
     \<and> (\<forall>a. a \<notin> {addr_DEBUG_LEVEL w .. addr_DEBUG_LEVEL w + 3} \<longrightarrow> bytes w' a = bytes w a)"
proof -
  have z: "(ucast (drop_bit n (param_int_value v)) :: u8) = 0" if "8 \<le> n" for n
  proof -
    have "drop_bit n (unat (param_int_value v)) = 0"
    proof -
      have "(2::nat) ^ 8 \<le> 2 ^ n" using that by (rule power_increasing) simp
      with assms(3) have "unat (param_int_value v) < 2 ^ n" by simp
      then show ?thesis by (simp add: drop_bit_eq_div)
    qed
    moreover have "take_bit 32 (unat (param_int_value v)) = unat (param_int_value v)"
      using assms(3) by (intro take_bit_nat_eq_self) simp
    ultimately have "drop_bit n (param_int_value v) = 0" by (simp add: word_unat_eq_iff unsigned_drop_bit_eq)
    then show ?thesis by simp
  qed
  let ?w = "put_int (addr_DEBUG_LEVEL w) (param_int_value v) w"
  have "set_all log_parameter_table v w = Some ?w"
    using assms(1) by (simp add: log_parameter_table_def loc_set_config_entry_def mark_set_def)
  moreover have "DEBUG_LEVEL ?w = ucast (param_int_value v)" by (simp add: DEBUG_LEVEL_def put_int_def)
  moreover have "TIMESTAMP ?w = 0"
    using assms(2) z [of 8] z [of 16] z [of 24] by (auto simp: TIMESTAMP_def put_int_def)
  moreover have "\<forall>a. a \<notin> {addr_DEBUG_LEVEL w .. addr_DEBUG_LEVEL w + 3} \<longrightarrow> bytes ?w a = bytes w a"
    by (auto simp: put_int_def)
  ultimately show ?thesis by blast
qed

lemma debug_level_overruns_witness:
  "\<exists>w'. set_all log_parameter_table \<lparr>v_param_name = ''DEBUG_LEVEL'', param_str_value = ''5'', param_int_value = 5, param_double_value = 5\<rparr>
      (example_world\<lparr>bytes := (\<lambda>_. 1)\<rparr>) = Some w' \<and> DEBUG_LEVEL w' = 5 \<and> TIMESTAMP w' = 0"
proof -
  let ?v = "\<lparr>v_param_name = ''DEBUG_LEVEL'', param_str_value = ''5'', param_int_value = 5, param_double_value = 5\<rparr>"
  have "v_param_name ?v = ''DEBUG_LEVEL''" "unat (param_int_value ?v) < 256"
    "addr_TIMESTAMP (example_world\<lparr>bytes := (\<lambda>_. 1)\<rparr>) \<in> {addr_DEBUG_LEVEL (example_world\<lparr>bytes := (\<lambda>_. 1)\<rparr>) + 1 ..
        addr_DEBUG_LEVEL (example_world\<lparr>bytes := (\<lambda>_. 1)\<rparr>) + 3}"
    by (simp_all add: example_world_def)
  from debug_level_overruns [OF this(1,3,2)] show ?thesis by auto
qed

end
