(* ===== verification/Hal_Module.thy ===== *)
theory Hal_Module
  imports Loc_Prelude
begin

text \<open>
  How the hardware library finds a module: the table \<open>HAL_MODULE_INFO_SYM\<close>, which the GPS library
  (gps.c), the lights wrapper and the camera wrapper each define. The tags and versions are the
  hardware library's constants and therefore arguments of those tables; a table of methods has one
  member, the function that opens a device, whose type differs from module to module.
\<close>

record 'open hw_module_t =
  hm_tag :: u32
  hm_module_api_version :: u16
  hm_hal_api_version :: u16
  hm_id :: string
  hm_name :: string
  hm_author :: string
  hm_open :: 'open

end
