(* ===== verification/Hal_Device.thy ===== *)
theory Hal_Device
  imports Hal_Module
begin

text \<open>
  The contract that the wrapper modules of the hardware layer (lights, camera) share: a wrapper
  device owns one device of the vendor, an open that succeeds adds one of each, a close removes both.
  The clients of the contract are sequences of opens and closes.
\<close>

section \<open>Error numbers of the C library\<close>

definition EINVAL :: int where "EINVAL = 22"
definition ENOMEM :: int where "ENOMEM = 12"

section \<open>Ownership\<close>

text \<open>Which vendor device each wrapper device owns: each open vendor device exactly once.\<close>

definition owns :: "(ptr \<rightharpoonup> ptr) \<Rightarrow> ptr set \<Rightarrow> bool" where
  "owns m V \<longleftrightarrow> finite (dom m) \<and> V = ran m \<and> (\<forall>p q v. m p = Some v \<longrightarrow> m q = Some v \<longrightarrow> p = q)"

lemma ownsD:
  assumes "owns m V"
  shows "finite (dom m)" "V = ran m" "m p = Some v \<Longrightarrow> m q = Some v \<Longrightarrow> p = q"
  using assms unfolding owns_def by blast+

lemma owns_card:
  assumes "owns m V"
  shows "finite V \<and> card V = card (dom m)"
proof -
  have V: "V = (\<lambda>p. the (m p)) ` dom m"
    unfolding ownsD(2) [OF assms] by (auto simp: ran_def image_iff) (metis domI option.sel)
  have "inj_on (\<lambda>p. the (m p)) (dom m)"
  proof (rule inj_onI)
    fix p q assume pq: "p \<in> dom m" "q \<in> dom m" "the (m p) = the (m q)"
    then obtain v where "m p = Some v" "m q = Some v" by auto
    then show "p = q" by (rule ownsD(3) [OF assms])
  qed
  then have "card V = card (dom m)" unfolding V by (rule card_image)
  moreover have "finite V" unfolding V using ownsD(1) [OF assms] by (rule finite_imageI)
  ultimately show ?thesis by blast
qed

lemma owns_insert:
  assumes "owns m V" "m p = None" "v \<notin> V"
  shows "owns (m(p \<mapsto> v)) (insert v V)"
proof -
  have fresh: "m q \<noteq> Some v" for q using assms(3) unfolding ownsD(2) [OF assms(1)] by (auto intro: ranI)
  have "q = r" if "(m(p \<mapsto> v)) q = Some w" "(m(p \<mapsto> v)) r = Some w" for q r w
    using that fresh ownsD(3) [OF assms(1), of q w r] by (simp split: if_splits)
  moreover have "ran (m(p \<mapsto> v)) = insert v V"
    unfolding ownsD(2) [OF assms(1)] using assms(2) by (rule ran_map_upd)
  moreover have "finite (dom (m(p \<mapsto> v)))" using ownsD(1) [OF assms(1)] by simp
  ultimately show ?thesis unfolding owns_def by blast
qed

lemma owns_delete:
  assumes "owns m V" "m p = Some v"
  shows "owns (m(p := None)) (V - {v})"
proof -
  have "w \<in> ran (m(p := None)) \<longleftrightarrow> w \<in> V - {v}" for w
  proof
    assume "w \<in> ran (m(p := None))"
    then obtain q where "q \<noteq> p" "m q = Some w" by (auto simp: ran_def split: if_splits)
    with ownsD(3) [OF assms(1), of q w p] assms(2) show "w \<in> V - {v}"
      unfolding ownsD(2) [OF assms(1)] by (auto intro: ranI)
  next
    assume "w \<in> V - {v}"
    then obtain q where "m q = Some w" "w \<noteq> v" unfolding ownsD(2) [OF assms(1)] by (auto simp: ran_def)
    with assms(2) have "(m(p := None)) q = Some w" by auto
    then show "w \<in> ran (m(p := None))" by (rule ranI)
  qed
  then have "V - {v} = ran (m(p := None))" by blast
  moreover have "q = r" if "(m(p := None)) q = Some w" "(m(p := None)) r = Some w" for q r w
    using that ownsD(3) [OF assms(1), of q w r] by (simp split: if_splits)
  moreover have "finite (dom (m(p := None)))" using ownsD(1) [OF assms(1)] by simp
  ultimately show ?thesis unfolding owns_def by blast
qed

section \<open>The contract\<close>

text \<open>
  \<open>opn\<close> answers the new device or none, \<open>cls\<close> closes one; \<open>answers_ok r s\<close> says that the system's
  answers \<open>r\<close> are possible in state \<open>s\<close> and contain none of the failures that leak.
\<close>

locale wrapper_devices =
  fixes inv :: "'s \<Rightarrow> bool"
    and live :: "'s \<Rightarrow> ptr set"
    and vendors :: "'s \<Rightarrow> ptr set"
    and answers_ok :: "'r \<Rightarrow> 's \<Rightarrow> bool"
    and opn :: "'r \<Rightarrow> 's \<Rightarrow> ptr option \<times> 's"
    and cls :: "ptr \<Rightarrow> 's \<Rightarrow> 's option"
  assumes owned: "inv s \<Longrightarrow> finite (live s) \<and> finite (vendors s) \<and> card (vendors s) = card (live s)"
    and opn_some: "inv s \<Longrightarrow> answers_ok r s \<Longrightarrow> opn r s = (Some p, s') \<Longrightarrow>
       inv s' \<and> p \<notin> live s \<and> live s' = insert p (live s)"
    and opn_none: "inv s \<Longrightarrow> answers_ok r s \<Longrightarrow> opn r s = (None, s') \<Longrightarrow> inv s' \<and> live s' = live s"
    and cls_live: "inv s \<Longrightarrow> p \<in> live s \<Longrightarrow> \<exists>s'. cls p s = Some s' \<and> inv s' \<and> live s' = live s - {p}"
begin

fun close_all :: "ptr list \<Rightarrow> 's \<Rightarrow> 's option" where
  "close_all [] s = Some s"
| "close_all (p # ps) s = cls p s \<bind> close_all ps"

fun open_all :: "'r list \<Rightarrow> 's \<Rightarrow> ptr list \<times> 's" where
  "open_all [] s = ([], s)"
| "open_all (r # rs) s = (case opn r s of (p, s1) \<Rightarrow> case open_all rs s1 of (ps, s2) \<Rightarrow>
     ((case p of None \<Rightarrow> [] | Some p \<Rightarrow> [p]) @ ps, s2))"

fun answers_all :: "'r list \<Rightarrow> 's \<Rightarrow> bool" where
  "answers_all [] s = True"
| "answers_all (r # rs) s = (answers_ok r s \<and> answers_all rs (snd (opn r s)))"

lemma open_all_live:
  assumes "inv s" "answers_all rs s" "open_all rs s = (ps, s')"
  shows "inv s' \<and> live s' = set ps \<union> live s \<and> distinct ps \<and> set ps \<inter> live s = {}"
  using assms
proof (induction rs arbitrary: s ps s')
  case (Cons r rs)
  obtain p s1 where o: "opn r s = (p, s1)" by fastforce
  obtain qs s2 where q: "open_all rs s1 = (qs, s2)" by fastforce
  have rest: "answers_ok r s" "answers_all rs s1" using Cons.prems(2) o by simp_all
  show ?case
  proof (cases p)
    case None
    then have "inv s1 \<and> live s1 = live s" using opn_none [OF Cons.prems(1) rest(1)] o by simp
    with Cons.IH [OF _ rest(2) q] Cons.prems(3) o q None show ?thesis by simp
  next
    case (Some d)
    then have "inv s1 \<and> d \<notin> live s \<and> live s1 = insert d (live s)"
      using opn_some [OF Cons.prems(1) rest(1)] o by simp
    with Cons.IH [OF _ rest(2) q] Cons.prems(3) o q Some show ?thesis by auto
  qed
qed simp

lemma close_all_live:
  assumes "inv s" "distinct ps" "set ps \<subseteq> live s"
  shows "\<exists>s'. close_all ps s = Some s' \<and> inv s' \<and> live s' = live s - set ps"
  using assms
proof (induction ps arbitrary: s)
  case (Cons p ps)
  then obtain s1 where s1: "cls p s = Some s1" "inv s1" "live s1 = live s - {p}"
    using cls_live [of s p] by auto
  then have "\<exists>s'. close_all ps s1 = Some s' \<and> inv s' \<and> live s' = live s1 - set ps"
    using Cons.prems by (intro Cons.IH) auto
  with s1 show ?case by auto
qed simp

text \<open>Closing the devices that were opened, in any order, gives back what was there before.\<close>

lemma opened_then_closed:
  assumes "inv s" "answers_all rs s" "open_all rs s = (ps, s1)" "set qs = set ps" "distinct qs"
  shows "\<exists>s2. close_all qs s1 = Some s2 \<and> live s2 = live s \<and> card (vendors s2) = card (vendors s)"
proof -
  note o = open_all_live [OF assms(1-3)]
  have "set qs \<subseteq> live s1" using o assms(4) by simp
  with close_all_live [of s1 qs] o assms(5) obtain s2
    where s2: "close_all qs s1 = Some s2" "inv s2" "live s2 = live s1 - set qs" by auto
  moreover have "live s1 - set qs = live s" using o assms(4) by auto
  ultimately show ?thesis using owned [of s2] owned [OF assms(1)] by auto
qed

end

end
