(* ===== verification/Lights.thy ===== *)
theory Lights
  imports C_Lib Hal_Device "HOL-Library.Signed_Division"
begin

text \<open>
  The lights wrapper (liblights/lights.cpp): the backlight is computed here and written to sysfs,
  the other lights are forwarded to the vendor's module. The vendor's module, \<open>malloc\<close> and the
  identifiers of the hardware library are arguments. Messages to the log are not modelled.
\<close>

section \<open>Files\<close>

text \<open>Opening, reading or writing a file fails with an error number, or not (zero).\<close>

record sysfile =
  open_errno :: int
  rw_errno :: int
  data :: string

type_synonym sysfs = "string \<Rightarrow> sysfile"

definition LCD_BACKLIGHT_FILE :: string where "LCD_BACKLIGHT_FILE = ''/sys/class/leds/lcd-backlight/brightness''"
definition LCD_BACKLIGHT2_FILE :: string where "LCD_BACKLIGHT2_FILE = ''/dev/null''"
definition MAX_BRIGHTNESS_FILE :: string where "MAX_BRIGHTNESS_FILE = ''/sys/class/leds/lcd-backlight/max_brightness''"
definition LCD_BRIGHTNESS_MIN :: int where "LCD_BRIGHTNESS_MIN = 20"

definition write_int :: "string \<Rightarrow> int \<Rightarrow> sysfs \<Rightarrow> int \<times> sysfs" where
  "write_int path v fs =
    (if open_errno (fs path) \<noteq> 0 then (- open_errno (fs path), fs)
     else if rw_errno (fs path) \<noteq> 0 then (- rw_errno (fs path), fs)
     else (0, fs(path := (fs path)\<lparr>data := snprintf_d v\<rparr>)))"

text \<open>
  \<open>snprintf\<close> returns the length of the whole text, of which the buffer holds 19 characters and a
  terminator; \<open>write\<close> takes that many bytes from the buffer of 20.
\<close>

definition write_string :: "string \<Rightarrow> string \<Rightarrow> string \<Rightarrow> sysfs \<Rightarrow> (int \<times> sysfs) option" where
  "write_string junk path v fs =
    (if open_errno (fs path) \<noteq> 0 then Some (- open_errno (fs path), fs)
     else let line = v @ [CHR 0x0A];
              buffer = take 20 (take 19 line @ CHR 0x00 # junk);
              bytes = length line
          in if length buffer < bytes then None
             else if rw_errno (fs path) \<noteq> 0 then Some (- rw_errno (fs path), fs)
             else Some (0, fs(path := (fs path)\<lparr>data := take bytes buffer\<rparr>)))"

section \<open>Brightness\<close>

definition rgb_to_brightness :: "u32 \<Rightarrow> int" where
  "rgb_to_brightness col =
    (let color = col AND 0x00ffffff
     in sint (signed_drop_bit 8 ((77 * (signed_drop_bit 16 color AND 0x00ff))
          + (150 * (signed_drop_bit 8 color AND 0x00ff)) + (29 * (color AND 0x00ff)) :: u32)))"

text \<open>
  The code computes with doubles; the model with reals. For the arguments 0 to 255 that the
  brightness can have, no result but 0 and 255, which are exact, is closer than 0.001 to an integer,
  so the truncation gives the same number.
\<close>

definition brightness_apply_gamma :: "int \<Rightarrow> int" where
  "brightness_apply_gamma brightness =
    (let floatbrt = real_of_int brightness / 255;
         floatbrt = floatbrt powr (22 / 10);
         floatbrt = floatbrt * 255
     in \<lfloor>floatbrt\<rfloor>)"

text \<open>
  \<open>strtol\<close> on the buffer of six bytes, which has no terminator of its own: it must stop inside it.
  \<open>junk\<close> is what the buffer holds before.
\<close>

definition strtol_stops :: "string \<Rightarrow> bool" where
  "strtol_stops s =
    (let s1 = dropWhile isspace s;
         s2 = (case s1 of c # r \<Rightarrow> if c = CHR ''-'' \<or> c = CHR ''+'' then r else s1 | [] \<Rightarrow> [])
     in dropWhile (\<lambda>c. case digit_value c of Some d \<Rightarrow> d < 10 | None \<Rightarrow> False) s2 \<noteq> [])"

definition get_max_brightness :: "string \<Rightarrow> sysfs \<Rightarrow> int option" where
  "get_max_brightness junk fs =
    (let f = fs MAX_BRIGHTNESS_FILE in
     if open_errno f \<noteq> 0 then Some 255
     else let got = take 6 (data f) in
       if rw_errno f \<noteq> 0 \<or> length got \<le> 1 then Some 255
       else let buffer = got @ drop (length got) junk
            in if strtol_stops buffer then Some (strtol 10 buffer) else None)"

text \<open>A product of two \<open>int\<close>s; overflow is undefined.\<close>

definition mul_int :: "int \<Rightarrow> int \<Rightarrow> int option" where
  "mul_int a b = (if - (2 ^ 31) \<le> a * b \<and> a * b < 2 ^ 31 then Some (a * b) else None)"

text \<open>\<open>gamma\<close> says whether the code is built with \<open>ENABLE_GAMMA_CORRECTION\<close>.\<close>

definition backlight_brightness :: "bool \<Rightarrow> int \<Rightarrow> int \<Rightarrow> int option" where
  "backlight_brightness gamma max_brightness brightness =
    (if brightness > 0 then
       let b = (if gamma then brightness_apply_gamma brightness else brightness)
       in map_option (\<lambda>x. let b = x sdiv 255 in if b < LCD_BRIGHTNESS_MIN then LCD_BRIGHTNESS_MIN else b)
            (mul_int max_brightness b)
     else Some brightness)"

definition lights_set_light_backlight :: "bool \<Rightarrow> string \<Rightarrow> u32 \<Rightarrow> sysfs \<Rightarrow> (i32 \<times> sysfs) option" where
  "lights_set_light_backlight gamma junk color fs = do {
     max_brightness \<leftarrow> get_max_brightness junk fs;
     brightness \<leftarrow> backlight_brightness gamma max_brightness (rgb_to_brightness color);
     (let (e1, fs1) = write_int LCD_BACKLIGHT_FILE brightness fs;
          (e2, fs2) = write_int LCD_BACKLIGHT2_FILE brightness fs1
      in Some (word_of_int e1 OR word_of_int e2, fs2))
   }"

section \<open>Devices\<close>

datatype light_function = Set_light_backlight | Set_light

record wrapper_light_device =
  light_module :: ptr
  vendor :: ptr
  set_light :: light_function

text \<open>
  The wrapper's state: the vendor's module when it has been found, the wrapper devices that are
  allocated (\<open>None\<close>: allocated and cleared, not filled in), and the vendor devices that are open.
\<close>

record lights =
  gVendorModule :: bool
  devices :: "ptr \<rightharpoonup> wrapper_light_device option"
  vendor_open :: "ptr set"

text \<open>The identifiers of the hardware library.\<close>

record light_ids =
  LIGHT_ID_BACKLIGHT :: string
  LIGHT_ID_BUTTONS :: string
  LIGHT_ID_BATTERY :: string
  LIGHT_ID_NOTIFICATIONS :: string

definition check_vendor_module :: "int \<Rightarrow> lights \<Rightarrow> int \<times> lights" where
  "check_vendor_module rv l = (if gVendorModule l then (0, l) else (rv, l\<lparr>gVendorModule := (rv = 0)\<rparr>))"

definition light_function_of :: "light_ids \<Rightarrow> string \<Rightarrow> light_function option" where
  "light_function_of ids name =
    (if name = LIGHT_ID_BACKLIGHT ids then Some Set_light_backlight
     else if name = LIGHT_ID_BUTTONS ids then Some Set_light
     else if name = LIGHT_ID_BATTERY ids then Some Set_light
     else if name = LIGHT_ID_NOTIFICATIONS ids then Some Set_light
     else None)"

text \<open>
  \<open>module_rv\<close> is the answer of the hardware library, \<open>malloc_ret\<close> that of \<open>malloc\<close>, \<open>vendor_ret\<close> that
  of the vendor's \<open>open\<close>: an error, or its device. The result is what the function returns and what
  it stores in \<open>*device\<close>: nothing, or a pointer.
\<close>

definition open_lights :: "light_ids \<Rightarrow> int \<Rightarrow> ptr option \<Rightarrow> int + ptr \<Rightarrow> ptr \<Rightarrow> string option \<Rightarrow> lights \<Rightarrow>
    (int \<times> ptr option option) \<times> lights" where
  "open_lights ids module_rv malloc_ret vendor_ret hw_module name l = (case name of
      None \<Rightarrow> ((0, None), l)
    | Some nm \<Rightarrow>
        (case check_vendor_module module_rv l of (rv, l1) \<Rightarrow>
           if rv \<noteq> 0 then ((- EINVAL, None), l1)
           else (case malloc_ret of
               None \<Rightarrow> ((- ENOMEM, Some None), l1)
             | Some p \<Rightarrow>
                 let l2 = l1\<lparr>devices := (devices l1)(p \<mapsto> None)\<rparr>
                 in (case vendor_ret of
                     Inl err \<Rightarrow> ((err, Some None), l2\<lparr>devices := (devices l2)(p := None)\<rparr>)
                   | Inr v \<Rightarrow>
                       let l3 = l2\<lparr>vendor_open := insert v (vendor_open l2)\<rparr>
                       in (case light_function_of ids nm of
                           None \<Rightarrow> ((- EINVAL, None), l3)
                         | Some f \<Rightarrow> ((0, Some (Some p)),
                             l3\<lparr>devices := (devices l3)(p \<mapsto> Some \<lparr>light_module = hw_module, vendor = v, set_light = f\<rparr>)\<rparr>))))))"

text \<open>A device that is not one of the wrapper's is undefined behaviour.\<close>

definition lights_device_close :: "ptr option \<Rightarrow> lights \<Rightarrow> (int \<times> lights) option" where
  "lights_device_close device l = (case device of
      None \<Rightarrow> Some (- EINVAL, l)
    | Some p \<Rightarrow> (case devices l p of
        Some (Some d) \<Rightarrow> Some (0, l\<lparr>vendor_open := vendor_open l - {vendor d}, devices := (devices l)(p := None)\<rparr>)
      | _ \<Rightarrow> None))"

text \<open>What the vendor's device is asked to do: its device and the colour; its answer is \<open>ret\<close>.\<close>

definition lights_set_light :: "int \<Rightarrow> ptr option \<Rightarrow> u32 \<Rightarrow> lights \<Rightarrow> (int \<times> (ptr \<times> u32) option) option" where
  "lights_set_light ret dev color l = (case dev of
      None \<Rightarrow> Some (- EINVAL, None)
    | Some p \<Rightarrow> (case devices l p of
        Some (Some d) \<Rightarrow> Some (ret, Some (vendor d, color AND 0x00FFFFFF))
      | _ \<Rightarrow> None))"

section \<open>The module\<close>

definition lights_HAL_MODULE_INFO_SYM :: "u32 \<Rightarrow> string \<Rightarrow> (light_ids \<Rightarrow> int \<Rightarrow> ptr option \<Rightarrow> int + ptr \<Rightarrow> ptr \<Rightarrow>
    string option \<Rightarrow> lights \<Rightarrow> (int \<times> ptr option option) \<times> lights) hw_module_t" where
  "lights_HAL_MODULE_INFO_SYM HARDWARE_MODULE_TAG LIGHTS_HARDWARE_MODULE_ID = \<lparr>
     hm_tag = HARDWARE_MODULE_TAG,
     hm_module_api_version = 1,
     hm_hal_api_version = 0,
     hm_id = LIGHTS_HARDWARE_MODULE_ID,
     hm_name = ''Xperia Lights Wrapper'',
     hm_author = ''The CyanogenMod Project'',
     hm_open = open_lights\<rparr>"

end
