(* ===== verification/Lights_Correct.thy ===== *)
theory Lights_Correct
  imports Lights
begin

text \<open>
  The backlight stays within what the kernel accepts, whatever colour is asked for; the gamma
  correction against an integer formula.
\<close>

section \<open>Brightness of a colour\<close>

lemma unat_take_bit_u32: "unat (take_bit n (w :: u32)) = unat w mod 2 ^ n"
  by (simp only: unsigned_take_bit_eq take_bit_nat_def)

lemma u32_and_255: "unat ((w :: u32) AND 0x00ff) = unat w mod 256"
proof -
  have "w AND 0x00ff = take_bit 8 w" by (simp only: take_bit_eq_mask) (simp add: mask_numeral)
  then show ?thesis using unat_take_bit_u32 [of 8 w] by simp
qed

lemma u32_and_24: "unat ((w :: u32) AND 0x00ffffff) = unat w mod 2 ^ 24"
proof -
  have "w AND 0x00ffffff = take_bit 24 w" by (simp only: take_bit_eq_mask) (simp add: mask_numeral)
  then show ?thesis using unat_take_bit_u32 [of 24 w] by simp
qed

lemma signed_drop_bit_small:
  assumes "unat (w :: u32) < 2 ^ 31"
  shows "signed_drop_bit n w = drop_bit n w"
proof -
  have "take_bit 31 w = w"
    by (rule word_unat_eq_iff [THEN iffD2]) (use assms unat_take_bit_u32 [of 31 w] in simp)
  then have "\<not> bit w 31" by (metis bit_take_bit_iff less_irrefl)
  then show ?thesis
    by (intro bit_word_eqI) (auto simp: bit_simps dest: bit_imp_le_length)
qed

lemma unat_shift: "unat (w :: u32) < 2 ^ 31 \<Longrightarrow> unat (signed_drop_bit n w) = unat w div 2 ^ n"
  by (simp only: signed_drop_bit_small unsigned_drop_bit_eq drop_bit_nat_def) (simp add: take_bit_eq_mod)

lemma sint_small_u32:
  assumes "unat (w :: u32) < 2 ^ 31"
  shows "sint w = int (unat w)"
proof -
  have "int (unat w) < int (2 ^ 31)" using assms unfolding of_nat_less_iff .
  then have "uint w < 2 ^ 31" by simp
  then have "signed_take_bit 31 (uint w) = uint w"
    using uint_ge_0 [of w] by (intro signed_take_bit_int_eq_self) linarith+
  then show ?thesis by (simp add: sint_uint del: signed_take_bit_int_eq_self_iff)
qed

definition red :: "u32 \<Rightarrow> nat" where "red c = unat c div 2 ^ 16 mod 256"
definition green :: "u32 \<Rightarrow> nat" where "green c = unat c div 2 ^ 8 mod 256"
definition blue :: "u32 \<Rightarrow> nat" where "blue c = unat c mod 256"

lemma unat_weighted:
  assumes "unat (x :: u32) < 256" "unat y < 256" "unat z < 256"
  shows "unat (77 * x + 150 * y + 29 * z) = 77 * unat x + 150 * unat y + 29 * unat z"
proof -
  have "unat (77 * x) = 77 * unat x" "unat (150 * y) = 150 * unat y" "unat (29 * z) = 29 * unat z"
    using assms by (simp_all add: unat_word_ariths)
  then show ?thesis using assms by (simp add: unat_word_ariths)
qed

lemma rgb_to_brightness_eq:
  "rgb_to_brightness c = int ((77 * red c + 150 * green c + 29 * blue c) div 256)"
proof -
  let ?c = "c AND 0x00ffffff :: u32"
  have c: "unat ?c = unat c mod 2 ^ 24" by (rule u32_and_24)
  then have s: "unat ?c < 2 ^ 31" by (rule ssubst) simp
  have p: "(2 :: nat) ^ 24 = 2 ^ 16 * 2 ^ 8" "(2 :: nat) ^ 24 = 2 ^ 8 * 2 ^ 16" by simp_all
  have r: "unat (signed_drop_bit 16 ?c AND 0x00ff) = red c"
    unfolding u32_and_255 unat_shift [OF s] c red_def p(1) mod_mult2_eq by simp
  have "unat c mod 2 ^ 24 div 2 ^ 8 = unat c div 2 ^ 8 mod 2 ^ 16"
    unfolding p(2) mod_mult2_eq by simp
  moreover have "n mod 2 ^ 16 mod 256 = n mod 256" for n :: nat
    by (rule mod_mod_cancel) (simp add: dvd_eq_mod_eq_0)
  ultimately have g: "unat (signed_drop_bit 8 ?c AND 0x00ff) = green c"
    unfolding u32_and_255 unat_shift [OF s] c green_def by simp
  have b: "unat (?c AND 0x00ff) = blue c"
    unfolding u32_and_255 c blue_def by (rule mod_mod_cancel) (simp add: dvd_eq_mod_eq_0)
  let ?w = "77 * (signed_drop_bit 16 ?c AND 0x00ff) + 150 * (signed_drop_bit 8 ?c AND 0x00ff) + 29 * (?c AND 0x00ff)"
  have w: "unat ?w = 77 * red c + 150 * green c + 29 * blue c"
    using unat_weighted [of "signed_drop_bit 16 ?c AND 0x00ff" "signed_drop_bit 8 ?c AND 0x00ff" "?c AND 0x00ff"]
    by (simp only: r g b) (simp add: red_def green_def blue_def)
  moreover have "red c < 256" "green c < 256" "blue c < 256" by (simp_all add: red_def green_def blue_def)
  ultimately have lt: "unat ?w < 2 ^ 31" by simp
  then have v: "unat (signed_drop_bit 8 ?w) = unat ?w div 2 ^ 8" by (rule unat_shift)
  then have "unat (signed_drop_bit 8 ?w) < 2 ^ 31" using lt by simp
  then show ?thesis using v w
    by (simp add: rgb_to_brightness_def Let_def sint_small_u32)
qed

lemma rgb_to_brightness_range: "0 \<le> rgb_to_brightness c" "rgb_to_brightness c \<le> 255"
proof -
  have "red c < 256" "green c < 256" "blue c < 256" by (simp_all add: red_def green_def blue_def)
  then have "77 * red c + 150 * green c + 29 * blue c < 256 * 256" by linarith
  then have "(77 * red c + 150 * green c + 29 * blue c) div 256 < 256" by (rule less_mult_imp_div_less)
  then show "0 \<le> rgb_to_brightness c" "rgb_to_brightness c \<le> 255" by (simp_all add: rgb_to_brightness_eq)
qed

section \<open>Gamma correction\<close>

text \<open>The gamma curve without real numbers: the largest \<open>n\<close> with \<open>n ^ 5 * 255 ^ 6 \<le> b ^ 11\<close>.\<close>

definition gamma_table :: "nat \<Rightarrow> nat" where
  "gamma_table b = length (filter (\<lambda>n. n ^ 5 * 255 ^ 6 \<le> b ^ 11) [1..<256])"

lemma powr_22:
  assumes "0 \<le> (x :: real)"
  shows "(x powr (22 / 10)) ^ 5 = x ^ 11"
proof (cases "x = 0")
  case False
  with assms have "0 < x" by simp
  then have "(x powr (22 / 10)) ^ 5 = (x powr (22 / 10)) powr real 5" by (subst powr_realpow) simp_all
  also have "\<dots> = x powr real 11" by (simp add: powr_powr)
  also have "\<dots> = x ^ 11" using \<open>0 < x\<close> by (rule powr_realpow)
  finally show ?thesis .
qed simp

lemma gamma_le:
  "n \<le> brightness_apply_gamma (int b) \<longleftrightarrow> n \<le> 0 \<or> nat n ^ 5 * 255 ^ 6 \<le> b ^ 11"
proof -
  define x where "x = (real b / 255) powr (22 / 10) * 255"
  have x0: "0 \<le> x" by (simp add: x_def)
  have "x ^ 5 = (real b / 255) ^ 11 * 255 ^ 5" unfolding x_def power_mult_distrib by (subst powr_22) simp_all
  also have "\<dots> = real b ^ 11 / 255 ^ 6" by (simp add: power_divide)
  finally have x5: "x ^ 5 * 255 ^ 6 = real b ^ 11" by simp
  have "n \<le> brightness_apply_gamma (int b) \<longleftrightarrow> real_of_int n \<le> x"
    by (simp add: brightness_apply_gamma_def Let_def le_floor_iff x_def)
  also have "\<dots> \<longleftrightarrow> n \<le> 0 \<or> real (nat n) \<le> x" using x0 by (cases "n \<le> 0") auto
  also have "real (nat n) \<le> x \<longleftrightarrow> real (nat n) ^ 5 \<le> x ^ 5" using x0 by simp
  also have "\<dots> \<longleftrightarrow> real (nat n) ^ 5 * 255 ^ 6 \<le> x ^ 5 * 255 ^ 6" by simp
  also have "\<dots> \<longleftrightarrow> real (nat n ^ 5 * 255 ^ 6) \<le> real (b ^ 11)" unfolding x5 by simp
  also have "\<dots> \<longleftrightarrow> nat n ^ 5 * 255 ^ 6 \<le> b ^ 11" by (simp only: of_nat_le_iff)
  finally show ?thesis .
qed

lemma gamma_nonneg: "0 \<le> brightness_apply_gamma (int b)"
  using gamma_le [of 0 b] by simp

lemma gamma_le_self:
  assumes "b \<le> 255"
  shows "brightness_apply_gamma (int b) \<le> int b"
proof (rule ccontr)
  assume "\<not> ?thesis"
  then have "int (Suc b) \<le> brightness_apply_gamma (int b)" by simp
  then have "int (Suc b) \<le> 0 \<or> Suc b ^ 5 * 255 ^ 6 \<le> b ^ 11" unfolding gamma_le nat_int .
  then have "Suc b ^ 5 * 255 ^ 6 \<le> b ^ 11" by auto
  also have "b ^ 11 = b ^ 5 * b ^ 6" by (simp flip: power_add)
  also have "\<dots> \<le> b ^ 5 * 255 ^ 6" using assms by (intro mult_left_mono power_mono) simp_all
  finally have "Suc b ^ 5 \<le> b ^ 5" by simp
  then show False using power_strict_mono [of b "Suc b" 5] by simp
qed

lemma gamma_mono: "b \<le> c \<Longrightarrow> brightness_apply_gamma (int b) \<le> brightness_apply_gamma (int c)"
proof -
  assume "b \<le> c"
  then have "b ^ 11 \<le> c ^ 11" by (simp add: power_mono)
  moreover have "nat (brightness_apply_gamma (int b)) ^ 5 * 255 ^ 6 \<le> b ^ 11 \<or> brightness_apply_gamma (int b) \<le> 0"
    using gamma_le [of "brightness_apply_gamma (int b)" b] by blast
  ultimately show ?thesis unfolding gamma_le by (meson order_trans)
qed

lemma gamma_table_eq:
  assumes "b \<le> 255"
  shows "brightness_apply_gamma (int b) = int (gamma_table b)"
proof -
  define g where "g = nat (brightness_apply_gamma (int b))"
  have g: "brightness_apply_gamma (int b) = int g" using gamma_nonneg by (simp add: g_def)
  then have le: "g \<le> 255" using gamma_le_self [OF assms] assms by simp
  have "n ^ 5 * 255 ^ 6 \<le> b ^ 11 \<longleftrightarrow> n \<le> g" if "1 \<le> n" for n
    using that gamma_le [of "int n" b] by (simp add: g)
  then have "filter (\<lambda>n. n ^ 5 * 255 ^ 6 \<le> b ^ 11) [1..<256] = filter (\<lambda>n. n \<le> g) [1..<256]"
    by (intro filter_cong) auto
  moreover have "length (filter (\<lambda>n. n \<le> g) [1..<256]) = card {n. n \<le> g \<and> 1 \<le> n}"
    using le by (simp add: distinct_length_filter) (rule arg_cong [where f = card], auto)
  moreover have "{n. n \<le> g \<and> 1 \<le> n} = {1..g}" by auto
  ultimately show ?thesis by (simp add: g gamma_table_def)
qed

text \<open>
  C30: The gamma correction of the backlight, computed with \<open>pow\<close>, is for every brightness the integer
  curve \<open>gamma_table\<close>; it keeps 0 and 255, never raises a brightness and keeps their order.
\<close>

theorem gamma_correction:
  assumes "b \<le> 255"
  shows "brightness_apply_gamma (int b) = int (gamma_table b)
     \<and> 0 \<le> brightness_apply_gamma (int b) \<and> brightness_apply_gamma (int b) \<le> int b
     \<and> brightness_apply_gamma 0 = 0 \<and> brightness_apply_gamma 255 = 255
     \<and> (\<forall>a. a \<le> b \<longrightarrow> brightness_apply_gamma (int a) \<le> brightness_apply_gamma (int b))"
proof -
  have "brightness_apply_gamma 0 = 0" "brightness_apply_gamma 255 = 255"
    by (simp_all add: brightness_apply_gamma_def)
  then show ?thesis using gamma_table_eq [OF assms] gamma_nonneg gamma_le_self [OF assms] gamma_mono by blast
qed

lemma gamma_correction_witness: "brightness_apply_gamma 128 = 55"
proof -
  have l: "[1..<256] = 1 # [2..<256]" by (simp add: upt_rec)
  have "gamma_table 128 = 55" unfolding gamma_table_def l by simp
  then show ?thesis using gamma_correction [of 128] by simp
qed

section \<open>The backlight\<close>

definition max_file_says :: "nat \<Rightarrow> sysfs \<Rightarrow> bool" where
  "max_file_says m fs \<longleftrightarrow> open_errno (fs MAX_BRIGHTNESS_FILE) = 0 \<and> rw_errno (fs MAX_BRIGHTNESS_FILE) = 0
     \<and> data (fs MAX_BRIGHTNESS_FILE) = snprintf_d (int m)"

lemma get_max_brightness_eq:
  assumes "max_file_says m fs" "m < 10 ^ 5"
  shows "get_max_brightness junk fs = Some (int m)"
proof -
  obtain c cs where d: "decimal m = c # cs" "\<not> isspace c" "c \<noteq> CHR ''-''" "c \<noteq> CHR ''+''"
    using decimal_Cons [of m] by blast
  have l: "length (decimal m) \<le> 5" using length_decimal [OF assms(2)] by simp
  let ?b = "decimal m @ CHR 0x0A # drop (Suc (length (decimal m))) junk"
  have "digits_value 10 m (CHR 0x0A # r) = m" for r by (simp add: digit_value_def)
  moreover have "m < 2 ^ 31" using assms(2) by simp
  ultimately have "strtol 10 ?b = int m" by (intro strtol_decimal)
  moreover have "strtol_stops ?b"
  proof -
    have "\<not> (case digit_value (CHR 0x0A) of Some d \<Rightarrow> d < 10 | None \<Rightarrow> False)" by (simp add: digit_value_def)
    then have "dropWhile (\<lambda>c. case digit_value c of Some d \<Rightarrow> d < 10 | None \<Rightarrow> False) ?b \<noteq> []"
      unfolding dropWhile_eq_Nil_conv by auto
    moreover have "dropWhile isspace ?b = ?b" "(case ?b of c # r \<Rightarrow> if c = CHR ''-'' \<or> c = CHR ''+'' then r else ?b | [] \<Rightarrow> []) = ?b"
      using d by simp_all
    ultimately show ?thesis unfolding strtol_stops_def Let_def by (simp only:) simp
  qed
  moreover have "take 6 (decimal m @ [CHR 0x0A]) = decimal m @ [CHR 0x0A]" using l by simp
  moreover have "0 < length (decimal m)" using d(1) by simp
  ultimately show ?thesis using assms(1)
    by (simp add: get_max_brightness_def max_file_says_def snprintf_d_def Let_def)
qed

lemma backlight_brightness_range:
  assumes "m < 10 ^ 5" "20 \<le> m" "0 \<le> r" "r \<le> 255"
  shows "\<exists>b. backlight_brightness gamma (int m) r = Some b \<and> (r = 0 \<longrightarrow> b = 0) \<and> (r \<noteq> 0 \<longrightarrow> 20 \<le> b \<and> b \<le> int m)"
proof (cases "r = 0")
  case False
  define g where "g = (if gamma then brightness_apply_gamma r else r)"
  have g: "0 \<le> g" "g \<le> 255"
    using gamma_nonneg [of "nat r"] gamma_le_self [of "nat r"] assms(3,4)
    by (auto simp: g_def nat_le_iff intro: order_trans)
  have "int m * g \<le> int m * 255" using g by (intro mult_left_mono) simp_all
  moreover have "int m * 255 \<le> 100000 * 255" using assms(1) by simp
  ultimately have "int m * g < 2 ^ 31" by simp
  moreover have nn: "0 \<le> int m * g" using g by simp
  ultimately have mul: "mul_int (int m) g = Some (int m * g)" by (simp add: mul_int_def)
  have "int m * g sdiv 255 = int m * g div 255"
    using nn by (simp add: signed_divide_int_def sgn_if)
  moreover have "int m * g div 255 \<le> int m"
    using zdiv_mono1 [OF \<open>int m * g \<le> int m * 255\<close>, of 255] by simp
  ultimately show ?thesis using False assms(2,3) mul
    by (auto simp: backlight_brightness_def LCD_BRIGHTNESS_MIN_def Let_def g_def [symmetric])
qed (simp add: backlight_brightness_def)

lemma write_int_spec:
  "write_int path v fs = (e, fs') \<Longrightarrow>
     (open_errno (fs path) = 0 \<and> rw_errno (fs path) = 0 \<longrightarrow> e = 0 \<and> fs' = fs(path := (fs path)\<lparr>data := snprintf_d v\<rparr>))
   \<and> (\<not> (open_errno (fs path) = 0 \<and> rw_errno (fs path) = 0) \<longrightarrow> e \<noteq> 0 \<and> fs' = fs)"
  by (auto simp: write_int_def split: if_splits)

text \<open>
  C31: Setting the backlight returns for every colour, with the kernel's maximum in its file (20 to
  99999). The brightness is 0 exactly for colours of brightness 0, and otherwise between 20 and the
  maximum, also with the gamma correction and without overflow. If both files can be written the
  function returns 0 and the text in the brightness file is read back as the brightness.
\<close>

theorem backlight_bounds:
  assumes "max_file_says m fs" "20 \<le> m" "m < 10 ^ 5"
  shows "\<exists>err fs' b. lights_set_light_backlight gamma junk color fs = Some (err, fs')
     \<and> (rgb_to_brightness color = 0 \<longrightarrow> b = 0) \<and> (rgb_to_brightness color \<noteq> 0 \<longrightarrow> 20 \<le> b \<and> b \<le> int m)
     \<and> ((\<forall>f \<in> {LCD_BACKLIGHT_FILE, LCD_BACKLIGHT2_FILE}. open_errno (fs f) = 0 \<and> rw_errno (fs f) = 0)
        \<longrightarrow> err = 0 \<and> strtol 10 (data (fs' LCD_BACKLIGHT_FILE)) = b)"
proof -
  obtain b where b: "backlight_brightness gamma (int m) (rgb_to_brightness color) = Some b"
    "rgb_to_brightness color = 0 \<longrightarrow> b = 0" "rgb_to_brightness color \<noteq> 0 \<longrightarrow> 20 \<le> b \<and> b \<le> int m"
    using backlight_brightness_range [OF assms(3,2) rgb_to_brightness_range] by blast
  have "0 \<le> b \<and> b \<le> int m" using b(2,3) assms(2) by (cases "rgb_to_brightness color = 0") auto
  then have "\<bar>b\<bar> < 2 ^ 31" using assms(3) by simp
  note rb = strtol_snprintf_d [OF this]
  obtain e1 fs1 where w1: "write_int LCD_BACKLIGHT_FILE b fs = (e1, fs1)" by fastforce
  obtain e2 fs2 where w2: "write_int LCD_BACKLIGHT2_FILE b fs1 = (e2, fs2)" by fastforce
  have "LCD_BACKLIGHT_FILE \<noteq> LCD_BACKLIGHT2_FILE" by (simp add: LCD_BACKLIGHT_FILE_def LCD_BACKLIGHT2_FILE_def)
  with write_int_spec [OF w1] write_int_spec [OF w2]
  have "(\<forall>f \<in> {LCD_BACKLIGHT_FILE, LCD_BACKLIGHT2_FILE}. open_errno (fs f) = 0 \<and> rw_errno (fs f) = 0) \<longrightarrow>
     e1 = 0 \<and> e2 = 0 \<and> data (fs2 LCD_BACKLIGHT_FILE) = snprintf_d b" by auto
  then show ?thesis using b(2,3) rb w1 w2
    by (intro exI [of _ "word_of_int e1 OR word_of_int e2"] exI [of _ fs2] exI [of _ b])
      (simp add: lights_set_light_backlight_def get_max_brightness_eq [OF assms(1,3)] b(1))
qed

definition example_sysfs :: sysfs where
  "example_sysfs = (\<lambda>_. \<lparr>open_errno = 0, rw_errno = 0, data = ''255'' @ [CHR 0x0A]\<rparr>)"

lemma backlight_bounds_witness:
  "\<exists>fs' b. lights_set_light_backlight True [] 0xff808080 example_sysfs = Some (0, fs') \<and> 20 \<le> b \<and> b \<le> 255
     \<and> strtol 10 (data (fs' LCD_BACKLIGHT_FILE)) = b"
proof -
  have "snprintf_d 255 = ''255'' @ [CHR 0x0A]" by code_simp
  then have m: "max_file_says 255 example_sysfs" by (simp add: max_file_says_def example_sysfs_def)
  have "rgb_to_brightness 0xff808080 \<noteq> 0" by code_simp
  moreover have "\<forall>f. open_errno (example_sysfs f) = 0 \<and> rw_errno (example_sysfs f) = 0" by (simp add: example_sysfs_def)
  ultimately show ?thesis using backlight_bounds [OF m, of True "[]" "0xff808080"] by auto
qed

end
