(* ===== verification/Lights_Device.thy ===== *)
theory Lights_Device
  imports Lights
begin

text \<open>
  Opening and closing the lights of the wrapper: who owns what, and what is lost when the name of
  the light is not known.
\<close>

section \<open>The wrapper owns the vendor's devices\<close>

definition lights_live :: "lights \<Rightarrow> ptr set" where
  "lights_live l = dom (devices l)"

definition light_owner :: "lights \<Rightarrow> ptr \<rightharpoonup> ptr" where
  "light_owner l p = (case devices l p of Some (Some d) \<Rightarrow> Some (vendor d) | _ \<Rightarrow> None)"

definition lights_inv :: "lights \<Rightarrow> bool" where
  "lights_inv l \<longleftrightarrow> owns (light_owner l) (vendor_open l) \<and> (\<forall>p. devices l p \<noteq> Some None)"

lemma dom_light_owner: "lights_inv l \<Longrightarrow> dom (light_owner l) = lights_live l"
  unfolding lights_inv_def lights_live_def light_owner_def dom_def by (auto split: option.splits)

lemma light_owner_upd: "devices l' = (devices l)(p \<mapsto> Some d) \<Longrightarrow> light_owner l' = (light_owner l)(p \<mapsto> vendor d)"
  by (rule ext) (simp add: light_owner_def)

lemma light_owner_del: "devices l' = (devices l)(p := None) \<Longrightarrow> light_owner l' = (light_owner l)(p := None)"
  by (rule ext) (simp add: light_owner_def)

text \<open>What the system answers to one \<open>open\<close>: the module, \<open>malloc\<close>, the vendor, and the call's arguments.\<close>

type_synonym light_answers = "light_ids \<times> int \<times> ptr option \<times> (int + ptr) \<times> ptr \<times> string option"

fun light_answers_ok :: "light_answers \<Rightarrow> lights \<Rightarrow> bool" where
  "light_answers_ok (ids, module_rv, malloc_ret, vendor_ret, m, name) l =
     ((\<forall>p. malloc_ret = Some p \<longrightarrow> devices l p = None) \<and> (\<forall>v. vendor_ret = Inr v \<longrightarrow> v \<notin> vendor_open l)
      \<and> (\<forall>n. name = Some n \<longrightarrow> light_function_of ids n \<noteq> None))"

fun light_opn :: "light_answers \<Rightarrow> lights \<Rightarrow> ptr option \<times> lights" where
  "light_opn (ids, module_rv, malloc_ret, vendor_ret, m, name) l =
     (case open_lights ids module_rv malloc_ret vendor_ret m name l of ((rv, dev), l') \<Rightarrow>
        (case dev of Some d \<Rightarrow> d | None \<Rightarrow> None, l'))"

definition light_cls :: "ptr \<Rightarrow> lights \<Rightarrow> lights option" where
  "light_cls p l = map_option snd (lights_device_close (Some p) l)"

lemma check_vendor_module_devices:
  "check_vendor_module rv l = (r, l') \<Longrightarrow> devices l' = devices l \<and> vendor_open l' = vendor_open l"
  by (auto simp: check_vendor_module_def split: if_splits)

lemma lights_inv_cong:
  "devices l' = devices l \<Longrightarrow> vendor_open l' = vendor_open l \<Longrightarrow> lights_inv l' = lights_inv l"
  by (simp add: lights_inv_def light_owner_def [abs_def])

lemma lights_inv_insert:
  assumes "lights_inv l" "devices l p = None" "vendor d \<notin> vendor_open l"
    and "devices l' = (devices l)(p \<mapsto> Some d)" "vendor_open l' = insert (vendor d) (vendor_open l)"
  shows "lights_inv l'"
  using assms owns_insert [of "light_owner l" "vendor_open l" p "vendor d"]
  by (simp add: lights_inv_def light_owner_upd [OF assms(4)] light_owner_def)

lemma lights_inv_delete:
  assumes "lights_inv l" "devices l p = Some (Some d)"
    and "devices l' = (devices l)(p := None)" "vendor_open l' = vendor_open l - {vendor d}"
  shows "lights_inv l'"
  using assms owns_delete [of "light_owner l" "vendor_open l" p "vendor d"]
  by (simp add: lights_inv_def light_owner_del [OF assms(3)] light_owner_def)

lemma open_lights_cases:
  assumes "open_lights ids rv mr vr m name l = ((r, dev), l')"
    "\<forall>n. name = Some n \<longrightarrow> light_function_of ids n \<noteq> None"
  shows "(\<exists>p v d. mr = Some p \<and> vr = Inr v \<and> vendor d = v \<and> r = 0 \<and> dev = Some (Some p)
            \<and> devices l' = (devices l)(p \<mapsto> Some d) \<and> vendor_open l' = insert v (vendor_open l))
     \<or> ((dev = None \<or> dev = Some None) \<and> vendor_open l' = vendor_open l
          \<and> (devices l' = devices l \<or> (\<exists>p. mr = Some p \<and> devices l' = (devices l)(p := None))))"
proof (cases name)
  case (Some nm)
  obtain r1 l1 where c: "check_vendor_module rv l = (r1, l1)" by fastforce
  note d = check_vendor_module_devices [OF c]
  from Some assms(2) obtain f where f: "light_function_of ids nm = Some f" by auto
  note o = assms(1) [unfolded open_lights_def Some option.case c prod.case Let_def f]
  show ?thesis
  proof (cases "r1 = 0 \<and> (\<exists>p v. mr = Some p \<and> vr = Inr v)")
    case True
    then obtain p v where pv: "r1 = 0" "mr = Some p" "vr = Inr v" by auto
    from o have "r = 0 \<and> dev = Some (Some p) \<and> devices l' = (devices l)(p \<mapsto> Some \<lparr>light_module = m, vendor = v, set_light = f\<rparr>)
       \<and> vendor_open l' = insert v (vendor_open l)" unfolding pv using d by auto
    with pv show ?thesis by (intro disjI1 exI [of _ p] exI [of _ v] exI [of _ "\<lparr>light_module = m, vendor = v, set_light = f\<rparr>"]) simp
  next
    case False
    show ?thesis
    proof (cases "r1 = 0")
      case rv: True
      show ?thesis
      proof (cases mr)
        case None
        with o d rv show ?thesis by simp
      next
        case (Some p)
        then obtain err where e: "vr = Inl err" using False rv by (cases vr) auto
        have "dev = Some None \<and> vendor_open l' = vendor_open l1 \<and> devices l' = (devices l1)(p := None)"
          using o by (auto simp: rv Some e)
        with d Some show ?thesis by simp
      qed
    qed (use o d in auto)
  qed
qed (use assms in \<open>simp add: open_lights_def\<close>)

interpretation lights: wrapper_devices lights_inv lights_live vendor_open light_answers_ok light_opn light_cls
proof
  fix l
  assume inv: "lights_inv l"
  then have "owns (light_owner l) (vendor_open l)" by (simp add: lights_inv_def)
  from owns_card [OF this] ownsD(1) [OF this]
  show "finite (lights_live l) \<and> finite (vendor_open l) \<and> card (vendor_open l) = card (lights_live l)"
    by (simp add: dom_light_owner [OF inv])
next
  fix l p
  assume inv: "lights_inv l" and p: "p \<in> lights_live l"
  then obtain d where d: "devices l p = Some (Some d)"
    unfolding lights_inv_def lights_live_def dom_def by (cases "devices l p"; cases "the (devices l p)") auto
  let ?l = "l\<lparr>vendor_open := vendor_open l - {vendor d}, devices := (devices l)(p := None)\<rparr>"
  have "lights_inv ?l" by (rule lights_inv_delete [OF inv d]) simp_all
  then show "\<exists>l'. light_cls p l = Some l' \<and> lights_inv l' \<and> lights_live l' = lights_live l - {p}"
    using d by (auto simp: light_cls_def lights_device_close_def lights_live_def)
next
  fix l r p l'
  assume h: "lights_inv l" "light_answers_ok r l" "light_opn r l = (Some p, l')"
  obtain ids rv mr vr m name where r: "r = (ids, rv, mr, vr, m, name)" by (cases r) auto
  have ok: "\<forall>n. name = Some n \<longrightarrow> light_function_of ids n \<noteq> None" using h(2) r by simp
  from h(3) r obtain x where "open_lights ids rv mr vr m name l = ((x, Some (Some p)), l')"
    by (auto split: prod.splits option.splits)
  note c = open_lights_cases [OF this ok]
  have "\<not> (Some (Some p) = None \<or> Some (Some p) = Some (None :: ptr option))" by simp
  with c obtain p' d where "mr = Some p'" "vr = Inr (vendor d)" "Some (Some p) = Some (Some p')"
    "devices l' = (devices l)(p' \<mapsto> Some d)" "vendor_open l' = insert (vendor d) (vendor_open l)" by blast
  then have d: "mr = Some p" "vr = Inr (vendor d)"
    "devices l' = (devices l)(p \<mapsto> Some d)" "vendor_open l' = insert (vendor d) (vendor_open l)" by simp_all
  with h(2) r have "devices l p = None" "vendor d \<notin> vendor_open l" by auto
  with lights_inv_insert [OF h(1) this d(3,4)] d(3)
  show "lights_inv l' \<and> p \<notin> lights_live l \<and> lights_live l' = insert p (lights_live l)"
    by (auto simp: lights_live_def)
next
  fix l r l'
  assume h: "lights_inv l" "light_answers_ok r l" "light_opn r l = (None, l')"
  obtain ids rv mr vr m name where r: "r = (ids, rv, mr, vr, m, name)" by (cases r) auto
  from h(3) r obtain x dev where o: "open_lights ids rv mr vr m name l = ((x, dev), l')" "dev = None \<or> dev = Some None"
    by (auto split: prod.splits option.splits)
  have ok: "\<forall>n. name = Some n \<longrightarrow> light_function_of ids n \<noteq> None" using h(2) r by simp
  have "dev \<noteq> Some (Some p)" for p using o(2) by auto
  with open_lights_cases [OF o(1) ok] have c: "vendor_open l' = vendor_open l"
    "devices l' = devices l \<or> (\<exists>p. mr = Some p \<and> devices l' = (devices l)(p := None))" by blast+
  have "devices l' = devices l" using c(2)
  proof (elim disjE exE conjE)
    fix p assume p: "mr = Some p" "devices l' = (devices l)(p := None)"
    with h(2) r have "devices l p = None" by simp
    then have "(devices l)(p := None) = devices l" by (rule fun_upd_idem)
    with p(2) show ?thesis by simp
  qed
  from lights_inv_cong [OF this c(1)] h(1) this
  show "lights_inv l' \<and> lights_live l' = lights_live l" by (simp add: lights_live_def)
qed

section \<open>Properties\<close>

text \<open>
  Lights that are opened under names the wrapper knows, whatever the system answers, and then
  closed, in any order, leave nothing behind: the wrapper's devices are those from before, and as
  many devices of the vendor are open as before.
\<close>

theorem lights_opened_then_closed:
  assumes "lights_inv l" "lights.answers_all rs l" "lights.open_all rs l = (ps, l1)"
    and "set qs = set ps" "distinct qs"
  shows "\<exists>l2. lights.close_all qs l1 = Some l2 \<and> lights_live l2 = lights_live l
     \<and> card (vendor_open l2) = card (vendor_open l)"
  using assms by (rule lights.opened_then_closed)

definition example_ids :: light_ids where
  "example_ids = \<lparr>LIGHT_ID_BACKLIGHT = ''a'', LIGHT_ID_BUTTONS = ''b'', LIGHT_ID_BATTERY = ''c'', LIGHT_ID_NOTIFICATIONS = ''d''\<rparr>"

definition no_lights :: lights where
  "no_lights = \<lparr>gVendorModule = False, devices = Map.empty, vendor_open = {}\<rparr>"

lemma no_lights_inv: "lights_inv no_lights"
  by (simp add: lights_inv_def owns_def no_lights_def light_owner_def [abs_def])

lemma lights_opened_then_closed_witness:
  "\<exists>l2. lights.close_all [20, 10] (snd (lights.open_all
       [(example_ids, 0, Some 10, Inr 1, 5, Some ''a''), (example_ids, 0, Some 15, Inl (- 2), 5, Some ''b''),
        (example_ids, 0, Some 20, Inr 2, 5, Some ''d'')] no_lights)) = Some l2 \<and> lights_live l2 = {}"
proof -
  let ?rs = "[(example_ids, 0, Some 10, Inr 1, 5, Some ''a''), (example_ids, 0, Some 15, Inl (- 2), 5, Some ''b''),
        (example_ids, 0, Some 20, Inr 2, 5, Some ''d'')]"
  obtain ps l1 where o: "lights.open_all ?rs no_lights = (ps, l1)" by fastforce
  have e: "fst (lights.open_all ?rs no_lights) = [10, 20]"
    by (simp add: open_lights_def check_vendor_module_def no_lights_def light_function_of_def example_ids_def)
  then have ps: "ps = [10, 20]" using o by simp
  have a: "lights.answers_all ?rs no_lights"
    by (simp add: open_lights_def check_vendor_module_def no_lights_def light_function_of_def example_ids_def)
  have q: "set [20, 10] = set ps" "distinct [20, 10 :: ptr]" by (auto simp: ps)
  have l1: "snd (lights.open_all ?rs no_lights) = l1" unfolding o by simp
  have z: "lights_live no_lights = {}" by (simp add: no_lights_def lights_live_def)
  from lights_opened_then_closed [OF no_lights_inv a o q] show ?thesis unfolding l1 z by blast
qed

text \<open>
  An open of a light whose name the wrapper does not know fails, but the wrapper device it
  allocated and the vendor's device it opened stay, and the caller has no handle to close them.
\<close>

theorem lights_unknown_name_leaks:
  assumes "light_function_of ids name = None" "gVendorModule l \<or> module_rv = 0"
  shows "\<exists>l'. open_lights ids module_rv (Some p) (Inr v) m (Some name) l = ((- EINVAL, None), l')
     \<and> p \<in> lights_live l' \<and> v \<in> vendor_open l'"
  using assms by (auto simp: open_lights_def check_vendor_module_def lights_live_def)

lemma lights_unknown_name_leaks_witness:
  "\<exists>l'. open_lights example_ids 0 (Some 10) (Inr 1) 5 (Some ''attention'') no_lights = ((- EINVAL, None), l')
     \<and> 10 \<in> lights_live l'"
  using lights_unknown_name_leaks [of example_ids "''attention''" no_lights 0 10 1 5]
  by (auto simp: light_function_of_def example_ids_def)

end
