(* ===== verification/Camera_Params.thy ===== *)
theory Camera_Params
  imports C_Lib
begin

text \<open>
  The parameter fix-ups of the camera wrapper (camera/CameraWrapper.cpp): what it changes in the
  parameters that pass between the application and Sony's camera module. Android's class
  \<open>CameraParameters\<close>, whose source is not part of the repository, is an argument: its operations and
  the names it defines. \<open>None\<close> is undefined behaviour: a null pointer given to the string functions,
  or a write or read past a buffer on the stack. Allocations that are never freed, and bytes written
  past the end of an allocated block, are counted.
\<close>

section \<open>The parameter class and strings\<close>

record 'p camera_parameters =
  params_get :: "'p \<Rightarrow> string \<Rightarrow> string option"
  params_set :: "string \<Rightarrow> string \<Rightarrow> 'p \<Rightarrow> 'p"
  unflatten :: "string \<Rightarrow> 'p"
  flatten :: "'p \<Rightarrow> string"
  KEY_SUPPORTED_SCENE_MODES :: string
  KEY_SCENE_MODE :: string
  KEY_RECORDING_HINT :: string
  SCENE_MODE_AUTO :: string
  VALUE_TRUE :: string

record heap_effects =
  leaked :: nat
  overrun :: nat

fun strstr :: "string \<Rightarrow> string \<Rightarrow> bool" where
  "strstr [] t = (t = [])"
| "strstr (c # cs) t = (take (length t) (c # cs) = t \<or> strstr cs t)"

definition KEY_SUPPORTED_ISO_MODES :: string where "KEY_SUPPORTED_ISO_MODES = ''iso-values''"
definition KEY_ISO_MODE :: string where "KEY_ISO_MODE = ''iso''"
definition KEY_SONY_IMAGE_STABILISER_VALUES :: string where "KEY_SONY_IMAGE_STABILISER_VALUES = ''sony-is-values''"
definition KEY_SONY_IMAGE_STABILISER :: string where "KEY_SONY_IMAGE_STABILISER = ''sony-is''"
definition KEY_SONY_VIDEO_STABILISER :: string where "KEY_SONY_VIDEO_STABILISER = ''sony-vs''"
definition KEY_SONY_VIDEO_STABILISER_VALUES :: string where "KEY_SONY_VIDEO_STABILISER_VALUES = ''sony-vs-values''"
definition KEY_SONY_VIDEO_HDR :: string where "KEY_SONY_VIDEO_HDR = ''sony-video-hdr''"
definition KEY_SONY_VIDEO_HDR_VALUES :: string where "KEY_SONY_VIDEO_HDR_VALUES = ''sony-video-hdr-values''"
definition KEY_SONY_ISO_AVAIL_MODES :: string where "KEY_SONY_ISO_AVAIL_MODES = ''sony-iso-values''"
definition KEY_SONY_ISO_MODE :: string where "KEY_SONY_ISO_MODE = ''sony-iso''"
definition KEY_SONY_AE_MODE_VALUES :: string where "KEY_SONY_AE_MODE_VALUES = ''sony-ae-mode-values''"
definition KEY_SONY_AE_MODE :: string where "KEY_SONY_AE_MODE = ''sony-ae-mode''"
definition VALUE_SONY_ON :: string where "VALUE_SONY_ON = ''on''"
definition VALUE_SONY_OFF :: string where "VALUE_SONY_OFF = ''off''"
definition VALUE_SONY_STILL_HDR :: string where "VALUE_SONY_STILL_HDR = ''on-still-hdr''"
definition VALUE_SONY_INTELLIGENT_ACTIVE :: string where "VALUE_SONY_INTELLIGENT_ACTIVE = ''on-intelligent-active''"

lemmas sony_keys = KEY_SUPPORTED_ISO_MODES_def KEY_ISO_MODE_def KEY_SONY_IMAGE_STABILISER_VALUES_def
  KEY_SONY_IMAGE_STABILISER_def KEY_SONY_VIDEO_STABILISER_def KEY_SONY_VIDEO_STABILISER_VALUES_def
  KEY_SONY_VIDEO_HDR_def KEY_SONY_VIDEO_HDR_VALUES_def KEY_SONY_ISO_AVAIL_MODES_def KEY_SONY_ISO_MODE_def
  KEY_SONY_AE_MODE_VALUES_def KEY_SONY_AE_MODE_def

lemmas sony_values = VALUE_SONY_ON_def VALUE_SONY_OFF_def VALUE_SONY_STILL_HDR_def VALUE_SONY_INTELLIGENT_ACTIVE_def

section \<open>From Sony's module to the application\<close>

definition camera_fixup_capability :: "('p, 'z) camera_parameters_scheme \<Rightarrow> 'p \<Rightarrow> 'p option" where
  "camera_fixup_capability api p = (case params_get api p KEY_SONY_IMAGE_STABILISER_VALUES of
      None \<Rightarrow> Some p
    | Some supportedIsModes \<Rightarrow>
        if strstr supportedIsModes VALUE_SONY_STILL_HDR
        then (case params_get api p (KEY_SUPPORTED_SCENE_MODES api) of
            None \<Rightarrow> None
          | Some supportedSceneModes \<Rightarrow>
              if 512 < length (supportedSceneModes @ '',hdr'') + 1 then None
              else Some (params_set api (KEY_SUPPORTED_SCENE_MODES api) (supportedSceneModes @ '',hdr'') p))
        else Some p)"

text \<open>
  The loop over the ISO modes, on its buffer of 255 bytes with the position in a \<open>char\<close> (unsigned on
  this device). \<open>strlen_in\<close> is \<open>None\<close> when no terminator is in the buffer.
\<close>

definition strlen_in :: "char list \<Rightarrow> nat option" where
  "strlen_in buf = (if CHR 0x00 \<in> set buf then Some (length (cstr buf)) else None)"

definition store :: "nat \<Rightarrow> char list \<Rightarrow> char list \<Rightarrow> char list option" where
  "store i new buf = (if i + length new \<le> length buf
     then Some (take i buf @ new @ drop (i + length new) buf) else None)"

fun iso_loop :: "string \<Rightarrow> char list \<Rightarrow> u8 \<Rightarrow> (char list \<times> u8) option" where
  "iso_loop [] buffer bufferPos = Some (buffer, bufferPos)"
| "iso_loop (c # cs) buffer bufferPos =
    (if c \<noteq> CHR '','' then
       store (unat bufferPos) [c] buffer \<bind> (\<lambda>b. iso_loop cs b (bufferPos + 1))
     else
       strlen_in buffer \<bind> (\<lambda>n. store n ('',ISO'' @ [CHR 0x00]) buffer \<bind> (\<lambda>b. iso_loop cs b (bufferPos + 4))))"

text \<open>
  \<open>sprintf(buffer, "%s,auto", buffer)\<close> reads and writes the same buffer, which the C standard leaves
  undefined; the model gives it the effect that Android's library has, an append.
\<close>

definition fixup_iso_values :: "string \<Rightarrow> string option" where
  "fixup_iso_values isoModeList = do {
     (buffer, _) \<leftarrow> iso_loop isoModeList (''ISO'' @ replicate 252 (CHR 0x00)) 3;
     n \<leftarrow> strlen_in buffer;
     b \<leftarrow> store n ('',auto'' @ [CHR 0x00]) buffer;
     Some (cstr b)
   }"

text \<open>The ISO text is printed into a block without room for its terminator, and the block is not freed.\<close>

definition iso_text :: "string \<Rightarrow> heap_effects \<Rightarrow> string \<times> heap_effects" where
  "iso_text v h = (''ISO'' @ v, h\<lparr>leaked := leaked h + 1, overrun := overrun h + 1\<rparr>)"

definition set_shutter :: "('p, 'z) camera_parameters_scheme \<Rightarrow> 'p \<Rightarrow> 'p" where
  "set_shutter api p = (case params_get api p ''sony-shutter-speed'' of
      None \<Rightarrow> p | Some s \<Rightarrow> params_set api ''shutter-speed'' s p)"

definition fixup_exposure :: "('p, 'z) camera_parameters_scheme \<Rightarrow> 'p \<Rightarrow> heap_effects \<Rightarrow> ('p \<times> heap_effects) option" where
  "fixup_exposure api p h = (case params_get api p KEY_SONY_ISO_MODE of
      None \<Rightarrow> Some (p, h)
    | Some iso_mode \<Rightarrow> (case params_get api p KEY_SONY_AE_MODE_VALUES of
        None \<Rightarrow> Some (p, h)
      | Some _ \<Rightarrow> (case params_get api p KEY_SONY_AE_MODE of
          None \<Rightarrow> None
        | Some aeMode \<Rightarrow>
            if aeMode = ''auto'' then
              Some (params_set api ''shutter-speed'' ''auto'' (params_set api KEY_ISO_MODE ''auto'' p), h)
            else if aeMode = ''iso-prio'' then
              (case iso_text iso_mode h of (isoVal, h') \<Rightarrow>
                 Some (params_set api ''shutter-speed'' ''auto'' (params_set api KEY_ISO_MODE isoVal p), h'))
            else if aeMode = ''shutter-prio'' then
              Some (set_shutter api (params_set api KEY_ISO_MODE ''auto'' p), h)
            else if aeMode = ''manual'' then
              (let p1 = set_shutter api p
               in case params_get api p1 KEY_SONY_ISO_MODE of
                   None \<Rightarrow> None
                 | Some iso1 \<Rightarrow> (case iso_text iso1 h of (isoVal, h') \<Rightarrow> Some (params_set api KEY_ISO_MODE isoVal p1, h')))
            else
              Some (params_set api ''shutter-speed'' ''auto'' (params_set api KEY_ISO_MODE ''auto'' p), h))))"

definition fixup_iso_modes :: "('p, 'z) camera_parameters_scheme \<Rightarrow> 'p \<Rightarrow> 'p option" where
  "fixup_iso_modes api p = (case params_get api p KEY_SONY_ISO_AVAIL_MODES of
      None \<Rightarrow> Some p
    | Some isoModeList \<Rightarrow> map_option (\<lambda>b. params_set api KEY_SUPPORTED_ISO_MODES b p) (fixup_iso_values isoModeList))"

definition fixup_scene :: "('p, 'z) camera_parameters_scheme \<Rightarrow> 'p \<Rightarrow> 'p" where
  "fixup_scene api p = (case params_get api p KEY_SONY_IMAGE_STABILISER of
      None \<Rightarrow> p
    | Some sony_is \<Rightarrow> if sony_is = VALUE_SONY_STILL_HDR then params_set api (KEY_SCENE_MODE api) ''hdr'' p else p)"

definition fixup_video :: "('p, 'z) camera_parameters_scheme \<Rightarrow> 'p \<Rightarrow> 'p option" where
  "fixup_video api p = (case (params_get api p KEY_SONY_VIDEO_HDR, params_get api p KEY_SONY_VIDEO_HDR_VALUES) of
      (Some v, Some vs) \<Rightarrow> (let p1 = params_set api ''video-hdr-values'' vs p
         in map_option (\<lambda>v1. params_set api ''video-hdr'' v1 p1) (params_get api p1 KEY_SONY_VIDEO_HDR))
    | _ \<Rightarrow> Some p)"

definition getparams_fix :: "('p, 'z) camera_parameters_scheme \<Rightarrow> 'p \<Rightarrow> heap_effects \<Rightarrow> ('p \<times> heap_effects) option" where
  "getparams_fix api p h = do {
     p1 \<leftarrow> camera_fixup_capability api p;
     p2 \<leftarrow> fixup_iso_modes api p1;
     p3 \<leftarrow> fixup_video api (fixup_scene api p2);
     fixup_exposure api p3 h
   }"

definition camera_fixup_getparams :: "('p, 'z) camera_parameters_scheme \<Rightarrow> string \<Rightarrow> heap_effects \<Rightarrow>
    (string \<times> heap_effects) option" where
  "camera_fixup_getparams api settings h =
     map_option (\<lambda>(p, h'). (flatten api p, h')) (getparams_fix api (unflatten api settings) h)"

section \<open>From the application to Sony's module\<close>

definition setparams_shutter :: "('p, 'z) camera_parameters_scheme \<Rightarrow> 'p \<Rightarrow> 'p option" where
  "setparams_shutter api p = (case params_get api p ''shutter-speed'' of
      None \<Rightarrow> Some p
    | Some shutterSpeed \<Rightarrow>
        if shutterSpeed \<noteq> ''auto'' then
          Some (params_set api KEY_SONY_AE_MODE ''shutter-prio'' (params_set api ''sony-shutter-speed'' shutterSpeed p))
        else (case params_get api p KEY_SONY_AE_MODE_VALUES of
            None \<Rightarrow> None
          | Some aeModes \<Rightarrow> Some (if strstr aeModes ''auto'' then params_set api KEY_SONY_AE_MODE ''auto'' p else p)))"

text \<open>\<open>isoMode + 3\<close> must stay inside the text.\<close>

definition setparams_iso :: "('p, 'z) camera_parameters_scheme \<Rightarrow> 'p \<Rightarrow> 'p option" where
  "setparams_iso api p = (case params_get api p KEY_ISO_MODE of
      None \<Rightarrow> Some p
    | Some isoMode \<Rightarrow> do {
        p1 \<leftarrow> (if isoMode \<noteq> ''auto'' then
                 (if length isoMode < 3 then None else Some (params_set api KEY_SONY_ISO_MODE (drop 3 isoMode) p))
               else Some p);
        (case params_get api p1 KEY_SONY_AE_MODE_VALUES of
           None \<Rightarrow> Some p1
         | Some aeModes \<Rightarrow>
             if isoMode = ''auto'' then
               (if strstr aeModes ''auto'' then
                  (case params_get api p1 KEY_SONY_AE_MODE of
                     None \<Rightarrow> None
                   | Some m \<Rightarrow> Some (if m \<noteq> ''shutter-prio'' then params_set api KEY_SONY_AE_MODE ''auto'' p1 else p1))
                else Some p1)
             else
               (if strstr aeModes ''iso-prio'' then
                  (case params_get api p1 KEY_SONY_AE_MODE of
                     None \<Rightarrow> None
                   | Some m \<Rightarrow> Some (if m = ''shutter-prio'' then params_set api KEY_SONY_AE_MODE ''manual'' p1
                                     else params_set api KEY_SONY_AE_MODE ''iso-prio'' p1))
                else Some p1))
      })"

definition setparams_scene :: "('p, 'z) camera_parameters_scheme \<Rightarrow> 'p \<Rightarrow> 'p" where
  "setparams_scene api p = (case params_get api p (KEY_SCENE_MODE api) of
      None \<Rightarrow> p
    | Some sceneMode \<Rightarrow>
        if sceneMode = ''hdr'' then
          params_set api (KEY_SCENE_MODE api) (SCENE_MODE_AUTO api)
            (params_set api KEY_SONY_IMAGE_STABILISER VALUE_SONY_STILL_HDR p)
        else params_set api KEY_SONY_IMAGE_STABILISER VALUE_SONY_ON p)"

definition setparams_video :: "('p, 'z) camera_parameters_scheme \<Rightarrow> 'p \<Rightarrow> 'p" where
  "setparams_video api p =
    (let p1 = (case (params_get api p KEY_SONY_VIDEO_HDR, params_get api p ''video-hdr'') of
          (Some _, Some v) \<Rightarrow> params_set api KEY_SONY_VIDEO_HDR v p
        | _ \<Rightarrow> p)
     in case params_get api p1 (KEY_RECORDING_HINT api) of
         None \<Rightarrow> p1
       | Some hint \<Rightarrow>
           if hint = VALUE_TRUE api then
             params_set api KEY_SONY_IMAGE_STABILISER VALUE_SONY_OFF
               (case params_get api p1 KEY_SONY_VIDEO_STABILISER_VALUES of
                  Some vs \<Rightarrow> if strstr vs VALUE_SONY_INTELLIGENT_ACTIVE
                             then params_set api KEY_SONY_VIDEO_STABILISER VALUE_SONY_INTELLIGENT_ACTIVE p1
                             else params_set api KEY_SONY_VIDEO_STABILISER VALUE_SONY_ON p1
                | None \<Rightarrow> params_set api KEY_SONY_VIDEO_STABILISER VALUE_SONY_ON p1)
           else p1)"

definition setparams_fix :: "('p, 'z) camera_parameters_scheme \<Rightarrow> 'p \<Rightarrow> 'p option" where
  "setparams_fix api p = do {
     p1 \<leftarrow> setparams_shutter api p;
     p2 \<leftarrow> setparams_iso api p1;
     Some (setparams_video api (setparams_scene api p2))
   }"

definition camera_fixup_setparams :: "('p, 'z) camera_parameters_scheme \<Rightarrow> string \<Rightarrow> string option" where
  "camera_fixup_setparams api settings = map_option (flatten api) (setparams_fix api (unflatten api settings))"

end
