(* ===== verification/Camera.thy ===== *)
theory Camera
  imports Camera_Params Hal_Device
begin

text \<open>
  The camera wrapper's devices (camera/CameraWrapper.cpp): opening and closing, the operations that
  are handed on to the vendor's device, and the two that go through the parameter fix-ups. The
  vendor's module and \<open>malloc\<close> are arguments; a call of the vendor's device is recorded with its
  arguments, and what it answers is an argument. Pointers that are only handed on are numbers. The
  lock, under which devices are opened and closed, is not modelled.
\<close>

section \<open>State\<close>

record wrapper_camera_device =
  camera_module :: ptr
  CAMERA_ID :: int
  camera_vendor :: ptr
  camera_ops :: ptr

record cameras =
  camera_vendor_module :: bool
  camera_devices :: "ptr \<rightharpoonup> wrapper_camera_device option"
  ops_blocks :: "ptr set"
  camera_vendor_open :: "ptr set"

datatype vendor_call =
    Set_preview_window ptr
  | Set_callbacks ptr ptr ptr ptr ptr
  | Enable_msg_type i32
  | Disable_msg_type i32
  | Msg_type_enabled i32
  | Start_preview
  | Stop_preview
  | Preview_enabled
  | Store_meta_data_in_buffers int
  | Start_recording
  | Stop_recording
  | Recording_enabled
  | Release_recording_frame ptr
  | Auto_focus
  | Cancel_auto_focus
  | Take_picture
  | Cancel_picture
  | Set_parameters string
  | Get_parameters
  | Put_parameters string
  | Send_command i32 i32 i32
  | Release
  | Dump int

section \<open>Operations handed on to the vendor's device\<close>

text \<open>\<open>VENDOR_CALL\<close>: the vendor's device behind a wrapper device; another pointer is undefined.\<close>

definition VENDOR_CALL :: "ptr \<Rightarrow> vendor_call \<Rightarrow> cameras \<Rightarrow> (ptr \<times> vendor_call) option" where
  "VENDOR_CALL device c s = (case camera_devices s device of
      Some (Some d) \<Rightarrow> Some (camera_vendor d, c) | _ \<Rightarrow> None)"

text \<open>A function that answers \<open>bad\<close> to a null device and else the vendor's answer; and one without an answer.\<close>

definition forward :: "int \<Rightarrow> int \<Rightarrow> vendor_call \<Rightarrow> ptr option \<Rightarrow> cameras \<Rightarrow> (int \<times> (ptr \<times> vendor_call) list) option" where
  "forward bad ret c device s = (case device of
      None \<Rightarrow> Some (bad, [])
    | Some p \<Rightarrow> map_option (\<lambda>x. (ret, [x])) (VENDOR_CALL p c s))"

definition forward_void :: "vendor_call \<Rightarrow> ptr option \<Rightarrow> cameras \<Rightarrow> (ptr \<times> vendor_call) list option" where
  "forward_void c device s = (case device of
      None \<Rightarrow> Some []
    | Some p \<Rightarrow> map_option (\<lambda>x. [x]) (VENDOR_CALL p c s))"

definition camera_set_preview_window :: "int \<Rightarrow> ptr \<Rightarrow> ptr option \<Rightarrow> cameras \<Rightarrow> (int \<times> (ptr \<times> vendor_call) list) option" where
  "camera_set_preview_window ret window device s = forward (- EINVAL) ret (Set_preview_window window) device s"

definition camera_msg_type_enabled :: "int \<Rightarrow> i32 \<Rightarrow> ptr option \<Rightarrow> cameras \<Rightarrow> (int \<times> (ptr \<times> vendor_call) list) option" where
  "camera_msg_type_enabled ret msg_type device s = forward (0) ret (Msg_type_enabled msg_type) device s"

definition camera_start_preview :: "int \<Rightarrow> ptr option \<Rightarrow> cameras \<Rightarrow> (int \<times> (ptr \<times> vendor_call) list) option" where
  "camera_start_preview ret device s = forward (- EINVAL) ret (Start_preview) device s"

definition camera_preview_enabled :: "int \<Rightarrow> ptr option \<Rightarrow> cameras \<Rightarrow> (int \<times> (ptr \<times> vendor_call) list) option" where
  "camera_preview_enabled ret device s = forward (- EINVAL) ret (Preview_enabled) device s"

definition camera_store_meta_data_in_buffers :: "int \<Rightarrow> int \<Rightarrow> ptr option \<Rightarrow> cameras \<Rightarrow> (int \<times> (ptr \<times> vendor_call) list) option" where
  "camera_store_meta_data_in_buffers ret enable device s = forward (- EINVAL) ret (Store_meta_data_in_buffers enable) device s"

definition camera_start_recording :: "int \<Rightarrow> ptr option \<Rightarrow> cameras \<Rightarrow> (int \<times> (ptr \<times> vendor_call) list) option" where
  "camera_start_recording ret device s = forward (EINVAL) ret (Start_recording) device s"

definition camera_recording_enabled :: "int \<Rightarrow> ptr option \<Rightarrow> cameras \<Rightarrow> (int \<times> (ptr \<times> vendor_call) list) option" where
  "camera_recording_enabled ret device s = forward (- EINVAL) ret (Recording_enabled) device s"

definition camera_auto_focus :: "int \<Rightarrow> ptr option \<Rightarrow> cameras \<Rightarrow> (int \<times> (ptr \<times> vendor_call) list) option" where
  "camera_auto_focus ret device s = forward (- EINVAL) ret (Auto_focus) device s"

definition camera_cancel_auto_focus :: "int \<Rightarrow> ptr option \<Rightarrow> cameras \<Rightarrow> (int \<times> (ptr \<times> vendor_call) list) option" where
  "camera_cancel_auto_focus ret device s = forward (- EINVAL) ret (Cancel_auto_focus) device s"

definition camera_cancel_picture :: "int \<Rightarrow> ptr option \<Rightarrow> cameras \<Rightarrow> (int \<times> (ptr \<times> vendor_call) list) option" where
  "camera_cancel_picture ret device s = forward (- EINVAL) ret (Cancel_picture) device s"

definition camera_send_command :: "int \<Rightarrow> i32 \<Rightarrow> i32 \<Rightarrow> i32 \<Rightarrow> ptr option \<Rightarrow> cameras \<Rightarrow> (int \<times> (ptr \<times> vendor_call) list) option" where
  "camera_send_command ret cmd arg1 arg2 device s = forward (- EINVAL) ret (Send_command cmd arg1 arg2) device s"

definition camera_dump :: "int \<Rightarrow> int \<Rightarrow> ptr option \<Rightarrow> cameras \<Rightarrow> (int \<times> (ptr \<times> vendor_call) list) option" where
  "camera_dump ret fd device s = forward (- EINVAL) ret (Dump fd) device s"

definition camera_set_callbacks :: "ptr \<Rightarrow> ptr \<Rightarrow> ptr \<Rightarrow> ptr \<Rightarrow> ptr \<Rightarrow> ptr option \<Rightarrow> cameras \<Rightarrow> (ptr \<times> vendor_call) list option" where
  "camera_set_callbacks notify_cb data_cb data_cb_timestamp get_memory user device s = forward_void (Set_callbacks notify_cb data_cb data_cb_timestamp get_memory user) device s"

definition camera_enable_msg_type :: "i32 \<Rightarrow> ptr option \<Rightarrow> cameras \<Rightarrow> (ptr \<times> vendor_call) list option" where
  "camera_enable_msg_type msg_type device s = forward_void (Enable_msg_type msg_type) device s"

definition camera_disable_msg_type :: "i32 \<Rightarrow> ptr option \<Rightarrow> cameras \<Rightarrow> (ptr \<times> vendor_call) list option" where
  "camera_disable_msg_type msg_type device s = forward_void (Disable_msg_type msg_type) device s"

definition camera_stop_preview :: "ptr option \<Rightarrow> cameras \<Rightarrow> (ptr \<times> vendor_call) list option" where
  "camera_stop_preview device s = forward_void (Stop_preview) device s"

definition camera_stop_recording :: "ptr option \<Rightarrow> cameras \<Rightarrow> (ptr \<times> vendor_call) list option" where
  "camera_stop_recording device s = forward_void (Stop_recording) device s"

definition camera_release_recording_frame :: "ptr \<Rightarrow> ptr option \<Rightarrow> cameras \<Rightarrow> (ptr \<times> vendor_call) list option" where
  "camera_release_recording_frame opaque device s = forward_void (Release_recording_frame opaque) device s"

definition camera_release :: "ptr option \<Rightarrow> cameras \<Rightarrow> (ptr \<times> vendor_call) list option" where
  "camera_release device s = forward_void (Release) device s"

text \<open>\<open>camera_take_picture\<close> hides the vendor's answer on purpose.\<close>

definition camera_take_picture :: "int \<Rightarrow> ptr option \<Rightarrow> cameras \<Rightarrow> (int \<times> (ptr \<times> vendor_call) list) option" where
  "camera_take_picture ret device s = (case device of
      None \<Rightarrow> Some (- EINVAL, [])
    | Some p \<Rightarrow> map_option (\<lambda>x. (0, [x])) (VENDOR_CALL p Take_picture s))"

section \<open>Operations through the fix-ups\<close>

text \<open>The fixed-up text is a copy that nobody frees.\<close>

definition camera_set_parameters :: "('p, 'z) camera_parameters_scheme \<Rightarrow> int \<Rightarrow> string \<Rightarrow> ptr option \<Rightarrow> cameras \<Rightarrow>
    heap_effects \<Rightarrow> (int \<times> (ptr \<times> vendor_call) list \<times> heap_effects) option" where
  "camera_set_parameters api ret params device s h = (case device of
      None \<Rightarrow> Some (- EINVAL, [], h)
    | Some p \<Rightarrow> do {
        tmp \<leftarrow> camera_fixup_setparams api params;
        x \<leftarrow> VENDOR_CALL p (Set_parameters tmp) s;
        Some (ret, [x], h\<lparr>leaked := leaked h + 1\<rparr>)
      })"

text \<open>\<open>vendor_params\<close> is the vendor's answer, \<open>None\<close> for a null pointer, which the fix-up follows.\<close>

definition camera_get_parameters :: "('p, 'z) camera_parameters_scheme \<Rightarrow> string option \<Rightarrow> ptr option \<Rightarrow> cameras \<Rightarrow>
    heap_effects \<Rightarrow> (string option \<times> (ptr \<times> vendor_call) list \<times> heap_effects) option" where
  "camera_get_parameters api vendor_params device s h = (case device of
      None \<Rightarrow> Some (None, [], h)
    | Some p \<Rightarrow> do {
        x \<leftarrow> VENDOR_CALL p Get_parameters s;
        params \<leftarrow> vendor_params;
        (tmp, h1) \<leftarrow> camera_fixup_getparams api params h;
        y \<leftarrow> VENDOR_CALL p (Put_parameters params) s;
        Some (Some tmp, [x, y], h1)
      })"

text \<open>The application gives the text back, and it is freed: \<open>blocks\<close> are the texts on loan.\<close>

definition camera_put_parameters :: "ptr option \<Rightarrow> ptr set \<Rightarrow> ptr set option" where
  "camera_put_parameters params blocks = (case params of
      None \<Rightarrow> Some blocks
    | Some b \<Rightarrow> if b \<in> blocks then Some (blocks - {b}) else None)"

section \<open>Opening and closing\<close>

definition camera_check_vendor_module :: "int \<Rightarrow> cameras \<Rightarrow> int \<times> cameras" where
  "camera_check_vendor_module rv s =
    (if camera_vendor_module s then (0, s) else (rv, s\<lparr>camera_vendor_module := (rv = 0)\<rparr>))"

definition camera_device_close :: "ptr option \<Rightarrow> cameras \<Rightarrow> (int \<times> cameras) option" where
  "camera_device_close device s = (case device of
      None \<Rightarrow> Some (- EINVAL, s)
    | Some p \<Rightarrow> (case camera_devices s p of
        Some (Some d) \<Rightarrow> Some (0, s\<lparr>camera_vendor_open := camera_vendor_open s - {camera_vendor d},
            ops_blocks := ops_blocks s - {camera_ops d}, camera_devices := (camera_devices s)(p := None)\<rparr>)
      | _ \<Rightarrow> None))"

text \<open>
  The arguments before \<open>hw_module\<close> are answers: of the hardware library, the number of cameras, of \<open>malloc\<close>
  for the device, of the vendor's \<open>open\<close>, of \<open>malloc\<close> for the operations.
\<close>

definition camera_device_open :: "int \<Rightarrow> int \<Rightarrow> ptr option \<Rightarrow> int + ptr \<Rightarrow> ptr option \<Rightarrow> ptr \<Rightarrow> string option \<Rightarrow> cameras \<Rightarrow>
    (int \<times> ptr option option) \<times> cameras" where
  "camera_device_open module_rv num_cameras malloc_ret vendor_ret ops_ret hw_module name s = (case name of
      None \<Rightarrow> ((0, None), s)
    | Some nm \<Rightarrow>
        (case camera_check_vendor_module module_rv s of (rv, s1) \<Rightarrow>
           if rv \<noteq> 0 then ((- EINVAL, None), s1)
           else let cameraid = atoi nm in
             if cameraid > num_cameras then ((- EINVAL, Some None), s1)
             else (case malloc_ret of
                 None \<Rightarrow> ((- ENOMEM, Some None), s1)
               | Some p \<Rightarrow>
                   let s2 = s1\<lparr>camera_devices := (camera_devices s1)(p \<mapsto> None)\<rparr>
                   in (case vendor_ret of
                       Inl err \<Rightarrow> ((err, Some None), s2\<lparr>camera_devices := (camera_devices s2)(p := None)\<rparr>)
                     | Inr v \<Rightarrow>
                         let s3 = s2\<lparr>camera_vendor_open := insert v (camera_vendor_open s2)\<rparr>
                         in (case ops_ret of
                             None \<Rightarrow> ((- ENOMEM, Some None), s3\<lparr>camera_devices := (camera_devices s3)(p := None)\<rparr>)
                           | Some ops \<Rightarrow> ((0, Some (Some p)),
                               s3\<lparr>ops_blocks := insert ops (ops_blocks s3), camera_devices := (camera_devices s3)
                                  (p \<mapsto> Some \<lparr>camera_module = hw_module, CAMERA_ID = cameraid, camera_vendor = v, camera_ops = ops\<rparr>)\<rparr>))))))"

definition camera_get_number_of_cameras :: "int \<Rightarrow> int \<Rightarrow> cameras \<Rightarrow> int \<times> cameras" where
  "camera_get_number_of_cameras module_rv num_cameras s =
    (case camera_check_vendor_module module_rv s of (rv, s1) \<Rightarrow> (if rv \<noteq> 0 then 0 else num_cameras, s1))"

text \<open>The vendor's answer and the information it fills in; \<open>info\<close> is what the caller's memory holds before.\<close>

definition camera_get_camera_info :: "int \<Rightarrow> (int \<Rightarrow> int \<times> 'i) \<Rightarrow> int \<Rightarrow> 'i \<Rightarrow> cameras \<Rightarrow> (int \<times> 'i) \<times> cameras" where
  "camera_get_camera_info module_rv vendor_info camera_id info s =
    (case camera_check_vendor_module module_rv s of (rv, s1) \<Rightarrow>
       (if rv \<noteq> 0 then (0, info) else vendor_info camera_id, s1))"

section \<open>The module\<close>

text \<open>The members that are null are given as such.\<close>

type_synonym camera_open = "int \<Rightarrow> int \<Rightarrow> ptr option \<Rightarrow> int + ptr \<Rightarrow> ptr option \<Rightarrow> ptr \<Rightarrow> string option \<Rightarrow> cameras \<Rightarrow>
    (int \<times> ptr option option) \<times> cameras"

record 'i camera_module_t = "camera_open hw_module_t" +
  get_number_of_cameras :: "int \<Rightarrow> int \<Rightarrow> cameras \<Rightarrow> int \<times> cameras"
  get_camera_info :: "int \<Rightarrow> (int \<Rightarrow> int \<times> 'i) \<Rightarrow> int \<Rightarrow> 'i \<Rightarrow> cameras \<Rightarrow> (int \<times> 'i) \<times> cameras"
  set_callbacks :: ptr
  get_vendor_tag_ops :: ptr
  open_legacy :: ptr
  set_torch_mode :: ptr
  init_fn :: ptr

definition camera_HAL_MODULE_INFO_SYM :: "u32 \<Rightarrow> u16 \<Rightarrow> u16 \<Rightarrow> string \<Rightarrow> 'i camera_module_t" where
  "camera_HAL_MODULE_INFO_SYM HARDWARE_MODULE_TAG CAMERA_MODULE_API_VERSION_1_0 HARDWARE_HAL_API_VERSION
     CAMERA_HARDWARE_MODULE_ID = \<lparr>
     hm_tag = HARDWARE_MODULE_TAG,
     hm_module_api_version = CAMERA_MODULE_API_VERSION_1_0,
     hm_hal_api_version = HARDWARE_HAL_API_VERSION,
     hm_id = CAMERA_HARDWARE_MODULE_ID,
     hm_name = ''Xperia Camera Wrapper'',
     hm_author = ''The CyanogenMod Project'',
     hm_open = camera_device_open,
     get_number_of_cameras = camera_get_number_of_cameras,
     get_camera_info = camera_get_camera_info,
     set_callbacks = NULL,
     get_vendor_tag_ops = NULL,
     open_legacy = NULL,
     set_torch_mode = NULL,
     init_fn = NULL\<rparr>"

end
