(* ===== verification/Camera_Params_Correct.thy ===== *)
theory Camera_Params_Correct
  imports Camera_Params
begin

text \<open>
  The camera wrapper's parameter fix-ups: the list of ISO modes against a plain definition, the scene
  mode that the application gets back, and the settings on which the code is undefined.
\<close>

section \<open>The list of ISO modes\<close>

fun split_comma :: "string \<Rightarrow> string list" where
  "split_comma [] = [[]]"
| "split_comma (c # cs) = (if c = CHR '','' then [] # split_comma cs
     else (case split_comma cs of [] \<Rightarrow> [[c]] | v # vs \<Rightarrow> (c # v) # vs))"

definition iso_values :: "string \<Rightarrow> string" where
  "iso_values modes = concat (map (\<lambda>v. ''ISO'' @ v @ '','') (split_comma modes)) @ ''auto''"

text \<open>What the loop appends to its buffer.\<close>

fun iso_tail :: "string \<Rightarrow> string" where
  "iso_tail [] = []"
| "iso_tail (c # cs) = (if c = CHR '','' then '',ISO'' else [c]) @ iso_tail cs"

lemma split_comma_not_Nil [simp]: "split_comma s \<noteq> []"
  by (cases s) (auto split: list.splits)

lemma iso_tail_split: "''ISO'' @ iso_tail s @ '',auto'' = iso_values s"
proof -
  have "iso_tail s @ '','' = hd (split_comma s) @ '','' @ concat (map (\<lambda>v. ''ISO'' @ v @ '','') (tl (split_comma s)))"
  proof (induction s)
    case (Cons c s)
    then show ?case by (cases "split_comma s") auto
  qed simp
  then show ?thesis unfolding iso_values_def by (cases "split_comma s") auto
qed

definition iso_buffer :: "string \<Rightarrow> char list" where
  "iso_buffer s = s @ replicate (255 - length s) (CHR 0x00)"

lemma cstr_iso_buffer: "CHR 0x00 \<notin> set s \<Longrightarrow> cstr (iso_buffer s) = s"
  by (simp add: iso_buffer_def cstr_def takeWhile_append takeWhile_eq_all_conv)

lemma strlen_iso_buffer:
  "CHR 0x00 \<notin> set s \<Longrightarrow> strlen_in (iso_buffer s) = (if length s < 255 then Some (length s) else None)"
  by (auto simp: strlen_in_def cstr_iso_buffer) (auto simp: iso_buffer_def)

lemma store_iso_buffer:
  "length s \<le> 255 \<Longrightarrow> store (length s) new (iso_buffer s)
     = (if length s + length new \<le> 255 then Some (iso_buffer (s @ new)) else None)"
  by (simp add: store_def iso_buffer_def)

lemma store_nul_iso_buffer:
  assumes "length s \<le> 255"
  shows "store (length s) (new @ [CHR 0x00]) (iso_buffer s)
     = (if length s + length new < 255 then Some (iso_buffer (s @ new)) else None)"
proof (cases "length s + length new < 255")
  case True
  then have "iso_buffer (s @ new @ [CHR 0x00]) = iso_buffer (s @ new)"
    by (simp add: iso_buffer_def flip: replicate_Suc)
  with True show ?thesis by (simp add: store_iso_buffer [OF assms])
qed (simp add: store_iso_buffer [OF assms])

lemma iso_loop_eq:
  assumes "CHR 0x00 \<notin> set cs" "CHR 0x00 \<notin> set s" "length s \<le> 255" "unat pos = length s"
  shows "(\<exists>pos'. iso_loop cs (iso_buffer s) pos = Some (iso_buffer (s @ iso_tail cs), pos')
             \<and> length s + length (iso_tail cs) \<le> 255)
       \<or> iso_loop cs (iso_buffer s) pos = None \<and> 254 < length s + length (iso_tail cs)"
  using assms
proof (induction cs arbitrary: s pos)
  case (Cons c cs)
  let ?new = "if c = CHR '','' then '',ISO'' else [c]"
  have n0: "CHR 0x00 \<notin> set (s @ ?new)" using Cons.prems(1,2) by auto
  have st: "iso_loop (c # cs) (iso_buffer s) pos =
     (if (if c = CHR '','' then length s + 4 < 255 else length s + 1 \<le> 255)
      then iso_loop cs (iso_buffer (s @ ?new)) (pos + of_nat (length ?new)) else None)"
    using Cons.prems(2-4) store_iso_buffer [of s "[c]"] store_nul_iso_buffer [of s "'',ISO''"]
    by (auto simp: strlen_iso_buffer)
  show ?case
  proof (cases "if c = CHR '','' then length s + 4 < 255 else length s + 1 \<le> 255")
    case True
    then have le: "length (s @ ?new) \<le> 255" by (auto split: if_splits)
    have "unat (pos + of_nat (length ?new)) = length (s @ ?new)"
      using le Cons.prems(4) by (auto simp: unat_word_ariths)
    from Cons.IH [OF _ n0 le this] Cons.prems(1) True show ?thesis
      unfolding st by (auto simp: add.assoc)
  next
    case False
    then show ?thesis unfolding st by (auto split: if_splits)
  qed
qed simp

text \<open>
  C23: The loop that builds the list of ISO modes in a buffer of 255 bytes gives, for every list of
  Sony's modes, the list that has each of them with the prefix ISO, and then \<open>auto\<close>; when that list
  and its terminator do not fit the buffer, the code writes past its end.
\<close>

theorem iso_values_equiv:
  assumes "CHR 0x00 \<notin> set modes"
  shows "fixup_iso_values modes = (if length (iso_values modes) < 255 then Some (iso_values modes) else None)"
proof -
  have tail: "CHR 0x00 \<notin> set (iso_tail modes)" using assms by (induction modes) auto
  let ?s = "''ISO'' @ iso_tail modes"
  have len: "length (iso_values modes) = length ?s + 5" unfolding iso_tail_split [symmetric] by simp
  have b: "''ISO'' @ replicate 252 (CHR 0x00) = iso_buffer ''ISO''" by (simp add: iso_buffer_def)
  from iso_loop_eq [OF assms, of "''ISO''" 3]
  consider pos where "iso_loop modes (iso_buffer ''ISO'') 3 = Some (iso_buffer ?s, pos)" "length ?s \<le> 255"
    | "iso_loop modes (iso_buffer ''ISO'') 3 = None" "254 < length ?s" by auto
  then show ?thesis
  proof cases
    case 1
    have n: "CHR 0x00 \<notin> set ?s" "CHR 0x00 \<notin> set (?s @ '',auto'')" using tail by auto
    have e: "?s @ '',auto'' = iso_values modes" using iso_tail_split [of modes] by simp
    show ?thesis
      using 1 len store_nul_iso_buffer [of ?s "'',auto''"] strlen_iso_buffer [OF n(1)] cstr_iso_buffer [OF n(2)]
      unfolding fixup_iso_values_def b e by auto
  next
    case 2
    then show ?thesis unfolding fixup_iso_values_def b using len by simp
  qed
qed

lemma iso_values_equiv_witness: "fixup_iso_values ''100,200'' = Some ''ISO100,ISO200,auto''"
proof -
  have "iso_values ''100,200'' = ''ISO100,ISO200,auto''" by code_simp
  then show ?thesis using iso_values_equiv [of "''100,200''"] by simp
qed

section \<open>The parameter class\<close>

text \<open>
  What the wrapper relies on: texts without the separators are stored and read back, an empty value
  reads as none, and what is flattened is read back the same; \<open>okp\<close> are the parameters that the
  class's operations make. The names that the class defines differ from Sony's.
\<close>

definition legal :: "string \<Rightarrow> bool" where
  "legal s \<longleftrightarrow> CHR ''='' \<notin> set s \<and> CHR '';'' \<notin> set s"

definition wrapper_keys :: "string set" where
  "wrapper_keys = {KEY_SUPPORTED_ISO_MODES, KEY_ISO_MODE, KEY_SONY_IMAGE_STABILISER_VALUES, KEY_SONY_IMAGE_STABILISER,
     KEY_SONY_VIDEO_STABILISER, KEY_SONY_VIDEO_STABILISER_VALUES, KEY_SONY_VIDEO_HDR, KEY_SONY_VIDEO_HDR_VALUES,
     KEY_SONY_ISO_AVAIL_MODES, KEY_SONY_ISO_MODE, KEY_SONY_AE_MODE_VALUES, KEY_SONY_AE_MODE, ''shutter-speed'',
     ''sony-shutter-speed'', ''video-hdr'', ''video-hdr-values''}"

definition params_laws :: "('p, 'z) camera_parameters_scheme \<Rightarrow> ('p \<Rightarrow> bool) \<Rightarrow> bool" where
  "params_laws api okp \<longleftrightarrow>
     (\<forall>s. okp (unflatten api s)) \<and> (\<forall>p k v. okp p \<longrightarrow> okp (params_set api k v p))
   \<and> (\<forall>p k v. okp p \<and> legal k \<and> legal v \<and> v \<noteq> [] \<longrightarrow> params_get api (params_set api k v p) k = Some v)
   \<and> (\<forall>p k v k'. okp p \<and> k' \<noteq> k \<longrightarrow> params_get api (params_set api k v p) k' = params_get api p k')
   \<and> (\<forall>p k. okp p \<longrightarrow> params_get api p k \<noteq> Some [])
   \<and> (\<forall>p k. okp p \<longrightarrow> params_get api (unflatten api (flatten api p)) k = params_get api p k)
   \<and> distinct [KEY_SCENE_MODE api, KEY_SUPPORTED_SCENE_MODES api, KEY_RECORDING_HINT api]
   \<and> {KEY_SCENE_MODE api, KEY_SUPPORTED_SCENE_MODES api, KEY_RECORDING_HINT api} \<inter> wrapper_keys = {}
   \<and> legal (KEY_SCENE_MODE api) \<and> legal (SCENE_MODE_AUTO api) \<and> SCENE_MODE_AUTO api \<noteq> []"

text \<open>A concrete class, with the text format \<open>key=value;\<close>.\<close>

fun pairs_text :: "(string \<times> string) list \<Rightarrow> string" where
  "pairs_text [] = []"
| "pairs_text ((k, v) # ps) = k @ ''='' @ v @ '';'' @ pairs_text ps"

function text_pairs :: "string \<Rightarrow> (string \<times> string) list" where
  "text_pairs [] = []"
| "text_pairs (c # cs) =
    (let item = takeWhile (\<lambda>x. x \<noteq> CHR '';'') (c # cs);
         rest = drop 1 (dropWhile (\<lambda>x. x \<noteq> CHR '';'') (c # cs))
     in (takeWhile (\<lambda>x. x \<noteq> CHR ''='') item, drop 1 (dropWhile (\<lambda>x. x \<noteq> CHR ''='') item)) # text_pairs rest)"
  by pat_completeness auto
termination
proof (relation "measure length", simp, goal_cases)
  case (1 c cs item rest)
  have "length (dropWhile (\<lambda>x. x \<noteq> CHR '';'') (c # cs)) \<le> length (c # cs)" by (rule length_dropWhile_le)
  with 1 show ?case by (cases "dropWhile (\<lambda>x. x \<noteq> CHR '';'') (c # cs)") (auto simp del: dropWhile.simps)
qed

lemma text_pairs_Cons: "s \<noteq> [] \<Longrightarrow> text_pairs s =
   (let item = takeWhile (\<lambda>x. x \<noteq> CHR '';'') s; rest = drop 1 (dropWhile (\<lambda>x. x \<noteq> CHR '';'') s)
    in (takeWhile (\<lambda>x. x \<noteq> CHR ''='') item, drop 1 (dropWhile (\<lambda>x. x \<noteq> CHR ''='') item)) # text_pairs rest)"
  by (cases s) (simp_all del: takeWhile.simps dropWhile.simps)

lemma text_pairs_text: "\<forall>(k, v) \<in> set ps. legal k \<and> legal v \<Longrightarrow> text_pairs (pairs_text ps) = ps"
proof (induction ps)
  case (Cons kv ps)
  obtain k v where kv: "kv = (k, v)" by fastforce
  with Cons.prems have l: "legal k" "legal v" by auto
  let ?item = "k @ CHR ''='' # v"
  have t: "takeWhile (\<lambda>x. x \<noteq> CHR '';'') (?item @ CHR '';'' # r) = ?item" for r
    using l by (subst takeWhile_append2) (auto simp: legal_def)
  have d: "dropWhile (\<lambda>x. x \<noteq> CHR '';'') (?item @ CHR '';'' # r) = CHR '';'' # r" for r
    using l by (subst dropWhile_append2) (auto simp: legal_def)
  have tk: "takeWhile (\<lambda>x. x \<noteq> CHR ''='') ?item = k"
    using l by (subst takeWhile_append2) (auto simp: legal_def)
  have dk: "dropWhile (\<lambda>x. x \<noteq> CHR ''='') ?item = CHR ''='' # v"
    using l by (subst dropWhile_append2) (auto simp: legal_def)
  have "pairs_text (kv # ps) = ?item @ CHR '';'' # pairs_text ps" by (simp add: kv)
  then have "text_pairs (pairs_text (kv # ps)) = (k, v) # text_pairs (pairs_text ps)"
    by (simp only: text_pairs_Cons append_is_Nil_conv list.distinct simp_thms not_False_eq_True t d Let_def tk dk) simp
  with Cons kv show ?case by simp
qed simp

definition pairs_get :: "(string \<times> string) list \<Rightarrow> string \<Rightarrow> string option" where
  "pairs_get p k = (case map_of p k of Some v \<Rightarrow> if v = [] then None else Some v | None \<Rightarrow> None)"

definition pairs_api :: "((string \<times> string) list) camera_parameters" where
  "pairs_api = \<lparr>params_get = pairs_get,
     params_set = (\<lambda>k v p. if legal k \<and> legal v then (k, v) # p else p),
     unflatten = (\<lambda>s. filter (\<lambda>(k, v). legal k \<and> legal v) (text_pairs s)), flatten = pairs_text,
     KEY_SUPPORTED_SCENE_MODES = ''scene-mode-values'', KEY_SCENE_MODE = ''scene-mode'',
     KEY_RECORDING_HINT = ''recording-hint'', SCENE_MODE_AUTO = ''auto'', VALUE_TRUE = ''true''\<rparr>"

definition pairs_wf :: "(string \<times> string) list \<Rightarrow> bool" where
  "pairs_wf p \<longleftrightarrow> (\<forall>(k, v) \<in> set p. legal k \<and> legal v)"

lemma pairs_laws: "params_laws pairs_api pairs_wf"
proof -
  have "\<forall>p. pairs_wf p \<longrightarrow> filter (\<lambda>(k, v). legal k \<and> legal v) (text_pairs (pairs_text p)) = p"
    by (auto simp: text_pairs_text pairs_wf_def filter_id_conv)
  moreover have "legal ''scene-mode'' \<and> legal ''auto''" by (simp add: legal_def)
  moreover have "{''scene-mode'', ''scene-mode-values'', ''recording-hint''} \<inter> wrapper_keys = {}"
    by (simp add: wrapper_keys_def sony_keys)
  ultimately show ?thesis
    unfolding params_laws_def by (auto simp: pairs_api_def pairs_get_def pairs_wf_def split: option.splits)
qed

section \<open>The wrapper on top of the class\<close>

locale camera_class =
  fixes api :: "('p, 'z) camera_parameters_scheme" and okp :: "'p \<Rightarrow> bool"
  assumes laws: "params_laws api okp"
begin

abbreviation get :: "'p \<Rightarrow> string \<Rightarrow> string option" where "get \<equiv> params_get api"

lemma ok_unflatten [simp]: "okp (unflatten api s)"
  by (rule laws [unfolded params_laws_def, THEN conjunct1, rule_format])

lemma ok_set [simp]: "okp p \<Longrightarrow> okp (params_set api k v p)"
  by (rule laws [unfolded params_laws_def, THEN conjunct2, THEN conjunct1, rule_format])

lemma get_same: "okp p \<Longrightarrow> legal k \<Longrightarrow> legal v \<Longrightarrow> v \<noteq> [] \<Longrightarrow> get (params_set api k v p) k = Some v"
  by (rule laws [unfolded params_laws_def, THEN conjunct2, THEN conjunct2, THEN conjunct1, rule_format]) simp

lemma get_other: "okp p \<Longrightarrow> k' \<noteq> k \<Longrightarrow> get (params_set api k v p) k' = get p k'"
  by (rule laws [unfolded params_laws_def, THEN conjunct2, THEN conjunct2, THEN conjunct2, THEN conjunct1, rule_format]) simp

lemma get_flattened: "okp p \<Longrightarrow> get (unflatten api (flatten api p)) k = get p k"
  by (rule laws [unfolded params_laws_def, THEN conjunct2, THEN conjunct2, THEN conjunct2, THEN conjunct2, THEN conjunct2, THEN conjunct1, rule_format])

lemma keys: "distinct [KEY_SCENE_MODE api, KEY_SUPPORTED_SCENE_MODES api, KEY_RECORDING_HINT api]"
  "{KEY_SCENE_MODE api, KEY_SUPPORTED_SCENE_MODES api, KEY_RECORDING_HINT api} \<inter> wrapper_keys = {}"
  "legal (KEY_SCENE_MODE api)" "legal (SCENE_MODE_AUTO api)" "SCENE_MODE_AUTO api \<noteq> []"
  using laws [unfolded params_laws_def, THEN conjunct2, THEN conjunct2, THEN conjunct2, THEN conjunct2, THEN conjunct2, THEN conjunct2] by simp_all

lemma class_keys: "k \<in> wrapper_keys \<Longrightarrow> KEY_SCENE_MODE api \<noteq> k \<and> k \<noteq> KEY_SCENE_MODE api
    \<and> KEY_SUPPORTED_SCENE_MODES api \<noteq> k \<and> k \<noteq> KEY_SUPPORTED_SCENE_MODES api
    \<and> KEY_RECORDING_HINT api \<noteq> k \<and> k \<noteq> KEY_RECORDING_HINT api"
  using keys(2) by blast

lemma in_wrapper_keys [simp]:
  "KEY_SUPPORTED_ISO_MODES \<in> wrapper_keys" "KEY_ISO_MODE \<in> wrapper_keys" "KEY_SONY_IMAGE_STABILISER_VALUES \<in> wrapper_keys"
  "KEY_SONY_IMAGE_STABILISER \<in> wrapper_keys" "KEY_SONY_VIDEO_STABILISER \<in> wrapper_keys"
  "KEY_SONY_VIDEO_STABILISER_VALUES \<in> wrapper_keys" "KEY_SONY_VIDEO_HDR \<in> wrapper_keys"
  "KEY_SONY_VIDEO_HDR_VALUES \<in> wrapper_keys" "KEY_SONY_ISO_AVAIL_MODES \<in> wrapper_keys" "KEY_SONY_ISO_MODE \<in> wrapper_keys"
  "KEY_SONY_AE_MODE_VALUES \<in> wrapper_keys" "KEY_SONY_AE_MODE \<in> wrapper_keys" "''shutter-speed'' \<in> wrapper_keys"
  "''sony-shutter-speed'' \<in> wrapper_keys" "''video-hdr'' \<in> wrapper_keys" "''video-hdr-values'' \<in> wrapper_keys"
  by (simp_all add: wrapper_keys_def)

lemmas in_wrapper_texts [simp] = in_wrapper_keys [unfolded sony_keys]

end

section \<open>What the fix-ups change\<close>

definition changes_only :: "string set \<Rightarrow> ('p, 'z) camera_parameters_scheme \<Rightarrow> 'p \<Rightarrow> 'p \<Rightarrow> bool" where
  "changes_only ks api p p' \<longleftrightarrow> (\<forall>k. k \<notin> ks \<longrightarrow> params_get api p' k = params_get api p k)"

lemma changes_only_refl [simp]: "changes_only ks api p p"
  by (simp add: changes_only_def)

lemma changes_only_trans: "changes_only ks api p q \<Longrightarrow> changes_only ls api q r \<Longrightarrow> changes_only (ks \<union> ls) api p r"
  by (simp add: changes_only_def)

context camera_class
begin

lemma changes_set: "okp p \<Longrightarrow> k \<in> ks \<Longrightarrow> changes_only ks api q p \<Longrightarrow> changes_only ks api q (params_set api k v p)"
  unfolding changes_only_def by (metis get_other)

lemma legal_texts [simp]: "legal ''auto''" "legal ''hdr''" "legal ''shutter-prio''" "legal ''manual''" "legal ''iso-prio''"
  "legal VALUE_SONY_ON" "legal VALUE_SONY_OFF" "legal VALUE_SONY_STILL_HDR" "legal KEY_SONY_AE_MODE" "legal KEY_SONY_IMAGE_STABILISER"
  by (simp_all add: legal_def sony_values sony_keys)

lemma values_not_Nil [simp]: "VALUE_SONY_ON \<noteq> []" "VALUE_SONY_OFF \<noteq> []" "VALUE_SONY_STILL_HDR \<noteq> []"
  by (simp_all add: sony_values)

lemma shutter_step:
  assumes "okp p" "setparams_shutter api p = Some p1"
  shows "okp p1 \<and> changes_only {KEY_SONY_AE_MODE, ''sony-shutter-speed''} api p p1
     \<and> (get p KEY_SONY_AE_MODE \<noteq> None \<longrightarrow> get p1 KEY_SONY_AE_MODE \<noteq> None)"
  using assms by (auto simp: setparams_shutter_def changes_set get_same split: option.splits if_splits)

lemma iso_step:
  assumes "okp p" "setparams_iso api p = Some p1"
  shows "okp p1 \<and> changes_only {KEY_SONY_AE_MODE, KEY_SONY_ISO_MODE} api p p1
     \<and> (get p KEY_SONY_AE_MODE \<noteq> None \<longrightarrow> get p1 KEY_SONY_AE_MODE \<noteq> None)"
proof -
  have o: "get (params_set api KEY_SONY_ISO_MODE v p) KEY_SONY_AE_MODE = get p KEY_SONY_AE_MODE" for v
    using assms(1) by (intro get_other) (simp_all add: sony_keys)
  show ?thesis
    using assms by (auto simp: setparams_iso_def changes_set get_same o split: option.splits if_splits)
qed

lemma scene_step:
  assumes "okp p"
  shows "okp (setparams_scene api p) \<and> changes_only {KEY_SCENE_MODE api, KEY_SONY_IMAGE_STABILISER} api p (setparams_scene api p)
     \<and> (\<forall>m. get p (KEY_SCENE_MODE api) = Some m \<longrightarrow>
          (if m = ''hdr'' then get (setparams_scene api p) KEY_SONY_IMAGE_STABILISER = Some VALUE_SONY_STILL_HDR
           else get (setparams_scene api p) KEY_SONY_IMAGE_STABILISER = Some VALUE_SONY_ON
              \<and> get (setparams_scene api p) (KEY_SCENE_MODE api) = Some m))"
  using assms by (auto simp: setparams_scene_def changes_set get_same get_other class_keys keys split: option.splits if_splits)

lemma video_step:
  assumes "okp p" "get p (KEY_RECORDING_HINT api) \<noteq> Some (VALUE_TRUE api)"
  shows "okp (setparams_video api p) \<and> changes_only {KEY_SONY_VIDEO_HDR} api p (setparams_video api p)"
proof -
  have "get (params_set api KEY_SONY_VIDEO_HDR v p) (KEY_RECORDING_HINT api) = get p (KEY_RECORDING_HINT api)" for v
    using assms(1) by (intro get_other) (simp_all add: class_keys)
  with assms show ?thesis
    by (auto simp: setparams_video_def Let_def changes_set split: option.splits)
qed

lemma capability_step:
  assumes "okp p" "\<forall>m. get p KEY_SONY_IMAGE_STABILISER_VALUES = Some m \<and> strstr m VALUE_SONY_STILL_HDR
       \<longrightarrow> (\<exists>sm. get p (KEY_SUPPORTED_SCENE_MODES api) = Some sm \<and> length sm < 508)"
  shows "\<exists>p1. camera_fixup_capability api p = Some p1 \<and> okp p1 \<and> changes_only {KEY_SUPPORTED_SCENE_MODES api} api p p1"
  using assms by (auto simp: camera_fixup_capability_def changes_set split: option.splits)

lemma exposure_step:
  assumes "okp p" "get p KEY_SONY_AE_MODE_VALUES \<noteq> None \<longrightarrow> get p KEY_SONY_AE_MODE \<noteq> None"
  shows "\<exists>p1 h1. fixup_exposure api p h = Some (p1, h1) \<and> okp p1 \<and> changes_only {KEY_ISO_MODE, ''shutter-speed''} api p p1"
proof -
  have "get (set_shutter api p) KEY_SONY_ISO_MODE = get p KEY_SONY_ISO_MODE"
    using assms(1) by (auto simp: set_shutter_def get_other sony_keys split: option.splits)
  moreover have "okp (set_shutter api q)" if "okp q" for q
    using that by (auto simp: set_shutter_def split: option.splits)
  moreover have "changes_only {KEY_ISO_MODE, ''shutter-speed''} api q (set_shutter api q')"
    if "okp q'" "changes_only {KEY_ISO_MODE, ''shutter-speed''} api q q'" for q q'
    using that by (auto simp: set_shutter_def changes_set split: option.splits)
  ultimately show ?thesis
    using assms by (auto simp: fixup_exposure_def iso_text_def changes_set Let_def split: option.splits)
qed

end

text \<open>What the module's parameters must have for the fix-up on the way to the application to be defined.\<close>

definition getparams_ok :: "('p, 'z) camera_parameters_scheme \<Rightarrow> 'p \<Rightarrow> bool" where
  "getparams_ok api p \<longleftrightarrow>
     (\<forall>m. params_get api p KEY_SONY_IMAGE_STABILISER_VALUES = Some m \<and> strstr m VALUE_SONY_STILL_HDR
        \<longrightarrow> (\<exists>sm. params_get api p (KEY_SUPPORTED_SCENE_MODES api) = Some sm \<and> length sm < 508))
   \<and> (\<forall>l. params_get api p KEY_SONY_ISO_AVAIL_MODES = Some l \<longrightarrow> fixup_iso_values l \<noteq> None)
   \<and> (params_get api p KEY_SONY_AE_MODE_VALUES \<noteq> None \<longrightarrow> params_get api p KEY_SONY_AE_MODE \<noteq> None)"

context camera_class
begin

lemma getparams_front:
  assumes "okp p" "getparams_ok api p"
  shows "\<exists>p'. getparams_fix api p h = fixup_exposure api p' h \<and> okp p'
     \<and> changes_only {KEY_SUPPORTED_SCENE_MODES api, KEY_SUPPORTED_ISO_MODES, KEY_SCENE_MODE api, ''video-hdr-values'', ''video-hdr''} api p p'
     \<and> get p' (KEY_SCENE_MODE api)
     = (if get p KEY_SONY_IMAGE_STABILISER = Some VALUE_SONY_STILL_HDR then Some ''hdr'' else get p (KEY_SCENE_MODE api))"
proof -
  obtain p1 where p1: "camera_fixup_capability api p = Some p1" "okp p1" "changes_only {KEY_SUPPORTED_SCENE_MODES api} api p p1"
    using capability_step [OF assms(1)] assms(2) by (auto simp: getparams_ok_def)
  have k1: "get p1 k = get p k" if "k \<noteq> KEY_SUPPORTED_SCENE_MODES api" for k
    using p1(3) that by (simp add: changes_only_def)
  obtain p2 where p2: "fixup_iso_modes api p1 = Some p2" "okp p2" "changes_only {KEY_SUPPORTED_ISO_MODES} api p1 p2"
  proof (cases "get p1 KEY_SONY_ISO_AVAIL_MODES")
    case (Some l)
    then have "get p KEY_SONY_ISO_AVAIL_MODES = Some l" using k1 by (simp add: class_keys)
    then obtain b where b: "fixup_iso_values l = Some b" using assms(2) by (auto simp: getparams_ok_def)
    show ?thesis
      by (rule that [of "params_set api KEY_SUPPORTED_ISO_MODES b p1"])
        (simp_all add: fixup_iso_modes_def Some b p1(2) changes_set)
  qed (use that [of p1] p1(2) in \<open>simp add: fixup_iso_modes_def\<close>)
  let ?p3 = "fixup_scene api p2"
  have p3: "okp ?p3" "changes_only {KEY_SCENE_MODE api} api p2 ?p3" "get ?p3 (KEY_SCENE_MODE api)
      = (if get p2 KEY_SONY_IMAGE_STABILISER = Some VALUE_SONY_STILL_HDR then Some ''hdr'' else get p2 (KEY_SCENE_MODE api))"
    using p2(2) keys by (auto simp: fixup_scene_def changes_set get_same split: option.splits)
  have v: "get (params_set api ''video-hdr-values'' vs ?p3) KEY_SONY_VIDEO_HDR = get ?p3 KEY_SONY_VIDEO_HDR" for vs
    using p3(1) by (intro get_other) (simp_all add: sony_keys)
  obtain p4 where p4: "fixup_video api ?p3 = Some p4" "okp p4" "changes_only {''video-hdr-values'', ''video-hdr''} api ?p3 p4"
    using p3(1) by (cases "get ?p3 KEY_SONY_VIDEO_HDR"; cases "get ?p3 KEY_SONY_VIDEO_HDR_VALUES")
      (auto simp: fixup_video_def v changes_set Let_def)
  have "changes_only ({KEY_SUPPORTED_SCENE_MODES api} \<union> {KEY_SUPPORTED_ISO_MODES} \<union> {KEY_SCENE_MODE api}
      \<union> {''video-hdr-values'', ''video-hdr''}) api p p4"
    by (rule changes_only_trans [OF changes_only_trans [OF changes_only_trans [OF p1(3) p2(3)] p3(2)] p4(3)])
  then have ch: "changes_only {KEY_SUPPORTED_SCENE_MODES api, KEY_SUPPORTED_ISO_MODES, KEY_SCENE_MODE api,
      ''video-hdr-values'', ''video-hdr''} api p p4" by (simp add: insert_commute Un_insert_left changes_only_def)
  have "get p4 (KEY_SCENE_MODE api) = get ?p3 (KEY_SCENE_MODE api)"
    using p4(3) by (auto simp: changes_only_def class_keys)
  moreover have "get p2 KEY_SONY_IMAGE_STABILISER = get p KEY_SONY_IMAGE_STABILISER"
    using p2(3) k1 by (auto simp: changes_only_def class_keys sony_keys)
  moreover have "get p2 (KEY_SCENE_MODE api) = get p (KEY_SCENE_MODE api)"
    using p2(3) k1 keys(1) by (auto simp: changes_only_def class_keys)
  moreover have "getparams_fix api p h = fixup_exposure api p4 h"
    using p1(1) p2(1) p4(1) by (simp add: getparams_fix_def)
  ultimately show ?thesis using p3(3) p4(2) ch by auto
qed

lemma front_keys:
  assumes "changes_only {KEY_SUPPORTED_SCENE_MODES api, KEY_SUPPORTED_ISO_MODES, KEY_SCENE_MODE api,
      ''video-hdr-values'', ''video-hdr''} api p q"
    and "k \<in> {KEY_SONY_AE_MODE, KEY_SONY_AE_MODE_VALUES, KEY_SONY_ISO_MODE}"
  shows "get q k = get p k"
  using assms by (auto simp: changes_only_def class_keys sony_keys)

lemma getparams_step:
  assumes "okp p" "getparams_ok api p"
  shows "\<exists>p' h'. getparams_fix api p h = Some (p', h') \<and> okp p' \<and> get p' (KEY_SCENE_MODE api)
     = (if get p KEY_SONY_IMAGE_STABILISER = Some VALUE_SONY_STILL_HDR then Some ''hdr'' else get p (KEY_SCENE_MODE api))"
proof -
  from getparams_front [OF assms, of h] obtain p4 where p4: "getparams_fix api p h = fixup_exposure api p4 h" "okp p4"
    "changes_only {KEY_SUPPORTED_SCENE_MODES api, KEY_SUPPORTED_ISO_MODES, KEY_SCENE_MODE api, ''video-hdr-values'', ''video-hdr''} api p p4"
    "get p4 (KEY_SCENE_MODE api)
     = (if get p KEY_SONY_IMAGE_STABILISER = Some VALUE_SONY_STILL_HDR then Some ''hdr'' else get p (KEY_SCENE_MODE api))"
    by blast
  have "get p4 KEY_SONY_AE_MODE_VALUES \<noteq> None \<longrightarrow> get p4 KEY_SONY_AE_MODE \<noteq> None"
    using assms(2) front_keys [OF p4(3)] by (simp add: getparams_ok_def)
  from exposure_step [OF p4(2) this, of h] obtain p5 h5 where p5: "fixup_exposure api p4 h = Some (p5, h5)" "okp p5"
    "changes_only {KEY_ISO_MODE, ''shutter-speed''} api p4 p5" by blast
  have "get p5 (KEY_SCENE_MODE api) = get p4 (KEY_SCENE_MODE api)"
    using p5(3) by (auto simp: changes_only_def class_keys)
  with p4(1,4) p5 show ?thesis by auto
qed

lemma exposure_overrun:
  assumes "okp p" "get p KEY_SONY_ISO_MODE = Some i" "get p KEY_SONY_AE_MODE_VALUES \<noteq> None"
    and "get p KEY_SONY_AE_MODE = Some mode" "mode \<in> {''iso-prio'', ''manual''}" "legal i"
  shows "\<exists>p' h'. fixup_exposure api p h = Some (p', h') \<and> okp p' \<and> get p' KEY_ISO_MODE = Some (''ISO'' @ i)
     \<and> overrun h' = overrun h + 1 \<and> leaked h' = leaked h + 1"
proof -
  have s: "okp (set_shutter api p)" "get (set_shutter api p) KEY_SONY_ISO_MODE = Some i"
    using assms(1,2) by (auto simp: set_shutter_def get_other sony_keys split: option.splits)
  have l: "legal (''ISO'' @ i)" "legal KEY_ISO_MODE" using assms(6) by (auto simp: legal_def sony_keys)
  have g: "get (params_set api KEY_ISO_MODE (''ISO'' @ i) q) KEY_ISO_MODE = Some (''ISO'' @ i)" if "okp q" for q
    using that l by (intro get_same) simp_all
  have o: "get (params_set api ''shutter-speed'' v q) KEY_ISO_MODE = get q KEY_ISO_MODE" if "okp q" for q v
    using that by (intro get_other) (simp_all add: sony_keys)
  from assms(5) consider "mode = ''iso-prio''" | "mode = ''manual''" by blast
  then show ?thesis
  proof cases
    case 1
    then have "fixup_exposure api p h = Some (params_set api ''shutter-speed'' ''auto'' (params_set api KEY_ISO_MODE (''ISO'' @ i) p),
        h\<lparr>leaked := leaked h + 1, overrun := overrun h + 1\<rparr>)"
      using assms(2-4) by (auto simp: fixup_exposure_def iso_text_def)
    then show ?thesis using assms(1) g [OF assms(1)] by (simp add: o)
  next
    case 2
    then have "fixup_exposure api p h = Some (params_set api KEY_ISO_MODE (''ISO'' @ i) (set_shutter api p),
        h\<lparr>leaked := leaked h + 1, overrun := overrun h + 1\<rparr>)"
      using assms(2-4) s(2) by (auto simp: fixup_exposure_def iso_text_def Let_def)
    then show ?thesis using s(1) g [OF s(1)] by simp
  qed
qed

lemma setparams_step:
  assumes "okp p" "setparams_fix api p = Some p'" "getparams_ok api p" "get p (KEY_SCENE_MODE api) = Some m"
    and "get p (KEY_RECORDING_HINT api) \<noteq> Some (VALUE_TRUE api)"
  shows "okp p' \<and> getparams_ok api p'
     \<and> (if m = ''hdr'' then get p' KEY_SONY_IMAGE_STABILISER = Some VALUE_SONY_STILL_HDR
        else get p' KEY_SONY_IMAGE_STABILISER = Some VALUE_SONY_ON \<and> get p' (KEY_SCENE_MODE api) = Some m)"
proof -
  from assms(2) obtain p1 p2 where s: "setparams_shutter api p = Some p1" "setparams_iso api p1 = Some p2"
    "p' = setparams_video api (setparams_scene api p2)" by (auto simp: setparams_fix_def bind_eq_Some)
  note a = shutter_step [OF assms(1) s(1)]
  note b = iso_step [OF a [THEN conjunct1] s(2)]
  note c = scene_step [OF b [THEN conjunct1]]
  have same: "get p2 k = get p k" if "k \<notin> {KEY_SONY_AE_MODE, ''sony-shutter-speed'', KEY_SONY_ISO_MODE}" for k
    using that a b by (simp add: changes_only_def)
  have "get (setparams_scene api p2) (KEY_RECORDING_HINT api) = get p (KEY_RECORDING_HINT api)"
    using c keys(1) same by (auto simp: changes_only_def class_keys)
  with assms(5) c video_step [of "setparams_scene api p2"]
  have d: "okp p'" "changes_only {KEY_SONY_VIDEO_HDR} api (setparams_scene api p2) p'" by (simp_all add: s(3))
  have fin: "get p' k = get p k" if "k \<notin> {KEY_SONY_AE_MODE, ''sony-shutter-speed'', KEY_SONY_ISO_MODE, KEY_SCENE_MODE api,
      KEY_SONY_IMAGE_STABILISER, KEY_SONY_VIDEO_HDR}" for k
    using that c d(2) same [of k] by (simp add: changes_only_def)
  have "get p' KEY_SONY_AE_MODE = get p2 KEY_SONY_AE_MODE"
    using c d(2) by (auto simp: changes_only_def class_keys sony_keys)
  then have ae: "get p KEY_SONY_AE_MODE \<noteq> None \<longrightarrow> get p' KEY_SONY_AE_MODE \<noteq> None" using a b by simp
  have k: "get p' KEY_SONY_AE_MODE_VALUES = get p KEY_SONY_AE_MODE_VALUES"
    "get p' KEY_SONY_IMAGE_STABILISER_VALUES = get p KEY_SONY_IMAGE_STABILISER_VALUES"
    "get p' KEY_SONY_ISO_AVAIL_MODES = get p KEY_SONY_ISO_AVAIL_MODES"
    "get p' (KEY_SUPPORTED_SCENE_MODES api) = get p (KEY_SUPPORTED_SCENE_MODES api)"
    using keys(1) by (auto intro!: fin simp: class_keys sony_keys)
  have sc: "get p2 (KEY_SCENE_MODE api) = Some m" using same assms(4) by (auto simp: class_keys)
  have "get p' KEY_SONY_IMAGE_STABILISER = get (setparams_scene api p2) KEY_SONY_IMAGE_STABILISER"
    "get p' (KEY_SCENE_MODE api) = get (setparams_scene api p2) (KEY_SCENE_MODE api)"
    using d(2) by (auto simp: changes_only_def class_keys sony_keys)
  with c sc have "if m = ''hdr'' then get p' KEY_SONY_IMAGE_STABILISER = Some VALUE_SONY_STILL_HDR
        else get p' KEY_SONY_IMAGE_STABILISER = Some VALUE_SONY_ON \<and> get p' (KEY_SCENE_MODE api) = Some m" by auto
  moreover have "getparams_ok api p'" using assms(3) ae by (simp add: getparams_ok_def k)
  ultimately show ?thesis using d(1) by blast
qed

lemma getparams_ok_flattened: "okp p \<Longrightarrow> getparams_ok api (unflatten api (flatten api p)) = getparams_ok api p"
  by (simp add: getparams_ok_def get_flattened)

end

section \<open>Properties\<close>

text \<open>
  C29: The application gets its scene mode back. When it sets one, while not recording, Sony's module
  gets HDR as its image stabiliser's HDR mode, and the settings that the module then reports are
  turned back into the scene mode that was set, for HDR and for every other mode.
\<close>

theorem scene_mode_roundtrip:
  assumes laws: "params_laws api okp" and m: "params_get api (unflatten api s) (KEY_SCENE_MODE api) = Some m"
    and hint: "params_get api (unflatten api s) (KEY_RECORDING_HINT api) \<noteq> Some (VALUE_TRUE api)"
    and ok: "getparams_ok api (unflatten api s)" and set: "camera_fixup_setparams api s = Some t"
  shows "(m = ''hdr'' \<longleftrightarrow> params_get api (unflatten api t) KEY_SONY_IMAGE_STABILISER = Some VALUE_SONY_STILL_HDR)
     \<and> (\<exists>u h'. camera_fixup_getparams api t h = Some (u, h') \<and> params_get api (unflatten api u) (KEY_SCENE_MODE api) = Some m)"
proof -
  have cc: "camera_class api okp" using laws by (rule camera_class.intro)
  note flat = camera_class.get_flattened [OF cc] and okf = camera_class.ok_unflatten [OF cc]
  from set obtain p where p: "setparams_fix api (unflatten api s) = Some p" "t = flatten api p"
    by (auto simp: camera_fixup_setparams_def)
  from camera_class.setparams_step [OF cc okf p(1) ok m hint] have q: "okp p" "getparams_ok api p"
    "if m = ''hdr'' then params_get api p KEY_SONY_IMAGE_STABILISER = Some VALUE_SONY_STILL_HDR
     else params_get api p KEY_SONY_IMAGE_STABILISER = Some VALUE_SONY_ON \<and> params_get api p (KEY_SCENE_MODE api) = Some m"
    by blast+
  have ne: "VALUE_SONY_ON \<noteq> VALUE_SONY_STILL_HDR" by (simp add: sony_values)
  have tk: "params_get api (unflatten api t) k = params_get api p k" for k unfolding p(2) by (rule flat [OF q(1)])
  have "getparams_ok api (unflatten api t)"
    unfolding p(2) camera_class.getparams_ok_flattened [OF cc q(1)] by (rule q(2))
  from camera_class.getparams_step [OF cc okf this, of h] obtain p' h' where
    "getparams_fix api (unflatten api t) h = Some (p', h')" "okp p'" "params_get api p' (KEY_SCENE_MODE api)
     = (if params_get api p KEY_SONY_IMAGE_STABILISER = Some VALUE_SONY_STILL_HDR then Some ''hdr''
        else params_get api p (KEY_SCENE_MODE api))" unfolding tk by blast
  with q(3) have "camera_fixup_getparams api t h = Some (flatten api p', h')"
    "params_get api (unflatten api (flatten api p')) (KEY_SCENE_MODE api) = Some m"
    using ne by (auto simp: camera_fixup_getparams_def flat split: if_splits)
  moreover have "m = ''hdr'' \<longleftrightarrow> params_get api p KEY_SONY_IMAGE_STABILISER = Some VALUE_SONY_STILL_HDR"
    using q(3) ne by (auto split: if_splits)
  ultimately show ?thesis unfolding tk by blast
qed

definition example_settings :: string where
  "example_settings = ''scene-mode=hdr;sony-is-values=on,on-still-hdr;scene-mode-values=auto,night;sony-iso-values=100,200;''"

lemma scene_mode_roundtrip_witness:
  "\<exists>t u h'. camera_fixup_setparams pairs_api example_settings = Some t
     \<and> camera_fixup_getparams pairs_api t \<lparr>leaked = 0, overrun = 0\<rparr> = Some (u, h')
     \<and> params_get pairs_api (unflatten pairs_api u) ''scene-mode'' = Some ''hdr''"
proof -
  let ?p = "unflatten pairs_api example_settings"
  have k: "KEY_SCENE_MODE pairs_api = ''scene-mode''" by (simp add: pairs_api_def)
  have g: "params_get pairs_api ?p (KEY_SCENE_MODE pairs_api) = Some ''hdr''"
    "params_get pairs_api ?p (KEY_RECORDING_HINT pairs_api) \<noteq> Some (VALUE_TRUE pairs_api)"
    "camera_fixup_setparams pairs_api example_settings \<noteq> None"
    "params_get pairs_api ?p (KEY_SUPPORTED_SCENE_MODES pairs_api) = Some ''auto,night''"
    "params_get pairs_api ?p KEY_SONY_ISO_AVAIL_MODES = Some ''100,200''"
    "fixup_iso_values ''100,200'' \<noteq> None" "params_get pairs_api ?p KEY_SONY_AE_MODE_VALUES = None"
    by code_simp+
  then have ok: "getparams_ok pairs_api ?p" by (simp add: getparams_ok_def)
  from g(3) obtain t where t: "camera_fixup_setparams pairs_api example_settings = Some t" by blast
  from scene_mode_roundtrip [OF pairs_laws g(1,2) ok t, of "\<lparr>leaked = 0, overrun = 0\<rparr>"] t show ?thesis
    unfolding k by blast
qed

text \<open>Where the fix-up of the application's settings follows a null pointer or reads past a text.\<close>

definition setparams_undefined :: "('p, 'z) camera_parameters_scheme \<Rightarrow> 'p \<Rightarrow> bool" where
  "setparams_undefined api p \<longleftrightarrow>
     (let g = params_get api p; speed = g ''shutter-speed'' in
       (speed = Some ''auto'' \<and> g KEY_SONY_AE_MODE_VALUES = None)
     \<or> (case g KEY_ISO_MODE of None \<Rightarrow> False
        | Some i \<Rightarrow> i \<noteq> ''auto'' \<and> length i < 3
          \<or> (case g KEY_SONY_AE_MODE_VALUES of None \<Rightarrow> False
             | Some vs \<Rightarrow> strstr vs (if i = ''auto'' then ''auto'' else ''iso-prio'') \<and> g KEY_SONY_AE_MODE = None
                 \<and> (speed = None \<or> speed = Some ''auto'' \<and> \<not> strstr vs ''auto''))))"

text \<open>
  C36: The fix-up of the application's settings is undefined in exactly three cases: an automatic
  shutter speed without Sony's list of exposure modes, an ISO value shorter than its prefix, and an
  ISO value that would change the exposure mode where none is set. In all others it gives settings.
\<close>

theorem setparams_undefined_iff:
  assumes "params_laws api okp"
  shows "camera_fixup_setparams api s = None \<longleftrightarrow> setparams_undefined api (unflatten api s)"
proof -
  have cc: "camera_class api okp" using assms by (rule camera_class.intro)
  let ?p = "unflatten api s"
  note okf = camera_class.ok_unflatten [OF cc, of s] and oks = camera_class.ok_set [OF cc]
  have same: "params_get api (params_set api KEY_SONY_AE_MODE v p) KEY_SONY_AE_MODE = Some v"
    if "okp p" "legal v" "v \<noteq> []" for p v
    using that by (intro camera_class.get_same [OF cc]) (simp_all add: camera_class.legal_texts [OF cc])
  have other: "params_get api (params_set api k v p) k' = params_get api p k'" if "okp p" "k' \<noteq> k" for p k k' v
    using that by (rule camera_class.get_other [OF cc])
  note gets = same other okf oks camera_class.legal_texts [OF cc]
  have d: "KEY_ISO_MODE \<noteq> KEY_SONY_AE_MODE" "KEY_ISO_MODE \<noteq> ''sony-shutter-speed''" "KEY_SONY_AE_MODE_VALUES \<noteq> KEY_SONY_AE_MODE"
    "KEY_SONY_AE_MODE_VALUES \<noteq> ''sony-shutter-speed''" "KEY_SONY_AE_MODE_VALUES \<noteq> KEY_SONY_ISO_MODE"
    "KEY_SONY_AE_MODE \<noteq> KEY_SONY_ISO_MODE" "KEY_SONY_AE_MODE \<noteq> ''sony-shutter-speed''"
    by (simp_all add: sony_keys)
  have iso: "setparams_iso api p = None \<longleftrightarrow> (case params_get api p KEY_ISO_MODE of None \<Rightarrow> False
        | Some i \<Rightarrow> i \<noteq> ''auto'' \<and> length i < 3
          \<or> (case params_get api p KEY_SONY_AE_MODE_VALUES of None \<Rightarrow> False
             | Some vs \<Rightarrow> strstr vs (if i = ''auto'' then ''auto'' else ''iso-prio'') \<and> params_get api p KEY_SONY_AE_MODE = None))"
    if "okp p" for p
    using that d by (auto simp: setparams_iso_def other split: option.splits)
  have "camera_fixup_setparams api s = None \<longleftrightarrow> setparams_shutter api ?p = None
      \<or> (\<exists>p1. setparams_shutter api ?p = Some p1 \<and> setparams_iso api p1 = None)"
    by (cases "setparams_shutter api ?p") (auto simp: camera_fixup_setparams_def setparams_fix_def bind_eq_None_conv)
  also have "\<dots> \<longleftrightarrow> setparams_undefined api ?p"
  proof (cases "params_get api ?p ''shutter-speed''")
    case None
    then show ?thesis by (auto simp: setparams_shutter_def setparams_undefined_def Let_def iso okf split: option.splits)
  next
    case (Some speed)
    show ?thesis
    proof (cases "speed = ''auto''")
      case True
      with Some show ?thesis using d
        by (cases "params_get api ?p KEY_SONY_AE_MODE_VALUES"; cases "params_get api ?p KEY_ISO_MODE")
          (auto simp: setparams_shutter_def setparams_undefined_def Let_def iso gets)
    next
      case False
      with Some show ?thesis using d
        by (auto simp: setparams_shutter_def setparams_undefined_def Let_def iso gets split: option.splits)
    qed
  qed
  finally show ?thesis .
qed

lemma setparams_undefined_iff_witness: "camera_fixup_setparams pairs_api ''shutter-speed=auto;'' = None"
proof -
  have "setparams_undefined pairs_api (unflatten pairs_api ''shutter-speed=auto;'')" by code_simp
  then show ?thesis using setparams_undefined_iff [OF pairs_laws] by blast
qed

text \<open>
  When Sony's module exposes by ISO priority or manually, the application gets its ISO value with
  the prefix, but the text is printed into a block that lacks the byte for the terminator, which is
  written past its end, and the block is never freed.
\<close>

theorem iso_text_overruns:
  assumes laws: "params_laws api okp" and ok: "getparams_ok api (unflatten api s)"
    and iso_mode: "params_get api (unflatten api s) KEY_SONY_ISO_MODE = Some i" "legal i"
    and modes: "params_get api (unflatten api s) KEY_SONY_AE_MODE_VALUES \<noteq> None"
    and mode: "params_get api (unflatten api s) KEY_SONY_AE_MODE = Some mode" "mode \<in> {''iso-prio'', ''manual''}"
  shows "\<exists>u h'. camera_fixup_getparams api s h = Some (u, h')
     \<and> params_get api (unflatten api u) KEY_ISO_MODE = Some (''ISO'' @ i)
     \<and> overrun h' = overrun h + 1 \<and> leaked h' = leaked h + 1"
proof -
  have cc: "camera_class api okp" using laws by (rule camera_class.intro)
  from camera_class.getparams_front [OF cc camera_class.ok_unflatten [OF cc] ok, of h] obtain p where
    p: "getparams_fix api (unflatten api s) h = fixup_exposure api p h" "okp p"
    and ch: "changes_only {KEY_SUPPORTED_SCENE_MODES api, KEY_SUPPORTED_ISO_MODES, KEY_SCENE_MODE api, ''video-hdr-values'',
       ''video-hdr''} api (unflatten api s) p" by blast
  note k = camera_class.front_keys [OF cc ch]
  have "params_get api p KEY_SONY_ISO_MODE = Some i" "params_get api p KEY_SONY_AE_MODE_VALUES \<noteq> None"
    "params_get api p KEY_SONY_AE_MODE = Some mode" using iso_mode modes mode by (simp_all add: k)
  from camera_class.exposure_overrun [OF cc p(2) this mode(2) iso_mode(2), of h]
  show ?thesis unfolding camera_fixup_getparams_def p(1)
    by (auto simp: camera_class.get_flattened [OF cc])
qed

lemma iso_text_overruns_witness:
  "\<exists>u h'. camera_fixup_getparams pairs_api ''sony-iso=400;sony-ae-mode-values=auto,iso-prio;sony-ae-mode=iso-prio;''
        \<lparr>leaked = 0, overrun = 0\<rparr> = Some (u, h') \<and> overrun h' = 1"
proof -
  let ?s = "''sony-iso=400;sony-ae-mode-values=auto,iso-prio;sony-ae-mode=iso-prio;''"
  let ?p = "unflatten pairs_api ?s"
  have g: "params_get pairs_api ?p KEY_SONY_ISO_MODE = Some ''400''" "legal ''400''"
    "params_get pairs_api ?p KEY_SONY_AE_MODE_VALUES \<noteq> None"
    "params_get pairs_api ?p KEY_SONY_AE_MODE = Some ''iso-prio''" "''iso-prio'' \<in> {''iso-prio'', ''manual''}"
    "params_get pairs_api ?p KEY_SONY_IMAGE_STABILISER_VALUES = None" "params_get pairs_api ?p KEY_SONY_ISO_AVAIL_MODES = None"
    by code_simp+
  then have ok: "getparams_ok pairs_api ?p" by (simp add: getparams_ok_def)
  from iso_text_overruns [OF pairs_laws ok g(1-5), of "\<lparr>leaked = 0, overrun = 0\<rparr>"] show ?thesis by auto
qed

interpretation pairs: camera_class pairs_api pairs_wf
  by (rule camera_class.intro) (rule pairs_laws)

end
