(* ===== verification/Camera_Correct.thy ===== *)
theory Camera_Correct
  imports Camera Camera_Params_Correct
begin

text \<open>
  Opening and closing cameras: the wrapper owns the vendor's devices like the lights do; the camera
  number that is one too large, and the vendor's device that is lost when memory runs out.
\<close>

section \<open>The wrapper owns the vendor's devices\<close>

definition cameras_live :: "cameras \<Rightarrow> ptr set" where
  "cameras_live s = dom (camera_devices s)"

definition camera_owner :: "cameras \<Rightarrow> ptr \<rightharpoonup> ptr" where
  "camera_owner s p = (case camera_devices s p of Some (Some d) \<Rightarrow> Some (camera_vendor d) | _ \<Rightarrow> None)"

definition camera_ops_owner :: "cameras \<Rightarrow> ptr \<rightharpoonup> ptr" where
  "camera_ops_owner s p = (case camera_devices s p of Some (Some d) \<Rightarrow> Some (camera_ops d) | _ \<Rightarrow> None)"

text \<open>Also the blocks of operations are owned, so a run of opens and closes leaks none of them either.\<close>

definition cameras_inv :: "cameras \<Rightarrow> bool" where
  "cameras_inv s \<longleftrightarrow> owns (camera_owner s) (camera_vendor_open s) \<and> owns (camera_ops_owner s) (ops_blocks s)
     \<and> (\<forall>p. camera_devices s p \<noteq> Some None)"

lemma dom_camera_owner: "cameras_inv s \<Longrightarrow> dom (camera_owner s) = cameras_live s \<and> dom (camera_ops_owner s) = cameras_live s"
  unfolding cameras_inv_def cameras_live_def camera_owner_def camera_ops_owner_def dom_def by (auto split: option.splits)

lemma camera_owner_upd: "camera_devices s' = (camera_devices s)(p \<mapsto> Some d) \<Longrightarrow>
    camera_owner s' = (camera_owner s)(p \<mapsto> camera_vendor d) \<and> camera_ops_owner s' = (camera_ops_owner s)(p \<mapsto> camera_ops d)"
  by (intro conjI ext) (simp_all add: camera_owner_def camera_ops_owner_def)

lemma camera_owner_del: "camera_devices s' = (camera_devices s)(p := None) \<Longrightarrow>
    camera_owner s' = (camera_owner s)(p := None) \<and> camera_ops_owner s' = (camera_ops_owner s)(p := None)"
  by (intro conjI ext) (simp_all add: camera_owner_def camera_ops_owner_def)

type_synonym camera_answers = "int \<times> int \<times> ptr option \<times> (int + ptr) \<times> ptr option \<times> ptr \<times> string option"

text \<open>Fresh memory and devices, and memory for the operations whenever the vendor's device opens.\<close>

fun camera_answers_ok :: "camera_answers \<Rightarrow> cameras \<Rightarrow> bool" where
  "camera_answers_ok (module_rv, n, malloc_ret, vendor_ret, ops_ret, m, name) s =
     ((\<forall>p. malloc_ret = Some p \<longrightarrow> camera_devices s p = None) \<and> (\<forall>v. vendor_ret = Inr v \<longrightarrow> v \<notin> camera_vendor_open s)
      \<and> (\<exists>b. ops_ret = Some b \<and> b \<notin> ops_blocks s))"

fun camera_opn :: "camera_answers \<Rightarrow> cameras \<Rightarrow> ptr option \<times> cameras" where
  "camera_opn (module_rv, n, malloc_ret, vendor_ret, ops_ret, m, name) s =
     (case camera_device_open module_rv n malloc_ret vendor_ret ops_ret m name s of ((rv, dev), s') \<Rightarrow>
        (case dev of Some d \<Rightarrow> d | None \<Rightarrow> None, s'))"

definition camera_cls :: "ptr \<Rightarrow> cameras \<Rightarrow> cameras option" where
  "camera_cls p s = map_option snd (camera_device_close (Some p) s)"

lemma check_module_same:
  "camera_check_vendor_module rv s = (r, s') \<Longrightarrow> camera_devices s' = camera_devices s
     \<and> camera_vendor_open s' = camera_vendor_open s \<and> ops_blocks s' = ops_blocks s"
  by (auto simp: camera_check_vendor_module_def split: if_splits)

lemma camera_open_cases:
  assumes "camera_device_open rv n mr vr (Some b) m name s = ((r, dev), s')"
    and fresh: "\<forall>p. mr = Some p \<longrightarrow> camera_devices s p = None"
  shows "(\<exists>p d. mr = Some p \<and> vr = Inr (camera_vendor d) \<and> camera_ops d = b \<and> dev = Some (Some p)
            \<and> camera_devices s' = (camera_devices s)(p \<mapsto> Some d) \<and> camera_vendor_open s' = insert (camera_vendor d) (camera_vendor_open s)
            \<and> ops_blocks s' = insert b (ops_blocks s))
     \<or> ((dev = None \<or> dev = Some None) \<and> camera_vendor_open s' = camera_vendor_open s \<and> ops_blocks s' = ops_blocks s
          \<and> camera_devices s' = camera_devices s)"
proof (cases name)
  case (Some nm)
  obtain r1 s1 where c: "camera_check_vendor_module rv s = (r1, s1)" by fastforce
  note d = check_module_same [OF c]
  note o = assms(1) [unfolded camera_device_open_def Some option.case c prod.case Let_def]
  show ?thesis
  proof (cases "r1 = 0 \<and> \<not> atoi nm > n \<and> (\<exists>p v. mr = Some p \<and> vr = Inr v)")
    case True
    then obtain p v where pv: "r1 = 0" "\<not> atoi nm > n" "mr = Some p" "vr = Inr v" by auto
    let ?d = "\<lparr>camera_module = m, CAMERA_ID = atoi nm, camera_vendor = v, camera_ops = b\<rparr>"
    from o have "dev = Some (Some p) \<and> camera_devices s' = (camera_devices s)(p \<mapsto> Some ?d)
       \<and> camera_vendor_open s' = insert v (camera_vendor_open s) \<and> ops_blocks s' = insert b (ops_blocks s)"
      unfolding pv using d pv(2) by auto
    with pv show ?thesis by (intro disjI1 exI [of _ p] exI [of _ ?d]) simp
  next
    case False
    show ?thesis
    proof (cases "r1 = 0 \<and> \<not> atoi nm > n")
      case rv: True
      show ?thesis
      proof (cases mr)
        case None
        with o d rv show ?thesis by simp
      next
        case (Some p)
        then obtain err where "vr = Inl err" using False rv by (cases vr) auto
        moreover have "(camera_devices s)(p := None) = camera_devices s" using fresh Some by (simp add: fun_upd_idem)
        ultimately show ?thesis using o d rv Some by auto
      qed
    qed (use o d in \<open>auto split: if_splits\<close>)
  qed
qed (use assms in \<open>simp add: camera_device_open_def\<close>)

interpretation cameras: wrapper_devices cameras_inv cameras_live camera_vendor_open camera_answers_ok camera_opn camera_cls
proof
  fix s
  assume inv: "cameras_inv s"
  then have "owns (camera_owner s) (camera_vendor_open s)" by (simp add: cameras_inv_def)
  from owns_card [OF this] ownsD(1) [OF this]
  show "finite (cameras_live s) \<and> finite (camera_vendor_open s) \<and> card (camera_vendor_open s) = card (cameras_live s)"
    by (simp add: dom_camera_owner [OF inv])
next
  fix s p
  assume inv: "cameras_inv s" and p: "p \<in> cameras_live s"
  then obtain d where d: "camera_devices s p = Some (Some d)"
    unfolding cameras_inv_def cameras_live_def dom_def by (cases "camera_devices s p"; cases "the (camera_devices s p)") auto
  let ?s = "s\<lparr>camera_vendor_open := camera_vendor_open s - {camera_vendor d},
            ops_blocks := ops_blocks s - {camera_ops d}, camera_devices := (camera_devices s)(p := None)\<rparr>"
  have own: "owns (camera_owner s) (camera_vendor_open s)" "owns (camera_ops_owner s) (ops_blocks s)"
    "camera_owner s p = Some (camera_vendor d)" "camera_ops_owner s p = Some (camera_ops d)"
    using inv d by (simp_all add: cameras_inv_def camera_owner_def camera_ops_owner_def)
  have "camera_owner ?s = (camera_owner s)(p := None)" "camera_ops_owner ?s = (camera_ops_owner s)(p := None)"
    using camera_owner_del [of ?s s p] by simp_all
  with owns_delete [OF own(1,3)] owns_delete [OF own(2,4)] inv have "cameras_inv ?s" by (simp add: cameras_inv_def)
  then show "\<exists>s'. camera_cls p s = Some s' \<and> cameras_inv s' \<and> cameras_live s' = cameras_live s - {p}"
    using d by (auto simp: camera_cls_def camera_device_close_def cameras_live_def)
next
  fix s r p s'
  assume h: "cameras_inv s" "camera_answers_ok r s" "camera_opn r s = (Some p, s')"
  obtain rv n mr vr ob m name where r: "r = (rv, n, mr, vr, ob, m, name)" by (cases r) auto
  then obtain b where b: "ob = Some b" "b \<notin> ops_blocks s" using h(2) by auto
  have fresh: "\<forall>q. mr = Some q \<longrightarrow> camera_devices s q = None" using h(2) r by simp
  from h(3) r b obtain x where "camera_device_open rv n mr vr (Some b) m name s = ((x, Some (Some p)), s')"
    by (auto split: prod.splits option.splits)
  note c = camera_open_cases [OF this fresh]
  have "\<not> (Some (Some p) = None \<or> Some (Some p) = Some (None :: ptr option))" by simp
  with c obtain p' d where "mr = Some p'" "vr = Inr (camera_vendor d)" "camera_ops d = b" "Some (Some p) = Some (Some p')"
    "camera_devices s' = (camera_devices s)(p' \<mapsto> Some d)" "camera_vendor_open s' = insert (camera_vendor d) (camera_vendor_open s)"
    "ops_blocks s' = insert b (ops_blocks s)" by blast
  then have d: "mr = Some p" "vr = Inr (camera_vendor d)" "camera_ops d = b" "camera_devices s' = (camera_devices s)(p \<mapsto> Some d)"
    "camera_vendor_open s' = insert (camera_vendor d) (camera_vendor_open s)" "ops_blocks s' = insert b (ops_blocks s)" by simp_all
  have p: "camera_devices s p = None" "camera_vendor d \<notin> camera_vendor_open s" using h(2) r d by auto
  have own: "owns (camera_owner s) (camera_vendor_open s)" "owns (camera_ops_owner s) (ops_blocks s)"
    "camera_owner s p = None" "camera_ops_owner s p = None"
    using h(1) p by (simp_all add: cameras_inv_def camera_owner_def camera_ops_owner_def)
  have "cameras_inv s'"
    using owns_insert [OF own(1,3) p(2)] owns_insert [OF own(2,4) b(2)] h(1) camera_owner_upd [OF d(4)] d(3-6)
    by (simp add: cameras_inv_def)
  with p(1) d(4) show "cameras_inv s' \<and> p \<notin> cameras_live s \<and> cameras_live s' = insert p (cameras_live s)"
    by (auto simp: cameras_live_def)
next
  fix s r s'
  assume h: "cameras_inv s" "camera_answers_ok r s" "camera_opn r s = (None, s')"
  obtain rv n mr vr ob m name where r: "r = (rv, n, mr, vr, ob, m, name)" by (cases r) auto
  then obtain b where b: "ob = Some b" using h(2) by auto
  have fresh: "\<forall>q. mr = Some q \<longrightarrow> camera_devices s q = None" using h(2) r by simp
  from h(3) r b obtain x dev where o: "camera_device_open rv n mr vr (Some b) m name s = ((x, dev), s')" "dev = None \<or> dev = Some None"
    by (auto split: prod.splits option.splits)
  have "dev \<noteq> Some (Some p)" for p using o(2) by auto
  with camera_open_cases [OF o(1) fresh] have c: "camera_vendor_open s' = camera_vendor_open s"
    "ops_blocks s' = ops_blocks s" "camera_devices s' = camera_devices s" by blast+
  then have "camera_owner s' = camera_owner s" "camera_ops_owner s' = camera_ops_owner s"
    by (simp_all add: camera_owner_def [abs_def] camera_ops_owner_def [abs_def])
  with c h(1) show "cameras_inv s' \<and> cameras_live s' = cameras_live s"
    by (simp add: cameras_inv_def cameras_live_def)
qed

section \<open>Properties\<close>

text \<open>
  C35: Cameras that are opened, with memory for their operations, and then closed in any order leave
  nothing behind: the wrapper's devices are those from before, as many devices of the vendor are open
  and as many blocks of operations are allocated as before.
\<close>

theorem cameras_opened_then_closed:
  assumes "cameras_inv s" "cameras.answers_all rs s" "cameras.open_all rs s = (ps, s1)"
    and "set qs = set ps" "distinct qs"
  shows "\<exists>s2. cameras.close_all qs s1 = Some s2 \<and> cameras_live s2 = cameras_live s
     \<and> card (camera_vendor_open s2) = card (camera_vendor_open s) \<and> card (ops_blocks s2) = card (ops_blocks s)"
proof -
  note o = cameras.open_all_live [OF assms(1-3)]
  have sub: "set qs \<subseteq> cameras_live s1" using o assms(4) by simp
  from cameras.opened_then_closed [OF assms] obtain s2 where s2: "cameras.close_all qs s1 = Some s2"
    "cameras_live s2 = cameras_live s" "card (camera_vendor_open s2) = card (camera_vendor_open s)" by blast
  with cameras.close_all_live [OF o [THEN conjunct1] assms(5) sub] have inv: "cameras_inv s2" by auto
  have blocks: "card (ops_blocks t) = card (cameras_live t)" if "cameras_inv t" for t
    using that owns_card [of "camera_ops_owner t" "ops_blocks t"] dom_camera_owner [OF that] by (simp add: cameras_inv_def)
  from blocks [OF inv] blocks [OF assms(1)] s2 show ?thesis by auto
qed

definition no_cameras :: cameras where
  "no_cameras = \<lparr>camera_vendor_module = False, camera_devices = Map.empty, ops_blocks = {}, camera_vendor_open = {}\<rparr>"

lemma no_cameras_inv: "cameras_inv no_cameras"
  by (simp add: cameras_inv_def owns_def no_cameras_def camera_owner_def [abs_def] camera_ops_owner_def [abs_def])

lemma cameras_opened_then_closed_witness:
  "\<exists>s2. cameras.close_all [10, 20] (snd (cameras.open_all
       [(0, 2, Some 10, Inr 1, Some 30, 5, Some ''0''), (0, 2, Some 20, Inr 2, Some 40, 5, Some ''1'')] no_cameras)) = Some s2
     \<and> cameras_live s2 = {}"
proof -
  let ?rs = "[(0, 2, Some 10, Inr 1, Some 30, 5, Some ''0''), (0, 2, Some 20, Inr 2, Some 40, 5, Some ''1'')] :: camera_answers list"
  obtain ps s1 where o: "cameras.open_all ?rs no_cameras = (ps, s1)" by fastforce
  have at: "atoi ''0'' = 0" "atoi ''1'' = 1" by code_simp+
  have "fst (cameras.open_all ?rs no_cameras) = [10, 20]"
    by (simp add: camera_device_open_def camera_check_vendor_module_def no_cameras_def at Let_def)
  then have ps: "ps = [10, 20]" using o by simp
  have a: "cameras.answers_all ?rs no_cameras"
    by (simp add: camera_device_open_def camera_check_vendor_module_def no_cameras_def at Let_def)
  have q: "set [10, 20] = set ps" "distinct [10, 20 :: ptr]" by (auto simp: ps)
  have s1: "snd (cameras.open_all ?rs no_cameras) = s1" unfolding o by simp
  have z: "cameras_live no_cameras = {}" by (simp add: no_cameras_def cameras_live_def)
  from cameras_opened_then_closed [OF no_cameras_inv a o q] show ?thesis unfolding s1 z by blast
qed

text \<open>
  The range check of the camera number lets one too many pass, and every negative one: with \<open>n\<close>
  cameras, numbered from 0, number \<open>n\<close> is opened at the vendor like the others.
\<close>

theorem camera_number_unchecked:
  assumes "camera_vendor_module s" "atoi name = n \<or> atoi name < 0" "0 \<le> n"
  shows "\<exists>s'. camera_device_open module_rv n (Some p) (Inr v) (Some b) m (Some name) s = ((0, Some (Some p)), s')
     \<and> map_option (map_option CAMERA_ID) (camera_devices s' p) = Some (Some (atoi name))"
  using assms by (auto simp: camera_device_open_def camera_check_vendor_module_def Let_def)

lemma camera_number_unchecked_witness:
  "\<exists>s'. camera_device_open 0 2 (Some 10) (Inr 1) (Some 30) 5 (Some ''2'') (no_cameras\<lparr>camera_vendor_module := True\<rparr>)
     = ((0, Some (Some 10)), s')"
proof -
  have at: "atoi ''2'' = 2" by code_simp
  have m: "camera_vendor_module (no_cameras\<lparr>camera_vendor_module := True\<rparr>)" by simp
  have at2: "atoi ''2'' = 2 \<or> atoi ''2'' < 0" using at by simp
  from camera_number_unchecked [OF m at2, of 0 10 1 30 5] show ?thesis by auto
qed

text \<open>
  When the memory for the operations cannot be had after the vendor's device has been opened, the
  open fails and frees the wrapper's device, but the vendor's device stays open without an owner.
\<close>

theorem camera_memory_failure_leaks:
  assumes "camera_vendor_module s" "atoi name \<le> n"
  shows "\<exists>s'. camera_device_open module_rv n (Some p) (Inr v) None m (Some name) s = ((- ENOMEM, Some None), s')
     \<and> p \<notin> cameras_live s' \<and> v \<in> camera_vendor_open s'"
  using assms by (auto simp: camera_device_open_def camera_check_vendor_module_def Let_def cameras_live_def)

lemma camera_memory_failure_leaks_witness:
  "\<exists>s'. camera_device_open 0 2 (Some 10) (Inr 1) None 5 (Some ''1'') (no_cameras\<lparr>camera_vendor_module := True\<rparr>)
     = ((- ENOMEM, Some None), s') \<and> 1 \<in> camera_vendor_open s'"
proof -
  have at: "atoi ''1'' = 1" by code_simp
  have m: "camera_vendor_module (no_cameras\<lparr>camera_vendor_module := True\<rparr>)" by simp
  have at2: "atoi ''1'' \<le> 2" using at by simp
  from camera_memory_failure_leaks [OF m at2, of 0 10 1 5] show ?thesis by auto
qed

end
