(* ===== verification/Loc_Log.thy ===== *)
theory Loc_Log
  imports Loc_Msg Msg_Q C_Lib
begin

text \<open>
  Names and times for the log (utils/loc\_log.cpp, log\_util.h, libloc\_api\_50001/loc\_eng\_log.cpp): the
  tables that give enumerators their names, the lookups, the time stamp and the levels of the log
  macros. A \<open>long\<close> is an integer, to which every value of the tables converts unchanged. What the
  other theories call with these names, the messages of the log, is not modelled.
\<close>

section \<open>Values\<close>

fun msg_q_err_code :: "msq_q_err_type \<Rightarrow> int" where
  "msg_q_err_code eMSG_Q_SUCCESS = 0"
| "msg_q_err_code eMSG_Q_FAILURE_GENERAL = -1"
| "msg_q_err_code eMSG_Q_INVALID_PARAMETER = -2"
| "msg_q_err_code eMSG_Q_INVALID_HANDLE = -3"
| "msg_q_err_code eMSG_Q_UNAVAILABLE_RESOURCE = -4"
| "msg_q_err_code eMSG_Q_INSUFFICIENT_BUFFER = -5"

fun position_mode_code :: "LocPositionMode \<Rightarrow> int" where
  "position_mode_code LOC_POSITION_MODE_STANDALONE = 0"
| "position_mode_code LOC_POSITION_MODE_MS_BASED = 1"
| "position_mode_code LOC_POSITION_MODE_MS_ASSISTED = 2"
| "position_mode_code LOC_POSITION_MODE_RESERVED_1 = 3"
| "position_mode_code LOC_POSITION_MODE_RESERVED_2 = 4"
| "position_mode_code LOC_POSITION_MODE_RESERVED_3 = 5"
| "position_mode_code LOC_POSITION_MODE_RESERVED_4 = 6"

fun server_type_code :: "LocServerType \<Rightarrow> int" where
  "server_type_code LOC_AGPS_CDMA_PDE_SERVER = 0"
| "server_type_code LOC_AGPS_CUSTOM_PDE_SERVER = 1"
| "server_type_code LOC_AGPS_MPC_SERVER = 2"
| "server_type_code LOC_AGPS_SUPL_SERVER = 3"

fun sess_status_code :: "loc_sess_status \<Rightarrow> int" where
  "sess_status_code LOC_SESS_SUCCESS = 0"
| "sess_status_code LOC_SESS_INTERMEDIATE = 1"
| "sess_status_code LOC_SESS_FAILURE = 2"

definition GPS_DELETE_EPHEMERIS :: int where "GPS_DELETE_EPHEMERIS = 0x00000001"
definition GPS_DELETE_ALMANAC :: int where "GPS_DELETE_ALMANAC = 0x00000002"
definition GPS_DELETE_POSITION :: int where "GPS_DELETE_POSITION = 0x00000004"
definition GPS_DELETE_TIME :: int where "GPS_DELETE_TIME = 0x00000008"
definition GPS_DELETE_IONO :: int where "GPS_DELETE_IONO = 0x00000010"
definition GPS_DELETE_UTC :: int where "GPS_DELETE_UTC = 0x00000020"
definition GPS_DELETE_HEALTH :: int where "GPS_DELETE_HEALTH = 0x00000040"
definition GPS_DELETE_SVDIR :: int where "GPS_DELETE_SVDIR = 0x00000080"
definition GPS_DELETE_SVSTEER :: int where "GPS_DELETE_SVSTEER = 0x00000100"
definition GPS_DELETE_SADATA :: int where "GPS_DELETE_SADATA = 0x00000200"
definition GPS_DELETE_RTI :: int where "GPS_DELETE_RTI = 0x00000400"
definition GPS_DELETE_CELLDB_INFO :: int where "GPS_DELETE_CELLDB_INFO = 0x00000800"
definition GPS_DELETE_ALMANAC_CORR :: int where "GPS_DELETE_ALMANAC_CORR = 0x00001000"
definition GPS_DELETE_FREQ_BIAS_EST :: int where "GPS_DELETE_FREQ_BIAS_EST = 0x00002000"
definition GPS_DELETE_EPHEMERIS_GLO :: int where "GPS_DELETE_EPHEMERIS_GLO = 0x00004000"
definition GPS_DELETE_ALMANAC_GLO :: int where "GPS_DELETE_ALMANAC_GLO = 0x00008000"
definition GPS_DELETE_SVDIR_GLO :: int where "GPS_DELETE_SVDIR_GLO = 0x00010000"
definition GPS_DELETE_SVSTEER_GLO :: int where "GPS_DELETE_SVSTEER_GLO = 0x00020000"
definition GPS_DELETE_ALMANAC_CORR_GLO :: int where "GPS_DELETE_ALMANAC_CORR_GLO = 0x00040000"
definition GPS_DELETE_TIME_GPS :: int where "GPS_DELETE_TIME_GPS = 0x00080000"
definition GPS_DELETE_TIME_GLO :: int where "GPS_DELETE_TIME_GLO = 0x00100000"
definition GPS_NI_TYPE_VOICE :: int where "GPS_NI_TYPE_VOICE = 1"
definition GPS_NI_TYPE_UMTS_SUPL :: int where "GPS_NI_TYPE_UMTS_SUPL = 2"
definition GPS_NI_TYPE_UMTS_CTRL_PLANE :: int where "GPS_NI_TYPE_UMTS_CTRL_PLANE = 3"
definition GPS_NI_RESPONSE_ACCEPT :: int where "GPS_NI_RESPONSE_ACCEPT = 1"
definition GPS_NI_RESPONSE_DENY :: int where "GPS_NI_RESPONSE_DENY = 2"
definition GPS_ENC_NONE :: int where "GPS_ENC_NONE = 0"
definition GPS_ENC_SUPL_GSM_DEFAULT :: int where "GPS_ENC_SUPL_GSM_DEFAULT = 1"
definition GPS_ENC_SUPL_UTF8 :: int where "GPS_ENC_SUPL_UTF8 = 2"
definition GPS_ENC_SUPL_UCS2 :: int where "GPS_ENC_SUPL_UCS2 = 3"
definition GPS_ENC_UNKNOWN :: int where "GPS_ENC_UNKNOWN = -1"
definition AGPS_APN_BEARER_INVALID :: int where "AGPS_APN_BEARER_INVALID = -1"
definition AGPS_APN_BEARER_IPV4 :: int where "AGPS_APN_BEARER_IPV4 = 0"
definition AGPS_APN_BEARER_IPV4V6 :: int where "AGPS_APN_BEARER_IPV4V6 = 2"
definition GPS_AGPS_DATA_CONNECTED :: int where "GPS_AGPS_DATA_CONNECTED = 3"
definition GPS_AGPS_DATA_CONN_DONE :: int where "GPS_AGPS_DATA_CONN_DONE = 4"
definition GPS_AGPS_DATA_CONN_FAILED :: int where "GPS_AGPS_DATA_CONN_FAILED = 5"

section \<open>Lookups\<close>

type_synonym loc_name_val_s_type = "string \<times> int"

definition UNKNOWN_STR :: string where "UNKNOWN_STR = ''UNKNOWN''"

fun loc_get_name_from_val :: "loc_name_val_s_type list \<Rightarrow> int \<Rightarrow> string" where
  "loc_get_name_from_val [] v = UNKNOWN_STR"
| "loc_get_name_from_val ((n, x) # t) v = (if x = v then n else loc_get_name_from_val t v)"

fun loc_get_name_from_mask :: "loc_name_val_s_type list \<Rightarrow> int \<Rightarrow> string" where
  "loc_get_name_from_mask [] bits = UNKNOWN_STR"
| "loc_get_name_from_mask ((n, x) # t) bits = (if and x bits \<noteq> 0 then n else loc_get_name_from_mask t bits)"

section \<open>Tables\<close>

definition loc_msg_q_status :: "loc_name_val_s_type list" where
  "loc_msg_q_status =
    [(''eMSG_Q_SUCCESS'', msg_q_err_code eMSG_Q_SUCCESS),
     (''eMSG_Q_FAILURE_GENERAL'', msg_q_err_code eMSG_Q_FAILURE_GENERAL),
     (''eMSG_Q_INVALID_PARAMETER'', msg_q_err_code eMSG_Q_INVALID_PARAMETER),
     (''eMSG_Q_INVALID_HANDLE'', msg_q_err_code eMSG_Q_INVALID_HANDLE),
     (''eMSG_Q_UNAVAILABLE_RESOURCE'', msg_q_err_code eMSG_Q_UNAVAILABLE_RESOURCE),
     (''eMSG_Q_INSUFFICIENT_BUFFER'', msg_q_err_code eMSG_Q_INSUFFICIENT_BUFFER)]"

definition gps_status_name :: "loc_name_val_s_type list" where
  "gps_status_name =
    [(''GPS_STATUS_NONE'', uint GPS_STATUS_NONE),
     (''GPS_STATUS_SESSION_BEGIN'', uint GPS_STATUS_SESSION_BEGIN),
     (''GPS_STATUS_SESSION_END'', uint GPS_STATUS_SESSION_END),
     (''GPS_STATUS_ENGINE_ON'', uint GPS_STATUS_ENGINE_ON),
     (''GPS_STATUS_ENGINE_OFF'', uint GPS_STATUS_ENGINE_OFF)]"

definition loc_eng_msgs :: "loc_name_val_s_type list" where
  "loc_eng_msgs =
    [(''LOC_ENG_MSG_QUIT'', msg_id_code LOC_ENG_MSG_QUIT),
     (''LOC_ENG_MSG_ENGINE_DOWN'', msg_id_code LOC_ENG_MSG_ENGINE_DOWN),
     (''LOC_ENG_MSG_ENGINE_UP'', msg_id_code LOC_ENG_MSG_ENGINE_UP),
     (''LOC_ENG_MSG_START_FIX'', msg_id_code LOC_ENG_MSG_START_FIX),
     (''LOC_ENG_MSG_STOP_FIX'', msg_id_code LOC_ENG_MSG_STOP_FIX),
     (''LOC_ENG_MSG_SET_POSITION_MODE'', msg_id_code LOC_ENG_MSG_SET_POSITION_MODE),
     (''LOC_ENG_MSG_SET_TIME'', msg_id_code LOC_ENG_MSG_SET_TIME),
     (''LOC_ENG_MSG_INJECT_XTRA_DATA'', msg_id_code LOC_ENG_MSG_INJECT_XTRA_DATA),
     (''LOC_ENG_MSG_INJECT_LOCATION'', msg_id_code LOC_ENG_MSG_INJECT_LOCATION),
     (''LOC_ENG_MSG_DELETE_AIDING_DATA'', msg_id_code LOC_ENG_MSG_DELETE_AIDING_DATA),
     (''LOC_ENG_MSG_SET_APN'', msg_id_code LOC_ENG_MSG_SET_APN),
     (''LOC_ENG_MSG_SET_SERVER_URL'', msg_id_code LOC_ENG_MSG_SET_SERVER_URL),
     (''LOC_ENG_MSG_SET_SERVER_IPV4'', msg_id_code LOC_ENG_MSG_SET_SERVER_IPV4),
     (''LOC_ENG_MSG_ENABLE_DATA'', msg_id_code LOC_ENG_MSG_ENABLE_DATA),
     (''LOC_ENG_MSG_SUPL_VERSION'', msg_id_code LOC_ENG_MSG_SUPL_VERSION),
     (''LOC_ENG_MSG_SET_SENSOR_CONTROL_CONFIG'', msg_id_code LOC_ENG_MSG_SET_SENSOR_CONTROL_CONFIG),
     (''LOC_ENG_MSG_SET_SENSOR_PROPERTIES'', msg_id_code LOC_ENG_MSG_SET_SENSOR_PROPERTIES),
     (''LOC_ENG_MSG_SET_SENSOR_PERF_CONTROL_CONFIG'', msg_id_code LOC_ENG_MSG_SET_SENSOR_PERF_CONTROL_CONFIG),
     (''LOC_ENG_MSG_MUTE_SESSION'', msg_id_code LOC_ENG_MSG_MUTE_SESSION),
     (''LOC_ENG_MSG_ATL_OPEN_SUCCESS'', msg_id_code LOC_ENG_MSG_ATL_OPEN_SUCCESS),
     (''LOC_ENG_MSG_ATL_CLOSED'', msg_id_code LOC_ENG_MSG_ATL_CLOSED),
     (''LOC_ENG_MSG_ATL_OPEN_FAILED'', msg_id_code LOC_ENG_MSG_ATL_OPEN_FAILED),
     (''LOC_ENG_MSG_REPORT_POSITION'', msg_id_code LOC_ENG_MSG_REPORT_POSITION),
     (''LOC_ENG_MSG_REPORT_SV'', msg_id_code LOC_ENG_MSG_REPORT_SV),
     (''LOC_ENG_MSG_REPORT_STATUS'', msg_id_code LOC_ENG_MSG_REPORT_STATUS),
     (''LOC_ENG_MSG_REPORT_NMEA'', msg_id_code LOC_ENG_MSG_REPORT_NMEA),
     (''LOC_ENG_MSG_REQUEST_ATL'', msg_id_code LOC_ENG_MSG_REQUEST_ATL),
     (''LOC_ENG_MSG_RELEASE_ATL'', msg_id_code LOC_ENG_MSG_RELEASE_ATL),
     (''LOC_ENG_MSG_REQUEST_BIT'', msg_id_code LOC_ENG_MSG_REQUEST_BIT),
     (''LOC_ENG_MSG_RELEASE_BIT'', msg_id_code LOC_ENG_MSG_RELEASE_BIT),
     (''LOC_ENG_MSG_REQUEST_WIFI'', msg_id_code LOC_ENG_MSG_REQUEST_WIFI),
     (''LOC_ENG_MSG_RELEASE_WIFI'', msg_id_code LOC_ENG_MSG_RELEASE_WIFI),
     (''LOC_ENG_MSG_REQUEST_NI'', msg_id_code LOC_ENG_MSG_REQUEST_NI),
     (''LOC_ENG_MSG_INFORM_NI_RESPONSE'', msg_id_code LOC_ENG_MSG_INFORM_NI_RESPONSE),
     (''LOC_ENG_MSG_REQUEST_XTRA_DATA'', msg_id_code LOC_ENG_MSG_REQUEST_XTRA_DATA),
     (''LOC_ENG_MSG_REQUEST_TIME'', msg_id_code LOC_ENG_MSG_REQUEST_TIME),
     (''LOC_ENG_MSG_EXT_POWER_CONFIG'', msg_id_code LOC_ENG_MSG_EXT_POWER_CONFIG),
     (''LOC_ENG_MSG_REQUEST_POSITION'', msg_id_code LOC_ENG_MSG_REQUEST_POSITION),
     (''LOC_ENG_MSG_REQUEST_PHONE_CONTEXT'', msg_id_code LOC_ENG_MSG_REQUEST_PHONE_CONTEXT),
     (''LOC_ENG_MSG_REQUEST_NETWORK_POSIITON'', msg_id_code LOC_ENG_MSG_REQUEST_NETWORK_POSIITON),
     (''ULP_MSG_UPDATE_CRITERIA'', msg_id_code ULP_MSG_UPDATE_CRITERIA),
     (''ULP_MSG_START_FIX'', msg_id_code ULP_MSG_START_FIX),
     (''ULP_MSG_STOP_FIX'', msg_id_code ULP_MSG_STOP_FIX),
     (''ULP_MSG_INJECT_PHONE_CONTEXT_SETTINGS'', msg_id_code ULP_MSG_INJECT_PHONE_CONTEXT_SETTINGS),
     (''ULP_MSG_INJECT_NETWORK_POSITION'', msg_id_code ULP_MSG_INJECT_NETWORK_POSITION),
     (''ULP_MSG_REPORT_QUIPC_POSITION'', msg_id_code ULP_MSG_REPORT_QUIPC_POSITION),
     (''ULP_MSG_REQUEST_COARSE_POSITION'', msg_id_code ULP_MSG_REQUEST_COARSE_POSITION),
     (''LOC_ENG_MSG_LPP_CONFIG'', msg_id_code LOC_ENG_MSG_LPP_CONFIG),
     (''LOC_ENG_MSG_ENGINE_LOCK'', msg_id_code LOC_ENG_MSG_ENGINE_LOCK)]"

definition loc_eng_position_modes :: "loc_name_val_s_type list" where
  "loc_eng_position_modes =
    [(''LOC_POSITION_MODE_STANDALONE'', position_mode_code LOC_POSITION_MODE_STANDALONE),
     (''LOC_POSITION_MODE_MS_BASED'', position_mode_code LOC_POSITION_MODE_MS_BASED),
     (''LOC_POSITION_MODE_MS_ASSISTED'', position_mode_code LOC_POSITION_MODE_MS_ASSISTED),
     (''LOC_POSITION_MODE_RESERVED_1'', position_mode_code LOC_POSITION_MODE_RESERVED_1),
     (''LOC_POSITION_MODE_RESERVED_2'', position_mode_code LOC_POSITION_MODE_RESERVED_2),
     (''LOC_POSITION_MODE_RESERVED_3'', position_mode_code LOC_POSITION_MODE_RESERVED_3),
     (''LOC_POSITION_MODE_RESERVED_4'', position_mode_code LOC_POSITION_MODE_RESERVED_4)]"

definition loc_eng_position_recurrences :: "loc_name_val_s_type list" where
  "loc_eng_position_recurrences =
    [(''GPS_POSITION_RECURRENCE_PERIODIC'', uint GPS_POSITION_RECURRENCE_PERIODIC),
     (''GPS_POSITION_RECURRENCE_SINGLE'', uint GPS_POSITION_RECURRENCE_SINGLE)]"

definition loc_eng_aiding_data_bits :: "loc_name_val_s_type list" where
  "loc_eng_aiding_data_bits =
    [(''GPS_DELETE_EPHEMERIS'', GPS_DELETE_EPHEMERIS),
     (''GPS_DELETE_ALMANAC'', GPS_DELETE_ALMANAC),
     (''GPS_DELETE_POSITION'', GPS_DELETE_POSITION),
     (''GPS_DELETE_TIME'', GPS_DELETE_TIME),
     (''GPS_DELETE_IONO'', GPS_DELETE_IONO),
     (''GPS_DELETE_UTC'', GPS_DELETE_UTC),
     (''GPS_DELETE_HEALTH'', GPS_DELETE_HEALTH),
     (''GPS_DELETE_SVDIR'', GPS_DELETE_SVDIR),
     (''GPS_DELETE_SVSTEER'', GPS_DELETE_SVSTEER),
     (''GPS_DELETE_SADATA'', GPS_DELETE_SADATA),
     (''GPS_DELETE_RTI'', GPS_DELETE_RTI),
     (''GPS_DELETE_CELLDB_INFO'', GPS_DELETE_CELLDB_INFO),
     (''GPS_DELETE_ALMANAC_CORR'', GPS_DELETE_ALMANAC_CORR),
     (''GPS_DELETE_FREQ_BIAS_EST'', GPS_DELETE_FREQ_BIAS_EST),
     (''GPS_DELETE_EPHEMERIS_GLO'', GPS_DELETE_EPHEMERIS_GLO),
     (''GPS_DELETE_ALMANAC_GLO'', GPS_DELETE_ALMANAC_GLO),
     (''GPS_DELETE_SVDIR_GLO'', GPS_DELETE_SVDIR_GLO),
     (''GPS_DELETE_SVSTEER_GLO'', GPS_DELETE_SVSTEER_GLO),
     (''GPS_DELETE_ALMANAC_CORR_GLO'', GPS_DELETE_ALMANAC_CORR_GLO),
     (''GPS_DELETE_TIME_GPS'', GPS_DELETE_TIME_GPS),
     (''GPS_DELETE_TIME_GLO'', GPS_DELETE_TIME_GLO)]"

definition loc_eng_agps_types :: "loc_name_val_s_type list" where
  "loc_eng_agps_types =
    [(''AGPS_TYPE_INVALID'', sint AGPS_TYPE_INVALID),
     (''AGPS_TYPE_ANY'', sint AGPS_TYPE_ANY),
     (''AGPS_TYPE_SUPL'', sint AGPS_TYPE_SUPL),
     (''AGPS_TYPE_C2K'', sint AGPS_TYPE_C2K),
     (''AGPS_TYPE_WWAN_ANY'', sint AGPS_TYPE_WWAN_ANY)]"

definition loc_eng_ni_types :: "loc_name_val_s_type list" where
  "loc_eng_ni_types =
    [(''GPS_NI_TYPE_VOICE'', GPS_NI_TYPE_VOICE),
     (''GPS_NI_TYPE_UMTS_SUPL'', GPS_NI_TYPE_UMTS_SUPL),
     (''GPS_NI_TYPE_UMTS_CTRL_PLANE'', GPS_NI_TYPE_UMTS_CTRL_PLANE)]"

definition loc_eng_ni_responses :: "loc_name_val_s_type list" where
  "loc_eng_ni_responses =
    [(''GPS_NI_RESPONSE_ACCEPT'', GPS_NI_RESPONSE_ACCEPT),
     (''GPS_NI_RESPONSE_DENY'', GPS_NI_RESPONSE_DENY),
     (''GPS_NI_RESPONSE_DENY'', GPS_NI_RESPONSE_DENY)]"

definition loc_eng_ni_encodings :: "loc_name_val_s_type list" where
  "loc_eng_ni_encodings =
    [(''GPS_ENC_NONE'', GPS_ENC_NONE),
     (''GPS_ENC_SUPL_GSM_DEFAULT'', GPS_ENC_SUPL_GSM_DEFAULT),
     (''GPS_ENC_SUPL_UTF8'', GPS_ENC_SUPL_UTF8),
     (''GPS_ENC_SUPL_UCS2'', GPS_ENC_SUPL_UCS2),
     (''GPS_ENC_UNKNOWN'', GPS_ENC_UNKNOWN)]"

definition loc_eng_agps_bears :: "loc_name_val_s_type list" where
  "loc_eng_agps_bears =
    [(''AGPS_APN_BEARER_INVALID'', AGPS_APN_BEARER_INVALID),
     (''AGPS_APN_BEARER_IPV4'', AGPS_APN_BEARER_IPV4),
     (''AGPS_APN_BEARER_IPV4'', AGPS_APN_BEARER_IPV4),
     (''AGPS_APN_BEARER_IPV4V6'', AGPS_APN_BEARER_IPV4V6)]"

definition loc_eng_server_types :: "loc_name_val_s_type list" where
  "loc_eng_server_types =
    [(''LOC_AGPS_CDMA_PDE_SERVER'', server_type_code LOC_AGPS_CDMA_PDE_SERVER),
     (''LOC_AGPS_CUSTOM_PDE_SERVER'', server_type_code LOC_AGPS_CUSTOM_PDE_SERVER),
     (''LOC_AGPS_MPC_SERVER'', server_type_code LOC_AGPS_MPC_SERVER),
     (''LOC_AGPS_SUPL_SERVER'', server_type_code LOC_AGPS_SUPL_SERVER)]"

definition loc_eng_position_sess_status_types :: "loc_name_val_s_type list" where
  "loc_eng_position_sess_status_types =
    [(''LOC_SESS_SUCCESS'', sess_status_code LOC_SESS_SUCCESS),
     (''LOC_SESS_INTERMEDIATE'', sess_status_code LOC_SESS_INTERMEDIATE),
     (''LOC_SESS_FAILURE'', sess_status_code LOC_SESS_FAILURE)]"

definition loc_eng_agps_status_names :: "loc_name_val_s_type list" where
  "loc_eng_agps_status_names =
    [(''GPS_REQUEST_AGPS_DATA_CONN'', uint GPS_REQUEST_AGPS_DATA_CONN),
     (''GPS_RELEASE_AGPS_DATA_CONN'', uint GPS_RELEASE_AGPS_DATA_CONN),
     (''GPS_AGPS_DATA_CONNECTED'', GPS_AGPS_DATA_CONNECTED),
     (''GPS_AGPS_DATA_CONN_DONE'', GPS_AGPS_DATA_CONN_DONE),
     (''GPS_AGPS_DATA_CONN_FAILED'', GPS_AGPS_DATA_CONN_FAILED)]"

definition loc_get_msg_q_status :: "int \<Rightarrow> string" where
  "loc_get_msg_q_status status = loc_get_name_from_val loc_msg_q_status status"

definition loc_get_gps_status_name :: "GpsStatusValue \<Rightarrow> string" where
  "loc_get_gps_status_name gps_status = loc_get_name_from_val gps_status_name (uint gps_status)"

definition loc_get_msg_name :: "int \<Rightarrow> string" where
  "loc_get_msg_name ident = loc_get_name_from_val loc_eng_msgs ident"

definition loc_get_position_mode_name :: "u32 \<Rightarrow> string" where
  "loc_get_position_mode_name mode = loc_get_name_from_val loc_eng_position_modes (sint mode)"

definition loc_get_position_recurrence_name :: "GpsPositionRecurrence \<Rightarrow> string" where
  "loc_get_position_recurrence_name recur = loc_get_name_from_val loc_eng_position_recurrences (sint recur)"

definition loc_get_aiding_data_mask_names :: "GpsAidingData \<Rightarrow> string option" where
  "loc_get_aiding_data_mask_names data = None"

definition loc_get_agps_type_name :: "AGpsType \<Rightarrow> string" where
  "loc_get_agps_type_name ty = loc_get_name_from_val loc_eng_agps_types (sint ty)"

definition loc_get_ni_type_name :: "u32 \<Rightarrow> string" where
  "loc_get_ni_type_name ty = loc_get_name_from_val loc_eng_ni_types (sint ty)"

definition loc_get_ni_response_name :: "GpsUserResponseType \<Rightarrow> string" where
  "loc_get_ni_response_name response = loc_get_name_from_val loc_eng_ni_responses (sint response)"

definition loc_get_ni_encoding_name :: "i32 \<Rightarrow> string" where
  "loc_get_ni_encoding_name encoding = loc_get_name_from_val loc_eng_ni_encodings (sint encoding)"

definition loc_get_agps_bear_name :: "AGpsBearerType \<Rightarrow> string" where
  "loc_get_agps_bear_name bearer = loc_get_name_from_val loc_eng_agps_bears (sint bearer)"

definition loc_get_server_type_name :: "LocServerType \<Rightarrow> string" where
  "loc_get_server_type_name ty = loc_get_name_from_val loc_eng_server_types (server_type_code ty)"

definition loc_get_position_sess_status_name :: "loc_sess_status \<Rightarrow> string" where
  "loc_get_position_sess_status_name status =
     loc_get_name_from_val loc_eng_position_sess_status_types (sess_status_code status)"

definition loc_get_agps_status_name :: "AGpsStatusValue \<Rightarrow> string" where
  "loc_get_agps_status_name status = loc_get_name_from_val loc_eng_agps_status_names (uint status)"

definition log_succ_fail_string :: "int \<Rightarrow> string" where
  "log_succ_fail_string is_succ = (if is_succ \<noteq> 0 then ''successful'' else ''failed'')"

section \<open>Times\<close>

text \<open>A number printed with a minimal width and leading zeros, and \<open>snprintf\<close> into \<open>buf_size\<close> bytes.\<close>

definition padded :: "nat \<Rightarrow> nat \<Rightarrow> string" where
  "padded w n = replicate (w - length (decimal n)) (CHR ''0'') @ decimal n"

definition snprintf :: "nat \<Rightarrow> string \<Rightarrow> string" where
  "snprintf buf_size s = take (buf_size - 1) s"

text \<open>\<open>tv_sec\<close> and \<open>tv_usec\<close> are the time of day since 1970.\<close>

definition get_timestamp :: "nat \<Rightarrow> nat \<Rightarrow> nat \<Rightarrow> string" where
  "get_timestamp tv_sec tv_usec buf_size =
    (let hh = tv_sec div 3600 mod 24; mm = (tv_sec mod 3600) div 60; ss = tv_sec mod 60
     in snprintf buf_size (padded 2 hh @ '':'' @ padded 2 mm @ '':'' @ padded 2 ss @ ''.'' @ padded 6 tv_usec))"

text \<open>\<open>hms_string\<close> is the local time as \<open>strftime\<close> prints it.\<close>

definition loc_get_time :: "string \<Rightarrow> nat \<Rightarrow> nat \<Rightarrow> string" where
  "loc_get_time hms_string tv_usec buf_size = snprintf buf_size (hms_string @ ''.'' @ padded 3 (tv_usec div 1000))"

section \<open>Levels\<close>

text \<open>
  What a log macro does at a level: it logs with Android's priority of an error, or with that of
  its own kind, or not at all.
\<close>

datatype log_macro = LOC_LOGE | LOC_LOGW | LOC_LOGI | LOC_LOGD | LOC_LOGV

datatype log_action = As_error | As_own_kind | Not_logged

fun log_threshold :: "log_macro \<Rightarrow> nat" where
  "log_threshold LOC_LOGE = 0"
| "log_threshold LOC_LOGW = 2"
| "log_threshold LOC_LOGI = 3"
| "log_threshold LOC_LOGD = 4"
| "log_threshold LOC_LOGV = 5"

definition log_at :: "nat \<Rightarrow> log_macro \<Rightarrow> log_action" where
  "log_at debug_level m = (if m = LOC_LOGE \<or> log_threshold m \<le> debug_level then As_error
     else if debug_level \<le> 0 then As_own_kind else Not_logged)"

end
