(* ===== verification/Loc_Log_Correct.thy ===== *)
theory Loc_Log_Correct
  imports Loc_Log
begin

text \<open>
  The log's names and times: a lookup is the first entry of its table, which values have no name,
  and a time stamp fits its buffer and can be read back.
\<close>

section \<open>Names\<close>

lemma lookup_map_of:
  "loc_get_name_from_val t v = (case map_of (map prod.swap t) v of None \<Rightarrow> UNKNOWN_STR | Some n \<Rightarrow> n)"
  by (induction t v rule: loc_get_name_from_val.induct) auto

definition all_msg_ids_list :: "loc_eng_msg_ids_t list" where
  "all_msg_ids_list = engine_msg_ids @ ulp_msg_ids"

lemma names_distinct: "distinct (map (\<lambda>i. loc_get_msg_name (msg_id_code i)) all_msg_ids_list)"
  by code_simp

lemma unnamed_ids: "filter (\<lambda>i. loc_get_msg_name (msg_id_code i) = UNKNOWN_STR) all_msg_ids_list = [ULP_MSG_INJECT_RAW_COMMAND]"
  by code_simp

lemma in_all_msg_ids: "i \<in> set all_msg_ids_list"
  using all_msg_ids [of i] by (simp add: all_msg_ids_list_def)

text \<open>
  In the log, different message identifiers have different names, and only
  \<open>ULP_MSG_INJECT_RAW_COMMAND\<close>, which the table lacks, is unknown.
\<close>

theorem msg_names:
  "inj (\<lambda>i. loc_get_msg_name (msg_id_code i))
   \<and> (\<forall>i. loc_get_msg_name (msg_id_code i) = UNKNOWN_STR \<longleftrightarrow> i = ULP_MSG_INJECT_RAW_COMMAND)"
proof
  show "inj (\<lambda>i. loc_get_msg_name (msg_id_code i))"
    using names_distinct in_all_msg_ids by (auto simp: distinct_map inj_def inj_on_def)
  show "\<forall>i. loc_get_msg_name (msg_id_code i) = UNKNOWN_STR \<longleftrightarrow> i = ULP_MSG_INJECT_RAW_COMMAND"
  proof
    fix i
    have "i \<in> set (filter (\<lambda>i. loc_get_msg_name (msg_id_code i) = UNKNOWN_STR) all_msg_ids_list)
        \<longleftrightarrow> loc_get_msg_name (msg_id_code i) = UNKNOWN_STR" using in_all_msg_ids by simp
    then show "loc_get_msg_name (msg_id_code i) = UNKNOWN_STR \<longleftrightarrow> i = ULP_MSG_INJECT_RAW_COMMAND"
      unfolding unnamed_ids by simp
  qed
qed

text \<open>Two tables have one of their entries twice, where another was meant, and one lacks WiFi.\<close>

lemma values_without_a_name:
  "loc_get_ni_response_name GPS_NI_RESPONSE_NORESP = UNKNOWN_STR"
  "loc_get_agps_bear_name 1 = UNKNOWN_STR"
  "loc_get_agps_type_name AGPS_TYPE_WIFI = UNKNOWN_STR"
  "loc_get_agps_type_name AGPS_TYPE_INVALID = ''AGPS_TYPE_INVALID''"
  by code_simp+

section \<open>Times\<close>

lemma length_padded: "n < 10 ^ w \<Longrightarrow> 0 < w \<Longrightarrow> length (padded w n) = w"
  using length_decimal [of n w] by (simp add: padded_def)

lemma digits_value_zeros: "digits_value 10 0 (replicate k (CHR ''0'') @ s) = digits_value 10 0 s"
  by (induction k) (simp_all add: digit_value_def)

lemma strtol_padded:
  assumes "digits_value 10 n r = n" "n < 2 ^ 31"
  shows "strtol 10 (padded w n @ r) = int n"
proof (cases "w - length (decimal n)")
  case 0
  then show ?thesis using strtol_decimal [OF assms] by (simp add: padded_def)
next
  case (Suc k)
  have "digits_value 10 0 (padded w n @ r) = n"
    using assms(1) by (simp add: padded_def digits_value_zeros digits_value_decimal)
  moreover have "padded w n @ r = CHR ''0'' # replicate k (CHR ''0'') @ decimal n @ r"
    using Suc by (simp add: padded_def)
  moreover have "int n \<le> 2 ^ 31 - 1" using assms(2) by simp
  ultimately show ?thesis by (simp add: strtol_def isspace_def Let_def del: digits_value.simps)
qed

lemma digits_stop: "digits_value 10 n [] = n" "digits_value 10 n (CHR '':'' # r) = n" "digits_value 10 n (CHR ''.'' # r) = n"
  by (simp_all add: digit_value_def)

text \<open>
  A time stamp, in a buffer of sixteen bytes or more, is fifteen characters long, so that it is
  complete and terminated, and its four numbers read back as the hour, minute, second and
  microsecond of the time of day.
\<close>

theorem timestamp_reads_back:
  assumes "tv_usec < 10 ^ 6" "16 \<le> buf_size"
  shows "let s = get_timestamp tv_sec tv_usec buf_size in length s = 15
     \<and> strtol 10 s * 3600 + strtol 10 (drop 3 s) * 60 + strtol 10 (drop 6 s) = int (tv_sec mod 86400)
     \<and> 0 \<le> strtol 10 (drop 3 s) \<and> strtol 10 (drop 3 s) < 60 \<and> 0 \<le> strtol 10 (drop 6 s) \<and> strtol 10 (drop 6 s) < 60
     \<and> strtol 10 (drop 9 s) = int tv_usec"
proof -
  define hh mm ss where "hh = tv_sec div 3600 mod 24" "mm = (tv_sec mod 3600) div 60" "ss = tv_sec mod 60"
  have b: "hh < 24" "mm < 60" "ss < 60" by (simp_all add: hh_mm_ss_def)
  let ?s = "padded 2 hh @ '':'' @ padded 2 mm @ '':'' @ padded 2 ss @ ''.'' @ padded 6 tv_usec"
  have l: "length (padded 2 hh) = 2" "length (padded 2 mm) = 2" "length (padded 2 ss) = 2" "length (padded 6 tv_usec) = 6"
    using b assms(1) by (simp_all add: length_padded)
  have s: "get_timestamp tv_sec tv_usec buf_size = ?s"
    using l assms(2) by (simp add: get_timestamp_def snprintf_def Let_def hh_mm_ss_def)
  have d: "drop 3 ?s = padded 2 mm @ '':'' @ padded 2 ss @ ''.'' @ padded 6 tv_usec"
    "drop 6 ?s = padded 2 ss @ ''.'' @ padded 6 tv_usec" "drop 9 ?s = padded 6 tv_usec"
    using l by simp_all
  have r: "strtol 10 ?s = int hh" "strtol 10 (drop 3 ?s) = int mm" "strtol 10 (drop 6 ?s) = int ss"
    "strtol 10 (drop 9 ?s) = int tv_usec"
    using b assms(1) strtol_padded [of hh _ 2] strtol_padded [of mm _ 2] strtol_padded [of ss _ 2] strtol_padded [of tv_usec "[]" 6]
    unfolding d by (simp_all add: digits_stop del: digits_value.simps)
  have "hh * 3600 + mm * 60 + ss = tv_sec mod 86400"
    using mod_mult2_eq [of tv_sec 3600 24] mult_div_mod_eq [of 60 "tv_sec mod 3600"] mod_mod_cancel [of 60 3600 tv_sec]
    unfolding hh_mm_ss_def by simp
  from this [THEN arg_cong, of int] have "int hh * 3600 + int mm * 60 + int ss = int (tv_sec mod 86400)"
    by (simp only: of_nat_add of_nat_mult of_nat_numeral)
  with r b l show ?thesis unfolding s Let_def by simp
qed

lemma timestamp_reads_back_witness:
  "let s = get_timestamp 1417046400 123 32 in length s = 15
     \<and> strtol 10 s * 3600 + strtol 10 (drop 3 s) * 60 + strtol 10 (drop 6 s) = int (1417046400 mod 86400)
     \<and> strtol 10 (drop 9 s) = int 123"
proof -
  have "(123 :: nat) < 10 ^ 6" "16 \<le> (32 :: nat)" by simp_all
  from timestamp_reads_back [OF this, of 1417046400] show ?thesis unfolding Let_def by blast
qed

section \<open>Levels\<close>

text \<open>A higher level logs more as errors; at level 0 nothing is lost, at level 1 only errors are logged.\<close>

lemma log_levels:
  "log_at 0 m \<noteq> Not_logged"
  "log_at l m = As_error \<Longrightarrow> l \<le> l' \<Longrightarrow> log_at l' m = As_error"
  "log_at 1 m \<noteq> Not_logged \<longleftrightarrow> m = LOC_LOGE"
proof -
  show "log_at 0 m \<noteq> Not_logged" by (simp add: log_at_def)
  show "log_at l m = As_error \<Longrightarrow> l \<le> l' \<Longrightarrow> log_at l' m = As_error"
    by (cases m) (auto simp: log_at_def split: if_split_asm)
  show "log_at 1 m \<noteq> Not_logged \<longleftrightarrow> m = LOC_LOGE" by (cases m) (simp_all add: log_at_def)
qed

end
