(* ===== verification/Loc_Interfaces.thy ===== *)
theory Loc_Interfaces
  imports Loc_Afw Hal_Module
begin

text \<open>
  The interfaces through which Android's framework reaches the GPS library
  (gps/libloc_api_50001/gps.h, loc.cpp, gps.c): tables of functions, handed out by the hardware
  module, its device, and by \<open>loc_get_extension\<close>. A table is a record of functions on the state of
  loc.cpp; a callback structure that a function gets is represented as in the function itself. What
  a call depends on outside its arguments (files, the modem at start-up, name resolution) is
  gathered in one record.
\<close>

section \<open>The types of the tables\<close>

record afw_env =
  dev_files :: "string \<Rightarrow> string option"
  dev_gss_open :: int
  dev_init_rets :: "nat \<Rightarrow> loc_api_adapter_err"
  dev_v02 :: "LocPosMode Adapter.library"
  dev_rpc :: "LocPosMode Adapter.library"
  dev_owner_word :: ptr
  dev_baseband :: string
  dev_libgeofence :: library
  dev_gethostbyname :: "string \<Rightarrow> u32 option"
  dev_inet_aton :: "string \<Rightarrow> u32 option"
  dev_bit_api :: bool
  dev_junk :: AGpsBearerType

text \<open>The adapter from the device's libraries, and the engine's own resolution of a host.\<close>

definition dev_adapter :: "afw_env \<Rightarrow> LocPosMode option" where
  "dev_adapter v = getLocApiAdapter default_LocPosMode (dev_v02 v) (dev_rpc v)"

definition dev_resolve :: "afw_env \<Rightarrow> string \<Rightarrow> u32 option" where
  "dev_resolve v = resolve_in_addr (dev_gethostbyname v) (dev_inet_aton v)"

type_synonym 'r afw_fn = "loc_afw \<Rightarrow> ('r \<times> loc_afw) option"

definition sizeof_ptr :: nat where [simp]: "sizeof_ptr = 4"

record AGpsInterface =
  ag_size :: nat
  ag_init :: "afw_env \<Rightarrow> bool \<Rightarrow> unit afw_fn"
  data_conn_open :: "AGpsType \<Rightarrow> string option \<Rightarrow> AGpsBearerType \<Rightarrow> int afw_fn"
  data_conn_closed :: "AGpsType \<Rightarrow> int afw_fn"
  data_conn_failed :: "AGpsType \<Rightarrow> int afw_fn"
  set_server :: "afw_env \<Rightarrow> AGpsType \<Rightarrow> string \<Rightarrow> i32 \<Rightarrow> int afw_fn"

record GpsXtraInterface =
  xtra_size :: nat
  xtra_init :: "bool \<Rightarrow> int afw_fn"
  inject_xtra_data :: "u8 list \<Rightarrow> nat \<Rightarrow> int afw_fn"

record GpsNiInterface =
  nii_size :: nat
  ni_init_fn :: "bool \<Rightarrow> unit afw_fn"
  ni_respond_fn :: "i32 \<Rightarrow> GpsUserResponseType \<Rightarrow> unit afw_fn"

text \<open>The reference locations that the RIL interface takes.\<close>

type_synonym AGpsSetIDType = u16

record AGpsRefLocationCellID =
  cell_type :: u16
  mcc :: u16
  mnc :: u16
  lac :: u16
  cid :: u32

type_synonym AGpsRefLocationMac = "u8 list"

datatype AGpsRefLocation_u = cellID AGpsRefLocationCellID | mac AGpsRefLocationMac

record AGpsRefLocation =
  ref_type :: u16
  ref_u :: AGpsRefLocation_u

record AGpsRilInterface =
  ril_size :: nat
  ril_init :: "bool \<Rightarrow> unit afw_fn"
  set_ref_location :: "AGpsRefLocation \<Rightarrow> nat \<Rightarrow> unit afw_fn"
  set_set_id :: "AGpsSetIDType \<Rightarrow> string \<Rightarrow> unit afw_fn"
  ril_ni_message :: "u8 list \<Rightarrow> nat \<Rightarrow> unit afw_fn"
  update_network_state :: "i32 \<Rightarrow> i32 \<Rightarrow> i32 \<Rightarrow> string \<Rightarrow> unit afw_fn"
  update_network_availability :: "i32 \<Rightarrow> string option \<Rightarrow> unit afw_fn"

record InjectRawCmdInterface =
  raw_size :: nat
  inject_raw_cmd :: "u8 list \<Rightarrow> nat \<Rightarrow> bool afw_fn"

record UlpNetworkInterface =
  un_size :: nat
  un_init :: "bool \<Rightarrow> int afw_fn"
  ulp_send_network_position :: "UlpNetworkPositionReport \<Rightarrow> int afw_fn"

record UlpPhoneContextInterface =
  up_size :: nat
  up_init :: "bool \<Rightarrow> int afw_fn"
  ulp_phone_context_settings_update :: "UlpPhoneContextSettings \<Rightarrow> int afw_fn"

text \<open>What \<open>loc_get_extension\<close> returns a pointer to; the geofencing table is another library's.\<close>

datatype extension =
    Xtra GpsXtraInterface
  | Agps AGpsInterface
  | Gps_ni GpsNiInterface
  | Agps_ril AGpsRilInterface
  | Raw_cmd InjectRawCmdInterface
  | Phone_context UlpPhoneContextInterface
  | Network UlpNetworkInterface
  | Geofencing ptr

record GpsInterface =
  gi_size :: nat
  gi_init :: "afw_env \<Rightarrow> GpsCallbacks option \<Rightarrow> int afw_fn"
  gi_start :: "int afw_fn"
  gi_stop :: "int afw_fn"
  gi_cleanup :: "unit afw_fn"
  inject_time :: "GpsUtcTime \<Rightarrow> 64 word \<Rightarrow> i32 \<Rightarrow> int afw_fn"
  inject_location :: "real \<Rightarrow> real \<Rightarrow> real \<Rightarrow> int afw_fn"
  delete_aiding_data :: "GpsAidingData \<Rightarrow> unit afw_fn"
  set_position_mode :: "u32 \<Rightarrow> GpsPositionRecurrence \<Rightarrow> u32 \<Rightarrow> u32 \<Rightarrow> u32 \<Rightarrow> int afw_fn"
  get_extension :: "afw_env \<Rightarrow> string \<Rightarrow> loc_afw \<Rightarrow> extension option \<times> loc_afw"
  update_criteria :: "UlpLocationCriteria \<Rightarrow> int afw_fn"

section \<open>The members that do nothing\<close>

definition loc_agps_ril_init :: "bool \<Rightarrow> unit afw_fn" where
  "loc_agps_ril_init callbacks s = Some ((), s)"

definition loc_agps_ril_set_ref_location :: "AGpsRefLocation \<Rightarrow> nat \<Rightarrow> unit afw_fn" where
  "loc_agps_ril_set_ref_location agps_reflocation sz_struct s = Some ((), s)"

definition loc_agps_ril_set_set_id :: "AGpsSetIDType \<Rightarrow> string \<Rightarrow> unit afw_fn" where
  "loc_agps_ril_set_set_id ty setid s = Some ((), s)"

definition loc_agps_ril_ni_message :: "u8 list \<Rightarrow> nat \<Rightarrow> unit afw_fn" where
  "loc_agps_ril_ni_message msg len s = Some ((), s)"

definition loc_agps_ril_update_network_state :: "i32 \<Rightarrow> i32 \<Rightarrow> i32 \<Rightarrow> string \<Rightarrow> unit afw_fn" where
  "loc_agps_ril_update_network_state is_connected ty roaming extra_info s = Some ((), s)"

section \<open>The tables\<close>

definition sLocEngAGpsInterface :: AGpsInterface where
  "sLocEngAGpsInterface = \<lparr>
     ag_size = 6 * sizeof_ptr,
     ag_init = \<lambda>v. loc_agps_init (dev_resolve v) (dev_bit_api v) (dev_junk v),
     data_conn_open = loc_agps_open,
     data_conn_closed = loc_agps_closed,
     data_conn_failed = loc_agps_open_failed,
     set_server = \<lambda>v. loc_agps_set_server (dev_resolve v)\<rparr>"

definition sLocEngXTRAInterface :: GpsXtraInterface where
  "sLocEngXTRAInterface = \<lparr>
     xtra_size = 3 * sizeof_ptr,
     xtra_init = loc_xtra_init,
     inject_xtra_data = loc_xtra_inject_data\<rparr>"

definition sLocEngNiInterface :: GpsNiInterface where
  "sLocEngNiInterface = \<lparr>
     nii_size = 3 * sizeof_ptr,
     ni_init_fn = loc_ni_init,
     ni_respond_fn = loc_ni_respond\<rparr>"

definition sLocEngAGpsRilInterface :: AGpsRilInterface where
  "sLocEngAGpsRilInterface = \<lparr>
     ril_size = 7 * sizeof_ptr,
     ril_init = loc_agps_ril_init,
     set_ref_location = loc_agps_ril_set_ref_location,
     set_set_id = loc_agps_ril_set_set_id,
     ril_ni_message = loc_agps_ril_ni_message,
     update_network_state = loc_agps_ril_update_network_state,
     update_network_availability = loc_agps_ril_update_network_availability\<rparr>"

definition sLocEngInjectRawCmdInterface :: InjectRawCmdInterface where
  "sLocEngInjectRawCmdInterface = \<lparr>
     raw_size = 2 * sizeof_ptr,
     inject_raw_cmd = loc_inject_raw_command\<rparr>"

definition sUlpNetworkInterface :: UlpNetworkInterface where
  "sUlpNetworkInterface = \<lparr>
     un_size = 3 * sizeof_ptr,
     un_init = loc_ulp_network_init,
     ulp_send_network_position = loc_ulp_send_network_position\<rparr>"

definition sLocEngUlpPhoneContextInterface :: UlpPhoneContextInterface where
  "sLocEngUlpPhoneContextInterface = \<lparr>
     up_size = 3 * sizeof_ptr,
     up_init = loc_ulp_phone_context_init,
     ulp_phone_context_settings_update = loc_ulp_phone_context_settings_update\<rparr>"

definition loc_get_extension :: "string \<Rightarrow> library \<Rightarrow> string \<Rightarrow> loc_afw \<Rightarrow> extension option \<times> loc_afw" where
  "loc_get_extension baseband libgeofence name s =
    (if name = GPS_XTRA_INTERFACE then (Some (Xtra sLocEngXTRAInterface), s)
     else if name = AGPS_INTERFACE then (Some (Agps sLocEngAGpsInterface), s)
     else if name = GPS_NI_INTERFACE then (Some (Gps_ni sLocEngNiInterface), s)
     else if name = AGPS_RIL_INTERFACE then
       (if baseband = ''csfb'' then Some (Agps_ril sLocEngAGpsRilInterface) else None, s)
     else if name = ULP_RAW_CMD_INTERFACE then (Some (Raw_cmd sLocEngInjectRawCmdInterface), s)
     else if name = ULP_PHONE_CONTEXT_INTERFACE then (Some (Phone_context sLocEngUlpPhoneContextInterface), s)
     else if name = ULP_NETWORK_INTERFACE then
       (if CAPABILITIES (gps_conf s) AND ULP_CAPABILITY \<noteq> 0 then Some (Network sUlpNetworkInterface) else None, s)
     else if name = GPS_GEOFENCING_INTERFACE then
       (if CAPABILITIES (gps_conf s) OR GPS_CAPABILITY_GEOFENCING = CAPABILITIES (gps_conf s)
        then (case get_geofence_interface libgeofence s of (p, s1) \<Rightarrow>
                (if p = NULL then None else Some (Geofencing p), s1))
        else (None, s))
     else (None, s))"

definition sLocEngInterface :: GpsInterface where
  "sLocEngInterface = \<lparr>
     gi_size = 11 * sizeof_ptr,
     gi_init = \<lambda>v. loc_init (dev_files v) (dev_gss_open v) (dev_init_rets v) (dev_adapter v) (dev_owner_word v),
     gi_start = loc_start,
     gi_stop = loc_stop,
     gi_cleanup = loc_cleanup,
     inject_time = loc_inject_time,
     inject_location = loc_inject_location,
     delete_aiding_data = loc_delete_aiding_data,
     set_position_mode = loc_set_position_mode,
     get_extension = \<lambda>v. loc_get_extension (dev_baseband v) (dev_libgeofence v),
     update_criteria = loc_update_criteria\<rparr>"

text \<open>\<open>disable\<close> is the property \<open>gps.disable\<close>.\<close>

definition gps_get_hardware_interface :: "string \<Rightarrow> GpsInterface option" where
  "gps_get_hardware_interface disable = (case disable of
      c # _ \<Rightarrow> if c = CHR ''1'' then None else Some sLocEngInterface | [] \<Rightarrow> Some sLocEngInterface)"

definition get_gps_interface ::
    "(string \<Rightarrow> real) \<Rightarrow> string option \<Rightarrow> library \<Rightarrow> loc_afw \<Rightarrow> (GpsInterface \<times> loc_afw) option" where
  "get_gps_interface atof gps_conf_file libulp s = do {
     (_, w) \<leftarrow> loc_eng_read_config atof gps_conf_file (conf_world.truncate s);
     let s1 = s\<lparr>bytes := bytes w, logger := logger w, gps_conf := gps_conf w, gpsConfigAlreadyRead := gpsConfigAlreadyRead w\<rparr>;
     Some (sLocEngInterface, if CAPABILITIES (gps_conf s1) AND ULP_CAPABILITY \<noteq> 0
           then s1\<lparr>loc_eng_ulp_inf := loc_eng_get_ulp_inf libulp (gps_conf s1)\<rparr> else s1)
   }"

section \<open>The hardware module\<close>

text \<open>
  gps.c. The tags are the hardware library's constants; a device is a block that \<open>open_gps\<close>
  allocates, with a pointer to its module. \<open>malloc_ret\<close> is not checked.
\<close>

record gps_device_t =
  dev_tag :: u32
  dev_version :: u32
  dev_module :: ptr
  dev_get_gps_interface :: "(string \<Rightarrow> real) \<Rightarrow> string option \<Rightarrow> library \<Rightarrow> loc_afw \<Rightarrow> (GpsInterface \<times> loc_afw) option"

definition gps__get_gps_interface ::
    "(string \<Rightarrow> real) \<Rightarrow> string option \<Rightarrow> library \<Rightarrow> loc_afw \<Rightarrow> (GpsInterface \<times> loc_afw) option" where
  "gps__get_gps_interface atof gps_conf_file libulp s = get_gps_interface atof gps_conf_file libulp s"

definition open_gps :: "u32 \<Rightarrow> ptr option \<Rightarrow> ptr \<Rightarrow> string \<Rightarrow> (ptr \<rightharpoonup> gps_device_t) \<Rightarrow>
    (int \<times> ptr \<times> (ptr \<rightharpoonup> gps_device_t)) option" where
  "open_gps HARDWARE_DEVICE_TAG malloc_ret hw_module name h = (case malloc_ret of
      None \<Rightarrow> None
    | Some dev \<Rightarrow> Some (0, dev, h(dev \<mapsto> \<lparr>dev_tag = HARDWARE_DEVICE_TAG, dev_version = 0, dev_module = hw_module,
        dev_get_gps_interface = gps__get_gps_interface\<rparr>)))"

type_synonym gps_open = "ptr option \<Rightarrow> ptr \<Rightarrow> string \<Rightarrow> (ptr \<rightharpoonup> gps_device_t) \<Rightarrow> (int \<times> ptr \<times> (ptr \<rightharpoonup> gps_device_t)) option"

definition GPS_HARDWARE_MODULE_ID :: string where "GPS_HARDWARE_MODULE_ID = ''gps''"

definition HAL_MODULE_INFO_SYM :: "u32 \<Rightarrow> u32 \<Rightarrow> gps_open hw_module_t" where
  "HAL_MODULE_INFO_SYM HARDWARE_MODULE_TAG HARDWARE_DEVICE_TAG = \<lparr>
     hm_tag = HARDWARE_MODULE_TAG,
     hm_module_api_version = 1,
     hm_hal_api_version = 0,
     hm_id = GPS_HARDWARE_MODULE_ID,
     hm_name = ''loc_api GPS Module'',
     hm_author = ''Qualcomm USA, Inc.'',
     hm_open = open_gps HARDWARE_DEVICE_TAG\<rparr>"

end
