(* ===== verification/Loc_System.thy ===== *)
theory Loc_System
  imports Loc_Interfaces
begin

text \<open>
  The GPS library as a whole: the framework's calls, which go through the tables of Loc\_Interfaces,
  the modem's reports, which go through the adapter (LocApiAdapter.cpp) to one of the two queues, the
  messages of the daemon server, the turns of the deferred thread, and the steps of the threads of
  network-initiated requests, in any order. A call, a report, a turn, and a critical section of a
  request's thread is one event.
\<close>

section \<open>Calls of the framework\<close>

datatype afw_call =
    Call_init "GpsCallbacks option"
  | Call_start
  | Call_stop
  | Call_cleanup
  | Call_inject_time GpsUtcTime "64 word" i32
  | Call_inject_location real real real
  | Call_delete_aiding_data GpsAidingData
  | Call_set_position_mode u32 GpsPositionRecurrence u32 u32 u32
  | Call_update_criteria UlpLocationCriteria
  | Call_agps_init bool
  | Call_data_conn_open AGpsType "string option" AGpsBearerType
  | Call_data_conn_closed AGpsType
  | Call_data_conn_failed AGpsType
  | Call_set_server AGpsType string i32
  | Call_xtra_init bool
  | Call_inject_xtra_data "u8 list" nat
  | Call_ni_init bool
  | Call_ni_respond i32 GpsUserResponseType
  | Call_ril_init bool
  | Call_set_ref_location AGpsRefLocation nat
  | Call_set_set_id AGpsSetIDType string
  | Call_ril_ni_message "u8 list" nat
  | Call_update_network_state i32 i32 i32 string
  | Call_update_network_availability i32 "string option"
  | Call_inject_raw_cmd "u8 list" nat
  | Call_network_init bool
  | Call_network_position UlpNetworkPositionReport
  | Call_phone_context_init bool
  | Call_phone_context_update UlpPhoneContextSettings

text \<open>A call through an extension's table; without the extension the framework does nothing.\<close>

definition via_agps :: "afw_env \<Rightarrow> (AGpsInterface \<Rightarrow> 'r afw_fn) \<Rightarrow> loc_afw \<Rightarrow> loc_afw option" where
  "via_agps v f s = (case get_extension sLocEngInterface v AGPS_INTERFACE s of
      (Some (Agps t), s1) \<Rightarrow> map_option snd (f t s1) | (_, s1) \<Rightarrow> Some s1)"

definition via_xtra :: "afw_env \<Rightarrow> (GpsXtraInterface \<Rightarrow> 'r afw_fn) \<Rightarrow> loc_afw \<Rightarrow> loc_afw option" where
  "via_xtra v f s = (case get_extension sLocEngInterface v GPS_XTRA_INTERFACE s of
      (Some (Xtra t), s1) \<Rightarrow> map_option snd (f t s1) | (_, s1) \<Rightarrow> Some s1)"

definition via_ni :: "afw_env \<Rightarrow> (GpsNiInterface \<Rightarrow> 'r afw_fn) \<Rightarrow> loc_afw \<Rightarrow> loc_afw option" where
  "via_ni v f s = (case get_extension sLocEngInterface v GPS_NI_INTERFACE s of
      (Some (Gps_ni t), s1) \<Rightarrow> map_option snd (f t s1) | (_, s1) \<Rightarrow> Some s1)"

definition via_ril :: "afw_env \<Rightarrow> (AGpsRilInterface \<Rightarrow> 'r afw_fn) \<Rightarrow> loc_afw \<Rightarrow> loc_afw option" where
  "via_ril v f s = (case get_extension sLocEngInterface v AGPS_RIL_INTERFACE s of
      (Some (Agps_ril t), s1) \<Rightarrow> map_option snd (f t s1) | (_, s1) \<Rightarrow> Some s1)"

definition via_raw :: "afw_env \<Rightarrow> (InjectRawCmdInterface \<Rightarrow> 'r afw_fn) \<Rightarrow> loc_afw \<Rightarrow> loc_afw option" where
  "via_raw v f s = (case get_extension sLocEngInterface v ULP_RAW_CMD_INTERFACE s of
      (Some (Raw_cmd t), s1) \<Rightarrow> map_option snd (f t s1) | (_, s1) \<Rightarrow> Some s1)"

definition via_network :: "afw_env \<Rightarrow> (UlpNetworkInterface \<Rightarrow> 'r afw_fn) \<Rightarrow> loc_afw \<Rightarrow> loc_afw option" where
  "via_network v f s = (case get_extension sLocEngInterface v ULP_NETWORK_INTERFACE s of
      (Some (Network t), s1) \<Rightarrow> map_option snd (f t s1) | (_, s1) \<Rightarrow> Some s1)"

definition via_phone :: "afw_env \<Rightarrow> (UlpPhoneContextInterface \<Rightarrow> 'r afw_fn) \<Rightarrow> loc_afw \<Rightarrow> loc_afw option" where
  "via_phone v f s = (case get_extension sLocEngInterface v ULP_PHONE_CONTEXT_INTERFACE s of
      (Some (Phone_context t), s1) \<Rightarrow> map_option snd (f t s1) | (_, s1) \<Rightarrow> Some s1)"

fun call_afw :: "afw_env \<Rightarrow> afw_call \<Rightarrow> loc_afw \<Rightarrow> loc_afw option" where
  "call_afw v (Call_init cb) s = map_option snd (gi_init sLocEngInterface v cb s)"
| "call_afw v Call_start s = map_option snd (gi_start sLocEngInterface s)"
| "call_afw v Call_stop s = map_option snd (gi_stop sLocEngInterface s)"
| "call_afw v Call_cleanup s = map_option snd (gi_cleanup sLocEngInterface s)"
| "call_afw v (Call_inject_time t r u) s = map_option snd (inject_time sLocEngInterface t r u s)"
| "call_afw v (Call_inject_location la lo ac) s = map_option snd (inject_location sLocEngInterface la lo ac s)"
| "call_afw v (Call_delete_aiding_data f) s = map_option snd (delete_aiding_data sLocEngInterface f s)"
| "call_afw v (Call_set_position_mode m r i a t) s = map_option snd (set_position_mode sLocEngInterface m r i a t s)"
| "call_afw v (Call_update_criteria c) s = map_option snd (update_criteria sLocEngInterface c s)"
| "call_afw v (Call_agps_init cb) s = via_agps v (\<lambda>t. ag_init t v cb) s"
| "call_afw v (Call_data_conn_open ty apn b) s = via_agps v (\<lambda>t. data_conn_open t ty apn b) s"
| "call_afw v (Call_data_conn_closed ty) s = via_agps v (\<lambda>t. data_conn_closed t ty) s"
| "call_afw v (Call_data_conn_failed ty) s = via_agps v (\<lambda>t. data_conn_failed t ty) s"
| "call_afw v (Call_set_server ty host port) s = via_agps v (\<lambda>t. set_server t v ty host port) s"
| "call_afw v (Call_xtra_init cb) s = via_xtra v (\<lambda>t. xtra_init t cb) s"
| "call_afw v (Call_inject_xtra_data d n) s = via_xtra v (\<lambda>t. inject_xtra_data t d n) s"
| "call_afw v (Call_ni_init cb) s = via_ni v (\<lambda>t. ni_init_fn t cb) s"
| "call_afw v (Call_ni_respond i r) s = via_ni v (\<lambda>t. ni_respond_fn t i r) s"
| "call_afw v (Call_ril_init cb) s = via_ril v (\<lambda>t. ril_init t cb) s"
| "call_afw v (Call_set_ref_location l n) s = via_ril v (\<lambda>t. set_ref_location t l n) s"
| "call_afw v (Call_set_set_id ty x) s = via_ril v (\<lambda>t. set_set_id t ty x) s"
| "call_afw v (Call_ril_ni_message d n) s = via_ril v (\<lambda>t. ril_ni_message t d n) s"
| "call_afw v (Call_update_network_state c ty r x) s = via_ril v (\<lambda>t. update_network_state t c ty r x) s"
| "call_afw v (Call_update_network_availability a apn) s = via_ril v (\<lambda>t. update_network_availability t a apn) s"
| "call_afw v (Call_inject_raw_cmd d n) s = via_raw v (\<lambda>t. inject_raw_cmd t d n) s"
| "call_afw v (Call_network_init cb) s = via_network v (\<lambda>t. un_init t cb) s"
| "call_afw v (Call_network_position r) s = via_network v (\<lambda>t. ulp_send_network_position t r) s"
| "call_afw v (Call_phone_context_init cb) s = via_phone v (\<lambda>t. up_init t cb) s"
| "call_afw v (Call_phone_context_update x) s = via_phone v (\<lambda>t. ulp_phone_context_settings_update t x) s"

section \<open>Reports of the modem\<close>

datatype modem_report =
    Report_position GpsLocation ptr loc_sess_status
  | Report_sv GpsSvStatus ptr
  | Report_status GpsStatusValue
  | Report_nmea "u8 list" nat
  | Request_atl i32 AGpsType
  | Release_atl i32
  | Request_xtra
  | Request_time
  | Request_location
  | Request_ni GpsNiNotification ptr
  | Engine_down
  | Engine_up

fun modem_route :: "LocEng \<Rightarrow> modem_report \<Rightarrow> route option" where
  "modem_route h (Report_position l x st) = Some (reportPosition h l x st)"
| "modem_route h (Report_sv sv x) = Some (reportSv h sv x)"
| "modem_route h (Report_status st) = Some (reportStatus st)"
| "modem_route h (Report_nmea d n) = reportNmea d n"
| "modem_route h (Request_atl c ty) = Some (requestATL c ty)"
| "modem_route h (Release_atl c) = Some (releaseATL c)"
| "modem_route h Request_xtra = Some requestXtraData"
| "modem_route h Request_time = Some requestTime"
| "modem_route h Request_location = Some requestLocation"
| "modem_route h (Request_ni n p) = Some (requestNiNotify n p)"
| "modem_route h Engine_down = Some handleEngineDownEvent"
| "modem_route h Engine_up = Some handleEngineUpEvent"

text \<open>The senders in the adapter's \<open>LocEng\<close>: \<open>loc_eng_msg_sender\<close> and \<open>loc_ulp_msg_sender\<close>.\<close>

definition loc_ulp_msg_sender :: "loc_eng_msg \<Rightarrow> engine \<Rightarrow> engine option" where
  "loc_ulp_msg_sender msg e = snd_ulp msg e"

fun send_route :: "route \<Rightarrow> engine \<Rightarrow> engine option" where
  "send_route (To_Engine m) e = snd_deferred m e"
| "send_route (To_Ulp m) e = loc_ulp_msg_sender m e"
| "send_route To_Nobody e = Some e"

definition modem_reports :: "modem_report \<Rightarrow> engine \<Rightarrow> engine option" where
  "modem_reports r e = do {
     a \<leftarrow> client_handle e;
     x \<leftarrow> modem_route (locEngHandle a) r;
     send_route x e
   }"

section \<open>Events\<close>

text \<open>\<open>deferred_over\<close>: the deferred thread has returned.\<close>

record loc_system =
  sys_afw :: loc_afw
  sys_ni_threads :: "ni_thread list"
  sys_clock :: int
  deferred_over :: bool

abbreviation sys_engine :: "loc_system \<Rightarrow> engine" where
  "sys_engine s \<equiv> loc_afw_data (sys_afw s)"

definition put_engine :: "engine \<Rightarrow> loc_system \<Rightarrow> loc_system" where
  "put_engine e s = s\<lparr>sys_afw := (sys_afw s)\<lparr>loc_afw_data := e\<rparr>\<rparr>"

text \<open>\<open>Daemon\<close> is a message that the daemon server's handlers send.\<close>

datatype sys_event =
    Framework afw_call
  | Modem modem_report
  | Daemon loc_eng_msg
  | Deferred api_env
  | Ni_run nat
  | Ni_time_out nat
  | Tick int

text \<open>The threads of requests that a turn has started.\<close>

definition spawned :: "engine \<Rightarrow> engine \<Rightarrow> ni_thread list" where
  "spawned e e' = map (\<lambda>_. NI_Starting) (filter (\<lambda>x. x = Ni_thread) (drop (length (eng_out e)) (eng_out e')))"

definition deferred_event :: "afw_env \<Rightarrow> api_env \<Rightarrow> loc_system \<Rightarrow> loc_system option" where
  "deferred_event v env s =
    (if deferred_over s then Some s
     else case deferred_turn (gps_conf (sys_afw s)) (dev_resolve v) env (sys_engine s) of
        None \<Rightarrow> None
      | Some Waiting \<Rightarrow> Some s
      | Some (Ended e) \<Rightarrow> Some ((put_engine e s)\<lparr>deferred_over := True\<rparr>)
      | Some (Turn e) \<Rightarrow> Some ((put_engine e s)\<lparr>sys_ni_threads := sys_ni_threads s @ spawned (sys_engine s) e\<rparr>))"

text \<open>The next part of a request's thread that is started, awake (also without a signal), or leaving.\<close>

definition ni_moves :: "nat \<Rightarrow> ni_thread \<times> loc_eng_ni_data \<Rightarrow> loc_system \<Rightarrow> loc_system" where
  "ni_moves i r s = (put_engine ((sys_engine s)\<lparr>loc_eng_ni := snd r\<rparr>) s)\<lparr>sys_ni_threads := (sys_ni_threads s)[i := fst r]\<rparr>"

definition ni_run_event :: "nat \<Rightarrow> loc_system \<Rightarrow> loc_system option" where
  "ni_run_event i s =
    (if i < length (sys_ni_threads s) then
       (case sys_ni_threads s ! i of
          NI_Starting \<Rightarrow> Some (ni_moves i (ni_thread_start (sys_clock s) (loc_eng_ni (sys_engine s))) s)
        | NI_Waiting t \<Rightarrow> Some (ni_moves i (ni_thread_test t (loc_eng_ni (sys_engine s))) s)
        | NI_Leaving answer \<Rightarrow> do {
            let e = (sys_engine s)\<lparr>loc_eng_ni := ni_thread_leave (loc_eng_ni (sys_engine s))\<rparr>;
            e1 \<leftarrow> (case answer of None \<Rightarrow> Some e | Some m \<Rightarrow> snd_deferred m e);
            Some ((put_engine e1 s)\<lparr>sys_ni_threads := take i (sys_ni_threads s) @ drop (Suc i) (sys_ni_threads s)\<rparr>)
          })
     else Some s)"

definition ni_time_out_event :: "nat \<Rightarrow> loc_system \<Rightarrow> loc_system option" where
  "ni_time_out_event i s = Some
    (if i < length (sys_ni_threads s) then
       (case sys_ni_threads s ! i of
          NI_Waiting t \<Rightarrow> if t \<le> sys_clock s then ni_moves i (ni_thread_timeout (loc_eng_ni (sys_engine s))) s else s
        | _ \<Rightarrow> s)
     else s)"

fun sys_step :: "afw_env \<Rightarrow> sys_event \<Rightarrow> loc_system \<Rightarrow> loc_system option" where
  "sys_step v (Framework c) s = map_option (\<lambda>a. s\<lparr>sys_afw := a\<rparr>) (call_afw v c (sys_afw s))"
| "sys_step v (Modem r) s = map_option (\<lambda>e. put_engine e s) (modem_reports r (sys_engine s))"
| "sys_step v (Daemon m) s = map_option (\<lambda>e. put_engine e s) (snd_deferred m (sys_engine s))"
| "sys_step v (Deferred env) s = deferred_event v env s"
| "sys_step v (Ni_run i) s = ni_run_event i s"
| "sys_step v (Ni_time_out i) s = ni_time_out_event i s"
| "sys_step v (Tick dt) s = Some (s\<lparr>sys_clock := sys_clock s + max 0 dt\<rparr>)"

fun sys_run :: "afw_env \<Rightarrow> sys_event list \<Rightarrow> loc_system \<Rightarrow> loc_system option" where
  "sys_run v [] s = Some s"
| "sys_run v (ev # evs) s = sys_step v ev s \<bind> sys_run v evs"

section \<open>What callers owe\<close>

text \<open>
  The contracts of the functions: a text is a C string, a length does not exceed its buffer, the
  callbacks of \<open>init\<close> are given, and a server is one of the two types that \<open>loc_agps_set_server\<close> knows.
\<close>

fun call_allowed :: "afw_call \<Rightarrow> bool" where
  "call_allowed (Call_init cb) = (cb \<noteq> None)"
| "call_allowed (Call_data_conn_open ty apn b) = pred_option (\<lambda>t. CHR 0x00 \<notin> set t) apn"
| "call_allowed (Call_set_server ty host port) = (ty \<in> {AGPS_TYPE_SUPL, AGPS_TYPE_C2K} \<and> CHR 0x00 \<notin> set host)"
| "call_allowed (Call_inject_xtra_data d n) = (n \<le> length d)"
| "call_allowed (Call_update_network_availability a apn) = pred_option (\<lambda>t. CHR 0x00 \<notin> set t) apn"
| "call_allowed (Call_inject_raw_cmd d n) = (n \<le> length d)"
| "call_allowed _ = True"

fun report_allowed :: "modem_report \<Rightarrow> bool" where
  "report_allowed (Report_nmea d n) = (n \<le> length d)"
| "report_allowed _ = True"

text \<open>What the handlers of the daemon server send.\<close>

fun daemon_allowed :: "loc_eng_msg \<Rightarrow> bool" where
  "daemon_allowed (loc_eng_msg_request_bit ty v4 v6) = pred_option (\<lambda>b. length b = 16) v6"
| "daemon_allowed (loc_eng_msg_release_bit ty v4 v6) = pred_option (\<lambda>b. length b = 16) v6"
| "daemon_allowed (loc_eng_msg_request_wifi ty sid x p) =
     (pred_option (\<lambda>t. CHR 0x00 \<notin> set t \<and> length t < SSID_BUF_SIZE) x \<and> pred_option (\<lambda>t. CHR 0x00 \<notin> set t \<and> length t < SSID_BUF_SIZE) p)"
| "daemon_allowed (loc_eng_msg_release_wifi ty sid x p) =
     (pred_option (\<lambda>t. CHR 0x00 \<notin> set t \<and> length t < SSID_BUF_SIZE) x \<and> pred_option (\<lambda>t. CHR 0x00 \<notin> set t \<and> length t < SSID_BUF_SIZE) p)"
| "daemon_allowed _ = False"

fun event_allowed :: "sys_event \<Rightarrow> bool" where
  "event_allowed (Framework c) = call_allowed c"
| "event_allowed (Modem r) = report_allowed r"
| "event_allowed (Daemon m) = daemon_allowed m"
| "event_allowed _ = True"

end
