(* ===== verification/Loc_System_Correct.thy ===== *)
theory Loc_System_Correct
  imports Loc_System Loc_Eng_Heap Loc_Afw_Correct
begin

text \<open>
  Every event of the library (Loc\_System) within its contract returns and leaves a well-formed engine
  whose queued messages can be built in memory.
\<close>

section \<open>The framework's calls keep the engine well-formed\<close>

definition engine_good :: "engine \<Rightarrow> bool" where
  "engine_good e \<longleftrightarrow> eng_ok True e \<and> host_ok e"

definition good :: "('r \<times> loc_afw) option \<Rightarrow> bool" where
  "good x \<longleftrightarrow> (\<exists>r s. x = Some (r, s) \<and> engine_good (loc_afw_data s))"

lemma with_engine_good:
  "safe_r True (f (loc_afw_data s)) \<Longrightarrow> fits_r host_ok (f (loc_afw_data s)) \<Longrightarrow> good (with_engine f s)"
  by (auto simp: good_def with_engine_def safe_r_def fits_r_def engine_good_def)

lemma engine_good_updates [simp]:
  "engine_good e \<Longrightarrow> engine_good (e\<lparr>ulp_initialized := x1\<rparr>)"
  "engine_good e \<Longrightarrow> engine_good (e\<lparr>ulp_phone_context_req_cb := x2\<rparr>)"
  "engine_good e \<Longrightarrow> engine_good (e\<lparr>ulp_network_callback := x3\<rparr>)"
  "engine_good e \<Longrightarrow> engine_good (e\<lparr>download_request_cb := x4\<rparr>)"
  "engine_good e \<Longrightarrow> engine_good (e\<lparr>ni_notify_cb := x5\<rparr>)"
  "engine_good e \<Longrightarrow> engine_good (e\<lparr>loc_eng_ni := x6\<rparr>)"
  "engine_good e \<Longrightarrow> engine_good (eng_ni r e)"
  using eng_ni_safe [of True e r] eng_ni_fits [of e r]
  by (auto simp: engine_good_def eng_ok_def host_ok_def queued_def)

lemma eng_context_good: "engine_good e \<Longrightarrow> eng_context e"
  by (simp add: engine_good_def eng_ok_def)

lemma snd_good:
  assumes "engine_good e"
  shows "msg_fits m \<Longrightarrow> \<exists>e'. snd_deferred m e = Some e' \<and> engine_good e'"
    "\<exists>e'. snd_ulp m e = Some e' \<and> engine_good e'"
  using assms snd_deferred_safe [of True e m] snd_deferred_fits [of e m] snd_ulp_safe [of True e m] snd_ulp_fits [of e m]
  by (auto simp: engine_good_def safe_def fits_def)

lemma safe_r_swap: "safe_r cb x \<Longrightarrow> safe_r cb (map_option (\<lambda>(_, e). (r, e)) x)"
  by (auto simp: safe_r_def)

lemma interface_rest_safe:
  "eng_ok cb e \<Longrightarrow> n \<le> length d \<Longrightarrow> safe_r cb (loc_eng_xtra_inject_data d n e)"
  "eng_ok cb e \<Longrightarrow> n \<le> length d \<Longrightarrow> safe_r cb (loc_eng_inject_raw_command conf d n e)"
  "eng_ok cb e \<Longrightarrow> safe_r cb (loc_eng_set_engine_lock l e)"
  "eng_ok cb e \<Longrightarrow> safe_r cb (loc_eng_ulp_phone_context_settings_update conf x e)"
  "eng_ok cb e \<Longrightarrow> safe_r cb (loc_eng_cleanup conf e)"
proof -
  assume ok: "eng_ok cb e"
  show "n \<le> length d \<Longrightarrow> safe_r cb (loc_eng_xtra_inject_data d n e)"
    "n \<le> length d \<Longrightarrow> safe_r cb (loc_eng_inject_raw_command conf d n e)"
    using ok by (auto simp: loc_eng_xtra_inject_data_def loc_eng_inject_raw_command_def memcpy_def intro!: safe_intros)
  show lock: "safe_r cb (loc_eng_set_engine_lock l e)" if "eng_ok cb e" for l e
    using that by (auto simp: loc_eng_set_engine_lock_def intro!: safe_intros)
  show "safe_r cb (loc_eng_ulp_phone_context_settings_update conf x e)"
    using ok by (auto simp: loc_eng_ulp_phone_context_settings_update_def intro!: safe_intros safe_r_bind_r)
  have stop: "safe cb (if nav then map_option snd (loc_eng_stop conf e) else Some e)" for nav
    using interface_safe(2) [OF ok] ok by (auto intro!: safe_intros)
  show "safe_r cb (loc_eng_cleanup conf e)"
    unfolding loc_eng_cleanup_def
    by (intro INIT_CHECK_safe isInSession_bind(2) safe_r_bind [OF stop] safe_r_swap lock ok)
qed

lemma agps_init_again: "engine_good e \<Longrightarrow> loc_eng_agps_init resolve b junk cb e = Some ((), e)"
  by (simp add: loc_eng_agps_init_def INIT_CHECK_def engine_good_def eng_ok_def)

lemma goodI:
  "engine_good (loc_afw_data s) \<Longrightarrow> good (Some (r, s))"
  "engine_good e \<Longrightarrow> good (Some (r, s\<lparr>loc_afw_data := e\<rparr>))"
  by (simp_all add: good_def)

text \<open>Initialising again only sends the engine lock, and marks the ULP interface.\<close>

lemma loc_init_again_data:
  assumes "engine_good (loc_afw_data s)"
  shows "\<exists>r s'. loc_init files gss rets adapter w (Some cb) s = Some (r, s') \<and> (loc_afw_data s' = loc_afw_data s
     \<or> (\<exists>q e1. loc_eng_set_engine_lock 1 (loc_afw_data s) = Some (q, e1)
          \<and> loc_afw_data s' \<in> {e1, e1\<lparr>ulp_initialized := True\<rparr>}))"
proof -
  from interface_rest_safe(3) [of True "loc_afw_data s" 1] assms obtain q e1 where
    e1: "loc_eng_set_engine_lock 1 (loc_afw_data s) = Some (q, e1)" by (auto simp: engine_good_def safe_r_def)
  have "init_events \<noteq> 0" by (simp add: init_events_def)
  with e1 have lock: "loc_eng_init conf rets adapter w (Some c) init_events b (loc_afw_data s) = Some (0, e1)" for conf c b
    using eng_context_good [OF assms] by (simp add: loc_eng_init_def)
  show ?thesis
    by (cases "get_target_name files = TARGET_NAME_APQ8064_STANDALONE"; cases "gss < 0"; cases "loc_eng_ulp_inf s")
       (auto simp: loc_init_def Let_def with_engine_def lock loc_eng_ulp_init_def e1)
qed

lemma loc_init_again:
  assumes "engine_good (loc_afw_data s)"
  shows "good (loc_init files gss rets adapter w (Some cb) s)"
proof -
  have "engine_good e1" if "loc_eng_set_engine_lock 1 (loc_afw_data s) = Some (q, e1)" for q e1
    using that assms interface_rest_safe(3) [of True "loc_afw_data s" 1] host.interface_fits(3) [of "loc_afw_data s" 1]
    by (auto simp: engine_good_def safe_r_def fits_r_def)
  with loc_init_again_data [OF assms, of files gss rets adapter w cb] assms show ?thesis by (auto simp: good_def)
qed

section \<open>Every call\<close>

definition good_s :: "loc_afw option \<Rightarrow> bool" where
  "good_s x \<longleftrightarrow> (\<exists>s. x = Some s \<and> engine_good (loc_afw_data s))"

lemma good_sI: "good x \<Longrightarrow> good_s (map_option snd x)" "engine_good (loc_afw_data s) \<Longrightarrow> good_s (Some s)"
  by (auto simp: good_def good_s_def)

lemma extension_cases:
  "get_extension sLocEngInterface v AGPS_INTERFACE s = (Some (Agps sLocEngAGpsInterface), s)"
  "get_extension sLocEngInterface v GPS_XTRA_INTERFACE s = (Some (Xtra sLocEngXTRAInterface), s)"
  "get_extension sLocEngInterface v GPS_NI_INTERFACE s = (Some (Gps_ni sLocEngNiInterface), s)"
  "get_extension sLocEngInterface v AGPS_RIL_INTERFACE s =
     (if dev_baseband v = ''csfb'' then Some (Agps_ril sLocEngAGpsRilInterface) else None, s)"
  "get_extension sLocEngInterface v ULP_RAW_CMD_INTERFACE s = (Some (Raw_cmd sLocEngInjectRawCmdInterface), s)"
  "get_extension sLocEngInterface v ULP_NETWORK_INTERFACE s =
     (if CAPABILITIES (gps_conf s) AND ULP_CAPABILITY \<noteq> 0 then Some (Network sUlpNetworkInterface) else None, s)"
  "get_extension sLocEngInterface v ULP_PHONE_CONTEXT_INTERFACE s =
     (Some (Phone_context sLocEngUlpPhoneContextInterface), s)"
  by (simp_all add: sLocEngInterface_def loc_get_extension_def gps_interface_names)

lemmas via_defs = via_agps_def via_xtra_def via_ni_def via_ril_def via_raw_def via_network_def via_phone_def

lemmas table_defs = sLocEngAGpsInterface_def sLocEngXTRAInterface_def sLocEngNiInterface_def sLocEngAGpsRilInterface_def
  sLocEngInjectRawCmdInterface_def sUlpNetworkInterface_def sLocEngUlpPhoneContextInterface_def

lemma engine_calls_good:
  assumes "engine_good (loc_afw_data s)"
  shows "good (loc_start s)" "good (loc_stop s)" "good (loc_cleanup s)" "good (loc_inject_time t r u s)"
    "good (loc_inject_location la lo ac s)" "good (loc_delete_aiding_data f s)" "good (loc_set_position_mode m rc i a tm s)"
    "good (loc_update_criteria c s)"
proof -
  have e: "eng_ok True (loc_afw_data s)" "host_ok (loc_afw_data s)" using assms by (simp_all add: engine_good_def)
  note i = interface_safe [OF e(1)] interface_rest_safe [OF e(1)] host.interface_fits [OF e(2)] host.interface_data_fits [OF e(2)] host.cleanup_fits [OF e(2)] eng_context_good [OF assms]
  show "good (loc_start s)" "good (loc_stop s)" "good (loc_inject_time t r u s)" "good (loc_inject_location la lo ac s)"
    "good (loc_delete_aiding_data f s)" "good (loc_update_criteria c s)"
    unfolding loc_start_def loc_stop_def loc_inject_time_def loc_inject_location_def loc_delete_aiding_data_def loc_update_criteria_def
    by (intro with_engine_good i)+
  have "good (with_engine (loc_eng_cleanup (gps_conf s)) s)" by (intro with_engine_good i)
  then show "good (loc_cleanup s)" by (auto simp: loc_cleanup_def good_def)
  obtain p where "new_LocPosMode (locMode m) rc i a tm None None = Some p" by (simp add: new_LocPosMode_def)
  then show "good (loc_set_position_mode m rc i a tm s)"
    by (simp add: loc_set_position_mode_def) (intro with_engine_good i)
qed

lemma agps_calls_good:
  assumes "engine_good (loc_afw_data s)"
  shows "good (loc_agps_init resolve b junk cb s)" "pred_option text_ok apn \<Longrightarrow> good (loc_agps_open ty apn bt s)"
    "good (loc_agps_closed ty s)" "good (loc_agps_open_failed ty s)"
    "ty \<in> {AGPS_TYPE_SUPL, AGPS_TYPE_C2K} \<Longrightarrow> text_ok host \<Longrightarrow> good (loc_agps_set_server resolve ty host port s)"
    "pred_option text_ok apn \<Longrightarrow> good (loc_agps_ril_update_network_availability av apn s)"
proof -
  have e: "eng_ok True (loc_afw_data s)" "host_ok (loc_afw_data s)" using assms by (simp_all add: engine_good_def)
  note i = interface_safe [OF e(1)] host.interface_fits [OF e(2)] host.interface_data_fits [OF e(2)] eng_context_good [OF assms]
  show "good (loc_agps_init resolve b junk cb s)"
    using assms by (simp add: loc_agps_init_def with_engine_def agps_init_again goodI)
  show "good (loc_agps_closed ty s)" "good (loc_agps_open_failed ty s)"
    unfolding loc_agps_closed_def loc_agps_open_failed_def by (intro with_engine_good i)+
  show "pred_option text_ok apn \<Longrightarrow> good (loc_agps_open ty apn bt s)"
    "pred_option text_ok apn \<Longrightarrow> good (loc_agps_ril_update_network_availability av apn s)"
    unfolding loc_agps_open_def loc_agps_ril_update_network_availability_def by (intro with_engine_good i; assumption)+
  show "ty \<in> {AGPS_TYPE_SUPL, AGPS_TYPE_C2K} \<Longrightarrow> text_ok host \<Longrightarrow> good (loc_agps_set_server resolve ty host port s)"
    unfolding loc_agps_set_server_def by (auto intro!: with_engine_good i)
qed

lemma other_calls_good:
  assumes "engine_good (loc_afw_data s)"
  shows "good (loc_xtra_init cb s)" "n \<le> length d \<Longrightarrow> good (loc_xtra_inject_data d n s)"
    "good (loc_ni_init cb s)" "good (loc_ni_respond i r s)" "n \<le> length d \<Longrightarrow> good (loc_inject_raw_command d n s)"
    "good (loc_ulp_network_init cb s)" "good (loc_ulp_send_network_position p s)"
    "good (loc_ulp_phone_context_init cb s)" "good (loc_ulp_phone_context_settings_update x s)"
proof -
  have e: "eng_ok True (loc_afw_data s)" "host_ok (loc_afw_data s)" using assms by (simp_all add: engine_good_def)
  note i = interface_safe [OF e(1)] interface_rest_safe [OF e(1)] host.interface_fits [OF e(2)] host.interface_data_fits [OF e(2)] host.cleanup_fits [OF e(2)] eng_context_good [OF assms]
  show "good (loc_xtra_init cb s)" "good (loc_ulp_network_init cb s)" "good (loc_ulp_phone_context_init cb s)"
    using assms by (simp_all add: loc_xtra_init_def loc_ulp_network_init_def loc_ulp_phone_context_init_def with_engine_def
        loc_eng_xtra_init_def loc_eng_ulp_network_init_def loc_eng_ulp_phone_context_init_def goodI)
  show "good (loc_ni_init cb s)" "good (loc_ni_respond i r s)"
    using assms by (simp_all add: loc_ni_init_def loc_ni_respond_def with_engine_def eng_ni_init_def eng_ni_respond_def
        goodI split: prod.split)
  show "n \<le> length d \<Longrightarrow> good (loc_xtra_inject_data d n s)" "n \<le> length d \<Longrightarrow> good (loc_inject_raw_command d n s)"
    unfolding loc_xtra_inject_data_def loc_inject_raw_command_def by (intro with_engine_good i; assumption)+
  show "good (loc_ulp_send_network_position p s)" "good (loc_ulp_phone_context_settings_update x s)"
    unfolding loc_ulp_send_network_position_def loc_ulp_phone_context_settings_update_def by (intro with_engine_good i)+
qed

lemmas ril_defs = loc_agps_ril_init_def loc_agps_ril_set_ref_location_def loc_agps_ril_set_set_id_def
  loc_agps_ril_ni_message_def loc_agps_ril_update_network_state_def

lemma call_good:
  assumes "engine_good (loc_afw_data s)" "call_allowed c"
  shows "good_s (call_afw v c s)"
proof -
  note g = engine_calls_good [OF assms(1)] agps_calls_good [OF assms(1)] other_calls_good [OF assms(1)] loc_init_again [OF assms(1)]
  show ?thesis
    using assms
    by (cases c; simp add: via_defs extension_cases table_defs ril_defs del: option.map)
       (auto simp: sLocEngInterface_def intro!: g good_sI)
qed

section \<open>Every event\<close>

fun ni_thread_ok :: "ni_thread \<Rightarrow> bool" where
  "ni_thread_ok (NI_Leaving (Some m)) = msg_fits m"
| "ni_thread_ok _ = True"

definition sys_good :: "loc_system \<Rightarrow> bool" where
  "sys_good s \<longleftrightarrow> engine_good (sys_engine s) \<and> \<not> deferred_over s \<and> (\<forall>t \<in> set (sys_ni_threads s). ni_thread_ok t)"

lemma put_engine_fields [simp]:
  "sys_engine (put_engine e s) = e" "sys_ni_threads (put_engine e s) = sys_ni_threads s"
  "sys_clock (put_engine e s) = sys_clock s" "deferred_over (put_engine e s) = deferred_over s"
  "sys_engine (s\<lparr>sys_ni_threads := ts\<rparr>) = sys_engine s" "gps_conf (sys_afw (put_engine e s)) = gps_conf (sys_afw s)"
  by (simp_all add: put_engine_def)

lemma popped_good: "engine_good e \<Longrightarrow> me e = Some c \<Longrightarrow> deferred_q c = m # q \<Longrightarrow>
    engine_good (e\<lparr>me := Some (c\<lparr>deferred_q := q\<rparr>)\<rparr>)"
  by (auto simp: engine_good_def eng_ok_def host_ok_def queued_def)

lemma turn_good:
  assumes "engine_good e"
  shows "(queued e = [] \<and> deferred_turn conf resolve env e = Some Waiting)
     \<or> (\<exists>m q e'. queued e = m # q \<and> deferred_turn conf resolve env e = Some (Turn e') \<and> engine_good e')"
proof -
  from assms obtain c where c: "me e = Some c" "eng_context e" by (auto simp: engine_good_def eng_ok_def)
  show ?thesis
  proof (cases "deferred_q c")
    case Nil
    with c show ?thesis by (simp add: deferred_turn_def queued_def)
  next
    case (Cons m q)
    let ?e1 = "e\<lparr>me := Some (c\<lparr>deferred_q := q\<rparr>)\<rparr>"
    from popped_good [OF assms c(1) Cons] have "eng_ok True ?e1" "host_ok ?e1" by (simp_all add: engine_good_def)
    from deferred_action_safe [OF this(1), of m conf resolve env] deferred_action_fits [OF this(2), of conf resolve env m]
    obtain e' where "deferred_action conf resolve env m ?e1 = Some e'" "engine_good e'"
      by (auto simp: safe_def fits_def engine_good_def)
    with c Cons show ?thesis by (auto simp: deferred_turn_def queued_def)
  qed
qed

lemma deferred_event_good:
  assumes "sys_good s"
  shows "\<exists>s'. deferred_event v env s = Some s' \<and> sys_good s'"
proof -
  from assms have e: "engine_good (sys_engine s)" "\<not> deferred_over s" by (simp_all add: sys_good_def)
  from turn_good [OF e(1), of "gps_conf (sys_afw s)" "dev_resolve v" env] show ?thesis
    using assms e(2) by (elim disjE exE conjE) (auto simp: deferred_event_def sys_good_def spawned_def)
qed

lemma ni_thread_next_ok:
  "ni_thread_ok (fst (ni_thread_start t d))" "ni_thread_ok (fst (ni_thread_test u d))" "ni_thread_ok (fst (ni_thread_timeout d))"
  by (simp_all add: ni_thread_start_def ni_thread_test_def ni_thread_timeout_def ni_thread_collect_def)

lemma ni_moves_good:
  assumes "sys_good s" "ni_thread_ok (fst r)"
  shows "sys_good (ni_moves i r s)"
  using assms by (auto simp: sys_good_def ni_moves_def dest!: set_update_subset_insert [THEN subsetD])

lemma ni_run_event_good:
  assumes "sys_good s"
  shows "\<exists>s'. ni_run_event i s = Some s' \<and> sys_good s'"
proof (cases "i < length (sys_ni_threads s)")
  case True
  let ?t = "sys_ni_threads s ! i"
  from True assms have ok: "ni_thread_ok ?t" by (simp add: sys_good_def)
  show ?thesis
  proof (cases ?t)
    case (NI_Leaving answer)
    let ?e = "(sys_engine s)\<lparr>loc_eng_ni := ni_thread_leave (loc_eng_ni (sys_engine s))\<rparr>"
    from assms have e: "engine_good ?e" by (simp add: sys_good_def)
    have "\<exists>e1. (case answer of None \<Rightarrow> Some ?e | Some m \<Rightarrow> snd_deferred m ?e) = Some e1 \<and> engine_good e1"
      using e snd_good(1) [OF e] ok NI_Leaving by (cases answer) auto
    then obtain e1 where e1: "(case answer of None \<Rightarrow> Some ?e | Some m \<Rightarrow> snd_deferred m ?e) = Some e1" "engine_good e1" by blast
    then show ?thesis using True NI_Leaving assms
      by (auto simp: ni_run_event_def sys_good_def dest: in_set_takeD in_set_dropD)
  qed (use True assms in \<open>simp_all add: ni_run_event_def ni_moves_good ni_thread_next_ok\<close>)
qed (use assms in \<open>simp add: ni_run_event_def\<close>)

lemma ni_time_out_good: "sys_good s \<Longrightarrow> \<exists>s'. ni_time_out_event i s = Some s' \<and> sys_good s'"
  by (auto simp: ni_time_out_event_def ni_moves_good ni_thread_next_ok split: ni_thread.split)

lemma modem_reports_good:
  assumes "engine_good e" "report_allowed r"
  shows "\<exists>e'. modem_reports r e = Some e' \<and> engine_good e'"
proof -
  from assms(1) obtain a where a: "client_handle e = Some a" by (auto simp: engine_good_def eng_ok_def)
  have "\<exists>x. modem_route (locEngHandle a) r = Some x \<and> (\<forall>m. x = To_Engine m \<longrightarrow> msg_fits m)"
    using assms(2) by (cases r) (auto simp: reportPosition_def reportSv_def reportStatus_def reportNmea_def requestATL_def
        releaseATL_def requestXtraData_def requestNiNotify_def handleEngineDownEvent_def handleEngineUpEvent_def memcpy_def Let_def)
  then obtain x where x: "modem_route (locEngHandle a) r = Some x" "\<forall>m. x = To_Engine m \<longrightarrow> msg_fits m" by blast
  then show ?thesis using a assms(1) snd_good [OF assms(1)]
    by (cases x) (auto simp: modem_reports_def loc_ulp_msg_sender_def)
qed

lemma daemon_allowed_fits: "daemon_allowed m \<Longrightarrow> msg_fits m"
  by (cases m) auto

lemma sys_step_good:
  assumes "sys_good s" "event_allowed ev"
  shows "\<exists>s'. sys_step v ev s = Some s' \<and> sys_good s'"
proof -
  from assms(1) have e: "engine_good (sys_engine s)" by (simp add: sys_good_def)
  show ?thesis
  proof (cases ev)
    case (Framework c)
    with call_good [OF e, of c v] assms show ?thesis by (auto simp: good_s_def sys_good_def)
  next
    case (Modem r)
    with modem_reports_good [OF e, of r] assms show ?thesis by (auto simp: sys_good_def)
  next
    case (Daemon m)
    with snd_good(1) [OF e, of m] daemon_allowed_fits [of m] assms show ?thesis by (auto simp: sys_good_def)
  next
    case (Tick dt)
    with assms show ?thesis by (simp add: sys_good_def)
  qed (use assms in \<open>simp_all add: deferred_event_good ni_run_event_good ni_time_out_good\<close>)
qed

lemma sys_run_good: "sys_good s \<Longrightarrow> \<forall>ev \<in> set evs. event_allowed ev \<Longrightarrow> \<exists>s'. sys_run v evs s = Some s' \<and> sys_good s'"
proof (induction evs arbitrary: s)
  case (Cons ev evs)
  from sys_step_good [OF Cons.prems(1), of ev v] Cons.prems(2) obtain s1 where "sys_step v ev s = Some s1" "sys_good s1" by auto
  with Cons.IH [of s1] Cons.prems(2) show ?case by simp
qed simp

end
