(* ===== verification/Loc_System_Ni.thy ===== *)
theory Loc_System_Ni
  imports Loc_System_Correct Ni_Correct
begin

text \<open>
  The library from start-up on: no order of events leads to undefined behaviour, and the data of
  network-initiated requests is never lost, shared, or freed twice on its way from the modem through
  the queue, the request's thread, and the queue back.
\<close>

section \<open>The data of network-initiated requests\<close>

text \<open>
  Where the data of a request can be: in a message of the queue, pending, with a thread that leaves,
  or freed. \<open>requested\<close>: what the modem handed over.
\<close>

fun ni_ptrs :: "loc_eng_msg \<Rightarrow> ptr list" where
  "ni_ptrs (loc_eng_msg_request_ni n p) = (if p \<noteq> NULL then [p] else [])"
| "ni_ptrs (loc_eng_msg_inform_ni_response r p) = (if p \<noteq> NULL then [p] else [])"
| "ni_ptrs _ = []"

fun freed_ptr :: "eng_out \<Rightarrow> ptr list" where
  "freed_ptr (Free p) = [p]"
| "freed_ptr _ = []"

definition ni_held :: "engine \<Rightarrow> ptr multiset" where
  "ni_held e = mset (concat (map ni_ptrs (queued e))) + mset (ni_pending (loc_eng_ni e)) + mset (concat (map freed_ptr (eng_out e)))"

definition leaving_ptrs :: "ni_thread \<Rightarrow> ptr list" where
  "leaving_ptrs t = (case t of NI_Leaving (Some m) \<Rightarrow> ni_ptrs m | _ \<Rightarrow> [])"

definition sys_ni :: "loc_system \<Rightarrow> ptr multiset" where
  "sys_ni s = ni_held (sys_engine s) + mset (concat (map leaving_ptrs (sys_ni_threads s)))"

fun requested :: "sys_event \<Rightarrow> ptr list" where
  "requested (Modem (Request_ni n p)) = (if p \<noteq> NULL then [p] else [])"
| "requested _ = []"

definition held_is :: "bool \<Rightarrow> ptr multiset \<Rightarrow> engine \<Rightarrow> bool" where
  "held_is b A e \<longleftrightarrow> host_ok e \<and> ni_held e = A \<and> ni_notify_cb e = b"

lemma not_freed: "\<forall>p. Free p \<notin> set evs \<Longrightarrow> concat (map freed_ptr evs) = []"
proof -
  assume *: "\<forall>p. Free p \<notin> set evs"
  have "freed_ptr x = []" if "x \<in> set evs" for x using * that by (cases x) auto
  then show ?thesis by simp
qed

lemma ni_ptrs_other: "\<not> ni_msg m \<Longrightarrow> ni_ptrs m = []"
  by (cases m) auto

lemma ni_held_snd:
  assumes "snd_deferred m e = Some e'"
  shows "ni_held e' = ni_held e + mset (ni_ptrs m)" "ni_notify_cb e' = ni_notify_cb e" "loc_eng_ni e' = loc_eng_ni e"
  using assms by (auto simp: snd_deferred_def ni_held_def queued_def split: if_splits)

lemma ni_held_ulp:
  assumes "snd_ulp m e = Some e'"
  shows "ni_held e' = ni_held e" "ni_notify_cb e' = ni_notify_cb e" "loc_eng_ni e' = loc_eng_ni e"
  using assms by (auto simp: snd_ulp_def ni_held_def queued_def split: if_splits)

lemma ni_reset_held:
  "ni_held (eng_ni (loc_eng_ni_reset_on_engine_restart b (loc_eng_ni e)) e) = ni_held e"
  "ni_notify_cb (eng_ni (loc_eng_ni_reset_on_engine_restart b (loc_eng_ni e)) e) = ni_notify_cb e"
  by (simp_all add: loc_eng_ni_reset_on_engine_restart_def eng_ni_def ni_held_def ni_pending_def emit_def)

interpretation held: engine_sender "held_is b A" for b A
proof unfold_locales
  fix e evs assume "held_is b A e" "\<forall>p. Free p \<notin> set evs"
  then show "held_is b A (e\<lparr>eng_out := eng_out e @ evs\<rparr>)"
    by (simp add: held_is_def ni_held_def not_freed) (simp add: host_ok_def)
next
  fix e k m assume "held_is b A e"
  moreover have "loc_eng_ni (put_nif k m e) = loc_eng_ni e" "eng_out (put_nif k m e) = eng_out e"
    "ni_notify_cb (put_nif k m e) = ni_notify_cb e" by (cases k; simp)+
  ultimately show "held_is b A (put_nif k m e)" by (simp add: held_is_def ni_held_def host.nifs)
next
  fix e assume "held_is b A e"
  then show "text_ok (supl_host_buf e)" by (simp add: held_is_def host_ok_def)
next
  fix e m assume "held_is b A e" "msg_fits m" "\<not> ni_msg m"
  then show "fits (held_is b A) (snd_deferred m e)"
    using snd_deferred_fits [of e m] by (auto simp: fits_def held_is_def ni_held_snd ni_ptrs_other)
next
  fix e m assume "held_is b A e"
  then show "fits (held_is b A) (snd_ulp m e)"
    using snd_ulp_fits [of e m] by (auto simp: fits_def held_is_def ni_held_ulp)
next
  fix e assume "held_is b A e"
  then show "held_is b A (eng_ni (loc_eng_ni_reset_on_engine_restart (ni_notify_cb e) (loc_eng_ni e)) e)"
    by (simp add: held_is_def ni_reset_held eng_ni_fits)
qed (simp_all add: held_is_def ni_held_def, simp_all add: host_ok_def)

lemma ni_request_held:
  assumes "ni_notify_cb e"
  shows "ni_held (eng_ni (loc_eng_ni_request_handler True created n p (loc_eng_ni e)) e)
     = ni_held e + mset (if p \<noteq> NULL then [p] else [])"
    "ni_notify_cb (eng_ni (loc_eng_ni_request_handler True created n p (loc_eng_ni e)) e)"
  using assms by (auto simp: loc_eng_ni_request_handler_def eng_ni_def ni_held_def ni_pending_def emit_def Let_def
      loc_eng_mute_one_session_def)


lemma action_held:
  assumes "held_is True A e" "deferred_action conf resolve env m e = Some e'"
  shows "held_is True (A + mset (ni_ptrs m)) e'"
proof -
  let ?B = "A + mset (ni_ptrs m)"
  from assms(2) obtain e1 e2 e3 where
    1: "handle_msg conf resolve env m e = Some e1" "after_agps env (msgid m) e1 = Some e2"
      "after_aiding (e2\<lparr>stop_request_pending := False\<rparr>) = Some e3" "e' = delete_msg m e3"
    by (auto simp: deferred_action_def bind_eq_Some_conv)
  have after: "held_is True B e1 \<Longrightarrow> held_is True B e3" for B
    using held.after_fits [of True B e1 env "msgid m"] 1(2,3) by (simp add: fits_def)
  have host: "host_ok e'"
    using assms deferred_action_fits [of e conf resolve env m] by (simp add: held_is_def fits_def)
  show ?thesis
  proof (cases "ni_msg m")
    case False
    then have "held_is True A e3" using after held.handle_msg_fits [OF assms(1) False, of conf resolve env] 1(1) by (simp add: fits_def)
    with False 1(4) show ?thesis by (cases m) (simp_all add: ni_ptrs_other)
  next
    case True
    then show ?thesis
    proof (cases m)
      case (loc_eng_msg_request_ni n p)
      with 1(1) assms(1) ni_request_held [of e "thread_created env" n p] have "held_is True ?B e1"
        by (auto simp: held_is_def eng_ni_fits)
      from after [OF this] 1(4) loc_eng_msg_request_ni show ?thesis by simp
    next
      case (loc_eng_msg_inform_ni_response r p)
      with 1(1) held.call_api_fits [OF assms(1)] have "held_is True A e1" by (simp add: fits_def)
      from after [OF this] 1(4) loc_eng_msg_inform_ni_response host show ?thesis
        by (simp add: held_is_def emit_if_def emit_def ni_held_def)
    qed simp_all
  qed
qed

lemma popped_held: "held_is True A e \<Longrightarrow> me e = Some c \<Longrightarrow> deferred_q c = m # q \<Longrightarrow>
    \<exists>B. held_is True B (e\<lparr>me := Some (c\<lparr>deferred_q := q\<rparr>)\<rparr>) \<and> A = B + mset (ni_ptrs m)"
  by (auto simp: held_is_def ni_held_def queued_def host_ok_def)

lemma turn_held:
  assumes "held_is True A e" "deferred_turn conf resolve env e = Some (Turn e')"
  shows "held_is True A e'"
proof -
  from assms(2) obtain c where c: "me e = Some c" by (cases "me e") (auto simp: deferred_turn_def)
  with assms(2) obtain m q where q: "deferred_q c = m # q" by (cases "deferred_q c") (auto simp: deferred_turn_def)
  with c assms(2) have "deferred_action conf resolve env m (e\<lparr>me := Some (c\<lparr>deferred_q := q\<rparr>)\<rparr>) = Some e'"
    by (auto simp: deferred_turn_def Let_def split: if_splits)
  with popped_held [OF assms(1) c q] action_held show ?thesis by blast
qed

section \<open>Calls keep the data\<close>

definition keeps_ni :: "loc_afw \<Rightarrow> ('r \<times> loc_afw) option \<Rightarrow> bool" where
  "keeps_ni s x \<longleftrightarrow> (\<forall>A r s'. held_is True A (loc_afw_data s) \<longrightarrow> x = Some (r, s') \<longrightarrow> held_is True A (loc_afw_data s'))"

lemma with_engine_keeps:
  assumes "\<And>A. held_is True A (loc_afw_data s) \<Longrightarrow> fits_r (held_is True A) (f (loc_afw_data s))"
  shows "keeps_ni s (with_engine f s)"
  using assms by (auto simp: keeps_ni_def with_engine_def fits_r_def)

lemma plain_calls_keep:
  "keeps_ni s (loc_start s)" "keeps_ni s (loc_stop s)" "keeps_ni s (loc_inject_time t r u s)"
  "keeps_ni s (loc_inject_location la lo ac s)" "keeps_ni s (loc_delete_aiding_data f s)"
  "keeps_ni s (loc_set_position_mode m rc i a tm s)" "keeps_ni s (loc_update_criteria c s)" "keeps_ni s (loc_cleanup s)"
  "keeps_ni s (loc_agps_closed ty s)" "keeps_ni s (loc_agps_open_failed ty s)"
  "keeps_ni s (loc_ulp_send_network_position p s)" "keeps_ni s (loc_ulp_phone_context_settings_update x s)"
proof -
  show "keeps_ni s (loc_start s)" "keeps_ni s (loc_stop s)" "keeps_ni s (loc_inject_time t r u s)"
    "keeps_ni s (loc_inject_location la lo ac s)" "keeps_ni s (loc_delete_aiding_data f s)" "keeps_ni s (loc_update_criteria c s)"
    "keeps_ni s (loc_agps_closed ty s)" "keeps_ni s (loc_agps_open_failed ty s)"
    "keeps_ni s (loc_ulp_send_network_position p s)" "keeps_ni s (loc_ulp_phone_context_settings_update x s)"
    unfolding loc_start_def loc_stop_def loc_inject_time_def loc_inject_location_def loc_delete_aiding_data_def loc_update_criteria_def
      loc_agps_closed_def loc_agps_open_failed_def loc_ulp_send_network_position_def loc_ulp_phone_context_settings_update_def
    by (intro with_engine_keeps held.interface_fits; assumption)+
  have "keeps_ni s (with_engine (loc_eng_cleanup (gps_conf s)) s)" by (intro with_engine_keeps held.cleanup_fits)
  then show "keeps_ni s (loc_cleanup s)" by (auto simp: loc_cleanup_def keeps_ni_def)
  obtain p where "new_LocPosMode (locMode m) rc i a tm None None = Some p" by (simp add: new_LocPosMode_def)
  then show "keeps_ni s (loc_set_position_mode m rc i a tm s)"
    by (simp add: loc_set_position_mode_def) (intro with_engine_keeps held.interface_fits; assumption)
qed

lemma data_calls_keep:
  assumes "engine_good (loc_afw_data s)"
  shows "pred_option text_ok apn \<Longrightarrow> keeps_ni s (loc_agps_open ty apn bt s)"
    "pred_option text_ok apn \<Longrightarrow> keeps_ni s (loc_agps_ril_update_network_availability av apn s)"
    "text_ok host \<Longrightarrow> keeps_ni s (loc_agps_set_server resolve ty host port s)"
    "keeps_ni s (loc_xtra_inject_data d n s)" "keeps_ni s (loc_inject_raw_command d n s)"
    "keeps_ni s (loc_agps_init resolve b junk cb s)"
proof -
  note i = held.interface_data_fits
  show "pred_option text_ok apn \<Longrightarrow> keeps_ni s (loc_agps_open ty apn bt s)"
    "pred_option text_ok apn \<Longrightarrow> keeps_ni s (loc_agps_ril_update_network_availability av apn s)"
    "keeps_ni s (loc_xtra_inject_data d n s)" "keeps_ni s (loc_inject_raw_command d n s)"
    unfolding loc_agps_open_def loc_agps_ril_update_network_availability_def loc_xtra_inject_data_def loc_inject_raw_command_def
    by (intro with_engine_keeps i; assumption)+
  have "text_ok host \<Longrightarrow> keeps_ni s (with_engine (loc_eng_set_server_proxy resolve srv host port) s)" for srv
    by (intro with_engine_keeps i eng_context_good assms)
  then show "text_ok host \<Longrightarrow> keeps_ni s (loc_agps_set_server resolve ty host port s)"
    by (auto simp: loc_agps_set_server_def keeps_ni_def)
  show "keeps_ni s (loc_agps_init resolve b junk cb s)"
    using assms by (simp add: loc_agps_init_def with_engine_def agps_init_again keeps_ni_def)
qed

lemma callbacks_held:
  "held_is True A e \<Longrightarrow> held_is True A (e\<lparr>download_request_cb := b\<rparr>)" "held_is True A e \<Longrightarrow> held_is True A (e\<lparr>ulp_network_callback := b\<rparr>)"
  "held_is True A e \<Longrightarrow> held_is True A (e\<lparr>ulp_phone_context_req_cb := b\<rparr>)" "held_is True A e \<Longrightarrow> held_is True A (e\<lparr>ulp_initialized := b\<rparr>)"
  by (simp_all add: held_is_def ni_held_def queued_def host_ok_def)

lemma other_calls_keep:
  assumes "engine_good (loc_afw_data s)"
  shows "keeps_ni s (loc_xtra_init cb s)" "keeps_ni s (loc_ulp_network_init cb s)" "keeps_ni s (loc_ulp_phone_context_init cb s)"
    "keeps_ni s (loc_ni_init cb s)" "keeps_ni s (loc_ni_respond i r s)" "keeps_ni s (loc_init files gss rets adapter w (Some c) s)"
proof -
  show "keeps_ni s (loc_xtra_init cb s)" "keeps_ni s (loc_ulp_network_init cb s)" "keeps_ni s (loc_ulp_phone_context_init cb s)"
    by (simp_all add: loc_xtra_init_def loc_ulp_network_init_def loc_ulp_phone_context_init_def with_engine_def
        loc_eng_xtra_init_def loc_eng_ulp_network_init_def loc_eng_ulp_phone_context_init_def keeps_ni_def callbacks_held)
  show "keeps_ni s (loc_ni_init cb s)"
    by (auto simp: keeps_ni_def loc_ni_init_def with_engine_def eng_ni_init_def loc_eng_ni_init_def held_is_def
        ni_held_def queued_def host_ok_def)
  show "keeps_ni s (loc_ni_respond i r s)"
    by (auto simp: keeps_ni_def loc_ni_respond_def with_engine_def eng_ni_respond_def loc_eng_ni_respond_def eng_ni_def
        held_is_def ni_held_def ni_pending_def queued_def host_ok_def)
  show "keeps_ni s (loc_init files gss rets adapter w (Some c) s)"
    unfolding keeps_ni_def
  proof (intro allI impI)
    fix A r s' assume A: "held_is True A (loc_afw_data s)" and s': "loc_init files gss rets adapter w (Some c) s = Some (r, s')"
    have "held_is True A e1" if "loc_eng_set_engine_lock 1 (loc_afw_data s) = Some (q, e1)" for q e1
      using that held.interface_fits(3) [OF A, of 1] by (auto simp: fits_r_def)
    with loc_init_again_data [OF assms, of files gss rets adapter w c] A s' show "held_is True A (loc_afw_data s')"
      by (auto simp: callbacks_held)
  qed
qed

definition keeps_s :: "loc_afw \<Rightarrow> loc_afw option \<Rightarrow> bool" where
  "keeps_s s x \<longleftrightarrow> (\<forall>A s'. held_is True A (loc_afw_data s) \<longrightarrow> x = Some s' \<longrightarrow> held_is True A (loc_afw_data s'))"

lemma keeps_sI: "keeps_ni s x \<Longrightarrow> keeps_s s (map_option snd x)" "keeps_s s (Some s)"
  by (auto simp: keeps_ni_def keeps_s_def)

lemma call_keeps:
  assumes "engine_good (loc_afw_data s)" "call_allowed c"
  shows "keeps_s s (call_afw v c s)"
proof -
  note g = plain_calls_keep [of s] data_calls_keep [OF assms(1)] other_calls_keep [OF assms(1)]
  have ril: "keeps_ni s (Some ((), s))" by (simp add: keeps_ni_def)
  show ?thesis
    using assms(2)
    by (cases c; simp add: via_defs extension_cases table_defs ril_defs del: option.map)
       (auto simp: sLocEngInterface_def intro!: g ril keeps_sI)
qed

section \<open>Every event keeps the data\<close>

lemma modem_reports_held:
  assumes "held_is True A e" "report_allowed r" "modem_reports r e = Some e'"
  shows "held_is True (A + mset (requested (Modem r))) e'"
proof -
  from assms(3) obtain a :: LocApiAdapter and x where a: "modem_route (locEngHandle a) r = Some x" "send_route x e = Some e'"
    unfolding modem_reports_def bind_eq_Some_conv by blast
  have x: "\<forall>m. x = To_Engine m \<longrightarrow> msg_fits m \<and> ni_ptrs m = requested (Modem r)"
    "x = To_Ulp m \<Longrightarrow> requested (Modem r) = []" "x = To_Nobody \<Longrightarrow> requested (Modem r) = []" for m
    using a(1) assms(2)
    by (cases r; auto simp: reportPosition_def reportSv_def reportStatus_def reportNmea_def requestATL_def
        releaseATL_def requestXtraData_def requestNiNotify_def handleEngineDownEvent_def handleEngineUpEvent_def
        memcpy_def Let_def split: if_splits)+
  show ?thesis
  proof (cases x)
    case (To_Engine m)
    with a(2) x(1) assms(1) ni_held_snd [of m e e'] snd_deferred_fits [of e m] show ?thesis
      by (auto simp: held_is_def fits_def)
  next
    case (To_Ulp m)
    with a(2) x(2) held.ulps [OF assms(1), of m] show ?thesis by (simp add: loc_ulp_msg_sender_def fits_def)
  next
    case To_Nobody
    with a(2) x(3) assms(1) show ?thesis by simp
  qed
qed

definition sys_held :: "ptr multiset \<Rightarrow> loc_system \<Rightarrow> bool" where
  "sys_held A s \<longleftrightarrow> held_is True (ni_held (sys_engine s)) (sys_engine s) \<and> sys_ni s = A"

lemma sys_heldI: "held_is True B e \<Longrightarrow> sys_engine s = e \<Longrightarrow> A = B + mset (concat (map leaving_ptrs (sys_ni_threads s))) \<Longrightarrow> sys_held A s"
  by (auto simp: sys_held_def sys_ni_def held_is_def)

lemma sys_heldE:
  assumes "sys_held A s"
  obtains B where "held_is True B (sys_engine s)" "A = B + mset (concat (map leaving_ptrs (sys_ni_threads s)))"
  using assms by (auto simp: sys_held_def sys_ni_def)

lemma spawned_leaving: "concat (map leaving_ptrs (spawned e e')) = []"
  by (auto simp: spawned_def leaving_ptrs_def)

lemma deferred_event_held:
  assumes "sys_held A s" "sys_good s" "deferred_event v env s = Some s'"
  shows "sys_held A s'"
proof -
  from assms(2) have e: "engine_good (sys_engine s)" "\<not> deferred_over s" by (simp_all add: sys_good_def)
  from assms(1) obtain B where B: "held_is True B (sys_engine s)" "A = B + mset (concat (map leaving_ptrs (sys_ni_threads s)))"
    by (rule sys_heldE)
  from turn_good [OF e(1), of "gps_conf (sys_afw s)" "dev_resolve v" env] show ?thesis
  proof (elim disjE exE conjE)
    assume "deferred_turn (gps_conf (sys_afw s)) (dev_resolve v) env (sys_engine s) = Some Waiting"
    with assms(1,3) e(2) show ?thesis by (simp add: deferred_event_def)
  next
    fix e' assume t: "deferred_turn (gps_conf (sys_afw s)) (dev_resolve v) env (sys_engine s) = Some (Turn e')"
    with turn_held [OF B(1) t] assms(3) e(2) B(2) show ?thesis
      by (auto simp: deferred_event_def spawned_leaving intro!: sys_heldI)
  qed
qed

lemma leaving_ptrs_simps [simp]:
  "leaving_ptrs NI_Starting = []" "leaving_ptrs (NI_Waiting t) = []" "leaving_ptrs (NI_Leaving None) = []"
  "leaving_ptrs (NI_Leaving (Some m)) = ni_ptrs m"
  by (simp_all add: leaving_ptrs_def)

text \<open>The steps of a thread that holds nothing yet.\<close>

lemma ni_thread_moves:
  "mset (ni_pending (snd (ni_thread_collect d))) + mset (leaving_ptrs (fst (ni_thread_collect d))) = mset (ni_pending d)"
  "mset (ni_pending (snd (ni_thread_start now d))) + mset (leaving_ptrs (fst (ni_thread_start now d))) = mset (ni_pending d)"
  "mset (ni_pending (snd (ni_thread_test t d))) + mset (leaving_ptrs (fst (ni_thread_test t d))) = mset (ni_pending d)"
  "mset (ni_pending (snd (ni_thread_timeout d))) + mset (leaving_ptrs (fst (ni_thread_timeout d))) = mset (ni_pending d)"
proof -
  show c: "mset (ni_pending (snd (ni_thread_collect d))) + mset (leaving_ptrs (fst (ni_thread_collect d))) = mset (ni_pending d)" for d
    by (simp add: ni_thread_collect_def ni_pending_def)
  show t: "mset (ni_pending (snd (ni_thread_test t d))) + mset (leaving_ptrs (fst (ni_thread_test t d))) = mset (ni_pending d)" for t
    by (simp add: ni_thread_test_def c)
  show "mset (ni_pending (snd (ni_thread_start now d))) + mset (leaving_ptrs (fst (ni_thread_start now d))) = mset (ni_pending d)"
    by (simp add: ni_thread_start_def t)
  show "mset (ni_pending (snd (ni_thread_timeout d))) + mset (leaving_ptrs (fst (ni_thread_timeout d))) = mset (ni_pending d)"
    using c [of "d\<lparr>resp := GPS_NI_RESPONSE_NORESP\<rparr>"] by (simp add: ni_thread_timeout_def ni_pending_def)
qed

lemma ni_moves_held:
  assumes "sys_held A s" "i < length (sys_ni_threads s)" "leaving_ptrs (sys_ni_threads s ! i) = []"
    "mset (ni_pending (snd r)) + mset (leaving_ptrs (fst r)) = mset (ni_pending (loc_eng_ni (sys_engine s)))"
  shows "sys_held A (ni_moves i r s)"
proof -
  from assms(1) obtain B where B: "held_is True B (sys_engine s)" "A = B + mset (concat (map leaving_ptrs (sys_ni_threads s)))"
    by (rule sys_heldE)
  let ?e = "(sys_engine s)\<lparr>loc_eng_ni := snd r\<rparr>"
  have "ni_held ?e + mset (leaving_ptrs (fst r)) = B"
    using B(1) assms(4) by (auto simp: held_is_def ni_held_def union_ac)
  moreover have "held_is True (ni_held ?e) ?e" using B(1) by (simp add: held_is_def host_ok_def)
  ultimately show ?thesis
    using B(2) mset_concat_update [where f = leaving_ptrs and t = "fst r", OF assms(2,3)]
    by (intro sys_heldI) (auto simp: ni_moves_def union_ac)
qed

lemma ni_run_event_held:
  assumes "sys_held A s" "sys_good s" "ni_run_event i s = Some s'"
  shows "sys_held A s'"
proof (cases "i < length (sys_ni_threads s)")
  case True
  let ?t = "sys_ni_threads s ! i"
  show ?thesis
  proof (cases ?t)
    case (NI_Leaving answer)
    from assms(1) obtain B where B: "held_is True B (sys_engine s)" "A = B + mset (concat (map leaving_ptrs (sys_ni_threads s)))"
      by (rule sys_heldE)
    let ?e = "(sys_engine s)\<lparr>loc_eng_ni := ni_thread_leave (loc_eng_ni (sys_engine s))\<rparr>"
    let ?ts = "take i (sys_ni_threads s) @ drop (Suc i) (sys_ni_threads s)"
    have e: "held_is True B ?e" using B(1) by (auto simp: held_is_def ni_held_def ni_pending_def ni_thread_leave_def host_ok_def)
    from assms(3) True NI_Leaving obtain e1 where
      e1: "(case answer of None \<Rightarrow> Some ?e | Some m \<Rightarrow> snd_deferred m ?e) = Some e1"
        "s' = (put_engine e1 s)\<lparr>sys_ni_threads := ?ts\<rparr>"
      by (auto simp: ni_run_event_def bind_eq_Some_conv Let_def)
    have ok: "ni_thread_ok ?t" using assms(2) True by (simp add: sys_good_def)
    have "held_is True (B + mset (leaving_ptrs ?t)) e1"
    proof (cases answer)
      case (Some m)
      with e1(1) e ok NI_Leaving ni_held_snd [of m ?e e1] snd_deferred_fits [of ?e m] show ?thesis
        by (simp add: held_is_def fits_def)
    qed (use e1(1) e NI_Leaving in simp)
    moreover have "mset (concat (map leaving_ptrs (sys_ni_threads s))) = mset (leaving_ptrs ?t) + mset (concat (map leaving_ptrs ?ts))"
      by (subst id_take_nth_drop [OF True]) simp
    ultimately show ?thesis using e1(2) B(2) by (intro sys_heldI) (auto simp: union_ac)
  qed (use assms(1,3) True in \<open>auto simp: ni_run_event_def intro!: ni_moves_held ni_thread_moves\<close>)
qed (use assms in \<open>simp add: ni_run_event_def\<close>)

lemma ni_time_out_held: "sys_held A s \<Longrightarrow> ni_time_out_event i s = Some s' \<Longrightarrow> sys_held A s'"
  by (auto simp: ni_time_out_event_def intro!: ni_moves_held ni_thread_moves split: ni_thread.split_asm if_splits)

lemma sys_step_held:
  assumes "sys_held A s" "sys_good s" "event_allowed ev" "sys_step v ev s = Some s'"
  shows "sys_held (A + mset (requested ev)) s'"
proof -
  from assms(2) have e: "engine_good (sys_engine s)" by (simp add: sys_good_def)
  from assms(1) obtain B where B: "held_is True B (sys_engine s)" "A = B + mset (concat (map leaving_ptrs (sys_ni_threads s)))"
    by (rule sys_heldE)
  show ?thesis
  proof (cases ev)
    case (Framework c)
    with assms(4) obtain a where a: "call_afw v c (sys_afw s) = Some a" "s' = s\<lparr>sys_afw := a\<rparr>" by auto
    with call_keeps [OF e, of c v] Framework assms(3) B(1) have "held_is True B (loc_afw_data a)" by (simp add: keeps_s_def)
    with a(2) B(2) Framework show ?thesis by (intro sys_heldI [of B "loc_afw_data a"]) simp_all
  next
    case (Modem r)
    with assms(4) obtain e' where e': "modem_reports r (sys_engine s) = Some e'" "s' = put_engine e' s" by auto
    with modem_reports_held [OF B(1) _ e'(1)] Modem assms(3) have "held_is True (B + mset (requested ev)) e'" by simp
    with e'(2) B(2) show ?thesis by (intro sys_heldI [of "B + mset (requested ev)" e']) (simp_all add: union_ac)
  next
    case (Daemon m)
    with assms(4) obtain e' where e': "snd_deferred m (sys_engine s) = Some e'" "s' = put_engine e' s" by auto
    have "\<not> ni_msg m \<and> m \<noteq> loc_eng_msg LOC_ENG_MSG_ENGINE_UP" if "daemon_allowed m" using that by (cases m) auto
    with held.sends [OF B(1), of m] daemon_allowed_fits [of m] Daemon assms(3) e'(1) have "held_is True B e'" by (simp add: fits_def)
    with e'(2) B(2) Daemon show ?thesis by (intro sys_heldI [of B e']) simp_all
  next
    case (Tick dt)
    with assms(4) B show ?thesis by (intro sys_heldI [of B "sys_engine s"]) auto
  next
    case (Deferred env)
    with deferred_event_held [OF assms(1,2)] assms(4) show ?thesis by simp
  next
    case (Ni_run i)
    with ni_run_event_held [OF assms(1,2)] assms(4) show ?thesis by simp
  next
    case (Ni_time_out i)
    with ni_time_out_held [OF assms(1)] assms(4) show ?thesis by simp
  qed
qed

lemma sys_run_held:
  "sys_held A s \<Longrightarrow> sys_good s \<Longrightarrow> \<forall>ev \<in> set evs. event_allowed ev \<Longrightarrow> sys_run v evs s = Some s' \<Longrightarrow>
   sys_held (A + mset (concat (map requested evs))) s'"
proof (induction evs arbitrary: A s)
  case (Cons ev evs)
  from sys_step_good [OF Cons.prems(2), of ev v] Cons.prems(3) obtain s1 where
    1: "sys_step v ev s = Some s1" "sys_good s1" by auto
  from sys_step_held [OF Cons.prems(1,2) _ 1(1)] Cons.prems(3) have "sys_held (A + mset (requested ev)) s1" by simp
  from Cons.IH [OF this 1(2)] Cons.prems(3,4) 1(1) show ?case by (simp add: union_ac)
qed simp

section \<open>From start-up on\<close>

lemma agps_init_fits: "host_ok e \<Longrightarrow> fits_r host_ok (loc_eng_agps_init resolve b junk cb e)"
  unfolding loc_eng_agps_init_def
  by (intro INIT_CHECK_fits fits_map(2) host.agps_reinit_fits) (auto simp: host_ok_def queued_def emit_if_def emit_def)

definition starting :: "afw_env \<Rightarrow> loc_afw \<Rightarrow> bool" where
  "starting v a \<longleftrightarrow> \<not> eng_context (loc_afw_data a) \<and> me (loc_afw_data a) = None \<and> dev_adapter v \<noteq> None
     \<and> (get_target_name (dev_files v) = TARGET_NAME_APQ8064_STANDALONE \<longrightarrow> 0 \<le> dev_gss_open v)"

definition system_of :: "loc_afw \<Rightarrow> loc_system" where
  "system_of a = \<lparr>sys_afw = a, sys_ni_threads = [], sys_clock = 0, deferred_over = False\<rparr>"

lemma loc_init_start_full:
  assumes "starting v a"
  obtains r s fx conf c b e' where "gi_init sLocEngInterface v (Some cb) a = Some (r, s)"
    "loc_eng_init conf (dev_init_rets v) (Some fx) (dev_owner_word v) (Some c) init_events b (loc_afw_data a) = Some (r, e')"
    "loc_afw_data s \<in> {e', e'\<lparr>ulp_initialized := True\<rparr>}" "gps_conf s = conf"
    "lc_location_cb c" "lc_status_cb c = fw_status_cb cb" "b = loc_eng_ulp_inf a" "gps_loc_cb s = fw_location_cb cb"
    "\<not> loc_eng_ulp_inf a \<longrightarrow> loc_afw_data s = e'"
proof -
  from assms obtain fx where fx: "dev_adapter v = Some fx" by (auto simp: starting_def)
  have ev: "init_events \<noteq> 0" by (simp add: init_events_def)
  from assms have e: "\<not> eng_context (loc_afw_data a)" "me (loc_afw_data a) = None" by (simp_all add: starting_def)
  let ?body = "\<lambda>conf c b t. do {
      (r, s1) \<leftarrow> with_engine (loc_eng_init conf (dev_init_rets v) (Some fx) (dev_owner_word v) (Some c) init_events b) t;
      (_, s2) \<leftarrow> with_engine (\<lambda>e. Some (loc_eng_ulp_init (loc_eng_ulp_inf s1) e)) s1;
      Some (r, s2) }"
  let ?standalone = "get_target_name (dev_files v) = TARGET_NAME_APQ8064_STANDALONE"
  let ?s1 = "a\<lparr>gps_loc_cb := fw_location_cb cb, gps_sv_cb := fw_sv_status_cb cb\<rparr>"
  let ?t = "if ?standalone then ?s1\<lparr>gps_conf := (gps_conf ?s1)\<lparr>CAPABILITIES :=
        CAPABILITIES (gps_conf ?s1) AND NOT (GPS_CAPABILITY_MSA OR GPS_CAPABILITY_MSB)\<rparr>, gss_fd := dev_gss_open v\<rparr> else ?s1"
  have "\<not> (?standalone \<and> dev_gss_open v < 0)" using assms by (auto simp: starting_def)
  let ?c = "\<lparr>lc_location_cb = True, lc_status_cb = fw_status_cb cb, lc_sv_status_cb = True,
      lc_nmea_cb = fw_nmea_cb cb, lc_set_capabilities_cb = fw_set_capabilities_cb cb,
      lc_acquire_wakelock_cb = fw_acquire_wakelock_cb cb, lc_release_wakelock_cb = fw_release_wakelock_cb cb,
      lc_location_ext_parser = None, lc_sv_ext_parser = None\<rparr>"
  have g: "gi_init sLocEngInterface v (Some cb) a = ?body (gps_conf ?t) ?c (loc_eng_ulp_inf ?t) ?t"
    using \<open>\<not> (?standalone \<and> dev_gss_open v < 0)\<close>
    unfolding sLocEngInterface_def loc_init_def Let_def fx GpsInterface.simps option.case by (simp only: if_False)
  have tt: "loc_afw_data ?t = loc_afw_data a" "loc_eng_ulp_inf ?t = loc_eng_ulp_inf a" "gps_loc_cb ?t = fw_location_cb cb" by simp_all
  obtain t conf b c where t: "loc_afw_data t = loc_afw_data a" "gi_init sLocEngInterface v (Some cb) a = ?body conf c b t"
    "gps_conf t = conf" "lc_location_cb c" "lc_status_cb c = fw_status_cb cb" "b = loc_eng_ulp_inf a" "loc_eng_ulp_inf t = loc_eng_ulp_inf a"
    "gps_loc_cb t = fw_location_cb cb" by (rule that [OF tt(1) g refl _ _ tt(2) tt(2) tt(3)]) simp_all
  from loc_eng_init_ok_core [OF e ev, of conf "dev_init_rets v" fx "dev_owner_word v" c b] obtain r e' where
    e': "loc_eng_init conf (dev_init_rets v) (Some fx) (dev_owner_word v) (Some c) init_events b (loc_afw_data a) = Some (r, e')" by blast
  show thesis
  proof (rule that [OF _ e'])
    show "gi_init sLocEngInterface v (Some cb) a = Some (r, t\<lparr>loc_afw_data := snd (loc_eng_ulp_init (loc_eng_ulp_inf t) e')\<rparr>)"
      using t e' by (simp add: with_engine_def loc_eng_ulp_init_def)
  qed (simp_all add: loc_eng_ulp_init_def t)
qed

lemma loc_init_start_data:
  assumes "starting v a"
  obtains r s fx conf c b e' where "gi_init sLocEngInterface v (Some cb) a = Some (r, s)"
    "loc_eng_init conf (dev_init_rets v) (Some fx) (dev_owner_word v) (Some c) init_events b (loc_afw_data a) = Some (r, e')"
    "loc_afw_data s \<in> {e', e'\<lparr>ulp_initialized := True\<rparr>}" "gps_conf s = conf"
  by (rule loc_init_start_full [OF assms, of cb]) (rule that)

lemma loc_init_start:
  assumes "starting v a"
  obtains r s where "gi_init sLocEngInterface v (Some cb) a = Some (r, s)" "eng_ok False (loc_afw_data s)" "host_ok (loc_afw_data s)"
    "eng_out (loc_afw_data a) = [] \<longrightarrow> held_is False {#} (loc_afw_data s)"
proof -
  have ev: "init_events \<noteq> 0" by (simp add: init_events_def)
  from assms have e: "\<not> eng_context (loc_afw_data a)" "me (loc_afw_data a) = None" by (simp_all add: starting_def)
  obtain r s fx conf c b e' where
    1: "gi_init sLocEngInterface v (Some cb) a = Some (r, s)"
      "loc_eng_init conf (dev_init_rets v) (Some fx) (dev_owner_word v) (Some c) init_events b (loc_afw_data a) = Some (r, e')"
      "loc_afw_data s \<in> {e', e'\<lparr>ulp_initialized := True\<rparr>}" "gps_conf s = conf" by (rule loc_init_start_data [OF assms])
  let ?e3 = "first_engine conf fx c init_events b (loc_afw_data a)"
  have "host_ok ?e3" "eng_out (loc_afw_data a) = [] \<longrightarrow> held_is False {#} ?e3"
    by (simp_all add: first_engine_fields [OF e(2)] host_ok_def held_is_def ni_held_def ni_pending_def)
  note fresh = this
  from loc_eng_init_ok_core [OF e ev, of conf "dev_init_rets v" fx "dev_owner_word v" c b] 1(2) have "eng_ok False e'" by auto
  moreover from host.init_fits [OF e(1) ev fresh(1), of "dev_init_rets v" "dev_owner_word v"] 1(2) have "host_ok e'"
    by (simp add: fits_r_def)
  moreover have "held_is False {#} e'" if "eng_out (loc_afw_data a) = []"
  proof -
    from that fresh(2) have "held_is False {#} ?e3" by simp
    from held.init_fits [OF e(1) ev this, of "dev_init_rets v" "dev_owner_word v"] 1(2) show ?thesis by (simp add: fits_r_def)
  qed
  ultimately have e': "eng_ok False e'" "host_ok e'" "eng_out (loc_afw_data a) = [] \<longrightarrow> held_is False {#} e'" by blast+
  from e' 1(3) have "eng_ok False (loc_afw_data s)" "host_ok (loc_afw_data s)"
      "eng_out (loc_afw_data a) = [] \<longrightarrow> held_is False {#} (loc_afw_data s)"
    by (auto simp: eng_ok_def host_ok_def queued_def held_is_def ni_held_def)
  with 1(1) show thesis by (rule that)
qed

lemma agps_init_start:
  assumes "eng_ok False (loc_afw_data s)" "host_ok (loc_afw_data s)"
  shows "\<exists>s'. call_afw v (Call_agps_init True) s = Some s' \<and> engine_good (loc_afw_data s')"
  using agps_init_safe [OF assms(1), of "dev_resolve v" "dev_bit_api v" "dev_junk v"]
    agps_init_fits [OF assms(2), of "dev_resolve v" "dev_bit_api v" "dev_junk v" True]
  by (auto simp: via_defs extension_cases table_defs loc_agps_init_def with_engine_def safe_r_def fits_r_def engine_good_def)

lemma agps_init_held:
  assumes "held_is False A (loc_afw_data s)" "eng_ok False (loc_afw_data s)" "call_afw v (Call_agps_init True) s = Some s'"
  shows "held_is False A (loc_afw_data s')"
proof -
  let ?e = "loc_afw_data s"
  have "held_is False A (emit_if (dev_bit_api v) Server_launch (?e\<lparr>agps_status_cb := True,
      agnss_nif := Some (new_AgpsStateMachine (dev_junk v) AGPS_TYPE_SUPL False),
      internet_nif := Some (new_AgpsStateMachine (dev_junk v) AGPS_TYPE_WWAN_ANY False),
      wifi_nif := Some (new_AgpsStateMachine (dev_junk v) AGPS_TYPE_WIFI True)\<rparr>))"
    using assms(1) by (intro held.emits_if) (simp_all add: held_is_def ni_held_def queued_def host_ok_def)
  from held.agps_reinit_fits [OF this, of "dev_resolve v"] assms(1) have
    "fits_r (held_is False A) (loc_eng_agps_init (dev_resolve v) (dev_bit_api v) (dev_junk v) True ?e)"
    unfolding loc_eng_agps_init_def by (intro INIT_CHECK_fits fits_map(2)) simp_all
  with assms(3) show ?thesis
    by (auto simp: via_defs extension_cases table_defs loc_agps_init_def with_engine_def fits_r_def)
qed

lemma startup:
  assumes "starting v a"
  obtains s where "sys_run v [Framework (Call_init (Some cb)), Framework (Call_agps_init True)] (system_of a) = Some s" "sys_good s"
    "sys_ni_threads s = []" "eng_out (loc_afw_data a) = [] \<longrightarrow> held_is False {#} (sys_engine s)"
proof -
  obtain r s1 where
    1: "gi_init sLocEngInterface v (Some cb) a = Some (r, s1)" "eng_ok False (loc_afw_data s1)" "host_ok (loc_afw_data s1)"
      "eng_out (loc_afw_data a) = [] \<longrightarrow> held_is False {#} (loc_afw_data s1)" by (rule loc_init_start [OF assms])
  from agps_init_start [OF 1(2,3), of v] obtain s2 where
    2: "call_afw v (Call_agps_init True) s1 = Some s2" "engine_good (loc_afw_data s2)" by blast
  with 1(1) show thesis
    by (intro that [of "(system_of a)\<lparr>sys_afw := s2\<rparr>"])
       (auto simp: system_of_def sys_good_def agps_init_held [OF _ 1(2) 2(1)] 1(4))
qed

lemma sys_run_append: "sys_run v (xs @ ys) s = sys_run v xs s \<bind> sys_run v ys"
  by (induction xs arbitrary: s) (auto split: bind_split)


lemma distinct_of_subset:
  assumes "mset xs \<subseteq># mset ys" "distinct ys"
  shows "distinct xs"
proof -
  obtain zs where "mset ys = mset (xs @ zs)" using assms(1) by (metis mset_subset_eq_exists_conv ex_mset mset_append)
  with assms(2) show ?thesis using mset_eq_imp_distinct_iff [of ys "xs @ zs"] by simp
qed

lemma ni_init_start:
  assumes "held_is False {#} (sys_engine s)" "sys_ni_threads s = []"
  obtains s' where "sys_step v (Framework (Call_ni_init True)) s = Some s'" "sys_held {#} s'"
proof -
  let ?e = "eng_ni_init True (sys_engine s)"
  from assms(1) have "held_is True {#} ?e"
    by (auto simp: held_is_def eng_ni_init_def loc_eng_ni_init_def ni_held_def ni_pending_def queued_def host_ok_def)
  then have "sys_held {#} (put_engine ?e s)" by (intro sys_heldI) (simp_all add: assms(2))
  moreover have "sys_step v (Framework (Call_ni_init True)) s = Some (put_engine ?e s)"
    by (simp add: via_defs extension_cases table_defs loc_ni_init_def with_engine_def put_engine_def)
  ultimately show thesis using that by blast
qed


definition example_sys_env :: afw_env where
  "example_sys_env = \<lparr>dev_files = Map.empty, dev_gss_open = -1, dev_init_rets = (\<lambda>_. LOC_API_ADAPTER_ERR_SUCCESS),
     dev_v02 = Loaded (Some default_LocPosMode), dev_rpc = Not_Loaded, dev_owner_word = 0, dev_baseband = ''csfb'', dev_libgeofence = No_library,
     dev_gethostbyname = Map.empty, dev_inet_aton = Map.empty, dev_bit_api = False, dev_junk = 0\<rparr>"

lemma example_starting: "starting example_sys_env example_afw"
proof -
  have "get_target_name Map.empty \<noteq> TARGET_NAME_APQ8064_STANDALONE"
    by (simp add: get_target_name_def read_a_line_def line_is_def TARGET_NAME_OTHER_def TARGET_NAME_APQ8064_STANDALONE_def)
  moreover have "loc_afw_data example_afw = fresh_engine" by (simp add: example_afw_def)
  ultimately show ?thesis by (simp add: starting_def example_sys_env_def dev_adapter_def getLocApiAdapter_def)
qed

definition example_events :: "sys_event list" where
  "example_events = [Modem (Request_ni ni_example_request 7), Deferred example_env, Ni_run 0, Framework Call_start,
     Framework (Call_data_conn_open AGPS_TYPE_SUPL (Some ''apn'') 0), Framework (Call_ni_respond 0 1), Ni_run 0, Ni_run 0,
     Modem (Request_ni ni_example_request 8), Deferred example_env]"



text \<open>Without the framework's callback the data of a request is dropped, and nobody frees it.\<close>

lemma ni_request_without_callback_leaks:
  assumes "\<not> ni_notify_cb e"
  shows "handle_msg conf resolve env (loc_eng_msg_request_ni n p) e = Some e"
  using assms by (simp add: loc_eng_ni_request_handler_def eng_ni_def)

end
