(* ===== verification/Loc_System_Live.thy ===== *)
theory Loc_System_Live
  imports Loc_System_Ni
begin

text \<open>
  The deferred thread empties its queue: only a restart of the modem queues messages while it is
  handled, and none of these is another restart.
\<close>

section \<open>The queue drains\<close>

definition restarts :: "engine \<Rightarrow> nat" where
  "restarts e = length (filter (\<lambda>m. m = loc_eng_msg LOC_ENG_MSG_ENGINE_UP) (queued e))"

definition queue_is :: "loc_eng_msg list \<Rightarrow> engine \<Rightarrow> bool" where
  "queue_is q e \<longleftrightarrow> queued e = q"

definition restarts_most :: "nat \<Rightarrow> engine \<Rightarrow> bool" where
  "restarts_most n e \<longleftrightarrow> text_ok (supl_host_buf e) \<and> restarts e \<le> n"

lemma eng_ni_queue: "queued (eng_ni r e) = queued e" "supl_host_buf (eng_ni r e) = supl_host_buf e"
proof -
  have "queued (eng_ni_event ev e) = queued e \<and> supl_host_buf (eng_ni_event ev e) = supl_host_buf e" for ev e
    by (cases ev) (simp_all add: loc_eng_mute_one_session_def emit_def)
  then have "queued (fold eng_ni_event evs e) = queued e \<and> supl_host_buf (fold eng_ni_event evs e) = supl_host_buf e" for evs e
    by (induction evs arbitrary: e) auto
  then show "queued (eng_ni r e) = queued e" "supl_host_buf (eng_ni r e) = supl_host_buf e"
    by (simp_all add: eng_ni_def)
qed

lemma put_nif_host: "supl_host_buf (put_nif k m e) = supl_host_buf e"
  by (cases k) simp_all

interpretation quiet_queue: engine_part "queue_is q" for q
  by unfold_locales (simp_all add: queue_is_def eng_ni_queue)

interpretation few_restarts: engine_sender "restarts_most n" for n
proof unfold_locales
  fix e m assume "restarts_most n e" "msg_fits m" "\<not> ni_msg m" "m \<noteq> loc_eng_msg LOC_ENG_MSG_ENGINE_UP"
  then show "fits (restarts_most n) (snd_deferred m e)"
    by (auto simp: restarts_most_def restarts_def fits_def snd_deferred_def queued_def)
next
  fix e m assume "restarts_most n e"
  then show "fits (restarts_most n) (snd_ulp m e)"
    by (auto simp: restarts_most_def restarts_def fits_def snd_ulp_def queued_def)
qed (simp_all add: restarts_most_def restarts_def eng_ni_queue put_nif_host)

lemma action_quiet:
  assumes "msg \<noteq> loc_eng_msg LOC_ENG_MSG_ENGINE_UP" "deferred_action conf resolve env msg e = Some e'"
  shows "queued e' = queued e"
proof -
  let ?P = "queue_is (queued e)"
  have P: "?P e" by (simp add: queue_is_def)
  have h: "fits ?P (handle_msg conf resolve env msg e)"
  proof (cases "ni_msg msg")
    case True
    with P show ?thesis by (cases msg) (auto simp: queue_is_def eng_ni_queue intro!: fits_Some quiet_queue.call_api_fits)
  qed (rule quiet_queue.handle_quiet_fits [OF P _ assms(1)])
  have "fits ?P (deferred_action conf resolve env msg e)"
    unfolding deferred_action_def
    by (rule fits_bind(1) [OF h], rule fits_bind(1) [OF quiet_queue.after_agps_fits], assumption,
        rule fits_bind(1) [OF quiet_queue.after_aiding_fits [OF quiet_queue.pending(1)]], assumption)
       (cases msg; simp add: fits_def queue_is_def emit_if_def emit_def)
  with assms(2) show ?thesis by (simp add: fits_def queue_is_def)
qed

lemma action_restart:
  assumes "text_ok (supl_host_buf e)" "deferred_action conf resolve env (loc_eng_msg LOC_ENG_MSG_ENGINE_UP) e = Some e'"
  shows "restarts e' \<le> restarts e"
proof -
  let ?P = "restarts_most (restarts e)"
  have P: "?P e" by (simp add: restarts_most_def assms(1))
  have "fits ?P (deferred_action conf resolve env (loc_eng_msg LOC_ENG_MSG_ENGINE_UP) e)"
    unfolding deferred_action_def
    by (rule fits_bind(1) [OF few_restarts.handle_msg_fits [OF P]], simp, rule fits_bind(1) [OF few_restarts.after_agps_fits], assumption,
        rule fits_bind(1) [OF few_restarts.after_aiding_fits [OF few_restarts.pending(1)]], assumption) (simp add: fits_def)
  with assms(2) show ?thesis by (simp add: fits_def restarts_most_def)
qed

lemma turn_decreases:
  assumes "engine_good e" "deferred_turn conf resolve env e = Some (Turn e')"
  shows "restarts e' < restarts e \<or> (restarts e' = restarts e \<and> length (queued e') < length (queued e))"
proof -
  from assms(2) obtain c where c: "me e = Some c" by (cases "me e") (auto simp: deferred_turn_def)
  with assms(2) obtain m q where q: "deferred_q c = m # q" by (cases "deferred_q c") (auto simp: deferred_turn_def)
  let ?e1 = "e\<lparr>me := Some (c\<lparr>deferred_q := q\<rparr>)\<rparr>"
  from c q assms(2) have a: "deferred_action conf resolve env m ?e1 = Some e'"
    by (auto simp: deferred_turn_def Let_def split: if_splits)
  have e1: "queued e = m # queued ?e1" using c q by (simp add: queued_def)
  have "text_ok (supl_host_buf ?e1)" using assms(1) by (simp add: engine_good_def host_ok_def)
  with action_restart [of ?e1 conf resolve env e'] action_quiet [OF _ a] a show ?thesis
    by (cases "m = loc_eng_msg LOC_ENG_MSG_ENGINE_UP") (auto simp: restarts_def e1)
qed

lemma good_drains:
  assumes "sys_good s"
  shows "\<exists>n s'. sys_run v (map (\<lambda>i. Deferred (env (k + i))) [0..<n]) s = Some s' \<and> queued (sys_engine s') = []"
  using assms
proof (induction s arbitrary: k rule: wf_induct_rule [OF wf_measures [of "[\<lambda>s. restarts (sys_engine s), \<lambda>s. length (queued (sys_engine s))]"]])
  case (1 s)
  from 1(2) have e: "engine_good (sys_engine s)" "\<not> deferred_over s" by (simp_all add: sys_good_def)
  from turn_good [OF e(1), of "gps_conf (sys_afw s)" "dev_resolve v" "env k"] show ?case
  proof (elim disjE exE conjE)
    assume "queued (sys_engine s) = []"
    then show ?thesis by (intro exI [of _ 0]) simp
  next
    fix m q e' assume t: "deferred_turn (gps_conf (sys_afw s)) (dev_resolve v) (env k) (sys_engine s) = Some (Turn e')"
    from deferred_event_good [OF 1(2), of v "env k"] obtain s1 where s1: "deferred_event v (env k) s = Some s1" "sys_good s1" by blast
    with t e(2) have "sys_engine s1 = e'" by (auto simp: deferred_event_def)
    with turn_decreases [OF e(1) t] have "(s1, s) \<in> measures [\<lambda>s. restarts (sys_engine s), \<lambda>s. length (queued (sys_engine s))]" by auto
    from 1(1) [OF this s1(2), of "Suc k"] obtain n s' where
      n: "sys_run v (map (\<lambda>i. Deferred (env (Suc k + i))) [0..<n]) s1 = Some s'" "queued (sys_engine s') = []" by blast
    have "map (\<lambda>i. Deferred (env (k + i))) [0..<Suc n] = Deferred (env k) # map (\<lambda>i. Deferred (env (Suc k + i))) [0..<n]"
      by (simp add: upt_conv_Cons map_Suc_upt [symmetric] del: upt_Suc)
    with n s1(1) show ?thesis by (intro exI [of _ "Suc n"] exI [of _ s']) simp
  qed
qed

text \<open>
  C27: Whatever the modem answers, the deferred thread works off its queue: from every state that the
  library can be in after start-up, if nobody sends any more, finitely many turns empty the queue,
  although a restart of the modem queues messages itself.
\<close>

theorem queue_drains:
  assumes "starting v a" "\<forall>ev \<in> set evs. event_allowed ev"
  shows "\<exists>s n s'. sys_run v (Framework (Call_init (Some cb)) # Framework (Call_agps_init True) # evs) (system_of a) = Some s
     \<and> sys_run v (map (\<lambda>i. Deferred (env i)) [0..<n]) s = Some s' \<and> queued (sys_engine s') = []"
proof -
  obtain s1 where 1: "sys_run v [Framework (Call_init (Some cb)), Framework (Call_agps_init True)] (system_of a) = Some s1"
      "sys_good s1" by (rule startup [OF assms(1)])
  from sys_run_good [OF this(2) assms(2), of v] obtain s where s: "sys_run v evs s1 = Some s" "sys_good s" by blast
  with 1(1) sys_run_append [of v "[Framework (Call_init (Some cb)), Framework (Call_agps_init True)]" evs "system_of a"]
  have "sys_run v (Framework (Call_init (Some cb)) # Framework (Call_agps_init True) # evs) (system_of a) = Some s" by simp
  with good_drains [OF s(2), of v env 0] show ?thesis by auto
qed

lemma queue_drains_witness:
  "\<exists>s n s'. sys_run example_sys_env (Framework (Call_init (Some example_fw_callbacks)) # Framework (Call_agps_init True)
        # [Modem Engine_down, Modem Engine_up]) (system_of example_afw) = Some s
     \<and> sys_run example_sys_env (map (\<lambda>i. Deferred example_env) [0..<n]) s = Some s' \<and> queued (sys_engine s') = []"
  by (rule queue_drains [OF example_starting]) simp

end
