(* ===== verification/Loc_System_Flows.thy ===== *)
theory Loc_System_Flows
  imports Loc_System_Live Dmn_Engine
begin

text \<open>
  Conversations between the modem and Android through the whole library (Loc\_System): a data
  connection that the modem asks for, uses and gives back, and a request of the network that the
  user answers, or does not. Each is a sequence of events, composed of steps whose states are
  described by what the next step needs.
\<close>

section \<open>Composition of steps\<close>

definition flow :: "afw_env \<Rightarrow> (loc_system \<Rightarrow> bool) \<Rightarrow> sys_event list \<Rightarrow> (loc_system \<Rightarrow> bool) \<Rightarrow> bool" where
  "flow v P evs Q \<longleftrightarrow> (\<forall>s. P s \<longrightarrow> (\<exists>s'. sys_run v evs s = Some s' \<and> Q s'))"

lemma flowD: "flow v P evs Q \<Longrightarrow> P s \<Longrightarrow> \<exists>s'. sys_run v evs s = Some s' \<and> Q s'"
  by (simp add: flow_def)

lemma flow_step:
  assumes "\<And>s. P s \<Longrightarrow> \<exists>s'. sys_step v ev s = Some s' \<and> Q s'"
  shows "flow v P [ev] Q"
  using assms by (fastforce simp: flow_def)

lemma flow_Cons:
  assumes "flow v P [ev] Q" "flow v Q evs R"
  shows "flow v P (ev # evs) R"
  unfolding flow_def
proof (intro allI impI)
  fix s assume "P s"
  from flowD [OF assms(1) this] obtain s1 where 1: "sys_step v ev s = Some s1" "Q s1"
    by (cases "sys_step v ev s") auto
  from flowD [OF assms(2) this(2)] 1(1) show "\<exists>s'. sys_run v (ev # evs) s = Some s' \<and> R s'" by simp
qed

lemma flow_nil: "(\<And>s. P s \<Longrightarrow> Q s) \<Longrightarrow> flow v P [] Q"
  by (simp add: flow_def)

section \<open>Messages into the queue\<close>

text \<open>The state at rest: the engine is calm, \<open>q\<close> is its queue and \<open>out\<close> what has left it.\<close>

definition resting :: "loc_eng_msg list \<Rightarrow> eng_out list \<Rightarrow> loc_system \<Rightarrow> bool" where
  "resting q out s \<longleftrightarrow> calm (sys_engine s) \<and> queued (sys_engine s) = q \<and> eng_out (sys_engine s) = out \<and> \<not> deferred_over s"

lemma modem_sends:
  assumes "calm (sys_engine s)" "\<And>h. modem_route h r = Some (To_Engine msg)"
  shows "sys_step v (Modem r) s = map_option (\<lambda>e. put_engine e s) (snd_deferred msg (sys_engine s))"
proof -
  from assms(1) obtain a where "client_handle (sys_engine s) = Some a" by (auto simp: calm_def quiet_def)
  with assms(2) show ?thesis by (simp add: modem_reports_def)
qed

lemma turn_calm:
  assumes "calm e" "queued e = [msg]" "handle_msg conf resolve env msg (pop e) = Some e1" "calm e1"
  shows "deferred_turn conf resolve env e = Some (Turn (delete_msg msg e1))"
proof (rule turn_quiet)
  show "quiet e" "queued e = [msg]" using assms(1,2) by (simp_all add: calm_def)
  have flags: "e1\<lparr>agps_request_pending := False\<rparr> = e1" "e1\<lparr>stop_request_pending := False\<rparr> = e1"
      "\<not> stop_request_pending e1" "after_aiding e1 = Some e1"
    using assms(4) by (simp_all add: calm_def quiet_def after_aiding_def)
  then have "after_agps env (msgid msg) e1 = Some e1" by (simp add: after_agps_def)
  then show "deferred_action conf resolve env msg (pop e) = Some (delete_msg msg e1)"
    unfolding deferred_action_def assms(3) by (simp add: flags(2,4))
qed

section \<open>A data connection for the modem\<close>

text \<open>The machine \<open>k\<close> is \<open>m\<close>, and the machine of the SUPL server is not used by anyone else.\<close>

definition nif_at :: "nif_id \<Rightarrow> AgpsStateMachine \<Rightarrow> loc_eng_msg list \<Rightarrow> eng_out list \<Rightarrow> loc_system \<Rightarrow> bool" where
  "nif_at k m q out s \<longleftrightarrow> resting q out s \<and> agps_status_cb (sys_engine s) \<and> get_nif k (sys_engine s) = Some m
     \<and> (k \<noteq> Agnss \<longrightarrow> (\<exists>m0. agnss_nif (sys_engine s) = Some m0 \<and> mSubscribers m0 = []))"

lemma nif_at_snd:
  assumes "nif_at k m q out s"
  obtains e' where "snd_deferred msg (sys_engine s) = Some e'" "nif_at k m (q @ [msg]) out (put_engine e' s)"
proof -
  from assms have c: "calm (sys_engine s)" by (simp add: nif_at_def resting_def)
  obtain e' where e': "snd_deferred msg (sys_engine s) = Some e'" "calm e'" "queued e' = queued (sys_engine s) @ [msg]"
      "eng_out e' = eng_out (sys_engine s)" "agps_status_cb e' = agps_status_cb (sys_engine s)"
      "\<And>j. get_nif j e' = get_nif j (sys_engine s)"
    by (rule calm_snd [OF c, of msg]) blast
  from e'(6) [of Agnss] have "agnss_nif e' = agnss_nif (sys_engine s)" by simp
  with e' assms have "nif_at k m (q @ [msg]) out (put_engine e' s)" by (simp add: nif_at_def resting_def)
  with e'(1) show thesis by (rule that)
qed

lemma nif_modem:
  assumes "\<And>h. modem_route h r = Some (To_Engine msg)"
  shows "flow v (nif_at k m [] out) [Modem r] (nif_at k m [msg] out)"
proof (rule flow_step)
  fix s assume s: "nif_at k m [] out s"
  obtain e' where e': "snd_deferred msg (sys_engine s) = Some e'" "nif_at k m ([] @ [msg]) out (put_engine e' s)"
    by (rule nif_at_snd [OF s])
  from s have "calm (sys_engine s)" by (simp add: nif_at_def resting_def)
  from modem_sends [OF this assms, of v] e'(1) have "sys_step v (Modem r) s = Some (put_engine e' s)" by simp
  with e'(2) show "\<exists>s'. sys_step v (Modem r) s = Some s' \<and> nif_at k m [msg] out s'" by (metis append_Nil)
qed

lemma nif_turn:
  assumes "\<And>conf e. get_nif k e = Some m \<Longrightarrow> k \<noteq> Agnss \<longrightarrow> (\<exists>m0. agnss_nif e = Some m0 \<and> mSubscribers m0 = [])
      \<Longrightarrow> handle_msg conf (dev_resolve v) env msg e = on_nif k f e"
    and "f m = m'" "sm_out m' = sm_out m @ evs" "\<And>e. delete_msg msg e = e"
  shows "flow v (nif_at k m [msg] out) [Deferred env] (nif_at k m' [] (out @ map (Nif k) evs))"
proof (rule flow_step)
  fix s assume s: "nif_at k m [msg] out s"
  let ?e = "sys_engine s"
  from s have e: "calm ?e" "queued ?e = [msg]" "get_nif k ?e = Some m" "agps_status_cb ?e" "\<not> deferred_over s" "eng_out ?e = out"
    by (simp_all add: nif_at_def resting_def)
  let ?e' = "put_machine k m' evs (pop ?e)"
  have g: "agnss_nif (pop ?e) = agnss_nif ?e" by (simp add: pop_def)
  have "get_nif k (pop ?e) = Some m" "k \<noteq> Agnss \<longrightarrow> (\<exists>m0. agnss_nif (pop ?e) = Some m0 \<and> mSubscribers m0 = [])"
    unfolding g using s by (simp_all add: nif_at_def)
  from assms(1) [OF this] have "handle_msg conf (dev_resolve v) env msg (pop ?e) = on_nif k f (pop ?e)" for conf .
  from turn_nif [OF e(1-4) assms(2,3) this assms(4)]
  have t: "deferred_turn (gps_conf (sys_afw s)) (dev_resolve v) env ?e = Some (Turn ?e')" .
  have "spawned ?e ?e' = []" by (simp add: spawned_def)
  with t e(5) have step: "sys_step v (Deferred env) s = Some (put_engine ?e' s)"
    by (simp add: deferred_event_def put_engine_def)
  have "agnss_nif ?e' = (if k = Agnss then Some m' else agnss_nif ?e)"
    using g by (cases k) (simp_all add: put_machine_def)
  with s e calm_pop [OF e(1)] calm_quiet [OF e(1), THEN quiet_pop] have "nif_at k m' [] (out @ map (Nif k) evs) (put_engine ?e' s)"
    by (simp add: nif_at_def resting_def)
  with step show "\<exists>s'. sys_step v (Deferred env) s = Some s' \<and> nif_at k m' [] (out @ map (Nif k) evs) s'" by blast
qed

lemma nif_call:
  assumes "\<And>s. map_option snd (f s) = map_option (\<lambda>e. s\<lparr>loc_afw_data := e\<rparr>) (g (loc_afw_data s))"
    "\<And>s. call_afw v c s = map_option snd (f s)" "\<And>e. eng_context e \<Longrightarrow> agps_status_cb e \<Longrightarrow> g e = snd_deferred msg e"
  shows "flow v (nif_at k m [] out) [Framework c] (nif_at k m [msg] out)"
proof (rule flow_step)
  fix s assume s: "nif_at k m [] out s"
  obtain e' where e': "snd_deferred msg (sys_engine s) = Some e'" "nif_at k m ([] @ [msg]) out (put_engine e' s)"
    by (rule nif_at_snd [OF s])
  from s have "eng_context (sys_engine s)" "agps_status_cb (sys_engine s)" by (simp_all add: nif_at_def resting_def calm_def quiet_def)
  from assms(3) [OF this] e'(1) have "sys_step v (Framework c) s = Some (put_engine e' s)"
    by (simp add: assms(1,2) put_engine_def)
  with e'(2) show "\<exists>s'. sys_step v (Framework c) s = Some s' \<and> nif_at k m [msg] out s'" by (metis append_Nil)
qed

text \<open>What the machine does with its only client, a data connection of the modem.\<close>

lemma subscribe_first_ATL:
  assumes "mStatePtr m = AgpsReleasedState" "mSubscribers m = []"
  shows "\<exists>req. subscribeRsrc (new_ATLSubscriber c b) m = m\<lparr>mStatePtr := AgpsPendingState,
        mSubscribers := [ATLSubscriber c b], sm_out := sm_out m @ [NifRequest req]\<rparr>
     \<and> ags_type req = mType m \<and> ags_status req = GPS_REQUEST_AGPS_DATA_CONN"
  using assms
  by (intro exI [of _ "\<lparr>ags_size = sizeof_AGpsStatus, ags_type = mType m, ags_status = GPS_REQUEST_AGPS_DATA_CONN,
        ags_ipv4 = Some INADDR_NONE, ags_ipv6 = Some [0], ags_ssid = None, ags_password = None\<rparr>"])
    (simp add: subscribeRsrc_def hasSubscribers_def dispatch_def Let_def addSubscriber_def find_sub_def
      new_ATLSubscriber_def sendRsrcRequest_def hasSubscriber_def forMe_def broadcast_query_def)

abbreviation atl_type :: "bool \<Rightarrow> AgpsStateMachine \<Rightarrow> AGpsType" where
  "atl_type b m \<equiv> if b then AGPS_TYPE_INVALID else mType m"

lemma granted_single_ATL:
  assumes "mStatePtr m = AgpsPendingState" "mSubscribers m = [ATLSubscriber c b]"
  shows "onRsrcEvent RSRC_GRANTED m = m\<lparr>mStatePtr := AgpsAcquiredState,
     sm_out := sm_out m @ [AtlOpenStatus c 1 (mAPN m) (mBearer m) (atl_type b m)]\<rparr>"
  using assms
  by (simp add: onRsrcEvent_def dispatch_def notifySubscribers_def broadcast_notification_def notifySubscriber_def
      notifyRsrcStatus_def ATL_notifyRsrcStatus_def forMe_def)

lemma denied_single_ATL:
  assumes "mStatePtr m = AgpsPendingState" "mSubscribers m = [ATLSubscriber c b]"
  shows "onRsrcEvent RSRC_DENIED m = m\<lparr>mStatePtr := AgpsReleasedState, mSubscribers := [],
     sm_out := sm_out m @ [AtlOpenStatus c 0 (mAPN m) (mBearer m) (atl_type b m)]\<rparr>"
  using assms
  by (simp add: onRsrcEvent_def dispatch_def notifySubscribers_def broadcast_notification_def notifySubscriber_def
      notifyRsrcStatus_def ATL_notifyRsrcStatus_def forMe_def notify_delete_loop.simps remove_nth_def)

lemma unsubscribe_single_ATL:
  assumes "mStatePtr m = AgpsAcquiredState" "mSubscribers m = [ATLSubscriber c b]"
  shows "\<exists>req. unsubscribeRsrc (new_ATLSubscriber c False) m = (True, m\<lparr>mStatePtr := AgpsReleasedState,
        mSubscribers := [], sm_out := sm_out m @ [AtlCloseStatus c 1, NifRequest req]\<rparr>)
     \<and> ags_type req = mType m \<and> ags_status req = GPS_RELEASE_AGPS_DATA_CONN"
  using assms
  by (intro exI [of _ "\<lparr>ags_size = sizeof_AGpsStatus, ags_type = mType m, ags_status = GPS_RELEASE_AGPS_DATA_CONN,
        ags_ipv4 = Some INADDR_NONE, ags_ipv6 = Some [0], ags_ssid = Some [], ags_password = Some []\<rparr>"])
    (simp add: unsubscribeRsrc_def find_sub_single subscriber_query_def forMe_def new_ATLSubscriber_def dispatch_def
      unsubscribe_listed_def notifySubscribers_def subscriber_notification_def notifySubscriber_def
      notifyRsrcStatus_def ATL_notifyRsrcStatus_def notify_delete_loop.simps remove_nth_def release_if_unused_def
      hasSubscribers_def sendRsrcRequest_def find_sub_def hasSubscriber_def)

lemma closed_released:
  assumes "mStatePtr m = AgpsReleasedState"
  shows "onRsrcEvent RSRC_RELEASED m = m"
  using assms by (simp add: onRsrcEvent_def dispatch_def)

text \<open>The steps of the conversation.\<close>

abbreviation atl_nif :: "AGpsType \<Rightarrow> nif_id" where
  "atl_nif ty \<equiv> if ty = AGPS_TYPE_SUPL \<or> ty = AGPS_TYPE_INVALID then Agnss else Internet"

lemma request_atl_flow:
  assumes "mStatePtr m = AgpsReleasedState" "mSubscribers m = []" "k = atl_nif ty"
  shows "\<exists>req. ags_type req = mType m \<and> ags_status req = GPS_REQUEST_AGPS_DATA_CONN
     \<and> flow v (nif_at k m [] out) [Modem (Request_atl c ty), Deferred env]
         (nif_at k (m\<lparr>mStatePtr := AgpsPendingState, mSubscribers := [ATLSubscriber c (ty = AGPS_TYPE_INVALID)],
            sm_out := sm_out m @ [NifRequest req]\<rparr>) [] (out @ [Nif k (NifRequest req)]))"
proof -
  let ?b = "ty = AGPS_TYPE_INVALID"
  from subscribe_first_ATL [OF assms(1,2), of c ?b] obtain req where
    r: "subscribeRsrc (new_ATLSubscriber c ?b) m = m\<lparr>mStatePtr := AgpsPendingState,
        mSubscribers := [ATLSubscriber c ?b], sm_out := sm_out m @ [NifRequest req]\<rparr>"
      "ags_type req = mType m" "ags_status req = GPS_REQUEST_AGPS_DATA_CONN" by auto
  have 1: "flow v (nif_at k m [] out) [Modem (Request_atl c ty)] (nif_at k m [loc_eng_msg_request_atl c ty] out)"
    by (rule nif_modem) (simp add: requestATL_def)
  have 2: "flow v (nif_at k m [loc_eng_msg_request_atl c ty] out) [Deferred env]
      (nif_at k (m\<lparr>mStatePtr := AgpsPendingState, mSubscribers := [ATLSubscriber c ?b],
         sm_out := sm_out m @ [NifRequest req]\<rparr>) [] (out @ map (Nif k) [NifRequest req]))"
    by (rule nif_turn [where f = "subscribeRsrc (new_ATLSubscriber c ?b)", OF _ r(1)])
       (auto simp: handle_request_atl_def Let_def assms(3) eq_commute [of "- 1" ty] eq_commute [of 1 ty])
  from flow_Cons [OF 1 2] r(2,3) show ?thesis by auto
qed

lemma open_atl_flow:
  assumes "mStatePtr m = AgpsPendingState" "mSubscribers m = [ATLSubscriber c b]" "atl_machine (mType m) = k"
  shows "flow v (nif_at k m [] out) [Framework (Call_data_conn_open (mType m) (Some apn) bearer), Deferred env]
     (nif_at k (onRsrcEvent RSRC_GRANTED (setAPN (Some (take MAX_APN_LEN apn)) (min (length apn) MAX_APN_LEN) (setBearer bearer m))) []
       (out @ [Nif k (AtlOpenStatus c 1 (Some (take MAX_APN_LEN apn)) bearer (atl_type b m))]))"
proof -
  let ?n = "min (length apn) MAX_APN_LEN" and ?a = "take MAX_APN_LEN apn"
  let ?msg = "loc_eng_msg_atl_open_success (mType m) ?n ?a bearer"
  let ?f = "\<lambda>m. onRsrcEvent RSRC_GRANTED (setAPN (Some ?a) ?n (setBearer bearer m))"
  have take: "take ?n apn = ?a" by (simp add: min_def)
  have 1: "flow v (nif_at k m [] out) [Framework (Call_data_conn_open (mType m) (Some apn) bearer)] (nif_at k m [?msg] out)"
  proof (rule nif_call)
    show "call_afw v (Call_data_conn_open (mType m) (Some apn) bearer) s
        = map_option snd (loc_agps_open (mType m) (Some apn) bearer s)" for s
      by (simp add: via_agps_def extension_cases sLocEngAGpsInterface_def)
    show "map_option snd (loc_agps_open (mType m) (Some apn) bearer s)
        = map_option (\<lambda>e. s\<lparr>loc_afw_data := e\<rparr>) (map_option snd (loc_eng_agps_open (mType m) (Some apn) bearer (loc_afw_data s)))" for s
      by (auto simp: loc_agps_open_def with_engine_def option.map_comp comp_def case_prod_beta)
    show "map_option snd (loc_eng_agps_open (mType m) (Some apn) bearer e) = snd_deferred ?msg e"
      if "eng_context e" "agps_status_cb e" for e
      using that take by (simp add: loc_eng_agps_open_def agps_checked_def INIT_CHECK_def Let_def option.map_comp comp_def option.map_ident)
  qed
  have "?f m = ?f m" "sm_out (?f m) = sm_out m @ [AtlOpenStatus c 1 (Some ?a) bearer (atl_type b m)]"
    using assms(1,2) take by (simp_all add: granted_single_ATL [of _ c b] setAPN_def setBearer_def)
  from nif_turn [where f = ?f and k = k and msg = ?msg and env = env and v = v and out = out, OF _ this]
  have 2: "flow v (nif_at k m [?msg] out) [Deferred env]
      (nif_at k (?f m) [] (out @ map (Nif k) [AtlOpenStatus c 1 (Some ?a) bearer (atl_type b m)]))"
    by (simp add: handle_atl_open_success_def assms(3))
  from flow_Cons [OF 1 2] show ?thesis by simp
qed

lemma failed_atl_flow:
  assumes "mStatePtr m = AgpsPendingState" "mSubscribers m = [ATLSubscriber c b]" "atl_machine (mType m) = k"
  shows "flow v (nif_at k m [] out) [Framework (Call_data_conn_failed (mType m)), Deferred env]
     (nif_at k (onRsrcEvent RSRC_DENIED m) [] (out @ [Nif k (AtlOpenStatus c 0 (mAPN m) (mBearer m) (atl_type b m))]))"
proof -
  let ?msg = "loc_eng_msg_atl_open_failed (mType m)"
  have 1: "flow v (nif_at k m [] out) [Framework (Call_data_conn_failed (mType m))] (nif_at k m [?msg] out)"
  proof (rule nif_call)
    show "call_afw v (Call_data_conn_failed (mType m)) s = map_option snd (loc_agps_open_failed (mType m) s)" for s
      by (simp add: via_agps_def extension_cases sLocEngAGpsInterface_def)
    show "map_option snd (loc_agps_open_failed (mType m) s)
        = map_option (\<lambda>e. s\<lparr>loc_afw_data := e\<rparr>) (map_option snd (loc_eng_agps_open_failed (mType m) (loc_afw_data s)))" for s
      by (auto simp: loc_agps_open_failed_def with_engine_def option.map_comp comp_def case_prod_beta)
    show "map_option snd (loc_eng_agps_open_failed (mType m) e) = snd_deferred ?msg e" if "eng_context e" "agps_status_cb e" for e
      using that by (simp add: loc_eng_agps_open_failed_def agps_checked_def INIT_CHECK_def option.map_comp comp_def option.map_ident)
  qed
  have "onRsrcEvent RSRC_DENIED m = onRsrcEvent RSRC_DENIED m"
    "sm_out (onRsrcEvent RSRC_DENIED m) = sm_out m @ [AtlOpenStatus c 0 (mAPN m) (mBearer m) (atl_type b m)]"
    using assms(1,2) by (simp_all add: denied_single_ATL [of _ c b])
  from nif_turn [where f = "onRsrcEvent RSRC_DENIED" and k = k and msg = ?msg and env = env and v = v and out = out, OF _ this]
  have 2: "flow v (nif_at k m [?msg] out) [Deferred env]
      (nif_at k (onRsrcEvent RSRC_DENIED m) [] (out @ map (Nif k) [AtlOpenStatus c 0 (mAPN m) (mBearer m) (atl_type b m)]))"
    by (simp add: handle_atl_open_failed_def assms(3))
  from flow_Cons [OF 1 2] show ?thesis by simp
qed

lemma release_atl_turn:
  assumes "unsubscribeRsrc (new_ATLSubscriber c False) m = (True, m')" "get_nif k e = Some m" "k \<in> {Agnss, Internet}"
    "k \<noteq> Agnss \<longrightarrow> (\<exists>m0. agnss_nif e = Some m0 \<and> mSubscribers m0 = [])"
  shows "handle_release_atl c e = on_nif k (\<lambda>m. snd (unsubscribeRsrc (new_ATLSubscriber c False) m)) e"
proof (cases "k = Agnss")
  case True
  with assms(1,2) show ?thesis
    by (auto simp: handle_release_atl_def on_nif_def run_nif_def Let_def split: prod.splits)
next
  case False
  with assms(3,4) obtain m0 where m0: "agnss_nif e = Some m0" "mSubscribers m0 = []" "k = Internet" by auto
  have "run_nif Agnss (unsubscribeRsrc (new_ATLSubscriber c False)) e = Some (False, e)"
    using m0 by (simp add: run_nif_def unsubscribeRsrc_def find_sub_def)
  then show ?thesis using m0(3)
    by (auto simp: handle_release_atl_def on_nif_def run_nif_def Let_def split: prod.splits option.splits)
qed

lemma release_atl_flow:
  assumes "mStatePtr m = AgpsAcquiredState" "mSubscribers m = [ATLSubscriber c b]" "atl_machine (mType m) = k" "k \<in> {Agnss, Internet}"
  shows "\<exists>rel. ags_type rel = mType m \<and> ags_status rel = GPS_RELEASE_AGPS_DATA_CONN
     \<and> flow v (nif_at k m [] out) [Modem (Release_atl c), Deferred env, Framework (Call_data_conn_closed (mType m)), Deferred env']
         (nif_at k (m\<lparr>mStatePtr := AgpsReleasedState, mSubscribers := [], sm_out := sm_out m @ [AtlCloseStatus c 1, NifRequest rel]\<rparr>) []
            (out @ [Nif k (AtlCloseStatus c 1), Nif k (NifRequest rel)]))"
proof -
  from unsubscribe_single_ATL [OF assms(1,2)] obtain rel where
    r: "unsubscribeRsrc (new_ATLSubscriber c False) m = (True, m\<lparr>mStatePtr := AgpsReleasedState,
        mSubscribers := [], sm_out := sm_out m @ [AtlCloseStatus c 1, NifRequest rel]\<rparr>)"
      "ags_type rel = mType m" "ags_status rel = GPS_RELEASE_AGPS_DATA_CONN" by auto
  let ?m = "m\<lparr>mStatePtr := AgpsReleasedState, mSubscribers := [], sm_out := sm_out m @ [AtlCloseStatus c 1, NifRequest rel]\<rparr>"
  let ?out = "out @ [Nif k (AtlCloseStatus c 1), Nif k (NifRequest rel)]"
  have 1: "flow v (nif_at k m [] out) [Modem (Release_atl c)] (nif_at k m [loc_eng_msg_release_atl c] out)"
    by (rule nif_modem) (simp add: releaseATL_def)
  have "flow v (nif_at k m [loc_eng_msg_release_atl c] out) [Deferred env]
      (nif_at k ?m [] (out @ map (Nif k) [AtlCloseStatus c 1, NifRequest rel]))"
    by (rule nif_turn [where f = "\<lambda>m. snd (unsubscribeRsrc (new_ATLSubscriber c False) m)"])
       (use r(1) release_atl_turn [OF r(1) _ assms(4)] in auto)
  then have 2: "flow v (nif_at k m [loc_eng_msg_release_atl c] out) [Deferred env] (nif_at k ?m [] ?out)" by simp
  let ?msg = "loc_eng_msg_atl_closed (mType m)"
  have 3: "flow v (nif_at k ?m [] ?out) [Framework (Call_data_conn_closed (mType m))] (nif_at k ?m [?msg] ?out)"
  proof (rule nif_call)
    show "call_afw v (Call_data_conn_closed (mType m)) s = map_option snd (loc_agps_closed (mType m) s)" for s
      by (simp add: via_agps_def extension_cases sLocEngAGpsInterface_def)
    show "map_option snd (loc_agps_closed (mType m) s)
        = map_option (\<lambda>e. s\<lparr>loc_afw_data := e\<rparr>) (map_option snd (loc_eng_agps_closed (mType m) (loc_afw_data s)))" for s
      by (auto simp: loc_agps_closed_def with_engine_def option.map_comp comp_def case_prod_beta)
    show "map_option snd (loc_eng_agps_closed (mType m) e) = snd_deferred ?msg e" if "eng_context e" "agps_status_cb e" for e
      using that by (simp add: loc_eng_agps_closed_def agps_checked_def INIT_CHECK_def option.map_comp comp_def option.map_ident)
  qed
  have "onRsrcEvent RSRC_RELEASED ?m = ?m" "sm_out ?m = sm_out ?m @ []" by (simp_all add: closed_released)
  from nif_turn [where f = "onRsrcEvent RSRC_RELEASED" and k = k and msg = ?msg and env = env' and v = v and out = ?out, OF _ this]
  have 4: "flow v (nif_at k ?m [?msg] ?out) [Deferred env'] (nif_at k ?m [] ?out)"
    by (simp add: handle_atl_closed_def assms(3))
  from flow_Cons [OF 1 flow_Cons [OF 2 flow_Cons [OF 3 4]]] r(2,3) show ?thesis by auto
qed

text \<open>
  C10: A data connection for the modem, through all parts. A request of the modem that reaches an
  engine at rest makes the state machine of its type ask the framework's service once. If the
  framework opens the connection, the modem is told so once, under its own handle, with the access
  point name (at most a hundred characters of it), the bearer, and the type, which an old modem gets
  as invalid; if the framework reports a failure, the modem is told so. When the modem gives the
  connection back it is confirmed, the service is told once to release it, and the
  service's answer leaves the machine as it was at first, ready for the next request.
\<close>

theorem modem_data_call:
  assumes "nif_at k m [] out s" "mStatePtr m = AgpsReleasedState" "mSubscribers m = []"
    "k = atl_nif ty" "atl_machine (mType m) = k"
  shows "\<exists>req rel s1 s2 s3 s4 m3 m4.
     ags_type req = mType m \<and> ags_status req = GPS_REQUEST_AGPS_DATA_CONN
     \<and> ags_type rel = mType m \<and> ags_status rel = GPS_RELEASE_AGPS_DATA_CONN
     \<and> sys_run v [Modem (Request_atl c ty), Deferred env1] s = Some s1
     \<and> eng_out (sys_engine s1) = out @ [Nif k (NifRequest req)]
     \<and> sys_run v [Framework (Call_data_conn_open (mType m) (Some apn) bearer), Deferred env2] s1 = Some s2
     \<and> eng_out (sys_engine s2) = eng_out (sys_engine s1)
          @ [Nif k (AtlOpenStatus c 1 (Some (take 100 apn)) bearer (if ty = AGPS_TYPE_INVALID then AGPS_TYPE_INVALID else mType m))]
     \<and> sys_run v [Modem (Release_atl c), Deferred env3, Framework (Call_data_conn_closed (mType m)), Deferred env4] s2 = Some s3
     \<and> eng_out (sys_engine s3) = eng_out (sys_engine s2) @ [Nif k (AtlCloseStatus c 1), Nif k (NifRequest rel)]
     \<and> nif_at k m3 [] (eng_out (sys_engine s3)) s3 \<and> mStatePtr m3 = AgpsReleasedState \<and> mSubscribers m3 = []
     \<and> sys_run v [Framework (Call_data_conn_failed (mType m)), Deferred env2] s1 = Some s4
     \<and> eng_out (sys_engine s4) = eng_out (sys_engine s1)
          @ [Nif k (AtlOpenStatus c 0 (mAPN m) (mBearer m) (if ty = AGPS_TYPE_INVALID then AGPS_TYPE_INVALID else mType m))]
     \<and> nif_at k m4 [] (eng_out (sys_engine s4)) s4 \<and> mStatePtr m4 = AgpsReleasedState \<and> mSubscribers m4 = []"
proof -
  have out: "nif_at k x [] o1 z \<Longrightarrow> eng_out (sys_engine z) = o1" for x o1 z by (simp add: nif_at_def resting_def)
  let ?b = "ty = AGPS_TYPE_INVALID"
  from request_atl_flow [OF assms(2-4), of v out c env1] obtain req m1 where
    1: "ags_type req = mType m" "ags_status req = GPS_REQUEST_AGPS_DATA_CONN"
      "flow v (nif_at k m [] out) [Modem (Request_atl c ty), Deferred env1] (nif_at k m1 [] (out @ [Nif k (NifRequest req)]))"
    and m1: "mStatePtr m1 = AgpsPendingState" "mSubscribers m1 = [ATLSubscriber c ?b]" "mType m1 = mType m"
      "mAPN m1 = mAPN m" "mBearer m1 = mBearer m" by fastforce
  from flowD [OF 1(3) assms(1)] obtain s1 where s1: "sys_run v [Modem (Request_atl c ty), Deferred env1] s = Some s1"
      "nif_at k m1 [] (out @ [Nif k (NifRequest req)]) s1" by blast
  have k1: "atl_machine (mType m1) = k" "k \<in> {Agnss, Internet}" using assms(4,5) m1(3) by (simp_all split: if_splits)
  let ?m2 = "onRsrcEvent RSRC_GRANTED (setAPN (Some (take MAX_APN_LEN apn)) (min (length apn) MAX_APN_LEN) (setBearer bearer m1))"
  from flowD [OF open_atl_flow [OF m1(1,2) k1(1), of v _ apn bearer env2] s1(2)] obtain s2 where
    s2: "sys_run v [Framework (Call_data_conn_open (mType m) (Some apn) bearer), Deferred env2] s1 = Some s2"
      "nif_at k ?m2 [] ((out @ [Nif k (NifRequest req)]) @ [Nif k (AtlOpenStatus c 1 (Some (take MAX_APN_LEN apn)) bearer (atl_type ?b m))]) s2"
    unfolding m1(3) by blast
  have m2: "mStatePtr ?m2 = AgpsAcquiredState" "mSubscribers ?m2 = [ATLSubscriber c ?b]" "mType ?m2 = mType m"
    using m1 by (simp_all add: granted_single_ATL [of _ c ?b] setAPN_def setBearer_def)
  with k1 m1(3) have "atl_machine (mType ?m2) = k" by simp
  from release_atl_flow [OF m2(1,2) this k1(2), of v "eng_out (sys_engine s2)" env3 env4, unfolded m2(3)] obtain rel where
    rel: "ags_type rel = mType m" "ags_status rel = GPS_RELEASE_AGPS_DATA_CONN"
    and flow3: "flow v (nif_at k ?m2 [] (eng_out (sys_engine s2)))
        [Modem (Release_atl c), Deferred env3, Framework (Call_data_conn_closed (mType m)), Deferred env4]
        (nif_at k (?m2\<lparr>mStatePtr := AgpsReleasedState, mSubscribers := [], sm_out := sm_out ?m2 @ [AtlCloseStatus c 1, NifRequest rel]\<rparr>) []
          (eng_out (sys_engine s2) @ [Nif k (AtlCloseStatus c 1), Nif k (NifRequest rel)]))" by blast
  from s2(2) have "nif_at k ?m2 [] (eng_out (sys_engine s2)) s2" unfolding out [OF s2(2)] .
  from flowD [OF flow3 this] obtain s3 m3 where
    s3: "sys_run v [Modem (Release_atl c), Deferred env3, Framework (Call_data_conn_closed (mType m)), Deferred env4] s2 = Some s3"
      "nif_at k m3 [] (eng_out (sys_engine s2) @ [Nif k (AtlCloseStatus c 1), Nif k (NifRequest rel)]) s3"
    and m3: "mStatePtr m3 = AgpsReleasedState" "mSubscribers m3 = []" by fastforce
  let ?m4 = "onRsrcEvent RSRC_DENIED m1"
  from flowD [OF failed_atl_flow [OF m1(1,2) k1(1), of v _ env2] s1(2)] obtain s4 where
    s4: "sys_run v [Framework (Call_data_conn_failed (mType m)), Deferred env2] s1 = Some s4"
      "nif_at k ?m4 [] ((out @ [Nif k (NifRequest req)]) @ [Nif k (AtlOpenStatus c 0 (mAPN m) (mBearer m) (atl_type ?b m))]) s4"
    unfolding m1(3-5) by blast
  have m4: "mStatePtr ?m4 = AgpsReleasedState" "mSubscribers ?m4 = []" using m1 by (simp_all add: denied_single_ATL [of _ c ?b])
  show ?thesis
    by (rule exI [of _ req], rule exI [of _ rel], rule exI [of _ s1], rule exI [of _ s2], rule exI [of _ s3], rule exI [of _ s4],
        rule exI [of _ m3], rule exI [of _ ?m4])
       (use 1(1,2) rel s1 s2 s3 m3 s4 m4 out [OF s1(2)] out [OF s2(2)] out [OF s3(2)] out [OF s4(2)] in \<open>simp del: sys_run.simps\<close>)
qed

definition rest_system :: loc_system where
  "rest_system = put_engine rest_engine (system_of example_afw)"

lemma rest_system_at: "nif_at Agnss (new_AgpsStateMachine 0 AGPS_TYPE_SUPL False) [] [] rest_system"
  by (simp add: nif_at_def resting_def rest_system_def rest_engine_def calm_def quiet_def queued_def example_defs system_of_def)

lemma modem_data_call_witness:
  "\<exists>req rel s1 s2 s3 s4 m3 m4.
     ags_type req = AGPS_TYPE_SUPL \<and> ags_status req = GPS_REQUEST_AGPS_DATA_CONN
     \<and> ags_type rel = AGPS_TYPE_SUPL \<and> ags_status rel = GPS_RELEASE_AGPS_DATA_CONN
     \<and> sys_run example_sys_env [Modem (Request_atl 5 AGPS_TYPE_INVALID), Deferred example_env] rest_system = Some s1
     \<and> eng_out (sys_engine s1) = [Nif Agnss (NifRequest req)]
     \<and> sys_run example_sys_env [Framework (Call_data_conn_open AGPS_TYPE_SUPL (Some ''internet'') 0), Deferred example_env] s1 = Some s2
     \<and> eng_out (sys_engine s2) = eng_out (sys_engine s1) @ [Nif Agnss (AtlOpenStatus 5 1 (Some ''internet'') 0 AGPS_TYPE_INVALID)]
     \<and> sys_run example_sys_env [Modem (Release_atl 5), Deferred example_env, Framework (Call_data_conn_closed AGPS_TYPE_SUPL),
          Deferred example_env] s2 = Some s3
     \<and> eng_out (sys_engine s3) = eng_out (sys_engine s2) @ [Nif Agnss (AtlCloseStatus 5 1), Nif Agnss (NifRequest rel)]
     \<and> nif_at Agnss m3 [] (eng_out (sys_engine s3)) s3 \<and> mStatePtr m3 = AgpsReleasedState \<and> mSubscribers m3 = []
     \<and> sys_run example_sys_env [Framework (Call_data_conn_failed AGPS_TYPE_SUPL), Deferred example_env] s1 = Some s4
     \<and> eng_out (sys_engine s4) = eng_out (sys_engine s1) @ [Nif Agnss (AtlOpenStatus 5 0 None 0 AGPS_TYPE_INVALID)]
     \<and> nif_at Agnss m4 [] (eng_out (sys_engine s4)) s4 \<and> mStatePtr m4 = AgpsReleasedState \<and> mSubscribers m4 = []"
proof -
  have m: "mStatePtr (new_AgpsStateMachine 0 AGPS_TYPE_SUPL False) = AgpsReleasedState"
    "mSubscribers (new_AgpsStateMachine 0 AGPS_TYPE_SUPL False) = []" "Agnss = atl_nif AGPS_TYPE_INVALID"
    "atl_machine (mType (new_AgpsStateMachine 0 AGPS_TYPE_SUPL False)) = Agnss"
    by (simp_all add: new_AgpsStateMachine_def atl_machine_def)
  have f: "mType (new_AgpsStateMachine 0 AGPS_TYPE_SUPL False) = AGPS_TYPE_SUPL" "mAPN (new_AgpsStateMachine 0 AGPS_TYPE_SUPL False) = None"
    "mBearer (new_AgpsStateMachine 0 AGPS_TYPE_SUPL False) = 0" "take 100 ''internet'' = ''internet''" "[] @ xs = xs"
    "(if AGPS_TYPE_INVALID = AGPS_TYPE_INVALID then AGPS_TYPE_INVALID else AGPS_TYPE_SUPL) = AGPS_TYPE_INVALID" for xs :: "eng_out list"
    by (simp_all add: new_AgpsStateMachine_def)
  show ?thesis
    using modem_data_call [OF rest_system_at m, of example_sys_env 5 example_env "''internet''" 0 example_env example_env example_env]
    unfolding f .
qed

section \<open>A request of the network\<close>

text \<open>\<open>d\<close>, \<open>ts\<close> and \<open>t\<close> are the data of the requests, their threads, and the time.\<close>

definition ni_at :: "loc_eng_ni_data \<Rightarrow> ni_thread list \<Rightarrow> int \<Rightarrow> loc_eng_msg list \<Rightarrow> eng_out list \<Rightarrow> loc_system \<Rightarrow> bool" where
  "ni_at d ts t q out s \<longleftrightarrow> resting q out s \<and> ni_notify_cb (sys_engine s) \<and> loc_eng_ni (sys_engine s) = d
     \<and> sys_ni_threads s = ts \<and> sys_clock s = t"

lemma ni_at_fields:
  assumes "ni_at d ts t q out s"
  shows "calm (sys_engine s)" "queued (sys_engine s) = q" "eng_out (sys_engine s) = out" "\<not> deferred_over s"
    "ni_notify_cb (sys_engine s)" "loc_eng_ni (sys_engine s) = d" "sys_ni_threads s = ts" "sys_clock s = t"
  using assms by (simp_all add: ni_at_def resting_def)

lemma calm_ni [simp]:
  "calm (e\<lparr>loc_eng_ni := d\<rparr>) = calm e" "queued (e\<lparr>loc_eng_ni := d\<rparr>) = queued e"
  by (simp_all add: calm_def quiet_def queued_def)

lemma ni_at_moves:
  assumes "ni_at d ts t q out s" "r = (th, d')"
  shows "ni_at d' (ts[i := th]) t q out (ni_moves i r s)"
  using assms by (simp add: ni_moves_def ni_at_def resting_def put_engine_def)

lemma ni_at_snd:
  assumes "ni_at d ts t q out s"
  obtains e' where "snd_deferred msg (sys_engine s) = Some e'" "ni_at d ts t (q @ [msg]) out (put_engine e' s)"
proof -
  note s = ni_at_fields [OF assms]
  obtain e' where e': "snd_deferred msg (sys_engine s) = Some e'" "calm e'" "queued e' = queued (sys_engine s) @ [msg]"
      "eng_out e' = eng_out (sys_engine s)"
    by (rule calm_snd [OF s(1), of msg]) blast
  from e'(1) have "loc_eng_ni e' = loc_eng_ni (sys_engine s)" "ni_notify_cb e' = ni_notify_cb (sys_engine s)"
    by (auto simp: snd_deferred_def split: if_splits)
  with e' s have "ni_at d ts t (q @ [msg]) out (put_engine e' s)" by (simp add: ni_at_def resting_def)
  with e'(1) show thesis by (rule that)
qed

text \<open>What the user is shown, and the data while the request is open.\<close>

abbreviation shown_ni :: "GpsNiNotification \<Rightarrow> loc_eng_ni_data \<Rightarrow> GpsNiNotification" where
  "shown_ni n d \<equiv> n\<lparr>ni_size := sizeof_GpsNiNotification, ni_timeout := 20, ni_notification_id := reqID d\<rparr>"

abbreviation open_ni :: "ptr \<Rightarrow> loc_eng_ni_data \<Rightarrow> loc_eng_ni_data" where
  "open_ni p d \<equiv> d\<lparr>rawRequest := p, respTimeLeft := 25\<rparr>"

lemma ni_modem_flow:
  "flow v (ni_at d ts t [] out) [Modem (Request_ni n p)]
     (ni_at d ts t [loc_eng_msg_request_ni (n\<lparr>ni_size := sizeof_GpsNiNotification, ni_timeout := 20\<rparr>) p] out)"
proof (rule flow_step)
  let ?msg = "loc_eng_msg_request_ni (n\<lparr>ni_size := sizeof_GpsNiNotification, ni_timeout := 20\<rparr>) p"
  fix s assume s: "ni_at d ts t [] out s"
  obtain e' where e': "snd_deferred ?msg (sys_engine s) = Some e'" "ni_at d ts t ([] @ [?msg]) out (put_engine e' s)"
    by (rule ni_at_snd [OF s])
  have "modem_route h (Request_ni n p) = Some (To_Engine ?msg)" for h by (simp add: requestNiNotify_def)
  from modem_sends [OF ni_at_fields(1) [OF s] this] e'(1) have "sys_step v (Modem (Request_ni n p)) s = Some (put_engine e' s)" by simp
  with e'(2) show "\<exists>s'. sys_step v (Modem (Request_ni n p)) s = Some s' \<and> ni_at d ts t [?msg] out s'" by (metis append_Nil)
qed

lemma ni_request_turn:
  assumes "rawRequest d = NULL" "thread_created env"
  shows "flow v (ni_at d ts t [loc_eng_msg_request_ni (n\<lparr>ni_size := sizeof_GpsNiNotification, ni_timeout := 20\<rparr>) p] out) [Deferred env]
     (ni_at (open_ni p d) (ts @ [NI_Starting]) t [] (out @ [Ni_thread, Cb_ni_notify (shown_ni n d)]))"
proof (rule flow_step)
  let ?msg = "loc_eng_msg_request_ni (n\<lparr>ni_size := sizeof_GpsNiNotification, ni_timeout := 20\<rparr>) p"
  fix s assume "ni_at d ts t [?msg] out s"
  note s = ni_at_fields [OF this]
  let ?e = "sys_engine s"
  have p: "ni_notify_cb (pop ?e)" "loc_eng_ni (pop ?e) = d" "eng_out (pop ?e) = out" "queued (pop ?e) = []"
    using s calm_quiet [OF s(1), THEN quiet_pop] by (simp_all add: pop_def)
  obtain e1 where e1: "handle_msg conf (dev_resolve v) env ?msg (pop ?e) = Some e1" "calm e1" "queued e1 = []" "ni_notify_cb e1"
      "loc_eng_ni e1 = open_ni p d" "eng_out e1 = out @ [Ni_thread, Cb_ni_notify (shown_ni n d)]" for conf
    using p assms calm_pop [OF s(1)]
    by (simp add: loc_eng_ni_request_handler_def eng_ni_def loc_eng_mute_one_session_def emit_def calm_def quiet_def queued_def Let_def)
  from turn_calm [OF s(1,2) e1(1,2)] have t: "deferred_turn (gps_conf (sys_afw s)) (dev_resolve v) env ?e = Some (Turn e1)" by simp
  have "spawned ?e e1 = [NI_Starting]" using s(3) e1(6) by (simp add: spawned_def)
  with t s(4,7) have "sys_step v (Deferred env) s = Some ((put_engine e1 s)\<lparr>sys_ni_threads := ts @ [NI_Starting]\<rparr>)"
    by (simp add: deferred_event_def)
  moreover have "ni_at (open_ni p d) (ts @ [NI_Starting]) t [] (out @ [Ni_thread, Cb_ni_notify (shown_ni n d)])
      ((put_engine e1 s)\<lparr>sys_ni_threads := ts @ [NI_Starting]\<rparr>)"
    using e1 s(4,8) by (simp add: ni_at_def resting_def put_engine_def)
  ultimately show "\<exists>s'. sys_step v (Deferred env) s = Some s'
      \<and> ni_at (open_ni p d) (ts @ [NI_Starting]) t [] (out @ [Ni_thread, Cb_ni_notify (shown_ni n d)]) s'" by blast
qed

lemma ni_run_flow:
  assumes "(th = NI_Starting \<and> r = ni_thread_start t d) \<or> (\<exists>u. th = NI_Waiting u \<and> r = ni_thread_test u d)" "r = (th', d')"
  shows "flow v (ni_at d (ts @ [th]) t q out) [Ni_run (length ts)] (ni_at d' (ts @ [th']) t q out)"
proof (rule flow_step)
  fix s assume s: "ni_at d (ts @ [th]) t q out s"
  note f = ni_at_fields [OF s]
  from assms(1) f have "sys_step v (Ni_run (length ts)) s = Some (ni_moves (length ts) r s)"
    by (auto simp: ni_run_event_def nth_append)
  with ni_at_moves [OF s assms(2), of "length ts"]
  show "\<exists>s'. sys_step v (Ni_run (length ts)) s = Some s' \<and> ni_at d' (ts @ [th']) t q out s'" by simp
qed

lemma ni_time_out_flow:
  assumes "u \<le> t" "ni_thread_timeout d = (th', d')"
  shows "flow v (ni_at d (ts @ [NI_Waiting u]) t q out) [Ni_time_out (length ts)] (ni_at d' (ts @ [th']) t q out)"
proof (rule flow_step)
  fix s assume s: "ni_at d (ts @ [NI_Waiting u]) t q out s"
  note f = ni_at_fields [OF s]
  from assms(1) f have "sys_step v (Ni_time_out (length ts)) s = Some (ni_moves (length ts) (ni_thread_timeout d) s)"
    by (simp add: ni_time_out_event_def nth_append)
  with ni_at_moves [OF s assms(2), of "length ts"]
  show "\<exists>s'. sys_step v (Ni_time_out (length ts)) s = Some s' \<and> ni_at d' (ts @ [th']) t q out s'" by simp
qed

lemma tick_flow: "0 \<le> dt \<Longrightarrow> flow v (ni_at d ts t q out) [Tick dt] (ni_at d ts (t + dt) q out)"
  by (rule flow_step) (simp add: ni_at_def resting_def)

lemma respond_flow:
  "flow v (ni_at d ts t q out) [Framework (Call_ni_respond i r)]
     (ni_at (if i = reqID d \<and> rawRequest d \<noteq> NULL then d\<lparr>resp := r, respRecvd := True\<rparr> else d) ts t q out)"
proof (rule flow_step)
  fix s assume s: "ni_at d ts t q out s"
  let ?d = "if i = reqID d \<and> rawRequest d \<noteq> NULL then d\<lparr>resp := r, respRecvd := True\<rparr> else d"
  note f = ni_at_fields [OF s]
  have "eng_ni_respond i r (sys_engine s) = (sys_engine s)\<lparr>loc_eng_ni := ?d\<rparr>"
    using f by (simp add: eng_ni_respond_def eng_ni_def loc_eng_ni_respond_def)
  then have "sys_step v (Framework (Call_ni_respond i r)) s = Some (put_engine ((sys_engine s)\<lparr>loc_eng_ni := ?d\<rparr>) s)"
    by (simp add: via_ni_def extension_cases sLocEngNiInterface_def loc_ni_respond_def with_engine_def put_engine_def)
  moreover from f have "ni_at ?d ts t q out (put_engine ((sys_engine s)\<lparr>loc_eng_ni := ?d\<rparr>) s)"
    by (simp add: ni_at_def resting_def)
  ultimately show "\<exists>s'. sys_step v (Framework (Call_ni_respond i r)) s = Some s' \<and> ni_at ?d ts t q out s'" by blast
qed

lemma ni_leave_flow:
  "flow v (ni_at d (ts @ [NI_Leaving (Some m)]) t q out) [Ni_run (length ts)] (ni_at (ni_thread_leave d) ts t (q @ [m]) out)"
proof (rule flow_step)
  fix s assume s: "ni_at d (ts @ [NI_Leaving (Some m)]) t q out s"
  note f = ni_at_fields [OF s]
  let ?e = "(sys_engine s)\<lparr>loc_eng_ni := ni_thread_leave d\<rparr>"
  from f have 0: "ni_at (ni_thread_leave d) (ts @ [NI_Leaving (Some m)]) t q out (put_engine ?e s)" by (simp add: ni_at_def resting_def)
  obtain e' where e': "snd_deferred m ?e = Some e'" "ni_at (ni_thread_leave d) (ts @ [NI_Leaving (Some m)]) t (q @ [m]) out (put_engine e' (put_engine ?e s))"
    using ni_at_snd [OF 0, of m] by auto
  from e'(1) f have "sys_step v (Ni_run (length ts)) s = Some ((put_engine e' s)\<lparr>sys_ni_threads := ts\<rparr>)"
    by (simp add: ni_run_event_def nth_append)
  moreover from e'(2) have "ni_at (ni_thread_leave d) ts t (q @ [m]) out ((put_engine e' s)\<lparr>sys_ni_threads := ts\<rparr>)"
    by (simp add: ni_at_def resting_def put_engine_def)
  ultimately show "\<exists>s'. sys_step v (Ni_run (length ts)) s = Some s' \<and> ni_at (ni_thread_leave d) ts t (q @ [m]) out s'" by blast
qed

lemma inform_turn:
  assumes "p \<noteq> NULL"
  shows "flow v (ni_at d ts t [loc_eng_msg_inform_ni_response r p] out) [Deferred env]
     (ni_at d ts t [] (out @ [Api (informNiResponse r p), Free p]))"
proof (rule flow_step)
  let ?msg = "loc_eng_msg_inform_ni_response r p"
  fix s assume "ni_at d ts t [?msg] out s"
  note s = ni_at_fields [OF this]
  let ?e = "sys_engine s" and ?e1 = "emit (Api (informNiResponse r p)) (pop (sys_engine s))"
  have p: "calm (pop ?e)" "ni_notify_cb (pop ?e)" "loc_eng_ni (pop ?e) = d" "eng_out (pop ?e) = out" "queued (pop ?e) = []"
    using s calm_pop [OF s(1)] calm_quiet [OF s(1), THEN quiet_pop] by (simp_all add: pop_def)
  then have h: "handle_msg conf (dev_resolve v) env ?msg (pop ?e) = Some ?e1" for conf
    by (simp add: call_api_def calm_def quiet_def)
  have "calm ?e1" using p(1) by (simp add: calm_def quiet_emit) (simp add: emit_def)
  let ?e2 = "emit (Free p) ?e1"
  from turn_calm [OF s(1,2) h \<open>calm ?e1\<close>] assms
  have t: "deferred_turn (gps_conf (sys_afw s)) (dev_resolve v) env ?e = Some (Turn ?e2)" by (simp add: emit_if_def)
  have o: "eng_out ?e2 = out @ [Api (informNiResponse r p), Free p]" using p(4) by (simp add: emit_def)
  then have "spawned ?e ?e2 = []" using s(3) by (simp add: spawned_def)
  with t s(4) have "sys_step v (Deferred env) s = Some (put_engine ?e2 s)"
    by (simp add: deferred_event_def put_engine_def)
  moreover have "ni_at d ts t [] (out @ [Api (informNiResponse r p), Free p]) (put_engine ?e2 s)"
    using o p s by (simp add: ni_at_def resting_def) (simp add: emit_def calm_def quiet_def queued_def)
  ultimately show "\<exists>s'. sys_step v (Deferred env) s = Some s' \<and> ni_at d ts t [] (out @ [Api (informNiResponse r p), Free p]) s'" by blast
qed

lemma collect_open:
  "p \<noteq> NULL \<Longrightarrow> rawRequest d = p \<Longrightarrow>
     ni_thread_collect d = (NI_Leaving (Some (loc_eng_msg_inform_ni_response (resp d) p)), d\<lparr>respRecvd := False, rawRequest := NULL\<rparr>)"
  by (simp add: ni_thread_collect_def)

text \<open>The end of a conversation, from the thread that has an answer to the modem.\<close>

lemma ni_answer_flow:
  assumes "p \<noteq> NULL" "rawRequest d = p"
  shows "flow v (ni_at (snd (ni_thread_collect d)) (ts @ [fst (ni_thread_collect d)]) t [] out) [Ni_run (length ts), Deferred env]
     (ni_at (d\<lparr>respRecvd := False, rawRequest := NULL, respTimeLeft := 0, reqID := reqID d + 1\<rparr>) ts t []
        (out @ [Api (informNiResponse (resp d) p), Free p]))"
proof -
  have "ni_thread_leave (d\<lparr>respRecvd := False, rawRequest := NULL\<rparr>)
      = d\<lparr>respRecvd := False, rawRequest := NULL, respTimeLeft := 0, reqID := reqID d + 1\<rparr>" by (simp add: ni_thread_leave_def)
  with flow_Cons [OF _ inform_turn [OF assms(1)]]
    ni_leave_flow [of v "d\<lparr>respRecvd := False, rawRequest := NULL\<rparr>" ts "loc_eng_msg_inform_ni_response (resp d) p" t "[]" out]
  show ?thesis by (simp add: collect_open [OF assms])
qed

text \<open>A request that is shown and waits for its answer, and the two ways it is answered.\<close>

abbreviation waiting_at :: "ptr \<Rightarrow> loc_eng_ni_data \<Rightarrow> ni_thread list \<Rightarrow> int \<Rightarrow> eng_out list \<Rightarrow> loc_system \<Rightarrow> bool" where
  "waiting_at p d ts t out \<equiv> ni_at (open_ni p d) (ts @ [NI_Waiting (t + 25)]) t [] out"

lemma ni_opened_flow:
  assumes "rawRequest d = NULL" "\<not> respRecvd d" "thread_created env"
  shows "flow v (ni_at d ts t [] out) [Modem (Request_ni n p), Deferred env, Ni_run (length ts)]
     (waiting_at p d ts t (out @ [Ni_thread, Cb_ni_notify (shown_ni n d)]))"
proof -
  have start: "ni_thread_start t (open_ni p d) = (NI_Waiting (t + 25), open_ni p d)"
    using assms(2) by (simp add: ni_thread_start_def ni_thread_test_def)
  show ?thesis
    by (intro flow_Cons [OF ni_modem_flow] flow_Cons [OF ni_request_turn [OF assms(1,3)]] ni_run_flow [OF _ start]) simp
qed

text \<open>The request's data after it has been answered.\<close>

abbreviation closed_ni :: "GpsUserResponseType \<Rightarrow> loc_eng_ni_data \<Rightarrow> loc_eng_ni_data" where
  "closed_ni r d \<equiv> d\<lparr>resp := r, respTimeLeft := 0, reqID := reqID d + 1\<rparr>"

lemma closed_ni_eq:
  assumes "rawRequest d = NULL" "\<not> respRecvd d"
  shows "(open_ni p d)\<lparr>resp := r, respRecvd := False, rawRequest := NULL, respTimeLeft := 0, reqID := reqID d + 1\<rparr> = closed_ni r d"
  using assms by (cases d) simp

lemma ni_answered_flow:
  assumes "rawRequest d = NULL" "\<not> respRecvd d" "p \<noteq> NULL"
  shows "flow v (waiting_at p d ts t out)
     [Framework (Call_ni_respond (reqID d) r), Ni_run (length ts), Ni_run (length ts), Deferred env]
     (ni_at (closed_ni r d) ts t [] (out @ [Api (informNiResponse r p), Free p]))"
proof -
  let ?d = "(open_ni p d)\<lparr>resp := r, respRecvd := True\<rparr>"
  have c: "ni_thread_test (t + 25) ?d = (fst (ni_thread_collect ?d), snd (ni_thread_collect ?d))" by (simp add: ni_thread_test_def)
  have answer: "flow v (waiting_at p d ts t out) [Framework (Call_ni_respond (reqID d) r)] (ni_at ?d (ts @ [NI_Waiting (t + 25)]) t [] out)"
    using respond_flow [of v "open_ni p d" "ts @ [NI_Waiting (t + 25)]" t "[]" out "reqID d" r] assms(3) by simp
  have "flow v (waiting_at p d ts t out) [Framework (Call_ni_respond (reqID d) r), Ni_run (length ts), Ni_run (length ts), Deferred env]
      (ni_at (?d\<lparr>respRecvd := False, rawRequest := NULL, respTimeLeft := 0, reqID := reqID ?d + 1\<rparr>) ts t []
        (out @ [Api (informNiResponse (resp ?d) p), Free p]))"
    by (rule flow_Cons [OF answer], rule flow_Cons [OF ni_run_flow [OF _ c]], simp, rule ni_answer_flow [OF assms(3)]) simp
  with closed_ni_eq [OF assms(1,2)] show ?thesis by simp
qed

lemma ni_timed_out_flow:
  assumes "rawRequest d = NULL" "\<not> respRecvd d" "p \<noteq> NULL"
  shows "flow v (waiting_at p d ts t out) [Tick 25, Ni_time_out (length ts), Ni_run (length ts), Deferred env]
     (ni_at (closed_ni GPS_NI_RESPONSE_NORESP d) ts (t + 25) [] (out @ [Api (informNiResponse GPS_NI_RESPONSE_NORESP p), Free p]))"
proof -
  let ?d = "(open_ni p d)\<lparr>resp := GPS_NI_RESPONSE_NORESP\<rparr>"
  have c: "ni_thread_timeout (open_ni p d) = (fst (ni_thread_collect ?d), snd (ni_thread_collect ?d))" by (simp add: ni_thread_timeout_def)
  have "flow v (waiting_at p d ts t out) [Tick 25, Ni_time_out (length ts), Ni_run (length ts), Deferred env]
      (ni_at (?d\<lparr>respRecvd := False, rawRequest := NULL, respTimeLeft := 0, reqID := reqID ?d + 1\<rparr>) ts (t + 25) []
        (out @ [Api (informNiResponse (resp ?d) p), Free p]))"
    by (rule flow_Cons [OF tick_flow], simp, rule flow_Cons [OF ni_time_out_flow [OF _ c]], simp, rule ni_answer_flow [OF assms(3)]) simp
  with closed_ni_eq [OF assms(1,2)] show ?thesis by simp
qed

lemma other_answer_ignored:
  assumes "waiting_at p d ts t out s" "i \<noteq> reqID d"
  shows "\<exists>s0. sys_run v [Framework (Call_ni_respond i r)] s = Some s0 \<and> loc_eng_ni (sys_engine s0) = loc_eng_ni (sys_engine s)
      \<and> eng_out (sys_engine s0) = eng_out (sys_engine s) \<and> sys_ni_threads s0 = sys_ni_threads s"
proof -
  from flowD [OF respond_flow assms(1), of v i r] assms(2) obtain s0 where
    s0: "sys_run v [Framework (Call_ni_respond i r)] s = Some s0" "waiting_at p d ts t out s0" by auto
  from ni_at_fields [OF s0(2)] ni_at_fields [OF assms(1)] show ?thesis
    by (intro exI [of _ s0] conjI s0(1)) (simp_all only:)
qed

text \<open>
  C11: A request of the network to locate the user, through all parts, in an engine at rest with no
  other request open. The user is shown it once, under the current number, and one thread waits for
  the answer. An answer under another number changes nothing. The user's answer goes to the modem,
  once, and the modem's data is freed. If no answer comes, the modem is told after 25 seconds that there
  was none, and the data is freed. Either way the engine is at rest again and the number has advanced.
\<close>

theorem ni_request_round_trip:
  assumes "ni_at d ts t [] out s" "rawRequest d = NULL" "\<not> respRecvd d" "p \<noteq> NULL" "thread_created env"
  shows "\<exists>s1 s2 s3.
     sys_run v [Modem (Request_ni n p), Deferred env, Ni_run (length ts)] s = Some s1
     \<and> eng_out (sys_engine s1) = out @ [Ni_thread, Cb_ni_notify (n\<lparr>ni_size := sizeof_GpsNiNotification, ni_timeout := 20, ni_notification_id := reqID d\<rparr>)]
     \<and> sys_ni_threads s1 = ts @ [NI_Waiting (t + 25)]
     \<and> (\<forall>i r'. i \<noteq> reqID d \<longrightarrow> (\<exists>s0. sys_run v [Framework (Call_ni_respond i r')] s1 = Some s0
          \<and> loc_eng_ni (sys_engine s0) = loc_eng_ni (sys_engine s1) \<and> eng_out (sys_engine s0) = eng_out (sys_engine s1)
          \<and> sys_ni_threads s0 = sys_ni_threads s1))
     \<and> sys_run v [Framework (Call_ni_respond (reqID d) r), Ni_run (length ts), Ni_run (length ts), Deferred env'] s1 = Some s2
     \<and> eng_out (sys_engine s2) = eng_out (sys_engine s1) @ [Api (informNiResponse r p), Free p]
     \<and> ni_at (d\<lparr>resp := r, respTimeLeft := 0, reqID := reqID d + 1\<rparr>) ts t [] (eng_out (sys_engine s2)) s2
     \<and> sys_run v [Tick 25, Ni_time_out (length ts), Ni_run (length ts), Deferred env'] s1 = Some s3
     \<and> eng_out (sys_engine s3) = eng_out (sys_engine s1) @ [Api (informNiResponse GPS_NI_RESPONSE_NORESP p), Free p]
     \<and> ni_at (d\<lparr>resp := GPS_NI_RESPONSE_NORESP, respTimeLeft := 0, reqID := reqID d + 1\<rparr>) ts (t + 25) [] (eng_out (sys_engine s3)) s3"
proof -
  let ?out = "out @ [Ni_thread, Cb_ni_notify (shown_ni n d)]"
  from flowD [OF ni_opened_flow [OF assms(2,3,5)] assms(1)] obtain s1 where
    s1: "sys_run v [Modem (Request_ni n p), Deferred env, Ni_run (length ts)] s = Some s1" "waiting_at p d ts t ?out s1" by blast
  from flowD [OF ni_answered_flow [OF assms(2-4)] s1(2)] obtain s2 where
    s2: "sys_run v [Framework (Call_ni_respond (reqID d) r), Ni_run (length ts), Ni_run (length ts), Deferred env'] s1 = Some s2"
      "ni_at (closed_ni r d) ts t [] (?out @ [Api (informNiResponse r p), Free p]) s2" by blast
  from flowD [OF ni_timed_out_flow [OF assms(2-4)] s1(2)] obtain s3 where
    s3: "sys_run v [Tick 25, Ni_time_out (length ts), Ni_run (length ts), Deferred env'] s1 = Some s3"
      "ni_at (closed_ni GPS_NI_RESPONSE_NORESP d) ts (t + 25) [] (?out @ [Api (informNiResponse GPS_NI_RESPONSE_NORESP p), Free p]) s3" by blast
  show ?thesis
    by (rule exI [of _ s1], rule exI [of _ s2], rule exI [of _ s3])
       (use s1 s2 s3 other_answer_ignored [OF s1(2)] ni_at_fields(3,7) [OF s1(2)] ni_at_fields(3) [OF s2(2)] ni_at_fields(3) [OF s3(2)]
        in \<open>simp del: sys_run.simps\<close>)
qed

definition ni_rest_system :: loc_system where
  "ni_rest_system = put_engine (rest_engine\<lparr>ni_notify_cb := True\<rparr>) (system_of example_afw)"

lemma ni_request_round_trip_witness:
  "\<exists>s1 s2 s3.
     sys_run example_sys_env [Modem (Request_ni ni_example_request 7), Deferred example_env, Ni_run 0] ni_rest_system = Some s1
     \<and> length (eng_out (sys_engine s1)) = 2
     \<and> sys_run example_sys_env [Framework (Call_ni_respond 0 1), Ni_run 0, Ni_run 0, Deferred example_env] s1 = Some s2
     \<and> eng_out (sys_engine s2) = eng_out (sys_engine s1) @ [Api (informNiResponse 1 7), Free 7]
     \<and> sys_run example_sys_env [Tick 25, Ni_time_out 0, Ni_run 0, Deferred example_env] s1 = Some s3
     \<and> eng_out (sys_engine s3) = eng_out (sys_engine s1) @ [Api (informNiResponse 3 7), Free 7]"
proof -
  let ?d = "loc_eng_ni rest_engine"
  have d: "rawRequest ?d = NULL" "\<not> respRecvd ?d" "reqID ?d = 0" by (simp_all add: rest_engine_def example_defs)
  have at: "ni_at ?d [] 0 [] [] ni_rest_system"
    by (simp add: ni_at_def resting_def ni_rest_system_def rest_engine_def calm_def quiet_def queued_def example_defs system_of_def)
  have p: "(7 :: ptr) \<noteq> NULL" "thread_created example_env" by (simp_all add: example_env_def)
  from ni_request_round_trip [OF at d(1,2) p, of example_sys_env ni_example_request 1 example_env] obtain s1 s2 s3 where
    w: "sys_run example_sys_env [Modem (Request_ni ni_example_request 7), Deferred example_env, Ni_run 0] ni_rest_system = Some s1"
      "eng_out (sys_engine s1) = [] @ [Ni_thread, Cb_ni_notify (shown_ni ni_example_request ?d)]"
      "sys_run example_sys_env [Framework (Call_ni_respond 0 1), Ni_run 0, Ni_run 0, Deferred example_env] s1 = Some s2"
      "eng_out (sys_engine s2) = eng_out (sys_engine s1) @ [Api (informNiResponse 1 7), Free 7]"
      "sys_run example_sys_env [Tick 25, Ni_time_out 0, Ni_run 0, Deferred example_env] s1 = Some s3"
      "eng_out (sys_engine s3) = eng_out (sys_engine s1) @ [Api (informNiResponse GPS_NI_RESPONSE_NORESP 7), Free 7]"
    unfolding d(3) list.size by blast
  from w(2) have "length (eng_out (sys_engine s1)) = 2" by simp
  with w show ?thesis unfolding GPS_NI_RESPONSE_NORESP_def by blast
qed

section \<open>Configuring the modem\<close>

text \<open>The module data as \<open>D\<close>, the queue and what has left the engine; the requests' threads and the time stay.\<close>

definition data_at :: "loc_eng_data \<Rightarrow> ni_thread list \<Rightarrow> int \<Rightarrow> loc_eng_msg list \<Rightarrow> eng_out list \<Rightarrow> loc_system \<Rightarrow> bool" where
  "data_at D ts t q out s \<longleftrightarrow> resting q out s \<and> loc_eng_data.truncate (sys_engine s) = D \<and> sys_ni_threads s = ts \<and> sys_clock s = t"

lemma config_flow:
  assumes "\<forall>m \<in> set ms. config_call m \<noteq> None"
  shows "flow v (data_at D ts t ms out) (map (\<lambda>i. Deferred env) [0..<length ms])
     (data_at D ts t [] (out @ map (\<lambda>m. Api (the (config_call m))) ms))"
  using assms
proof (induction ms arbitrary: out)
  case Nil
  show ?case by (simp add: flow_nil)
next
  case (Cons m ms)
  then obtain a where a: "config_call m = Some a" by auto
  have "flow v (data_at D ts t (m # ms) out) [Deferred env] (data_at D ts t ms (out @ [Api a]))"
  proof (rule flow_step)
    fix s assume s: "data_at D ts t (m # ms) out s"
    let ?e = "sys_engine s" and ?e' = "emit (Api a) (pop (sys_engine s))"
    from s have e: "calm ?e" "queued ?e = m # ms" "eng_out ?e = out" "\<not> deferred_over s" by (simp_all add: data_at_def resting_def)
    from turn_config [OF calm_quiet [OF e(1)] e(2) a]
    have turn: "deferred_turn (gps_conf (sys_afw s)) (dev_resolve v) env ?e = Some (Turn ?e')" .
    have "same_data ?e ?e'" by (simp add: pop_def emit_def loc_eng_data.defs)
    moreover have "calm ?e'" using calm_pop [OF e(1)] by (simp add: calm_def quiet_emit) (simp add: emit_def)
    moreover have "queued ?e' = ms" "eng_out ?e' = out @ [Api a]"
      using e calm_quiet [OF e(1), THEN quiet_pop] by (simp_all add: quiet_emit)
    ultimately have "data_at D ts t ms (out @ [Api a]) (put_engine ?e' s)"
      using s by (simp add: data_at_def resting_def)
    moreover have "spawned ?e ?e' = []" using e(3) calm_quiet [OF e(1), THEN quiet_pop] by (simp add: spawned_def quiet_emit)
    with turn e(4) have "sys_step v (Deferred env) s = Some (put_engine ?e' s)"
      by (simp add: deferred_event_def put_engine_def)
    ultimately show "\<exists>s'. sys_step v (Deferred env) s = Some s' \<and> data_at D ts t ms (out @ [Api a]) s'" by blast
  qed
  from flow_Cons [OF this Cons.IH] Cons.prems a show ?case
    by (simp add: map_upt_Suc upt_conv_Cons map_Suc_upt [symmetric] comp_def del: upt_Suc)
qed

lemma deferred_keeps:
  "sys_run v (map (\<lambda>i. Deferred env) is) s = Some s'
    \<Longrightarrow> gps_conf (sys_afw s') = gps_conf (sys_afw s) \<and> gps_loc_cb (sys_afw s') = gps_loc_cb (sys_afw s)"
proof (induction "is" arbitrary: s)
  case (Cons i "is")
  from Cons.prems obtain s1 where 1: "deferred_event v env s = Some s1" "sys_run v (map (\<lambda>i. Deferred env) is) s1 = Some s'"
    by (auto simp: bind_eq_Some)
  from 1(1) have "gps_conf (sys_afw s1) = gps_conf (sys_afw s)" "gps_loc_cb (sys_afw s1) = gps_loc_cb (sys_afw s)"
    by (auto simp: deferred_event_def put_engine_def split: if_splits option.splits turn.splits)
  with Cons.IH [OF 1(2)] show ?case by simp
qed simp

end
