(* ===== verification/Loc_System_Session.thy ===== *)
theory Loc_System_Session
  imports Loc_System_Flows
begin

text \<open>
  A positioning session through the whole library (Loc\_System): the framework chooses a mode and starts, the modem reports
  positions, and the framework stops.
\<close>

section \<open>The engine between two calls\<close>

text \<open>
  At rest, with the adapter \<open>a\<close> and the framework's callbacks; \<open>conf\<close> and \<open>im\<close> decide which
  intermediate positions are reported, and \<open>lsn\<close> says whether the framework has given a listener for positions.
\<close>

definition fix_at :: "LocApiAdapter \<Rightarrow> loc_gps_cfg \<Rightarrow> u8 \<Rightarrow> bool \<Rightarrow> loc_eng_msg list \<Rightarrow> eng_out list \<Rightarrow> loc_system \<Rightarrow> bool" where
  "fix_at a conf im lsn q out s \<longleftrightarrow> resting q out s \<and> client_handle (sys_engine s) = Some a \<and> location_cb (sys_engine s)
     \<and> status_cb (sys_engine s) \<and> \<not> ulp_active conf (sys_engine s) \<and> mute_session_state (sys_engine s) \<noteq> LOC_MUTE_SESS_IN_SESSION
     \<and> intermediateFix (sys_engine s) = im \<and> gps_conf (sys_afw s) = conf \<and> gps_loc_cb (sys_afw s) = lsn"

lemma fix_at_put:
  assumes "fix_at a conf im lsn q out s" "sys_engine s' = e'" "gps_conf (sys_afw s') = gps_conf (sys_afw s)"
    "gps_loc_cb (sys_afw s') = gps_loc_cb (sys_afw s)" "deferred_over s' = deferred_over s"
    "calm e'" "queued e' = q'" "eng_out e' = out'" "client_handle e' = Some a'"
    "location_cb e' = location_cb (sys_engine s)" "status_cb e' = status_cb (sys_engine s)" "ulp_initialized e' = ulp_initialized (sys_engine s)"
    "mute_session_state e' = mute_session_state (sys_engine s)" "intermediateFix e' = intermediateFix (sys_engine s)"
  shows "fix_at a' conf im lsn q' out' s'"
  using assms by (simp add: fix_at_def resting_def ulp_active_def)

lemma fix_at_snd:
  assumes "fix_at a conf im lsn [] out s"
  obtains e' where "snd_deferred msg (sys_engine s) = Some e'" "fix_at a conf im lsn [msg] out (put_engine e' s)"
proof -
  let ?e = "sys_engine s"
  from assms obtain c where c: "eng_context ?e" "me ?e = Some c" "deferred_q c = []" "calm ?e" "eng_out ?e = out" "client_handle ?e = Some a"
    by (auto simp: fix_at_def resting_def calm_def quiet_def queued_def)
  let ?e' = "?e\<lparr>me := Some (c\<lparr>deferred_q := deferred_q c @ [msg]\<rparr>)\<rparr>"
  have "snd_deferred msg ?e = Some ?e'" using c by (simp add: snd_deferred_def)
  moreover have "fix_at a conf im lsn [msg] out (put_engine ?e' s)"
    by (rule fix_at_put [OF assms, where e' = ?e']) (use c in \<open>simp_all add: put_engine_def calm_def quiet_def queued_def\<close>)
  ultimately show thesis by (rule that)
qed

lemma fix_call:
  assumes "\<And>s. fix_at a conf im lsn [] out s \<Longrightarrow>
      call_afw v c (sys_afw s) = map_option (\<lambda>e. (sys_afw s)\<lparr>loc_afw_data := e\<rparr>) (snd_deferred msg (sys_engine s))"
  shows "flow v (fix_at a conf im lsn [] out) [Framework c] (fix_at a conf im lsn [msg] out)"
proof (rule flow_step)
  fix s assume s: "fix_at a conf im lsn [] out s"
  obtain e' where e': "snd_deferred msg (sys_engine s) = Some e'" "fix_at a conf im lsn [msg] out (put_engine e' s)"
    by (rule fix_at_snd [OF s])
  with assms [OF s] show "\<exists>s'. sys_step v (Framework c) s = Some s' \<and> fix_at a conf im lsn [msg] out s'"
    by (simp add: put_engine_def)
qed

lemma fix_modem:
  assumes "modem_route (locEngHandle a) r = Some (To_Engine msg)"
  shows "flow v (fix_at a conf im lsn [] out) [Modem r] (fix_at a conf im lsn [msg] out)"
proof (rule flow_step)
  fix s assume s: "fix_at a conf im lsn [] out s"
  obtain e' where e': "snd_deferred msg (sys_engine s) = Some e'" "fix_at a conf im lsn [msg] out (put_engine e' s)"
    by (rule fix_at_snd [OF s])
  from s have "client_handle (sys_engine s) = Some a" by (simp add: fix_at_def)
  with assms e'(1) have "sys_step v (Modem r) s = Some (put_engine e' s)" by (simp add: modem_reports_def)
  with e'(2) show "\<exists>s'. sys_step v (Modem r) s = Some s' \<and> fix_at a conf im lsn [msg] out s'" by blast
qed

text \<open>The engine after a turn that changed the adapter's state and called out.\<close>

abbreviation after_turn :: "LocApiAdapter \<Rightarrow> eng_out list \<Rightarrow> engine \<Rightarrow> engine" where
  "after_turn a evs e \<equiv> e\<lparr>client_handle := Some a, eng_out := eng_out e @ evs\<rparr>"

lemma fix_turn:
  assumes "\<And>e resolve. client_handle e = Some a \<Longrightarrow> location_cb e \<Longrightarrow> status_cb e \<Longrightarrow> mute_session_state e \<noteq> LOC_MUTE_SESS_IN_SESSION
      \<Longrightarrow> intermediateFix e = im \<Longrightarrow> \<not> agps_request_pending e
      \<Longrightarrow> handle_msg conf resolve env msg e = Some (after_turn a' evs e)"
    and "\<And>e. delete_msg msg e = e"
  shows "flow v (fix_at a conf im lsn [msg] out) [Deferred env] (fix_at a' conf im lsn [] (out @ evs))"
proof (rule flow_step)
  fix s assume s: "fix_at a conf im lsn [msg] out s"
  let ?e = "sys_engine s" and ?e' = "after_turn a' evs (pop (sys_engine s))"
  from s have e: "calm ?e" "queued ?e = [msg]" "eng_out ?e = out" "\<not> deferred_over s" "client_handle ?e = Some a" "location_cb ?e"
    "status_cb ?e" "mute_session_state ?e \<noteq> LOC_MUTE_SESS_IN_SESSION" "intermediateFix ?e = im" "gps_conf (sys_afw s) = conf"
    by (simp_all add: fix_at_def resting_def)
  have "\<not> agps_request_pending (pop ?e)" using e(1) by (simp add: calm_def pop_def)
  then have h: "handle_msg conf (dev_resolve v) env msg (pop ?e) = Some ?e'"
    using e by (intro assms(1)) (simp_all add: pop_def)
  have c: "calm ?e'" "queued ?e' = []"
    using calm_pop [OF e(1)] quiet_pop [OF calm_quiet [OF e(1)]] e(2) by (simp_all add: calm_def quiet_def queued_def)
  from turn_calm [OF e(1,2) h c(1)] assms(2)
  have "deferred_turn (gps_conf (sys_afw s)) (dev_resolve v) env ?e = Some (Turn ?e')" by (simp add: e(10))
  with e(4) have step: "sys_step v (Deferred env) s
      = Some ((put_engine ?e' s)\<lparr>sys_ni_threads := sys_ni_threads s @ spawned ?e ?e'\<rparr>)"
    by (simp add: deferred_event_def)
  have "fix_at a' conf im lsn [] (out @ evs) ((put_engine ?e' s)\<lparr>sys_ni_threads := sys_ni_threads s @ spawned ?e ?e'\<rparr>)"
    by (rule fix_at_put [OF s, where e' = ?e']) (use c e(3) in \<open>simp_all add: put_engine_def pop_def\<close>)
  with step show "\<exists>s'. sys_step v (Deferred env) s = Some s' \<and> fix_at a' conf im lsn [] (out @ evs) s'" by blast
qed

section \<open>What a report leads to\<close>

text \<open>What the engine should call out for a report, and whether it has then reported a position or a failure.\<close>

definition delivered :: "loc_gps_cfg \<Rightarrow> u8 \<Rightarrow> GpsLocation \<times> ptr \<times> loc_sess_status \<Rightarrow> bool" where
  "delivered conf im = (\<lambda>(l, x, st). st = LOC_SESS_FAILURE \<or> accept_fix conf im st l)"

definition report_out :: "bool \<Rightarrow> loc_gps_cfg \<Rightarrow> u8 \<Rightarrow> GpsLocation \<times> ptr \<times> loc_sess_status \<Rightarrow> eng_out list" where
  "report_out single conf im = (\<lambda>(l, x, st).
     (if delivered conf im (l, x, st)
      then (if st = LOC_SESS_FAILURE then Cb_location None NULL else Cb_location (Some l) x)
        # (if single \<and> st = LOC_SESS_INTERMEDIATE then [Api stopFix] else [])
      else [])
     @ (if gl_rawData l \<noteq> NULL then [Free_rawData (gl_rawData l)] else []))"

definition report_events :: "api_env \<Rightarrow> GpsLocation \<times> ptr \<times> loc_sess_status \<Rightarrow> sys_event list" where
  "report_events env = (\<lambda>(l, x, st). [Modem (Report_position l x st), Deferred env])"

lemma same_handle: "client_handle e = Some a \<Longrightarrow> e\<lparr>client_handle := Some a\<rparr> = e"
  by (cases e) simp

lemma report_handled:
  assumes "client_handle e = Some a" "mute_session_state e \<noteq> LOC_MUTE_SESS_IN_SESSION" "location_cb e" "intermediateFix e = im"
  shows "handle_report_position conf l x st e = Some (after_turn
     (a\<lparr>navigating := navigating a \<and> \<not> (pm_recurrence (fixCriteria a) = GPS_POSITION_RECURRENCE_SINGLE \<and> delivered conf im (l, x, st))\<rparr>)
     (report_out (pm_recurrence (fixCriteria a) = GPS_POSITION_RECURRENCE_SINGLE) conf im (l, x, st)) e)"
  using assms
  by (cases a; cases e)
     (auto simp: handle_report_position_def setInSession_def call_api_def emit_def emit_if_def Let_def report_out_def delivered_def)

lemma report_flow:
  assumes "single = (pm_recurrence (fixCriteria a) = GPS_POSITION_RECURRENCE_SINGLE)" "\<not> sendUlpMsg (locEngHandle a)"
  shows "flow v (fix_at a conf im lsn [] out) (report_events env r)
     (fix_at (a\<lparr>navigating := navigating a \<and> \<not> (single \<and> delivered conf im r)\<rparr>) conf im lsn [] (out @ report_out single conf im r))"
proof -
  obtain l x st where r: "r = (l, x, st)" by (cases r)
  have "flow v (fix_at a conf im lsn [] out) [Modem (Report_position l x st)] (fix_at a conf im lsn [loc_eng_msg_report_position l x st] out)"
    by (rule fix_modem) (simp add: reportPosition_def assms(2))
  moreover have "flow v (fix_at a conf im lsn [loc_eng_msg_report_position l x st] out) [Deferred env]
     (fix_at (a\<lparr>navigating := navigating a \<and> \<not> (single \<and> delivered conf im r)\<rparr>) conf im lsn [] (out @ report_out single conf im r))"
    by (rule fix_turn) (simp_all add: report_handled r assms(1))
  ultimately show ?thesis unfolding r report_events_def prod.case by (rule flow_Cons)
qed

lemma flow_append:
  assumes "flow v P xs Q" "flow v Q ys R"
  shows "flow v P (xs @ ys) R"
  unfolding flow_def
proof (intro allI impI)
  fix s assume "P s"
  from flowD [OF assms(1) this] obtain s1 where 1: "sys_run v xs s = Some s1" "Q s1" by blast
  from flowD [OF assms(2) 1(2)] obtain s2 where 2: "sys_run v ys s1 = Some s2" "R s2" by blast
  from 1(1) have "sys_run v (xs @ ys) s = sys_run v ys s1"
    by (induction xs arbitrary: s) (auto simp: bind_eq_Some)
  with 2 show "\<exists>s'. sys_run v (xs @ ys) s = Some s' \<and> R s'" by simp
qed

lemma reports_flow:
  assumes "single = (pm_recurrence (fixCriteria a) = GPS_POSITION_RECURRENCE_SINGLE)" "\<not> sendUlpMsg (locEngHandle a)"
  shows "flow v (fix_at a conf im lsn [] out) (concat (map (report_events env) rs))
     (fix_at (a\<lparr>navigating := navigating a \<and> \<not> (single \<and> list_ex (delivered conf im) rs)\<rparr>) conf im lsn []
        (out @ concat (map (report_out single conf im) rs)))"
  using assms
proof (induction rs arbitrary: a out)
  case Nil
  show ?case by (simp add: flow_nil)
next
  case (Cons r rs)
  let ?a = "a\<lparr>navigating := navigating a \<and> \<not> (single \<and> delivered conf im r)\<rparr>"
  from Cons.prems have a: "single = (pm_recurrence (fixCriteria ?a) = GPS_POSITION_RECURRENCE_SINGLE)" "\<not> sendUlpMsg (locEngHandle ?a)"
    by simp_all
  from flow_append [OF report_flow [OF Cons.prems] Cons.IH [OF a]] show ?case
    by (simp add: imp_conjR)
qed


section \<open>Starting and stopping\<close>

lemma start_flow:
  assumes "new_LocPosMode (locMode mode) recurrence interval accuracy time None None = Some p" "\<not> navigating a"
    "ret_startFix env = LOC_API_ADAPTER_ERR_SUCCESS"
  shows "flow v (fix_at a conf im lsn [] out)
     [Framework (Call_set_position_mode mode recurrence interval accuracy time), Deferred env, Framework Call_start, Deferred env]
     (fix_at (a\<lparr>fixCriteria := api_fix_criteria env (Some p) (fixCriteria a), navigating := True\<rparr>) conf im lsn []
       (out @ [Api (setPositionMode (Some p)), Api startFix, Cb_status GPS_STATUS_SESSION_BEGIN]))"
proof -
  let ?a = "a\<lparr>fixCriteria := api_fix_criteria env (Some p) (fixCriteria a)\<rparr>"
  let ?P = "fix_at a conf im lsn" and ?Q = "fix_at ?a conf im lsn" and ?start = "loc_eng_msg LOC_ENG_MSG_START_FIX"
  have ctx: "eng_context (sys_engine s)" "\<not> ulp_active (gps_conf (sys_afw s)) (sys_engine s)" if "fix_at b conf im lsn q o1 s" for b q o1 s
    using that by (auto simp: fix_at_def resting_def calm_def quiet_def)
  have 1: "flow v (?P [] out) [Framework (Call_set_position_mode mode recurrence interval accuracy time)] (?P [loc_eng_msg_position_mode p] out)"
    using ctx assms(1) by (intro fix_call) (simp add: sLocEngInterface_def loc_set_position_mode_def with_engine_def
        loc_eng_set_position_mode_def INIT_CHECK_def option.map_comp comp_def)
  have 2: "flow v (?P [loc_eng_msg_position_mode p] out) [Deferred env] (?Q [] (out @ [Api (setPositionMode (Some p))]))"
    by (rule fix_turn) (simp_all add: set_position_mode_api_def emit_def)
  have 3: "flow v (?Q [] o1) [Framework Call_start] (?Q [?start] o1)" for o1
    using ctx by (intro fix_call) (simp add: sLocEngInterface_def loc_start_def with_engine_def loc_eng_start_def INIT_CHECK_def
        option.map_comp comp_def)
  have 4: "flow v (?Q [?start] o1) [Deferred env]
      (fix_at (?a\<lparr>navigating := True\<rparr>) conf im lsn [] (o1 @ [Api startFix, Cb_status GPS_STATUS_SESSION_BEGIN]))" for o1
    by (rule fix_turn) (simp_all add: handle_plain_def loc_eng_start_handler_def isInSession_def call_api_def setInSession_def
        loc_inform_gps_status_def emit_if_def emit_def assms(2,3))
  show ?thesis
    using flow_Cons [OF 1 flow_Cons [OF 2 flow_Cons [OF 3 4]]] by simp
qed

lemma stop_flow:
  assumes "ret_stopFix env = LOC_API_ADAPTER_ERR_SUCCESS"
  shows "flow v (fix_at a conf im lsn [] out) [Framework Call_stop, Deferred env]
     (fix_at (a\<lparr>navigating := False\<rparr>) conf im lsn []
       (out @ (if navigating a then [Api stopFix, Cb_status GPS_STATUS_SESSION_END] else [])))"
proof -
  let ?stop = "loc_eng_msg LOC_ENG_MSG_STOP_FIX"
  have ctx: "eng_context (sys_engine s)" "\<not> ulp_active (gps_conf (sys_afw s)) (sys_engine s)" if "fix_at b conf im lsn q o1 s" for b q o1 s
    using that by (auto simp: fix_at_def resting_def calm_def quiet_def)
  have 1: "flow v (fix_at a conf im lsn [] out) [Framework Call_stop] (fix_at a conf im lsn [?stop] out)"
    using ctx by (intro fix_call) (simp add: sLocEngInterface_def loc_stop_def with_engine_def loc_eng_stop_def INIT_CHECK_def
        option.map_comp comp_def)
  have 2: "flow v (fix_at a conf im lsn [?stop] out) [Deferred env] (fix_at (a\<lparr>navigating := False\<rparr>) conf im lsn []
       (out @ (if navigating a then [Api stopFix, Cb_status GPS_STATUS_SESSION_END] else [])))"
    by (rule fix_turn; cases a) (auto simp: handle_plain_def handle_stop_fix_def loc_eng_stop_handler_def isInSession_def call_api_def
        setInSession_def loc_inform_gps_status_def emit_if_def emit_def assms same_handle)
  from flow_Cons [OF 1 2] show ?thesis .
qed


section \<open>A session\<close>

text \<open>What the framework's listener for positions gets for a report.\<close>

lemma framework_report:
  assumes "gps_loc_cb s = lsn"
  shows "concat (map (framework_out s) (report_out single conf im (l, x, st)))
     = (if lsn \<and> st \<noteq> LOC_SESS_FAILURE \<and> accept_fix conf im st l then [Fw_location l] else [])"
  using assms by (auto simp: report_out_def delivered_def loc_cb_def)

lemma framework_reports:
  assumes "gps_loc_cb s = lsn"
  shows "concat (map (framework_out s) (concat (map (report_out single conf im) rs)))
     = (if lsn then map (\<lambda>(l, x, st). Fw_location l) (filter (\<lambda>(l, x, st). st \<noteq> LOC_SESS_FAILURE \<and> accept_fix conf im st l) rs) else [])"
proof (induction rs)
  case (Cons r rs)
  then show ?case by (cases r) (auto simp: framework_report [OF assms])
qed simp

text \<open>
  C7: A positioning session. The framework chooses a mode and starts: the modem gets the mode and then the
  order to fix, and the framework is told that the session began. Of the modem's reports, in their order, the framework
  gets exactly the good fixes and the intermediate ones that are switched on and not known
  to be too inaccurate. A single-shot session is over with the first report handed on, and an intermediate
  one makes the engine stop the modem; a periodic session lasts until the framework stops it, and only a
  session that is still on is stopped at the modem.
\<close>

theorem positioning_session:
  assumes "fix_at a conf im lsn [] out s" "\<not> navigating a" "\<not> sendUlpMsg (locEngHandle a)"
    "new_LocPosMode (locMode mode) recurrence interval accuracy time None None = Some p"
    "pm_recurrence (api_fix_criteria env (Some p) (fixCriteria a)) = recurrence"
    "ret_startFix env = LOC_API_ADAPTER_ERR_SUCCESS" "ret_stopFix env = LOC_API_ADAPTER_ERR_SUCCESS"
  shows "\<exists>s1 s2 s3.
     sys_run v [Framework (Call_set_position_mode mode recurrence interval accuracy time), Deferred env, Framework Call_start, Deferred env] s = Some s1
     \<and> eng_out (sys_engine s1) = out @ [Api (setPositionMode (Some p)), Api startFix, Cb_status GPS_STATUS_SESSION_BEGIN]
     \<and> isInSession (sys_engine s1) = Some True
     \<and> sys_run v (concat (map (report_events env) rs)) s1 = Some s2
     \<and> eng_out (sys_engine s2) = eng_out (sys_engine s1)
         @ concat (map (report_out (recurrence = GPS_POSITION_RECURRENCE_SINGLE) conf im) rs)
     \<and> concat (map (framework_out (sys_afw s2)) (drop (length (eng_out (sys_engine s1))) (eng_out (sys_engine s2))))
         = (if lsn then map (\<lambda>(l, x, st). Fw_location l) (filter (\<lambda>(l, x, st). st \<noteq> LOC_SESS_FAILURE \<and> accept_fix conf im st l) rs) else [])
     \<and> isInSession (sys_engine s2) = Some (\<not> (recurrence = GPS_POSITION_RECURRENCE_SINGLE \<and> list_ex (delivered conf im) rs))
     \<and> sys_run v [Framework Call_stop, Deferred env] s2 = Some s3
     \<and> eng_out (sys_engine s3) = eng_out (sys_engine s2)
         @ (if isInSession (sys_engine s2) = Some True then [Api stopFix, Cb_status GPS_STATUS_SESSION_END] else [])
     \<and> fix_at (a\<lparr>fixCriteria := api_fix_criteria env (Some p) (fixCriteria a)\<rparr>) conf im lsn [] (eng_out (sys_engine s3)) s3"
proof -
  let ?a = "a\<lparr>fixCriteria := api_fix_criteria env (Some p) (fixCriteria a), navigating := True\<rparr>"
  let ?single = "recurrence = GPS_POSITION_RECURRENCE_SINGLE"
  let ?b = "?a\<lparr>navigating := \<not> (?single \<and> list_ex (delivered conf im) rs)\<rparr>"
  have fields: "eng_out (sys_engine t) = o1" "client_handle (sys_engine t) = Some b" "gps_loc_cb (sys_afw t) = lsn"
    if "fix_at b conf im lsn q o1 t" for b q o1 t
    using that by (simp_all add: fix_at_def resting_def)
  have single: "?single = (pm_recurrence (fixCriteria ?a) = GPS_POSITION_RECURRENCE_SINGLE)" "\<not> sendUlpMsg (locEngHandle ?a)"
    using assms(3,5) by simp_all
  let ?o1 = "out @ [Api (setPositionMode (Some p)), Api startFix, Cb_status GPS_STATUS_SESSION_BEGIN]"
  from flowD [OF start_flow [OF assms(4,2,6)] assms(1)] obtain s1 where
    1: "sys_run v [Framework (Call_set_position_mode mode recurrence interval accuracy time), Deferred env, Framework Call_start, Deferred env] s = Some s1"
      "fix_at ?a conf im lsn [] ?o1 s1" by blast
  let ?o2 = "?o1 @ concat (map (report_out ?single conf im) rs)"
  from flowD [OF reports_flow [OF single, where env = env and rs = rs] 1(2)] obtain s2 where
    2: "sys_run v (concat (map (report_events env) rs)) s1 = Some s2" "fix_at ?b conf im lsn [] ?o2 s2" by auto
  from flowD [OF stop_flow [OF assms(7)] 2(2)] obtain s3 where
    3: "sys_run v [Framework Call_stop, Deferred env] s2 = Some s3"
      "fix_at (?b\<lparr>navigating := False\<rparr>) conf im lsn [] (?o2 @ (if navigating ?b then [Api stopFix, Cb_status GPS_STATUS_SESSION_END] else [])) s3"
    by blast
  have b: "?b\<lparr>navigating := False\<rparr> = a\<lparr>fixCriteria := api_fix_criteria env (Some p) (fixCriteria a)\<rparr>"
    using assms(2) by (cases a) simp
  note f = fields [OF 1(2)] fields [OF 2(2)] fields [OF 3(2)]
  have at3: "fix_at (a\<lparr>fixCriteria := api_fix_criteria env (Some p) (fixCriteria a)\<rparr>) conf im lsn [] (eng_out (sys_engine s3)) s3"
    using 3(2) f(7) unfolding b by simp
  have "isInSession (sys_engine s1) = Some True" "isInSession (sys_engine s2) = Some (\<not> (?single \<and> list_ex (delivered conf im) rs))"
    using f(2,5) by (simp_all add: isInSession_def)
  moreover have "eng_out (sys_engine s3) = eng_out (sys_engine s2)
      @ (if isInSession (sys_engine s2) = Some True then [Api stopFix, Cb_status GPS_STATUS_SESSION_END] else [])"
    using f(4,7) calculation(2) by simp
  moreover have "drop (length (eng_out (sys_engine s1))) (eng_out (sys_engine s2)) = concat (map (report_out ?single conf im) rs)"
    using f(1,4) by simp
  moreover note framework_reports [OF f(6), of ?single conf im rs]
  ultimately show ?thesis using 1(1) 2(1) 3(1) f(1,4) at3
    by (intro exI [of _ s1] exI [of _ s2] exI [of _ s3]) (simp del: sys_run.simps)
qed


definition fix_rest_system :: loc_system where
  "fix_rest_system = put_engine (rest_engine\<lparr>location_cb := True, status_cb := True\<rparr>) (system_of (example_afw\<lparr>gps_loc_cb := True\<rparr>))"

lemma positioning_session_witness:
  "\<exists>p s1 s2 s3. new_LocPosMode (locMode GPS_POSITION_MODE_MS_BASED) GPS_POSITION_RECURRENCE_SINGLE 1000 0 0 None None = Some p
     \<and> sys_run example_sys_env [Framework (Call_set_position_mode GPS_POSITION_MODE_MS_BASED GPS_POSITION_RECURRENCE_SINGLE 1000 0 0),
          Deferred example_env, Framework Call_start, Deferred example_env] fix_rest_system = Some s1
     \<and> sys_run example_sys_env [Modem (Report_position (example_location 60) 0 LOC_SESS_INTERMEDIATE), Deferred example_env,
          Modem (Report_position (example_location 10) 0 LOC_SESS_SUCCESS), Deferred example_env] s1 = Some s2
     \<and> concat (map (framework_out (sys_afw s2)) (drop (length (eng_out (sys_engine s1))) (eng_out (sys_engine s2))))
          = [Fw_location (example_location 10)]
     \<and> isInSession (sys_engine s2) = Some False
     \<and> sys_run example_sys_env [Framework Call_stop, Deferred example_env] s2 = Some s3
     \<and> eng_out (sys_engine s3) = eng_out (sys_engine s2)"
proof -
  let ?rs = "[(example_location 60, 0, LOC_SESS_INTERMEDIATE), (example_location 10, 0, LOC_SESS_SUCCESS)]"
  obtain p where p: "new_LocPosMode (locMode GPS_POSITION_MODE_MS_BASED) GPS_POSITION_RECURRENCE_SINGLE 1000 0 0 None None = Some p"
    "pm_recurrence p = GPS_POSITION_RECURRENCE_SINGLE"
    by (auto simp: new_LocPosMode_def)
  obtain a where a: "fix_at a example_conf 0 True [] [] fix_rest_system" "\<not> navigating a" "\<not> sendUlpMsg (locEngHandle a)"
    by (auto simp: fix_rest_system_def fix_at_def resting_def rest_engine_def calm_def quiet_def queued_def example_defs system_of_def
        example_afw_def put_engine_def ulp_active_def)
  have e: "pm_recurrence (api_fix_criteria example_env (Some p) (fixCriteria a)) = GPS_POSITION_RECURRENCE_SINGLE"
    "ret_startFix example_env = LOC_API_ADAPTER_ERR_SUCCESS" "ret_stopFix example_env = LOC_API_ADAPTER_ERR_SUCCESS"
    using p(2) by (simp_all add: example_env_def)
  have d: "concat (map (report_events example_env) ?rs) = [Modem (Report_position (example_location 60) 0 LOC_SESS_INTERMEDIATE), Deferred example_env,
          Modem (Report_position (example_location 10) 0 LOC_SESS_SUCCESS), Deferred example_env]"
    "filter (\<lambda>(l, x, st). st \<noteq> LOC_SESS_FAILURE \<and> accept_fix example_conf 0 st l) ?rs = [(example_location 10, 0, LOC_SESS_SUCCESS)]"
    "list_ex (delivered example_conf 0) ?rs"
    by (simp_all add: report_events_def accept_fix_def delivered_def)
  from positioning_session [OF a p(1) e, of example_sys_env ?rs] show ?thesis
    unfolding d(1,2) using d(3) p(1) by auto
qed

end
