(* ===== verification/Loc_System_Startup.thy ===== *)
theory Loc_System_Startup
  imports Loc_System_Session Loc_Cfg_Correct
begin

text \<open>
  The start of the library (Loc\_System): from a new process to the states at rest in which the
  conversations of Loc\_System\_Flows and the sessions of Loc\_System\_Session begin, and what the
  text of gps.conf makes the modem's configuration.
\<close>

section \<open>From start-up to rest\<close>

lemma init_same_data:
  assumes "\<not> eng_context e" "me e = None" "event \<noteq> 0" "\<exists>i < 30. rets i = LOC_API_ADAPTER_ERR_SUCCESS"
    "loc_eng_init conf rets (Some fx) w (Some cb) event ext e = Some (r, e')"
  shows "same_data (first_engine conf fx cb event ext e) e'" "me e' \<noteq> None"
    "queued e' = config_messages conf @ [loc_eng_msg_engine_lock 1]"
proof -
  from loc_eng_init_ok_core [OF assms(1-3), of conf rets fx w cb ext] assms(4,5)
  have ok: "eng_ok False e'" "r = 0" "queued e' = config_messages conf @ [loc_eng_msg_engine_lock 1]" by auto
  from assms(1,3,5) ok(2) obtain e4 where
    4: "init_loop conf rets 0 30 (-1) (first_engine conf fx cb event ext e) = Some (0, e4)" "loc_eng_set_engine_lock 1 e4 = Some (0, e') \<or> e' = e4"
    by (auto simp: loc_eng_init_def Let_def bind_eq_Some first_engine_def loc_eng_set_engine_lock_def INIT_CHECK_def split: if_splits)
  from same_init_loop [OF 4(1)] 4(2) same_snd [of "loc_eng_msg_engine_lock 1" e4 e']
  show "same_data (first_engine conf fx cb event ext e) e'"
    by (auto simp: loc_eng_set_engine_lock_def INIT_CHECK_def split: if_splits)
  from ok show "me e' \<noteq> None" "queued e' = config_messages conf @ [loc_eng_msg_engine_lock 1]" by (auto simp: eng_ok_def)
qed

text \<open>What is left of the module data after start-up.\<close>

definition started_data :: "engine \<Rightarrow> bool" where
  "started_data e \<longleftrightarrow> client_handle e \<noteq> None \<and> eng_context e \<and> \<not> stop_request_pending e \<and> aiding_data_for_deletion e = 0
     \<and> \<not> agps_request_pending e \<and> \<not> supl_host_set e \<and> \<not> c2k_host_set e \<and> \<not> agps_status_cb e \<and> \<not> ni_notify_cb e"

lemma started_same: "same_data e e' \<Longrightarrow> started_data e' = started_data e"
  by (cases e; cases e') (simp add: started_data_def loc_eng_data.defs)

lemma first_engine_started: "started_data (first_engine conf fx cb event ext e)"
  by (simp add: started_data_def first_engine_def save_callbacks_def with_client_def emit_if_def emit_def LocEngContext_get_def
      zero_loc_eng_data_def loc_eng_data.defs engine.defs split: option.splits)

definition agps_started :: "afw_env \<Rightarrow> engine \<Rightarrow> engine" where
  "agps_started v e = emit_if (dev_bit_api v) Server_launch (e\<lparr>agps_status_cb := True,
     agnss_nif := Some (new_AgpsStateMachine (dev_junk v) AGPS_TYPE_SUPL False),
     internet_nif := Some (new_AgpsStateMachine (dev_junk v) AGPS_TYPE_WWAN_ANY False),
     wifi_nif := Some (new_AgpsStateMachine (dev_junk v) AGPS_TYPE_WIFI True)\<rparr>)"

lemma agps_init_started:
  assumes "started_data e"
  shows "loc_eng_agps_init resolve (dev_bit_api v) (dev_junk v) True e = Some ((), agps_started v e)"
  using assms
  by (simp add: loc_eng_agps_init_def INIT_CHECK_def loc_eng_agps_reinit_def started_data_def agps_started_def emit_if_def emit_def)

lemma new_machine_free [simp]:
  "mSubscribers (new_AgpsStateMachine j ty b) = []" "mStatePtr (new_AgpsStateMachine j ty b) = AgpsReleasedState"
  "mType (new_AgpsStateMachine j ty b) = ty"
  by (simp_all add: new_AgpsStateMachine_def)

lemma agps_started_fields:
  assumes "started_data e" "me e \<noteq> None"
  shows "calm (agps_started v e)" "queued (agps_started v e) = queued e" "agps_status_cb (agps_started v e)"
    "agnss_nif (agps_started v e) = Some (new_AgpsStateMachine (dev_junk v) AGPS_TYPE_SUPL False)"
    "internet_nif (agps_started v e) = Some (new_AgpsStateMachine (dev_junk v) AGPS_TYPE_WWAN_ANY False)"
    "\<not> ni_notify_cb (agps_started v e)"
  using assms by (simp_all add: agps_started_def started_data_def calm_def quiet_def queued_def emit_if_def emit_def)

text \<open>What a positioning session needs of the module data after start-up.\<close>

definition session_data :: "loc_gps_cfg \<Rightarrow> bool \<Rightarrow> bool \<Rightarrow> engine \<Rightarrow> bool" where
  "session_data conf ulp st e \<longleftrightarrow> location_cb e \<and> status_cb e = st \<and> \<not> ulp_initialized e \<and> mute_session_state e = LOC_MUTE_SESS_NONE
     \<and> intermediateFix e = ucast (INTERMEDIATE_POS conf)
     \<and> pred_option (\<lambda>h. \<not> navigating h \<and> sendUlpMsg (locEngHandle h) = ulp) (client_handle e)"

lemma session_same: "same_data e e' \<Longrightarrow> session_data conf ulp st e' = session_data conf ulp st e"
  by (cases e; cases e') (simp add: session_data_def loc_eng_data.defs)

lemma first_engine_session:
  "lc_location_cb cb \<Longrightarrow> session_data conf b (lc_status_cb cb) (first_engine conf fx cb event b e)"
  by (simp add: session_data_def first_engine_def save_callbacks_def with_client_def new_LocApiAdapter_def emit_if_def emit_def
      LocEngContext_get_def zero_loc_eng_data_def loc_eng_data.defs engine.defs split: option.splits)

lemma agps_started_session [simp]: "session_data conf ulp st (agps_started v e) = session_data conf ulp st e"
  by (simp add: session_data_def agps_started_def emit_if_def emit_def)

lemma session_fix_at:
  assumes "resting [] out s" "session_data conf False True (sys_engine s)" "gps_conf (sys_afw s) = conf" "gps_loc_cb (sys_afw s) = lsn"
  shows "\<exists>h. fix_at h conf (ucast (INTERMEDIATE_POS conf)) lsn [] out s \<and> \<not> navigating h \<and> \<not> sendUlpMsg (locEngHandle h)"
proof -
  from assms(1) obtain h where "client_handle (sys_engine s) = Some h" by (auto simp: resting_def calm_def quiet_def)
  with assms show ?thesis by (auto simp: fix_at_def session_data_def ulp_active_def)
qed

lemma startup_flow:
  assumes "starting v a" "\<exists>i < 30. dev_init_rets v i = LOC_API_ADAPTER_ERR_SUCCESS"
  shows "\<exists>s s' d. sys_run v [Framework (Call_init (Some cb)), Framework (Call_agps_init True), Framework (Call_ni_init True)]
          (system_of a) = Some s
     \<and> queued (sys_engine s) = config_messages (gps_conf (sys_afw s)) @ [loc_eng_msg_engine_lock 1]
     \<and> sys_run v (map (\<lambda>i. Deferred env) [0..<length (queued (sys_engine s))]) s = Some s'
     \<and> eng_out (sys_engine s') = eng_out (sys_engine s) @ map (\<lambda>m. Api (the (config_call m))) (queued (sys_engine s))
     \<and> nif_at Agnss (new_AgpsStateMachine (dev_junk v) AGPS_TYPE_SUPL False) [] (eng_out (sys_engine s')) s'
     \<and> nif_at Internet (new_AgpsStateMachine (dev_junk v) AGPS_TYPE_WWAN_ANY False) [] (eng_out (sys_engine s')) s'
     \<and> ni_at d [] 0 [] (eng_out (sys_engine s')) s' \<and> rawRequest d = NULL \<and> \<not> respRecvd d \<and> reqID d = 0
     \<and> (\<not> loc_eng_ulp_inf a \<and> fw_status_cb cb \<longrightarrow>
          (\<exists>h. fix_at h (gps_conf (sys_afw s)) (ucast (INTERMEDIATE_POS (gps_conf (sys_afw s)))) (fw_location_cb cb) []
                 (eng_out (sys_engine s')) s' \<and> \<not> navigating h \<and> \<not> sendUlpMsg (locEngHandle h)))"
proof -
  from assms(1) have a: "\<not> eng_context (loc_afw_data a)" "me (loc_afw_data a) = None" by (simp_all add: starting_def)
  have ev: "init_events \<noteq> 0" by (simp add: init_events_def)
  obtain r s1 fx conf c b e' where
    1: "gi_init sLocEngInterface v (Some cb) a = Some (r, s1)"
      "loc_eng_init conf (dev_init_rets v) (Some fx) (dev_owner_word v) (Some c) init_events b (loc_afw_data a) = Some (r, e')"
      "loc_afw_data s1 \<in> {e', e'\<lparr>ulp_initialized := True\<rparr>}" "gps_conf s1 = conf"
      "lc_location_cb c" "lc_status_cb c = fw_status_cb cb" "b = loc_eng_ulp_inf a" "gps_loc_cb s1 = fw_location_cb cb"
      "\<not> loc_eng_ulp_inf a \<longrightarrow> loc_afw_data s1 = e'" by (rule loc_init_start_full [OF assms(1), of cb])
  note i = init_same_data [OF a ev assms(2) 1(2)]
  let ?e1 = "loc_afw_data s1" and ?e2 = "agps_started v (loc_afw_data s1)"
  have "started_data e'" using started_same [OF i(1)] first_engine_started by simp
  with 1(3) i(2,3) have e1: "started_data ?e1" "me ?e1 \<noteq> None" "queued ?e1 = config_messages conf @ [loc_eng_msg_engine_lock 1]"
    by (auto simp: started_data_def queued_def)
  note e2 = agps_started_fields [OF e1(1,2), of v]
  let ?d = "(loc_eng_ni ?e2)\<lparr>respTimeLeft := 0, respRecvd := False, rawRequest := NULL, reqID := 0\<rparr>"
  let ?e3 = "?e2\<lparr>ni_notify_cb := True, loc_eng_ni := ?d\<rparr>"
  let ?s = "(system_of a)\<lparr>sys_afw := s1\<lparr>loc_afw_data := ?e3\<rparr>\<rparr>"
  have "eng_ni_init True ?e2 = ?e3" using e2(6) by (simp add: eng_ni_init_def loc_eng_ni_init_def)
  with 1(1) agps_init_started [OF e1(1)] have run: "sys_run v [Framework (Call_init (Some cb)), Framework (Call_agps_init True), Framework (Call_ni_init True)]
      (system_of a) = Some ?s"
    by (simp add: system_of_def via_defs extension_cases table_defs loc_agps_init_def loc_ni_init_def with_engine_def)
  have e3: "calm ?e3" "queued ?e3 = config_messages conf @ [loc_eng_msg_engine_lock 1]"
    using e2(1,2) e1(3) by (simp_all add: calm_def quiet_def queued_def)
  let ?D = "loc_eng_data.truncate ?e3"
  from e3 have at: "data_at ?D [] 0 (queued ?e3) (eng_out ?e3) ?s" by (simp add: data_at_def resting_def system_of_def)
  have "\<forall>m \<in> set (queued ?e3). config_call m \<noteq> None" using e3(2) config_messages_config [of conf] by auto
  from flowD [OF config_flow [OF this, of v ?D "[]" 0 "eng_out ?e3" env] at] obtain s' where
    s': "sys_run v (map (\<lambda>i. Deferred env) [0..<length (queued ?e3)]) ?s = Some s'"
      "data_at ?D [] 0 [] (eng_out ?e3 @ map (\<lambda>m. Api (the (config_call m))) (queued ?e3)) s'" by blast
  then have same: "same_data ?e3 (sys_engine s')" by (simp add: data_at_def)
  then have "agnss_nif (sys_engine s') = agnss_nif ?e2" "internet_nif (sys_engine s') = internet_nif ?e2"
    "agps_status_cb (sys_engine s') = agps_status_cb ?e2" "ni_notify_cb (sys_engine s')" "loc_eng_ni (sys_engine s') = ?d"
    by (cases ?e2; cases "sys_engine s'"; simp add: loc_eng_data.defs)+
  with s'(2) e2 have "nif_at Agnss (new_AgpsStateMachine (dev_junk v) AGPS_TYPE_SUPL False) [] (eng_out (sys_engine s')) s'"
    "nif_at Internet (new_AgpsStateMachine (dev_junk v) AGPS_TYPE_WWAN_ANY False) [] (eng_out (sys_engine s')) s'"
    "ni_at ?d [] 0 [] (eng_out (sys_engine s')) s'"
    "eng_out (sys_engine s') = eng_out ?e3 @ map (\<lambda>m. Api (the (config_call m))) (queued ?e3)"
    by (simp_all add: nif_at_def ni_at_def data_at_def resting_def)
  note ends = this
  have ready: "\<exists>h. fix_at h (gps_conf s1) (ucast (INTERMEDIATE_POS (gps_conf s1))) (fw_location_cb cb) [] (eng_out (sys_engine s')) s'
      \<and> \<not> navigating h \<and> \<not> sendUlpMsg (locEngHandle h)" if "\<not> loc_eng_ulp_inf a" "fw_status_cb cb"
  proof (rule session_fix_at)
    show "resting [] (eng_out (sys_engine s')) s'" using ends(1) by (simp add: nif_at_def)
    have "session_data conf False True e'"
      using session_same [OF i(1)] first_engine_session [OF 1(5)] 1(6,7) that by simp
    then have "session_data conf False True ?e2" using 1(9) that(1) by simp
    then have "session_data conf False True ?e3" by (simp add: session_data_def)
    with session_same [OF same] 1(4) show "session_data (gps_conf s1) False True (sys_engine s')" by simp
    show "gps_conf (sys_afw s') = gps_conf s1" "gps_loc_cb (sys_afw s') = fw_location_cb cb"
      using deferred_keeps [OF s'(1)] 1(8) by (simp_all add: system_of_def)
  qed
  from ends ready run s'(1) e3(2) 1(4) show ?thesis
    by (intro exI [of _ ?s] exI [of _ s'] exI [of _ ?d]) (simp del: sys_run.simps)
qed

text \<open>
  C8: Start-up leads to rest: if the modem answers one of the thirty attempts of \<open>init\<close>, then after the
  framework's three calls the queue holds the configuration, the deferred thread hands it to
  the modem in this order, and the library is at rest: the two state machines for data connections are
  free and no request of the network is open. These are the states from which
  the conversations of Loc\_System\_Flows and the sessions of Loc\_System\_Session start.
\<close>

theorem startup_rests:
  assumes "starting v a" "\<exists>i < 30. dev_init_rets v i = LOC_API_ADAPTER_ERR_SUCCESS"
  shows "\<exists>s s' d. sys_run v [Framework (Call_init (Some cb)), Framework (Call_agps_init True), Framework (Call_ni_init True)]
          (system_of a) = Some s
     \<and> queued (sys_engine s) = config_messages (gps_conf (sys_afw s)) @ [loc_eng_msg_engine_lock 1]
     \<and> sys_run v (map (\<lambda>i. Deferred env) [0..<length (queued (sys_engine s))]) s = Some s'
     \<and> eng_out (sys_engine s') = eng_out (sys_engine s) @ map (\<lambda>m. Api (the (config_call m))) (queued (sys_engine s))
     \<and> nif_at Agnss (new_AgpsStateMachine (dev_junk v) AGPS_TYPE_SUPL False) [] (eng_out (sys_engine s')) s'
     \<and> nif_at Internet (new_AgpsStateMachine (dev_junk v) AGPS_TYPE_WWAN_ANY False) [] (eng_out (sys_engine s')) s'
     \<and> ni_at d [] 0 [] (eng_out (sys_engine s')) s' \<and> rawRequest d = NULL \<and> \<not> respRecvd d \<and> reqID d = 0
     \<and> (\<not> loc_eng_ulp_inf a \<and> fw_status_cb cb \<longrightarrow>
          (\<exists>h. fix_at h (gps_conf (sys_afw s)) (ucast (INTERMEDIATE_POS (gps_conf (sys_afw s)))) (fw_location_cb cb) []
                 (eng_out (sys_engine s')) s' \<and> \<not> navigating h \<and> \<not> sendUlpMsg (locEngHandle h)))"
  using assms by (rule startup_flow)

lemma startup_rests_witness:
  "\<exists>s s'. sys_run example_sys_env [Framework (Call_init (Some example_fw_callbacks)), Framework (Call_agps_init True),
        Framework (Call_ni_init True)] (system_of example_afw) = Some s
     \<and> sys_run example_sys_env (map (\<lambda>i. Deferred example_env) [0..<length (queued (sys_engine s))]) s = Some s'
     \<and> nif_at Internet (new_AgpsStateMachine 0 AGPS_TYPE_WWAN_ANY False) [] (eng_out (sys_engine s')) s'"
proof -
  have r: "\<exists>i < 30. dev_init_rets example_sys_env i = LOC_API_ADAPTER_ERR_SUCCESS" "dev_junk example_sys_env = 0"
    by (simp_all add: example_sys_env_def) (rule exI [of _ 0], simp)
  show ?thesis using startup_rests [OF example_starting r(1), of example_fw_callbacks example_env] unfolding r(2) by blast
qed

section \<open>From the file to the modem\<close>

text \<open>
  What the lines of a file say: a number with its default, whether a parameter is named at all, and a
  floating point number, whose default is zero.
\<close>

definition file_num :: "loc_param_v_type list \<Rightarrow> string \<Rightarrow> u32 \<Rightarrow> u32" where
  "file_num vs name d = last_value name param_int_value d vs"

definition file_names :: "loc_param_v_type list \<Rightarrow> string \<Rightarrow> bool" where
  "file_names vs name \<longleftrightarrow> (\<exists>v \<in> set vs. v_param_name v = name)"

definition file_real :: "loc_param_v_type list \<Rightarrow> string \<Rightarrow> real" where
  "file_real vs name = last_value name param_double_value 0 vs"

text \<open>The calls that a file should lead to.\<close>

definition file_calls :: "loc_param_v_type list \<Rightarrow> api_call list" where
  "file_calls vs =
     [setSUPLVersion (file_num vs ''SUPL_VER'' 0x10000), setLPPConfig (file_num vs ''LPP_PROFILE'' 0),
      setSensorControlConfig (file_num vs ''SENSOR_USAGE'' 0)]
     @ (if list_ex (\<lambda>(name, _). file_names vs name) float_params
        then [setSensorProperties
          (file_names vs ''GYRO_BIAS_RANDOM_WALK'') (file_real vs ''GYRO_BIAS_RANDOM_WALK'')
          (file_names vs ''ACCEL_RANDOM_WALK_SPECTRAL_DENSITY'') (file_real vs ''ACCEL_RANDOM_WALK_SPECTRAL_DENSITY'')
          (file_names vs ''ANGLE_RANDOM_WALK_SPECTRAL_DENSITY'') (file_real vs ''ANGLE_RANDOM_WALK_SPECTRAL_DENSITY'')
          (file_names vs ''RATE_RANDOM_WALK_SPECTRAL_DENSITY'') (file_real vs ''RATE_RANDOM_WALK_SPECTRAL_DENSITY'')
          (file_names vs ''VELOCITY_RANDOM_WALK_SPECTRAL_DENSITY'') (file_real vs ''VELOCITY_RANDOM_WALK_SPECTRAL_DENSITY'')]
        else [])
     @ [setSensorPerfControlConfig (file_num vs ''SENSOR_CONTROL_MODE'' 0)
          (file_num vs ''SENSOR_ACCEL_SAMPLES_PER_BATCH'' 5) (file_num vs ''SENSOR_ACCEL_BATCHES_PER_SEC'' 2)
          (file_num vs ''SENSOR_GYRO_SAMPLES_PER_BATCH'' 5) (file_num vs ''SENSOR_GYRO_BATCHES_PER_SEC'' 2)
          (file_num vs ''SENSOR_ACCEL_SAMPLES_PER_BATCH_HIGH'' 25) (file_num vs ''SENSOR_ACCEL_BATCHES_PER_SEC_HIGH'' 4)
          (file_num vs ''SENSOR_GYRO_SAMPLES_PER_BATCH_HIGH'' 25) (file_num vs ''SENSOR_GYRO_BATCHES_PER_SEC_HIGH'' 4)
          (file_num vs ''SENSOR_ALGORITHM_CONFIG_MASK'' 0),
        setEngineLock 1]"

lemma read_config_all:
  assumes "\<not> gpsConfigAlreadyRead w"
  shows "\<exists>w'. loc_eng_read_config atof (Some contents) w = Some (0, w')
     \<and> (\<forall>(name, g) \<in> set num_params. g (gps_conf w') = file_num (assignments atof contents) name (g (loc_default_parameters (gps_conf w))))
     \<and> (\<forall>(name, g, b) \<in> set float_params. b (gps_conf w') = (if file_names (assignments atof contents) name then 1 else 0)
          \<and> g (gps_conf w') = file_real (assignments atof contents) name)"
proof -
  have "(''CAPABILITIES'', CAPABILITIES) \<in> set num_params" by (simp add: num_params_def)
  from config_numbers [OF this assms, of atof contents] obtain w' where
    w': "loc_eng_read_config atof (Some contents) w = Some (0, w')" by blast
  have "g (gps_conf w') = file_num (assignments atof contents) name (g (loc_default_parameters (gps_conf w)))"
    if "(name, g) \<in> set num_params" for name g
    using config_numbers [OF that assms, of atof contents] w' by (auto simp: file_num_def)
  moreover have "b (gps_conf w') = (if file_names (assignments atof contents) name then 1 else 0)
       \<and> g (gps_conf w') = file_real (assignments atof contents) name" if "(name, g, b) \<in> set float_params" for name g b
  proof -
    have "g (loc_default_parameters (gps_conf w)) = 0"
      using that by (auto simp: float_params_def loc_default_parameters_def)
    with config_sensor_parameters [OF that assms, of atof contents] w' show ?thesis
      by (auto simp: file_names_def file_real_def)
  qed
  ultimately show ?thesis using w' by blast
qed

lemma file_config_calls:
  assumes "\<forall>(name, g) \<in> set num_params. g conf = file_num vs name (g (loc_default_parameters c0))"
    "\<forall>(name, g, b) \<in> set float_params. b conf = (if file_names vs name then 1 else 0) \<and> g conf = file_real vs name"
  shows "map (\<lambda>m. the (config_call m)) (config_messages conf @ [loc_eng_msg_engine_lock 1]) = file_calls vs"
  using assms
  by (simp add: config_messages_def file_calls_def num_params_def float_params_def sensor_properties_given_def loc_default_parameters_def)


text \<open>What the framework's three calls keep of the configuration.\<close>

definition init_conf :: "afw_env \<Rightarrow> loc_gps_cfg \<Rightarrow> loc_gps_cfg" where
  "init_conf v c = (if get_target_name (dev_files v) = TARGET_NAME_APQ8064_STANDALONE
     then c\<lparr>CAPABILITIES := CAPABILITIES c AND NOT (GPS_CAPABILITY_MSA OR GPS_CAPABILITY_MSB)\<rparr> else c)"

lemma config_messages_init [simp]: "config_messages (init_conf v c) = config_messages c"
  by (simp add: init_conf_def config_messages_def sensor_properties_given_def)

lemma with_engine_conf: "with_engine f s = Some (r, s') \<Longrightarrow> gps_conf s' = gps_conf s"
  by (auto simp: with_engine_def)

lemma gi_init_conf:
  assumes "gi_init sLocEngInterface v (Some cb) a = Some (r, s)"
  shows "gps_conf s = init_conf v (gps_conf a)"
  using assms
  by (auto simp: sLocEngInterface_def loc_init_def Let_def bind_eq_Some init_conf_def dest!: with_engine_conf split: if_splits)

lemma snd_all_out: "snd_all ms e = Some e' \<Longrightarrow> eng_out e' = eng_out e"
  by (induction ms arbitrary: e) (auto simp: bind_eq_Some snd_deferred_def split: if_splits)

lemma init_loop_out:
  "init_loop conf rets n k r e = Some (r', e') \<Longrightarrow> x \<in> set (eng_out e) \<Longrightarrow> x \<in> set (eng_out e')"
  by (induction k arbitrary: n r e)
     (auto simp: loc_eng_reinit_def bind_eq_Some call_api_def emit_def dest!: snd_all_out split: if_splits)


lemma gi_init_caps:
  assumes "gi_init sLocEngInterface v (Some cb) a = Some (r, s)" "starting v a" "fw_set_capabilities_cb cb"
  shows "Cb_set_capabilities (CAPABILITIES (init_conf v (gps_conf a))) \<in> set (eng_out (loc_afw_data s))"
proof -
  have out: "Cb_set_capabilities (CAPABILITIES conf) \<in> set (eng_out e')"
    if "loc_eng_init conf rets adapter w (Some c) ev b e = Some (r, e')" "\<not> eng_context e" "lc_set_capabilities_cb c"
      "adapter \<noteq> None" "ev \<noteq> 0" for conf rets adapter w c ev b e r e'
  proof -
    from that(4) obtain fx where fx: "adapter = Some fx" by blast
    from that(1,2,5) obtain r4 e4 where i: "init_loop conf rets 0 30 (-1) (first_engine conf fx c ev b e) = Some (r4, e4)"
      "loc_eng_set_engine_lock 1 e4 = Some (0, e') \<or> e' = e4"
      unfolding fx by (auto simp: loc_eng_init_def Let_def bind_eq_Some first_engine_def loc_eng_set_engine_lock_def INIT_CHECK_def
          split: if_splits)
    then have 4: "init_loop conf rets 0 30 (-1) (first_engine conf fx c ev b e) = Some (r4, e4)" "eng_out e' = eng_out e4"
      by (auto simp: loc_eng_set_engine_lock_def INIT_CHECK_def snd_deferred_def split: if_splits)
    have "Cb_set_capabilities (CAPABILITIES conf) \<in> set (eng_out (first_engine conf fx c ev b e))"
      using that(3) by (simp add: first_engine_def save_callbacks_def with_client_def emit_if_def emit_def)
    from init_loop_out [OF 4(1) this] 4(2) show ?thesis by simp
  qed
  from assms(2) have st: "dev_adapter v \<noteq> None" "\<not> eng_context (loc_afw_data a)" "init_events \<noteq> 0"
    by (simp_all add: starting_def init_events_def)
  obtain c b r1 e1 where 1: "loc_eng_init (init_conf v (gps_conf a)) (dev_init_rets v) (dev_adapter v) (dev_owner_word v) (Some c)
      init_events b (loc_afw_data a) = Some (r1, e1)" "lc_set_capabilities_cb c" "eng_out (loc_afw_data s) = eng_out e1"
  proof (cases "get_target_name (dev_files v) = TARGET_NAME_APQ8064_STANDALONE")
    case True
    with assms(2) have "\<not> dev_gss_open v < 0" by (simp add: starting_def)
    with True assms(1,3) show thesis
      unfolding sLocEngInterface_def loc_init_def Let_def GpsInterface.simps option.case
      by (fastforce simp: bind_eq_Some with_engine_def init_conf_def loc_eng_ulp_init_def intro: that)
  next
    case False
    with assms(1,3) show thesis
      unfolding sLocEngInterface_def loc_init_def Let_def GpsInterface.simps option.case
      by (fastforce simp: bind_eq_Some with_engine_def init_conf_def loc_eng_ulp_init_def intro: that)
  qed
  from out [OF 1(1) st(2) 1(2) st(1,3)] 1(3) show ?thesis by simp
qed

lemma agps_init_out:
  "loc_eng_agps_init resolve b j c e = Some (u, e') \<Longrightarrow> x \<in> set (eng_out e) \<Longrightarrow> x \<in> set (eng_out e')"
  by (auto simp: loc_eng_agps_init_def INIT_CHECK_def loc_eng_agps_reinit_def bind_eq_Some emit_if_def emit_def
      loc_eng_set_server_def Let_def snd_deferred_def split: if_splits option.splits)

text \<open>The three calls of the framework at start-up.\<close>

abbreviation startup_calls :: "GpsCallbacks \<Rightarrow> sys_event list" where
  "startup_calls cb \<equiv> [Framework (Call_init (Some cb)), Framework (Call_agps_init True), Framework (Call_ni_init True)]"

lemma startup_calls_data:
  assumes "sys_run v (startup_calls cb) (system_of a) = Some s" "starting v a"
  shows "gps_conf (sys_afw s) = init_conf v (gps_conf a)"
    and "fw_set_capabilities_cb cb \<Longrightarrow> Cb_set_capabilities (CAPABILITIES (init_conf v (gps_conf a))) \<in> set (eng_out (sys_engine s))"
proof -
  from assms(1) obtain r s1 e2 where 1: "gi_init sLocEngInterface v (Some cb) a = Some (r, s1)"
    "loc_eng_agps_init (dev_resolve v) (dev_bit_api v) (dev_junk v) True (loc_afw_data s1) = Some ((), e2)"
    "s = (system_of a)\<lparr>sys_afw := s1\<lparr>loc_afw_data := eng_ni_init True e2\<rparr>\<rparr>"
    by (auto simp: system_of_def via_defs extension_cases table_defs loc_agps_init_def loc_ni_init_def with_engine_def
        map_option_case bind_eq_Some split: option.splits)
  show "gps_conf (sys_afw s) = init_conf v (gps_conf a)" using gi_init_conf [OF 1(1)] 1(3) by (simp add: system_of_def)
  have n: "eng_out (eng_ni_init True e2) = eng_out e2" by (simp add: eng_ni_init_def split: prod.split)
  assume "fw_set_capabilities_cb cb"
  from agps_init_out [OF 1(2) gi_init_caps [OF 1(1) assms(2) this]] n 1(3)
  show "Cb_set_capabilities (CAPABILITIES (init_conf v (gps_conf a))) \<in> set (eng_out (sys_engine s))"
    by (simp add: system_of_def)
qed


lemma get_gps_interface_file:
  assumes "\<not> gpsConfigAlreadyRead a"
  obtains a1 where "get_gps_interface atof (Some contents) libulp a = Some (sLocEngInterface, a1)"
    "loc_afw_data a1 = loc_afw_data a"
    "map (\<lambda>m. the (config_call m)) (config_messages (gps_conf a1) @ [loc_eng_msg_engine_lock 1]) = file_calls (assignments atof contents)"
    "CAPABILITIES (gps_conf a1) = file_num (assignments atof contents) ''CAPABILITIES'' 7"
proof -
  let ?vs = "assignments atof contents" and ?w = "conf_world.truncate a"
  have "\<not> gpsConfigAlreadyRead ?w" using assms by (simp add: conf_world.defs)
  from read_config_all [OF this, of atof contents] obtain w' where
    w': "loc_eng_read_config atof (Some contents) ?w = Some (0, w')"
    "\<forall>(name, g) \<in> set num_params. g (gps_conf w') = file_num ?vs name (g (loc_default_parameters (gps_conf ?w)))"
    "\<forall>(name, g, b) \<in> set float_params. b (gps_conf w') = (if file_names ?vs name then 1 else 0) \<and> g (gps_conf w') = file_real ?vs name"
    by blast
  let ?a1 = "a\<lparr>bytes := bytes w', logger := logger w', gps_conf := gps_conf w', gpsConfigAlreadyRead := gpsConfigAlreadyRead w'\<rparr>"
  let ?a2 = "if CAPABILITIES (gps_conf ?a1) AND ULP_CAPABILITY \<noteq> 0
      then ?a1\<lparr>loc_eng_ulp_inf := loc_eng_get_ulp_inf libulp (gps_conf ?a1)\<rparr> else ?a1"
  have "get_gps_interface atof (Some contents) libulp a = Some (sLocEngInterface, ?a2)"
    by (simp add: get_gps_interface_def w'(1) Let_def)
  moreover have "gps_conf ?a2 = gps_conf w'" "loc_afw_data ?a2 = loc_afw_data a" by simp_all
  moreover have "CAPABILITIES (gps_conf w') = file_num ?vs ''CAPABILITIES'' 7"
    using w'(2) by (simp add: num_params_def loc_default_parameters_def)
  ultimately show thesis using file_config_calls [OF w'(2,3)] by (intro that [of ?a2]) simp_all
qed



lemma example_file_calls:
  "file_calls (assignments (\<lambda>_. 1) example_file) = [setSUPLVersion 1, setLPPConfig 0, setSensorControlConfig 0,
     setSensorProperties True 1 False 0 False 0 False 0 False 0, setSensorPerfControlConfig 0 5 2 5 2 25 4 25 4 0, setEngineLock 1]"
  by code_simp



section \<open>The server's address\<close>

lemma early_server_call:
  assumes "\<not> eng_context (loc_afw_data a)"
  shows "\<exists>a1. call_afw v (Call_set_server AGPS_TYPE_SUPL host port) a = Some a1 \<and> gps_conf a1 = gps_conf a
     \<and> loc_afw_data a1 = (loc_afw_data a)\<lparr>supl_host_buf := strlcpy SUPL_HOST_BUF host, supl_port_buf := port, supl_host_set := True\<rparr>"
  using assms
  by (simp add: via_defs extension_cases table_defs loc_agps_set_server_def with_engine_def loc_eng_set_server_proxy_def
      del: SUPL_HOST_BUF_def)

lemma server_flow:
  assumes "length (host @ '':'' @ decimal (unat port)) < MAX_URL_LEN"
  shows "flow v (resting [] out) [Framework (Call_set_server AGPS_TYPE_SUPL host port), Deferred env]
     (resting [] (out @ [Api (setServer_url (host @ '':'' @ decimal (unat port)) (length (host @ '':'' @ decimal (unat port))))]))"
proof -
  let ?url = "host @ '':'' @ decimal (unat port)"
  let ?msg = "loc_eng_msg_set_server_url (length ?url) ?url" and ?api = "Api (setServer_url ?url (length ?url))"
  have "flow v (resting [] out) [Framework (Call_set_server AGPS_TYPE_SUPL host port)] (resting [?msg] out)"
  proof (rule flow_step)
    fix s assume s: "resting [] out s"
    then have c: "calm (sys_engine s)" "eng_context (sys_engine s)" by (simp_all add: resting_def calm_def quiet_def)
    obtain e' where e': "snd_deferred ?msg (sys_engine s) = Some e'" "calm e'" "queued e' = queued (sys_engine s) @ [?msg]"
      "eng_out e' = eng_out (sys_engine s)" by (rule calm_snd [OF c(1), of ?msg]) blast
    have "call_afw v (Call_set_server AGPS_TYPE_SUPL host port) (sys_afw s) = Some ((sys_afw s)\<lparr>loc_afw_data := e'\<rparr>)"
      using c(2) e'(1) assms
      by (simp add: via_defs extension_cases table_defs loc_agps_set_server_def with_engine_def loc_eng_set_server_proxy_def
          loc_eng_set_server_def Let_def)
    then have "sys_step v (Framework (Call_set_server AGPS_TYPE_SUPL host port)) s = Some (put_engine e' s)"
      by (simp add: put_engine_def)
    moreover have "resting [?msg] out (put_engine e' s)" using s e' by (simp add: resting_def put_engine_def)
    ultimately show "\<exists>s'. sys_step v (Framework (Call_set_server AGPS_TYPE_SUPL host port)) s = Some s' \<and> resting [?msg] out s'" by blast
  qed
  moreover have "flow v (resting [?msg] out) [Deferred env] (resting [] (out @ [?api]))"
  proof (rule flow_step)
    fix s assume s: "resting [?msg] out s"
    let ?e = "sys_engine s" and ?e' = "emit ?api (pop (sys_engine s))"
    from s have e: "calm ?e" "queued ?e = [?msg]" "eng_out ?e = out" "\<not> deferred_over s" by (simp_all add: resting_def)
    note p = calm_pop [OF e(1)] quiet_pop [OF calm_quiet [OF e(1)]]
    have c: "calm ?e'" "queued ?e' = []" "eng_out ?e' = out @ [?api]"
      using p e by (simp_all add: calm_def quiet_emit) (simp add: emit_def)
    have "client_handle (pop ?e) \<noteq> None" using p(1) by (simp add: calm_def quiet_def)
    then have "handle_msg (gps_conf (sys_afw s)) (dev_resolve v) env ?msg (pop ?e) = Some ?e'" by (simp add: call_api_def)
    from turn_calm [OF e(1,2) this c(1)] e(4)
    have "sys_step v (Deferred env) s = Some ((put_engine ?e' s)\<lparr>sys_ni_threads := sys_ni_threads s @ spawned ?e ?e'\<rparr>)"
      by (simp add: deferred_event_def)
    moreover have "resting [] (out @ [?api]) ((put_engine ?e' s)\<lparr>sys_ni_threads := sys_ni_threads s @ spawned ?e ?e'\<rparr>)"
      using c e(4) by (simp add: resting_def put_engine_def)
    ultimately show "\<exists>s'. sys_step v (Deferred env) s = Some s' \<and> resting [] (out @ [?api]) s'" by blast
  qed
  ultimately show ?thesis by (rule flow_Cons)
qed

text \<open>
  C26: When the address of the SUPL server is set decides whether the modem gets it. A framework that sets it
  before start-up is told nothing, but the address, which the code saves for later, is cleared with the module's data: all that
  reaches the modem is the configuration. The same call at rest after start-up reaches the modem
  as one call with the address and the port.
\<close>

theorem server_address_timing:
  assumes "starting v a" "\<exists>i < 30. dev_init_rets v i = LOC_API_ADAPTER_ERR_SUCCESS"
    "length (host @ '':'' @ decimal (unat port)) < MAX_URL_LEN"
  shows "(\<exists>s s'. sys_run v (Framework (Call_set_server AGPS_TYPE_SUPL host port)
            # [Framework (Call_init (Some cb)), Framework (Call_agps_init True), Framework (Call_ni_init True)]) (system_of a) = Some s
     \<and> sys_run v (map (\<lambda>i. Deferred env) [0..<length (queued (sys_engine s))]) s = Some s'
     \<and> queued (sys_engine s') = []
     \<and> eng_out (sys_engine s') = eng_out (sys_engine s)
         @ map (\<lambda>m. Api (the (config_call m))) (config_messages (gps_conf a) @ [loc_eng_msg_engine_lock 1]))
   \<and> (\<exists>s s' s''. sys_run v [Framework (Call_init (Some cb)), Framework (Call_agps_init True), Framework (Call_ni_init True)] (system_of a) = Some s
     \<and> sys_run v (map (\<lambda>i. Deferred env) [0..<length (queued (sys_engine s))]) s = Some s'
     \<and> sys_run v [Framework (Call_set_server AGPS_TYPE_SUPL host port), Deferred env] s' = Some s''
     \<and> eng_out (sys_engine s'') = eng_out (sys_engine s')
         @ [Api (setServer_url (host @ '':'' @ decimal (unat port)) (length (host @ '':'' @ decimal (unat port))))])"
proof (rule conjI)
  obtain a1 where a1: "call_afw v (Call_set_server AGPS_TYPE_SUPL host port) a = Some a1" "gps_conf a1 = gps_conf a"
    "loc_afw_data a1 = (loc_afw_data a)\<lparr>supl_host_buf := strlcpy SUPL_HOST_BUF host, supl_port_buf := port, supl_host_set := True\<rparr>"
    using early_server_call [of a v host port] assms(1) unfolding starting_def by blast
  have st: "starting v a1" using assms(1) a1(3) by (simp add: starting_def)
  have "sys_step v (Framework (Call_set_server AGPS_TYPE_SUPL host port)) (system_of a) = Some (system_of a1)"
    using a1(1) by (simp add: system_of_def)
  moreover from startup_flow [OF st assms(2), of cb env] obtain s s' where
    1: "sys_run v (startup_calls cb) (system_of a1) = Some s"
      "queued (sys_engine s) = config_messages (gps_conf (sys_afw s)) @ [loc_eng_msg_engine_lock 1]"
      "sys_run v (map (\<lambda>i. Deferred env) [0..<length (queued (sys_engine s))]) s = Some s'"
      "eng_out (sys_engine s') = eng_out (sys_engine s) @ map (\<lambda>m. Api (the (config_call m))) (queued (sys_engine s))"
      "nif_at Agnss (new_AgpsStateMachine (dev_junk v) AGPS_TYPE_SUPL False) [] (eng_out (sys_engine s')) s'" by blast
  moreover have "queued (sys_engine s) = config_messages (gps_conf a) @ [loc_eng_msg_engine_lock 1]"
    using 1(2) startup_calls_data(1) [OF 1(1) st] a1(2) by simp
  moreover have "queued (sys_engine s') = []" using 1(5) by (simp add: nif_at_def resting_def)
  ultimately show "\<exists>s s'. sys_run v (Framework (Call_set_server AGPS_TYPE_SUPL host port) # startup_calls cb) (system_of a) = Some s
     \<and> sys_run v (map (\<lambda>i. Deferred env) [0..<length (queued (sys_engine s))]) s = Some s'
     \<and> queued (sys_engine s') = []
     \<and> eng_out (sys_engine s') = eng_out (sys_engine s)
         @ map (\<lambda>m. Api (the (config_call m))) (config_messages (gps_conf a) @ [loc_eng_msg_engine_lock 1])"
    by (intro exI [of _ s] exI [of _ s']) (simp only: sys_run.simps(2) Option.bind.simps)
next
  from startup_flow [OF assms(1,2), of cb env] obtain s s' where
    1: "sys_run v (startup_calls cb) (system_of a) = Some s"
      "sys_run v (map (\<lambda>i. Deferred env) [0..<length (queued (sys_engine s))]) s = Some s'"
      "nif_at Agnss (new_AgpsStateMachine (dev_junk v) AGPS_TYPE_SUPL False) [] (eng_out (sys_engine s')) s'" by blast
  from 1(3) have "resting [] (eng_out (sys_engine s')) s'" by (simp add: nif_at_def)
  from flowD [OF server_flow [OF assms(3)] this] 1(1,2)
  show "\<exists>s s' s''. sys_run v (startup_calls cb) (system_of a) = Some s
     \<and> sys_run v (map (\<lambda>i. Deferred env) [0..<length (queued (sys_engine s))]) s = Some s'
     \<and> sys_run v [Framework (Call_set_server AGPS_TYPE_SUPL host port), Deferred env] s' = Some s''
     \<and> eng_out (sys_engine s'') = eng_out (sys_engine s')
         @ [Api (setServer_url (host @ '':'' @ decimal (unat port)) (length (host @ '':'' @ decimal (unat port))))]"
    unfolding resting_def by blast
qed


lemma server_address_timing_witness:
  "(\<exists>s s'. sys_run example_sys_env (Framework (Call_set_server AGPS_TYPE_SUPL ''supl.host'' 7275)
            # [Framework (Call_init (Some example_fw_callbacks)), Framework (Call_agps_init True), Framework (Call_ni_init True)])
            (system_of example_afw) = Some s
     \<and> sys_run example_sys_env (map (\<lambda>i. Deferred example_env) [0..<length (queued (sys_engine s))]) s = Some s'
     \<and> queued (sys_engine s') = [])
   \<and> (\<exists>s s' s''. sys_run example_sys_env [Framework (Call_init (Some example_fw_callbacks)), Framework (Call_agps_init True),
            Framework (Call_ni_init True)] (system_of example_afw) = Some s
     \<and> sys_run example_sys_env [Framework (Call_set_server AGPS_TYPE_SUPL ''supl.host'' 7275), Deferred example_env] s' = Some s''
     \<and> eng_out (sys_engine s'') = eng_out (sys_engine s') @ [Api (setServer_url ''supl.host:7275'' 14)])"
proof -
  have r: "\<exists>i < 30. dev_init_rets example_sys_env i = LOC_API_ADAPTER_ERR_SUCCESS"
    by (simp add: example_sys_env_def) (rule exI [of _ 0], simp)
  have u: "''supl.host'' @ '':'' @ decimal (unat (7275 :: i32)) = ''supl.host:7275''" "length ''supl.host:7275'' = 14"
    by (simp_all add: decimal.simps digit_char_def) code_simp
  have l: "length (''supl.host'' @ '':'' @ decimal (unat (7275 :: i32))) < MAX_URL_LEN" unfolding u by simp
  show ?thesis
    using server_address_timing [OF example_starting r l, of example_fw_callbacks example_env] unfolding u by blast
qed

end
