(* ===== verification/Loc_System_Restart.thy ===== *)
theory Loc_System_Restart
  imports Loc_System_Session
begin

text \<open>
  The modem goes down in the middle of a positioning session and comes back (Loc\_System): what the engine does with the
  session, the data connections, an open request of the network, and the modem's configuration.
\<close>

section \<open>The engine in a session\<close>

text \<open>
  At rest, with the adapter \<open>a\<close>, the machines \<open>m1\<close> and \<open>m2\<close>, the network's request in \<open>d\<close>, and the
  framework's callbacks. No server address waits to be sent: \<open>loc_eng_init\<close> clears what came before it,
  and afterwards addresses go straight to the modem.
\<close>

definition at_work :: "LocApiAdapter \<Rightarrow> AgpsStateMachine \<Rightarrow> AgpsStateMachine \<Rightarrow> loc_eng_ni_data \<Rightarrow> engine \<Rightarrow> bool" where
  "at_work a m1 m2 d e \<longleftrightarrow> client_handle e = Some a \<and> status_cb e \<and> mute_session_state e = LOC_MUTE_SESS_NONE
     \<and> agps_status_cb e \<and> agnss_nif e = Some m1 \<and> internet_nif e = Some m2 \<and> \<not> supl_host_set e \<and> \<not> c2k_host_set e
     \<and> ni_notify_cb e \<and> loc_eng_ni e = d"

definition work_at :: "LocApiAdapter \<Rightarrow> AgpsStateMachine \<Rightarrow> AgpsStateMachine \<Rightarrow> loc_eng_ni_data \<Rightarrow> loc_gps_cfg \<Rightarrow> bool
    \<Rightarrow> loc_eng_msg list \<Rightarrow> eng_out list \<Rightarrow> loc_system \<Rightarrow> bool" where
  "work_at a m1 m2 d conf lsn q out s \<longleftrightarrow> resting q out s \<and> at_work a m1 m2 d (sys_engine s)
     \<and> gps_conf (sys_afw s) = conf \<and> gps_loc_cb (sys_afw s) = lsn"

lemma work_modem:
  assumes "modem_route (locEngHandle a) r = Some (To_Engine msg)"
  shows "flow v (work_at a m1 m2 d conf lsn [] out) [Modem r] (work_at a m1 m2 d conf lsn [msg] out)"
proof (rule flow_step)
  fix s assume s: "work_at a m1 m2 d conf lsn [] out s"
  let ?e = "sys_engine s"
  from s obtain c where c: "eng_context ?e" "me ?e = Some c" "deferred_q c = []" "client_handle ?e = Some a"
    by (auto simp: work_at_def at_work_def resting_def calm_def quiet_def queued_def)
  let ?e' = "?e\<lparr>me := Some (c\<lparr>deferred_q := deferred_q c @ [msg]\<rparr>)\<rparr>"
  have "snd_deferred msg ?e = Some ?e'" using c by (simp add: snd_deferred_def)
  with c assms have "sys_step v (Modem r) s = Some (put_engine ?e' s)" by (simp add: modem_reports_def)
  moreover have "work_at a m1 m2 d conf lsn [msg] out (put_engine ?e' s)"
    using s c by (simp add: work_at_def at_work_def resting_def calm_def quiet_def queued_def put_engine_def)
  ultimately show "\<exists>s'. sys_step v (Modem r) s = Some s' \<and> work_at a m1 m2 d conf lsn [msg] out s'" by blast
qed

lemma work_turn:
  assumes "\<And>e. calm e \<Longrightarrow> queued e = [] \<Longrightarrow> at_work a m1 m2 d e \<Longrightarrow>
      \<exists>e'. handle_msg conf (dev_resolve v) env msg e = Some e' \<and> calm e' \<and> queued e' = q \<and> eng_out e' = eng_out e @ evs
        \<and> at_work a' m1' m2' d' e'"
    and "\<And>e. delete_msg msg e = e"
  shows "flow v (work_at a m1 m2 d conf lsn [msg] out) [Deferred env] (work_at a' m1' m2' d' conf lsn q (out @ evs))"
proof (rule flow_step)
  fix s assume s: "work_at a m1 m2 d conf lsn [msg] out s"
  let ?e = "sys_engine s"
  from s have e: "calm ?e" "queued ?e = [msg]" "eng_out ?e = out" "\<not> deferred_over s" "at_work a m1 m2 d ?e" "gps_conf (sys_afw s) = conf"
    by (simp_all add: work_at_def resting_def)
  have "calm (pop ?e)" "queued (pop ?e) = []" "at_work a m1 m2 d (pop ?e)"
    using calm_pop [OF e(1)] quiet_pop [OF calm_quiet [OF e(1)]] e(2,5) by (simp_all add: at_work_def) (simp_all add: pop_def)
  from assms(1) [OF this] obtain e' where
    h: "handle_msg conf (dev_resolve v) env msg (pop ?e) = Some e'" "calm e'" "queued e' = q" "eng_out e' = out @ evs" "at_work a' m1' m2' d' e'"
    using e(3) by auto
  from turn_calm [OF e(1,2) h(1,2)] assms(2)
  have "deferred_turn (gps_conf (sys_afw s)) (dev_resolve v) env ?e = Some (Turn e')" by (simp add: e(6))
  with e(4) have "sys_step v (Deferred env) s = Some ((put_engine e' s)\<lparr>sys_ni_threads := sys_ni_threads s @ spawned ?e e'\<rparr>)"
    by (simp add: deferred_event_def)
  moreover have "work_at a' m1' m2' d' conf lsn q (out @ evs) ((put_engine e' s)\<lparr>sys_ni_threads := sys_ni_threads s @ spawned ?e e'\<rparr>)"
    using h s by (simp add: work_at_def resting_def put_engine_def)
  ultimately show "\<exists>s'. sys_step v (Deferred env) s = Some s' \<and> work_at a' m1' m2' d' conf lsn q (out @ evs) s'" by blast
qed

section \<open>Down\<close>

text \<open>What becomes of a request of the network.\<close>

definition ni_after_down :: "loc_eng_ni_data \<Rightarrow> loc_eng_ni_data" where
  "ni_after_down d = (if rawRequest d \<noteq> NULL then d\<lparr>rawRequest := NULL, respRecvd := True\<rparr> else d)"

lemma handle_down: "handle_msg conf resolve env (loc_eng_msg LOC_ENG_MSG_ENGINE_DOWN) e = loc_eng_handle_engine_down e"
  by (simp add: handle_plain_def)

lemma down_handled:
  assumes "calm e" "queued e = []" "at_work a m1 m2 d e"
  shows "\<exists>e'. loc_eng_handle_engine_down e = Some e' \<and> calm e' \<and> queued e' = []
     \<and> eng_out e' = eng_out e @ (if rawRequest d \<noteq> NULL then [Free (rawRequest d)] else []) @ [Cb_status GPS_STATUS_ENGINE_OFF]
     \<and> at_work a m1 m2 (ni_after_down d) e'"
  using assms
  by (simp add: loc_eng_handle_engine_down_def loc_eng_ni_reset_on_engine_restart_def eng_ni_def loc_eng_report_status_def mute_after_def
      isInSession_def loc_inform_gps_status_def emit_if_def emit_def at_work_def ni_after_down_def calm_def quiet_def queued_def Let_def)


section \<open>Up\<close>

lemma snd_all_queue:
  assumes "eng_context e" "me e = Some c"
  shows "snd_all ms e = Some (e\<lparr>me := Some (c\<lparr>deferred_q := deferred_q c @ ms\<rparr>)\<rparr>)"
  using assms by (induction ms arbitrary: e c) (auto simp: snd_deferred_def)

lemma drop_machine:
  assumes "get_nif k e = Some m"
  shows "on_nif k dropAllSubscribers e = Some (put_nif k (dropAllSubscribers m) e)"
  using assms by (cases k; cases e) (simp_all add: on_nif_def run_nif_def dropAllSubscribers_def)

lemma up_handled:
  assumes "calm e" "queued e = []" "at_work a m1 m2 d e" "navigating a" "ret_reinit env = LOC_API_ADAPTER_ERR_SUCCESS"
    "ret_startFix env = LOC_API_ADAPTER_ERR_SUCCESS"
  shows "\<exists>e'. loc_eng_handle_engine_up conf resolve env e = Some e' \<and> calm e' \<and> queued e' = config_messages conf
     \<and> eng_out e' = eng_out e @ [Api reinit, Cb_status GPS_STATUS_ENGINE_ON, Api (setPositionMode None), Api startFix,
         Cb_status GPS_STATUS_SESSION_BEGIN]
     \<and> at_work (a\<lparr>fixCriteria := api_fix_criteria env None (fixCriteria a)\<rparr>) (dropAllSubscribers m1) (dropAllSubscribers m2) d e'"
proof -
  from assms(1,2) obtain c where c: "eng_context e" "me e = Some c" "deferred_q c = []"
    by (auto simp: calm_def quiet_def queued_def)
  note w = assms(3) [unfolded at_work_def]
  let ?e1 = "(emit (Api reinit) e)\<lparr>me := Some (c\<lparr>deferred_q := config_messages conf\<rparr>)\<rparr>"
  let ?e2 = "?e1\<lparr>agnss_nif := Some (dropAllSubscribers m1), internet_nif := Some (dropAllSubscribers m2)\<rparr>"
  have 1: "loc_eng_reinit conf (ret_reinit env) e = Some (LOC_API_ADAPTER_ERR_SUCCESS, ?e1)"
    using w c snd_all_queue [of "emit (Api reinit) e" c "config_messages conf"]
    by (simp add: loc_eng_reinit_def call_api_def assms(5)) (simp add: emit_def)
  have 2: "on_nif Agnss dropAllSubscribers ?e1 = Some (?e1\<lparr>agnss_nif := Some (dropAllSubscribers m1)\<rparr>)"
    "on_nif Internet dropAllSubscribers (?e1\<lparr>agnss_nif := Some (dropAllSubscribers m1)\<rparr>) = Some ?e2"
    using w by (simp_all add: drop_machine emit_def)
  have 3: "loc_eng_agps_reinit resolve ?e2 = Some ?e2" using w by (simp add: loc_eng_agps_reinit_def emit_def)
  let ?e3 = "(emit (Cb_status GPS_STATUS_ENGINE_ON) ?e2)\<lparr>engine_status := GPS_STATUS_ENGINE_ON\<rparr>"
  have 4: "loc_eng_report_status GPS_STATUS_ENGINE_ON ?e2 = Some ?e3"
    using w by (simp add: loc_eng_report_status_def mute_after_def isInSession_def loc_inform_gps_status_def emit_if_def emit_def Let_def)
  let ?b = "a\<lparr>fixCriteria := api_fix_criteria env None (fixCriteria a)\<rparr>"
  let ?e' = "emit (Cb_status GPS_STATUS_SESSION_BEGIN) (emit (Api startFix) ((emit (Api (setPositionMode None)) ?e3)\<lparr>client_handle := Some ?b\<rparr>))"
  have agps: "agps_status_cb ?e1" using w by (simp add: emit_def)
  have nav: "isInSession ?e3 = Some True" using w assms(4) by (simp add: isInSession_def emit_def)
  let ?e5 = "(emit (Api (setPositionMode None)) (?e3\<lparr>client_handle := Some ?b\<rparr>))\<lparr>client_handle := Some (?b\<lparr>navigating := False\<rparr>)\<rparr>"
  have 5: "set_position_mode_api env None ?e3 \<bind> setInSession False = Some ?e5"
    using w by (simp add: set_position_mode_api_def setInSession_def emit_def)
  have 6: "map_option snd (loc_eng_start_handler env ?e5) = Some ?e'"
    using w assms(4,6) by (cases a) (simp add: loc_eng_start_handler_def isInSession_def call_api_def setInSession_def
        loc_inform_gps_status_def emit_if_def emit_def)
  have "(set_position_mode_api env None ?e3 \<bind> (\<lambda>e4. setInSession False e4 \<bind> (\<lambda>e5. map_option snd (loc_eng_start_handler env e5)))) = Some ?e'"
    using 5 6 by (auto simp only: bind_eq_Some)
  then have "loc_eng_handle_engine_up conf resolve env e = Some ?e'"
    unfolding loc_eng_handle_engine_up_def by (simp only: 1 2 3 4 nav agps Option.bind.simps prod.case if_True)
  moreover have "calm ?e'" "queued ?e' = config_messages conf" "at_work ?b (dropAllSubscribers m1) (dropAllSubscribers m2) d ?e'"
    using w c assms(1) by (simp_all add: calm_def quiet_def queued_def at_work_def emit_def)
  moreover have "eng_out ?e' = eng_out e @ [Api reinit, Cb_status GPS_STATUS_ENGINE_ON, Api (setPositionMode None), Api startFix,
         Cb_status GPS_STATUS_SESSION_BEGIN]" by (simp add: emit_def)
  ultimately show ?thesis by blast
qed


section \<open>A restart in a session\<close>

lemma work_same:
  assumes "same_data e e'" "at_work a m1 m2 d e"
  shows "at_work a m1 m2 d e'"
  using assms by (cases e; cases e') (simp add: at_work_def loc_eng_data.defs)

text \<open>
  C12: A restart of the modem in a positioning session. When the modem goes down, an open request of
  the network is freed and its thread told to end, and the framework learns that the engine is off.
  When the modem comes back, it gets, in this order: the reconnection, the session's mode and the order to fix, so that
  the session goes on, and afterwards its whole configuration again. The clients of the two data connections are
  forgotten without an answer, while the machines keep their states.
\<close>

theorem modem_restart_in_session:
  assumes "work_at a m1 m2 d conf lsn [] out s" "navigating a"
    "ret_reinit env = LOC_API_ADAPTER_ERR_SUCCESS" "ret_startFix env = LOC_API_ADAPTER_ERR_SUCCESS"
  shows "\<exists>s1 s2 s3. sys_run v [Modem Engine_down, Deferred env] s = Some s1
     \<and> eng_out (sys_engine s1) = out @ (if rawRequest d \<noteq> NULL then [Free (rawRequest d)] else []) @ [Cb_status GPS_STATUS_ENGINE_OFF]
     \<and> rawRequest (loc_eng_ni (sys_engine s1)) = NULL
     \<and> sys_run v [Modem Engine_up, Deferred env] s1 = Some s2
     \<and> eng_out (sys_engine s2) = eng_out (sys_engine s1) @ [Api reinit, Cb_status GPS_STATUS_ENGINE_ON, Api (setPositionMode None),
          Api startFix, Cb_status GPS_STATUS_SESSION_BEGIN]
     \<and> sys_run v (map (\<lambda>i. Deferred env) [0..<length (config_messages conf)]) s2 = Some s3
     \<and> eng_out (sys_engine s3) = eng_out (sys_engine s2) @ map (\<lambda>m. Api (the (config_call m))) (config_messages conf)
     \<and> work_at (a\<lparr>fixCriteria := api_fix_criteria env None (fixCriteria a)\<rparr>) (m1\<lparr>mSubscribers := []\<rparr>) (m2\<lparr>mSubscribers := []\<rparr>)
          (ni_after_down d) conf lsn [] (eng_out (sys_engine s3)) s3"
proof -
  let ?free = "if rawRequest d \<noteq> NULL then [Free (rawRequest d)] else []" and ?d = "ni_after_down d"
  let ?a = "a\<lparr>fixCriteria := api_fix_criteria env None (fixCriteria a)\<rparr>"
  have f1: "flow v (work_at a m1 m2 d conf lsn [] out) [Modem Engine_down] (work_at a m1 m2 d conf lsn [loc_eng_msg LOC_ENG_MSG_ENGINE_DOWN] out)"
    by (rule work_modem) (simp add: handleEngineDownEvent_def)
  have f2: "flow v (work_at a m1 m2 d conf lsn [loc_eng_msg LOC_ENG_MSG_ENGINE_DOWN] out) [Deferred env]
      (work_at a m1 m2 ?d conf lsn [] (out @ ?free @ [Cb_status GPS_STATUS_ENGINE_OFF]))"
    by (rule work_turn, unfold handle_down, rule down_handled) simp_all
  obtain s1 where 1: "sys_run v [Modem Engine_down, Deferred env] s = Some s1"
    "work_at a m1 m2 ?d conf lsn [] (out @ ?free @ [Cb_status GPS_STATUS_ENGINE_OFF]) s1"
    using flowD [OF flow_Cons [OF f1 f2] assms(1)] by blast
  have out1: "eng_out (sys_engine s1) = out @ ?free @ [Cb_status GPS_STATUS_ENGINE_OFF]" "loc_eng_ni (sys_engine s1) = ?d"
    using 1(2) by (simp_all add: work_at_def resting_def at_work_def)
  let ?up = "[Api reinit, Cb_status GPS_STATUS_ENGINE_ON, Api (setPositionMode None), Api startFix, Cb_status GPS_STATUS_SESSION_BEGIN]"
  let ?m1 = "m1\<lparr>mSubscribers := []\<rparr>" and ?m2 = "m2\<lparr>mSubscribers := []\<rparr>" and ?q = "config_messages conf"
  have f3: "flow v (work_at a m1 m2 ?d conf lsn [] o1) [Modem Engine_up] (work_at a m1 m2 ?d conf lsn [loc_eng_msg LOC_ENG_MSG_ENGINE_UP] o1)" for o1
    by (rule work_modem) (simp add: handleEngineUpEvent_def)
  have f4: "flow v (work_at a m1 m2 ?d conf lsn [loc_eng_msg LOC_ENG_MSG_ENGINE_UP] o1) [Deferred env]
      (work_at ?a ?m1 ?m2 ?d conf lsn ?q (o1 @ ?up))" for o1
    by (rule work_turn) (use up_handled [OF _ _ _ assms(2-4), of _ m1 m2 ?d conf] in \<open>simp_all add: handle_plain_def dropAllSubscribers_def\<close>)
  obtain s2 where 2: "sys_run v [Modem Engine_up, Deferred env] s1 = Some s2"
    "work_at ?a ?m1 ?m2 ?d conf lsn ?q (eng_out (sys_engine s1) @ ?up) s2"
    using flowD [OF flow_Cons [OF f3 f4] 1(2)] unfolding out1(1) by blast
  let ?o2 = "eng_out (sys_engine s1) @ ?up" and ?calls = "map (\<lambda>m. Api (the (config_call m))) ?q"
  from 2(2) have at2: "data_at (loc_eng_data.truncate (sys_engine s2)) (sys_ni_threads s2) (sys_clock s2) ?q ?o2 s2"
    by (simp add: work_at_def data_at_def)
  from flowD [OF config_flow [OF config_messages_config] at2] obtain s3 where
    3: "sys_run v (map (\<lambda>i. Deferred env) [0..<length ?q]) s2 = Some s3"
      "data_at (loc_eng_data.truncate (sys_engine s2)) (sys_ni_threads s2) (sys_clock s2) [] (?o2 @ ?calls) s3" by blast
  have "at_work ?a ?m1 ?m2 ?d (sys_engine s3)"
    by (rule work_same [where e = "sys_engine s2"]) (use 2(2) 3(2) in \<open>simp_all add: work_at_def data_at_def\<close>)
  moreover have "eng_out (sys_engine s2) = ?o2" "eng_out (sys_engine s3) = ?o2 @ ?calls" "resting [] (eng_out (sys_engine s3)) s3"
    using 2(2) 3(2) by (simp_all add: work_at_def data_at_def resting_def)
  moreover have "gps_conf (sys_afw s3) = conf" "gps_loc_cb (sys_afw s3) = lsn"
    using deferred_keeps [OF 3(1)] 2(2) by (simp_all add: work_at_def)
  moreover have "rawRequest ?d = NULL" by (simp add: ni_after_down_def)
  ultimately show ?thesis using 1(1) 2(1) 3(1) out1
    by (intro exI [of _ s1] exI [of _ s2] exI [of _ s3]) (simp add: work_at_def del: sys_run.simps)
qed


definition work_rest_system :: loc_system where
  "work_rest_system = put_engine (rest_engine\<lparr>client_handle := Some \<lparr>locEngHandle = new_LocEng 1 True True False None None,
       fixCriteria = default_LocPosMode, navigating = True\<rparr>, status_cb := True, agps_status_cb := True, ni_notify_cb := True,
     internet_nif := Some (new_AgpsStateMachine 0 AGPS_TYPE_WWAN_ANY False),
     loc_eng_ni := (loc_eng_ni rest_engine)\<lparr>rawRequest := 9\<rparr>\<rparr>) (system_of example_afw)"

lemma modem_restart_in_session_witness:
  "\<exists>s1 s2. sys_run example_sys_env [Modem Engine_down, Deferred example_env] work_rest_system = Some s1
     \<and> eng_out (sys_engine s1) = [Free 9, Cb_status GPS_STATUS_ENGINE_OFF]
     \<and> sys_run example_sys_env [Modem Engine_up, Deferred example_env] s1 = Some s2
     \<and> eng_out (sys_engine s2) = eng_out (sys_engine s1) @ [Api reinit, Cb_status GPS_STATUS_ENGINE_ON, Api (setPositionMode None),
          Api startFix, Cb_status GPS_STATUS_SESSION_BEGIN]"
proof -
  obtain a m1 m2 d where a: "work_at a m1 m2 d example_conf False [] [] work_rest_system" "navigating a" "rawRequest d = 9"
    by (auto simp: work_rest_system_def work_at_def at_work_def resting_def rest_engine_def calm_def quiet_def queued_def example_defs
        system_of_def example_afw_def put_engine_def)
  have e: "ret_reinit example_env = LOC_API_ADAPTER_ERR_SUCCESS" "ret_startFix example_env = LOC_API_ADAPTER_ERR_SUCCESS"
    by (simp_all add: example_env_def)
  from modem_restart_in_session [OF a(1,2) e, of example_sys_env] a(3) show ?thesis by auto
qed

end
