(* ===== verification/Init_Board.thy ===== *)
theory Init_Board
  imports Loc_Prelude
begin

text \<open>
  The device's part of the boot program (include/init\_sony/init\_board\_device.h): the light and the
  vibration that announce the key check and the recovery system. \<open>write_int\<close> of the base class, which
  is not part of the repository, writes a number to a file; the writes are listed in their order.
\<close>

section \<open>The operations\<close>

type_synonym board = "(string \<times> int) list"

definition write_int_call :: "string \<Rightarrow> int \<Rightarrow> board \<Rightarrow> board" where
  "write_int_call path v b = b @ [(path, v)]"

definition RED_FILE :: string where "RED_FILE = ''/sys/class/leds/led:rgb_red/brightness''"
definition GREEN_FILE :: string where "GREEN_FILE = ''/sys/class/leds/led:rgb_green/brightness''"
definition BLUE_FILE :: string where "BLUE_FILE = ''/sys/class/leds/led:rgb_blue/brightness''"
definition VIBRATOR_FILE :: string where "VIBRATOR_FILE = ''/sys/class/timed_output/vibrator/enable''"
definition ALIGN_FILE :: string where "ALIGN_FILE = ''/sys/module/msm_fb/parameters/align_buffer''"

definition led_color :: "u8 \<Rightarrow> u8 \<Rightarrow> u8 \<Rightarrow> board \<Rightarrow> board" where
  "led_color r g b s =
    (let s1 = write_int_call RED_FILE (uint r) s;
         s2 = write_int_call GREEN_FILE (uint g) s1
     in write_int_call BLUE_FILE (uint b) s2)"

definition vibrate :: "u8 \<Rightarrow> board \<Rightarrow> board" where
  "vibrate strength s = write_int_call VIBRATOR_FILE (uint strength) s"

definition introduce_keycheck :: "board \<Rightarrow> board" where
  "introduce_keycheck s = (let s1 = vibrate 100 s in led_color 255 0 255 s1)"

definition introduce_recovery :: "board \<Rightarrow> board" where
  "introduce_recovery s = (let s1 = write_int_call ALIGN_FILE 0 s in vibrate 50 s1)"

definition finish_init :: "board \<Rightarrow> board" where
  "finish_init s = (let s1 = led_color 0 0 0 s in vibrate 0 s1)"

section \<open>What the files hold\<close>

text \<open>The last number written to a file.\<close>

definition file_value :: "board \<Rightarrow> string \<Rightarrow> int option" where
  "file_value s = map_of (rev s)"

lemma file_value_write:
  "file_value (write_int_call path v s) = (file_value s)(path \<mapsto> v)"
  by (simp add: file_value_def write_int_call_def)

lemma files_distinct:
  "distinct [RED_FILE, GREEN_FILE, BLUE_FILE, VIBRATOR_FILE, ALIGN_FILE]"
  by (simp add: RED_FILE_def GREEN_FILE_def BLUE_FILE_def VIBRATOR_FILE_def ALIGN_FILE_def)

datatype board_op = Keycheck | Recovery | Finish | Led u8 u8 u8 | Vibrate u8

fun board_do :: "board_op \<Rightarrow> board \<Rightarrow> board" where
  "board_do Keycheck s = introduce_keycheck s"
| "board_do Recovery s = introduce_recovery s"
| "board_do Finish s = finish_init s"
| "board_do (Led r g b) s = led_color r g b s"
| "board_do (Vibrate v) s = vibrate v s"

lemmas board_defs = introduce_keycheck_def introduce_recovery_def finish_init_def led_color_def vibrate_def

text \<open>Whatever was done before, the light and the vibrator are off when the boot program has finished.\<close>

lemma board_off_after_finish:
  "file_value (board_do Finish (fold board_do ops s)) f = Some 0"
  if "f \<in> {RED_FILE, GREEN_FILE, BLUE_FILE, VIBRATOR_FILE}"
  using that files_distinct by (auto simp: board_defs Let_def file_value_write)

text \<open>The device is told to light up in one colour.\<close>

lemma keycheck_light:
  "map (file_value (introduce_keycheck s)) [RED_FILE, GREEN_FILE, BLUE_FILE, VIBRATOR_FILE] = [Some 255, Some 0, Some 255, Some 100]"
  using files_distinct by (auto simp: board_defs Let_def file_value_write)

text \<open>What is written is a byte, and to one of the five files.\<close>

fun board_write_ok :: "string \<times> int \<Rightarrow> bool" where
  "board_write_ok (f, v) \<longleftrightarrow> f \<in> {RED_FILE, GREEN_FILE, BLUE_FILE, VIBRATOR_FILE, ALIGN_FILE} \<and> 0 \<le> v \<and> v < 256"

lemma board_do_writes_ok:
  assumes "list_all board_write_ok s"
  shows "list_all board_write_ok (board_do op s)"
proof -
  have "uint x < 256" for x :: u8
    using uint_lt2p [of x] by simp
  with assms show ?thesis by (cases op) (simp_all add: board_defs Let_def write_int_call_def)
qed

lemma board_writes_ok:
  "list_all board_write_ok s \<Longrightarrow> list_all board_write_ok (fold board_do ops s)"
  by (induction ops arbitrary: s) (simp_all add: board_do_writes_ok)

end
