(* ===== verification/Spec2Isabelle.thy ===== *)
theory Spec2Isabelle
  imports Queue_Props Agps_Heap Ni_Correct Adapter_Correct Loc_Eng_Props Loc_Eng_Heap Dmn_Server Dmn_Engine Thread_Helper Loc_Cfg_Correct
    Lights_Correct Lights_Device Camera_Correct Loc_Afw_Correct Loc_Log_Correct Loc_System_Startup Loc_System_Restart Init_Board
begin

text \<open>
  A verification development for the device tree of the Sony Xperia SP (taoshan): its GPS library
  (src/gps), which passes between Android's location framework and the modem, its camera wrapper
  (src/camera), its lights wrapper (src/liblights), and the device's part of the boot program.

  \<^bold>\<open>The program.\<close> The framework calls the functions of loc.cpp, which act on the one structure of the
  location engine (loc\_eng.cpp). The functions check that the engine is initialised and send a
  message; the engine's deferred thread takes the messages from a queue (utils/msg\_q.c over
  utils/linked\_list.c), one at a time, and acts on the modem through an adapter
  (LocApiAdapter.cpp), on the three state machines that ask Android for data connections
  (loc\_eng\_agps.cpp), on the network-initiated requests (loc\_eng\_ni.cpp), and on the framework's
  callbacks. The modem reports through the adapter, which sends messages to the same queue. A server
  thread (loc\_eng\_dmn\_conn.cpp on the thread helper) takes requests for data connections from other
  processes over named pipes and turns them into messages too. The configuration is read from
  gps.conf (utils/loc\_cfg.cpp). The two wrappers load Sony's module, hand calls on to it, and change
  parameters on the way.

  \<^bold>\<open>Theories and sources.\<close> Loc\_Prelude has the shared lemmas and the type names (u8, u32, i32, ptr);
  C\_Lib the functions of the C library that the code uses on strings and numbers.
  Linked\_List, Msg\_Q: utils/linked\_list.c, msg\_q.c, on a heap of nodes.
  Gps\_Types, Loc\_Msg: gps.h, loc.h, loc\_eng\_msg.h, loc\_eng\_msg\_id.h. Loc\_Msg\_Mem: the messages as
  objects in memory, with the constructors and destructors of loc\_eng\_msg.h.
  Agps: loc\_eng\_agps.cpp. Agps\_Heap: its list operations once more over the linked list in memory.
  Ni: loc\_eng\_ni.cpp. Adapter: LocApiAdapter.cpp.
  Loc\_Eng: loc\_eng.cpp, loc\_eng\_xtra.cpp, with the queue as a list of messages; Loc\_Eng\_Heap: its
  senders and its deferred thread over the queue and the message objects in memory. Loc\_Cfg: utils/loc\_cfg.cpp and the reading of gps.conf in
  loc\_eng.cpp. Loc\_Afw: loc.cpp; Loc\_Interfaces: its interface tables, and gps.c. Loc\_System: all of
  these together, with the framework, the modem, the daemons and the threads as events in any order.
  Dmn\_Pipe: loc\_eng\_dmn\_conn\_glue\_pipe.c, loc\_eng\_dmn\_conn\_glue\_msg.c, loc\_eng\_msg.cpp.
  Dmn\_Conn: loc\_eng\_dmn\_conn.cpp, loc\_eng\_dmn\_conn\_handler.cpp. Thread\_Helper:
  loc\_eng\_dmn\_conn\_thread\_helper.c. Dmn\_Server: the server of loc\_eng\_dmn\_conn.cpp on that helper.
  Loc\_Log: utils/loc\_log.cpp, log\_util.h, loc\_eng\_log.cpp.
  Lights: liblights/lights.cpp. Camera\_Params, Camera: camera/CameraWrapper.cpp. Hal\_Module,
  Hal\_Device: the table of a hardware module, and the interface that the two wrappers share.
  Init\_Board: include/init\_sony/init\_board\_device.h.
  Structures are records, enumerations datatypes or, where the code calculates with them, words; a
  structure behind a pointer is an \<open>option\<close>, or an entry of a heap where aliasing matters. An operation
  returns the new state; \<open>None\<close> stands for undefined behaviour (a null or dangling pointer, memory
  that the program does not own) or for a wait that never ends, and theorems that an operation
  returns say that it is not \<open>None\<close>.

  \<^bold>\<open>What the theorems show.\<close> Queue (Queue\_Props over Linked\_List\_Correct, Msg\_Q\_Correct and
  Msg\_Q\_Threads): the linked list and the queue implement abstract lists, every operation returns
  without touching memory it does not own, and in every interleaving of senders, receivers and
  unblockers no wake-up is lost. The locale of a channel is interpreted on the queue.
  Data connections (Agps\_Correct, Agps\_Inv, Agps\_Heap): a request to the service is always followed by
  its release before the next one, the machine's state agrees with its subscribers, each client is
  listed once and gets its answer; the list in memory refines the abstract one.
  Network-initiated requests (Ni\_Correct): over all interleavings of the handler, the user's answer,
  a modem restart and the request's thread, the request's data is owned once and freed once.
  Engine (Loc\_Eng\_Inv, Loc\_Eng\_Props): from a well-formed engine every sequence of messages is
  handled, whatever the modem answers, and leaves a well-formed engine; what initialisation, a modem
  restart, a request to delete aiding data and a muted session do. Loc\_Msg\_Mem\_Correct, Loc\_Eng\_Frame,
  Loc\_Eng\_Heap: a message is freed as it was allocated, the engine's functions only add to the end of
  the queue, and therefore the engine on the queue in memory does what the engine on a list does,
  without leaks; what happens when the queue could not be created. Loc\_Afw\_Correct: how a turn of the deferred
  thread configures the modem, and which reports reach the framework.
  Whole library (Loc\_System\_Correct, Loc\_System\_Ni, Loc\_System\_Live): after start-up no order of events
  leads to undefined behaviour, no data of a network-initiated request is lost, shared or freed
  twice, and the deferred thread empties its queue. Loc\_System\_Flows: at rest
  the modem gets the data connection it asks for and the answer of the user. Loc\_System\_Session: a
  positioning session from the first call of the framework to its last. Loc\_System\_Restart: the modem
  restarts in a session. Loc\_System\_Startup: start-up brings the library to rest, the text of gps.conf
  becomes the modem's configuration, and when a server's address reaches the modem.
  Daemons (Dmn\_Pipe\_Correct, Dmn\_Conn\_Correct, Thread\_Helper, Dmn\_Server): framing round trip, delivery
  of requests and answers, the order in which the helper calls its callbacks, and that the server
  stops; Dmn\_Engine follows a daemon's request through server, engine and state machine to the
  service, and the answer back to the daemon. Loc\_Log\_Correct: which values have a name in the log,
  and time stamps. Configuration (Loc\_Cfg\_Correct): which value each parameter has after a file is read.
  Lights and camera (Lights\_Correct, Lights\_Device, Camera\_Params\_Correct, Camera\_Correct): the
  brightness and its gamma curve with bounds, the parameter fix-ups against reference definitions,
  and devices that are opened and closed leave nothing behind: one locale, interpreted on both
  wrappers. Some theorems pin down defects: what the code does there, not what it should do.

  \<^bold>\<open>Bounds and fuel.\<close> Loops are structural recursions or run a stated number of times: at most thirty
  attempts in \<open>loc_eng_init\<close>, the length of the list in the list operations, six steps to the end of a
  helper thread that was told to exit, three for the server. Machine integers are words where the
  code relies on their width (masks, sizes that wrap around, addresses), and integers with an
  explicit check where overflow is undefined (the brightness). Floating point numbers are reals; the
  one computation whose result is truncated, the gamma correction, is shown to be far enough from
  every integer for the difference not to matter.

  \<^bold>\<open>Parameters.\<close> What the modem's adapter, the framework's connectivity service, the vendor's modules,
  Android's \<open>CameraParameters\<close>, files, properties, shared libraries, \<open>malloc\<close> and name resolution
  answer are arguments of the definitions; what is assumed of them is a hypothesis of the theorem
  that needs it, and each such theorem has a witness. Mutexes, condition variables and pipes behave as
  POSIX documents.

  \<^bold>\<open>Not modelled.\<close> The text of log messages; the callback structures and constants of gps.h that the
  code only hands through (gps/ulp/gps.h is a second copy of gps.h); wake locks, which the code stores and never takes; build files, overlays and
  configuration data of the device tree.
\<close>

end
